(* ===== verification/Prelude.thy ===== *)
theory Prelude
  imports Main "HOL-Library.List_Lexorder" "HOL-Library.Char_ord" "HOL-Library.Sublist"
    "HOL-Library.Product_Lexorder"
begin

text \<open>
  The vocabulary every component of the model shares: the application errors of
  \<^verbatim>\<open>app/core/exceptions.py\<close> as values, results and error paths as sums, time, the
  handful of relational operations the services run against a table, the Python string
  operations the code uses, and the lemmas and hint collections the component theories
  lean on.

  A table is the list of its rows in insertion order. Time is an integer number of
  microseconds since the epoch, which is the resolution of Python's datetime; token claims
  and time-to-live values are whole seconds, as in the code.
\<close>

named_theorems frames \<open>which parts of the world an operation leaves alone\<close>
named_theorems guards \<open>when an operation returns normally, as a rewrite rule\<close>
named_theorems tables \<open>lookups, updates and deletions in tables\<close>

section \<open>Errors\<close>

text \<open>
  The subclasses of AppException with their message, and the exceptions of other layers that
  the modelled code can let escape. RateLimitExceeded carries the details dictionary the
  limiter builds: the scope and the number of seconds to wait.
\<close>

datatype app_error =
    AppException string
  | AuthenticationError string
  | PermissionDenied string
  | ResourceNotFound string
  | ConflictError string
  | ValidationAppError string
  | RateLimitExceeded string "(string \<times> int) option"
  | PolicyViolation string
  | EmailDeliveryError string
  | IntegrityError
  | MultipleResultsFound
  | KeyError string
  | IndexError
  | RuntimeError string
  | TypeError
  | ValueError string
  | DatabaseError string
  | StorageError string
  | BackupError string

type_synonym 'a res = "app_error + 'a"

fun status_code :: "app_error \<Rightarrow> int" where
  "status_code (AuthenticationError _) = 401"
| "status_code (PermissionDenied _) = 403"
| "status_code (ResourceNotFound _) = 404"
| "status_code (ConflictError _) = 409"
| "status_code (ValidationAppError _) = 422"
| "status_code (RateLimitExceeded _ _) = 429"
| "status_code (PolicyViolation _) = 422"
| "status_code (EmailDeliveryError _) = 502"
| "status_code (AppException _) = 400"
| "status_code _ = 500"

fun error_code :: "app_error \<Rightarrow> string" where
  "error_code (AuthenticationError _) = ''unauthorized''"
| "error_code (PermissionDenied _) = ''forbidden''"
| "error_code (ResourceNotFound _) = ''not_found''"
| "error_code (ConflictError _) = ''conflict''"
| "error_code (ValidationAppError _) = ''validation_error''"
| "error_code (RateLimitExceeded _ _) = ''rate_limit_exceeded''"
| "error_code (PolicyViolation _) = ''policy_violation''"
| "error_code (EmailDeliveryError _) = ''email_delivery_failed''"
| "error_code (AppException _) = ''application_error''"
| "error_code _ = ''internal_server_error''"

abbreviation fail :: "app_error \<Rightarrow> 'w \<Rightarrow> 'a res \<times> 'w" where
  "fail e w \<equiv> (Inl e, w)"

abbreviation ok :: "'a \<Rightarrow> 'w \<Rightarrow> 'a res \<times> 'w" where
  "ok x w \<equiv> (Inr x, w)"

definition is_ok :: "'a res \<Rightarrow> bool" where
  "is_ok r = (case r of Inl _ \<Rightarrow> False | Inr _ \<Rightarrow> True)"

lemma is_ok_simps [simp]: "is_ok (Inr x)" "\<not> is_ok (Inl e)"
  by (simp_all add: is_ok_def)

lemma is_ok_iff: "is_ok r \<longleftrightarrow> (\<exists>x. r = Inr x)"
  by (cases r) auto

lemma is_ok_E: "is_ok r \<Longrightarrow> (\<And>x. r = Inr x \<Longrightarrow> P) \<Longrightarrow> P"
  by (auto simp: is_ok_iff)

section \<open>Time\<close>

abbreviation seconds :: "int \<Rightarrow> int" where "seconds n \<equiv> n * 1000000"
abbreviation minutes :: "int \<Rightarrow> int" where "minutes n \<equiv> seconds (60 * n)"
abbreviation hours :: "int \<Rightarrow> int" where "hours n \<equiv> minutes (60 * n)"
abbreviation days :: "int \<Rightarrow> int" where "days n \<equiv> hours (24 * n)"

definition timestamp :: "int \<Rightarrow> int" where
  \<comment> \<open>int(moment.timestamp()): whole seconds; moments after the epoch, so truncation is a floor\<close>
  "timestamp t = t div 1000000"

lemma timestamp_le: "seconds (timestamp t) \<le> t"
  unfolding timestamp_def by presburger

lemma timestamp_gt: "t < seconds (timestamp t) + 1000000"
  unfolding timestamp_def by presburger

lemma timestamp_mono: "s \<le> t \<Longrightarrow> timestamp s \<le> timestamp t"
  by (simp add: timestamp_def zdiv_mono1)

lemma timestamp_add_seconds: "timestamp (t + seconds n) = timestamp t + n"
  by (simp add: timestamp_def)

section \<open>Tables\<close>

text \<open>UPDATE ... WHERE and DELETE ... WHERE; SELECT of a unique key is \<^term>\<open>List.find\<close>.\<close>

definition update_where :: "('r \<Rightarrow> bool) \<Rightarrow> ('r \<Rightarrow> 'r) \<Rightarrow> 'r list \<Rightarrow> 'r list" where
  "update_where P f rows = map (\<lambda>r. if P r then f r else r) rows"

definition delete_where :: "('r \<Rightarrow> bool) \<Rightarrow> 'r list \<Rightarrow> 'r list" where
  "delete_where P rows = filter (\<lambda>r. \<not> P r) rows"

text \<open>
  Result.scalar_one_or_none: None without a row, the row when there is exactly one, and
  MultipleResultsFound otherwise.
\<close>

definition scalar_one_or_none :: "'r list \<Rightarrow> 'r option res" where
  "scalar_one_or_none rows =
     (case rows of [] \<Rightarrow> Inr None | [r] \<Rightarrow> Inr (Some r) | _ \<Rightarrow> Inl MultipleResultsFound)"

text \<open>ORDER BY key ASC and DESC; rows with equal keys keep, respectively reverse, their order.\<close>

definition order_by :: "('r \<Rightarrow> 'k::linorder) \<Rightarrow> 'r list \<Rightarrow> 'r list" where
  "order_by k rows = sort_key k rows"

definition order_by_desc :: "('r \<Rightarrow> 'k::linorder) \<Rightarrow> 'r list \<Rightarrow> 'r list" where
  "order_by_desc k rows = rev (sort_key k rows)"

text \<open>OFFSET (page - 1) * page_size LIMIT page_size\<close>

definition paginate :: "int \<Rightarrow> int \<Rightarrow> 'r list \<Rightarrow> 'r list" where
  "paginate page page_size rows = take (nat page_size) (drop (nat ((page - 1) * page_size)) rows)"

text \<open>The same where nothing has checked the numbers: the database refuses negative ones.\<close>

definition select_page :: "int \<Rightarrow> int \<Rightarrow> 'r list \<Rightarrow> 'r list res" where
  "select_page page page_size rows =
     (if page_size < 0 \<or> (page - 1) * page_size < 0
      then Inl (DatabaseError ''LIMIT and OFFSET must not be negative'')
      else Inr (paginate page page_size rows))"

lemma length_update_where [simp]: "length (update_where P f rows) = length rows"
  by (simp add: update_where_def)

lemma update_where_Nil [simp]: "update_where P f [] = []"
  by (simp add: update_where_def)

lemma update_where_Cons [simp]:
  "update_where P f (r # rows) = (if P r then f r else r) # update_where P f rows"
  by (simp add: update_where_def)

lemma update_where_append [simp]:
  "update_where P f (xs @ ys) = update_where P f xs @ update_where P f ys"
  by (simp add: update_where_def)

lemma set_update_where:
  "set (update_where P f rows) = (\<lambda>r. if P r then f r else r) ` set rows"
  by (simp add: update_where_def)

lemma in_update_where [tables]:
  "r' \<in> set (update_where P f rows) \<longleftrightarrow>
     (\<exists>r\<in>set rows. (P r \<and> r' = f r) \<or> (\<not> P r \<and> r' = r))"
  by (auto simp: set_update_where)

lemma map_update_where [tables]:
  "(\<And>r. k (f r) = k r) \<Longrightarrow> map k (update_where P f rows) = map k rows"
  by (simp add: update_where_def)

lemma update_where_id: "(\<And>r. r \<in> set rows \<Longrightarrow> \<not> P r) \<Longrightarrow> update_where P f rows = rows"
  by (induction rows) auto

lemma find_update_where [tables]:
  "(\<And>r. k (f r) = k r) \<Longrightarrow>
     find (\<lambda>r. k r = x) (update_where P f rows) =
     map_option (\<lambda>r. if P r then f r else r) (find (\<lambda>r. k r = x) rows)"
  by (induction rows) auto

lemma find_update_key [tables]:
  "(\<And>r. k (f r) = k r) \<Longrightarrow>
     find (\<lambda>r. k r = x) (update_where (\<lambda>r. k r = y) f rows) =
     (if x = y then map_option f (find (\<lambda>r. k r = x) rows) else find (\<lambda>r. k r = x) rows)"
  by (induction rows) auto

lemma find_append [tables]:
  "find P (xs @ ys) = (case find P xs of None \<Rightarrow> find P ys | Some r \<Rightarrow> Some r)"
  by (induction xs) auto

lemma find_SomeD: "find P rows = Some r \<Longrightarrow> r \<in> set rows \<and> P r"
  by (induction rows) (auto split: if_splits)

lemma find_Some_in: "find P rows = Some r \<Longrightarrow> r \<in> set rows"
  by (simp add: find_SomeD)

lemma find_Some_holds: "find P rows = Some r \<Longrightarrow> P r"
  by (simp add: find_SomeD)

lemma find_key_Some: "find (\<lambda>r. k r = x) rows = Some r \<Longrightarrow> k r = x"
  by (drule find_SomeD) simp

lemma find_distinct:
  "distinct (map k rows) \<Longrightarrow> r \<in> set rows \<Longrightarrow> find (\<lambda>r'. k r' = k r) rows = Some r"
  by (induction rows) (auto simp: rev_image_eqI)

lemma in_delete_where [tables]: "r \<in> set (delete_where P rows) \<longleftrightarrow> r \<in> set rows \<and> \<not> P r"
  by (auto simp: delete_where_def)

lemma find_delete_key [tables]:
  "find (\<lambda>r. k r = x) (delete_where (\<lambda>r. k r = y) rows) =
     (if x = y then None else find (\<lambda>r. k r = x) rows)"
  by (induction rows) (auto simp: delete_where_def)

lemma distinct_map_delete_where:
  "distinct (map k rows) \<Longrightarrow> distinct (map k (delete_where P rows))"
  by (simp add: delete_where_def distinct_map_filter)

lemma distinct_map_keyed:
  "distinct (map k rows) \<Longrightarrow> r \<in> set rows \<Longrightarrow> r' \<in> set rows \<Longrightarrow> k r = k r' \<Longrightarrow> r = r'"
  by (metis find_distinct option.inject)

lemma filter_key_le_one:
  assumes "distinct (map k rows)" shows "length (filter (\<lambda>r. k r = x) rows) \<le> 1"
  using assms
proof (induction rows)
  case (Cons r rows)
  have "filter (\<lambda>r. k r = x) rows = []" if "k r = x"
    using Cons.prems that by (auto simp: filter_empty_conv) (metis imageI)
  with Cons show ?case by auto
qed simp

lemma scalar_one_or_none_simps [simp]:
  "scalar_one_or_none [] = Inr None"
  "scalar_one_or_none [r] = Inr (Some r)"
  "scalar_one_or_none (r # r' # rows) = Inl MultipleResultsFound"
  by (simp_all add: scalar_one_or_none_def)

lemma scalar_one_or_none_None [guards]:
  "scalar_one_or_none rows = Inr None \<longleftrightarrow> rows = []"
  by (auto simp: scalar_one_or_none_def split: list.splits)

lemma scalar_one_or_none_Some [guards]:
  "scalar_one_or_none rows = Inr (Some r) \<longleftrightarrow> rows = [r]"
  by (auto simp: scalar_one_or_none_def split: list.splits)

lemma set_order_by [simp]: "set (order_by k rows) = set rows"
  by (simp add: order_by_def)

lemma set_order_by_desc [simp]: "set (order_by_desc k rows) = set rows"
  by (simp add: order_by_desc_def)

lemma length_order_by [simp]: "length (order_by k rows) = length rows"
  by (simp add: order_by_def)

lemma length_order_by_desc [simp]: "length (order_by_desc k rows) = length rows"
  by (simp add: order_by_desc_def)

lemma distinct_order_by [simp]: "distinct (order_by k rows) = distinct rows"
  by (simp add: order_by_def)

lemma set_paginate_subset: "set (paginate p n rows) \<subseteq> set rows"
  by (auto simp: paginate_def dest: in_set_takeD in_set_dropD)

lemma length_paginate_le: "length (paginate p n rows) \<le> nat n"
  by (simp add: paginate_def)

text \<open>The flush of a changed row, and of the rows of a batch one after the other.\<close>

definition store_row :: "('r \<Rightarrow> 'k) \<Rightarrow> 'r \<Rightarrow> 'r list \<Rightarrow> 'r list" where
  "store_row k r' rows = update_where (\<lambda>r. k r = k r') (\<lambda>_. r') rows"

lemma store_row_map:
  "distinct (map k rows) \<Longrightarrow> r \<in> set rows \<Longrightarrow> k (f r) = k r \<Longrightarrow>
     store_row k (f r) rows = map (\<lambda>r'. if r' = r then f r' else r') rows"
  by (auto simp: store_row_def update_where_def dest: distinct_map_keyed)

lemma map_store_row: "map k (store_row k r rows) = map k rows"
  by (simp add: store_row_def update_where_def)

lemma store_rows_map:
  assumes "distinct (map k rows)" "set batch \<subseteq> set rows" "distinct batch"
    and keep: "\<And>r. k (f r) = k r"
  shows "foldl (\<lambda>rs r. store_row k (f r) rs) rows batch =
    map (\<lambda>r. if r \<in> set batch then f r else r) rows"
  using assms(2,3)
proof (induction batch rule: rev_induct)
  case (snoc b bs)
  let ?g = "\<lambda>r. if r \<in> set bs then f r else r"
  have IH: "foldl (\<lambda>rs r. store_row k (f r) rs) rows bs = map ?g rows"
    using snoc by simp
  have key: "k (?g r) = k r" for r by (simp add: keep)
  have "update_where (\<lambda>r. k r = k (f b)) (\<lambda>_. f b) (map ?g rows) =
      map (\<lambda>r. if r = b then f b else ?g r) rows"
    using snoc.prems assms(1)
    by (auto simp: update_where_def keep key dest: distinct_map_keyed)
  with IH snoc.prems show ?case by (auto simp: store_row_def)
qed simp

section \<open>Python strings\<close>

text \<open>
  A str is the list of its characters. The model's characters are the first 256 code points;
  code that reacts to any other character does so through \<open>unicodedata\<close>, a parameter of
  the definitions that use it.
\<close>

definition is_space :: "char \<Rightarrow> bool" where
  \<comment> \<open>str.isspace on the first 256 code points\<close>
  "is_space c = (of_char c \<in> {9, 10, 11, 12, 13, 28, 29, 30, 31, 32, 133, 160 :: nat})"

definition lstrip :: "string \<Rightarrow> string" where "lstrip s = dropWhile is_space s"
definition rstrip :: "string \<Rightarrow> string" where "rstrip s = rev (dropWhile is_space (rev s))"
definition strip :: "string \<Rightarrow> string" where "strip s = rstrip (lstrip s)"

definition lstrip_char :: "char \<Rightarrow> string \<Rightarrow> string" where
  "lstrip_char c s = dropWhile (\<lambda>x. x = c) s"
definition rstrip_char :: "char \<Rightarrow> string \<Rightarrow> string" where
  "rstrip_char c s = rev (dropWhile (\<lambda>x. x = c) (rev s))"
definition strip_char :: "char \<Rightarrow> string \<Rightarrow> string" where
  "strip_char c s = rstrip_char c (lstrip_char c s)"

definition lower_char :: "char \<Rightarrow> char" where
  \<comment> \<open>str.lower: A-Z, and the Latin-1 capitals except the multiplication sign (215)\<close>
  "lower_char c = (let n = (of_char c :: nat) in
     if (65 \<le> n \<and> n \<le> 90) \<or> (192 \<le> n \<and> n \<le> 222 \<and> n \<noteq> 215)
     then char_of (n + 32) else c)"

definition lower :: "string \<Rightarrow> string" where "lower s = map lower_char s"

definition startswith :: "string \<Rightarrow> string \<Rightarrow> bool" where "startswith s p = prefix p s"
definition endswith :: "string \<Rightarrow> string \<Rightarrow> bool" where "endswith s p = suffix p s"

fun join :: "string \<Rightarrow> string list \<Rightarrow> string" where
  "join sep [] = []"
| "join sep [x] = x"
| "join sep (x # y # zs) = x @ sep @ join sep (y # zs)"

fun contains :: "string \<Rightarrow> string \<Rightarrow> bool" where
  \<comment> \<open>the Python expression \<open>needle in haystack\<close>\<close>
  "contains [] needle = (needle = [])"
| "contains (c # cs) needle = (prefix needle (c # cs) \<or> contains cs needle)"

fun digits :: "nat \<Rightarrow> string" where
  \<comment> \<open>str of a non-negative int\<close>
  "digits n = (if n < 10 then [char_of (48 + n)] else digits (n div 10) @ [char_of (48 + n mod 10)])"

declare digits.simps [simp del]

definition str_int :: "int \<Rightarrow> string" where
  "str_int i = (if i < 0 then CHR ''-'' # digits (nat (- i)) else digits (nat i))"

text \<open>The digits by division of integers, which is what evaluation uses.\<close>

function int_digits :: "int \<Rightarrow> string" where
  "int_digits i =
     (if i < 10 then [char_of (48 + nat i)] else int_digits (i div 10) @ [char_of (48 + nat (i mod 10))])"
  by pat_completeness auto
termination by (relation "measure nat") auto

declare int_digits.simps [simp del]

lemma digits_nat: "0 \<le> i \<Longrightarrow> digits (nat i) = int_digits i"
proof (induction i rule: int_digits.induct)
  case (1 i)
  then show ?case
    by (subst int_digits.simps, subst digits.simps)
      (auto simp: nat_div_distrib nat_mod_distrib)
qed

lemma str_int_code [code]: "str_int i = (if i < 0 then CHR ''-'' # int_digits (- i) else int_digits i)"
  by (simp add: str_int_def digits_nat)

text \<open>A Python str or None is true when it is a non-empty string.\<close>

definition truthy :: "string option \<Rightarrow> bool" where
  "truthy s = (case s of None \<Rightarrow> False | Some x \<Rightarrow> x \<noteq> [])"

lemma truthy_simps [simp]: "\<not> truthy None" "truthy (Some x) \<longleftrightarrow> x \<noteq> []"
  by (simp_all add: truthy_def)

text \<open>\<open>s or default\<close> for an optional string\<close>

definition or_else :: "string option \<Rightarrow> string \<Rightarrow> string" where
  "or_else s d = (if truthy s then the s else d)"

lemma or_else_simps [simp]:
  "or_else None d = d" "or_else (Some []) d = d" "x \<noteq> [] \<Longrightarrow> or_else (Some x) d = x"
  by (simp_all add: or_else_def)

lemma dropWhile_idem: "dropWhile P (dropWhile P xs) = dropWhile P xs"
  by (induction xs) auto

lemma strip_Nil [simp]: "strip [] = []"
  by (simp add: strip_def lstrip_def rstrip_def)

lemma lower_Nil [simp]: "lower [] = []"
  by (simp add: lower_def)

lemma lower_idem: "lower (lower s) = lower s"
proof -
  have "lower_char (lower_char c) = lower_char c" for c
  proof -
    have "of_char c < (256::nat)" by (simp add: nat_of_char_less_256)
    then show ?thesis
      by (auto simp: lower_char_def Let_def of_char_of)
  qed
  then show ?thesis by (simp add: lower_def)
qed

lemma contains_iff: "contains s p \<longleftrightarrow> (\<exists>u v. s = u @ p @ v)"
proof (induction s)
  case Nil
  then show ?case by auto
next
  case (Cons c cs)
  have "(\<exists>u v. c # cs = u @ p @ v) \<longleftrightarrow> prefix p (c # cs) \<or> (\<exists>u v. cs = u @ p @ v)"
    (is "?L \<longleftrightarrow> ?R")
  proof
    assume ?L
    then obtain u v where uv: "c # cs = u @ p @ v" by blast
    show ?R
    proof (cases u)
      case Nil
      with uv show ?thesis by (metis append_Nil prefixI)
    next
      case (Cons a us)
      with uv show ?thesis by auto
    qed
  next
    assume ?R
    then show ?L
    proof
      assume "prefix p (c # cs)"
      then obtain v where "c # cs = p @ v" by (auto elim: prefixE)
      then have "c # cs = [] @ p @ v" by simp
      then show ?thesis by blast
    next
      assume "\<exists>u v. cs = u @ p @ v"
      then obtain u v where "cs = u @ p @ v" by blast
      then have "c # cs = (c # u) @ p @ v" by simp
      then show ?thesis by blast
    qed
  qed
  with Cons show ?case by simp
qed

lemma digits_inj: "digits m = digits n \<Longrightarrow> m = n"
proof (induction m arbitrary: n rule: digits.induct)
  case (1 m)
  have one: "digits k = [c] \<Longrightarrow> k < 10" for k c
  proof (rule ccontr)
    assume d: "digits k = [c]" and "\<not> k < 10"
    then have "digits (k div 10) = []" by (subst (asm) digits.simps) simp
    moreover have "digits j \<noteq> []" for j by (subst digits.simps) simp
    ultimately show False by blast
  qed
  have ch: "char_of (48 + a) = (char_of (48 + b) :: char) \<Longrightarrow> a = b"
    if "a < 10" "b < 10" for a b :: nat
  proof -
    assume "char_of (48 + a) = (char_of (48 + b) :: char)"
    then have "of_char (char_of (48 + a) :: char) = (of_char (char_of (48 + b) :: char) :: nat)"
      by (rule arg_cong)
    with that show "a = b" by (simp add: of_char_of)
  qed
  show ?case
  proof (cases "m < 10")
    case True
    then have dm: "digits m = [char_of (48 + m)]" by (subst digits.simps) simp
    with "1.prems" one have n: "n < 10" by metis
    then have "digits n = [char_of (48 + n)]" by (subst digits.simps) simp
    with dm "1.prems" ch [OF True n] show ?thesis by simp
  next
    case False
    then have dm: "digits m = digits (m div 10) @ [char_of (48 + m mod 10)]"
      by (subst digits.simps) simp
    have n: "\<not> n < 10"
    proof
      assume "n < 10"
      then have "digits n = [char_of (48 + n)]" by (subst digits.simps) simp
      with "1.prems" one False show False by metis
    qed
    then have "digits n = digits (n div 10) @ [char_of (48 + n mod 10)]"
      by (subst digits.simps) simp
    with dm "1.prems" have "digits (m div 10) = digits (n div 10)"
      and "char_of (48 + m mod 10) = (char_of (48 + n mod 10) :: char)" by simp_all
    then have "m div 10 = n div 10" and "m mod 10 = n mod 10"
      using "1.IH" [OF False] ch by (auto simp: mod_less_divisor)
    then show ?thesis by (metis div_mult_mod_eq)
  qed
qed

section \<open>Parsing\<close>

fun split_on :: "char \<Rightarrow> string \<Rightarrow> string list" where
  \<comment> \<open>str.split with a one-character separator\<close>
  "split_on c [] = [[]]"
| "split_on c (x # xs) =
     (if x = c then [] # split_on c xs
      else (case split_on c xs of [] \<Rightarrow> [[x]] | y # ys \<Rightarrow> (x # y) # ys))"

definition is_digit :: "char \<Rightarrow> bool" where
  "is_digit c = (48 \<le> (of_char c :: nat) \<and> (of_char c :: nat) \<le> 57)"

definition digit_value :: "char \<Rightarrow> nat" where
  "digit_value c = of_char c - 48"

text \<open>
  int of a str: digits with single underscores between them, an optional sign, white space
  around; ValueError otherwise. The accumulator says whether the last character was a digit.
\<close>

fun parse_digits :: "bool \<Rightarrow> nat \<Rightarrow> string \<Rightarrow> nat option" where
  "parse_digits seen acc [] = (if seen then Some acc else None)"
| "parse_digits seen acc (c # cs) =
     (if is_digit c then parse_digits True (10 * acc + digit_value c) cs
      else if c = CHR ''_'' \<and> seen then parse_digits False acc cs
      else None)"

definition python_int :: "string \<Rightarrow> int option" where
  "python_int s = (case strip s of
       [] \<Rightarrow> None
     | c # cs \<Rightarrow>
         (if c = CHR ''-'' then map_option (\<lambda>n. - int n) (parse_digits False 0 cs)
          else if c = CHR ''+'' then map_option int (parse_digits False 0 cs)
          else map_option int (parse_digits False 0 (c # cs))))"

lemma split_on_not_Nil [simp]: "split_on c s \<noteq> []"
  by (induction s) (auto split: list.splits)

lemma split_on_free: "x \<in> set (split_on c s) \<Longrightarrow> c \<notin> set x"
  by (induction s arbitrary: x) (fastforce split: list.splits if_splits)+

lemma is_digit_char_of: "n < 10 \<Longrightarrow> is_digit (char_of (48 + n :: nat))"
  by (simp add: is_digit_def of_char_of)

lemma digit_value_char_of: "n < 10 \<Longrightarrow> digit_value (char_of (48 + n :: nat)) = n"
  by (simp add: digit_value_def of_char_of)

lemma parse_digits_append:
  "list_all is_digit ds \<Longrightarrow> ds \<noteq> [] \<Longrightarrow>
     parse_digits b acc (ds @ cs) =
     parse_digits True (foldl (\<lambda>a d. 10 * a + digit_value d) acc ds) cs"
proof (induction ds arbitrary: b acc)
  case (Cons d ds)
  then show ?case by (cases "ds = []") auto
qed simp

lemma digits_not_Nil [simp]: "digits n \<noteq> []"
  by (subst digits.simps) simp

lemma digits_are_digits: "list_all is_digit (digits n)"
proof (induction n rule: digits.induct)
  case (1 n)
  then show ?case by (subst digits.simps) (simp add: is_digit_char_of)
qed

lemma digits_value: "foldl (\<lambda>a d. 10 * a + digit_value d) 0 (digits n) = n"
proof (induction n rule: digits.induct)
  case (1 n)
  then show ?case by (subst digits.simps) (simp add: digit_value_char_of)
qed

lemma parse_digits_digits: "parse_digits b 0 (digits n) = Some n"
  using parse_digits_append [OF digits_are_digits digits_not_Nil, of b 0 n "[]"]
  by (simp add: digits_value)

lemma is_digit_no_space: "is_digit c \<Longrightarrow> \<not> is_space c"
  by (auto simp: is_digit_def is_space_def)

lemma strip_no_space:
  assumes "list_all (\<lambda>c. \<not> is_space c) s" shows "strip s = s"
proof -
  have "dropWhile is_space t = t" if "list_all (\<lambda>c. \<not> is_space c) t" for t
    using that by (cases t) auto
  from this [OF assms] this [of "rev s"] assms show ?thesis
    by (simp add: strip_def lstrip_def rstrip_def list_all_rev)
qed

lemma list_all_not_space: "list_all is_digit s \<Longrightarrow> list_all (\<lambda>c. \<not> is_space c) s"
  by (auto simp: list_all_iff is_digit_no_space)

lemma python_int_str_int: "python_int (str_int i) = Some i"
proof (cases "i < 0")
  case True
  have "\<not> is_space CHR ''-''" by (simp add: is_space_def)
  then have "strip (CHR ''-'' # digits (nat (- i))) = CHR ''-'' # digits (nat (- i))"
    using list_all_not_space [OF digits_are_digits] by (intro strip_no_space) simp
  with True show ?thesis by (simp add: python_int_def str_int_def parse_digits_digits)
next
  case False
  have st: "strip (digits (nat i)) = digits (nat i)"
    by (rule strip_no_space) (rule list_all_not_space [OF digits_are_digits])
  obtain c cs where d: "digits (nat i) = c # cs" by (cases "digits (nat i)") auto
  have "is_digit c" using digits_are_digits [of "nat i"] d by simp
  then have "c \<noteq> CHR ''-''" "c \<noteq> CHR ''+''" by (auto simp: is_digit_def)
  with False st d parse_digits_digits [of False "nat i"] show ?thesis
    by (simp add: python_int_def str_int_def)
qed

lemma str_int_inj [simp]: "str_int i = str_int j \<longleftrightarrow> i = j"
  by (metis option.inject python_int_str_int)

lemma str_int_not_Nil [simp]: "str_int i \<noteq> []"
  by (simp add: str_int_def)

end
