(* ===== verification/Schema.thy ===== *)
theory Schema
  imports Prelude
begin

text \<open>
  The data of the service as its modules declare it: the string enums of
  \<^verbatim>\<open>app/modules/*/enums.py\<close> as datatypes, the ORM classes of \<^verbatim>\<open>app/modules/*/models.py\<close> as
  records with the columns the services read or write.

  A nullable column is an option; a relationship is the join on its foreign key, done where
  the code follows it. The onupdate column \<open>updated_at\<close> is kept for materials and comments, the
  rows where the code reads it.
\<close>

section \<open>Enums\<close>

datatype user_role = STUDENT | MODERATOR | ADMIN

datatype proposal_entity_type = UNIVERSITY | FACULTY | SUBJECT

datatype proposal_status = ProposalPending | ProposalApproved | ProposalRejected

datatype telegram_event_type =
    EMAIL_VERIFIED
  | EMAIL_VERIFICATION_RESENT
  | MATERIAL_APPROVED
  | MATERIAL_REJECTED
  | MATERIAL_REVISION_REQUESTED
  | MATERIAL_SUBMITTED_FOR_REVIEW
  | PASSWORD_CHANGED
  | PASSWORD_RESET_REQUESTED
  | PROPOSAL_CREATED
  | PROPOSAL_APPROVED
  | PROPOSAL_REJECTED
  | TELEGRAM_ACCOUNT_LINKED
  | TELEGRAM_ACCOUNT_UNLINKED
  | USER_REGISTERED

datatype telegram_event_status = EventPending | EventDispatched | EventFailed

datatype file_kind = IMAGE | DOCUMENT | ARCHIVE | OtherKind

datatype material_status = DRAFT | PENDING_REVIEW | APPROVED | REJECTED

datatype material_type = BOOK | NOTES | SLIDES | EXAM | ASSIGNMENT | LAB | CHEATSHEET | OtherType

datatype reject_reason =
    WRONG_SUBJECT | DUPLICATE | UNREADABLE | LOW_QUALITY | SPAM
  | COPYRIGHT_OR_POLICY_ISSUE | OtherReason

datatype report_status = ReportOpen | ReportResolved | ReportDismissed

datatype review_action =
    ActSubmitted | ActApproved | ActRejected | ActResubmitted | ActMovedSubject
  | ActRequestedRevision | ActWithdrawn | ActReported | ActTakedown

text \<open>The values of the string enums that the services compare, store as text or send.\<close>

fun role_value :: "user_role \<Rightarrow> string" where
  "role_value STUDENT = ''student''"
| "role_value MODERATOR = ''moderator''"
| "role_value ADMIN = ''admin''"

fun proposal_entity_value :: "proposal_entity_type \<Rightarrow> string" where
  "proposal_entity_value UNIVERSITY = ''university_proposal''"
| "proposal_entity_value FACULTY = ''faculty_proposal''"
| "proposal_entity_value SUBJECT = ''subject_proposal''"

fun event_type_value :: "telegram_event_type \<Rightarrow> string" where
  "event_type_value EMAIL_VERIFIED = ''email_verified''"
| "event_type_value EMAIL_VERIFICATION_RESENT = ''email_verification_resent''"
| "event_type_value MATERIAL_APPROVED = ''material_approved''"
| "event_type_value MATERIAL_REJECTED = ''material_rejected''"
| "event_type_value MATERIAL_REVISION_REQUESTED = ''material_revision_requested''"
| "event_type_value MATERIAL_SUBMITTED_FOR_REVIEW = ''material_submitted_for_review''"
| "event_type_value PASSWORD_CHANGED = ''password_changed''"
| "event_type_value PASSWORD_RESET_REQUESTED = ''password_reset_requested''"
| "event_type_value PROPOSAL_CREATED = ''proposal_created''"
| "event_type_value PROPOSAL_APPROVED = ''proposal_approved''"
| "event_type_value PROPOSAL_REJECTED = ''proposal_rejected''"
| "event_type_value TELEGRAM_ACCOUNT_LINKED = ''telegram_account_linked''"
| "event_type_value TELEGRAM_ACCOUNT_UNLINKED = ''telegram_account_unlinked''"
| "event_type_value USER_REGISTERED = ''user_registered''"

fun material_status_value :: "material_status \<Rightarrow> string" where
  "material_status_value DRAFT = ''draft''"
| "material_status_value PENDING_REVIEW = ''pending_review''"
| "material_status_value APPROVED = ''approved''"
| "material_status_value REJECTED = ''rejected''"

fun material_type_value :: "material_type \<Rightarrow> string" where
  "material_type_value BOOK = ''book''"
| "material_type_value NOTES = ''notes''"
| "material_type_value SLIDES = ''slides''"
| "material_type_value EXAM = ''exam''"
| "material_type_value ASSIGNMENT = ''assignment''"
| "material_type_value LAB = ''lab''"
| "material_type_value CHEATSHEET = ''cheatsheet''"
| "material_type_value OtherType = ''other''"

fun reject_reason_value :: "reject_reason \<Rightarrow> string" where
  "reject_reason_value WRONG_SUBJECT = ''wrong_subject''"
| "reject_reason_value DUPLICATE = ''duplicate''"
| "reject_reason_value UNREADABLE = ''unreadable''"
| "reject_reason_value LOW_QUALITY = ''low_quality''"
| "reject_reason_value SPAM = ''spam''"
| "reject_reason_value COPYRIGHT_OR_POLICY_ISSUE = ''copyright_or_policy_issue''"
| "reject_reason_value OtherReason = ''other''"

fun report_status_value :: "report_status \<Rightarrow> string" where
  "report_status_value ReportOpen = ''open''"
| "report_status_value ReportResolved = ''resolved''"
| "report_status_value ReportDismissed = ''dismissed''"

text \<open>JSON values: event payloads and cached responses.\<close>

datatype json =
    JNull
  | JBool bool
  | JInt int
  | JStr string
  | JList "json list"
  | JObj "(string \<times> json) list"

definition jopt :: "string option \<Rightarrow> json" where
  "jopt s = (case s of None \<Rightarrow> JNull | Some x \<Rightarrow> JStr x)"

section \<open>Rows\<close>

record user =
  u_id :: string
  u_full_name :: string
  u_email :: string
  u_avatar_url :: "string option"
  u_hashed_password :: string
  u_role :: user_role
  u_university_id :: "string option"
  u_university_changed_at :: "int option"
  u_pending_university_name :: "string option"
  u_university_status :: string
  u_is_active :: bool
  u_is_verified :: bool
  u_created_at :: int

record user_preference =
  pf_id :: string
  pf_user_id :: string
  pf_language :: string
  pf_email_notifications :: bool
  pf_marketing_notifications :: bool
  pf_theme :: string

record saved_material =
  sm_id :: string
  sm_user_id :: string
  sm_material_id :: string
  sm_created_at :: int

text \<open>PasswordResetToken and EmailVerificationToken have the same columns.\<close>

record one_time_token =
  ot_id :: string
  ot_user_id :: string
  ot_token :: string
  ot_expires_at :: int
  ot_consumed :: bool
  ot_created_at :: int

record refresh_token_session =
  rs_id :: string
  rs_user_id :: string
  rs_jti :: string
  rs_token_hash :: string
  rs_expires_at :: int
  rs_used_at :: "int option"
  rs_revoked_at :: "int option"
  rs_replaced_by_jti :: "string option"
  rs_created_at :: int

record email_outbox =
  eo_id :: string
  eo_recipient_email :: string
  eo_subject :: string
  eo_text_body :: string
  eo_html_body :: "string option"
  eo_status :: string
  eo_attempt_count :: int
  eo_max_attempts :: int
  eo_next_attempt_at :: int
  eo_last_attempt_at :: "int option"
  eo_sent_at :: "int option"
  eo_last_error :: "string option"
  eo_created_at :: int

record telegram_link =
  tl_id :: string
  tl_user_id :: string
  tl_telegram_user_id :: int
  tl_telegram_username :: "string option"
  tl_telegram_first_name :: "string option"
  tl_telegram_last_name :: "string option"
  tl_language_code :: "string option"
  tl_linked_at :: int
  tl_unlinked_at :: "int option"
  tl_is_active :: bool

record telegram_link_session =
  ts_id :: string
  ts_user_id :: string
  ts_token_hash :: string
  ts_code_hash :: string
  ts_expires_at :: int
  ts_used_at :: "int option"
  ts_revoked_at :: "int option"
  ts_is_active :: bool
  ts_created_at :: int

record telegram_event =
  te_id :: string
  te_event_type :: telegram_event_type
  te_entity_type :: "string option"
  te_entity_id :: "string option"
  te_recipient_user_id :: string
  te_recipient_role :: "string option"
  te_delivery_channel :: string
  te_payload :: json
  te_status :: telegram_event_status
  te_attempt_count :: int
  te_last_error :: "string option"
  te_dispatched_at :: "int option"
  te_created_at :: int

record university =
  un_id :: string
  un_name :: string
  un_slug :: string

record faculty =
  fa_id :: string
  fa_university_id :: string
  fa_name :: string
  fa_slug :: string

record subject =
  su_id :: string
  su_faculty_id :: string
  su_name :: string
  su_slug :: string
  su_code :: "string option"
  su_description :: "string option"

record tag =
  t_id :: string
  t_name :: string
  t_slug :: string

record comment =
  co_id :: string
  co_material_id :: string
  co_user_id :: string
  co_content :: string
  co_created_at :: int
  co_updated_at :: int

record material_rating =
  ra_id :: string
  ra_user_id :: string
  ra_material_id :: string
  ra_value :: int

record audit_log =
  al_id :: string
  al_actor_id :: "string option"
  al_entity :: string
  al_entity_id :: "string option"
  al_action :: string
  al_details :: "string option"
  al_created_at :: int

record notification =
  no_id :: string
  no_user_id :: string
  no_title :: string
  no_body :: string
  no_is_read :: bool
  no_created_at :: int

record moderator_university_scope =
  mus_id :: string
  mus_user_id :: string
  mus_university_id :: string

record moderator_faculty_scope =
  mfs_id :: string
  mfs_user_id :: string
  mfs_faculty_id :: string

record moderator_subject_scope =
  mss_id :: string
  mss_user_id :: string
  mss_subject_id :: string

record material =
  m_id :: string
  m_title :: string
  m_slug :: string
  m_description :: "string option"
  m_material_type :: material_type
  m_status :: material_status
  m_subject_id :: string
  m_semesters :: "int list"
  m_uploaded_by :: string
  m_approved_by :: "string option"
  m_last_reviewed_by :: "string option"
  m_rejected_reason :: "reject_reason option"
  m_cover_file_id :: "string option"
  m_primary_file_id :: "string option"
  m_file_count :: int
  m_total_size :: int
  m_download_count :: int
  m_submitted_at :: "int option"
  m_reviewed_at :: "int option"
  m_deleted_at :: "int option"
  m_created_at :: int
  m_updated_at :: int

record material_file =
  mf_id :: string
  mf_material_id :: string
  mf_storage_key :: string
  mf_preview_storage_key :: "string option"
  mf_original_filename :: string
  mf_mime_type :: string
  mf_file_size :: int
  mf_file_ext :: string
  mf_file_kind :: file_kind
  mf_file_order :: int
  mf_checksum_hash :: string
  mf_is_previewable :: bool
  mf_preview_page_count :: "int option"

record material_download =
  md_id :: string
  md_user_id :: "string option"
  md_material_id :: string
  md_ip_address :: "string option"
  md_created_at :: int

record material_review_log =
  rl_id :: string
  rl_material_id :: string
  rl_action :: review_action
  rl_actor_id :: string
  rl_note :: "string option"
  rl_reason :: "string option"
  rl_created_at :: int

record material_report =
  mr_id :: string
  mr_material_id :: string
  mr_reporter_id :: string
  mr_reviewer_id :: "string option"
  mr_reason :: string
  mr_details :: "string option"
  mr_status :: report_status
  mr_resolution_note :: "string option"
  mr_reviewed_at :: "int option"
  mr_created_at :: int

record university_proposal =
  up_id :: string
  up_proposed_name :: string
  up_proposed_slug :: "string option"
  up_proposed_description :: "string option"
  up_created_by :: string
  up_status :: proposal_status
  up_reviewed_by :: "string option"
  up_review_note :: "string option"
  up_approved_university_id :: "string option"
  up_reviewed_at :: "int option"
  up_created_at :: int

record faculty_proposal =
  fp_id :: string
  fp_university_id :: string
  fp_proposed_name :: string
  fp_proposed_slug :: "string option"
  fp_proposed_description :: "string option"
  fp_created_by :: string
  fp_status :: proposal_status
  fp_reviewed_by :: "string option"
  fp_review_note :: "string option"
  fp_approved_faculty_id :: "string option"
  fp_reviewed_at :: "int option"
  fp_created_at :: int

record subject_proposal =
  sp_id :: string
  sp_faculty_id :: string
  sp_proposed_name :: string
  sp_proposed_slug :: "string option"
  sp_proposed_code :: "string option"
  sp_proposed_semester :: "int option"
  sp_proposed_description :: "string option"
  sp_created_by :: string
  sp_status :: proposal_status
  sp_reviewed_by :: "string option"
  sp_review_note :: "string option"
  sp_approved_subject_id :: "string option"
  sp_reviewed_at :: "int option"
  sp_created_at :: int

record catalog_proposal_log =
  pl_id :: string
  pl_entity_type :: proposal_entity_type
  pl_entity_id :: string
  pl_action :: string
  pl_actor_id :: string
  pl_note :: "string option"

record catalog_report =
  cr_id :: string
  cr_entity_type :: string
  cr_entity_id :: string
  cr_entity_name :: string
  cr_reporter_id :: string
  cr_reviewer_id :: "string option"
  cr_reason :: string
  cr_details :: "string option"
  cr_status :: report_status
  cr_resolution_note :: "string option"
  cr_reviewed_at :: "int option"
  cr_created_at :: int

end
