(* ===== verification/Config.thy ===== *)
theory Config
  imports Schema
begin

text \<open>
  \<^verbatim>\<open>app/core/config.py\<close>: the settings object with the fields the modelled code reads, its
  defaults, the before-validators that normalise the environment's strings, and the
  after-validator \<open>validate_runtime_safety\<close> that refuses an unsafe production configuration.
  The password test on REDIS_URL is the part of \<open>urllib.parse\<close> it uses: the authority of the
  URL, the user information before the last at sign, and the text after its first colon.
\<close>

section \<open>The settings object\<close>

record settings =
  app_env :: string
  debug :: bool
  jwt_secret_key :: string
  jwt_algorithm :: string
  access_token_expire_minutes :: int
  refresh_token_expire_days :: int
  cors_origins :: "string list"
  default_page_size :: int
  max_page_size :: int
  rate_limit_enabled :: bool
  rate_limit_key_prefix :: string
  rate_limit_in_memory_fallback :: bool
  rate_limit_login_max_requests :: int
  rate_limit_login_window_seconds :: int
  rate_limit_register_max_requests :: int
  rate_limit_register_window_seconds :: int
  rate_limit_password_reset_request_max_requests :: int
  rate_limit_password_reset_request_window_seconds :: int
  rate_limit_password_reset_confirm_max_requests :: int
  rate_limit_password_reset_confirm_window_seconds :: int
  rate_limit_refresh_max_requests :: int
  rate_limit_refresh_window_seconds :: int
  rate_limit_sensitive_max_requests :: int
  rate_limit_sensitive_window_seconds :: int
  login_lockout_max_attempts :: int
  login_lockout_window_seconds :: int
  login_lockout_seconds :: int
  access_token_revocation_enabled :: bool
  upload_max_file_size :: int
  upload_max_total_size :: int
  upload_max_file_count :: int
  storage_backend :: string
  storage_root :: string
  s3_bucket :: "string option"
  s3_region :: "string option"
  s3_endpoint_url :: "string option"
  s3_access_key_id :: "string option"
  s3_secret_access_key :: "string option"
  s3_presigned_expiry_seconds :: int
  backup_local_root :: string
  backup_filename_prefix :: string
  backup_timeout_seconds :: int
  backup_verify_restore :: bool
  backup_retention_local :: int
  backup_offsite_enabled :: bool
  backup_retention_offsite :: int
  backup_s3_prefix :: string
  backup_max_restore_size_bytes :: int
  backup_restore_confirmation_required :: bool
  backup_restore_api_enabled :: bool
  backup_schedule_enabled :: bool
  backup_interval_seconds :: int
  backup_run_on_start :: bool
  public_web_base_url :: string
  mail_enabled :: bool
  mail_username :: "string option"
  mail_password :: "string option"
  mail_api_token :: "string option"
  mail_from_email :: string
  mail_from_name :: string
  email_outbox_poll_seconds :: int
  email_outbox_batch_size :: int
  email_outbox_max_attempts :: int
  email_outbox_retry_base_seconds :: int
  email_verification_token_expire_hours :: int
  password_reset_url_path :: string
  email_verification_url_path :: string
  telegram_bot_username :: "string option"
  telegram_link_session_ttl_seconds :: int
  backend_service_name :: string
  bot_service_name :: string
  internal_auth_secret :: "string option"
  internal_auth_ttl_seconds :: int
  telegram_event_push_enabled :: bool
  bot_internal_base_url :: "string option"
  bot_internal_event_path :: string
  telegram_event_poll_seconds :: int
  telegram_event_batch_size :: int
  telegram_event_max_attempts :: int
  redis_url :: "string option"
  cache_ttl_stats_seconds :: int
  cache_ttl_trending_seconds :: int
  admin_email :: string
  admin_password :: string
  admin_full_name :: string

definition default_settings :: settings where
  "default_settings = \<lparr>
     app_env = ''development'',
     debug = False,
     jwt_secret_key = ''change-me'',
     jwt_algorithm = ''HS256'',
     access_token_expire_minutes = 15,
     refresh_token_expire_days = 14,
     cors_origins = [''http://localhost:3000''],
     default_page_size = 20,
     max_page_size = 100,
     rate_limit_enabled = True,
     rate_limit_key_prefix = ''skh'',
     rate_limit_in_memory_fallback = True,
     rate_limit_login_max_requests = 10,
     rate_limit_login_window_seconds = 60,
     rate_limit_register_max_requests = 5,
     rate_limit_register_window_seconds = 300,
     rate_limit_password_reset_request_max_requests = 5,
     rate_limit_password_reset_request_window_seconds = 3600,
     rate_limit_password_reset_confirm_max_requests = 10,
     rate_limit_password_reset_confirm_window_seconds = 300,
     rate_limit_refresh_max_requests = 30,
     rate_limit_refresh_window_seconds = 60,
     rate_limit_sensitive_max_requests = 20,
     rate_limit_sensitive_window_seconds = 60,
     login_lockout_max_attempts = 5,
     login_lockout_window_seconds = 900,
     login_lockout_seconds = 900,
     access_token_revocation_enabled = True,
     upload_max_file_size = 10485760,
     upload_max_total_size = 52428800,
     upload_max_file_count = 10,
     storage_backend = ''local'',
     storage_root = ''./storage'',
     s3_bucket = None,
     s3_region = None,
     s3_endpoint_url = None,
     s3_access_key_id = None,
     s3_secret_access_key = None,
     s3_presigned_expiry_seconds = 300,
     backup_local_root = ''./backups'',
     backup_filename_prefix = ''student-knowledge-hub'',
     backup_timeout_seconds = 600,
     backup_verify_restore = True,
     backup_retention_local = 7,
     backup_offsite_enabled = False,
     backup_retention_offsite = 14,
     backup_s3_prefix = ''production/postgres'',
     backup_max_restore_size_bytes = 5368709120,
     backup_restore_confirmation_required = True,
     backup_restore_api_enabled = False,
     backup_schedule_enabled = False,
     backup_interval_seconds = 86400,
     backup_run_on_start = True,
     public_web_base_url = ''http://localhost:3000'',
     mail_enabled = False,
     mail_username = None,
     mail_password = None,
     mail_api_token = None,
     mail_from_email = ''no-reply@studentknowledgehub.local'',
     mail_from_name = ''Student Knowledge Hub'',
     email_outbox_poll_seconds = 10,
     email_outbox_batch_size = 10,
     email_outbox_max_attempts = 5,
     email_outbox_retry_base_seconds = 60,
     email_verification_token_expire_hours = 24,
     password_reset_url_path = ''/reset-password'',
     email_verification_url_path = ''/verify-email'',
     telegram_bot_username = None,
     telegram_link_session_ttl_seconds = 600,
     backend_service_name = ''backend-api'',
     bot_service_name = ''telegram-bot'',
     internal_auth_secret = None,
     internal_auth_ttl_seconds = 300,
     telegram_event_push_enabled = False,
     bot_internal_base_url = None,
     bot_internal_event_path = ''/internal/events'',
     telegram_event_poll_seconds = 10,
     telegram_event_batch_size = 50,
     telegram_event_max_attempts = 5,
     redis_url = None,
     cache_ttl_stats_seconds = 300,
     cache_ttl_trending_seconds = 300,
     admin_email = ''admin@example.com'',
     admin_password = ''admin123456'',
     admin_full_name = ''Platform Admin''\<rparr>"

definition is_production :: "settings \<Rightarrow> bool" where
  "is_production s = (app_env s \<in> {''prod'', ''production''})"

section \<open>Before-validators\<close>

definition normalize_app_env :: "string \<Rightarrow> string" where
  "normalize_app_env value =
     (let normalized = lower (strip value) in
      if normalized \<in> {''prod'', ''production''} then ''production''
      else if normalized \<in> {''dev'', ''development''} then ''development''
      else value)"

text \<open>A recognised word becomes a bool; anything else is left for pydantic to parse.\<close>

definition normalize_debug :: "string \<Rightarrow> string + bool" where
  "normalize_debug value =
     (let normalized = lower (strip value) in
      if normalized \<in> {''release'', ''prod'', ''production'', ''0'', ''false'', ''no''} then Inr False
      else if normalized \<in> {''dev'', ''development'', ''1'', ''true'', ''yes''} then Inr True
      else Inl value)"

definition normalize_cors_origins :: "(string \<Rightarrow> string list) \<Rightarrow> string \<Rightarrow> string list" where
  \<comment> \<open>\<open>loads\<close> is the parser of a JSON array, used for a value that starts with a bracket\<close>
  "normalize_cors_origins loads value =
     (let stripped = strip value in
      if stripped = [] then []
      else if startswith stripped ''['' then loads stripped
      else filter (\<lambda>x. x \<noteq> []) (map strip (split_on (CHR '','') stripped)))"

definition normalize_storage_backend :: "string \<Rightarrow> string" where
  "normalize_storage_backend value =
     (let normalized = lower (strip value) in
      if normalized \<in> {''spaces'', ''digitalocean-spaces'', ''do-spaces''} then ''s3''
      else normalized)"

definition normalize_optional_strings :: "string \<Rightarrow> string option" where
  "normalize_optional_strings value = (let stripped = strip value in if stripped = [] then None else Some stripped)"

section \<open>The password of a URL\<close>

definition is_alpha :: "char \<Rightarrow> bool" where
  "is_alpha c = (let n = (of_char c :: nat) in (65 \<le> n \<and> n \<le> 90) \<or> (97 \<le> n \<and> n \<le> 122))"

definition scheme_char :: "char \<Rightarrow> bool" where
  "scheme_char c = (is_alpha c \<or> is_digit c \<or> c \<in> {CHR ''+'', CHR ''-'', CHR ''.''})"

fun partition_on :: "char \<Rightarrow> string \<Rightarrow> (string \<times> string) option" where
  \<comment> \<open>str.partition: the text before and after the first separator\<close>
  "partition_on c [] = None"
| "partition_on c (x # xs) =
     (if x = c then Some ([], xs)
      else map_option (\<lambda>(a, b). (x # a, b)) (partition_on c xs))"

definition rpartition_on :: "char \<Rightarrow> string \<Rightarrow> (string \<times> string) option" where
  "rpartition_on c s = map_option (\<lambda>(a, b). (rev b, rev a)) (partition_on c (rev s))"

definition url_netloc :: "string \<Rightarrow> string" where
  "url_netloc url =
     (let rest = (case partition_on (CHR '':'') url of
          Some (sch, after) \<Rightarrow>
            (if sch \<noteq> [] \<and> is_alpha (hd sch) \<and> list_all scheme_char sch then after else url)
        | None \<Rightarrow> url)
      in if startswith rest ''//''
         then takeWhile (\<lambda>c. c \<notin> {CHR ''/'', CHR ''?'', CHR ''#''}) (drop 2 rest)
         else [])"

definition url_password :: "string \<Rightarrow> string option" where
  "url_password url =
     (case rpartition_on (CHR ''@'') (url_netloc url) of
        None \<Rightarrow> None
      | Some (userinfo, _) \<Rightarrow> map_option snd (partition_on (CHR '':'') userinfo))"

section \<open>Runtime safety\<close>

definition missing_s3 :: "settings \<Rightarrow> string list" where
  "missing_s3 s =
     map fst (filter (\<lambda>(k, v). \<not> truthy v)
       [(''S3_BUCKET'', s3_bucket s), (''S3_REGION'', s3_region s),
        (''S3_ENDPOINT_URL'', s3_endpoint_url s), (''S3_ACCESS_KEY_ID'', s3_access_key_id s),
        (''S3_SECRET_ACCESS_KEY'', s3_secret_access_key s)])"

definition production_issues :: "settings \<Rightarrow> string list" where
  "production_issues s =
     (if debug s then [''DEBUG must be false in production''] else []) @
     (if jwt_secret_key s = ''change-me'' then [''JWT_SECRET_KEY must be changed in production''] else []) @
     (if admin_email s = ''admin@example.com'' then [''ADMIN_EMAIL must be changed in production''] else []) @
     (if admin_password s = ''admin123456'' then [''ADMIN_PASSWORD must be changed in production''] else []) @
     (if cors_origins s = [] then [''CORS_ORIGINS must not be empty in production''] else []) @
     (if (rate_limit_enabled s \<or> access_token_revocation_enabled s) \<and> \<not> truthy (redis_url s)
      then [''REDIS_URL is required in production for rate limiting and token revocation''] else []) @
     (if truthy (redis_url s) \<and> url_password (the (redis_url s)) = None
      then [''REDIS_URL must include a Redis password in production''] else []) @
     (if mail_enabled s
      then (if \<not> truthy (mail_api_token s) \<and> \<not> (truthy (mail_username s) \<and> truthy (mail_password s))
            then [''Mail delivery is enabled but missing MAIL_API_TOKEN or MAIL_USERNAME/MAIL_PASSWORD'']
            else []) @
           (if mail_from_email s = [] then [''Mail delivery is enabled but missing MAIL_FROM_EMAIL''] else [])
      else []) @
     (if telegram_event_push_enabled s
      then (if \<not> truthy (internal_auth_secret s)
            then [''Telegram event push is enabled but missing INTERNAL_AUTH_SECRET''] else []) @
           (if \<not> truthy (bot_internal_base_url s)
            then [''Telegram event push is enabled but missing BOT_INTERNAL_BASE_URL''] else [])
      else []) @
     (if storage_backend s = ''s3'' \<and> missing_s3 s \<noteq> []
      then [''S3 storage is enabled but missing: '' @ join '', '' (missing_s3 s)] else [])"

text \<open>The validator raises ValueError with every issue, joined.\<close>

definition validate_runtime_safety :: "settings \<Rightarrow> string + settings" where
  "validate_runtime_safety s =
     (if \<not> is_production s then Inr s
      else if production_issues s \<noteq> [] then Inl (join ''; '' (production_issues s))
      else Inr s)"

lemma missing_s3_Nil [guards]:
  "missing_s3 s = [] \<longleftrightarrow>
     truthy (s3_bucket s) \<and> truthy (s3_region s) \<and> truthy (s3_endpoint_url s) \<and>
     truthy (s3_access_key_id s) \<and> truthy (s3_secret_access_key s)"
  by (simp add: missing_s3_def)

lemma validate_runtime_safety_ok [guards]:
  "validate_runtime_safety s = Inr s' \<longleftrightarrow>
     s' = s \<and> (\<not> is_production s \<or> production_issues s = [])"
  by (auto simp: validate_runtime_safety_def)

lemma production_issues_Nil:
  "production_issues s = [] \<longleftrightarrow>
     \<not> debug s \<and> jwt_secret_key s \<noteq> ''change-me'' \<and> admin_email s \<noteq> ''admin@example.com'' \<and>
     admin_password s \<noteq> ''admin123456'' \<and> cors_origins s \<noteq> [] \<and>
     \<not> ((rate_limit_enabled s \<or> access_token_revocation_enabled s) \<and> \<not> truthy (redis_url s)) \<and>
     \<not> (truthy (redis_url s) \<and> url_password (the (redis_url s)) = None) \<and>
     (mail_enabled s \<longrightarrow>
        \<not> (\<not> truthy (mail_api_token s) \<and> \<not> (truthy (mail_username s) \<and> truthy (mail_password s))) \<and>
        mail_from_email s \<noteq> []) \<and>
     (telegram_event_push_enabled s \<longrightarrow> \<not> \<not> truthy (internal_auth_secret s) \<and>
        \<not> \<not> truthy (bot_internal_base_url s)) \<and>
     \<not> (storage_backend s = ''s3'' \<and> missing_s3 s \<noteq> [])"
proof -
  have opt: "(if c then xs else []) = [] \<longleftrightarrow> (c \<longrightarrow> xs = [])" for c and xs :: "string list" by simp
  show ?thesis
    unfolding production_issues_def by (simp only: append_is_Nil_conv opt list.distinct HOL.simp_thms conj_assoc)
qed

text \<open>
  An accepted production configuration is safe, and every safe one is accepted: no debug
  mode, no default secret, admin account or password, a CORS origin, a Redis URL with a
  password whenever rate limiting or revocation is on, credentials for mail, the bot and the
  object storage where they are enabled. A configuration outside production is accepted
  unchanged.
\<close>

theorem production_configuration_is_safe:
  "validate_runtime_safety s = Inr s \<longleftrightarrow>
     (if app_env s \<in> {''prod'', ''production''}
      then \<not> debug s \<and> jwt_secret_key s \<noteq> ''change-me'' \<and> admin_email s \<noteq> ''admin@example.com'' \<and>
      admin_password s \<noteq> ''admin123456'' \<and> cors_origins s \<noteq> [] \<and>
      (if truthy (redis_url s) then url_password (the (redis_url s)) \<noteq> None
       else \<not> rate_limit_enabled s \<and> \<not> access_token_revocation_enabled s) \<and>
      (if mail_enabled s
       then mail_from_email s \<noteq> [] \<and>
         (truthy (mail_api_token s) \<or> truthy (mail_username s) \<and> truthy (mail_password s))
       else True) \<and>
      (if telegram_event_push_enabled s
       then truthy (internal_auth_secret s) \<and> truthy (bot_internal_base_url s) else True) \<and>
      (if storage_backend s = ''s3''
       then truthy (s3_bucket s) \<and> truthy (s3_region s) \<and> truthy (s3_endpoint_url s) \<and>
         truthy (s3_access_key_id s) \<and> truthy (s3_secret_access_key s) else True)
      else True)"
  by (simp only: guards is_production_def production_issues_Nil) argo

end
