(* ===== verification/World.thy ===== *)
theory World
  imports Config
begin

text \<open>
  The state the services work on: the tables of the database (one field per
  \<^verbatim>\<open>__tablename__\<close>, see \<^verbatim>\<open>app/db/models.py\<close>), the calls made to the Redis cache in order, and
  the objects the storage provider holds by key.

  An operation takes the world of the transaction's start and returns its result with the
  world it leaves. A request that raises is rolled back by \<open>get_db_session\<close>, so an error
  comes with the tables of the last commit: the starting tables, unless the operation
  commits before it raises. The cache and the storage are not transactional.

  Moments, generated identifiers and tokens are arguments: \<open>now\<close> for \<open>datetime.now(UTC)\<close>, and
  \<open>ids\<close> for the values of \<open>uuid4\<close> and \<open>secrets\<close>, in the order in which the code draws them.
\<close>

datatype cache_call = CacheInvalidate string | CacheInvalidatePrefix string | CacheSet string json int

record world =
  db_users :: "user list"
  db_user_preferences :: "user_preference list"
  db_saved_materials :: "saved_material list"
  db_password_reset_tokens :: "one_time_token list"
  db_email_verification_tokens :: "one_time_token list"
  db_refresh_token_sessions :: "refresh_token_session list"
  db_email_outbox :: "email_outbox list"
  db_telegram_links :: "telegram_link list"
  db_telegram_link_sessions :: "telegram_link_session list"
  db_telegram_event_outbox :: "telegram_event list"
  db_universities :: "university list"
  db_faculties :: "faculty list"
  db_subjects :: "subject list"
  db_tags :: "tag list"
  db_material_tags :: "(string \<times> string) list"
  db_comments :: "comment list"
  db_material_ratings :: "material_rating list"
  db_audit_logs :: "audit_log list"
  db_notifications :: "notification list"
  db_moderator_university_scopes :: "moderator_university_scope list"
  db_moderator_faculty_scopes :: "moderator_faculty_scope list"
  db_moderator_subject_scopes :: "moderator_subject_scope list"
  db_materials :: "material list"
  db_material_files :: "material_file list"
  db_material_downloads :: "material_download list"
  db_material_review_logs :: "material_review_log list"
  db_material_reports :: "material_report list"
  db_university_proposals :: "university_proposal list"
  db_faculty_proposals :: "faculty_proposal list"
  db_subject_proposals :: "subject_proposal list"
  db_catalog_proposal_logs :: "catalog_proposal_log list"
  db_catalog_reports :: "catalog_report list"
  cache_log :: "cache_call list"
  objects :: "string \<Rightarrow> string option"

definition empty_world :: world where
  "empty_world = \<lparr>
     db_users = [],
     db_user_preferences = [],
     db_saved_materials = [],
     db_password_reset_tokens = [],
     db_email_verification_tokens = [],
     db_refresh_token_sessions = [],
     db_email_outbox = [],
     db_telegram_links = [],
     db_telegram_link_sessions = [],
     db_telegram_event_outbox = [],
     db_universities = [],
     db_faculties = [],
     db_subjects = [],
     db_tags = [],
     db_material_tags = [],
     db_comments = [],
     db_material_ratings = [],
     db_audit_logs = [],
     db_notifications = [],
     db_moderator_university_scopes = [],
     db_moderator_faculty_scopes = [],
     db_moderator_subject_scopes = [],
     db_materials = [],
     db_material_files = [],
     db_material_downloads = [],
     db_material_review_logs = [],
     db_material_reports = [],
     db_university_proposals = [],
     db_faculty_proposals = [],
     db_subject_proposals = [],
     db_catalog_proposal_logs = [],
     db_catalog_reports = [],
     cache_log = [],
     objects = (\<lambda>_. None)\<rparr>"

lemma empty_world_tables [simp]:
  "db_users empty_world = []"
  "db_user_preferences empty_world = []"
  "db_saved_materials empty_world = []"
  "db_password_reset_tokens empty_world = []"
  "db_email_verification_tokens empty_world = []"
  "db_refresh_token_sessions empty_world = []"
  "db_email_outbox empty_world = []"
  "db_telegram_links empty_world = []"
  "db_telegram_link_sessions empty_world = []"
  "db_telegram_event_outbox empty_world = []"
  "db_universities empty_world = []"
  "db_faculties empty_world = []"
  "db_subjects empty_world = []"
  "db_tags empty_world = []"
  "db_material_tags empty_world = []"
  "db_comments empty_world = []"
  "db_material_ratings empty_world = []"
  "db_audit_logs empty_world = []"
  "db_notifications empty_world = []"
  "db_moderator_university_scopes empty_world = []"
  "db_moderator_faculty_scopes empty_world = []"
  "db_moderator_subject_scopes empty_world = []"
  "db_materials empty_world = []"
  "db_material_files empty_world = []"
  "db_material_downloads empty_world = []"
  "db_material_review_logs empty_world = []"
  "db_material_reports empty_world = []"
  "db_university_proposals empty_world = []"
  "db_faculty_proposals empty_world = []"
  "db_subject_proposals empty_world = []"
  "db_catalog_proposal_logs empty_world = []"
  "db_catalog_reports empty_world = []"
  "cache_log empty_world = []" "objects empty_world = (\<lambda>_. None)"
  by (simp_all add: empty_world_def)

text \<open>await self.cache.invalidate and the like: a call to the cache, appended to the log.\<close>

definition cache_do :: "cache_call \<Rightarrow> world \<Rightarrow> world" where
  "cache_do c w = w\<lparr>cache_log := cache_log w @ [c]\<rparr>"

section \<open>Lookups by primary and unique key\<close>

definition get_user :: "string \<Rightarrow> world \<Rightarrow> user option" where
  "get_user i w = find (\<lambda>u. u_id u = i) (db_users w)"

definition get_user_by_email :: "string \<Rightarrow> world \<Rightarrow> user option" where
  "get_user_by_email e w = find (\<lambda>u. u_email u = e) (db_users w)"

definition get_university :: "string \<Rightarrow> world \<Rightarrow> university option" where
  "get_university i w = find (\<lambda>x. un_id x = i) (db_universities w)"

definition get_faculty :: "string \<Rightarrow> world \<Rightarrow> faculty option" where
  "get_faculty i w = find (\<lambda>x. fa_id x = i) (db_faculties w)"

definition get_subject :: "string \<Rightarrow> world \<Rightarrow> subject option" where
  "get_subject i w = find (\<lambda>x. su_id x = i) (db_subjects w)"

definition get_material :: "string \<Rightarrow> world \<Rightarrow> material option" where
  "get_material i w = find (\<lambda>m. m_id m = i) (db_materials w)"

lemmas lookups = get_user_def get_user_by_email_def get_university_def get_faculty_def
  get_subject_def get_material_def

lemma get_user_in: "get_user i w = Some u \<Longrightarrow> u \<in> set (db_users w)"
  by (simp add: get_user_def find_Some_in)

lemma get_user_id: "get_user i w = Some u \<Longrightarrow> u_id u = i"
  unfolding get_user_def by (rule find_key_Some)

lemma get_user_by_email_in: "get_user_by_email e w = Some u \<Longrightarrow> u \<in> set (db_users w)"
  by (simp add: get_user_by_email_def find_Some_in)

lemma get_user_by_email_email: "get_user_by_email e w = Some u \<Longrightarrow> u_email u = e"
  unfolding get_user_by_email_def by (rule find_key_Some)

section \<open>Audit log\<close>

text \<open>AuditService.log adds one row; the flush gives it and every pending row its id.\<close>

definition audit_log_row ::
  "string \<Rightarrow> int \<Rightarrow> string \<Rightarrow> string \<Rightarrow> user option \<Rightarrow> string option \<Rightarrow> string option \<Rightarrow> audit_log"
where
  "audit_log_row i now action entity actor entity_id details =
     \<lparr>al_id = i, al_actor_id = map_option u_id actor, al_entity = entity, al_entity_id = entity_id,
      al_action = action, al_details = details, al_created_at = now\<rparr>"

definition audit ::
  "string \<Rightarrow> int \<Rightarrow> string \<Rightarrow> string \<Rightarrow> user option \<Rightarrow> string option \<Rightarrow> string option \<Rightarrow> world \<Rightarrow> world"
where
  "audit i now action entity actor entity_id details w =
     w\<lparr>db_audit_logs :=
        db_audit_logs w @ [audit_log_row i now action entity actor entity_id details]\<rparr>"

end
