(* ===== verification/Security.thy ===== *)
theory Security
  imports World
begin

text \<open>
  \<^verbatim>\<open>app/core/security.py\<close> and \<^verbatim>\<open>app/utils/hashing.py\<close>: password hashing and the JSON web tokens.

  Code that is not in the repository is a field of \<^verbatim>\<open>externals\<close>, an argument of every definition
  that calls it: SHA-256 and HMAC (hex digests), argon2, the JWT library \<open>jose\<close>, the ILIKE
  operator of the database and the NFKD normalisation behind \<open>slugify\<close>. What a property needs of them
  is a named predicate over the record, documented behaviour of the library.
\<close>

section \<open>Token payloads and claims\<close>

text \<open>
  The payload given to \<open>jwt.encode\<close> has datetimes; decoded claims have whole seconds, and any
  of them may be missing from a token of another origin, so that \<open>claims.get\<close> is a field and
  \<open>claims[..]\<close> may raise KeyError.
\<close>

record token_payload =
  tp_sub :: string
  tp_role :: string
  tp_type :: string
  tp_jti :: string
  tp_iat :: int
  tp_exp :: int

record claims =
  c_sub :: "string option"
  c_role :: "string option"
  c_type :: "string option"
  c_jti :: "string option"
  c_iat :: "int option"
  c_exp :: "int option"

record externals =
  sha256_text :: "string \<Rightarrow> string"
  hmac_sha256 :: "string \<Rightarrow> string \<Rightarrow> string"
  argon2_hash :: "string \<Rightarrow> string \<Rightarrow> string"
  argon2_verify :: "string \<Rightarrow> string \<Rightarrow> bool"
  jwt_encode :: "token_payload \<Rightarrow> string \<Rightarrow> string \<Rightarrow> string"
  jwt_decode :: "string \<Rightarrow> string \<Rightarrow> string \<Rightarrow> int \<Rightarrow> claims option"
  ilike :: "string \<Rightarrow> string \<Rightarrow> bool"
  nfkd_ascii :: "string \<Rightarrow> string"

definition claims_of :: "token_payload \<Rightarrow> claims" where
  "claims_of p =
     \<lparr>c_sub = Some (tp_sub p), c_role = Some (tp_role p), c_type = Some (tp_type p),
      c_jti = Some (tp_jti p), c_iat = Some (timestamp (tp_iat p)),
      c_exp = Some (timestamp (tp_exp p))\<rparr>"

lemma claims_of_simps [simp]:
  "c_sub (claims_of p) = Some (tp_sub p)" "c_role (claims_of p) = Some (tp_role p)"
  "c_type (claims_of p) = Some (tp_type p)" "c_jti (claims_of p) = Some (tp_jti p)"
  "c_iat (claims_of p) = Some (timestamp (tp_iat p))"
  "c_exp (claims_of p) = Some (timestamp (tp_exp p))"
  by (simp_all add: claims_of_def)

text \<open>
  What the code relies on: a token decodes, with the key and the algorithm it was signed with,
  to the claims of its payload until its expiry second has passed and not afterwards; argon2
  verifies a password against its own hash and no other password against it; SHA-256 does not
  collide.
\<close>

definition jwt_laws :: "externals \<Rightarrow> bool" where
  "jwt_laws x \<longleftrightarrow> (\<forall>p key alg now.
     jwt_decode x (jwt_encode x p key alg) key alg now =
       (if timestamp now \<le> timestamp (tp_exp p) then Some (claims_of p) else None))"

definition argon2_laws :: "externals \<Rightarrow> bool" where
  "argon2_laws x \<longleftrightarrow> (\<forall>salt p q. argon2_verify x (argon2_hash x salt p) q = (p = q))"

definition sha256_injective :: "externals \<Rightarrow> bool" where
  "sha256_injective x \<longleftrightarrow> inj (sha256_text x)"

section \<open>Operations\<close>

text \<open>PasswordHasher.hash draws a random salt.\<close>

definition hash_password :: "externals \<Rightarrow> string \<Rightarrow> string \<Rightarrow> string" where
  "hash_password x salt password = argon2_hash x salt password"

definition verify_password :: "externals \<Rightarrow> string \<Rightarrow> string \<Rightarrow> bool" where
  "verify_password x password hashed_password = argon2_verify x hashed_password password"

definition create_token ::
  "externals \<Rightarrow> settings \<Rightarrow> string \<Rightarrow> int \<Rightarrow> string \<Rightarrow> string \<Rightarrow> string \<Rightarrow> int \<Rightarrow> string"
where
  "create_token x st jti now sbj role token_type expires_delta =
     jwt_encode x
       \<lparr>tp_sub = sbj, tp_role = role, tp_type = token_type, tp_jti = jti,
        tp_iat = now, tp_exp = now + expires_delta\<rparr>
       (jwt_secret_key st) (jwt_algorithm st)"

definition create_access_token ::
  "externals \<Rightarrow> settings \<Rightarrow> string \<Rightarrow> int \<Rightarrow> string \<Rightarrow> string \<Rightarrow> string"
where
  "create_access_token x st jti now sbj role =
     create_token x st jti now sbj role ''access'' (minutes (access_token_expire_minutes st))"

definition create_refresh_token ::
  "externals \<Rightarrow> settings \<Rightarrow> string \<Rightarrow> int \<Rightarrow> string \<Rightarrow> string \<Rightarrow> string"
where
  "create_refresh_token x st jti now sbj role =
     create_token x st jti now sbj role ''refresh'' (days (refresh_token_expire_days st))"

definition claims_expiration_to_datetime :: "claims \<Rightarrow> int res" where
  "claims_expiration_to_datetime c =
     (case c_exp c of None \<Rightarrow> Inl TypeError | Some e \<Rightarrow> Inr (seconds e))"

definition decode_token :: "externals \<Rightarrow> settings \<Rightarrow> int \<Rightarrow> string \<Rightarrow> claims res" where
  "decode_token x st now token =
     (case jwt_decode x token (jwt_secret_key st) (jwt_algorithm st) now of
        None \<Rightarrow> Inl (AuthenticationError ''Invalid token'')
      | Some c \<Rightarrow> Inr c)"

definition access_payload :: "settings \<Rightarrow> string \<Rightarrow> int \<Rightarrow> string \<Rightarrow> string \<Rightarrow> token_payload" where
  "access_payload st jti now sbj role =
     \<lparr>tp_sub = sbj, tp_role = role, tp_type = ''access'', tp_jti = jti, tp_iat = now,
      tp_exp = now + minutes (access_token_expire_minutes st)\<rparr>"

definition refresh_payload :: "settings \<Rightarrow> string \<Rightarrow> int \<Rightarrow> string \<Rightarrow> string \<Rightarrow> token_payload" where
  "refresh_payload st jti now sbj role =
     \<lparr>tp_sub = sbj, tp_role = role, tp_type = ''refresh'', tp_jti = jti, tp_iat = now,
      tp_exp = now + days (refresh_token_expire_days st)\<rparr>"

lemma decode_access_token:
  assumes "jwt_laws x"
  shows "decode_token x st now' (create_access_token x st jti now sbj role) =
    (if timestamp now' \<le> timestamp now + access_token_expire_minutes st * 60
     then Inr (claims_of (access_payload st jti now sbj role))
     else Inl (AuthenticationError ''Invalid token''))"
  using assms timestamp_add_seconds [of now "60 * access_token_expire_minutes st"]
  by (simp add: decode_token_def create_access_token_def create_token_def jwt_laws_def
      access_payload_def mult.commute)

lemma decode_refresh_token:
  assumes "jwt_laws x"
  shows "decode_token x st now' (create_refresh_token x st jti now sbj role) =
    (if timestamp now' \<le> timestamp now + refresh_token_expire_days st * 86400
     then Inr (claims_of (refresh_payload st jti now sbj role))
     else Inl (AuthenticationError ''Invalid token''))"
  using assms timestamp_add_seconds [of now "60 * (60 * (24 * refresh_token_expire_days st))"]
  by (simp add: decode_token_def create_refresh_token_def create_token_def jwt_laws_def
      refresh_payload_def mult.commute)

lemma verify_hash:
  "argon2_laws x \<Longrightarrow> verify_password x q (hash_password x salt p) = (p = q)"
  by (simp add: argon2_laws_def verify_password_def hash_password_def)

section \<open>Reference functions\<close>

text \<open>
  Functions that satisfy the laws, to evaluate operations on concrete inputs: a token is the
  list of its fields with every character marked and every field closed, a digest is its text
  with a mark, a password hash is the salt and the password.
\<close>

fun mark :: "string \<Rightarrow> string" where
  "mark [] = ''.''"
| "mark (c # cs) = CHR ''x'' # c # mark cs"

fun unmark :: "string \<Rightarrow> (string \<times> string) option" where
  "unmark (a # b # cs) =
     (if a = CHR ''x'' then map_option (\<lambda>(s, r). (b # s, r)) (unmark cs)
      else if a = CHR ''.'' then Some ([], b # cs) else None)"
| "unmark [a] = (if a = CHR ''.'' then Some ([], []) else None)"
| "unmark [] = None"

fun unmarks :: "nat \<Rightarrow> string \<Rightarrow> string list option" where
  "unmarks 0 s = (if s = [] then Some [] else None)"
| "unmarks (Suc n) s =
     (case unmark s of None \<Rightarrow> None | Some (f, r) \<Rightarrow> map_option (\<lambda>fs. f # fs) (unmarks n r))"

lemma unmark_mark [simp]: "unmark (mark s @ r) = Some (s, r)"
  by (induction s) (cases r; simp)+

lemma unmarks_marks: "unmarks (length fs) (concat (map mark fs)) = Some fs"
  by (induction fs) simp_all

definition reference_decode :: "string \<Rightarrow> string \<Rightarrow> string \<Rightarrow> int \<Rightarrow> claims option" where
  "reference_decode token key alg now =
     (case unmarks 8 token of
        Some [s, r, ty, j, i, e, k, a] \<Rightarrow>
          (case (python_int i, python_int e) of
             (Some iat, Some exp) \<Rightarrow>
               (if k = key \<and> a = alg \<and> timestamp now \<le> exp
                then Some \<lparr>c_sub = Some s, c_role = Some r, c_type = Some ty, c_jti = Some j,
                           c_iat = Some iat, c_exp = Some exp\<rparr>
                else None)
           | _ \<Rightarrow> None)
      | _ \<Rightarrow> None)"

definition reference_externals :: externals where
  "reference_externals =
     \<lparr>sha256_text = (\<lambda>s. CHR ''#'' # s),
      hmac_sha256 = (\<lambda>k s. mark k @ s),
      argon2_hash = (\<lambda>salt p. mark salt @ p),
      argon2_verify = (\<lambda>h p. (case unmark h of Some (_, q) \<Rightarrow> p = q | None \<Rightarrow> False)),
      jwt_encode = (\<lambda>p key alg. concat (map mark
        [tp_sub p, tp_role p, tp_type p, tp_jti p, str_int (timestamp (tp_iat p)),
         str_int (timestamp (tp_exp p)), key, alg])),
      jwt_decode = reference_decode,
      ilike = (\<lambda>s p. lower s = lower p),
      nfkd_ascii = filter (\<lambda>c. (of_char c :: nat) < 128)\<rparr>"

lemma reference_laws:
  "jwt_laws reference_externals" "argon2_laws reference_externals"
  "sha256_injective reference_externals"
proof -
  have "unmarks 8 (concat (map mark [a, b, c, d, e, f, g, h])) = Some [a, b, c, d, e, f, g, h]"
    for a b c d e f g h
    using unmarks_marks [of "[a, b, c, d, e, f, g, h]"] by (simp add: eval_nat_numeral)
  then show "jwt_laws reference_externals"
    by (simp only: jwt_laws_def reference_externals_def externals.simps reference_decode_def
        list.case option.case prod.case python_int_str_int claims_of_def) simp
  show "argon2_laws reference_externals"
    by (auto simp: argon2_laws_def reference_externals_def)
  show "sha256_injective reference_externals"
    by (simp add: sha256_injective_def reference_externals_def inj_def)
qed

end
