(* ===== verification/SecurityControls.thy ===== *)
theory SecurityControls
  imports Security
begin

text \<open>
  \<^verbatim>\<open>app/core/security_controls.py\<close>: the key-value store with its Redis and in-memory backends,
  the rate limiter with the login lockout, and the revocation store for access tokens.

  The Redis client is a parameter: a record of the commands the code sends, on a state of its
  own. The in-memory backend is the module's dictionary, modelled as it is written. Both keep
  the contract that the locale \<open>ttl_store\<close> states, and what the limiter and the revocation
  store need is proved from that contract once.
\<close>

section \<open>The key-value store\<close>

record 'r redis =
  redis_get :: "string \<Rightarrow> int \<Rightarrow> 'r \<Rightarrow> string option"
  redis_set :: "string \<Rightarrow> string \<Rightarrow> int \<Rightarrow> int \<Rightarrow> 'r \<Rightarrow> 'r"
  redis_delete :: "string list \<Rightarrow> int \<Rightarrow> 'r \<Rightarrow> 'r"
  redis_incr :: "string \<Rightarrow> int \<Rightarrow> 'r \<Rightarrow> int \<times> 'r"
  redis_expire :: "string \<Rightarrow> int \<Rightarrow> int \<Rightarrow> 'r \<Rightarrow> 'r"
  redis_ttl :: "string \<Rightarrow> int \<Rightarrow> 'r \<Rightarrow> int"

text \<open>\<open>_memory_store\<close>, and the client of a connected Redis backend.\<close>

record 'r kv =
  kv_memory :: "string \<Rightarrow> (string \<times> int option) option"
  kv_client :: "'r option"

definition clear_in_memory_security_store :: "'r kv \<Rightarrow> 'r kv" where
  "clear_in_memory_security_store s = s\<lparr>kv_memory := (\<lambda>_. None)\<rparr>"

definition key_prefix :: "settings \<Rightarrow> string" where
  "key_prefix st =
     (let p = strip_char (CHR '':'') (rate_limit_key_prefix st) in if p = [] then ''skh'' else p)"

definition namespaced :: "settings \<Rightarrow> string \<Rightarrow> string" where
  "namespaced st key = key_prefix st @ '':'' @ key"

definition allow_memory_fallback :: "settings \<Rightarrow> bool" where
  "allow_memory_fallback st = (rate_limit_in_memory_fallback st \<and> \<not> is_production st)"

definition is_available :: "settings \<Rightarrow> 'r kv \<Rightarrow> bool" where
  "is_available st s = (kv_client s \<noteq> None \<or> allow_memory_fallback st)"

definition delete_if_expired ::
  "string \<Rightarrow> int \<Rightarrow> (string \<Rightarrow> (string \<times> int option) option) \<Rightarrow>
   (string \<Rightarrow> (string \<times> int option) option)"
where
  "delete_if_expired key now mem =
     (case mem key of
        Some (_, Some t) \<Rightarrow> if t \<le> now then mem(key := None) else mem
      | _ \<Rightarrow> mem)"

definition store_get ::
  "'r redis \<Rightarrow> settings \<Rightarrow> string \<Rightarrow> int \<Rightarrow> 'r kv \<Rightarrow> string option \<times> 'r kv"
where
  "store_get r st key now s =
     (let k = namespaced st key in
      case kv_client s of
        Some c \<Rightarrow> (redis_get r k now c, s)
      | None \<Rightarrow>
          (if \<not> allow_memory_fallback st then (None, s)
           else let mem = delete_if_expired k now (kv_memory s)
                in (map_option fst (mem k), s\<lparr>kv_memory := mem\<rparr>)))"

definition store_set ::
  "'r redis \<Rightarrow> settings \<Rightarrow> string \<Rightarrow> string \<Rightarrow> int \<Rightarrow> int \<Rightarrow> 'r kv \<Rightarrow> 'r kv"
where
  "store_set r st key v ttl_seconds now s =
     (let k = namespaced st key; ttl = max ttl_seconds 1 in
      case kv_client s of
        Some c \<Rightarrow> s\<lparr>kv_client := Some (redis_set r k v ttl now c)\<rparr>
      | None \<Rightarrow>
          (if \<not> allow_memory_fallback st then s
           else s\<lparr>kv_memory := (kv_memory s)(k := Some (v, Some (now + seconds ttl)))\<rparr>))"

definition store_delete ::
  "'r redis \<Rightarrow> settings \<Rightarrow> string list \<Rightarrow> int \<Rightarrow> 'r kv \<Rightarrow> 'r kv"
where
  "store_delete r st keys now s =
     (let ks = map (namespaced st) keys in
      case kv_client s of
        Some c \<Rightarrow> (if ks = [] then s else s\<lparr>kv_client := Some (redis_delete r ks now c)\<rparr>)
      | None \<Rightarrow>
          (if \<not> allow_memory_fallback st then s
           else s\<lparr>kv_memory := foldl (\<lambda>m k. m(k := None)) (kv_memory s) ks\<rparr>))"

text \<open>int(stored_value) of a counter that is not a number raises ValueError, never seen here.\<close>

definition store_increment ::
  "'r redis \<Rightarrow> settings \<Rightarrow> string \<Rightarrow> int \<Rightarrow> int \<Rightarrow> 'r kv \<Rightarrow> int \<times> 'r kv"
where
  "store_increment r st key ttl_seconds now s =
     (let k = namespaced st key; ttl = max ttl_seconds 1 in
      case kv_client s of
        Some c \<Rightarrow>
          (let (n, c1) = redis_incr r k now c;
               c2 = (if n = 1 then redis_expire r k ttl now c1 else c1)
           in (n, s\<lparr>kv_client := Some c2\<rparr>))
      | None \<Rightarrow>
          (if \<not> allow_memory_fallback st then (1, s)
           else
             let mem = delete_if_expired k now (kv_memory s);
                 (stored, expires_at) = (case mem k of None \<Rightarrow> (''0'', None) | Some p \<Rightarrow> p);
                 n = the (python_int stored) + 1;
                 e = (case expires_at of None \<Rightarrow> now + seconds ttl | Some t \<Rightarrow> t)
             in (n, s\<lparr>kv_memory := mem(k := Some (str_int n, Some e))\<rparr>)))"

definition store_ttl ::
  "'r redis \<Rightarrow> settings \<Rightarrow> string \<Rightarrow> int \<Rightarrow> 'r kv \<Rightarrow> int option \<times> 'r kv"
where
  "store_ttl r st key now s =
     (let k = namespaced st key in
      case kv_client s of
        Some c \<Rightarrow> (let t = redis_ttl r k now c in (if 0 < t then Some t else None, s))
      | None \<Rightarrow>
          (if \<not> allow_memory_fallback st then (None, s)
           else let mem = delete_if_expired k now (kv_memory s)
                in (case mem k of
                      Some (_, Some t) \<Rightarrow> Some (max ((t - now) div 1000000) 1)
                    | _ \<Rightarrow> None, s\<lparr>kv_memory := mem\<rparr>)))"

section \<open>Identities\<close>

definition client_identity :: "string option \<Rightarrow> string" where
  \<comment> \<open>\<open>request.client.host\<close>, None without a client\<close>
  "client_identity host = or_else host ''unknown''"

definition hash_identity :: "externals \<Rightarrow> string option list \<Rightarrow> string" where
  "hash_identity x parts =
     sha256_text x (join ''|'' (map (\<lambda>p. lower (strip (the p))) (filter (\<lambda>p. p \<noteq> None) parts)))"

section \<open>The rate limiter\<close>

definition rate_key :: "externals \<Rightarrow> string \<Rightarrow> string \<Rightarrow> string" where
  "rate_key x scope identity = ''rl:'' @ scope @ '':'' @ hash_identity x [Some identity]"

definition check_rate ::
  "externals \<Rightarrow> 'r redis \<Rightarrow> settings \<Rightarrow> string \<Rightarrow> string \<Rightarrow> int \<Rightarrow> int \<Rightarrow> int \<Rightarrow> 'r kv \<Rightarrow> unit res \<times> 'r kv"
where
  "check_rate x r st scope identity max_requests window_seconds now s =
     (if \<not> rate_limit_enabled st then ok () s
      else if \<not> is_available st s
      then fail (RateLimitExceeded ''Rate limiting store is unavailable'' None) s
      else
        let key = rate_key x scope identity;
            (count, s1) = store_increment r st key window_seconds now s
        in if max_requests < count
           then let (retry_after, s2) = store_ttl r st key now s1
                in fail (RateLimitExceeded ''Too many requests''
                     (Some (scope, case retry_after of None \<Rightarrow> window_seconds | Some t \<Rightarrow> t))) s2
           else ok () s1)"

definition login_fail_key :: "externals \<Rightarrow> string option \<Rightarrow> string \<Rightarrow> string" where
  "login_fail_key x host email =
     ''bf:login:fail:'' @ hash_identity x [Some (client_identity host), Some email]"

definition login_lock_key :: "externals \<Rightarrow> string option \<Rightarrow> string \<Rightarrow> string" where
  "login_lock_key x host email =
     ''bf:login:lock:'' @ hash_identity x [Some (client_identity host), Some email]"

definition check_login_lockout ::
  "externals \<Rightarrow> 'r redis \<Rightarrow> settings \<Rightarrow> string option \<Rightarrow> string \<Rightarrow> int \<Rightarrow> 'r kv \<Rightarrow> unit res \<times> 'r kv"
where
  "check_login_lockout x r st host email now s =
     (if \<not> rate_limit_enabled st then ok () s
      else
        let lock_key = login_lock_key x host email;
            (flag, s1) = store_get r st lock_key now s
        in if truthy flag
           then let (retry_after, s2) = store_ttl r st lock_key now s1
                in fail (RateLimitExceeded ''Too many failed login attempts''
                     (Some (''auth.login.lockout'',
                            case retry_after of None \<Rightarrow> login_lockout_seconds st | Some t \<Rightarrow> t))) s2
           else ok () s1)"

definition record_login_failure ::
  "externals \<Rightarrow> 'r redis \<Rightarrow> settings \<Rightarrow> string option \<Rightarrow> string \<Rightarrow> int \<Rightarrow> 'r kv \<Rightarrow> unit res \<times> 'r kv"
where
  "record_login_failure x r st host email now s =
     (if \<not> rate_limit_enabled st then ok () s
      else
        let (attempts, s1) =
              store_increment r st (login_fail_key x host email) (login_lockout_window_seconds st) now s
        in if login_lockout_max_attempts st \<le> attempts
           then fail (RateLimitExceeded ''Too many failed login attempts''
                  (Some (''auth.login.lockout'', login_lockout_seconds st)))
                  (store_set r st (login_lock_key x host email) ''1'' (login_lockout_seconds st) now s1)
           else ok () s1)"

definition record_login_success ::
  "externals \<Rightarrow> 'r redis \<Rightarrow> settings \<Rightarrow> string option \<Rightarrow> string \<Rightarrow> int \<Rightarrow> 'r kv \<Rightarrow> 'r kv"
where
  "record_login_success x r st host email now s =
     store_delete r st [login_fail_key x host email, login_lock_key x host email] now s"

text \<open>The limits of the authentication endpoints.\<close>

definition check_login_rate where
  "check_login_rate x r st host email =
     check_rate x r st ''auth.login'' (hash_identity x [Some (client_identity host), Some email])
       (rate_limit_login_max_requests st) (rate_limit_login_window_seconds st)"

definition check_register_rate where
  "check_register_rate x r st host email =
     check_rate x r st ''auth.register'' (hash_identity x [Some (client_identity host), Some email])
       (rate_limit_register_max_requests st) (rate_limit_register_window_seconds st)"

definition check_password_reset_request_rate where
  "check_password_reset_request_rate x r st host email =
     check_rate x r st ''auth.password_reset.request''
       (hash_identity x [Some (client_identity host), Some email])
       (rate_limit_password_reset_request_max_requests st)
       (rate_limit_password_reset_request_window_seconds st)"

definition check_password_reset_confirm_rate where
  "check_password_reset_confirm_rate x r st host token =
     check_rate x r st ''auth.password_reset.confirm''
       (hash_identity x [Some (client_identity host), Some token])
       (rate_limit_password_reset_confirm_max_requests st)
       (rate_limit_password_reset_confirm_window_seconds st)"

definition check_refresh_rate where
  "check_refresh_rate x r st host refresh_token =
     check_rate x r st ''auth.refresh''
       (hash_identity x [Some (client_identity host), Some refresh_token])
       (rate_limit_refresh_max_requests st) (rate_limit_refresh_window_seconds st)"

definition check_sensitive_rate where
  "check_sensitive_rate x r st host identity scope =
     check_rate x r st scope (hash_identity x [Some (client_identity host), Some identity])
       (rate_limit_sensitive_max_requests st) (rate_limit_sensitive_window_seconds st)"

section \<open>Revocation of access tokens\<close>

definition revoked_access_key :: "string \<Rightarrow> string" where
  "revoked_access_key jti = ''auth:revoked_access:'' @ jti"

definition revoked_all_key :: "string \<Rightarrow> string" where
  "revoked_all_key user_id = ''auth:revoked_all_access:'' @ user_id"

definition revoke_claims ::
  "'r redis \<Rightarrow> settings \<Rightarrow> claims \<Rightarrow> int \<Rightarrow> 'r kv \<Rightarrow> unit res \<times> 'r kv"
where
  "revoke_claims r st c now s =
     (if \<not> access_token_revocation_enabled st then ok () s
      else if \<not> is_available st s
      then fail (AuthenticationError ''Token revocation store is unavailable'') s
      else if \<not> truthy (c_jti c) then ok () s
      else
        (case claims_expiration_to_datetime c of
           Inl e \<Rightarrow> fail e s
         | Inr expires_at \<Rightarrow>
             (let d = expires_at - now;
                  ttl_seconds = (if 0 \<le> d then d div 1000000 else - ((- d) div 1000000))
              in if ttl_seconds \<le> 0 then ok () s
                 else ok () (store_set r st (revoked_access_key (the (c_jti c))) ''1'' ttl_seconds now s))))"

definition revoke_token ::
  "externals \<Rightarrow> 'r redis \<Rightarrow> settings \<Rightarrow> string \<Rightarrow> int \<Rightarrow> 'r kv \<Rightarrow> unit res \<times> 'r kv"
where
  "revoke_token x r st token now s =
     (if \<not> access_token_revocation_enabled st then ok () s
      else
        (case decode_token x st now token of
           Inl _ \<Rightarrow> ok () s
         | Inr c \<Rightarrow>
             (if c_type c \<noteq> Some ''access'' then ok () s else revoke_claims r st c now s)))"

definition revoke_all_for_user ::
  "'r redis \<Rightarrow> settings \<Rightarrow> string \<Rightarrow> int \<Rightarrow> 'r kv \<Rightarrow> unit res \<times> 'r kv"
where
  "revoke_all_for_user r st user_id now s =
     (if \<not> access_token_revocation_enabled st then ok () s
      else if \<not> is_available st s
      then fail (AuthenticationError ''Token revocation store is unavailable'') s
      else ok () (store_set r st (revoked_all_key user_id) (str_int (timestamp now))
                    (access_token_expire_minutes st * 60) now s))"

definition ensure_not_revoked ::
  "'r redis \<Rightarrow> settings \<Rightarrow> claims \<Rightarrow> int \<Rightarrow> 'r kv \<Rightarrow> unit res \<times> 'r kv"
where
  "ensure_not_revoked r st c now s =
     (if \<not> access_token_revocation_enabled st then ok () s
      else if \<not> is_available st s
      then fail (AuthenticationError ''Token revocation store is unavailable'') s
      else if \<not> truthy (c_jti c) then fail (AuthenticationError ''Invalid access token'') s
      else
        let (flag, s1) = store_get r st (revoked_access_key (the (c_jti c))) now s
        in if truthy flag then fail (AuthenticationError ''Access token has been revoked'') s1
           else if \<not> truthy (c_sub c) then ok () s1
           else
             let (stamp, s2) = store_get r st (revoked_all_key (the (c_sub c))) now s1
             in if truthy stamp
                   \<and> (case c_iat c of None \<Rightarrow> 0 | Some i \<Rightarrow> i) \<le> the (python_int (the stamp))
                then fail (AuthenticationError ''Access token has been revoked due to security event'') s2
                else ok () s2)"

section \<open>The contract of the store\<close>

text \<open>
  What a client may rely on while the store is usable, for a clock that does not go back:
  a value put is visible for its time to live and to its key only, a deletion is final, a
  counter starts at one with a fresh time to live and then keeps its expiry.
\<close>

locale ttl_store =
  fixes usable :: "'s \<Rightarrow> bool"
    and visible :: "string \<Rightarrow> int \<Rightarrow> 's \<Rightarrow> string option"
    and get :: "string \<Rightarrow> int \<Rightarrow> 's \<Rightarrow> string option \<times> 's"
    and put :: "string \<Rightarrow> string \<Rightarrow> int \<Rightarrow> int \<Rightarrow> 's \<Rightarrow> 's"
    and remove :: "string list \<Rightarrow> int \<Rightarrow> 's \<Rightarrow> 's"
    and bump :: "string \<Rightarrow> int \<Rightarrow> int \<Rightarrow> 's \<Rightarrow> int \<times> 's"
    and remaining :: "string \<Rightarrow> int \<Rightarrow> 's \<Rightarrow> int option \<times> 's"
  assumes usable_get: "usable s \<Longrightarrow> usable (snd (get k t s))"
    and usable_put: "usable s \<Longrightarrow> usable (put k v n t s)"
    and usable_remove: "usable s \<Longrightarrow> usable (remove ks t s)"
    and usable_bump: "usable s \<Longrightarrow> usable (snd (bump k n t s))"
    and usable_remaining: "usable s \<Longrightarrow> usable (snd (remaining k t s))"
    and get_visible: "usable s \<Longrightarrow> fst (get k t s) = visible k t s"
    and visible_get: "usable s \<Longrightarrow> t \<le> t' \<Longrightarrow> visible k' t' (snd (get k t s)) = visible k' t' s"
    and visible_remaining:
      "usable s \<Longrightarrow> t \<le> t' \<Longrightarrow> visible k' t' (snd (remaining k t s)) = visible k' t' s"
    and visible_put: "usable s \<Longrightarrow> t \<le> t' \<Longrightarrow> visible k' t' (put k v n t s) =
      (if k' = k then (if t' < t + seconds (max n 1) then Some v else None) else visible k' t' s)"
    and visible_remove: "usable s \<Longrightarrow> t \<le> t' \<Longrightarrow> visible k' t' (remove ks t s) =
      (if k' \<in> set ks then None else visible k' t' s)"
    and bump_count: "usable s \<Longrightarrow>
      fst (bump k n t s) = (case visible k t s of None \<Rightarrow> 1 | Some v \<Rightarrow> the (python_int v) + 1)"
    and visible_bump:
      "usable s \<Longrightarrow> t \<le> t' \<Longrightarrow> (\<And>v. visible k t s = Some v \<Longrightarrow> 1 \<le> the (python_int v)) \<Longrightarrow>
       visible k' t' (snd (bump k n t s)) =
       (if k' \<noteq> k then visible k' t' s
        else case visible k t s of
               None \<Rightarrow> if t' < t + seconds (max n 1) then Some ''1'' else None
             | Some v \<Rightarrow> map_option (\<lambda>_. str_int (the (python_int v) + 1)) (visible k t' s))"
begin

text \<open>A counter that holds \<open>c\<close> until moment \<open>e\<close>, seen from moment \<open>t\<close> on.\<close>

definition counter :: "string \<Rightarrow> int \<Rightarrow> int \<Rightarrow> int \<Rightarrow> 's \<Rightarrow> bool" where
  "counter k c e t s \<longleftrightarrow> usable s \<and> 1 \<le> c \<and>
     (\<forall>t'\<ge>t. visible k t' s = (if t' < e then Some (str_int c) else None))"

lemma counter_start:
  assumes "usable s" "visible k t s = None"
  shows "fst (bump k n t s) = 1" "counter k 1 (t + seconds (max n 1)) t (snd (bump k n t s))"
proof -
  show "fst (bump k n t s) = 1" using assms by (simp add: bump_count)
  have one: "str_int 1 = ''1''" by code_simp
  have "visible k t' (snd (bump k n t s)) = (if t' < t + seconds (max n 1) then Some ''1'' else None)"
    if "t \<le> t'" for t'
    using visible_bump [OF assms(1) that, of k k n] assms(2) by simp
  with one show "counter k 1 (t + seconds (max n 1)) t (snd (bump k n t s))"
    using assms(1) by (simp add: counter_def usable_bump)
qed

lemma counter_step:
  assumes "counter k c e t0 s" "t0 \<le> t" "t < e"
  shows "fst (bump k n t s) = c + 1" "counter k (c + 1) e t (snd (bump k n t s))"
proof -
  have u: "usable s" and v: "visible k t s = Some (str_int c)" and c: "1 \<le> c"
    using assms by (auto simp: counter_def)
  show "fst (bump k n t s) = c + 1" using u v by (simp add: bump_count python_int_str_int)
  have "visible k t' (snd (bump k n t s)) = (if t' < e then Some (str_int (c + 1)) else None)"
    if "t \<le> t'" for t'
    using visible_bump [OF u that, of k k n] v c assms(1,2) that
    by (auto simp: python_int_str_int counter_def)
  then show "counter k (c + 1) e t (snd (bump k n t s))"
    using u c by (simp add: counter_def usable_bump)
qed

lemma counter_remaining: "counter k c e t s \<Longrightarrow> t \<le> t' \<Longrightarrow> counter k c e t' (snd (remaining k' t' s))"
  by (auto simp: counter_def visible_remaining usable_remaining)

lemma counter_later: "counter k c e t s \<Longrightarrow> t \<le> t' \<Longrightarrow> counter k c e t' s"
  by (auto simp: counter_def)

lemma counter_put: "counter k c e t s \<Longrightarrow> t \<le> t' \<Longrightarrow> k' \<noteq> k \<Longrightarrow> counter k c e t' (put k' v n t' s)"
  by (auto simp: counter_def visible_put usable_put)

lemma counter_usable: "counter k c e t s \<Longrightarrow> usable s"
  by (simp add: counter_def)

end

text \<open>
  The documented behaviour of the Redis commands: SET with EX, DEL, INCR, EXPIRE, and a clock
  that does not go back.
\<close>

definition redis_laws :: "'r redis \<Rightarrow> bool" where
  "redis_laws r \<longleftrightarrow>
     (\<forall>k v n t k' t' c. 1 \<le> n \<longrightarrow> t \<le> t' \<longrightarrow> redis_get r k' t' (redis_set r k v n t c) =
        (if k' = k then (if t' < t + seconds n then Some v else None) else redis_get r k' t' c)) \<and>
     (\<forall>ks t k' t' c. t \<le> t' \<longrightarrow> redis_get r k' t' (redis_delete r ks t c) =
        (if k' \<in> set ks then None else redis_get r k' t' c)) \<and>
     (\<forall>k t c. fst (redis_incr r k t c) =
        (case redis_get r k t c of None \<Rightarrow> 1 | Some v \<Rightarrow> the (python_int v) + 1)) \<and>
     (\<forall>k t k' t' c. t \<le> t' \<longrightarrow> redis_get r k' t' (snd (redis_incr r k t c)) =
        (if k' \<noteq> k then redis_get r k' t' c
         else case redis_get r k t c of
                None \<Rightarrow> Some ''1''
              | Some v \<Rightarrow> map_option (\<lambda>_. str_int (the (python_int v) + 1)) (redis_get r k t' c))) \<and>
     (\<forall>k n t k' t' c. 1 \<le> n \<longrightarrow> t \<le> t' \<longrightarrow> redis_get r k' t' (redis_expire r k n t c) =
        (if k' \<noteq> k then redis_get r k' t' c
         else if t' < t + seconds n then redis_get r k t c else None))"

text \<open>Every entry of the dictionary has an expiry: both writers give it one.\<close>

definition memory_expires :: "'r kv \<Rightarrow> bool" where
  "memory_expires s \<longleftrightarrow> (\<forall>k v. kv_memory s k \<noteq> Some (v, None))"

definition usable_store :: "'r redis \<Rightarrow> settings \<Rightarrow> 'r kv \<Rightarrow> bool" where
  "usable_store r st s =
     (memory_expires s \<and>
      (case kv_client s of None \<Rightarrow> allow_memory_fallback st | Some _ \<Rightarrow> redis_laws r))"

definition store_visible :: "'r redis \<Rightarrow> settings \<Rightarrow> string \<Rightarrow> int \<Rightarrow> 'r kv \<Rightarrow> string option" where
  "store_visible r st key now s = fst (store_get r st key now s)"

lemma namespaced_inj [simp]: "namespaced st a = namespaced st b \<longleftrightarrow> a = b"
  by (simp add: namespaced_def)

lemma usable_available: "usable_store r st s \<Longrightarrow> is_available st s"
  by (auto simp: usable_store_def is_available_def split: option.splits)

lemmas store_ops = store_get_def store_set_def store_delete_def store_increment_def store_ttl_def

lemma memory_visible:
  "kv_client s = None \<Longrightarrow> allow_memory_fallback st \<Longrightarrow>
   store_visible r st k t s =
     (case kv_memory s (namespaced st k) of
        Some (v, Some e) \<Rightarrow> if e \<le> t then None else Some v
      | Some (v, None) \<Rightarrow> Some v
      | None \<Rightarrow> None)"
  by (simp add: store_visible_def store_get_def delete_if_expired_def Let_def
      split: option.splits prod.splits)

lemma redis_visible:
  "kv_client s = Some c \<Longrightarrow> store_visible r st k t s = redis_get r (namespaced st k) t c"
  by (simp add: store_visible_def store_get_def Let_def)

lemma foldl_remove: "foldl (\<lambda>m k. m(k := None)) m ks k' = (if k' \<in> set ks then None else m k')"
  by (induction ks arbitrary: m) auto

lemma client_frames:
  "kv_client (snd (store_get r st k t s)) = kv_client s"
  "kv_client (snd (store_ttl r st k t s)) = kv_client s"
  "kv_client (store_set r st k v n t s) = None \<longleftrightarrow> kv_client s = None"
  "kv_client (store_delete r st ks t s) = None \<longleftrightarrow> kv_client s = None"
  "kv_client (snd (store_increment r st k n t s)) = None \<longleftrightarrow> kv_client s = None"
  by (simp_all add: store_ops Let_def split: option.splits prod.splits)

lemma memory_expires_frames:
  assumes "memory_expires s"
  shows "memory_expires (snd (store_get r st k t s))"
    and "memory_expires (snd (store_ttl r st k t s))"
    and "memory_expires (store_set r st k v n t s)"
    and "memory_expires (store_delete r st ks t s)"
    and "memory_expires (snd (store_increment r st k n t s))"
  using assms
  by (auto simp: memory_expires_def store_ops Let_def delete_if_expired_def foldl_remove
      split: option.splits prod.splits if_splits)

lemma usable_store_frames:
  "usable_store r st s \<Longrightarrow> usable_store r st (snd (store_get r st k t s))"
  "usable_store r st s \<Longrightarrow> usable_store r st (snd (store_ttl r st k t s))"
  "usable_store r st s \<Longrightarrow> usable_store r st (store_set r st k v n t s)"
  "usable_store r st s \<Longrightarrow> usable_store r st (store_delete r st ks t s)"
  "usable_store r st s \<Longrightarrow> usable_store r st (snd (store_increment r st k n t s))"
  using client_frames(1) [of r st k t s] client_frames(2) [of r st k t s]
    client_frames(3) [of r st k v n t s] client_frames(4) [of r st ks t s]
    client_frames(5) [of r st k n t s]
  by (auto simp: usable_store_def memory_expires_frames split: option.splits)

lemma redis_get_set:
  "redis_laws r \<Longrightarrow> 1 \<le> n \<Longrightarrow> t \<le> t' \<Longrightarrow> redis_get r k' t' (redis_set r k v n t c) =
     (if k' = k then (if t' < t + seconds n then Some v else None) else redis_get r k' t' c)"
  by (simp add: redis_laws_def)

lemma redis_get_delete:
  "redis_laws r \<Longrightarrow> t \<le> t' \<Longrightarrow> redis_get r k' t' (redis_delete r ks t c) =
     (if k' \<in> set ks then None else redis_get r k' t' c)"
  by (simp add: redis_laws_def)

lemma redis_incr_count:
  "redis_laws r \<Longrightarrow> fst (redis_incr r k t c) =
     (case redis_get r k t c of None \<Rightarrow> 1 | Some v \<Rightarrow> the (python_int v) + 1)"
  by (simp add: redis_laws_def)

lemma redis_get_incr:
  "redis_laws r \<Longrightarrow> t \<le> t' \<Longrightarrow> redis_get r k' t' (snd (redis_incr r k t c)) =
     (if k' \<noteq> k then redis_get r k' t' c
      else case redis_get r k t c of
             None \<Rightarrow> Some ''1''
           | Some v \<Rightarrow> map_option (\<lambda>_. str_int (the (python_int v) + 1)) (redis_get r k t' c))"
  by (simp add: redis_laws_def)

lemma redis_get_expire:
  "redis_laws r \<Longrightarrow> 1 \<le> n \<Longrightarrow> t \<le> t' \<Longrightarrow> redis_get r k' t' (redis_expire r k n t c) =
     (if k' \<noteq> k then redis_get r k' t' c
      else if t' < t + seconds n then redis_get r k t c else None)"
  by (simp add: redis_laws_def)

text \<open>Each law, for the memory dictionary and for Redis.\<close>

lemma store_cases:
  assumes "usable_store r st s"
  obtains (memory) "kv_client s = None" "allow_memory_fallback st" "memory_expires s"
    | (client) c where "kv_client s = Some c" "redis_laws r"
  using assms by (cases "kv_client s") (auto simp: usable_store_def)

lemma store_visible_get:
  assumes "usable_store r st s" "t \<le> t'"
  shows "store_visible r st k' t' (snd (store_get r st k t s)) = store_visible r st k' t' s"
  using assms(1)
proof (cases rule: store_cases)
  case memory
  with assms(2) show ?thesis
    by (simp add: memory_visible client_frames)
      (auto simp: store_get_def delete_if_expired_def Let_def split: option.splits prod.splits)
next
  case (client c)
  then show ?thesis by (simp add: redis_visible client_frames)
qed

lemma store_visible_ttl:
  assumes "usable_store r st s" "t \<le> t'"
  shows "store_visible r st k' t' (snd (store_ttl r st k t s)) = store_visible r st k' t' s"
  using assms(1)
proof (cases rule: store_cases)
  case memory
  with assms(2) show ?thesis
    by (simp add: memory_visible client_frames)
      (auto simp: store_ttl_def delete_if_expired_def Let_def split: option.splits prod.splits)
next
  case (client c)
  then show ?thesis by (simp add: redis_visible client_frames)
qed

lemma store_visible_set:
  assumes "usable_store r st s" "t \<le> t'"
  shows "store_visible r st k' t' (store_set r st k v n t s) =
    (if k' = k then (if t' < t + seconds (max n 1) then Some v else None)
     else store_visible r st k' t' s)"
  using assms(1)
proof (cases rule: store_cases)
  case memory
  then show ?thesis
    by (simp add: memory_visible client_frames) (simp add: store_set_def Let_def)
next
  case (client c)
  with assms(2) have "kv_client (store_set r st k v n t s) =
      Some (redis_set r (namespaced st k) v (max n 1) t c)"
    by (simp add: store_set_def Let_def)
  with client assms(2) show ?thesis by (simp add: redis_visible redis_get_set)
qed

lemma store_visible_delete:
  assumes "usable_store r st s" "t \<le> t'"
  shows "store_visible r st k' t' (store_delete r st ks t s) =
    (if k' \<in> set ks then None else store_visible r st k' t' s)"
  using assms(1)
proof (cases rule: store_cases)
  case memory
  then show ?thesis
    by (simp add: memory_visible client_frames)
      (auto simp: store_delete_def Let_def foldl_remove image_iff split: option.splits)
next
  case (client c)
  show ?thesis
  proof (cases ks)
    case Nil
    with client show ?thesis by (simp add: store_delete_def redis_visible)
  next
    case (Cons k0 ks0)
    with client have "kv_client (store_delete r st ks t s) =
        Some (redis_delete r (map (namespaced st) ks) t c)"
      by (simp add: store_delete_def Let_def)
    with client assms(2) show ?thesis
      by (auto simp: redis_visible redis_get_delete)
  qed
qed

lemma store_increment_count:
  assumes "usable_store r st s"
  shows "fst (store_increment r st k n t s) =
    (case store_visible r st k t s of None \<Rightarrow> 1 | Some v \<Rightarrow> the (python_int v) + 1)"
  using assms
proof (cases rule: store_cases)
  case memory
  have "python_int ''0'' = Some 0" by code_simp
  with memory show ?thesis
    by (simp add: memory_visible)
      (auto simp: store_increment_def delete_if_expired_def Let_def split: option.splits prod.splits)
next
  case (client c)
  then show ?thesis
    by (simp add: redis_visible store_increment_def Let_def redis_incr_count split: prod.splits)
      (metis fst_conv redis_incr_count)
qed

lemma store_visible_increment:
  assumes "usable_store r st s" "t \<le> t'"
    and pos: "\<And>v. store_visible r st k t s = Some v \<Longrightarrow> 1 \<le> the (python_int v)"
  shows "store_visible r st k' t' (snd (store_increment r st k n t s)) =
    (if k' \<noteq> k then store_visible r st k' t' s
     else case store_visible r st k t s of
            None \<Rightarrow> if t' < t + seconds (max n 1) then Some ''1'' else None
          | Some v \<Rightarrow> map_option (\<lambda>_. str_int (the (python_int v) + 1)) (store_visible r st k t' s))"
  using assms(1)
proof (cases rule: store_cases)
  case memory
  have "python_int ''0'' = Some 0" "str_int 1 = ''1''" by code_simp+
  with memory assms(2) show ?thesis
    by (simp add: memory_visible client_frames)
      (auto simp: store_increment_def delete_if_expired_def Let_def memory_expires_def memory_visible
        split: option.splits prod.splits)
next
  case (client c)
  let ?k = "namespaced st k"
  obtain m c1 where mc: "redis_incr r ?k t c = (m, c1)" by fastforce
  have m: "m = (case redis_get r ?k t c of None \<Rightarrow> 1 | Some v \<Rightarrow> the (python_int v) + 1)"
    using redis_incr_count [OF client(2), of ?k t c] mc by simp
  have c1: "redis_get r k'' t'' c1 =
      (if k'' \<noteq> ?k then redis_get r k'' t'' c
       else case redis_get r ?k t c of
              None \<Rightarrow> Some ''1''
            | Some v \<Rightarrow> map_option (\<lambda>_. str_int (the (python_int v) + 1)) (redis_get r ?k t'' c))"
    if "t \<le> t''" for k'' t''
    using redis_get_incr [OF client(2) that, of k'' ?k c] mc by simp
  have fresh: "m = 1 \<longleftrightarrow> redis_get r ?k t c = None"
    using m pos client by (fastforce simp: redis_visible split: option.splits)
  have st: "kv_client (snd (store_increment r st k n t s)) =
      Some (if m = 1 then redis_expire r ?k (max n 1) t c1 else c1)"
    using client mc by (simp add: store_increment_def Let_def)
  show ?thesis
    using client assms(2) fresh
    by (cases "redis_get r ?k t c")
      (simp_all add: redis_visible [OF st] redis_visible [OF client(1)] redis_get_expire c1)
qed

text \<open>The store keeps the contract, in memory and on Redis.\<close>

interpretation kv_store: ttl_store "usable_store r st" "store_visible r st" "store_get r st"
    "store_set r st" "store_delete r st" "store_increment r st" "store_ttl r st"
  for r :: "'r redis" and st :: settings
proof (unfold_locales, goal_cases)
  case (6 s k t)
  then show ?case by (simp add: store_visible_def)
next
  case (11 s k n t)
  then show ?case by (rule store_increment_count)
qed (assumption | rule usable_store_frames store_visible_get store_visible_ttl store_visible_set
    store_visible_delete store_visible_increment)+

section \<open>The limiter\<close>

text \<open>A run of the limiter: one check at each moment.\<close>

fun run_checks ::
  "externals \<Rightarrow> 'r redis \<Rightarrow> settings \<Rightarrow> string \<Rightarrow> string \<Rightarrow> int \<Rightarrow> int \<Rightarrow> int list \<Rightarrow> 'r kv \<Rightarrow>
   bool list \<times> 'r kv"
where
  "run_checks x r st scope identity m win [] s = ([], s)"
| "run_checks x r st scope identity m win (t # ts) s =
     (let (result, s1) = check_rate x r st scope identity m win t s;
          (results, s2) = run_checks x r st scope identity m win ts s1
      in (is_ok result # results, s2))"

lemma check_rate_counter:
  assumes on: "rate_limit_enabled st"
    and c: "kv_store.counter r st (rate_key x scope identity) c e t0 s" and t: "t0 \<le> t" "t < e"
  shows "is_ok (fst (check_rate x r st scope identity m win t s)) \<longleftrightarrow> c + 1 \<le> m"
    and "kv_store.counter r st (rate_key x scope identity) (c + 1) e t
           (snd (check_rate x r st scope identity m win t s))"
proof -
  let ?k = "rate_key x scope identity"
  have av: "is_available st s" using c by (rule usable_available [OF kv_store.counter_usable])
  obtain s1 where inc: "store_increment r st ?k win t s = (c + 1, s1)"
    using kv_store.counter_step(1) [OF c t] by (metis prod.collapse)
  have c1: "kv_store.counter r st ?k (c + 1) e t s1"
    using kv_store.counter_step(2) [OF c t, of win] inc by simp
  show "is_ok (fst (check_rate x r st scope identity m win t s)) \<longleftrightarrow> c + 1 \<le> m"
    using on av inc by (auto simp: check_rate_def Let_def split: prod.splits)
  show "kv_store.counter r st ?k (c + 1) e t (snd (check_rate x r st scope identity m win t s))"
    using on av inc c1 kv_store.counter_remaining [OF c1 order_refl, of ?k]
    by (auto simp: check_rate_def Let_def split: prod.splits)
qed

lemma check_rate_first:
  assumes on: "rate_limit_enabled st" and u: "usable_store r st s"
    and free: "store_visible r st (rate_key x scope identity) t s = None"
  shows "is_ok (fst (check_rate x r st scope identity m win t s)) \<longleftrightarrow> 1 \<le> m"
    and "kv_store.counter r st (rate_key x scope identity) 1 (t + seconds (max win 1)) t
           (snd (check_rate x r st scope identity m win t s))"
proof -
  let ?k = "rate_key x scope identity"
  have av: "is_available st s" using u by (rule usable_available)
  obtain s1 where inc: "store_increment r st ?k win t s = (1, s1)"
    using kv_store.counter_start(1) [OF u free] by (metis prod.collapse)
  have c1: "kv_store.counter r st ?k 1 (t + seconds (max win 1)) t s1"
    using kv_store.counter_start(2) [OF u free, of win] inc by simp
  show "is_ok (fst (check_rate x r st scope identity m win t s)) \<longleftrightarrow> 1 \<le> m"
    using on av inc by (auto simp: check_rate_def Let_def split: prod.splits)
  show "kv_store.counter r st ?k 1 (t + seconds (max win 1)) t
      (snd (check_rate x r st scope identity m win t s))"
    using on av inc c1 kv_store.counter_remaining [OF c1 order_refl, of ?k]
    by (auto simp: check_rate_def Let_def split: prod.splits)
qed

lemma run_checks_counter:
  assumes "rate_limit_enabled st"
    and "kv_store.counter r st (rate_key x scope identity) c e t0 s"
    and "sorted (t0 # ts)" "\<forall>t\<in>set ts. t < e"
  shows "fst (run_checks x r st scope identity m win ts s) =
      map (\<lambda>i. c + int i + 1 \<le> m) [0..<length ts] \<and>
    (\<exists>c'. kv_store.counter r st (rate_key x scope identity) c' e (last (t0 # ts))
       (snd (run_checks x r st scope identity m win ts s)))"
  using assms(2-)
proof (induction ts arbitrary: c t0 s)
  case (Cons t ts)
  then have t: "t0 \<le> t" "t < e" by auto
  obtain res s1 where step: "check_rate x r st scope identity m win t s = (res, s1)" by fastforce
  have res: "is_ok res \<longleftrightarrow> c + 1 \<le> m"
    and c1: "kv_store.counter r st (rate_key x scope identity) (c + 1) e t s1"
    using check_rate_counter [OF assms(1) Cons.prems(1) t, where m = m and win = win] step by auto
  have IH: "fst (run_checks x r st scope identity m win ts s1) =
      map (\<lambda>i. c + 1 + int i + 1 \<le> m) [0..<length ts] \<and>
    (\<exists>c'. kv_store.counter r st (rate_key x scope identity) c' e (last (t # ts))
       (snd (run_checks x r st scope identity m win ts s1)))"
    by (rule Cons.IH [OF c1]) (use Cons.prems in auto)
  have shift: "map (\<lambda>i. c + int i + 1 \<le> m) [0..<Suc n] =
      (c + 1 \<le> m) # map (\<lambda>i. c + 1 + int i + 1 \<le> m) [0..<n]" for n
    by (simp add: map_upt_Suc algebra_simps del: upt_Suc)
  obtain rs s2 where run: "run_checks x r st scope identity m win ts s1 = (rs, s2)" by fastforce
  show ?case using IH by (simp add: step run res shift del: upt_Suc)
qed auto

text \<open>
  C17. In a window that starts with the first request of an identity, the limiter admits
  exactly the first \<open>max_requests\<close> requests and refuses every later one, whatever the moments,
  and when the window is over nothing of it is left: the next request starts a new one.
\<close>

theorem limiter_admits_first_max:
  assumes "usable_store r st s" "rate_limit_enabled st"
    and "store_visible r st (rate_key x scope identity) t s = None"
    and "sorted (t # ts)" "\<forall>t'\<in>set ts. t' < t + seconds (max win 1)"
  shows "fst (run_checks x r st scope identity m win (t # ts) s) =
      map (\<lambda>i. int i < m) [0..<Suc (length ts)] \<and>
    (\<forall>t'\<ge>t + seconds (max win 1).
      store_visible r st (rate_key x scope identity) t'
        (snd (run_checks x r st scope identity m win (t # ts) s)) = None)"
proof -
  let ?k = "rate_key x scope identity" and ?e = "t + seconds (max win 1)"
  obtain res s1 where step: "check_rate x r st scope identity m win t s = (res, s1)" by fastforce
  obtain rs s2 where run: "run_checks x r st scope identity m win ts s1 = (rs, s2)" by fastforce
  have res: "is_ok res \<longleftrightarrow> 1 \<le> m" and c1: "kv_store.counter r st ?k 1 ?e t s1"
    using check_rate_first [OF assms(2,1,3), where m = m and win = win] step by auto
  have rs: "rs = map (\<lambda>i. 1 + int i + 1 \<le> m) [0..<length ts]"
    and "\<exists>c'. kv_store.counter r st ?k c' ?e (last (t # ts)) s2"
    using run_checks_counter [OF assms(2) c1 assms(4,5), where m = m and win = win] run by auto
  moreover have "last (t # ts) \<le> t'" if "?e \<le> t'" for t'
  proof (cases "ts = []")
    case False
    then have "last ts < ?e" using assms(5) by simp
    with that False show ?thesis by simp
  qed (use that in auto)
  ultimately have "\<forall>t'\<ge>?e. store_visible r st ?k t' s2 = None"
    by (auto simp: kv_store.counter_def)
  moreover have "map (\<lambda>i. int i < m) [0..<Suc n] =
      (1 \<le> m) # map (\<lambda>i. 1 + int i + 1 \<le> m) [0..<n]" for n
    by (simp add: map_upt_Suc del: upt_Suc) (auto simp: add.commute)
  ultimately show ?thesis by (simp add: step run res rs del: upt_Suc)
qed

section \<open>The lockout\<close>

fun run_failures ::
  "externals \<Rightarrow> 'r redis \<Rightarrow> settings \<Rightarrow> string option \<Rightarrow> string \<Rightarrow> int list \<Rightarrow> 'r kv \<Rightarrow> 'r kv"
where
  "run_failures x r st host email [] s = s"
| "run_failures x r st host email (t # ts) s =
     run_failures x r st host email ts (snd (record_login_failure x r st host email t s))"

lemma lock_fail_keys [simp]:
  "login_lock_key x host email \<noteq> login_fail_key x host email"
  "login_fail_key x host email \<noteq> login_lock_key x host email"
  by (simp_all add: login_lock_key_def login_fail_key_def)

text \<open>The lock as it stands after \<open>c\<close> failures, the last one at moment \<open>t\<close>.\<close>

definition lock_state ::
  "externals \<Rightarrow> 'r redis \<Rightarrow> settings \<Rightarrow> string option \<Rightarrow> string \<Rightarrow> int \<Rightarrow> int \<Rightarrow> 'r kv \<Rightarrow> bool"
where
  "lock_state x r st host email c t s \<longleftrightarrow>
     (\<forall>t'\<ge>t. store_visible r st (login_lock_key x host email) t' s =
       (if login_lockout_max_attempts st \<le> c \<and> t' < t + seconds (max (login_lockout_seconds st) 1)
        then Some ''1'' else None))"

lemma record_failure_step:
  fixes x :: externals
  defines "fk \<equiv> login_fail_key x" and "win \<equiv> \<lambda>st. login_lockout_window_seconds st"
  assumes on: "rate_limit_enabled st"
    and inc: "fst (store_increment r st (fk host email) (win st) t s) = c"
    and cnt: "kv_store.counter r st (fk host email) c e t
                (snd (store_increment r st (fk host email) (win st) t s))"
    and u: "usable_store r st s"
    and lock: "\<forall>t'\<ge>t. login_lockout_max_attempts st \<le> c \<or>
                 store_visible r st (login_lock_key x host email) t' s = None"
    and pos: "\<And>v. store_visible r st (fk host email) t s = Some v \<Longrightarrow> 1 \<le> the (python_int v)"
  shows "kv_store.counter r st (fk host email) c e t
           (snd (record_login_failure x r st host email t s))"
    and "lock_state x r st host email c t (snd (record_login_failure x r st host email t s))"
proof -
  obtain s1 where s1: "store_increment r st (fk host email) (win st) t s = (c, s1)"
    using inc by (metis prod.collapse)
  have cnt1: "kv_store.counter r st (fk host email) c e t s1" using cnt s1 by simp
  have u1: "usable_store r st s1" using cnt1 by (rule kv_store.counter_usable)
  have lock1: "store_visible r st (login_lock_key x host email) t' s1 =
      store_visible r st (login_lock_key x host email) t' s" if "t \<le> t'" for t'
    using kv_store.visible_bump [where k = "login_fail_key x host email"
        and k' = "login_lock_key x host email" and n = "win st", OF u that pos [unfolded fk_def]] s1
    by (simp add: fk_def)
  show "kv_store.counter r st (fk host email) c e t
      (snd (record_login_failure x r st host email t s))"
    using on s1 cnt1 kv_store.counter_put [OF cnt1 order_refl, of "login_lock_key x host email"]
    by (simp add: record_login_failure_def fk_def win_def)
  show "lock_state x r st host email c t (snd (record_login_failure x r st host email t s))"
    using on s1 lock lock1 kv_store.visible_put [OF u1]
    by (auto simp: record_login_failure_def lock_state_def fk_def win_def)
qed

lemma run_failures_counter:
  assumes on: "rate_limit_enabled st"
    and "kv_store.counter r st (login_fail_key x host email) c e t0 s"
    and "lock_state x r st host email c t0 s"
    and "sorted (t0 # ts)" "\<forall>t\<in>set ts. t < e"
  shows "usable_store r st (run_failures x r st host email ts s) \<and>
    lock_state x r st host email (c + int (length ts)) (last (t0 # ts))
      (run_failures x r st host email ts s)"
  using assms(2-)
proof (induction ts arbitrary: c t0 s)
  case Nil
  then show ?case by (simp add: kv_store.counter_usable)
next
  case (Cons t ts)
  then have t: "t0 \<le> t" "t < e" by auto
  note step = kv_store.counter_step [OF Cons.prems(1) t]
  have u: "usable_store r st s" using Cons.prems(1) by (rule kv_store.counter_usable)
  have pos: "1 \<le> the (python_int v)"
    if "store_visible r st (login_fail_key x host email) t s = Some v" for v
    using that Cons.prems(1) t by (auto simp: kv_store.counter_def python_int_str_int)
  have lock: "\<forall>t'\<ge>t. login_lockout_max_attempts st \<le> c + 1 \<or>
      store_visible r st (login_lock_key x host email) t' s = None"
    using Cons.prems(2) t by (auto simp: lock_state_def)
  show ?case
    using Cons.IH [OF record_failure_step [OF on step u lock pos]] Cons.prems(3,4)
    by (simp add: add.assoc)
qed

text \<open>
  After failed logins of an account from a client, all in one window, logins are locked
  out exactly when there were at least \<open>login_lockout_max_attempts\<close> of them and the lockout
  time since the last one has not passed.
\<close>

theorem lockout_after_max_failures:
  assumes "usable_store r st s" "rate_limit_enabled st"
    and "store_visible r st (login_fail_key x host email) t s = None"
    and "\<forall>t'\<ge>t. store_visible r st (login_lock_key x host email) t' s = None"
    and "sorted (t # ts)" "\<forall>t'\<in>set ts. t' < t + seconds (max (login_lockout_window_seconds st) 1)"
    and "last (t # ts) \<le> now"
  shows "is_ok (fst (check_login_lockout x r st host email now
             (run_failures x r st host email (t # ts) s))) \<longleftrightarrow>
    int (length (t # ts)) < login_lockout_max_attempts st \<or>
    last (t # ts) + seconds (max (login_lockout_seconds st) 1) \<le> now"
proof -
  let ?fk = "login_fail_key x host email"
  note step = record_failure_step [OF assms(2) kv_store.counter_start [OF assms(1,3)] assms(1)]
  have s1: "kv_store.counter r st ?fk 1 (t + seconds (max (login_lockout_window_seconds st) 1)) t
      (snd (record_login_failure x r st host email t s))"
    and l1: "lock_state x r st host email 1 t (snd (record_login_failure x r st host email t s))"
    using step assms(3,4) by simp_all
  let ?s = "run_failures x r st host email (t # ts) s"
  have u: "usable_store r st ?s"
    and l: "lock_state x r st host email (int (length (t # ts))) (last (t # ts)) ?s"
    using run_failures_counter [OF assms(2) s1 l1 assms(5,6)] by simp_all
  obtain flag s2 where g: "store_get r st (login_lock_key x host email) now ?s = (flag, s2)"
    by fastforce
  have "flag = store_visible r st (login_lock_key x host email) now ?s"
    using kv_store.get_visible [OF u, of "login_lock_key x host email" now] g by simp
  with l assms(7) have "flag = (if login_lockout_max_attempts st \<le> int (length (t # ts))
      \<and> now < last (t # ts) + seconds (max (login_lockout_seconds st) 1) then Some ''1'' else None)"
    by (simp only: lock_state_def)
  then show ?thesis
    using assms(2) g
    by (auto simp: check_login_lockout_def Let_def simp del: run_failures.simps split: prod.splits)
qed

text \<open>
  A successful login clears both the lock and the count of failures, so the next window
  of failures starts afresh.
\<close>

theorem success_clears_lockout:
  assumes "usable_store r st s" "rate_limit_enabled st" "t \<le> now"
  shows "is_ok (fst (check_login_lockout x r st host email now
             (record_login_success x r st host email t s))) \<and>
    store_visible r st (login_fail_key x host email) now
      (record_login_success x r st host email t s) = None"
proof -
  let ?s = "record_login_success x r st host email t s"
  have u: "usable_store r st ?s"
    using kv_store.usable_remove [OF assms(1)] by (simp add: record_login_success_def)
  have v: "store_visible r st k now ?s = None"
    if "k \<in> {login_fail_key x host email, login_lock_key x host email}" for k
    using kv_store.visible_remove [OF assms(1,3)] that by (auto simp: record_login_success_def)
  obtain flag s2 where g: "store_get r st (login_lock_key x host email) now ?s = (flag, s2)"
    by fastforce
  with kv_store.get_visible [OF u, of "login_lock_key x host email" now] v have "flag = None" by simp
  with g assms(2) v show ?thesis by (simp add: check_login_lockout_def)
qed

section \<open>Revocation\<close>

lemma revocation_keys [simp]:
  "revoked_access_key a = revoked_access_key b \<longleftrightarrow> a = b"
  "revoked_all_key a = revoked_all_key b \<longleftrightarrow> a = b"
  "revoked_access_key a \<noteq> revoked_all_key b" "revoked_all_key b \<noteq> revoked_access_key a"
  by (simp_all add: revoked_access_key_def revoked_all_key_def)

text \<open>The verdict of \<open>ensure_not_revoked\<close>, read off the two visible flags.\<close>

lemma ensure_not_revoked_verdict:
  assumes u: "usable_store r st s" and on: "access_token_revocation_enabled st"
    and j: "c_jti c = Some jti" "jti \<noteq> []" and u_id: "c_sub c = Some uid" "uid \<noteq> []"
  shows "fst (ensure_not_revoked r st c now s) =
    (if truthy (store_visible r st (revoked_access_key jti) now s)
     then Inl (AuthenticationError ''Access token has been revoked'')
     else if truthy (store_visible r st (revoked_all_key uid) now s)
          \<and> (case c_iat c of None \<Rightarrow> 0 | Some i \<Rightarrow> i)
            \<le> the (python_int (the (store_visible r st (revoked_all_key uid) now s)))
     then Inl (AuthenticationError ''Access token has been revoked due to security event'')
     else Inr ())"
proof -
  obtain flag s1 where g: "store_get r st (revoked_access_key jti) now s = (flag, s1)" by fastforce
  obtain stamp s2 where h: "store_get r st (revoked_all_key uid) now s1 = (stamp, s2)" by fastforce
  have "flag = store_visible r st (revoked_access_key jti) now s"
    using kv_store.get_visible [OF u, of "revoked_access_key jti" now] g by simp
  moreover have "usable_store r st s1" using kv_store.usable_get [OF u] g by (metis snd_conv)
  then have "stamp = store_visible r st (revoked_all_key uid) now s"
    using kv_store.get_visible [of r st s1 "revoked_all_key uid" now] h
      kv_store.visible_get [OF u order_refl, of "revoked_all_key uid" now "revoked_access_key jti"] g
    by simp
  ultimately show ?thesis
    using on usable_available [OF u] j u_id g h
    by (auto simp: ensure_not_revoked_def Let_def)
qed

text \<open>int of a timedelta's seconds, for a future moment\<close>

definition revocation_ttl :: "claims \<Rightarrow> int \<Rightarrow> int" where
  "revocation_ttl c now = (seconds (the (c_exp c)) - now) div 1000000"

lemma revoke_claims_effect:
  assumes "usable_store r st s" "access_token_revocation_enabled st"
    and "c_jti c = Some jti" "jti \<noteq> []" "c_exp c = Some e" "1 \<le> revocation_ttl c now"
  shows "revoke_claims r st c now s =
    ok () (store_set r st (revoked_access_key jti) ''1'' (revocation_ttl c now) now s)"
  using assms(2-) usable_available [OF assms(1)]
  by (simp add: revoke_claims_def claims_expiration_to_datetime_def revocation_ttl_def Let_def)

text \<open>
  Revoking an access token that has at least a second to live refuses it at once and for
  every whole second it has left, to the second: exactly \<open>(exp - now) div 1s\<close> seconds, after
  which the entry is gone (up to one second before the token itself expires). Claims with
  another jti are not affected.
\<close>

theorem revoked_token_is_refused:
  assumes "usable_store r st s" "access_token_revocation_enabled st"
    and "decode_token x st t token = Inr c" "c_type c = Some ''access''"
    and "c_jti c = Some jti" "jti \<noteq> []" "c_exp c = Some e" "1 \<le> revocation_ttl c t"
    and "c_sub c' = Some uid" "uid \<noteq> []" "c_jti c' = Some jti'" "jti' \<noteq> []" "t \<le> now"
  shows "fst (ensure_not_revoked r st c' now (snd (revoke_token x r st token t s))) =
    (if jti' = jti \<and> now < t + seconds (revocation_ttl c t)
     then Inl (AuthenticationError ''Access token has been revoked'')
     else if jti' = jti
     then fst (ensure_not_revoked r st c' now (store_delete r st [revoked_access_key jti] t s))
     else fst (ensure_not_revoked r st c' now s))"
proof -
  let ?s = "store_set r st (revoked_access_key jti) ''1'' (revocation_ttl c t) t s"
  let ?d = "store_delete r st [revoked_access_key jti] t s"
  have rev: "snd (revoke_token x r st token t s) = ?s"
    using assms(2-4) revoke_claims_effect [OF assms(1,2,5-8)] by (simp add: revoke_token_def)
  have u: "usable_store r st ?s" "usable_store r st ?d"
    using assms(1) by (auto intro: kv_store.usable_put kv_store.usable_remove)
  have vs: "store_visible r st (revoked_access_key jti') now ?s =
      (if jti' = jti then (if now < t + seconds (revocation_ttl c t) then Some ''1'' else None)
       else store_visible r st (revoked_access_key jti') now s)"
    "store_visible r st (revoked_all_key uid) now ?s = store_visible r st (revoked_all_key uid) now s"
    using kv_store.visible_put [OF assms(1,13)] assms(8) by simp_all
  have vd: "store_visible r st (revoked_access_key jti) now ?d = None"
    "store_visible r st (revoked_all_key uid) now ?d = store_visible r st (revoked_all_key uid) now s"
    using kv_store.visible_remove [OF assms(1,13)] by simp_all
  note verdict = ensure_not_revoked_verdict [OF _ assms(2,11,12,9,10)]
  show ?thesis
    by (simp only: rev verdict [OF u(1)] verdict [OF assms(1)] verdict [OF u(2)] vs)
      (use vd in auto)
qed

text \<open>
  After \<open>revoke_all_for_user\<close> every access token of the user issued up to that second is
  refused while the flag stands, the life time of an access token; tokens of a later second
  and tokens of other users are judged as before, without the flag.
\<close>

theorem revoke_all_refuses_issued_tokens:
  assumes "usable_store r st s" "access_token_revocation_enabled st"
    and "c_sub c = Some uid" "uid \<noteq> []" "c_jti c = Some jti" "jti \<noteq> []" "t \<le> now"
    and "store_visible r st (revoked_access_key jti) now s = None"
  shows "fst (ensure_not_revoked r st c now (snd (revoke_all_for_user r st user_id t s))) =
    (if uid \<noteq> user_id then fst (ensure_not_revoked r st c now s)
     else if now < t + seconds (max (access_token_expire_minutes st * 60) 1)
             \<and> (case c_iat c of None \<Rightarrow> 0 | Some i \<Rightarrow> i) \<le> timestamp t
     then Inl (AuthenticationError ''Access token has been revoked due to security event'')
     else Inr ())"
proof -
  let ?s = "store_set r st (revoked_all_key user_id) (str_int (timestamp t))
    (access_token_expire_minutes st * 60) t s"
  have rev: "snd (revoke_all_for_user r st user_id t s) = ?s"
    using assms(2) usable_available [OF assms(1)] by (simp add: revoke_all_for_user_def)
  have u: "usable_store r st ?s" using assms(1) by (rule kv_store.usable_put)
  have v: "store_visible r st (revoked_access_key jti) now ?s = None"
    "store_visible r st (revoked_all_key uid) now ?s =
      (if uid = user_id
       then (if now < t + seconds (max (access_token_expire_minutes st * 60) 1)
             then Some (str_int (timestamp t)) else None)
       else store_visible r st (revoked_all_key uid) now s)"
    using kv_store.visible_put [OF assms(1,7)] assms(8) by simp_all
  note verdict = ensure_not_revoked_verdict [OF _ assms(2,5,6,3,4)]
  show ?thesis
    by (simp only: rev verdict [OF u] verdict [OF assms(1)] v)
      (use assms(8) in \<open>auto simp: python_int_str_int\<close>)
qed

section \<open>Witnesses\<close>

text \<open>A Redis that keeps the documented contract, and the two kinds of store, empty.\<close>

type_synonym reference_state = "string \<Rightarrow> (string \<times> int option) option"

fun alive :: "int \<Rightarrow> (string \<times> int option) option \<Rightarrow> string option" where
  "alive t None = None"
| "alive t (Some (v, None)) = Some v"
| "alive t (Some (v, Some e)) = (if e \<le> t then None else Some v)"

definition reference_redis :: "reference_state redis" where
  "reference_redis =
     \<lparr>redis_get = (\<lambda>k t m. alive t (m k)),
      redis_set = (\<lambda>k v n t m. m(k := Some (v, Some (t + seconds n)))),
      redis_delete = (\<lambda>ks t m k. if k \<in> set ks then None else m k),
      redis_incr = (\<lambda>k t m.
        (case alive t (m k) of
           None \<Rightarrow> (1, m(k := Some (''1'', None)))
         | Some v \<Rightarrow> (let n = the (python_int v) + 1
                      in (n, m(k := Some (str_int n, snd (the (m k)))))))),
      redis_expire = (\<lambda>k n t m.
        (case alive t (m k) of None \<Rightarrow> m(k := None) | Some v \<Rightarrow> m(k := Some (v, Some (t + seconds n))))),
      redis_ttl = (\<lambda>k t m.
        (case m k of Some (_, Some e) \<Rightarrow> (e - t) div 1000000 | Some (_, None) \<Rightarrow> - 1 | None \<Rightarrow> - 2))\<rparr>"

lemma reference_redis_laws: "redis_laws reference_redis"
proof -
  have alive_later: "alive t' p = (case alive t p of None \<Rightarrow> None | Some v \<Rightarrow>
      (case p of Some (_, Some e) \<Rightarrow> if e \<le> t' then None else Some v | _ \<Rightarrow> Some v))"
    if "t \<le> t'" for t t' and p :: "(string \<times> int option) option"
    using that by (cases "(t, p)" rule: alive.cases) auto
  show ?thesis
    unfolding redis_laws_def reference_redis_def
    by (intro conjI allI impI)
      (auto simp: Let_def alive_later split: option.splits)
qed

definition fresh_store :: "reference_state kv" where
  "fresh_store = \<lparr>kv_memory = (\<lambda>_. None), kv_client = None\<rparr>"

definition fresh_redis_store :: "reference_state kv" where
  "fresh_redis_store = \<lparr>kv_memory = (\<lambda>_. None), kv_client = Some (\<lambda>_. None)\<rparr>"

lemma fresh_stores:
  "usable_store reference_redis default_settings fresh_store"
  "usable_store reference_redis st fresh_redis_store"
  "store_visible reference_redis default_settings k t fresh_store = None"
  "store_visible reference_redis st k t fresh_redis_store = None"
  by (simp_all add: usable_store_def memory_expires_def fresh_store_def fresh_redis_store_def
      reference_redis_laws store_visible_def store_get_def Let_def delete_if_expired_def)
    (simp_all add: allow_memory_fallback_def is_production_def default_settings_def reference_redis_def)

lemma default_switches [simp]:
  "rate_limit_enabled default_settings" "access_token_revocation_enabled default_settings"
  "login_lockout_max_attempts default_settings = 5" "login_lockout_window_seconds default_settings = 900"
  "login_lockout_seconds default_settings = 900" "access_token_expire_minutes default_settings = 15"
  by (simp_all add: default_settings_def)

lemma limiter_admits_first_max_witness:
  "fst (run_checks reference_externals reference_redis default_settings ''auth.login'' ''id'' 2 60
      [0, 1000000, 2000000] fresh_redis_store) = [True, True, False]"
  using limiter_admits_first_max [where x = reference_externals and scope = "''auth.login''"
      and identity = "''id''" and t = 0 and ts = "[1000000, 2000000]" and m = 2 and win = 60,
      OF fresh_stores(2) default_switches(1) fresh_stores(4)]
  by (simp del: run_checks.simps)

lemma lockout_after_max_failures_witness:
  "\<not> is_ok (fst (check_login_lockout reference_externals reference_redis default_settings None ''a@b'' 50
      (run_failures reference_externals reference_redis default_settings None ''a@b''
        [0, 10, 20, 30, 40] fresh_store)))"
  using lockout_after_max_failures [where x = reference_externals and host = None
      and email = "''a@b''" and t = 0 and ts = "[10, 20, 30, 40]" and now = 50,
      OF fresh_stores(1) default_switches(1) fresh_stores(3)] fresh_stores(3)
  by (simp del: run_failures.simps)

lemma success_clears_lockout_witness:
  "is_ok (fst (check_login_lockout reference_externals reference_redis default_settings None ''a@b'' 50
      (record_login_success reference_externals reference_redis default_settings None ''a@b'' 45 fresh_store)))"
  using success_clears_lockout [where x = reference_externals and host = None
      and email = "''a@b''" and t = 45 and now = 50, OF fresh_stores(1) default_switches(1)]
  by simp

text \<open>An access token issued at moment 0 and revoked half a second later.\<close>

definition sample_claims :: claims where
  "sample_claims = claims_of (access_payload default_settings ''j'' 0 ''u'' ''student'')"

lemma sample_claims_simps [simp]:
  "c_sub sample_claims = Some ''u''" "c_type sample_claims = Some ''access''"
  "c_jti sample_claims = Some ''j''" "c_exp sample_claims = Some 900" "c_iat sample_claims = Some 0"
  by (simp_all add: sample_claims_def access_payload_def timestamp_def)

lemma sample_token_decodes:
  "decode_token reference_externals default_settings 500000
     (create_access_token reference_externals default_settings ''j'' 0 ''u'' ''student'') =
   Inr sample_claims"
  by (simp add: decode_access_token reference_laws sample_claims_def timestamp_def)

lemma revoked_token_is_refused_witness:
  "fst (ensure_not_revoked reference_redis default_settings sample_claims 600000
     (snd (revoke_token reference_externals reference_redis default_settings
       (create_access_token reference_externals default_settings ''j'' 0 ''u'' ''student'')
       500000 fresh_store))) = Inl (AuthenticationError ''Access token has been revoked'')"
  using revoked_token_is_refused [where jti = "''j''" and e = 900 and c' = sample_claims
      and uid = "''u''" and jti' = "''j''" and now = 600000,
      OF fresh_stores(1) default_switches(2) sample_token_decodes]
  by (simp add: revocation_ttl_def)

lemma revoke_all_refuses_issued_tokens_witness:
  "fst (ensure_not_revoked reference_redis default_settings sample_claims 600000
     (snd (revoke_all_for_user reference_redis default_settings ''u'' 500000 fresh_store))) =
   Inl (AuthenticationError ''Access token has been revoked due to security event'')"
  using revoke_all_refuses_issued_tokens [where c = sample_claims and uid = "''u''"
      and jti = "''j''" and t = 500000 and now = 600000 and user_id = "''u''",
      OF fresh_stores(1) default_switches(2)] fresh_stores(3)
  by (simp add: timestamp_def)

end
