(* ===== verification/Outbox.thy ===== *)
theory Outbox
  imports World
begin

text \<open>
  The contract of a database outbox, shared by the e-mail outbox (\<^verbatim>\<open>auth/email_outbox.py\<close>) and
  the Telegram event outbox (\<^verbatim>\<open>telegram/event_service.py\<close>, \<^verbatim>\<open>telegram/dispatcher.py\<close>): a worker
  polls the rows that are due, makes one attempt for each, and records its outcome in the row.
  A visit is one poll as one row sees it: the moment, whether the batch has room for the row,
  and what the remote service answers.
\<close>

lemma distinct_of_map: "distinct (map k rows) \<Longrightarrow> distinct rows"
  by (simp add: distinct_map)

lemma filter_key_distinct:
  "distinct (map k xs) \<Longrightarrow> x \<in> set xs \<Longrightarrow> filter (\<lambda>y. k y = k x) xs = [x]"
  by (induction xs) (auto simp: filter_empty_conv rev_image_eqI)

locale outbox =
  fixes due :: "int \<Rightarrow> 'r \<Rightarrow> bool"
    and attempt :: "int \<Rightarrow> 'e \<Rightarrow> 'r \<Rightarrow> 'r"
    and delivered :: "'e \<Rightarrow> bool"
    and attempts :: "'r \<Rightarrow> int"
    and bound :: "'r \<Rightarrow> int"
    and finished :: "'r \<Rightarrow> bool"
  assumes due_below_bound: "due t r \<Longrightarrow> attempts r < bound r"
    and due_unfinished: "due t r \<Longrightarrow> \<not> finished r"
    and attempt_counts: "attempts (attempt t e r) = attempts r + 1"
    and attempt_bound: "bound (attempt t e r) = bound r"
    and attempt_finishes: "delivered e \<Longrightarrow> finished (attempt t e r)"
begin

text \<open>The row after a visit, and after a sequence of visits with the attempts made on the way.\<close>

definition visit :: "int \<times> bool \<times> 'e \<Rightarrow> 'r \<Rightarrow> 'r" where
  "visit v r = (case v of (t, picked, e) \<Rightarrow> if picked \<and> due t r then attempt t e r else r)"

fun visits :: "(int \<times> bool \<times> 'e) list \<Rightarrow> 'r \<Rightarrow> 'r" where
  "visits [] r = r"
| "visits (v # vs) r = visits vs (visit v r)"

fun answers :: "(int \<times> bool \<times> 'e) list \<Rightarrow> 'r \<Rightarrow> 'e list" where
  "answers [] r = []"
| "answers (v # vs) r =
     (case v of (t, picked, e) \<Rightarrow>
        if picked \<and> due t r then e # answers vs (attempt t e r) else answers vs r)"

lemma visit_bound: "bound (visit v r) = bound r"
  by (simp add: visit_def attempt_bound split: prod.splits)

lemma visits_bound: "bound (visits vs r) = bound r"
  by (induction vs arbitrary: r) (simp_all add: visit_bound)

text \<open>The attempt counter is the number of attempts made, and never passes the bound.\<close>

lemma visits_attempts: "attempts (visits vs r) = attempts r + int (length (answers vs r))"
  by (induction vs arbitrary: r) (auto simp: visit_def attempt_counts)

lemma visit_below: "attempts r \<le> bound r \<Longrightarrow> attempts (visit v r) \<le> bound r"
  using due_below_bound by (fastforce simp: visit_def attempt_counts split: prod.splits)

lemma visits_below: "attempts r \<le> bound r \<Longrightarrow> attempts (visits vs r) \<le> bound r"
proof (induction vs arbitrary: r)
  case (Cons v vs)
  then show ?case using Cons.IH [of "visit v r"] visit_below [of r v] by (simp add: visit_bound)
qed simp

text \<open>A finished row is never attempted again.\<close>

lemma finished_visits: "finished r \<Longrightarrow> visits vs r = r \<and> answers vs r = []"
proof (induction vs)
  case (Cons v vs)
  then show ?case by (auto simp: visit_def dest: due_unfinished split: prod.splits)
qed simp

lemma delivered_once: "length (filter delivered (answers vs r)) \<le> 1"
proof (induction vs arbitrary: r)
  case (Cons v vs)
  obtain t p e where v: "v = (t, p, e)" by (cases v)
  show ?case
  proof (cases "p \<and> due t r \<and> delivered e")
    case True
    with v finished_visits [OF attempt_finishes [of e t r], of vs] show ?thesis by simp
  next
    case False
    with v Cons show ?thesis by auto
  qed
qed simp

lemma delivered_finishes: "\<exists>e\<in>set (answers vs r). delivered e \<Longrightarrow> finished (visits vs r)"
proof (induction vs arbitrary: r)
  case (Cons v vs)
  obtain t p e where v: "v = (t, p, e)" by (cases v)
  show ?case
  proof (cases "p \<and> due t r \<and> delivered e")
    case True
    with v finished_visits [OF attempt_finishes [of e t r], of vs] attempt_finishes [of e t r]
    show ?thesis by (simp add: visit_def)
  next
    case False
    with v Cons show ?thesis by (auto simp: visit_def split: if_splits)
  qed
qed simp

end

text \<open>
  A worker over a table of such rows: a poll selects a batch of due rows and makes one attempt
  for each. For each row, a run of polls is then a sequence of visits.
\<close>

locale outbox_worker = outbox due attempt delivered attempts bound finished
  for due :: "int \<Rightarrow> 'r \<Rightarrow> bool"
    and attempt :: "int \<Rightarrow> 'e \<Rightarrow> 'r \<Rightarrow> 'r"
    and delivered :: "'e \<Rightarrow> bool"
    and attempts :: "'r \<Rightarrow> int"
    and bound :: "'r \<Rightarrow> int"
    and finished :: "'r \<Rightarrow> bool" +
  fixes key :: "'r \<Rightarrow> 'k"
    and moment :: "'p \<Rightarrow> int"
    and batch :: "'p \<Rightarrow> 'r list \<Rightarrow> 'r list"
    and answer :: "'p \<Rightarrow> 'r \<Rightarrow> 'e"
    and poll :: "'p \<Rightarrow> 'r list \<Rightarrow> 'r list"
  assumes attempt_key: "key (attempt t e r) = key r"
    and batch_due: "r \<in> set (batch p rows) \<Longrightarrow> r \<in> set rows \<and> due (moment p) r"
    and batch_distinct: "distinct rows \<Longrightarrow> distinct (batch p rows)"
    and poll_batch: "distinct (map key rows) \<Longrightarrow> poll p rows =
      map (\<lambda>r. if r \<in> set (batch p rows) then attempt (moment p) (answer p r) r else r) rows"
begin

fun run :: "'p list \<Rightarrow> 'r list \<Rightarrow> 'r list" where
  "run [] rows = rows"
| "run (p # ps) rows = run ps (poll p rows)"

fun outcomes :: "'p list \<Rightarrow> 'k \<Rightarrow> 'r list \<Rightarrow> 'e list" where
  "outcomes [] k rows = []"
| "outcomes (p # ps) k rows =
     map (answer p) (filter (\<lambda>r. key r = k) (batch p rows)) @ outcomes ps k (poll p rows)"

lemma poll_visit:
  "distinct (map key rows) \<Longrightarrow> poll p rows =
     map (\<lambda>r. visit (moment p, r \<in> set (batch p rows), answer p r) r) rows"
  by (auto simp: poll_batch visit_def dest: batch_due)

lemma poll_keys: "distinct (map key rows) \<Longrightarrow> map key (poll p rows) = map key rows"
  by (simp add: poll_batch attempt_key)

lemma run_keys: "distinct (map key rows) \<Longrightarrow> map key (run ps rows) = map key rows"
  by (induction ps arbitrary: rows) (simp_all add: poll_keys)

lemma batch_of:
  assumes "distinct (map key rows)" "r \<in> set rows"
  shows "filter (\<lambda>r'. key r' = key r) (batch p rows) = (if r \<in> set (batch p rows) then [r] else [])"
proof -
  have inj: "r' = r" if "r' \<in> set (batch p rows)" "key r' = key r" for r'
    using that assms batch_due by (metis distinct_map_keyed)
  have "distinct (map key (batch p rows))"
    using assms(1) batch_distinct [OF distinct_of_map [OF assms(1)], of p]
    by (auto simp: distinct_map inj_on_def dest!: batch_due)
  then show ?thesis
    using inj filter_key_distinct [of key "batch p rows" r] by (auto simp: filter_empty_conv)
qed

lemma run_visits:
  assumes "distinct (map key rows)" "r \<in> set rows"
  shows "\<exists>vs. find (\<lambda>r'. key r' = key r) (run ps rows) = Some (visits vs r) \<and>
    outcomes ps (key r) rows = answers vs r \<and> map fst vs = map moment ps \<and>
    ((\<forall>p rows'. length rows' = length rows \<longrightarrow> set (batch p rows') = {r\<in>set rows'. due (moment p) r}) \<longrightarrow>
     (\<forall>v\<in>set vs. fst (snd v)))"
  using assms
proof (induction ps arbitrary: rows r)
  case Nil
  show ?case by (rule exI [of _ "[]"]) (simp add: find_distinct [OF Nil])
next
  case (Cons p ps)
  let ?all = "\<forall>p rows'. length rows' = length rows \<longrightarrow> set (batch p rows') = {r\<in>set rows'. due (moment p) r}"
  let ?in = "r \<in> set (batch p rows)"
  let ?v = "(moment p, ?in \<or> ?all, answer p r)"
  have v: "visit (moment p, ?in, answer p r) r = visit ?v r"
    using Cons.prems(2) by (auto simp: visit_def)
  let ?r = "visit ?v r"
  have d: "distinct (map key (poll p rows))" using Cons.prems(1) by (simp add: poll_keys)
  have i: "?r \<in> set (poll p rows)"
    unfolding poll_visit [OF Cons.prems(1)] set_map
    by (rule image_eqI [where x = r]) (simp_all only: v Cons.prems(2))
  have e: "key ?r = key r" by (simp add: visit_def attempt_key)
  have len: "length (poll p rows) = length rows" by (simp add: poll_batch [OF Cons.prems(1)])
  obtain vs where vs: "find (\<lambda>r'. key r' = key r) (run ps (poll p rows)) = Some (visits vs ?r)"
      "outcomes ps (key r) (poll p rows) = answers vs ?r" "map fst vs = map moment ps"
      "?all \<longrightarrow> (\<forall>v\<in>set vs. fst (snd v))"
    using Cons.IH [OF d i] unfolding e len by blast
  have now: "answers (?v # vs) r = (if ?in then [answer p r] else []) @ answers vs ?r"
    using batch_due [of r p rows] Cons.prems(2) by (auto simp: visit_def)
  show ?case
    by (rule exI [of _ "?v # vs"])
      (use vs now in \<open>simp add: batch_of [OF Cons.prems] del: answers.simps(2)\<close>)
qed

lemma outcomes_bounded:
  assumes "distinct (map key rows)" "r \<in> set rows" "attempts r \<le> bound r"
  shows "attempts r + int (length (outcomes ps (key r) rows)) \<le> bound r"
    and "length (filter delivered (outcomes ps (key r) rows)) \<le> 1"
proof -
  obtain vs where "outcomes ps (key r) rows = answers vs r" using run_visits [OF assms(1,2)] by blast
  then show "attempts r + int (length (outcomes ps (key r) rows)) \<le> bound r"
    and "length (filter delivered (outcomes ps (key r) rows)) \<le> 1"
    using visits_below [OF assms(3), of vs] delivered_once [of vs r]
    by (simp_all add: visits_attempts visits_bound)
qed

end

end
