(* ===== verification/EmailOutbox.thy ===== *)
theory EmailOutbox
  imports Outbox
begin

text \<open>
  \<^verbatim>\<open>app/modules/auth/email_outbox.py\<close> with \<^verbatim>\<open>EmailService.send_email\<close> of \<^verbatim>\<open>app/core/email.py\<close>:
  messages queued in the transaction that wants them sent, and the worker that delivers the
  due ones with an exponential backoff. The mail API and the SMTP server are parameters: what
  they answer to the attempt for a message.
\<close>

definition EMAIL_STATUS_PENDING :: string where "EMAIL_STATUS_PENDING = ''pending''"
definition EMAIL_STATUS_RETRY :: string where "EMAIL_STATUS_RETRY = ''retry''"
definition EMAIL_STATUS_SENT :: string where "EMAIL_STATUS_SENT = ''sent''"
definition EMAIL_STATUS_FAILED :: string where "EMAIL_STATUS_FAILED = ''failed''"

lemmas email_statuses =
  EMAIL_STATUS_PENDING_def EMAIL_STATUS_RETRY_def EMAIL_STATUS_SENT_def EMAIL_STATUS_FAILED_def

section \<open>The mail service\<close>

record mail =
  ml_to :: string
  ml_subject :: string
  ml_text :: string
  ml_html :: "string option"

text \<open>
  What a server answers: accepted, an error of the transport (\<open>httpx.HTTPError\<close>, \<open>OSError\<close>,
  \<open>SMTPException\<close>), or another exception with its text.
\<close>

datatype answer = Accepted | TransportError | OtherException string

record mail_servers =
  api_server :: "string \<Rightarrow> mail \<Rightarrow> answer"
  smtp_server :: "string \<Rightarrow> mail \<Rightarrow> answer"

text \<open>The result is the bool of \<open>send_email\<close>, or the text of the exception it raises.\<close>

definition send_email :: "settings \<Rightarrow> mail_servers \<Rightarrow> string \<Rightarrow> mail \<Rightarrow> string + bool" where
  "send_email st srv i ml =
     (if \<not> mail_enabled st then Inr False
      else
        (case (if truthy (mail_api_token st) then api_server srv i ml else smtp_server srv i ml) of
           Accepted \<Rightarrow> Inr True
         | TransportError \<Rightarrow> Inl ''Email yuborib bo'lmadi''
         | OtherException msg \<Rightarrow> Inl msg))"

section \<open>The outbox\<close>

definition new_message ::
  "settings \<Rightarrow> string \<Rightarrow> int \<Rightarrow> string \<Rightarrow> string \<Rightarrow> string \<Rightarrow> string option \<Rightarrow> email_outbox"
where
  "new_message st i now recipient_email sbj text_body html_body =
     \<lparr>eo_id = i, eo_recipient_email = recipient_email, eo_subject = sbj,
      eo_text_body = text_body, eo_html_body = html_body, eo_status = EMAIL_STATUS_PENDING,
      eo_attempt_count = 0, eo_max_attempts = email_outbox_max_attempts st,
      eo_next_attempt_at = now, eo_last_attempt_at = None, eo_sent_at = None,
      eo_last_error = None, eo_created_at = now\<rparr>"

definition enqueue_email ::
  "settings \<Rightarrow> string \<Rightarrow> int \<Rightarrow> string \<Rightarrow> string \<Rightarrow> string \<Rightarrow> string option \<Rightarrow> world \<Rightarrow> world"
where
  "enqueue_email st i now recipient_email sbj text_body html_body w =
     (if \<not> mail_enabled st then w
      else w\<lparr>db_email_outbox :=
             db_email_outbox w @ [new_message st i now recipient_email sbj text_body html_body]\<rparr>)"

definition email_due :: "int \<Rightarrow> email_outbox \<Rightarrow> bool" where
  "email_due now m =
     (eo_status m \<in> {EMAIL_STATUS_PENDING, EMAIL_STATUS_RETRY} \<and>
      eo_attempt_count m < eo_max_attempts m \<and> eo_next_attempt_at m \<le> now)"

definition mail_of :: "email_outbox \<Rightarrow> mail" where
  "mail_of m =
     \<lparr>ml_to = eo_recipient_email m, ml_subject = eo_subject m, ml_text = eo_text_body m,
      ml_html = eo_html_body m\<rparr>"

text \<open>\<open>_send_one\<close>: the row after the attempt; EmailDeliveryError when the answer is an exception.\<close>

definition record_attempt :: "settings \<Rightarrow> int \<Rightarrow> string + bool \<Rightarrow> email_outbox \<Rightarrow> email_outbox" where
  "record_attempt st now outcome m =
     (let m1 = m\<lparr>eo_attempt_count := eo_attempt_count m + 1, eo_last_attempt_at := Some now\<rparr> in
      case outcome of
        Inl exc \<Rightarrow>
          (let m2 = m1\<lparr>eo_last_error := Some exc\<rparr> in
           if eo_max_attempts m2 \<le> eo_attempt_count m2 then m2\<lparr>eo_status := EMAIL_STATUS_FAILED\<rparr>
           else
             let delay = email_outbox_retry_base_seconds st
                         * 2 ^ nat (max (eo_attempt_count m2 - 1) 0)
             in m2\<lparr>eo_status := EMAIL_STATUS_RETRY, eo_next_attempt_at := now + seconds delay\<rparr>)
      | Inr _ \<Rightarrow>
          m1\<lparr>eo_status := EMAIL_STATUS_SENT, eo_sent_at := Some now, eo_last_error := None\<rparr>)"

definition send_one ::
  "settings \<Rightarrow> mail_servers \<Rightarrow> int \<Rightarrow> email_outbox \<Rightarrow> unit res \<times> email_outbox"
where
  "send_one st srv now m =
     (let outcome = send_email st srv (eo_id m) (mail_of m); m' = record_attempt st now outcome m in
      case outcome of
        Inl _ \<Rightarrow> fail (EmailDeliveryError ''Email jo'natishda kutilmagan xatolik yuz berdi'') m'
      | Inr _ \<Rightarrow> ok () m')"

record batch_result =
  br_processed :: int
  br_sent :: int
  br_retry :: int
  br_failed :: int

definition due_batch :: "settings \<Rightarrow> int option \<Rightarrow> int \<Rightarrow> email_outbox list \<Rightarrow> email_outbox list" where
  "due_batch st lim now rows =
     (let batch_size = (case lim of None \<Rightarrow> email_outbox_batch_size st
                                  | Some l \<Rightarrow> if l = 0 then email_outbox_batch_size st else l)
      in take (nat batch_size)
           (order_by (\<lambda>m. (eo_next_attempt_at m, eo_created_at m)) (filter (email_due now) rows)))"

definition deliver_batch ::
  "settings \<Rightarrow> mail_servers \<Rightarrow> int \<Rightarrow> email_outbox list \<Rightarrow> email_outbox list \<Rightarrow> email_outbox list"
where
  "deliver_batch st srv now messages rows =
     foldl (\<lambda>rows m. store_row eo_id (snd (send_one st srv now m)) rows) rows messages"

definition process_due ::
  "settings \<Rightarrow> mail_servers \<Rightarrow> int option \<Rightarrow> int \<Rightarrow> world \<Rightarrow> batch_result \<times> world"
where
  "process_due st srv lim now w =
     (let messages = due_batch st lim now (db_email_outbox w);
          results = map (send_one st srv now) messages;
          raised = filter (\<lambda>(r, _). \<not> is_ok r) results
      in (\<lparr>br_processed = int (length messages),
           br_sent = int (length (filter (\<lambda>(r, _). is_ok r) results)),
           br_retry = int (length (filter (\<lambda>(_, m). eo_status m \<noteq> EMAIL_STATUS_FAILED) raised)),
           br_failed = int (length (filter (\<lambda>(_, m). eo_status m = EMAIL_STATUS_FAILED) raised))\<rparr>,
          w\<lparr>db_email_outbox := deliver_batch st srv now messages (db_email_outbox w)\<rparr>))"

section \<open>One batch\<close>

abbreviation outcome_of :: "settings \<Rightarrow> mail_servers \<Rightarrow> email_outbox \<Rightarrow> string + bool" where
  "outcome_of st srv m \<equiv> send_email st srv (eo_id m) (mail_of m)"

lemma snd_send_one: "snd (send_one st srv now m) = record_attempt st now (outcome_of st srv m) m"
  by (simp add: send_one_def Let_def split: sum.splits)

lemma is_ok_send_one: "is_ok (fst (send_one st srv now m)) \<longleftrightarrow> \<not> isl (outcome_of st srv m)"
  by (simp add: send_one_def Let_def split: sum.splits)

lemma record_attempt_frames [simp]:
  "eo_id (record_attempt st now oc m) = eo_id m"
  "eo_recipient_email (record_attempt st now oc m) = eo_recipient_email m"
  "eo_max_attempts (record_attempt st now oc m) = eo_max_attempts m"
  "eo_attempt_count (record_attempt st now oc m) = eo_attempt_count m + 1"
  "eo_created_at (record_attempt st now oc m) = eo_created_at m"
  "mail_of (record_attempt st now oc m) = mail_of m"
  by (simp_all add: record_attempt_def mail_of_def Let_def split: sum.splits)

lemma record_attempt_status:
  "eo_status (record_attempt st now oc m) =
     (if isl oc then (if eo_max_attempts m \<le> eo_attempt_count m + 1 then EMAIL_STATUS_FAILED
                      else EMAIL_STATUS_RETRY)
      else EMAIL_STATUS_SENT)"
  by (simp add: record_attempt_def Let_def split: sum.splits)

lemma due_batch_due:
  "m \<in> set (due_batch st lim now rows) \<Longrightarrow> m \<in> set rows \<and> email_due now m"
  by (auto simp: due_batch_def Let_def dest: in_set_takeD)

lemma due_batch_distinct: "distinct rows \<Longrightarrow> distinct (due_batch st lim now rows)"
  by (simp add: due_batch_def Let_def)

lemma due_batch_all:
  assumes "length rows \<le> nat (email_outbox_batch_size st)"
  shows "set (due_batch st None now rows) = {m \<in> set rows. email_due now m}"
proof -
  have "length (filter (email_due now) rows) \<le> nat (email_outbox_batch_size st)"
    using assms length_filter_le le_trans by blast
  then show ?thesis by (simp add: due_batch_def)
qed

lemma deliver_batch_rows:
  assumes "distinct (map eo_id rows)" "set messages \<subseteq> set rows" "distinct messages"
  shows "deliver_batch st srv now messages rows =
    map (\<lambda>m. if m \<in> set messages then record_attempt st now (outcome_of st srv m) m else m) rows"
  unfolding deliver_batch_def snd_send_one by (rule store_rows_map [OF assms]) simp

lemma process_due_rows:
  assumes "distinct (map eo_id (db_email_outbox w))"
  shows "db_email_outbox (snd (process_due st srv lim now w)) =
    map (\<lambda>m. if m \<in> set (due_batch st lim now (db_email_outbox w))
             then record_attempt st now (outcome_of st srv m) m else m) (db_email_outbox w)"
proof -
  have "set (due_batch st lim now (db_email_outbox w)) \<subseteq> set (db_email_outbox w)"
    by (auto dest: due_batch_due)
  then show ?thesis
    using assms by (simp add: process_due_def Let_def deliver_batch_rows due_batch_distinct distinct_of_map)
qed

definition email_poll ::
  "settings \<Rightarrow> int \<times> mail_servers \<Rightarrow> email_outbox list \<Rightarrow> email_outbox list"
where
  "email_poll st p rows = deliver_batch st (snd p) (fst p) (due_batch st None (fst p) rows) rows"

text \<open>The e-mail outbox keeps the contract.\<close>

interpretation email: outbox_worker email_due "record_attempt st" "\<lambda>oc. \<not> isl oc" eo_attempt_count
    eo_max_attempts "\<lambda>m. eo_status m = EMAIL_STATUS_SENT" eo_id fst
    "\<lambda>p. due_batch st None (fst p)" "\<lambda>p. outcome_of st (snd p)" "email_poll st"
  for st
proof (unfold_locales, goal_cases)
  case (9 rows p)
  have "set (due_batch st None (fst p) rows) \<subseteq> set rows" by (auto dest: due_batch_due)
  then show ?case
    using 9 by (simp add: email_poll_def deliver_batch_rows due_batch_distinct distinct_of_map)
qed (auto simp: email_due_def record_attempt_status email_statuses due_batch_distinct
    dest: due_batch_due)

text \<open>
  One run of the worker changes exactly the rows of its batch, each by one attempt: sent
  when the mail service accepted it, otherwise failed on the last attempt allowed and due for
  a retry before; every row keeps its place and its identity, and the counters returned add
  up to the batch.
\<close>

theorem process_due_attempts_batch:
  assumes "distinct (map eo_id (db_email_outbox w))"
  shows "db_email_outbox (snd (process_due st srv lim now w)) =
      map (\<lambda>m. if m \<in> set (due_batch st lim now (db_email_outbox w))
               then record_attempt st now (send_email st srv (eo_id m) (mail_of m)) m else m)
        (db_email_outbox w) \<and>
    br_processed (fst (process_due st srv lim now w)) =
      br_sent (fst (process_due st srv lim now w)) + br_retry (fst (process_due st srv lim now w)) +
      br_failed (fst (process_due st srv lim now w))"
proof -
  have split: "length (filter (\<lambda>(r, m). P r) xs) + length (filter (\<lambda>(_, m). Q m) (filter (\<lambda>(r, _). \<not> P r) xs))
      + length (filter (\<lambda>(_, m). \<not> Q m) (filter (\<lambda>(r, _). \<not> P r) xs)) = length xs"
    for P Q and xs :: "(unit res \<times> email_outbox) list"
    by (induction xs) auto
  show ?thesis
    using process_due_rows [OF assms, of st srv lim now]
      split [where P = is_ok and Q = "\<lambda>m. eo_status m \<noteq> EMAIL_STATUS_FAILED" and xs =
        "map (send_one st srv now) (due_batch st lim now (db_email_outbox w))"]
    by (simp add: process_due_def Let_def)
qed

section \<open>The worker\<close>

text \<open>
  The polls of \<^verbatim>\<open>scripts/email_worker.py\<close>, each at a moment and with what the servers answer
  then, and the outcomes of the attempts made for one message on the way.
\<close>

fun run_worker :: "settings \<Rightarrow> (int \<times> mail_servers) list \<Rightarrow> world \<Rightarrow> world" where
  "run_worker st [] w = w"
| "run_worker st ((now, srv) # polls) w = run_worker st polls (snd (process_due st srv None now w))"

fun worker_outcomes ::
  "settings \<Rightarrow> (int \<times> mail_servers) list \<Rightarrow> string \<Rightarrow> world \<Rightarrow> (string + bool) list"
where
  "worker_outcomes st [] i w = []"
| "worker_outcomes st ((now, srv) # polls) i w =
     map (outcome_of st srv) (filter (\<lambda>m. eo_id m = i) (due_batch st None now (db_email_outbox w))) @
     worker_outcomes st polls i (snd (process_due st srv None now w))"

lemma process_due_poll: "db_email_outbox (snd (process_due st srv None now w)) =
    email_poll st (now, srv) (db_email_outbox w)"
  by (simp add: process_due_def email_poll_def Let_def)

lemma run_worker_rows: "db_email_outbox (run_worker st polls w) = email.run st polls (db_email_outbox w)"
  by (induction st polls w rule: run_worker.induct) (simp_all add: process_due_poll)

lemma worker_outcomes_eq:
  "worker_outcomes st polls i w = email.outcomes st polls i (db_email_outbox w)"
  by (induction st polls i w rule: worker_outcomes.induct) (simp_all add: process_due_poll)

text \<open>
  C18. Whatever the mail service answers and however often the worker polls, a message is
  attempted at most \<open>max_attempts\<close> times in all and accepted at most once.
\<close>

theorem message_sent_at_most_once:
  assumes "distinct (map eo_id (db_email_outbox w))" "m \<in> set (db_email_outbox w)"
    and "eo_attempt_count m \<le> eo_max_attempts m"
  shows "eo_attempt_count m + int (length (worker_outcomes st polls (eo_id m) w)) \<le> eo_max_attempts m \<and>
    length (filter (\<lambda>oc. \<not> isl oc) (worker_outcomes st polls (eo_id m) w)) \<le> 1"
  using email.outcomes_bounded [OF assms, of st polls] by (simp add: worker_outcomes_eq)

text \<open>What a row's status says about its counters and moments.\<close>

definition message_ok :: "settings \<Rightarrow> email_outbox \<Rightarrow> bool" where
  "message_ok st m \<longleftrightarrow>
     (if eo_status m = EMAIL_STATUS_PENDING
      then eo_attempt_count m = 0 \<and> eo_last_attempt_at m = None \<and> eo_sent_at m = None
      else if eo_status m = EMAIL_STATUS_RETRY
      then 1 \<le> eo_attempt_count m \<and> eo_attempt_count m < eo_max_attempts m \<and>
        eo_sent_at m = None \<and> eo_last_error m \<noteq> None \<and>
        eo_last_attempt_at m = Some (eo_next_attempt_at m -
          seconds (email_outbox_retry_base_seconds st * 2 ^ nat (eo_attempt_count m - 1)))
      else if eo_status m = EMAIL_STATUS_SENT
      then 1 \<le> eo_attempt_count m \<and> eo_attempt_count m \<le> eo_max_attempts m \<and>
        eo_sent_at m \<noteq> None \<and> eo_sent_at m = eo_last_attempt_at m \<and> eo_last_error m = None
      else eo_status m = EMAIL_STATUS_FAILED \<and> 1 \<le> eo_attempt_count m \<and>
        eo_attempt_count m = eo_max_attempts m \<and> eo_sent_at m = None \<and> eo_last_error m \<noteq> None)"

definition email_outbox_ok :: "settings \<Rightarrow> world \<Rightarrow> bool" where
  "email_outbox_ok st w \<longleftrightarrow>
     distinct (map eo_id (db_email_outbox w)) \<and> list_all (message_ok st) (db_email_outbox w)"

lemma message_ok_attempt:
  assumes "message_ok st m" "email_due now m"
  shows "message_ok st (record_attempt st now oc m)"
proof -
  have due: "eo_attempt_count m < eo_max_attempts m" "0 \<le> eo_attempt_count m"
      "eo_sent_at m = None"
    using assms by (auto simp: message_ok_def email_due_def email_statuses split: if_splits)
  then have n: "nat (max (eo_attempt_count m) 0) = nat (eo_attempt_count m)" by simp
  show ?thesis
    using due n
    by (cases oc) (auto simp: message_ok_def record_attempt_def email_statuses Let_def)
qed

text \<open>
  C20. Queueing and delivering keep every row consistent: a pending row was never attempted, a
  row in retry waits exactly \<open>base * 2 ^ (attempts - 1)\<close> seconds after its last attempt, a sent
  row has the moment of its last attempt and no error, a failed row used all its attempts.
\<close>

theorem email_outbox_invariant:
  assumes "email_outbox_ok st w"
    and "i \<notin> eo_id ` set (db_email_outbox w)"
  shows "email_outbox_ok st (snd (process_due st srv lim now w)) \<and>
    email_outbox_ok st (enqueue_email st i now recipient sbj txt html w)"
proof -
  have d: "distinct (map eo_id (db_email_outbox w))" and ok: "list_all (message_ok st) (db_email_outbox w)"
    using assms(1) by (auto simp: email_outbox_ok_def)
  have "list_all (message_ok st) (db_email_outbox (snd (process_due st srv lim now w)))"
    using ok by (auto simp: process_due_rows [OF d] list_all_iff message_ok_attempt dest: due_batch_due)
  moreover have "map eo_id (db_email_outbox (snd (process_due st srv lim now w))) = map eo_id (db_email_outbox w)"
    by (simp add: process_due_rows [OF d])
  moreover have "message_ok st (new_message st i now recipient sbj txt html)"
      "eo_id (new_message st i now recipient sbj txt html) = i"
    by (simp_all add: message_ok_def new_message_def email_statuses)
  ultimately show ?thesis
    using d ok assms(2) by (simp add: email_outbox_ok_def enqueue_email_def)
qed

section \<open>Every message is settled\<close>

definition settled :: "email_outbox \<Rightarrow> bool" where
  "settled m = (eo_status m \<in> {EMAIL_STATUS_SENT, EMAIL_STATUS_FAILED})"

text \<open>The longest wait between two attempts.\<close>

definition longest_backoff :: "settings \<Rightarrow> int \<Rightarrow> int" where
  "longest_backoff st n = seconds (email_outbox_retry_base_seconds st * 2 ^ nat n)"

lemma longest_backoff_nonneg: "0 \<le> email_outbox_retry_base_seconds st \<Longrightarrow> 0 \<le> longest_backoff st n"
  by (simp add: longest_backoff_def)

lemma backoff_le:
  assumes "0 \<le> email_outbox_retry_base_seconds st" "i \<le> n"
  shows "seconds (email_outbox_retry_base_seconds st * 2 ^ nat i) \<le> longest_backoff st n"
proof -
  have "(2::int) ^ nat i \<le> 2 ^ nat n" using assms(2) by (intro power_increasing) auto
  then show ?thesis using assms(1) by (simp add: longest_backoff_def mult_left_mono)
qed

lemma settled_not_due: "settled m \<Longrightarrow> \<not> email_due t m"
  by (auto simp: email_due_def settled_def email_statuses)

lemma settled_visits: "settled m \<Longrightarrow> email.visits st vs m = m"
proof (induction vs)
  case (Cons v vs)
  then have "email.visit st v m = m"
    by (cases v) (simp add: email.visit_def settled_not_due)
  with Cons show ?case by simp
qed simp

text \<open>
  Polls that come one after the other at least a longest backoff apart, with room for every
  row, settle a row within as many polls as it has attempts left.
\<close>

fun spaced :: "int \<Rightarrow> int \<Rightarrow> int list \<Rightarrow> bool" where
  "spaced d t [] = True"
| "spaced d t (t' # ts) = (t + d \<le> t' \<and> spaced d t' ts)"

definition waiting :: "settings \<Rightarrow> int \<Rightarrow> int \<Rightarrow> email_outbox \<Rightarrow> bool" where
  "waiting st n t m \<longleftrightarrow> message_ok st m \<and> eo_attempt_count m < eo_max_attempts m \<and>
     eo_max_attempts m \<le> n \<and> eo_next_attempt_at m \<le> t + longest_backoff st n"

lemma waiting_attempt:
  assumes base: "0 \<le> email_outbox_retry_base_seconds st"
    and w: "waiting st n t m" and t': "t + longest_backoff st n \<le> t'" and un: "\<not> settled m"
  shows "email_due t' m"
    and "settled (record_attempt st t' oc m) \<or> waiting st n t' (record_attempt st t' oc m)"
proof -
  show due: "email_due t' m"
    using w t' un by (auto simp: waiting_def email_due_def settled_def message_ok_def split: if_splits)
  have ok: "message_ok st (record_attempt st t' oc m)"
    using w due by (simp add: waiting_def message_ok_attempt)
  have pos: "0 \<le> eo_attempt_count m"
    using w un by (auto simp: waiting_def message_ok_def settled_def split: if_splits)
  show "settled (record_attempt st t' oc m) \<or> waiting st n t' (record_attempt st t' oc m)"
  proof (cases "isl oc \<and> eo_attempt_count m + 1 < eo_max_attempts m")
    case True
    moreover have "seconds (email_outbox_retry_base_seconds st * 2 ^ nat (eo_attempt_count m))
        \<le> longest_backoff st n"
      using w pos by (intro backoff_le [OF base]) (auto simp: waiting_def)
    ultimately have "eo_next_attempt_at (record_attempt st t' oc m) \<le> t' + longest_backoff st n"
      using pos by (auto simp: record_attempt_def Let_def split: sum.splits)
    with True w ok show ?thesis by (auto simp: waiting_def)
  next
    case False
    then show ?thesis by (auto simp: settled_def record_attempt_status)
  qed
qed

lemma visits_settle:
  assumes "0 \<le> email_outbox_retry_base_seconds st"
    and "\<forall>v\<in>set vs. fst (snd v)" "spaced (longest_backoff st n) t (map fst vs)"
    and "waiting st n t m \<or> settled m"
    and "eo_max_attempts m \<le> eo_attempt_count m + int (length vs)"
  shows "settled (email.visits st vs m)"
  using assms(2-)
proof (induction vs arbitrary: m t)
  case Nil
  then show ?case by (auto simp: waiting_def)
next
  case (Cons v vs)
  obtain t' oc where v: "v = (t', True, oc)" using Cons.prems(1) by (cases v) auto
  show ?case
  proof (cases "settled m")
    case True
    then show ?thesis by (simp only: settled_visits)
  next
    case False
    let ?m = "record_attempt st t' oc m"
    have "email_due t' m" "settled ?m \<or> waiting st n t' ?m"
      using waiting_attempt [OF assms(1), of n t m t'] Cons.prems(2,3) False v by auto
    moreover from this(2) have "settled (email.visits st vs ?m)"
      by (intro Cons.IH [where t = t']) (use Cons.prems v in auto)
    ultimately show ?thesis using v by (simp add: email.visit_def)
  qed
qed

text \<open>
  C19. Liveness: when the batch has room for every row and the worker polls as often as a
  message may be attempted, at least the longest backoff apart, every message ends sent or
  failed, whatever the mail service answers.
\<close>

theorem worker_settles_every_message:
  assumes "0 \<le> email_outbox_retry_base_seconds st" "distinct (map eo_id (db_email_outbox w))"
    and "length (db_email_outbox w) \<le> nat (email_outbox_batch_size st)"
    and "list_all (\<lambda>m. waiting st n t m \<and> 0 \<le> eo_attempt_count m \<or> settled m) (db_email_outbox w)"
    and "spaced (longest_backoff st n) t (map fst polls)"
    and "list_all (\<lambda>m. eo_max_attempts m - eo_attempt_count m \<le> int (length polls)) (db_email_outbox w)"
  shows "list_all settled (db_email_outbox (run_worker st polls w))"
proof -
  let ?rows = "db_email_outbox w"
  have all: "\<forall>(p :: int \<times> mail_servers) rows'. length rows' = length ?rows \<longrightarrow>
      set (due_batch st None (fst p) rows') = {m \<in> set rows'. email_due (fst p) m}"
    using assms(3) by (simp add: due_batch_all)
  have "settled m'" if m': "m' \<in> set (email.run st polls ?rows)" for m'
  proof -
    have d: "distinct (map eo_id (email.run st polls ?rows))"
      using assms(2) by (simp add: email.run_keys)
    have "eo_id m' \<in> set (map eo_id ?rows)"
      using m' email.run_keys [OF assms(2), of st polls] by (metis image_eqI list.set_map)
    then obtain m where m: "m \<in> set ?rows" "eo_id m = eo_id m'" by auto
    obtain vs where vs: "find (\<lambda>m'. eo_id m' = eo_id m) (email.run st polls ?rows) =
        Some (email.visits st vs m)" "\<forall>v\<in>set vs. fst (snd v)" "map fst vs = map fst polls"
      using email.run_visits [OF assms(2) m(1), of st polls] all by blast
    from find_distinct [OF d m'] vs(1) m(2) have "m' = email.visits st vs m" by simp
    moreover have "length vs = length polls" using vs(3) by (metis length_map)
    moreover have "waiting st n t m \<or> settled m"
        "eo_max_attempts m - eo_attempt_count m \<le> int (length polls)"
      using assms(4,6) m(1) by (auto simp: list_all_iff)
    ultimately show ?thesis
      using visits_settle [OF assms(1) vs(2), of n t m] assms(5) vs(3) by simp
  qed
  then show ?thesis by (simp add: list_all_iff run_worker_rows)
qed

text \<open>
  A message queued while mail was enabled and polled after it was disabled counts as sent,
  although \<open>send_email\<close> returned False: its result is not looked at.
\<close>

lemma disabled_mail_marks_sent:
  assumes "\<not> mail_enabled st"
  shows "send_email st srv i ml = Inr False"
    and "eo_status (record_attempt st now (send_email st srv i ml) m) = EMAIL_STATUS_SENT"
  using assms by (simp_all add: send_email_def record_attempt_status)

section \<open>Witnesses\<close>

definition mail_settings :: settings where
  "mail_settings = default_settings\<lparr>mail_enabled := True, mail_api_token := Some ''t''\<rparr>"

definition refusing_servers :: mail_servers where
  "refusing_servers = \<lparr>api_server = (\<lambda>_ _. TransportError), smtp_server = (\<lambda>_ _. TransportError)\<rparr>"

definition accepting_servers :: mail_servers where
  "accepting_servers = \<lparr>api_server = (\<lambda>_ _. Accepted), smtp_server = (\<lambda>_ _. Accepted)\<rparr>"

definition sample_message :: email_outbox where
  "sample_message = (new_message mail_settings ''e1'' 0 ''a@b'' ''s'' ''t'' None)\<lparr>eo_max_attempts := 2\<rparr>"

definition sample_outbox :: world where
  "sample_outbox = empty_world\<lparr>db_email_outbox := [sample_message]\<rparr>"

lemma mail_settings_simps [simp]:
  "mail_enabled mail_settings" "mail_api_token mail_settings = Some ''t''"
  "email_outbox_batch_size mail_settings = 10" "email_outbox_retry_base_seconds mail_settings = 60"
  "email_outbox_max_attempts mail_settings = 5"
  by (simp_all add: mail_settings_def default_settings_def)

lemma sample_message_simps [simp]:
  "eo_id sample_message = ''e1''" "eo_attempt_count sample_message = 0"
  "eo_max_attempts sample_message = 2" "eo_status sample_message = EMAIL_STATUS_PENDING"
  "eo_next_attempt_at sample_message = 0" "eo_sent_at sample_message = None"
  "eo_last_attempt_at sample_message = None"
  by (simp_all add: sample_message_def new_message_def)

lemma sample_outbox_simps [simp]: "db_email_outbox sample_outbox = [sample_message]"
  by (simp add: sample_outbox_def)

lemma sample_outbox_ok: "email_outbox_ok mail_settings sample_outbox"
  by (simp add: email_outbox_ok_def message_ok_def)

lemma process_due_attempts_batch_witness:
  "db_email_outbox (snd (process_due mail_settings accepting_servers None 5 sample_outbox)) =
    [record_attempt mail_settings 5 (Inr True) sample_message]"
  using process_due_attempts_batch [of sample_outbox mail_settings accepting_servers None 5]
  by (simp add: due_batch_all email_due_def send_email_def accepting_servers_def)

lemma message_sent_at_most_once_witness:
  "length (worker_outcomes mail_settings [(5, accepting_servers), (6, accepting_servers)] ''e1'' sample_outbox) \<le> 2"
  using message_sent_at_most_once [of sample_outbox sample_message mail_settings
      "[(5, accepting_servers), (6, accepting_servers)]"]
  by simp

lemma email_outbox_invariant_witness:
  "email_outbox_ok mail_settings (snd (process_due mail_settings refusing_servers None 5 sample_outbox)) \<and>
   email_outbox_ok mail_settings
     (enqueue_email mail_settings ''e2'' 0 ''c@d'' ''s'' ''t'' None sample_outbox)"
  using email_outbox_invariant [OF sample_outbox_ok, where i = "''e2''"]
  by simp

lemma worker_settles_every_message_witness:
  "list_all settled (db_email_outbox (run_worker mail_settings
     [(seconds 300, refusing_servers), (seconds 600, refusing_servers)] sample_outbox))"
  using worker_settles_every_message [where st = mail_settings and w = sample_outbox and n = 2
      and t = 0 and polls = "[(seconds 300, refusing_servers), (seconds 600, refusing_servers)]"]
  by (simp add: longest_backoff_def waiting_def message_ok_def settled_def email_statuses)

end
