(* ===== verification/TelegramEvents.thy ===== *)
theory TelegramEvents
  imports Outbox Security
begin

text \<open>
  \<^verbatim>\<open>app/modules/telegram/event_service.py\<close> and \<^verbatim>\<open>dispatcher.py\<close>: the events queued for the
  Telegram bot, who receives them, and the worker that pushes them. The bot's HTTP endpoint is
  a parameter: what it answers to the request for an event.

  Every service of the program that changes something queues its events here, in the
  transaction of the change. Identifiers come from \<open>ids\<close>, one per recipient.
\<close>

section \<open>Events\<close>

definition same_event ::
  "telegram_event_type \<Rightarrow> string option \<Rightarrow> string \<Rightarrow> string \<Rightarrow> telegram_event \<Rightarrow> bool"
where
  "same_event ty eid recipient channel e =
     (te_event_type e = ty \<and> te_entity_id e = eid \<and> te_recipient_user_id e = recipient \<and>
      te_delivery_channel e = channel)"

definition new_event ::
  "string \<Rightarrow> int \<Rightarrow> telegram_event_type \<Rightarrow> string option \<Rightarrow> string option \<Rightarrow> user \<Rightarrow> json \<Rightarrow> string \<Rightarrow> telegram_event"
where
  "new_event i now ty ety eid recipient payload channel =
     \<lparr>te_id = i, te_event_type = ty, te_entity_type = ety, te_entity_id = eid,
      te_recipient_user_id = u_id recipient, te_recipient_role = Some (role_value (u_role recipient)),
      te_delivery_channel = channel, te_payload = payload, te_status = EventPending,
      te_attempt_count = 0, te_last_error = None, te_dispatched_at = None, te_created_at = now\<rparr>"

definition create_event ::
  "string \<Rightarrow> int \<Rightarrow> telegram_event_type \<Rightarrow> string option \<Rightarrow> string option \<Rightarrow> user \<Rightarrow> json \<Rightarrow> string \<Rightarrow>
   world \<Rightarrow> telegram_event res \<times> world"
where
  "create_event i now ty ety eid recipient payload channel w =
     (case scalar_one_or_none (filter (same_event ty eid (u_id recipient) channel) (db_telegram_event_outbox w)) of
        Inl e \<Rightarrow> fail e w
      | Inr (Some event) \<Rightarrow> ok event w
      | Inr None \<Rightarrow>
          (let event = new_event i now ty ety eid recipient payload channel
           in ok event (w\<lparr>db_telegram_event_outbox := db_telegram_event_outbox w @ [event]\<rparr>)))"

text \<open>The loop over the recipients that every \<open>enqueue\<close> method has.\<close>

fun create_events ::
  "(nat \<Rightarrow> string) \<Rightarrow> nat \<Rightarrow> int \<Rightarrow> telegram_event_type \<Rightarrow> string option \<Rightarrow> string option \<Rightarrow> json \<Rightarrow>
   user list \<Rightarrow> world \<Rightarrow> telegram_event list res \<times> world"
where
  "create_events ids j now ty ety eid payload [] w = ok [] w"
| "create_events ids j now ty ety eid payload (r # rs) w =
     (case create_event (ids j) now ty ety eid r payload ''telegram_bot'' w of
        (Inl e, w1) \<Rightarrow> fail e w1
      | (Inr event, w1) \<Rightarrow>
          (case create_events ids (Suc j) now ty ety eid payload rs w1 of
             (Inl e, w2) \<Rightarrow> fail e w2
           | (Inr events, w2) \<Rightarrow> ok (event # events) w2))"

section \<open>Recipients\<close>

definition list_admin_recipients :: "world \<Rightarrow> user list" where
  "list_admin_recipients w =
     order_by u_created_at (filter (\<lambda>u. u_role u = ADMIN \<and> u_is_active u) (db_users w))"

definition load_users_by_ids :: "string list \<Rightarrow> world \<Rightarrow> user list" where
  "load_users_by_ids user_ids w =
     (if user_ids = [] then []
      else order_by u_created_at (filter (\<lambda>u. u_id u \<in> set user_ids \<and> u_is_active u) (db_users w)))"

datatype proposal =
    UniversityProposal university_proposal
  | FacultyProposal faculty_proposal
  | SubjectProposal subject_proposal

fun proposal_id :: "proposal \<Rightarrow> string" where
  "proposal_id (UniversityProposal p) = up_id p"
| "proposal_id (FacultyProposal p) = fp_id p"
| "proposal_id (SubjectProposal p) = sp_id p"

fun proposal_created_by :: "proposal \<Rightarrow> string" where
  "proposal_created_by (UniversityProposal p) = up_created_by p"
| "proposal_created_by (FacultyProposal p) = fp_created_by p"
| "proposal_created_by (SubjectProposal p) = sp_created_by p"

fun proposal_proposed_name :: "proposal \<Rightarrow> string" where
  "proposal_proposed_name (UniversityProposal p) = up_proposed_name p"
| "proposal_proposed_name (FacultyProposal p) = fp_proposed_name p"
| "proposal_proposed_name (SubjectProposal p) = sp_proposed_name p"

definition university_scope_users :: "string \<Rightarrow> world \<Rightarrow> string list" where
  "university_scope_users uni w =
     map mus_user_id (filter (\<lambda>s. mus_university_id s = uni) (db_moderator_university_scopes w))"

definition faculty_scope_users :: "string \<Rightarrow> world \<Rightarrow> string list" where
  "faculty_scope_users fac w =
     map mfs_user_id (filter (\<lambda>s. mfs_faculty_id s = fac) (db_moderator_faculty_scopes w))"

definition subject_scope_users :: "string \<Rightarrow> world \<Rightarrow> string list" where
  "subject_scope_users sub w =
     map mss_user_id (filter (\<lambda>s. mss_subject_id s = sub) (db_moderator_subject_scopes w))"

fun resolve_proposal_recipients :: "proposal \<Rightarrow> world \<Rightarrow> user list" where
  "resolve_proposal_recipients (UniversityProposal p) w =
     load_users_by_ids (map u_id (list_admin_recipients w)) w"
| "resolve_proposal_recipients (FacultyProposal p) w =
     load_users_by_ids
       (map u_id (list_admin_recipients w) @ university_scope_users (fp_university_id p) w @
        concat (map (\<lambda>f. faculty_scope_users (fa_id f) w)
          (filter (\<lambda>f. fa_university_id f = fp_university_id p) (db_faculties w)))) w"
| "resolve_proposal_recipients (SubjectProposal p) w =
     load_users_by_ids
       (map u_id (list_admin_recipients w) @
        (case get_faculty (sp_faculty_id p) w of
           None \<Rightarrow> []
         | Some f \<Rightarrow>
             university_scope_users (fa_university_id f) w @ faculty_scope_users (sp_faculty_id p) w @
             concat (map (\<lambda>s. subject_scope_users (su_id s) w)
               (filter (\<lambda>s. su_faculty_id s = sp_faculty_id p) (db_subjects w))))) w"

definition resolve_material_recipients :: "material \<Rightarrow> world \<Rightarrow> user list" where
  "resolve_material_recipients m w =
     load_users_by_ids
       (map u_id (list_admin_recipients w) @
        (case get_subject (m_subject_id m) w of
           None \<Rightarrow> []
         | Some s \<Rightarrow>
             subject_scope_users (su_id s) w @ faculty_scope_users (su_faculty_id s) w @
             (case get_faculty (su_faculty_id s) w of
                None \<Rightarrow> []
              | Some f \<Rightarrow> university_scope_users (fa_university_id f) w))) w"

section \<open>The enqueue methods\<close>

definition enqueue_user_registered_events where
  "enqueue_user_registered_events ids j now user w =
     create_events ids j now USER_REGISTERED (Some ''user'') (Some (u_id user))
       (JObj [(''user_id'', JStr (u_id user)), (''email'', JStr (u_email user))])
       (list_admin_recipients w) w"

definition link_payload :: "user \<Rightarrow> telegram_link \<Rightarrow> json" where
  "link_payload user link =
     JObj [(''telegram_username'', jopt (tl_telegram_username link)),
           (''telegram_name'',
            JStr (strip (or_else (tl_telegram_first_name link) [] @ '' '' @
                         or_else (tl_telegram_last_name link) []))),
           (''email'', JStr (u_email user)),
           (''full_name'', JStr (u_full_name user)),
           (''user_id'', JStr (u_id user))]"

definition enqueue_telegram_account_linked_events where
  "enqueue_telegram_account_linked_events ids j now user link w =
     create_events ids j now TELEGRAM_ACCOUNT_LINKED (Some ''telegram_link'') (Some (tl_id link))
       (link_payload user link) (list_admin_recipients w) w"

definition enqueue_telegram_account_unlinked_events where
  "enqueue_telegram_account_unlinked_events ids j now user link w =
     create_events ids j now TELEGRAM_ACCOUNT_UNLINKED (Some ''telegram_link'') (Some (tl_id link))
       (link_payload user link) (list_admin_recipients w) w"

text \<open>Keys of the optional payload override the two keys before them.\<close>

definition enqueue_user_security_events where
  "enqueue_user_security_events ids j now event_type user entity_id payload w =
     create_events ids j now event_type (Some ''user'') (Some entity_id)
       (JObj (filter (\<lambda>(k, _). k \<notin> fst ` set payload)
                [(''user_id'', JStr (u_id user)), (''email'', JStr (u_email user))] @ payload))
       (list_admin_recipients w) w"

definition build_material_payload :: "settings \<Rightarrow> material \<Rightarrow> world \<Rightarrow> (string \<times> json) list" where
  "build_material_payload st m w =
     (let sub = get_subject (m_subject_id m) w;
          fac = (case sub of None \<Rightarrow> None | Some s \<Rightarrow> get_faculty (su_faculty_id s) w);
          uni = (case fac of None \<Rightarrow> None | Some f \<Rightarrow> get_university (fa_university_id f) w)
      in [(''material_id'', JStr (m_id m)),
          (''title'', JStr (m_title m)),
          (''subject_id'', JStr (m_subject_id m)),
          (''owner_user_id'', JStr (m_uploaded_by m)),
          (''status'', JStr (material_status_value (m_status m))),
          (''frontend_url'',
           JStr (rstrip_char (CHR ''/'') (public_web_base_url st) @ ''/materials/'' @ m_slug m)),
          (''university'',
           (case uni of None \<Rightarrow> JNull
            | Some u \<Rightarrow> JObj [(''id'', JStr (un_id u)), (''name'', JStr (un_name u)),
                             (''slug'', JStr (un_slug u))])),
          (''faculty'',
           (case fac of None \<Rightarrow> JNull
            | Some f \<Rightarrow> JObj [(''id'', JStr (fa_id f)), (''name'', JStr (fa_name f)),
                             (''slug'', JStr (fa_slug f)), (''university_id'', JStr (fa_university_id f))])),
          (''subject'',
           (case sub of None \<Rightarrow> JNull
            | Some s \<Rightarrow> JObj [(''id'', JStr (su_id s)), (''name'', JStr (su_name s)),
                             (''slug'', JStr (su_slug s)),
                             (''semesters'', JList (map JInt (m_semesters m))),
                             (''faculty_id'', JStr (su_faculty_id s))]))])"

definition enqueue_material_submitted_events where
  "enqueue_material_submitted_events st ids j now m event_id w =
     create_events ids j now MATERIAL_SUBMITTED_FOR_REVIEW (Some ''material'') (Some event_id)
       (JObj (build_material_payload st m w)) (resolve_material_recipients m w) w"

definition reviewer_payload :: "user \<Rightarrow> json" where
  "reviewer_payload actor =
     JObj [(''user_id'', JStr (u_id actor)), (''display_name'', JStr (u_full_name actor)),
           (''role'', JStr (role_value (u_role actor)))]"

definition enqueue_material_owner_event where
  "enqueue_material_owner_event st i now event_type m actor reason note w =
     (case get_user (m_uploaded_by m) w of
        None \<Rightarrow> ok [] w
      | Some owner \<Rightarrow>
          (if \<not> u_is_active owner then ok [] w
           else
             (case create_event i now event_type (Some ''material'') (Some (m_id m)) owner
                (JObj (build_material_payload st m w @
                   [(''reviewed_by'', reviewer_payload actor), (''reason'', jopt reason),
                    (''note'', jopt note)])) ''telegram_bot'' w of
                (Inl e, w1) \<Rightarrow> fail e w1
              | (Inr event, w1) \<Rightarrow> ok [event] w1)))"

definition enqueue_proposal_created_events where
  "enqueue_proposal_created_events ids j now p proposal_type w =
     create_events ids j now PROPOSAL_CREATED (Some ''proposal'') (Some (proposal_id p))
       (JObj [(''proposal_id'', JStr (proposal_id p)), (''proposal_type'', JStr proposal_type)])
       (resolve_proposal_recipients p w) w"

definition enqueue_proposal_owner_event where
  "enqueue_proposal_owner_event i now event_type p proposal_type actor note w =
     (case get_user (proposal_created_by p) w of
        None \<Rightarrow> ok [] w
      | Some owner \<Rightarrow>
          (if \<not> u_is_active owner then ok [] w
           else
             (case create_event i now event_type (Some ''proposal'') (Some (proposal_id p)) owner
                (JObj [(''proposal_id'', JStr (proposal_id p)), (''proposal_type'', JStr proposal_type),
                       (''proposed_name'', JStr (proposal_proposed_name p)),
                       (''reviewed_by'', reviewer_payload actor), (''note'', jopt note)])
                ''telegram_bot'' w of
                (Inl e, w1) \<Rightarrow> fail e w1
              | (Inr event, w1) \<Rightarrow> ok [event] w1)))"

section \<open>The queue\<close>

definition event_due :: "settings \<Rightarrow> telegram_event \<Rightarrow> bool" where
  "event_due st e =
     (te_status e \<in> {EventPending, EventFailed} \<and> te_attempt_count e < telegram_event_max_attempts st)"

definition list_pending_events :: "settings \<Rightarrow> int \<Rightarrow> telegram_event list \<Rightarrow> telegram_event list" where
  "list_pending_events st lim events =
     take (nat lim) (order_by te_created_at (filter (event_due st) events))"

definition mark_dispatched :: "int \<Rightarrow> telegram_event \<Rightarrow> telegram_event" where
  "mark_dispatched now e =
     e\<lparr>te_status := EventDispatched, te_attempt_count := te_attempt_count e + 1,
       te_last_error := None, te_dispatched_at := Some now\<rparr>"

definition mark_failed :: "string \<Rightarrow> telegram_event \<Rightarrow> telegram_event" where
  "mark_failed error e =
     e\<lparr>te_status := EventFailed, te_attempt_count := te_attempt_count e + 1, te_last_error := Some error\<rparr>"

record event_read =
  er_event_id :: string
  er_event_type :: string
  er_occurred_at :: int
  er_entity_type :: "string option"
  er_entity_id :: "string option"
  er_delivery_channel :: string
  er_platform_user_id :: string
  er_role :: "string option"
  er_telegram_user_id :: "int option"
  er_telegram_username :: "string option"
  er_payload :: json

definition build_event_read :: "telegram_link list \<Rightarrow> telegram_event \<Rightarrow> event_read" where
  "build_event_read links e =
     (let link = find (\<lambda>l. tl_user_id l = te_recipient_user_id e \<and> tl_is_active l) links
      in \<lparr>er_event_id = te_id e, er_event_type = event_type_value (te_event_type e),
          er_occurred_at = te_created_at e, er_entity_type = te_entity_type e,
          er_entity_id = te_entity_id e, er_delivery_channel = te_delivery_channel e,
          er_platform_user_id = te_recipient_user_id e, er_role = te_recipient_role e,
          er_telegram_user_id = map_option tl_telegram_user_id link,
          er_telegram_username = (case link of None \<Rightarrow> None | Some l \<Rightarrow> tl_telegram_username l),
          er_payload = te_payload e\<rparr>)"

definition list_pending_event_items :: "settings \<Rightarrow> int \<Rightarrow> world \<Rightarrow> event_read list" where
  "list_pending_event_items st lim w =
     map (build_event_read (db_telegram_links w))
       (list_pending_events st lim (db_telegram_event_outbox w))"

section \<open>The dispatcher\<close>

text \<open>
  \<open>client.post\<close> answers with a status and a text, or raises; \<open>dumps\<close> is \<open>json.dumps\<close> of the
  dumped model.
\<close>

datatype http_answer = Response int string | HttpException string

record bot =
  bot_post :: "string \<Rightarrow> event_read \<Rightarrow> string \<times> string \<times> string \<Rightarrow> http_answer"
  dumps :: "event_read \<Rightarrow> string"

definition dispatcher_enabled :: "settings \<Rightarrow> bool" where
  "dispatcher_enabled st =
     (telegram_event_push_enabled st \<and> truthy (bot_internal_base_url st) \<and>
      truthy (internal_auth_secret st))"

definition build_url :: "settings \<Rightarrow> string" where
  "build_url st =
     rstrip_char (CHR ''/'') (the (bot_internal_base_url st)) @ bot_internal_event_path st"

text \<open>
  The path and query of \<open>urlparse\<close>, for the paths without scheme, authority or parameters that the
  setting holds: the fragment is cut off, and the query follows the first question mark.
\<close>

definition canonical_path_of :: "string \<Rightarrow> string" where
  "canonical_path_of path =
     (let p = takeWhile (\<lambda>c. c \<noteq> CHR ''#'') path
      in case partition_on (CHR ''?'') p of
           None \<Rightarrow> p
         | Some (pth, q) \<Rightarrow> if q = [] then pth else pth @ ''?'' @ q)"

definition newline :: string where "newline = [CHR 0x0A]"

text \<open>str.upper on the ASCII letters of a request method.\<close>

definition upper_ascii :: "string \<Rightarrow> string" where
  "upper_ascii s = map (\<lambda>c. let n = (of_char c :: nat) in
     if 97 \<le> n \<and> n \<le> 122 then char_of (n - 32) else c) s"

definition canonical_request :: "externals \<Rightarrow> string \<Rightarrow> string \<Rightarrow> string \<Rightarrow> string \<Rightarrow> string \<Rightarrow> string" where
  "canonical_request x service tstamp http_method path body =
     join newline [service, tstamp, upper_ascii http_method, path, sha256_text x body]"

definition build_headers ::
  "externals \<Rightarrow> settings \<Rightarrow> int \<Rightarrow> string \<Rightarrow> string \<Rightarrow> string \<Rightarrow> string \<times> string \<times> string"
where
  "build_headers x st now http_method path raw_body =
     (let service_name = backend_service_name st; tstamp = str_int (timestamp now);
          canonical = canonical_request x service_name tstamp http_method (canonical_path_of path) raw_body
      in (service_name, tstamp, hmac_sha256 x (or_else (internal_auth_secret st) []) canonical))"

definition push_event ::
  "externals \<Rightarrow> settings \<Rightarrow> bot \<Rightarrow> int \<Rightarrow> telegram_link list \<Rightarrow> telegram_event \<Rightarrow> http_answer"
where
  "push_event x st b now links e =
     (let payload = build_event_read links e
      in bot_post b (build_url st) payload
           (build_headers x st now ''POST'' (bot_internal_event_path st) (dumps b payload)))"

definition accepted :: "http_answer \<Rightarrow> bool" where
  "accepted a = (case a of Response c _ \<Rightarrow> 200 \<le> c \<and> c < 300 | HttpException _ \<Rightarrow> False)"

definition record_answer :: "int \<Rightarrow> http_answer \<Rightarrow> telegram_event \<Rightarrow> telegram_event" where
  "record_answer now a e =
     (case a of
        Response c txt \<Rightarrow>
          (if 200 \<le> c \<and> c < 300 then mark_dispatched now e
           else mark_failed (str_int c @ '': '' @ take 200 txt) e)
      | HttpException msg \<Rightarrow> mark_failed msg e)"

definition dispatch_events ::
  "externals \<Rightarrow> settings \<Rightarrow> bot \<Rightarrow> int \<Rightarrow> telegram_event list \<Rightarrow> world \<Rightarrow> int \<times> world"
where
  "dispatch_events x st b now events w =
     (if \<not> dispatcher_enabled st \<or> events = [] then (0, w)
      else
        (int (length (filter (\<lambda>e. accepted (push_event x st b now (db_telegram_links w) e)) events)),
         w\<lparr>db_telegram_event_outbox :=
            foldl (\<lambda>rows e. store_row te_id
                     (record_answer now (push_event x st b now (db_telegram_links w) e) e) rows)
              (db_telegram_event_outbox w) events\<rparr>))"

definition dispatch_pending_events ::
  "externals \<Rightarrow> settings \<Rightarrow> bot \<Rightarrow> int option \<Rightarrow> int \<Rightarrow> world \<Rightarrow> int \<times> world"
where
  "dispatch_pending_events x st b lim now w =
     dispatch_events x st b now
       (list_pending_events st
          (case lim of None \<Rightarrow> telegram_event_batch_size st
                     | Some l \<Rightarrow> if l = 0 then telegram_event_batch_size st else l)
          (db_telegram_event_outbox w)) w"

text \<open>The polls of \<^verbatim>\<open>scripts/telegram_event_worker.py\<close>.\<close>

fun run_event_worker :: "externals \<Rightarrow> settings \<Rightarrow> (int \<times> bot) list \<Rightarrow> world \<Rightarrow> world" where
  "run_event_worker x st [] w = w"
| "run_event_worker x st ((now, b) # polls) w =
     run_event_worker x st polls
       (snd (dispatch_events x st b now
          (list_pending_events st (telegram_event_batch_size st) (db_telegram_event_outbox w)) w))"

definition event_batch :: "settings \<Rightarrow> telegram_event list \<Rightarrow> telegram_event list" where
  "event_batch st rows =
     (if dispatcher_enabled st then list_pending_events st (telegram_event_batch_size st) rows else [])"

text \<open>What the bot answered to the requests for one event on the way.\<close>

fun event_answers ::
  "externals \<Rightarrow> settings \<Rightarrow> (int \<times> bot) list \<Rightarrow> string \<Rightarrow> world \<Rightarrow> http_answer list"
where
  "event_answers x st [] i w = []"
| "event_answers x st ((now, b) # polls) i w =
     map (push_event x st b now (db_telegram_links w))
       (filter (\<lambda>e. te_id e = i) (event_batch st (db_telegram_event_outbox w))) @
     event_answers x st polls i
       (snd (dispatch_events x st b now
          (list_pending_events st (telegram_event_batch_size st) (db_telegram_event_outbox w)) w))"

section \<open>The outbox contract\<close>

definition event_poll ::
  "externals \<Rightarrow> settings \<Rightarrow> int \<times> bot \<times> telegram_link list \<Rightarrow> telegram_event list \<Rightarrow> telegram_event list"
where
  "event_poll x st p rows = (case p of (now, b, links) \<Rightarrow>
     foldl (\<lambda>rows e. store_row te_id (record_answer now (push_event x st b now links e) e) rows)
       rows (event_batch st rows))"

lemma record_answer_simps [simp]:
  "te_id (record_answer now a e) = te_id e"
  "te_attempt_count (record_answer now a e) = te_attempt_count e + 1"
  "te_status (record_answer now a e) = (if accepted a then EventDispatched else EventFailed)"
  by (simp_all add: record_answer_def mark_dispatched_def mark_failed_def accepted_def
      split: http_answer.splits)

lemma list_pending_in:
  "e \<in> set (list_pending_events st lim rows) \<Longrightarrow> e \<in> set rows \<and> event_due st e"
  by (auto simp: list_pending_events_def dest: in_set_takeD)

lemma event_batch_in: "e \<in> set (event_batch st rows) \<Longrightarrow> e \<in> set rows \<and> event_due st e"
  by (auto simp: event_batch_def list_pending_in split: if_splits)

lemma event_batch_distinct: "distinct rows \<Longrightarrow> distinct (event_batch st rows)"
  by (simp add: event_batch_def list_pending_events_def)

interpretation telegram: outbox_worker "\<lambda>_. event_due st" record_answer accepted te_attempt_count
    "\<lambda>_. telegram_event_max_attempts st" "\<lambda>e. te_status e = EventDispatched" te_id fst
    "\<lambda>_. event_batch st" "\<lambda>p. push_event x st (fst (snd p)) (fst p) (snd (snd p))" "event_poll x st"
  for x st
proof (unfold_locales, goal_cases)
  case (9 rows p)
  have "set (event_batch st rows) \<subseteq> set rows" by (auto dest: event_batch_in)
  then show ?case
    using 9 by (auto simp: event_poll_def event_batch_distinct distinct_of_map store_rows_map
        split: prod.splits)
qed (auto simp: event_due_def event_batch_distinct dest: event_batch_in)

lemma dispatch_poll:
  "db_telegram_event_outbox (snd (dispatch_events x st b now
     (list_pending_events st (telegram_event_batch_size st) (db_telegram_event_outbox w)) w)) =
   event_poll x st (now, b, db_telegram_links w) (db_telegram_event_outbox w)"
  by (auto simp: dispatch_events_def event_poll_def event_batch_def)

lemma dispatch_links [frames]:
  "db_telegram_links (snd (dispatch_events x st b now events w)) = db_telegram_links w"
  by (simp add: dispatch_events_def)

lemma event_answers_eq:
  "event_answers x st polls i w =
     telegram.outcomes st x (map (\<lambda>(now, b). (now, b, db_telegram_links w)) polls) i
       (db_telegram_event_outbox w)"
  by (induction x st polls i w rule: event_answers.induct)
    (simp_all add: dispatch_poll dispatch_links)


section \<open>One event per recipient\<close>

definition event_identity ::
  "telegram_event \<Rightarrow> telegram_event_type \<times> string option \<times> string \<times> string"
where
  "event_identity e =
     (te_event_type e, te_entity_id e, te_recipient_user_id e, te_delivery_channel e)"

definition events_unique :: "world \<Rightarrow> bool" where
  "events_unique w \<longleftrightarrow> distinct (map event_identity (db_telegram_event_outbox w))"

lemma same_event_identity: "same_event ty eid u ch e \<longleftrightarrow> event_identity e = (ty, eid, u, ch)"
  by (auto simp: same_event_def event_identity_def)

lemma filter_same_event:
  assumes "events_unique w"
  shows "filter (same_event ty eid u ch) (db_telegram_event_outbox w) = [] \<or>
    (\<exists>e. filter (same_event ty eid u ch) (db_telegram_event_outbox w) = [e])"
proof (cases "\<exists>e\<in>set (db_telegram_event_outbox w). same_event ty eid u ch e")
  case True
  then obtain e where e: "e \<in> set (db_telegram_event_outbox w)" "event_identity e = (ty, eid, u, ch)"
    by (auto simp: same_event_identity)
  have "filter (same_event ty eid u ch) (db_telegram_event_outbox w) =
      filter (\<lambda>e'. event_identity e' = event_identity e) (db_telegram_event_outbox w)"
    by (rule filter_cong) (simp_all add: same_event_identity e(2))
  also have "\<dots> = [e]" by (rule filter_key_distinct) (use assms e(1) in \<open>auto simp: events_unique_def\<close>)
  finally show ?thesis by blast
qed (auto simp: filter_empty_conv)

text \<open>Creating an event, in one lemma: found or appended, in either case there once.\<close>

lemma create_event_cases:
  assumes "events_unique w"
  obtains (found) e where
      "create_event i now ty ety eid r payload ch w = ok e w"
      "filter (same_event ty eid (u_id r) ch) (db_telegram_event_outbox w) = [e]"
  | (created) "create_event i now ty ety eid r payload ch w =
        ok (new_event i now ty ety eid r payload ch)
          (w\<lparr>db_telegram_event_outbox :=
             db_telegram_event_outbox w @ [new_event i now ty ety eid r payload ch]\<rparr>)"
      "filter (same_event ty eid (u_id r) ch) (db_telegram_event_outbox w) = []"
  using filter_same_event [OF assms, of ty eid "u_id r" ch]
  by (auto simp: create_event_def Let_def)

lemma new_event_simps [simp]:
  "event_identity (new_event i now ty ety eid r payload ch) = (ty, eid, u_id r, ch)"
  "te_id (new_event i now ty ety eid r payload ch) = i"
  "te_event_type (new_event i now ty ety eid r payload ch) = ty"
  "te_entity_id (new_event i now ty ety eid r payload ch) = eid"
  "te_recipient_user_id (new_event i now ty ety eid r payload ch) = u_id r"
  "te_status (new_event i now ty ety eid r payload ch) = EventPending"
  "te_attempt_count (new_event i now ty ety eid r payload ch) = 0"
  by (simp_all add: event_identity_def new_event_def)

lemma events_unique_append:
  assumes "events_unique w" "filter (same_event ty eid (u_id r) ch) (db_telegram_event_outbox w) = []"
  shows "events_unique (w\<lparr>db_telegram_event_outbox :=
    db_telegram_event_outbox w @ [new_event i now ty ety eid r payload ch]\<rparr>)"
  using assms by (auto simp: events_unique_def filter_empty_conv same_event_identity)

text \<open>
  What queueing for a list of recipients does to the world: the outbox grows by pending events
  of these recipients, and nothing else changes.
\<close>

definition queued ::
  "telegram_event_type \<Rightarrow> string option \<Rightarrow> string set \<Rightarrow> world \<Rightarrow> world \<Rightarrow> bool"
where
  "queued ty eid us w w' \<longleftrightarrow>
     (\<exists>new. w' = w\<lparr>db_telegram_event_outbox := db_telegram_event_outbox w @ new\<rparr> \<and>
       (\<forall>e\<in>set new. te_event_type e = ty \<and> te_entity_id e = eid \<and>
         te_recipient_user_id e \<in> us \<and> te_status e = EventPending \<and> te_attempt_count e = 0))"

lemma queued_frames:
  assumes "queued ty eid us w w'"
  shows "db_users w' = db_users w"
    "db_user_preferences w' = db_user_preferences w"
    "db_saved_materials w' = db_saved_materials w"
    "db_password_reset_tokens w' = db_password_reset_tokens w"
    "db_email_verification_tokens w' = db_email_verification_tokens w"
    "db_refresh_token_sessions w' = db_refresh_token_sessions w"
    "db_email_outbox w' = db_email_outbox w"
    "db_telegram_links w' = db_telegram_links w"
    "db_telegram_link_sessions w' = db_telegram_link_sessions w"
    "db_universities w' = db_universities w"
    "db_faculties w' = db_faculties w"
    "db_subjects w' = db_subjects w"
    "db_tags w' = db_tags w"
    "db_material_tags w' = db_material_tags w"
    "db_comments w' = db_comments w"
    "db_material_ratings w' = db_material_ratings w"
    "db_audit_logs w' = db_audit_logs w"
    "db_notifications w' = db_notifications w"
    "db_moderator_university_scopes w' = db_moderator_university_scopes w"
    "db_moderator_faculty_scopes w' = db_moderator_faculty_scopes w"
    "db_moderator_subject_scopes w' = db_moderator_subject_scopes w"
    "db_materials w' = db_materials w"
    "db_material_files w' = db_material_files w"
    "db_material_downloads w' = db_material_downloads w"
    "db_material_review_logs w' = db_material_review_logs w"
    "db_material_reports w' = db_material_reports w"
    "db_university_proposals w' = db_university_proposals w"
    "db_faculty_proposals w' = db_faculty_proposals w"
    "db_subject_proposals w' = db_subject_proposals w"
    "db_catalog_proposal_logs w' = db_catalog_proposal_logs w"
    "db_catalog_reports w' = db_catalog_reports w"
    "cache_log w' = cache_log w"
    "objects w' = objects w"
  using assms by (auto simp: queued_def)

lemma queued_refl: "queued ty eid us w w"
  unfolding queued_def by (rule exI [of _ "[]"]) simp

lemma queued_trans:
  "queued ty eid us w w' \<Longrightarrow> queued ty eid us' w' w'' \<Longrightarrow> queued ty eid (us \<union> us') w w''"
  unfolding queued_def by (elim exE conjE, rule_tac x = "new @ newa" in exI) auto

lemma create_event_queued:
  assumes "events_unique w"
  shows "\<exists>e w'. create_event i now ty ety eid r payload ch w = ok e w' \<and> events_unique w' \<and>
    queued ty eid {u_id r} w w' \<and>
    filter (same_event ty eid (u_id r) ch) (db_telegram_event_outbox w') = [e]"
  using assms
proof (cases rule: create_event_cases [where i = i and now = now and ty = ty and ety = ety
      and eid = eid and r = r and payload = payload and ch = ch])
  case (found e)
  then show ?thesis using assms queued_refl by blast
next
  case created
  then show ?thesis
    using events_unique_append [OF assms created(2)]
    by (auto simp: same_event_identity queued_def)
qed

lemma create_events_queued:
  assumes "events_unique w"
  shows "\<exists>es w'. create_events ids j now ty ety eid payload rs w = ok es w' \<and> events_unique w' \<and>
    queued ty eid (u_id ` set rs) w w' \<and> length es = length rs"
  using assms
proof (induction rs arbitrary: j w)
  case Nil
  then show ?case using queued_refl by auto
next
  case (Cons r rs)
  obtain e w1 where 1: "create_event (ids j) now ty ety eid r payload ''telegram_bot'' w = ok e w1"
      "events_unique w1" "queued ty eid {u_id r} w w1"
    using create_event_queued [OF Cons.prems] by blast
  obtain es w2 where "create_events ids (Suc j) now ty ety eid payload rs w1 = ok es w2"
      "events_unique w2" "queued ty eid (u_id ` set rs) w1 w2" "length es = length rs"
    using Cons.IH [OF 1(2)] by blast
  with 1 queued_trans [OF 1(3)] show ?case by auto
qed

lemma same_event_kept:
  assumes "queued ty' eid' us w w'" "events_unique w'"
    and "filter (same_event ty eid u ch) (db_telegram_event_outbox w) = [e]"
  shows "filter (same_event ty eid u ch) (db_telegram_event_outbox w') = [e]"
proof -
  obtain new where "db_telegram_event_outbox w' = db_telegram_event_outbox w @ new"
    using assms(1) by (auto simp: queued_def)
  then show ?thesis
    using assms(3) filter_same_event [OF assms(2), of ty eid u ch] by (auto simp: Cons_eq_append_conv)
qed

lemma create_eventsD:
  assumes "events_unique w" "create_events ids j now ty ety eid payload rs w = ok es w'"
  shows "events_unique w'" "queued ty eid (u_id ` set rs) w w'"
  using create_events_queued [OF assms(1), of ids j now ty ety eid payload rs] assms(2) by auto

text \<open>The enqueue methods of the services never fail on an outbox without duplicates.\<close>

lemma enqueue_user_registered_ok:
  assumes "events_unique w"
  shows "\<exists>es w'. enqueue_user_registered_events ids j now user w = ok es w' \<and> events_unique w' \<and>
    queued USER_REGISTERED (Some (u_id user)) (u_id ` set (list_admin_recipients w)) w w'"
  using create_events_queued [OF assms] unfolding enqueue_user_registered_events_def by metis

lemma enqueue_user_security_ok:
  assumes "events_unique w"
  shows "\<exists>es w'. enqueue_user_security_events ids j now ty user eid payload w = ok es w' \<and> events_unique w' \<and>
    queued ty (Some eid) (u_id ` set (list_admin_recipients w)) w w'"
  using create_events_queued [OF assms] unfolding enqueue_user_security_events_def by metis

lemma enqueue_proposal_created_ok:
  assumes "events_unique w"
  shows "\<exists>es w'. enqueue_proposal_created_events ids j now p ty w = ok es w' \<and> events_unique w' \<and>
    queued PROPOSAL_CREATED (Some (proposal_id p)) (u_id ` set (resolve_proposal_recipients p w)) w w'"
  using create_events_queued [OF assms] unfolding enqueue_proposal_created_events_def by metis

lemma enqueue_material_submitted_ok:
  assumes "events_unique w"
  shows "\<exists>es w'. enqueue_material_submitted_events st ids j now m eid w = ok es w' \<and> events_unique w' \<and>
    queued MATERIAL_SUBMITTED_FOR_REVIEW (Some eid) (u_id ` set (resolve_material_recipients m w)) w w'"
  using create_events_queued [OF assms] unfolding enqueue_material_submitted_events_def by metis

lemma enqueue_linked_ok:
  assumes "events_unique w"
  shows "\<exists>es w'. enqueue_telegram_account_linked_events ids j now user l w = ok es w' \<and> events_unique w' \<and>
      queued TELEGRAM_ACCOUNT_LINKED (Some (tl_id l)) (u_id ` set (list_admin_recipients w)) w w'"
    "\<exists>es w'. enqueue_telegram_account_unlinked_events ids j now user l w = ok es w' \<and> events_unique w' \<and>
      queued TELEGRAM_ACCOUNT_UNLINKED (Some (tl_id l)) (u_id ` set (list_admin_recipients w)) w w'"
  using create_events_queued [OF assms]
  unfolding enqueue_telegram_account_linked_events_def enqueue_telegram_account_unlinked_events_def
  by metis+

lemma enqueue_material_owner_ok:
  assumes "events_unique w"
  shows "\<exists>es w'. enqueue_material_owner_event st i now ty m actor reason note w = ok es w' \<and> events_unique w' \<and>
    queued ty (Some (m_id m)) {m_uploaded_by m} w w'"
proof (cases "get_user (m_uploaded_by m) w")
  case None
  then show ?thesis using assms queued_refl by (auto simp: enqueue_material_owner_event_def)
next
  case (Some u)
  have id: "u_id u = m_uploaded_by m" using Some by (rule get_user_id)
  show ?thesis
    using create_event_queued [OF assms, of i now ty "Some ''material''" "Some (m_id m)" u
        "JObj (build_material_payload st m w @ [(''reviewed_by'', reviewer_payload actor),
           (''reason'', jopt reason), (''note'', jopt note)])" "''telegram_bot''"]
      Some assms queued_refl
    by (auto simp: enqueue_material_owner_event_def id)
qed

lemma enqueue_proposal_owner_ok:
  assumes "events_unique w"
  shows "\<exists>es w'. enqueue_proposal_owner_event i now ty p pty actor note w = ok es w' \<and> events_unique w' \<and>
    queued ty (Some (proposal_id p)) {proposal_created_by p} w w'"
proof (cases "get_user (proposal_created_by p) w")
  case None
  then show ?thesis using assms queued_refl by (auto simp: enqueue_proposal_owner_event_def)
next
  case (Some u)
  have id: "u_id u = proposal_created_by p" using Some by (rule get_user_id)
  show ?thesis
    using create_event_queued [OF assms, of i now ty "Some ''proposal''" "Some (proposal_id p)" u
        "JObj [(''proposal_id'', JStr (proposal_id p)), (''proposal_type'', JStr pty),
           (''proposed_name'', JStr (proposal_proposed_name p)),
           (''reviewed_by'', reviewer_payload actor), (''note'', jopt note)]" "''telegram_bot''"]
      Some assms queued_refl
    by (auto simp: enqueue_proposal_owner_event_def id)
qed

text \<open>
  C21. Queueing an event for a list of recipients never fails, leaves exactly one event of
  that type and entity for each of them, adds only pending events of these recipients, and
  changes nothing else; doing it again changes nothing at all.
\<close>

theorem each_recipient_gets_one_event:
  assumes "events_unique w"
  shows "\<exists>es w'. create_events ids j now ty ety eid payload rs w = ok es w' \<and>
    events_unique w' \<and> queued ty eid (u_id ` set rs) w w' \<and>
    list_all (\<lambda>r. length (filter (same_event ty eid (u_id r) ''telegram_bot'')
      (db_telegram_event_outbox w')) = 1) rs \<and>
    snd (create_events ids' j' now' ty ety' eid payload' rs w') = w'"
proof -
  have once: "\<exists>es w'. create_events ids j now ty ety eid payload rs w = ok es w' \<and> events_unique w' \<and>
      list_all (\<lambda>r. length (filter (same_event ty eid (u_id r) ''telegram_bot'')
        (db_telegram_event_outbox w')) = 1) rs"
    using assms
  proof (induction rs arbitrary: j w)
    case (Cons r rs)
    obtain e w1 where 1: "create_event (ids j) now ty ety eid r payload ''telegram_bot'' w = ok e w1"
        "events_unique w1"
        "filter (same_event ty eid (u_id r) ''telegram_bot'') (db_telegram_event_outbox w1) = [e]"
      using create_event_queued [OF Cons.prems] by blast
    obtain es w2 where 2: "create_events ids (Suc j) now ty ety eid payload rs w1 = ok es w2"
        "events_unique w2" "list_all (\<lambda>r. length (filter (same_event ty eid (u_id r) ''telegram_bot'')
          (db_telegram_event_outbox w2)) = 1) rs"
      using Cons.IH [OF 1(2)] by blast
    have "filter (same_event ty eid (u_id r) ''telegram_bot'') (db_telegram_event_outbox w2) = [e]"
      by (rule same_event_kept [OF create_eventsD(2) [OF 1(2) 2(1)] 2(2) 1(3)])
    with 1 2 show ?case by simp
  qed simp
  have again: "snd (create_events ids' j' now' ty ety' eid payload' rs w') = w'"
    if "list_all (\<lambda>r. length (filter (same_event ty eid (u_id r) ''telegram_bot'')
        (db_telegram_event_outbox w')) = 1) rs" for w'
    using that
  proof (induction rs arbitrary: j')
    case (Cons r rs)
    then obtain e where "filter (same_event ty eid (u_id r) ''telegram_bot'')
        (db_telegram_event_outbox w') = [e]"
      by (auto simp: length_Suc_conv)
    then have "create_event (ids' j') now' ty ety' eid r payload' ''telegram_bot'' w' = ok e w'"
      by (simp add: create_event_def)
    moreover have "snd (create_events ids' (Suc j') now' ty ety' eid payload' rs w') = w'"
      using Cons by simp
    ultimately show ?case
      by (cases "create_events ids' (Suc j') now' ty ety' eid payload' rs w'") (simp split: sum.splits)
  qed simp
  obtain es w' where w': "create_events ids j now ty ety eid payload rs w = ok es w'" "events_unique w'"
      "list_all (\<lambda>r. length (filter (same_event ty eid (u_id r) ''telegram_bot'')
        (db_telegram_event_outbox w')) = 1) rs"
    using once by blast
  moreover have "queued ty eid (u_id ` set rs) w w'"
    by (rule create_eventsD(2) [OF assms w'(1)])
  ultimately show ?thesis using again by blast
qed

text \<open>
  The events of a material's owner carry the material's id, so a second decision of the same
  kind on a resubmitted material finds the first event and queues nothing: the owner of a
  material that is rejected twice hears of it once.
\<close>

lemma second_owner_event_not_queued:
  assumes "events_unique w"
    and "enqueue_material_owner_event st i now ty m actor reason note w = ok evs w'"
  shows "snd (enqueue_material_owner_event st i' now' ty m' actor' reason' note' w') = w'
    \<or> m_id m' \<noteq> m_id m \<or> m_uploaded_by m' \<noteq> m_uploaded_by m"
proof (cases "m_id m' = m_id m \<and> m_uploaded_by m' = m_uploaded_by m")
  case same: True
  show ?thesis
  proof (cases "\<exists>u. get_user (m_uploaded_by m) w = Some u \<and> u_is_active u")
    case False
    then have "w' = w" using assms(2)
      by (auto simp: enqueue_material_owner_event_def split: option.splits if_splits prod.splits sum.splits)
    with False same show ?thesis
      by (auto simp: enqueue_material_owner_event_def split: option.splits)
  next
    case True
    then obtain u where u: "get_user (m_uploaded_by m) w = Some u" "u_is_active u" by blast
    let ?p = "JObj (build_material_payload st m w @
      [(''reviewed_by'', reviewer_payload actor), (''reason'', jopt reason), (''note'', jopt note)])"
    obtain e w1 where e: "create_event i now ty (Some ''material'') (Some (m_id m)) u ?p ''telegram_bot'' w = ok e w1"
        "queued ty (Some (m_id m)) {u_id u} w w1"
        "filter (same_event ty (Some (m_id m)) (u_id u) ''telegram_bot'') (db_telegram_event_outbox w1) = [e]"
      using create_event_queued [OF assms(1)] by metis
    have "w' = w1" using assms(2) u e(1) by (simp add: enqueue_material_owner_event_def)
    moreover have "get_user i' w1 = get_user i' w" for i'
      using e(2) by (auto simp: queued_def get_user_def)
    ultimately show ?thesis
      using same u e(3) by (simp add: enqueue_material_owner_event_def create_event_def)
  qed
qed auto

section \<open>Who receives what\<close>

text \<open>The scopes of a user that cover a subject, as the moderation service reads them.\<close>

definition subject_scoped :: "string \<Rightarrow> string \<Rightarrow> world \<Rightarrow> bool" where
  "subject_scoped uid sub_id w =
     (case get_subject sub_id w of
        None \<Rightarrow> False
      | Some s \<Rightarrow>
          list_ex (\<lambda>c. mss_user_id c = uid \<and> mss_subject_id c = su_id s) (db_moderator_subject_scopes w) \<or>
          list_ex (\<lambda>c. mfs_user_id c = uid \<and> mfs_faculty_id c = su_faculty_id s) (db_moderator_faculty_scopes w) \<or>
          (case get_faculty (su_faculty_id s) w of
             None \<Rightarrow> False
           | Some f \<Rightarrow> list_ex (\<lambda>c. mus_user_id c = uid \<and> mus_university_id c = fa_university_id f)
               (db_moderator_university_scopes w)))"

lemma in_scope_users:
  "u \<in> set (university_scope_users i w) \<longleftrightarrow>
     list_ex (\<lambda>c. mus_user_id c = u \<and> mus_university_id c = i) (db_moderator_university_scopes w)"
  "u \<in> set (faculty_scope_users i w) \<longleftrightarrow>
     list_ex (\<lambda>c. mfs_user_id c = u \<and> mfs_faculty_id c = i) (db_moderator_faculty_scopes w)"
  "u \<in> set (subject_scope_users i w) \<longleftrightarrow>
     list_ex (\<lambda>c. mss_user_id c = u \<and> mss_subject_id c = i) (db_moderator_subject_scopes w)"
  by (auto simp: university_scope_users_def faculty_scope_users_def subject_scope_users_def list_ex_iff)

lemma in_load_users: "u \<in> set (load_users_by_ids is w) \<longleftrightarrow>
    u \<in> set (db_users w) \<and> u_is_active u \<and> u_id u \<in> set is"
  by (auto simp: load_users_by_ids_def)

lemma admin_ids:
  assumes "distinct (map u_id (db_users w))" "u \<in> set (db_users w)" "u_is_active u"
  shows "u_id u \<in> u_id ` set (list_admin_recipients w) \<longleftrightarrow> u_role u = ADMIN"
  using assms by (auto simp: list_admin_recipients_def dest: distinct_map_keyed)

lemma material_recipients_iff:
  assumes "distinct (map u_id (db_users w))"
  shows "u \<in> set (resolve_material_recipients m w) \<longleftrightarrow>
    u \<in> set (db_users w) \<and> u_is_active u \<and>
    (u_role u = ADMIN \<or> subject_scoped (u_id u) (m_subject_id m) w)"
  using admin_ids [OF assms, of u]
  by (auto simp: resolve_material_recipients_def in_load_users subject_scoped_def in_scope_users
      split: option.splits)

text \<open>
  Requests the dispatcher signs: the header triple is the service name, the second of the
  request and the digest, under the shared secret, of the five lines of the request.
\<close>

lemma build_headers_signature:
  "build_headers x st now http_method path body =
     (backend_service_name st, str_int (timestamp now),
      hmac_sha256 x (or_else (internal_auth_secret st) [])
        (canonical_request x (backend_service_name st) (str_int (timestamp now)) http_method
          (canonical_path_of path) body))"
  by (simp add: build_headers_def Let_def)

section \<open>Witnesses\<close>

definition sample_admin :: user where
  "sample_admin = \<lparr>u_id = ''a1'', u_full_name = ''Admin'', u_email = ''a@b'', u_avatar_url = None,
     u_hashed_password = [], u_role = ADMIN, u_university_id = None, u_university_changed_at = None,
     u_pending_university_name = None, u_university_status = ''selected'', u_is_active = True,
     u_is_verified = True, u_created_at = 0\<rparr>"

definition sample_event :: telegram_event where
  "sample_event =
     new_event ''ev1'' 0 USER_REGISTERED (Some ''user'') (Some ''u1'') sample_admin JNull ''telegram_bot''"

definition sample_events :: world where
  "sample_events = empty_world\<lparr>db_telegram_event_outbox := [sample_event], db_users := [sample_admin]\<rparr>"

definition friendly_bot :: bot where
  "friendly_bot = \<lparr>bot_post = (\<lambda>_ _ _. Response 200 []), dumps = (\<lambda>_. [])\<rparr>"


lemma sample_events_unique: "events_unique sample_events"
  by (simp add: events_unique_def sample_events_def)

lemma each_recipient_gets_one_event_witness:
  "\<exists>es w'. create_events (\<lambda>_. ''ev2'') 0 7 USER_REGISTERED None (Some ''u2'') JNull [sample_admin] sample_events =
      ok es w' \<and> events_unique w'"
  using each_recipient_gets_one_event [OF sample_events_unique, where ids = "\<lambda>_. ''ev2''" and j = 0
      and now = 7 and ty = USER_REGISTERED and ety = None and eid = "Some ''u2''" and payload = JNull
      and rs = "[sample_admin]"]
  by blast

end
