(* ===== verification/Slug.thy ===== *)
theory Slug
  imports Security
begin

text \<open>
  \<^verbatim>\<open>app/utils/slug.py\<close>: the slug of a name. The NFKD normalisation to ASCII is a parameter; the
  rest is the regular expression, the stripping and the lower-casing of the function.
\<close>

definition ascii_alnum :: "char \<Rightarrow> bool" where
  "ascii_alnum c = (is_alpha c \<or> is_digit c)"

text \<open>\<open>re.sub(r"[^a-zA-Z0-9]+", "-", s)\<close>; the flag says that a run has already been replaced.\<close>

fun sub_runs :: "bool \<Rightarrow> string \<Rightarrow> string" where
  "sub_runs in_run [] = []"
| "sub_runs in_run (c # cs) =
     (if ascii_alnum c then c # sub_runs False cs
      else if in_run then sub_runs True cs
      else CHR ''-'' # sub_runs True cs)"

definition slugify :: "externals \<Rightarrow> string \<Rightarrow> string" where
  "slugify x v =
     (let normalized = lower (strip_char (CHR ''-'') (sub_runs False (nfkd_ascii x v)))
      in if normalized = [] then ''item'' else normalized)"

section \<open>What a slug is\<close>

definition slug_char :: "char \<Rightarrow> bool" where
  "slug_char c = (let n = (of_char c :: nat) in (97 \<le> n \<and> n \<le> 122) \<or> (48 \<le> n \<and> n \<le> 57))"

fun no_double_dash :: "string \<Rightarrow> bool" where
  "no_double_dash (a # b # cs) = (\<not> (a = CHR ''-'' \<and> b = CHR ''-'') \<and> no_double_dash (b # cs))"
| "no_double_dash _ = True"

definition is_slug :: "string \<Rightarrow> bool" where
  "is_slug s \<longleftrightarrow> s \<noteq> [] \<and> list_all (\<lambda>c. slug_char c \<or> c = CHR ''-'') s \<and>
     hd s \<noteq> CHR ''-'' \<and> last s \<noteq> CHR ''-'' \<and> no_double_dash s"

lemma sub_runs_chars: "list_all (\<lambda>c. ascii_alnum c \<or> c = CHR ''-'') (sub_runs r s)"
  by (induction r s rule: sub_runs.induct) auto

lemma dash_not_alnum: "\<not> ascii_alnum CHR ''-''"
  by (simp add: ascii_alnum_def is_alpha_def is_digit_def)

lemma no_double_dash_Cons:
  "no_double_dash (c # cs) \<longleftrightarrow> no_double_dash cs \<and> \<not> (c = CHR ''-'' \<and> cs \<noteq> [] \<and> hd cs = CHR ''-'')"
  by (cases cs) auto

lemma sub_runs_no_double:
  "no_double_dash (sub_runs r s) \<and> (r \<longrightarrow> sub_runs r s = [] \<or> hd (sub_runs r s) \<noteq> CHR ''-'')"
proof (induction r s rule: sub_runs.induct)
  case (2 r c cs)
  then show ?case by (auto simp: no_double_dash_Cons dash_not_alnum)
qed simp

lemma no_double_dash_suffix: "no_double_dash (xs @ ys) \<Longrightarrow> no_double_dash ys"
  by (induction xs) (auto simp: no_double_dash_Cons)

lemma no_double_dash_prefix: "no_double_dash (xs @ ys) \<Longrightarrow> no_double_dash xs"
  by (induction xs) (auto simp: no_double_dash_Cons hd_append split: if_splits)

lemma strip_char_parts: "\<exists>u v. s = u @ strip_char c s @ v"
proof -
  have 1: "s = takeWhile (\<lambda>x. x = c) s @ lstrip_char c s" by (simp add: lstrip_char_def)
  have 2: "t = rstrip_char c t @ rev (takeWhile (\<lambda>x. x = c) (rev t))" for t
    by (metis rev_append rev_rev_ident rstrip_char_def takeWhile_dropWhile_id)
  show ?thesis using 1 2 [of "lstrip_char c s"] by (metis strip_char_def)
qed

lemma strip_char_ends:
  assumes "strip_char c s \<noteq> []" shows "hd (strip_char c s) \<noteq> c" "last (strip_char c s) \<noteq> c"
proof -
  let ?t = "lstrip_char c s"
  have d: "dropWhile (\<lambda>x. x = c) (rev ?t) \<noteq> []"
    using assms by (simp add: strip_char_def rstrip_char_def)
  then show "last (strip_char c s) \<noteq> c"
    using hd_dropWhile [OF d] by (simp add: strip_char_def rstrip_char_def last_rev)
  have "?t = strip_char c s @ rev (takeWhile (\<lambda>x. x = c) (rev ?t))"
    by (metis rev_append rev_rev_ident rstrip_char_def strip_char_def takeWhile_dropWhile_id)
  with assms have hd: "hd (strip_char c s) = hd ?t" by (metis hd_append2)
  have "dropWhile (\<lambda>x. x = c) s \<noteq> []"
  proof
    assume "dropWhile (\<lambda>x. x = c) s = []"
    then have "strip_char c s = []" by (simp only: strip_char_def lstrip_char_def rstrip_char_def) simp
    with assms show False ..
  qed
  from hd_dropWhile [OF this] hd show "hd (strip_char c s) \<noteq> c" by (simp add: lstrip_char_def)
qed

lemma lower_alnum: "ascii_alnum c \<Longrightarrow> slug_char (lower_char c)"
  by (auto simp: ascii_alnum_def is_alpha_def is_digit_def lower_char_def slug_char_def Let_def of_char_of)

lemma lower_dash: "ascii_alnum c \<or> c = CHR ''-'' \<Longrightarrow> lower_char c = CHR ''-'' \<longleftrightarrow> c = CHR ''-''"
proof -
  have "\<not> slug_char CHR ''-''" "lower_char CHR ''-'' = CHR ''-''"
    by (simp_all add: slug_char_def lower_char_def)
  then show "ascii_alnum c \<or> c = CHR ''-'' \<Longrightarrow> ?thesis" using lower_alnum [of c] dash_not_alnum by auto
qed

lemma no_double_dash_lower:
  "list_all (\<lambda>c. ascii_alnum c \<or> c = CHR ''-'') s \<Longrightarrow> no_double_dash s \<Longrightarrow> no_double_dash (lower s)"
  by (induction s rule: no_double_dash.induct) (simp_all add: lower_def lower_dash)

lemma stripped_is_slug:
  assumes "list_all (\<lambda>c. ascii_alnum c \<or> c = CHR ''-'') t" "no_double_dash t" "t \<noteq> []"
    "hd t \<noteq> CHR ''-''" "last t \<noteq> CHR ''-''"
  shows "is_slug (lower t)"
proof -
  have ok: "ascii_alnum c \<or> c = CHR ''-''" if "c \<in> set t" for c
    using assms(1) that by (auto simp: list_all_iff)
  have "slug_char (lower_char c) \<or> lower_char c = CHR ''-''" if "c \<in> set t" for c
    using ok [OF that] lower_alnum [of c] lower_dash [of c] by blast
  then have "list_all (\<lambda>c. slug_char c \<or> c = CHR ''-'') (lower t)"
    by (auto simp: lower_def list_all_iff)
  moreover have "hd (lower t) \<noteq> CHR ''-''" "last (lower t) \<noteq> CHR ''-''"
    using assms(3-5) lower_dash [OF ok, of "hd t"] lower_dash [OF ok, of "last t"]
    by (simp_all add: lower_def hd_map last_map)
  ultimately show ?thesis
    using assms no_double_dash_lower by (simp add: is_slug_def lower_def)
qed

lemma slug_char_alnum: "slug_char c \<Longrightarrow> ascii_alnum c"
  by (auto simp: slug_char_def ascii_alnum_def is_alpha_def is_digit_def Let_def)

lemma slug_char_lower: "slug_char c \<or> c = CHR ''-'' \<Longrightarrow> lower_char c = c"
  by (auto simp: slug_char_def lower_char_def Let_def)

lemma sub_runs_slug:
  "list_all (\<lambda>c. slug_char c \<or> c = CHR ''-'') s \<Longrightarrow> no_double_dash s \<Longrightarrow>
   (r \<longrightarrow> s = [] \<or> hd s \<noteq> CHR ''-'') \<Longrightarrow> sub_runs r s = s"
proof (induction r s rule: sub_runs.induct)
  case (2 r c cs)
  then show ?case by (auto simp: no_double_dash_Cons dash_not_alnum dest: slug_char_alnum)
qed simp

lemma strip_char_id: "s \<noteq> [] \<Longrightarrow> hd s \<noteq> c \<Longrightarrow> last s \<noteq> c \<Longrightarrow> strip_char c s = s"
proof -
  assume s: "s \<noteq> []" "hd s \<noteq> c" "last s \<noteq> c"
  have drop: "dropWhile (\<lambda>x. x = c) t = t" if "t \<noteq> []" "hd t \<noteq> c" for t
    using that by (cases t) auto
  show ?thesis
    using s drop [of s] drop [of "rev s"]
    by (simp add: strip_char_def lstrip_char_def rstrip_char_def hd_rev)
qed

lemma slugify_is_slug: "is_slug (slugify x v)"
proof -
  let ?t = "strip_char (CHR ''-'') (sub_runs False (nfkd_ascii x v))"
  show ?thesis
  proof (cases "?t = []")
    case True
    then have "slugify x v = ''item''" by (simp add: slugify_def lower_def)
    then show ?thesis by (simp add: is_slug_def slug_char_def)
  next
    case False
    obtain u w where uw: "sub_runs False (nfkd_ascii x v) = u @ ?t @ w"
      using strip_char_parts by blast
    have "list_all (\<lambda>c. ascii_alnum c \<or> c = CHR ''-'') (u @ ?t @ w)"
      unfolding uw [symmetric] by (rule sub_runs_chars)
    moreover have "no_double_dash (u @ ?t @ w)"
      unfolding uw [symmetric] using sub_runs_no_double by blast
    ultimately have "list_all (\<lambda>c. ascii_alnum c \<or> c = CHR ''-'') ?t" "no_double_dash ?t"
      by (simp, blast dest: no_double_dash_suffix no_double_dash_prefix)
    from stripped_is_slug [OF this False strip_char_ends [OF False]] False
    show ?thesis by (simp add: slugify_def lower_def)
  qed
qed

text \<open>What NFKD and the ASCII encoding do to a text that is ASCII already: nothing.\<close>

definition nfkd_laws :: "externals \<Rightarrow> bool" where
  "nfkd_laws x \<longleftrightarrow> (\<forall>s. list_all (\<lambda>c. (of_char c :: nat) < 128) s \<longrightarrow> nfkd_ascii x s = s)"

text \<open>
  C26. The slug of any name is not empty, consists of lower-case letters and digits in groups
  that single dashes separate, and is its own slug.
\<close>

theorem slugify_wellformed_idempotent:
  assumes "nfkd_laws x"
  shows "is_slug (slugify x v) \<and> slugify x (slugify x v) = slugify x v"
proof -
  have slug: "is_slug (slugify x v)" by (rule slugify_is_slug)
  let ?s = "slugify x v"
  have chars: "list_all (\<lambda>c. slug_char c \<or> c = CHR ''-'') ?s" using slug by (simp add: is_slug_def)
  then have "list_all (\<lambda>c. (of_char c :: nat) < 128) ?s"
    by (auto simp: list_all_iff slug_char_def Let_def)
  then have "nfkd_ascii x ?s = ?s" using assms by (simp add: nfkd_laws_def)
  moreover have "sub_runs False ?s = ?s" using slug chars by (intro sub_runs_slug) (auto simp: is_slug_def)
  moreover have "strip_char (CHR ''-'') ?s = ?s" using slug by (intro strip_char_id) (auto simp: is_slug_def)
  moreover have "lower ?s = ?s"
    using chars by (auto simp: lower_def list_all_iff slug_char_lower intro: map_idI)
  moreover have "?s \<noteq> []" using slug by (simp add: is_slug_def)
  ultimately have "slugify x ?s = ?s" by (subst slugify_def) simp
  with slug show ?thesis by simp
qed

lemma reference_nfkd: "nfkd_laws reference_externals"
  by (simp add: nfkd_laws_def reference_externals_def list_all_iff filter_id_conv)

lemma slugify_wellformed_idempotent_witness:
  "is_slug (slugify reference_externals '' Tashkent  State U.'') \<and>
   slugify reference_externals (slugify reference_externals '' Tashkent  State U.'') =
     slugify reference_externals '' Tashkent  State U.''"
  by (rule slugify_wellformed_idempotent [OF reference_nfkd])

end
