(* ===== verification/Auth.thy ===== *)
theory Auth
  imports SecurityControls EmailOutbox TelegramEvents Slug
begin

text \<open>
  \<^verbatim>\<open>app/modules/auth/service.py\<close>, \<^verbatim>\<open>dependencies.py\<close> and the endpoints of \<^verbatim>\<open>api.py\<close>: registration,
  login, rotation of refresh tokens with detection of replays, logout, password reset, e-mail
  verification, sessions, and the guards that every protected endpoint depends on.

  An operation that fails returns the tables it committed: those at its start, except where
  the code commits a revocation before it raises. \<open>ids\<close> gives every draw of a random value its
  own: identifiers, token strings and salts.
\<close>

section \<open>Requests\<close>

record register_request =
  rq_full_name :: string
  rq_email :: string
  rq_password :: string
  rq_university_id :: "string option"
  rq_proposed_university_name :: "string option"

text \<open>The validator raises ValueError, None here, unless exactly one choice was made.\<close>

definition validate_university_choice :: "register_request \<Rightarrow> register_request option" where
  "validate_university_choice rq =
     (let has_existing = truthy (rq_university_id rq);
          has_proposal = (truthy (rq_proposed_university_name rq) \<and>
                          strip (the (rq_proposed_university_name rq)) \<noteq> [])
      in if has_existing = has_proposal then None
         else Some (if truthy (rq_proposed_university_name rq)
                    then rq\<lparr>rq_proposed_university_name :=
                            Some (strip (the (rq_proposed_university_name rq)))\<rparr>
                    else rq))"

record token_response =
  tr_access_token :: string
  tr_refresh_token :: string
  tr_role :: user_role

section \<open>Messages\<close>

fun html_escape_char :: "char \<Rightarrow> string" where
  "html_escape_char c =
     (if c = CHR ''&'' then ''&amp;'' else if c = CHR ''<'' then ''&lt;''
      else if c = CHR ''>'' then ''&gt;'' else if c = CHR 0x22 then ''&quot;''
      else if c = CHR 0x27 then ''&#x27;'' else [c])"

definition html_escape :: "string \<Rightarrow> string" where
  "html_escape s = concat (map html_escape_char s)"

definition build_public_url :: "settings \<Rightarrow> string \<Rightarrow> string \<Rightarrow> string" where
  "build_public_url st path token =
     (let normalized_path = (if startswith path ''/'' then path else ''/'' @ path)
      in rstrip_char (CHR ''/'') (public_web_base_url st) @ normalized_path @ ''?token='' @ token)"

definition queue_verification_email where
  "queue_verification_email st i now user token w =
     (let url = build_public_url st (email_verification_url_path st) token
      in enqueue_email st i now (u_email user) ''Verify your Student Knowledge Hub email''
           (''Hello '' @ u_full_name user @ '','' @ newline @ newline @
            ''Verify your email address using this link:'' @ newline @ url @ newline @ newline @
            ''If you did not create this account, you can ignore this email.'')
           (Some (''<p>Hello '' @ html_escape (u_full_name user) @ '',</p>'' @
                  ''<p>Verify your email address using this link:</p>'' @
                  ''<p><a href='' @ [CHR 0x22] @ html_escape url @ [CHR 0x22] @ ''>Verify email</a></p>'' @
                  ''<p>If you did not create this account, you can ignore this email.</p>'')) w)"

definition queue_password_reset_email where
  "queue_password_reset_email st i now user token w =
     (let url = build_public_url st (password_reset_url_path st) token
      in enqueue_email st i now (u_email user) ''Reset your Student Knowledge Hub password''
           (''Hello '' @ u_full_name user @ '','' @ newline @ newline @
            ''Reset your password using this link:'' @ newline @ url @ newline @ newline @
            ''If you did not request a password reset, you can ignore this email.'')
           (Some (''<p>Hello '' @ html_escape (u_full_name user) @ '',</p>'' @
                  ''<p>Reset your password using this link:</p>'' @
                  ''<p><a href='' @ [CHR 0x22] @ html_escape url @ [CHR 0x22] @ ''>Reset password</a></p>'' @
                  ''<p>If you did not request a password reset, you can ignore this email.</p>'')) w)"

section \<open>Tokens in the database\<close>

definition revoke_all_refresh_tokens :: "string \<Rightarrow> int \<Rightarrow> world \<Rightarrow> world" where
  "revoke_all_refresh_tokens user_id now w =
     w\<lparr>db_refresh_token_sessions :=
        update_where (\<lambda>s. rs_user_id s = user_id \<and> rs_revoked_at s = None)
          (\<lambda>s. s\<lparr>rs_revoked_at := Some now\<rparr>) (db_refresh_token_sessions w)\<rparr>"

definition consume_email_verification_tokens :: "string \<Rightarrow> world \<Rightarrow> world" where
  "consume_email_verification_tokens user_id w =
     w\<lparr>db_email_verification_tokens :=
        update_where (\<lambda>t. ot_user_id t = user_id \<and> \<not> ot_consumed t) (\<lambda>t. t\<lparr>ot_consumed := True\<rparr>)
          (db_email_verification_tokens w)\<rparr>"

definition consume_password_reset_tokens :: "string \<Rightarrow> world \<Rightarrow> world" where
  "consume_password_reset_tokens user_id w =
     w\<lparr>db_password_reset_tokens :=
        update_where (\<lambda>t. ot_user_id t = user_id \<and> \<not> ot_consumed t) (\<lambda>t. t\<lparr>ot_consumed := True\<rparr>)
          (db_password_reset_tokens w)\<rparr>"

text \<open>The token is \<open>uuid4().hex + uuid4().hex\<close>: the first argument; the second is the row's id.\<close>

definition create_email_verification_token ::
  "externals \<Rightarrow> settings \<Rightarrow> string \<Rightarrow> string \<Rightarrow> int \<Rightarrow> user \<Rightarrow> world \<Rightarrow> world"
where
  "create_email_verification_token x st token i now user w =
     (let w1 = consume_email_verification_tokens (u_id user) w
      in w1\<lparr>db_email_verification_tokens := db_email_verification_tokens w1 @
           [\<lparr>ot_id = i, ot_user_id = u_id user, ot_token = sha256_text x token,
             ot_expires_at = now + hours (email_verification_token_expire_hours st),
             ot_consumed = False, ot_created_at = now\<rparr>]\<rparr>)"

definition issue_token_pair ::
  "externals \<Rightarrow> settings \<Rightarrow> (nat \<Rightarrow> string) \<Rightarrow> int \<Rightarrow> user \<Rightarrow> world \<Rightarrow> (string \<times> string) res \<times> world"
where
  "issue_token_pair x st ids now user w =
     (let access_token = create_access_token x st (ids 0) now (u_id user) (role_value (u_role user));
          refresh_token = create_refresh_token x st (ids 1) now (u_id user) (role_value (u_role user))
      in case decode_token x st now refresh_token of
           Inl e \<Rightarrow> fail e w
         | Inr c \<Rightarrow>
             (case (c_jti c, claims_expiration_to_datetime c) of
                (None, _) \<Rightarrow> fail (KeyError ''jti'') w
              | (_, Inl e) \<Rightarrow> fail e w
              | (Some jti, Inr expires) \<Rightarrow>
                  ok (access_token, refresh_token)
                    (w\<lparr>db_refresh_token_sessions := db_refresh_token_sessions w @
                        [\<lparr>rs_id = ids 2, rs_user_id = u_id user, rs_jti = jti,
                          rs_token_hash = sha256_text x refresh_token, rs_expires_at = expires,
                          rs_used_at = None, rs_revoked_at = None, rs_replaced_by_jti = None,
                          rs_created_at = now\<rparr>]\<rparr>)))"

text \<open>An unknown or altered refresh token revokes the sessions of the user it names, and commits.\<close>

definition get_refresh_session ::
  "externals \<Rightarrow> settings \<Rightarrow> string \<Rightarrow> string \<Rightarrow> int \<Rightarrow> world \<Rightarrow> refresh_token_session res \<times> world"
where
  "get_refresh_session x st jti refresh_token now w =
     (let token_session = find (\<lambda>s. rs_jti s = jti) (db_refresh_token_sessions w)
      in if token_session = None \<or> rs_token_hash (the token_session) \<noteq> sha256_text x refresh_token
         then (case decode_token x st now refresh_token of
                 Inl e \<Rightarrow> fail e w
               | Inr c \<Rightarrow>
                   (case c_sub c of
                      None \<Rightarrow> fail (KeyError ''sub'') w
                    | Some sbj \<Rightarrow> fail (AuthenticationError ''Refresh token is invalid'')
                                  (revoke_all_refresh_tokens sbj now w)))
         else ok (the token_session) w)"

section \<open>Registration\<close>

definition ensure_university_proposal_available :: "externals \<Rightarrow> string \<Rightarrow> world \<Rightarrow> unit res" where
  "ensure_university_proposal_available x proposed_name w =
     (let proposed_slug = slugify x proposed_name in
      case scalar_one_or_none (filter (\<lambda>u. ilike x (un_name u) proposed_name \<or> un_slug u = proposed_slug)
             (db_universities w)) of
        Inl e \<Rightarrow> Inl e
      | Inr (Some _) \<Rightarrow> Inl (ConflictError ''University already exists'')
      | Inr None \<Rightarrow>
          (case scalar_one_or_none (filter (\<lambda>p. up_status p = ProposalPending \<and>
                  (ilike x (up_proposed_name p) proposed_name \<or> up_proposed_slug p = Some proposed_slug))
                  (db_university_proposals w)) of
             Inl e \<Rightarrow> Inl e
           | Inr (Some _) \<Rightarrow> Inl (ConflictError ''University proposal already exists'')
           | Inr None \<Rightarrow> Inr ()))"

definition registration_proposal :: "externals \<Rightarrow> string \<Rightarrow> int \<Rightarrow> user \<Rightarrow> string \<Rightarrow> university_proposal" where
  "registration_proposal x i now user proposed_name =
     \<lparr>up_id = i, up_proposed_name = proposed_name, up_proposed_slug = Some (slugify x proposed_name),
      up_proposed_description = Some ''Submitted during registration'', up_created_by = u_id user,
      up_status = ProposalPending, up_reviewed_by = None, up_review_note = None,
      up_approved_university_id = None, up_reviewed_at = None, up_created_at = now\<rparr>"

definition create_registration_university_proposal ::
  "externals \<Rightarrow> (nat \<Rightarrow> string) \<Rightarrow> int \<Rightarrow> user \<Rightarrow> string \<Rightarrow> world \<Rightarrow> nat res \<times> world"
where
  \<comment> \<open>the result counts the events queued\<close>
  "create_registration_university_proposal x ids now user proposed_name w =
     (let proposal = registration_proposal x (ids 2) now user proposed_name;
          w1 = w\<lparr>db_university_proposals := db_university_proposals w @ [proposal],
                 db_catalog_proposal_logs := db_catalog_proposal_logs w @
                   [\<lparr>pl_id = ids 3, pl_entity_type = UNIVERSITY, pl_entity_id = up_id proposal,
                     pl_action = ''submitted_during_registration'', pl_actor_id = u_id user,
                     pl_note = None\<rparr>]\<rparr>
      in case enqueue_proposal_created_events ids 10 now (UniversityProposal proposal) ''university'' w1 of
           (Inl e, w2) \<Rightarrow> fail e w2
         | (Inr events, w2) \<Rightarrow> ok (length events) w2)"

definition new_user :: "externals \<Rightarrow> (nat \<Rightarrow> string) \<Rightarrow> int \<Rightarrow> register_request \<Rightarrow> user" where
  "new_user x ids now rq =
     \<lparr>u_id = ids 0, u_full_name = rq_full_name rq, u_email = rq_email rq, u_avatar_url = None,
      u_hashed_password = hash_password x (ids 1) (rq_password rq), u_role = STUDENT,
      u_university_id = rq_university_id rq, u_university_changed_at = None,
      u_pending_university_name =
        (if truthy (rq_university_id rq) then None else Some (or_else (rq_proposed_university_name rq) [])),
      u_university_status = (if truthy (rq_university_id rq) then ''selected'' else ''pending''),
      u_is_active = True, u_is_verified = False, u_created_at = now\<rparr>"

text \<open>
  \<open>users.create\<close> flushes the row: the e-mail is unique, and a university id that is not null is
  a foreign key, the empty string included.
\<close>

definition create_user :: "user \<Rightarrow> world \<Rightarrow> unit res \<times> world" where
  "create_user u w =
     (if get_user_by_email (u_email u) w \<noteq> None
         \<or> (case u_university_id u of None \<Rightarrow> False | Some i \<Rightarrow> get_university i w = None)
      then fail IntegrityError w
      else ok () (w\<lparr>db_users := db_users w @ [u]\<rparr>))"

definition register ::
  "externals \<Rightarrow> settings \<Rightarrow> (nat \<Rightarrow> string) \<Rightarrow> int \<Rightarrow> register_request \<Rightarrow> world \<Rightarrow> user res \<times> world"
where
  "register x st ids now rq w =
     (if get_user_by_email (rq_email rq) w \<noteq> None
      then fail (ConflictError ''User with this email already exists'') w
      else
        let guard = (if truthy (rq_university_id rq)
                     then (if get_university (the (rq_university_id rq)) w = None
                           then Inl (ResourceNotFound ''University not found'') else Inr ())
                     else ensure_university_proposal_available x
                            (or_else (rq_proposed_university_name rq) []) w)
        in case guard of
             Inl e \<Rightarrow> fail e w
           | Inr _ \<Rightarrow>
               let user = new_user x ids now rq in
               (case create_user user w of
                  (Inl e, _) \<Rightarrow> fail e w
                | (Inr _, w1) \<Rightarrow>
                    (case (if truthy (u_pending_university_name user)
                           then create_registration_university_proposal x ids now user
                                  (the (u_pending_university_name user)) w1
                           else ok 0 w1) of
                       (Inl e, _) \<Rightarrow> fail e w
                     | (Inr n, w2) \<Rightarrow>
                         let w3 = audit (ids 4) now ''user_registered'' ''user'' (Some user) (Some (u_id user)) None w2;
                             w4 = create_email_verification_token x st (ids 5) (ids 6) now user w3;
                             w5 = queue_verification_email st (ids 7) now user (ids 5) w4
                         in (case enqueue_user_registered_events ids (10 + n) now user w5 of
                               (Inl e, _) \<Rightarrow> fail e w
                             | (Inr _, w6) \<Rightarrow> ok user w6))))"

section \<open>Login, refresh, logout\<close>

definition blocked_message :: string where
  "blocked_message =
     ''Hisobingiz bloklangan yoki nofaol. Iltimos, administrator bilan bog'laning.''"

definition login ::
  "externals \<Rightarrow> settings \<Rightarrow> (nat \<Rightarrow> string) \<Rightarrow> int \<Rightarrow> string \<Rightarrow> string \<Rightarrow> world \<Rightarrow> token_response res \<times> world"
where
  "login x st ids now email password w =
     (case get_user_by_email email w of
        None \<Rightarrow> fail (AuthenticationError ''Invalid credentials'') w
      | Some user \<Rightarrow>
          (if \<not> verify_password x password (u_hashed_password user)
           then fail (AuthenticationError ''Invalid credentials'') w
           else if \<not> u_is_active user then fail (AuthenticationError blocked_message) w
           else
             (case issue_token_pair x st ids now user w of
                (Inl e, _) \<Rightarrow> fail e w
              | (Inr (a, r), w1) \<Rightarrow>
                  ok \<lparr>tr_access_token = a, tr_refresh_token = r, tr_role = u_role user\<rparr> w1)))"

definition session_spent :: "int \<Rightarrow> refresh_token_session \<Rightarrow> bool" where
  "session_spent now s =
     (rs_revoked_at s \<noteq> None \<or> rs_used_at s \<noteq> None \<or> rs_expires_at s \<le> now)"

definition refresh ::
  "externals \<Rightarrow> settings \<Rightarrow> (nat \<Rightarrow> string) \<Rightarrow> int \<Rightarrow> string \<Rightarrow> world \<Rightarrow> token_response res \<times> world"
where
  "refresh x st ids now refresh_token w =
     (case decode_token x st now refresh_token of
        Inl e \<Rightarrow> fail e w
      | Inr c \<Rightarrow>
          (if c_type c \<noteq> Some ''refresh'' then fail (AuthenticationError ''Invalid token type'') w
           else
             (case c_sub c of
                None \<Rightarrow> fail (KeyError ''sub'') w
              | Some sbj \<Rightarrow>
                  (case get_user sbj w of
                     None \<Rightarrow> fail (AuthenticationError ''User not found'') w
                   | Some user \<Rightarrow>
                       (if \<not> u_is_active user then fail (AuthenticationError blocked_message) w
                        else
                          (case c_jti c of
                             None \<Rightarrow> fail (KeyError ''jti'') w
                           | Some jti \<Rightarrow>
                               (case get_refresh_session x st jti refresh_token now w of
                                  (Inl e, w1) \<Rightarrow> fail e w1
                                | (Inr s, _) \<Rightarrow>
                                    (if rs_user_id s \<noteq> u_id user
                                     then fail (AuthenticationError ''Invalid refresh token'')
                                            (revoke_all_refresh_tokens (u_id user) now w)
                                     else if session_spent now s
                                     then fail (AuthenticationError ''Refresh token has already been used or revoked'')
                                            (revoke_all_refresh_tokens (u_id user) now w)
                                     else
                                       (case issue_token_pair x st ids now user w of
                                          (Inl e, _) \<Rightarrow> fail e w
                                        | (Inr (a, r), w1) \<Rightarrow>
                                            (case decode_token x st now r of
                                               Inl e \<Rightarrow> fail e w
                                             | Inr nc \<Rightarrow>
                                                 (case c_jti nc of
                                                    None \<Rightarrow> fail (KeyError ''jti'') w
                                                  | Some new_jti \<Rightarrow>
                                                      ok \<lparr>tr_access_token = a, tr_refresh_token = r, tr_role = u_role user\<rparr>
                                                        (w1\<lparr>db_refresh_token_sessions :=
                                                           store_row rs_id
                                                             (s\<lparr>rs_used_at := Some now, rs_replaced_by_jti := Some new_jti,
                                                                rs_revoked_at := Some now\<rparr>)
                                                             (db_refresh_token_sessions w1)\<rparr>))))))))))))"

definition logout ::
  "externals \<Rightarrow> 'r redis \<Rightarrow> settings \<Rightarrow> int \<Rightarrow> string option \<Rightarrow> string option \<Rightarrow> world \<Rightarrow> 'r kv \<Rightarrow>
   string res \<times> world \<times> 'r kv"
where
  \<comment> \<open>\<open>payload\<close> is the refresh token of the body, None without a body\<close>
  "logout x r st now payload access_token w s =
     (case (if truthy access_token then revoke_token x r st (the access_token) now s else ok () s) of
        (Inl e, s1) \<Rightarrow> (Inl e, w, s1)
      | (Inr _, s1) \<Rightarrow>
          (if \<not> truthy payload then (Inr ''Tizimdan chiqildi'', w, s1)
           else
             (case decode_token x st now (the payload) of
                Inl e \<Rightarrow> (Inl e, w, s1)
              | Inr c \<Rightarrow>
                  (if c_type c \<noteq> Some ''refresh'' then (Inl (AuthenticationError ''Invalid token type''), w, s1)
                   else
                     (case c_jti c of
                        None \<Rightarrow> (Inl (KeyError ''jti''), w, s1)
                      | Some jti \<Rightarrow>
                          (case get_refresh_session x st jti (the payload) now w of
                             (Inl e, w1) \<Rightarrow> (Inl e, w1, s1)
                           | (Inr ts, _) \<Rightarrow>
                               (Inr ''Tizimdan chiqildi'',
                                w\<lparr>db_refresh_token_sessions :=
                                   store_row rs_id (ts\<lparr>rs_revoked_at := Some now\<rparr>)
                                     (db_refresh_token_sessions w)\<rparr>, s1)))))))"

section \<open>Password reset and e-mail verification\<close>

definition queued_message :: string where
  "queued_message = ''Agar akkaunt mavjud bo'lsa, email yuborish navbatga qo'yildi.''"

definition forgot_password ::
  "externals \<Rightarrow> settings \<Rightarrow> (nat \<Rightarrow> string) \<Rightarrow> int \<Rightarrow> string \<Rightarrow> world \<Rightarrow> string res \<times> world"
where
  \<comment> \<open>\<open>ids 0\<close> is the token mailed, \<open>ids 1\<close> the row's id, flushed with the audit entry\<close>
  "forgot_password x st ids now email w =
     (case get_user_by_email email w of
        None \<Rightarrow> ok queued_message w
      | Some user \<Rightarrow>
          let w1 = consume_password_reset_tokens (u_id user) w;
              w2 = w1\<lparr>db_password_reset_tokens := db_password_reset_tokens w1 @
                     [\<lparr>ot_id = ids 1, ot_user_id = u_id user, ot_token = sha256_text x (ids 0),
                       ot_expires_at = now + hours 1, ot_consumed = False, ot_created_at = now\<rparr>]\<rparr>;
              w3 = queue_password_reset_email st (ids 2) now user (ids 0) w2;
              w4 = audit (ids 3) now ''password_reset_requested'' ''user'' (Some user) (Some (u_id user)) None w3
          in (case enqueue_user_security_events ids 10 now PASSWORD_RESET_REQUESTED user (ids 1) [] w4 of
                (Inl e, _) \<Rightarrow> fail e w
              | (Inr _, w5) \<Rightarrow> ok queued_message w5))"

definition reset_password ::
  "externals \<Rightarrow> 'r redis \<Rightarrow> settings \<Rightarrow> (nat \<Rightarrow> string) \<Rightarrow> int \<Rightarrow> string \<Rightarrow> string \<Rightarrow> world \<Rightarrow> 'r kv \<Rightarrow>
   string res \<times> world \<times> 'r kv"
where
  "reset_password x r st ids now token new_password w s =
     (case find (\<lambda>t. ot_token t = sha256_text x token) (db_password_reset_tokens w) of
        None \<Rightarrow> (Inl (AuthenticationError ''Parolni tiklash tokeni noto'g'ri yoki muddati tugagan''), w, s)
      | Some reset_token \<Rightarrow>
          (if ot_consumed reset_token \<or> ot_expires_at reset_token < now
           then (Inl (AuthenticationError ''Parolni tiklash tokeni noto'g'ri yoki muddati tugagan''), w, s)
           else
             (case get_user (ot_user_id reset_token) w of
                None \<Rightarrow> (Inl (ResourceNotFound ''User not found''), w, s)
              | Some user0 \<Rightarrow>
                  let user = user0\<lparr>u_hashed_password := hash_password x (ids 0) new_password\<rparr>;
                      w1 = w\<lparr>db_users := store_row u_id user (db_users w),
                             db_password_reset_tokens :=
                               store_row ot_id (reset_token\<lparr>ot_consumed := True\<rparr>) (db_password_reset_tokens w)\<rparr>;
                      w2 = revoke_all_refresh_tokens (u_id user) now w1
                  in (case revoke_all_for_user r st (u_id user) now s of
                        (Inl e, s1) \<Rightarrow> (Inl e, w, s1)
                      | (Inr _, s1) \<Rightarrow>
                          let w3 = audit (ids 1) now ''password_reset_completed'' ''user'' (Some user) (Some (u_id user)) None w2
                          in (case enqueue_user_security_events ids 10 now PASSWORD_CHANGED user
                                     (ot_id reset_token) [] w3 of
                                (Inl e, _) \<Rightarrow> (Inl e, w, s1)
                              | (Inr _, w4) \<Rightarrow> (Inr ''Parol tiklandi'', w4, s1))))))"

definition verify_email ::
  "externals \<Rightarrow> (nat \<Rightarrow> string) \<Rightarrow> int \<Rightarrow> string \<Rightarrow> world \<Rightarrow> string res \<times> world"
where
  "verify_email x ids now token w =
     (case find (\<lambda>t. ot_token t = sha256_text x token) (db_email_verification_tokens w) of
        None \<Rightarrow> fail (AuthenticationError ''Tasdiqlash tokeni noto'g'ri yoki muddati tugagan'') w
      | Some vt \<Rightarrow>
          (if ot_consumed vt \<or> ot_expires_at vt < now
           then fail (AuthenticationError ''Tasdiqlash tokeni noto'g'ri yoki muddati tugagan'') w
           else
             (case get_user (ot_user_id vt) w of
                None \<Rightarrow> fail (ResourceNotFound ''User not found'') w
              | Some user0 \<Rightarrow>
                  let user = user0\<lparr>u_is_verified := True\<rparr>;
                      w1 = w\<lparr>db_users := store_row u_id user (db_users w),
                             db_email_verification_tokens :=
                               store_row ot_id (vt\<lparr>ot_consumed := True\<rparr>) (db_email_verification_tokens w)\<rparr>;
                      w2 = audit (ids 1) now ''email_verified'' ''user'' (Some user) (Some (u_id user)) None w1
                  in (case enqueue_user_security_events ids 10 now EMAIL_VERIFIED user (u_id user) [] w2 of
                        (Inl e, _) \<Rightarrow> fail e w
                      | (Inr _, w3) \<Rightarrow> ok ''Email tasdiqlandi'' w3))))"

definition resend_verification ::
  "externals \<Rightarrow> settings \<Rightarrow> (nat \<Rightarrow> string) \<Rightarrow> int \<Rightarrow> string \<Rightarrow> world \<Rightarrow> string res \<times> world"
where
  "resend_verification x st ids now email w =
     (case get_user_by_email email w of
        None \<Rightarrow> ok queued_message w
      | Some user \<Rightarrow>
          (if u_is_verified user then ok queued_message w
           else
             let w1 = create_email_verification_token x st (ids 0) (ids 1) now user w;
                 w2 = queue_verification_email st (ids 2) now user (ids 0) w1;
                 w3 = audit (ids 3) now ''email_verification_requested'' ''user'' (Some user) (Some (u_id user)) None w2
             in (case enqueue_user_security_events ids 10 now EMAIL_VERIFICATION_RESENT user (u_id user) [] w3 of
                   (Inl e, _) \<Rightarrow> fail e w
                 | (Inr _, w4) \<Rightarrow> ok queued_message w4)))"

section \<open>Sessions\<close>

definition revoke_user_sessions :: "string \<Rightarrow> int \<Rightarrow> world \<Rightarrow> world" where
  "revoke_user_sessions user_id now w = revoke_all_refresh_tokens user_id now w"

definition list_sessions :: "user \<Rightarrow> world \<Rightarrow> refresh_token_session list" where
  "list_sessions user w =
     order_by_desc rs_created_at
       (filter (\<lambda>s. rs_user_id s = u_id user) (db_refresh_token_sessions w))"

definition revoke_session :: "user \<Rightarrow> string \<Rightarrow> int \<Rightarrow> world \<Rightarrow> string res \<times> world" where
  "revoke_session user session_id now w =
     (case find (\<lambda>s. rs_id s = session_id \<and> rs_user_id s = u_id user) (db_refresh_token_sessions w) of
        None \<Rightarrow> fail (ResourceNotFound ''Session not found'') w
      | Some s \<Rightarrow>
          ok ''Sessiya bekor qilindi''
            (w\<lparr>db_refresh_token_sessions :=
                store_row rs_id (s\<lparr>rs_revoked_at := Some now\<rparr>) (db_refresh_token_sessions w)\<rparr>))"

definition logout_all :: "user \<Rightarrow> int \<Rightarrow> world \<Rightarrow> string res \<times> world" where
  "logout_all user now w =
     ok ''Barcha sessiyalar bekor qilindi'' (revoke_all_refresh_tokens (u_id user) now w)"

section \<open>Guards\<close>

definition get_current_user ::
  "externals \<Rightarrow> 'r redis \<Rightarrow> settings \<Rightarrow> string \<Rightarrow> int \<Rightarrow> world \<Rightarrow> 'r kv \<Rightarrow> user res \<times> 'r kv"
where
  "get_current_user x r st token now w s =
     (case decode_token x st now token of
        Inl e \<Rightarrow> fail e s
      | Inr payload \<Rightarrow>
          (if c_type payload \<noteq> Some ''access'' then fail (AuthenticationError ''Invalid access token'') s
           else
             (case ensure_not_revoked r st payload now s of
                (Inl e, s1) \<Rightarrow> fail e s1
              | (Inr _, s1) \<Rightarrow>
                  (case c_sub payload of
                     None \<Rightarrow> fail (KeyError ''sub'') s1
                   | Some sbj \<Rightarrow>
                       (case get_user sbj w of
                          None \<Rightarrow> fail (AuthenticationError ''User not found'') s1
                        | Some user \<Rightarrow>
                            (if \<not> u_is_active user then fail (AuthenticationError blocked_message) s1
                             else ok user s1))))))"

definition bearer_token :: "string option \<Rightarrow> string option \<Rightarrow> string option" where
  \<comment> \<open>the Authorization header, or the query parameter \<open>token\<close>\<close>
  "bearer_token auth_header query_token =
     (if truthy auth_header \<and> startswith (the auth_header) ''Bearer ''
      then Some (drop 7 (the auth_header)) else query_token)"

definition get_optional_user ::
  "externals \<Rightarrow> 'r redis \<Rightarrow> settings \<Rightarrow> string option \<Rightarrow> string option \<Rightarrow> int \<Rightarrow> world \<Rightarrow> 'r kv \<Rightarrow>
   user option res \<times> 'r kv"
where
  "get_optional_user x r st auth_header query_token now w s =
     (let token = bearer_token auth_header query_token in
      if \<not> truthy token then ok None s
      else
        (case decode_token x st now (the token) of
           Inl e \<Rightarrow> fail e s
         | Inr payload \<Rightarrow>
             (if c_type payload \<noteq> Some ''access'' then fail (AuthenticationError ''Invalid access token'') s
              else
                (case ensure_not_revoked r st payload now s of
                   (Inl e, s1) \<Rightarrow> fail e s1
                 | (Inr _, s1) \<Rightarrow>
                     (case c_sub payload of
                        None \<Rightarrow> fail (KeyError ''sub'') s1
                      | Some sbj \<Rightarrow>
                          (case get_user sbj w of
                             None \<Rightarrow> ok None s1
                           | Some user \<Rightarrow>
                               (if \<not> u_is_active user then fail (AuthenticationError blocked_message) s1
                                else ok (Some user) s1)))))))"

definition require_roles :: "user_role list \<Rightarrow> user \<Rightarrow> user res" where
  "require_roles roles user =
     (if u_role user \<notin> set roles then Inl (PermissionDenied ''Insufficient permissions'') else Inr user)"

record internal_request =
  ir_service_name :: "string option"
  ir_timestamp :: "string option"
  ir_signature :: "string option"
  ir_method :: string
  ir_path :: string
  ir_query :: string
  ir_body :: string

text \<open>
  \<open>datetime.fromtimestamp(.., tz=UTC)\<close>: ValueError outside the years 1 to 9999, which the guard
  turns into an authentication error, and an OverflowError or OSError, which it does not catch,
  once the year no longer fits the platform's calendar.
\<close>

definition fromtimestamp :: "int \<Rightarrow> app_error + int" where
  "fromtimestamp t =
     (if t < - 67768040609740800 \<or> 67768036191676799 < t then Inl (RuntimeError ''OverflowError'')
      else if t < - 62135596800 \<or> 253402300799 < t
      then Inl (AuthenticationError ''Invalid internal service signature'')
      else Inr (seconds t))"

definition require_internal_service ::
  "externals \<Rightarrow> settings \<Rightarrow> int \<Rightarrow> internal_request \<Rightarrow> string res"
where
  "require_internal_service x st now rq =
     (if \<not> truthy (internal_auth_secret st)
      then Inl (AuthenticationError ''Internal service auth is not configured'')
      else if \<not> truthy (ir_service_name rq) \<or> \<not> truthy (ir_timestamp rq) \<or> \<not> truthy (ir_signature rq)
      then Inl (AuthenticationError ''Invalid internal service signature'')
      else if the (ir_service_name rq) \<noteq> bot_service_name st
      then Inl (AuthenticationError ''Invalid internal service signature'')
      else
        (case python_int (the (ir_timestamp rq)) of
           None \<Rightarrow> Inl (AuthenticationError ''Invalid internal service signature'')
         | Some t \<Rightarrow>
             (case fromtimestamp t of
                Inl e \<Rightarrow> Inl e
              | Inr request_dt \<Rightarrow>
                  (if seconds (internal_auth_ttl_seconds st) < \<bar>now - request_dt\<bar>
                   then Inl (AuthenticationError ''Internal request signature expired'')
                   else
                     let canonical_path = (if ir_query rq \<noteq> [] then ir_path rq @ ''?'' @ ir_query rq
                                           else ir_path rq);
                         canonical = canonical_request x (the (ir_service_name rq)) (the (ir_timestamp rq))
                                       (ir_method rq) canonical_path (ir_body rq);
                         expected = hmac_sha256 x (the (internal_auth_secret st)) canonical
                     in if the (ir_signature rq) \<noteq> expected
                        then Inl (AuthenticationError ''Invalid internal service signature'')
                        else Inr (the (ir_service_name rq))))))"

end
