(* ===== verification/AuthFacts.thy ===== *)
theory AuthFacts
  imports Auth
begin

text \<open>
  What the authentication service guarantees: who can log in, what rotating, replaying and
  resetting do to the sessions of a user, and what a request must show to pass the guards.
\<close>

section \<open>Sessions\<close>

lemma revoke_all_rows:
  "db_refresh_token_sessions (revoke_all_refresh_tokens uid now w) =
     update_where (\<lambda>s. rs_user_id s = uid \<and> rs_revoked_at s = None)
       (\<lambda>s. s\<lparr>rs_revoked_at := Some now\<rparr>) (db_refresh_token_sessions w)"
  by (simp add: revoke_all_refresh_tokens_def)

text \<open>A session a refresh could still use.\<close>

definition live_session :: "int \<Rightarrow> string \<Rightarrow> refresh_token_session \<Rightarrow> bool" where
  "live_session now uid s = (rs_user_id s = uid \<and> \<not> session_spent now s)"

lemma revoke_all_no_live:
  "\<not> list_ex (live_session t uid) (db_refresh_token_sessions (revoke_all_refresh_tokens uid now w))"
proof -
  have "\<not> list_ex (live_session t uid) (update_where (\<lambda>s. rs_user_id s = uid \<and> rs_revoked_at s = None)
      (\<lambda>s. s\<lparr>rs_revoked_at := Some now\<rparr>) rows)" for rows
    by (induction rows) (auto simp: live_session_def session_spent_def)
  then show ?thesis by (simp add: revoke_all_rows)
qed

lemma revoke_all_other_users:
  "filter (\<lambda>s. rs_user_id s \<noteq> uid) (db_refresh_token_sessions (revoke_all_refresh_tokens uid now w)) =
   filter (\<lambda>s. rs_user_id s \<noteq> uid) (db_refresh_token_sessions w)"
proof -
  have "filter (\<lambda>s. rs_user_id s \<noteq> uid) (update_where (\<lambda>s. rs_user_id s = uid \<and> rs_revoked_at s = None)
      (\<lambda>s. s\<lparr>rs_revoked_at := Some now\<rparr>) rows) = filter (\<lambda>s. rs_user_id s \<noteq> uid) rows" for rows
    by (induction rows) auto
  then show ?thesis by (simp add: revoke_all_rows)
qed

text \<open>The row a refresh works on.\<close>

lemma get_refresh_session_ok:
  assumes "get_refresh_session x st jti token now w = ok s w'"
  shows "w' = w" "find (\<lambda>s. rs_jti s = jti) (db_refresh_token_sessions w) = Some s"
    "rs_token_hash s = sha256_text x token"
  using assms
  by (auto simp: get_refresh_session_def Let_def split: if_splits sum.splits option.splits)

text \<open>Everything a successful refresh does.\<close>

lemma refresh_ok:
  assumes "refresh x st ids now token w = ok resp w'"
  obtains c user jti s new_jti expires where
    "decode_token x st now token = Inr c" "c_type c = Some ''refresh''" "c_sub c = Some (u_id user)"
    "get_user (u_id user) w = Some user" "u_is_active user" "c_jti c = Some jti"
    "find (\<lambda>s. rs_jti s = jti) (db_refresh_token_sessions w) = Some s"
    "rs_token_hash s = sha256_text x token" "rs_user_id s = u_id user" "\<not> session_spent now s"
    "w' = w\<lparr>db_refresh_token_sessions :=
       store_row rs_id (s\<lparr>rs_used_at := Some now, rs_replaced_by_jti := Some new_jti, rs_revoked_at := Some now\<rparr>)
         (db_refresh_token_sessions w @
          [\<lparr>rs_id = ids 2, rs_user_id = u_id user, rs_jti = new_jti,
            rs_token_hash = sha256_text x (tr_refresh_token resp), rs_expires_at = expires,
            rs_used_at = None, rs_revoked_at = None, rs_replaced_by_jti = None, rs_created_at = now\<rparr>])\<rparr>"
    "tr_role resp = u_role user"
proof -
  obtain c where c: "decode_token x st now token = Inr c" "c_type c = Some ''refresh''"
    using assms by (auto simp: refresh_def split: sum.splits if_splits)
  obtain sbj where sbj: "c_sub c = Some sbj"
    using assms c by (auto simp: refresh_def split: option.splits)
  obtain user where user: "get_user sbj w = Some user" "u_is_active user"
    using assms c sbj by (auto simp: refresh_def split: option.splits if_splits)
  have id: "u_id user = sbj" using user(1) by (rule get_user_id)
  obtain jti where jti: "c_jti c = Some jti"
    using assms c sbj user by (auto simp: refresh_def split: option.splits)
  obtain s w1 where s: "get_refresh_session x st jti token now w = ok s w1"
    using assms c sbj user jti by (auto simp: refresh_def split: prod.splits sum.splits)
  note row = get_refresh_session_ok [OF s]
  have own: "rs_user_id s = u_id user" "\<not> session_spent now s"
    using assms c sbj user jti s by (auto simp: refresh_def split: if_splits)
  obtain a r w2 where p: "issue_token_pair x st ids now user w = ok (a, r) w2"
    using assms c sbj user jti s own by (auto simp: refresh_def split: prod.splits sum.splits)
  obtain nc nj e where n: "decode_token x st now r = Inr nc" "c_jti nc = Some nj"
      "w2 = w\<lparr>db_refresh_token_sessions := db_refresh_token_sessions w @
        [\<lparr>rs_id = ids 2, rs_user_id = u_id user, rs_jti = nj, rs_token_hash = sha256_text x r,
          rs_expires_at = e, rs_used_at = None, rs_revoked_at = None, rs_replaced_by_jti = None,
          rs_created_at = now\<rparr>]\<rparr>"
    using p by (auto simp: issue_token_pair_def Let_def split: sum.splits option.splits)
  have "resp = \<lparr>tr_access_token = a, tr_refresh_token = r, tr_role = u_role user\<rparr>"
      "w' = w2\<lparr>db_refresh_token_sessions :=
        store_row rs_id (s\<lparr>rs_used_at := Some now, rs_replaced_by_jti := Some nj, rs_revoked_at := Some now\<rparr>)
          (db_refresh_token_sessions w2)\<rparr>"
    using assms c sbj user jti s own p n(1,2) by (simp_all add: refresh_def)
  with c sbj user id jti row own n show ?thesis by (intro that) auto
qed

text \<open>
  A refresh succeeds only for an active user with an unspent session that holds the hash
  of this very token. It spends that session for good, opens exactly one new session for the
  same user, and leaves every other session and table as it was.
\<close>

theorem refresh_rotates_session:
  assumes "refresh x st ids now token w = ok resp w'"
    and "distinct (map rs_id (db_refresh_token_sessions w))"
    and "ids 2 \<notin> rs_id ` set (db_refresh_token_sessions w)"
  shows "\<exists>c user s new. decode_token x st now token = Inr c \<and> c_sub c = Some (u_id user) \<and>
    get_user (u_id user) w = Some user \<and> u_is_active user \<and>
    s \<in> set (db_refresh_token_sessions w) \<and> rs_token_hash s = sha256_text x token \<and>
    live_session now (u_id user) s \<and>
    rs_user_id new = u_id user \<and> rs_token_hash new = sha256_text x (tr_refresh_token resp) \<and>
    w' = w\<lparr>db_refresh_token_sessions :=
      map (\<lambda>s'. if s' = s then s\<lparr>rs_used_at := Some now, rs_replaced_by_jti := Some (rs_jti new),
                                 rs_revoked_at := Some now\<rparr> else s')
        (db_refresh_token_sessions w) @ [new]\<rparr>"
  using assms(1)
proof (rule refresh_ok)
  fix c and user :: user and jti s new_jti expires
  let ?new = "\<lparr>rs_id = ids 2, rs_user_id = u_id user, rs_jti = new_jti,
    rs_token_hash = sha256_text x (tr_refresh_token resp), rs_expires_at = expires,
    rs_used_at = None, rs_revoked_at = None, rs_replaced_by_jti = None, rs_created_at = now\<rparr>"
  let ?f = "\<lambda>s. s\<lparr>rs_used_at := Some now, rs_replaced_by_jti := Some new_jti, rs_revoked_at := Some now\<rparr>"
  assume h: "decode_token x st now token = Inr c" "c_sub c = Some (u_id user)"
    "get_user (u_id user) w = Some user" "u_is_active user"
    "find (\<lambda>s. rs_jti s = jti) (db_refresh_token_sessions w) = Some s"
    "rs_token_hash s = sha256_text x token" "rs_user_id s = u_id user" "\<not> session_spent now s"
    and w': "w' = w\<lparr>db_refresh_token_sessions :=
       store_row rs_id (s\<lparr>rs_used_at := Some now, rs_replaced_by_jti := Some new_jti, rs_revoked_at := Some now\<rparr>)
         (db_refresh_token_sessions w @ [?new])\<rparr>"
  have s: "s \<in> set (db_refresh_token_sessions w)" using h(5) by (rule find_Some_in)
  have "store_row rs_id (?f s) (db_refresh_token_sessions w @ [?new]) =
      map (\<lambda>s'. if s' = s then ?f s else s') (db_refresh_token_sessions w) @ [?new]"
    using store_row_map [OF assms(2) s, of ?f] s assms(3) by (auto simp: store_row_def)
  with h s w' show ?thesis
    by (intro exI [of _ c] exI [of _ user] exI [of _ s] exI [of _ ?new]) (simp add: live_session_def)
qed

text \<open>
  C9. Replay: a refresh token of a user whose session is spent, or has another hash, or
  belongs to someone else, or is unknown, is refused, and the refusal is committed with every
  session of that user revoked. No other user's session is touched.
\<close>

theorem refresh_replay_revokes_all_sessions:
  assumes "decode_token x st now token = Inr c" "c_type c = Some ''refresh''"
    and "c_sub c = Some uid" "get_user uid w = Some user" "u_is_active user" "c_jti c = Some jti"
    and "case find (\<lambda>s. rs_jti s = jti) (db_refresh_token_sessions w) of
           None \<Rightarrow> True
         | Some s \<Rightarrow> rs_token_hash s \<noteq> sha256_text x token \<or> rs_user_id s \<noteq> uid \<or> session_spent now s"
  shows "\<exists>msg w'. refresh x st ids now token w = fail (AuthenticationError msg) w' \<and>
    \<not> list_ex (live_session now uid) (db_refresh_token_sessions w') \<and>
    filter (\<lambda>s. rs_user_id s \<noteq> uid) (db_refresh_token_sessions w') =
      filter (\<lambda>s. rs_user_id s \<noteq> uid) (db_refresh_token_sessions w)"
proof -
  have id: "u_id user = uid" using assms(4) by (rule get_user_id)
  have "\<exists>msg. refresh x st ids now token w =
      fail (AuthenticationError msg) (revoke_all_refresh_tokens uid now w)"
    using assms id
    by (auto simp: refresh_def get_refresh_session_def Let_def split: option.splits if_splits)
  then show ?thesis using revoke_all_no_live revoke_all_other_users by blast
qed

section \<open>Sequences of refreshes\<close>

lemma refresh_fail:
  assumes "refresh x st ids now token w = fail e w'"
  shows "w' = w \<or> (\<exists>uid. w' = revoke_all_refresh_tokens uid now w)"
  using assms
  by (auto simp: refresh_def get_refresh_session_def Let_def
      split: sum.splits option.splits if_splits prod.splits)

text \<open>One call after the other; call \<open>k\<close> draws its random values from \<open>ids k\<close>.\<close>

fun run_refreshes ::
  "externals \<Rightarrow> settings \<Rightarrow> (nat \<Rightarrow> nat \<Rightarrow> string) \<Rightarrow> nat \<Rightarrow> (int \<times> string) list \<Rightarrow> world \<Rightarrow> (string \<times> bool) list"
where
  "run_refreshes x st ids k [] w = []"
| "run_refreshes x st ids k ((now, token) # calls) w =
     (let (result, w1) = refresh x st (ids k) now token w
      in (token, is_ok result) # run_refreshes x st ids (Suc k) calls w1)"

text \<open>The new session ids of the calls from \<open>k\<close> on are distinct and not in the table.\<close>

definition fresh_ids :: "(nat \<Rightarrow> nat \<Rightarrow> string) \<Rightarrow> nat \<Rightarrow> string list \<Rightarrow> bool" where
  "fresh_ids ids k l \<longleftrightarrow> distinct l \<and> inj (\<lambda>n. ids n 2) \<and> (\<forall>n\<ge>k. ids n 2 \<notin> set l)"

definition fresh_from :: "(nat \<Rightarrow> nat \<Rightarrow> string) \<Rightarrow> nat \<Rightarrow> world \<Rightarrow> bool" where
  "fresh_from ids k w = fresh_ids ids k (map rs_id (db_refresh_token_sessions w))"

lemma fresh_ids_Suc: "fresh_ids ids k l \<Longrightarrow> fresh_ids ids (Suc k) l"
  by (simp add: fresh_ids_def)

lemma fresh_ids_snoc: "fresh_ids ids k l \<Longrightarrow> fresh_ids ids (Suc k) (l @ [ids k 2])"
  by (auto simp: fresh_ids_def dest: injD)

text \<open>The jti of a token does not depend on the moment at which it is decoded.\<close>

definition stable_jti :: "externals \<Rightarrow> settings \<Rightarrow> string \<Rightarrow> bool" where
  "stable_jti x st token \<longleftrightarrow> (\<forall>t t' c c'. decode_token x st t token = Inr c \<longrightarrow>
     decode_token x st t' token = Inr c' \<longrightarrow> c_jti c = c_jti c')"

definition used_up :: "string \<Rightarrow> world \<Rightarrow> bool" where
  "used_up jti w \<longleftrightarrow>
     (case find (\<lambda>s. rs_jti s = jti) (db_refresh_token_sessions w) of
        None \<Rightarrow> False | Some s \<Rightarrow> rs_used_at s \<noteq> None)"

lemma used_up_revoke: "used_up jti w \<Longrightarrow> used_up jti (revoke_all_refresh_tokens uid now w)"
  by (auto simp: used_up_def revoke_all_rows find_update_where split: option.splits)

lemma fresh_revoke: "fresh_from ids k w \<Longrightarrow> fresh_from ids k (revoke_all_refresh_tokens uid now w)"
  by (simp add: fresh_from_def revoke_all_rows map_update_where)

lemma refresh_rows:
  assumes "refresh x st (ids k) now token w = ok resp w'" "fresh_from ids k w"
  obtains s new where "s \<in> set (db_refresh_token_sessions w)" "rs_id new = ids k 2"
    "db_refresh_token_sessions w' =
      map (\<lambda>s'. if s' = s then s\<lparr>rs_used_at := Some now, rs_replaced_by_jti := Some (rs_jti new),
                                 rs_revoked_at := Some now\<rparr> else s') (db_refresh_token_sessions w) @ [new]"
    "\<And>c jti. decode_token x st now token = Inr c \<Longrightarrow> c_jti c = Some jti \<Longrightarrow>
       find (\<lambda>s. rs_jti s = jti) (db_refresh_token_sessions w) = Some s"
    "\<exists>c. decode_token x st now token = Inr c \<and> c_jti c \<noteq> None"
  using assms(1)
proof (rule refresh_ok)
  fix c and user :: user and jti s new_jti expires
  let ?new = "\<lparr>rs_id = ids k 2, rs_user_id = u_id user, rs_jti = new_jti,
    rs_token_hash = sha256_text x (tr_refresh_token resp), rs_expires_at = expires,
    rs_used_at = None, rs_revoked_at = None, rs_replaced_by_jti = None, rs_created_at = now\<rparr>"
  let ?f = "\<lambda>s. s\<lparr>rs_used_at := Some now, rs_replaced_by_jti := Some new_jti, rs_revoked_at := Some now\<rparr>"
  assume h: "decode_token x st now token = Inr c" "c_jti c = Some jti"
    "find (\<lambda>s. rs_jti s = jti) (db_refresh_token_sessions w) = Some s"
    and w': "w' = w\<lparr>db_refresh_token_sessions := store_row rs_id
         (s\<lparr>rs_used_at := Some now, rs_replaced_by_jti := Some new_jti, rs_revoked_at := Some now\<rparr>)
         (db_refresh_token_sessions w @ [?new])\<rparr>"
  have d: "distinct (map rs_id (db_refresh_token_sessions w))"
    and n: "ids k 2 \<notin> rs_id ` set (db_refresh_token_sessions w)"
    using assms(2) by (auto simp: fresh_from_def fresh_ids_def)
  have s: "s \<in> set (db_refresh_token_sessions w)" using h(3) by (rule find_Some_in)
  have "store_row rs_id (?f s) (db_refresh_token_sessions w @ [?new]) =
      map (\<lambda>s'. if s' = s then ?f s else s') (db_refresh_token_sessions w) @ [?new]"
    using store_row_map [OF d s, of ?f] s n by (auto simp: store_row_def)
  with w' h s show thesis by (intro that [of s ?new]) auto
qed

lemma refresh_keeps:
  assumes "refresh x st (ids k) now token w = (result, w')" "fresh_from ids k w"
  shows "fresh_from ids (Suc k) w'" "used_up jti w \<Longrightarrow> used_up jti w'"
proof -
  have "fresh_from ids (Suc k) w' \<and> (used_up jti w \<longrightarrow> used_up jti w')"
  proof (cases result)
    case (Inl e)
    have "fresh_from ids (Suc k) w" using assms(2) by (simp add: fresh_from_def fresh_ids_Suc)
    then show ?thesis
      using refresh_fail [of x st "ids k" now token w e w'] assms(1) Inl used_up_revoke fresh_revoke
      by blast
  next
    case (Inr resp)
    from assms(1) Inr have ok: "refresh x st (ids k) now token w = ok resp w'" by simp
    show ?thesis
    proof (rule refresh_rows [OF ok assms(2)])
      fix s new :: refresh_token_session
      let ?g = "\<lambda>s'. if s' = s then s\<lparr>rs_used_at := Some now, rs_replaced_by_jti := Some (rs_jti new),
        rs_revoked_at := Some now\<rparr> else s'"
      assume new: "rs_id new = ids k 2"
        and rows: "db_refresh_token_sessions w' = map ?g (db_refresh_token_sessions w) @ [new]"
      have "map rs_id (db_refresh_token_sessions w') = map rs_id (db_refresh_token_sessions w) @ [ids k 2]"
        by (simp add: rows new)
      then have "fresh_from ids (Suc k) w'"
        using assms(2) by (simp only: fresh_from_def fresh_ids_snoc)
      moreover have "used_up jti w'" if "used_up jti w"
      proof -
        have "find (\<lambda>s. rs_jti s = jti) (map ?g xs) = map_option ?g (find (\<lambda>s. rs_jti s = jti) xs)" for xs
          by (induction xs) auto
        with that show ?thesis by (auto simp: used_up_def rows find_append split: option.splits)
      qed
      ultimately show ?thesis by blast
    qed
  qed
  then show "fresh_from ids (Suc k) w'" "used_up jti w \<Longrightarrow> used_up jti w'" by blast+
qed

lemma used_up_refused:
  assumes "used_up jti w" "fresh_from ids k w" "decode_token x st t token = Inr c" "c_jti c = Some jti"
    and "stable_jti x st token"
  shows "\<not> is_ok (fst (refresh x st (ids k) now token w))"
proof
  assume "is_ok (fst (refresh x st (ids k) now token w))"
  then obtain resp w' where "refresh x st (ids k) now token w = ok resp w'"
    by (cases "refresh x st (ids k) now token w") (auto simp: is_ok_iff)
  then show False
  proof (rule refresh_ok)
    fix c' and user :: user and jti' s and new_jti :: string and expires :: int
    assume h: "decode_token x st now token = Inr c'" "c_jti c' = Some jti'"
      "find (\<lambda>s. rs_jti s = jti') (db_refresh_token_sessions w) = Some s" "\<not> session_spent now s"
    have "c_jti c' = c_jti c" using assms(5) h(1) assms(3) unfolding stable_jti_def by blast
    then have "jti' = jti" using assms(4) h(2) by simp
    with h(3,4) assms(1) show False by (simp add: used_up_def session_spent_def)
  qed
qed

lemma run_refreshes_used_up:
  assumes "used_up jti w" "fresh_from ids k w" "decode_token x st t token = Inr c" "c_jti c = Some jti"
    and "stable_jti x st token"
  shows "(token, True) \<notin> set (run_refreshes x st ids k calls w)"
  using assms(1,2)
proof (induction calls arbitrary: k w)
  case (Cons call calls)
  obtain now tok where call: "call = (now, tok)" by (cases call)
  obtain result w' where r: "refresh x st (ids k) now tok w = (result, w')" by fastforce
  note keep = refresh_keeps [OF r Cons.prems(2)]
  have "\<not> (tok = token \<and> is_ok result)"
    using used_up_refused [OF Cons.prems assms(3-5), of now] r by auto
  then show ?case using Cons.IH [OF keep(2) [OF Cons.prems(1)] keep(1)] r call by auto
qed simp

text \<open>
  C1. In any sequence of refresh requests, by anyone and at any moments, a refresh token is
  honoured at most once.
\<close>

theorem refresh_token_used_at_most_once:
  assumes "fresh_from ids k w" "stable_jti x st token"
  shows "count_list (run_refreshes x st ids k calls w) (token, True) \<le> 1"
  using assms(1)
proof (induction calls arbitrary: k w)
  case (Cons call calls)
  obtain now tok where call: "call = (now, tok)" by (cases call)
  obtain result w' where r: "refresh x st (ids k) now tok w = (result, w')" by fastforce
  have fresh: "fresh_from ids (Suc k) w'" by (rule refresh_keeps(1) [OF r Cons.prems])
  show ?case
  proof (cases "tok = token \<and> is_ok result")
    case False
    then show ?thesis using Cons.IH [OF fresh] r call by auto
  next
    case True
    then obtain resp where ok: "refresh x st (ids k) now token w = ok resp w'"
      using r by (auto simp: is_ok_iff)
    show ?thesis
    proof (rule refresh_rows [OF ok Cons.prems])
      fix s new :: refresh_token_session
      assume rows: "db_refresh_token_sessions w' =
          map (\<lambda>s'. if s' = s then s\<lparr>rs_used_at := Some now, rs_replaced_by_jti := Some (rs_jti new),
                                     rs_revoked_at := Some now\<rparr> else s') (db_refresh_token_sessions w) @ [new]"
        and jti: "\<And>c jti. decode_token x st now token = Inr c \<Longrightarrow> c_jti c = Some jti \<Longrightarrow>
          find (\<lambda>s. rs_jti s = jti) (db_refresh_token_sessions w) = Some s"
        and dec: "\<exists>c. decode_token x st now token = Inr c \<and> c_jti c \<noteq> None"
      obtain c jt where c: "decode_token x st now token = Inr c" "c_jti c = Some jt" using dec by auto
      have f: "find (\<lambda>s. rs_jti s = jt) (map (\<lambda>s'. if s' = s then s\<lparr>rs_used_at := Some now,
          rs_replaced_by_jti := Some (rs_jti new), rs_revoked_at := Some now\<rparr> else s') xs) =
          map_option (\<lambda>s'. if s' = s then s\<lparr>rs_used_at := Some now,
          rs_replaced_by_jti := Some (rs_jti new), rs_revoked_at := Some now\<rparr> else s')
          (find (\<lambda>s. rs_jti s = jt) xs)" for xs
        by (induction xs) auto
      have "used_up jt w'" using jti [OF c] by (simp add: used_up_def rows find_append f)
      then have "(token, True) \<notin> set (run_refreshes x st ids (Suc k) calls w')"
        by (rule run_refreshes_used_up [OF _ fresh c assms(2)])
      then have "count_list (run_refreshes x st ids (Suc k) calls w') (token, True) = 0"
        by (simp add: count_list_0_iff)
      with r call show ?thesis by simp
    qed
  qed
qed simp

section \<open>Password reset\<close>

lemma audit_frames [simp]:
  "db_users (audit i now a e u eid d w) = db_users w"
  "db_password_reset_tokens (audit i now a e u eid d w) = db_password_reset_tokens w"
  "db_email_verification_tokens (audit i now a e u eid d w) = db_email_verification_tokens w"
  "db_refresh_token_sessions (audit i now a e u eid d w) = db_refresh_token_sessions w"
  "db_telegram_event_outbox (audit i now a e u eid d w) = db_telegram_event_outbox w"
  "db_email_outbox (audit i now a e u eid d w) = db_email_outbox w"
  by (simp_all add: audit_def)

lemma events_unique_cong:
  "db_telegram_event_outbox w' = db_telegram_event_outbox w \<Longrightarrow> events_unique w' = events_unique w"
  by (simp add: events_unique_def)

lemma revoke_all_frames [simp]:
  "db_users (revoke_all_refresh_tokens uid now w) = db_users w"
  "db_password_reset_tokens (revoke_all_refresh_tokens uid now w) = db_password_reset_tokens w"
  "db_telegram_event_outbox (revoke_all_refresh_tokens uid now w) = db_telegram_event_outbox w"
  by (simp_all add: revoke_all_refresh_tokens_def)

text \<open>Everything a successful reset does.\<close>

lemma reset_password_ok:
  assumes "events_unique w" "reset_password x r st ids now token new_password w s = (Inr msg, w', s')"
  obtains tok user where
    "find (\<lambda>t. ot_token t = sha256_text x token) (db_password_reset_tokens w) = Some tok"
    "\<not> ot_consumed tok" "now \<le> ot_expires_at tok" "get_user (ot_user_id tok) w = Some user"
    "u_id user = ot_user_id tok"
    "db_users w' = store_row u_id (user\<lparr>u_hashed_password := hash_password x (ids 0) new_password\<rparr>) (db_users w)"
    "db_password_reset_tokens w' = store_row ot_id (tok\<lparr>ot_consumed := True\<rparr>) (db_password_reset_tokens w)"
    "db_refresh_token_sessions w' = db_refresh_token_sessions (revoke_all_refresh_tokens (u_id user) now w)"
    "revoke_all_for_user r st (u_id user) now s = (Inr (), s')" "events_unique w'"
proof -
  obtain tok where tok: "find (\<lambda>t. ot_token t = sha256_text x token) (db_password_reset_tokens w) = Some tok"
      "\<not> ot_consumed tok" "now \<le> ot_expires_at tok"
    using assms(2) by (auto simp: reset_password_def split: option.splits if_splits)
  obtain user where user: "get_user (ot_user_id tok) w = Some user"
    using assms(2) tok by (auto simp: reset_password_def split: option.splits)
  have id: "u_id user = ot_user_id tok" using user by (rule get_user_id)
  obtain s1 where rev: "revoke_all_for_user r st (u_id user) now s = (Inr (), s1)"
    using assms(2) tok user by (auto simp: reset_password_def Let_def split: prod.splits sum.splits)
  let ?u = "user\<lparr>u_hashed_password := hash_password x (ids 0) new_password\<rparr>"
  let ?w = "audit (ids 1) now ''password_reset_completed'' ''user'' (Some ?u) (Some (u_id user)) None
    (revoke_all_refresh_tokens (u_id user) now (w\<lparr>db_users := store_row u_id ?u (db_users w),
       db_password_reset_tokens := store_row ot_id (tok\<lparr>ot_consumed := True\<rparr>) (db_password_reset_tokens w)\<rparr>))"
  have "events_unique ?w" using assms(1) by (simp add: events_unique_def)
  from enqueue_user_security_ok [OF this, of ids 10 now PASSWORD_CHANGED ?u "ot_id tok" "[]"]
  obtain es w2 where q: "enqueue_user_security_events ids 10 now PASSWORD_CHANGED ?u (ot_id tok) [] ?w = ok es w2"
      "events_unique w2"
      "queued PASSWORD_CHANGED (Some (ot_id tok)) (u_id ` set (list_admin_recipients ?w)) ?w w2"
    by blast
  have "w' = w2" "s' = s1" using assms(2) tok user rev q(1) by (simp_all add: reset_password_def Let_def)
  with tok user id rev q show ?thesis
    by (intro that [of tok user]) (simp_all add: queued_frames [OF q(3)] revoke_all_rows)
qed

lemma get_user_store:
  assumes "get_user i w = Some u0" "u_id u = i"
  shows "get_user j (w\<lparr>db_users := store_row u_id u (db_users w)\<rparr>) =
    (if j = i then Some u else get_user j w)"
proof -
  have "find (\<lambda>r. u_id r = j) (update_where (\<lambda>r. u_id r = i) (\<lambda>_. u) rows) =
      (if j = i then map_option (\<lambda>_. u) (find (\<lambda>r. u_id r = i) rows) else find (\<lambda>r. u_id r = j) rows)" for rows
    using assms(2) by (induction rows) auto
  with assms show ?thesis by (simp add: get_user_def store_row_def)
qed

lemma find_store_consumed:
  assumes "find (\<lambda>t. ot_token t = h) rows = Some tok"
  shows "\<exists>tok'. find (\<lambda>t. ot_token t = h) (store_row ot_id (tok\<lparr>ot_consumed := True\<rparr>) rows) = Some tok' \<and>
    ot_consumed tok'"
proof -
  have tok: "ot_token tok = h" using assms by (rule find_key_Some)
  show ?thesis
    using assms tok by (induction rows) (auto simp: store_row_def split: if_splits)
qed

text \<open>
  C11. A password reset succeeds only with an unconsumed token that has not expired. It gives
  the account exactly the new password, revokes every session of the user, changes no other
  account, and consumes the token: the same token is refused at any later time.
\<close>

theorem reset_password_single_use:
  assumes "argon2_laws x" "events_unique w"
    and "reset_password x r st ids now token new_password w s = (Inr msg, w', s')"
  shows "\<exists>tok user. find (\<lambda>t. ot_token t = sha256_text x token) (db_password_reset_tokens w) = Some tok \<and>
    \<not> ot_consumed tok \<and> now \<le> ot_expires_at tok \<and>
    get_user (ot_user_id tok) w' = Some user \<and>
    (\<forall>p. verify_password x p (u_hashed_password user) = (p = new_password)) \<and>
    (\<forall>i. i \<noteq> ot_user_id tok \<longrightarrow> get_user i w' = get_user i w) \<and>
    \<not> list_ex (live_session now (ot_user_id tok)) (db_refresh_token_sessions w') \<and>
    \<not> is_ok (fst (reset_password x r st ids' now' token p' w' s''))"
  using assms(2,3)
proof (rule reset_password_ok)
  fix tok and user :: user
  let ?u = "user\<lparr>u_hashed_password := hash_password x (ids 0) new_password\<rparr>"
  assume h: "find (\<lambda>t. ot_token t = sha256_text x token) (db_password_reset_tokens w) = Some tok"
    "\<not> ot_consumed tok" "now \<le> ot_expires_at tok" "get_user (ot_user_id tok) w = Some user"
    "u_id user = ot_user_id tok"
    and users: "db_users w' = store_row u_id (user\<lparr>u_hashed_password := hash_password x (ids 0) new_password\<rparr>) (db_users w)"
    and toks: "db_password_reset_tokens w' = store_row ot_id (tok\<lparr>ot_consumed := True\<rparr>) (db_password_reset_tokens w)"
    and sess: "db_refresh_token_sessions w' = db_refresh_token_sessions (revoke_all_refresh_tokens (u_id user) now w)"
  have get: "get_user j w' = (if j = ot_user_id tok then Some ?u else get_user j w)" for j
    using get_user_store [OF h(4), of ?u j] h(5) users by (simp add: get_user_def)
  obtain tok' where tok': "find (\<lambda>t. ot_token t = sha256_text x token) (db_password_reset_tokens w') = Some tok'"
      "ot_consumed tok'"
    using find_store_consumed [OF h(1)] toks by auto
  have "\<not> is_ok (fst (reset_password x r st ids' now' token p' w' s''))"
    using tok' by (simp add: reset_password_def)
  moreover have "\<not> list_ex (live_session now (ot_user_id tok)) (db_refresh_token_sessions w')"
    using revoke_all_no_live [of now "ot_user_id tok" now w] sess h(5) by simp
  ultimately show ?thesis
    using h get verify_hash [OF assms(1)] by (intro exI [of _ tok] exI [of _ ?u]) auto
qed

section \<open>Access tokens after a security event\<close>

lemma payload_simps [simp]:
  "tp_sub (access_payload st jti issued uid role) = uid"
  "tp_jti (access_payload st jti issued uid role) = jti"
  "tp_iat (access_payload st jti issued uid role) = issued"
  "tp_type (access_payload st jti issued uid role) = ''access''"
  "tp_sub (refresh_payload st jti issued uid role) = uid"
  "tp_jti (refresh_payload st jti issued uid role) = jti"
  "tp_type (refresh_payload st jti issued uid role) = ''refresh''"
  by (simp_all add: access_payload_def refresh_payload_def)

text \<open>
  C10. Once every access token of a user has been revoked (after a password reset, say), no
  access token issued in an earlier second passes the guard again, at any later moment and
  whatever the database holds: it is refused while the flag stands, and has expired when the
  flag is gone.
\<close>

theorem old_access_tokens_never_pass_again:
  assumes "jwt_laws x" "usable_store r st s" "access_token_revocation_enabled st"
    and "uid \<noteq> []" "jti \<noteq> []" "timestamp issued < timestamp t" "t \<le> now"
    and "revoke_all_for_user r st uid t s = (Inr (), s')"
  shows "\<not> is_ok (fst (get_current_user x r st (create_access_token x st jti issued uid role) now w s'))"
proof (cases "timestamp now \<le> timestamp issued + access_token_expire_minutes st * 60")
  case False
  then show ?thesis by (simp add: get_current_user_def decode_access_token [OF assms(1)])
next
  case True
  let ?c = "claims_of (access_payload st jti issued uid role)" and ?m = "access_token_expire_minutes st * 60"
  have claims: "c_sub ?c = Some uid" "c_jti ?c = Some jti" "c_iat ?c = Some (timestamp issued)"
      "c_type ?c = Some ''access''"
    by simp_all
  have "now < seconds (timestamp now + 1)" using timestamp_gt [of now] by simp
  also have "\<dots> \<le> seconds (timestamp t + ?m)" using True assms(6) by simp
  also have "\<dots> \<le> t + seconds ?m" using timestamp_le [of t] by (simp add: algebra_simps)
  also have "\<dots> \<le> t + seconds (max ?m 1)" by simp
  finally have before: "now < t + seconds (max ?m 1)" .
  have s': "s' = store_set r st (revoked_all_key uid) (str_int (timestamp t)) ?m t s"
    using assms(8) usable_available [OF assms(2)] assms(3) by (simp add: revoke_all_for_user_def)
  then have u: "usable_store r st s'" using kv_store.usable_put [OF assms(2)] by simp
  have "store_visible r st (revoked_all_key uid) now s' = Some (str_int (timestamp t))"
    using kv_store.visible_put [OF assms(2,7)] before s' by simp
  then have "\<not> is_ok (fst (ensure_not_revoked r st ?c now s'))"
    using assms(6) by (simp add: ensure_not_revoked_verdict [OF u assms(3) claims(2) assms(5) claims(1) assms(4)]
        python_int_str_int)
  then show ?thesis
    using True claims(4)
    by (cases "ensure_not_revoked r st ?c now s'")
      (auto simp: get_current_user_def decode_access_token [OF assms(1)] split: sum.splits)
qed

section \<open>Login and the guards\<close>

lemma refresh_token_refused:
  assumes "jwt_laws x"
  shows "\<not> is_ok (fst (get_current_user x r st (create_refresh_token x st jti issued uid role) now w s))"
  by (simp add: get_current_user_def decode_refresh_token [OF assms])


text \<open>
  C14. What a visitor can see does not tell whether an account exists: a login with an unknown
  e-mail and one with a wrong password give the same error and change nothing, and asking for
  a reset or a new verification mail gives the same answer for every e-mail.
\<close>

theorem no_account_enumeration:
  assumes "events_unique w"
    and "case get_user_by_email email w of None \<Rightarrow> True
         | Some user \<Rightarrow> \<not> verify_password x password (u_hashed_password user)"
  shows "login x st ids now email password w = fail (AuthenticationError ''Invalid credentials'') w \<and>
    fst (forgot_password x st ids now email w) = Inr queued_message \<and>
    fst (resend_verification x st ids now email w) = Inr queued_message"
proof -
  have q: "\<exists>es w'. enqueue_user_security_events ids 10 now ty u eid [] w1 = ok es w'"
    if "db_telegram_event_outbox w1 = db_telegram_event_outbox w" for ty u eid w1
    using enqueue_user_security_ok [of w1] events_unique_cong [OF that] assms(1) by blast
  have frames: "db_telegram_event_outbox (queue_password_reset_email st i now u tok w1) = db_telegram_event_outbox w1"
      "db_telegram_event_outbox (queue_verification_email st i now u tok w1) = db_telegram_event_outbox w1"
      "db_telegram_event_outbox (consume_password_reset_tokens uid w1) = db_telegram_event_outbox w1"
      "db_telegram_event_outbox (create_email_verification_token x st tok i now u w1) = db_telegram_event_outbox w1"
    for i u tok uid w1
    by (simp_all add: queue_password_reset_email_def queue_verification_email_def enqueue_email_def Let_def
        consume_password_reset_tokens_def create_email_verification_token_def
        consume_email_verification_tokens_def)
  have forgot: "fst (forgot_password x st ids now email w) = Inr queued_message"
  proof (cases "get_user_by_email email w")
    case (Some u)
    let ?w1 = "consume_password_reset_tokens (u_id u) w"
    let ?w4 = "audit (ids 3) now ''password_reset_requested'' ''user'' (Some u) (Some (u_id u)) None
      (queue_password_reset_email st (ids 2) now u (ids 0)
        (?w1\<lparr>db_password_reset_tokens := db_password_reset_tokens ?w1 @
           [\<lparr>ot_id = ids 1, ot_user_id = u_id u, ot_token = sha256_text x (ids 0),
             ot_expires_at = now + hours 1, ot_consumed = False, ot_created_at = now\<rparr>]\<rparr>))"
    have "db_telegram_event_outbox ?w4 = db_telegram_event_outbox w" by (simp add: frames)
    from q [OF this, of PASSWORD_RESET_REQUESTED u "ids 1"] Some show ?thesis
      by (auto simp: forgot_password_def Let_def)
  qed (simp add: forgot_password_def)
  have resend: "fst (resend_verification x st ids now email w) = Inr queued_message"
  proof (cases "get_user_by_email email w")
    case (Some u)
    let ?w3 = "audit (ids 3) now ''email_verification_requested'' ''user'' (Some u) (Some (u_id u)) None
      (queue_verification_email st (ids 2) now u (ids 0)
        (create_email_verification_token x st (ids 0) (ids 1) now u w))"
    have "db_telegram_event_outbox ?w3 = db_telegram_event_outbox w" by (simp add: frames)
    from q [OF this, of EMAIL_VERIFICATION_RESENT u "u_id u"] Some show ?thesis
      by (auto simp: resend_verification_def Let_def)
  qed (simp add: resend_verification_def)
  show ?thesis using assms(2) forgot resend by (auto simp: login_def split: option.splits)
qed

text \<open>
  A request passes the guard of the internal endpoints exactly when a secret is
  configured and the request names the bot's service, carries a readable timestamp no further
  than the time to live from now, and is signed with the secret over service, timestamp,
  method, path with query, and body.
\<close>

theorem internal_request_accepted_iff:
  "require_internal_service x st now rq = Inr service \<longleftrightarrow>
     (\<exists>secret ts sig t. internal_auth_secret st = Some secret \<and> secret \<noteq> [] \<and>
       ir_service_name rq = Some service \<and> service = bot_service_name st \<and> service \<noteq> [] \<and>
       ir_timestamp rq = Some ts \<and> ts \<noteq> [] \<and> python_int ts = Some t \<and>
       - 62135596800 \<le> t \<and> t \<le> 253402300799 \<and>
       \<bar>now - seconds t\<bar> \<le> seconds (internal_auth_ttl_seconds st) \<and>
       ir_signature rq = Some sig \<and> sig \<noteq> [] \<and>
       sig = hmac_sha256 x secret (canonical_request x service ts (ir_method rq)
         (if ir_query rq = [] then ir_path rq else ir_path rq @ ''?'' @ ir_query rq) (ir_body rq)))"
proof (cases "\<exists>secret s ts sig. internal_auth_secret st = Some secret \<and> ir_service_name rq = Some s \<and>
    ir_timestamp rq = Some ts \<and> ir_signature rq = Some sig")
  case True
  then obtain secret s ts sig where h: "internal_auth_secret st = Some secret" "ir_service_name rq = Some s"
      "ir_timestamp rq = Some ts" "ir_signature rq = Some sig" by blast
  show ?thesis
  proof (cases "python_int ts")
    case None
    with h show ?thesis by (simp add: require_internal_service_def)
  next
    case (Some t)
    with h show ?thesis
      by (cases "ir_query rq = []") (auto simp: require_internal_service_def fromtimestamp_def Let_def)
  qed
next
  case False
  then have "\<not> truthy (internal_auth_secret st) \<or> \<not> truthy (ir_service_name rq) \<or>
      \<not> truthy (ir_timestamp rq) \<or> \<not> truthy (ir_signature rq)"
    by (auto simp: truthy_def split: option.splits)
  with False show ?thesis by (auto simp: require_internal_service_def)
qed

section \<open>Registration\<close>

lemma registration_proposal_ok:
  assumes "events_unique w"
  shows "\<exists>n w'. create_registration_university_proposal x ids now user name w = ok n w' \<and> events_unique w' \<and>
    db_users w' = db_users w \<and> db_email_verification_tokens w' = db_email_verification_tokens w \<and>
    db_university_proposals w' =
      db_university_proposals w @ [registration_proposal x (ids 2) now user name]"
proof -
  let ?p = "registration_proposal x (ids 2) now user name"
  let ?w = "w\<lparr>db_university_proposals := db_university_proposals w @ [?p],
    db_catalog_proposal_logs := db_catalog_proposal_logs w @
      [\<lparr>pl_id = ids 3, pl_entity_type = UNIVERSITY, pl_entity_id = up_id ?p,
        pl_action = ''submitted_during_registration'', pl_actor_id = u_id user, pl_note = None\<rparr>]\<rparr>"
  have "events_unique ?w" using assms by (simp add: events_unique_def)
  from enqueue_proposal_created_ok [OF this, of ids 10 now "UniversityProposal ?p" "''university''"]
  obtain es w' where q: "enqueue_proposal_created_events ids 10 now (UniversityProposal ?p) ''university'' ?w = ok es w'"
      "events_unique w'" "queued PROPOSAL_CREATED (Some (proposal_id (UniversityProposal ?p)))
        (u_id ` set (resolve_proposal_recipients (UniversityProposal ?p) ?w)) ?w w'"
    by blast
  then show ?thesis
    by (simp add: create_registration_university_proposal_def Let_def queued_frames [OF q(3)])
qed

lemma create_email_verification_token_rows:
  "db_email_verification_tokens (create_email_verification_token x st tok i now u w) =
     update_where (\<lambda>t. ot_user_id t = u_id u \<and> \<not> ot_consumed t) (\<lambda>t. t\<lparr>ot_consumed := True\<rparr>)
       (db_email_verification_tokens w) @
     [\<lparr>ot_id = i, ot_user_id = u_id u, ot_token = sha256_text x tok,
       ot_expires_at = now + hours (email_verification_token_expire_hours st), ot_consumed = False,
       ot_created_at = now\<rparr>]"
  "db_users (create_email_verification_token x st tok i now u w) = db_users w"
  "db_university_proposals (create_email_verification_token x st tok i now u w) = db_university_proposals w"
  "db_telegram_event_outbox (create_email_verification_token x st tok i now u w) = db_telegram_event_outbox w"
  by (simp_all add: create_email_verification_token_def consume_email_verification_tokens_def Let_def)

lemma queue_verification_frames:
  "db_users (queue_verification_email st i now u tok w) = db_users w"
  "db_email_verification_tokens (queue_verification_email st i now u tok w) = db_email_verification_tokens w"
  "db_university_proposals (queue_verification_email st i now u tok w) = db_university_proposals w"
  "db_telegram_event_outbox (queue_verification_email st i now u tok w) = db_telegram_event_outbox w"
  by (simp_all add: queue_verification_email_def enqueue_email_def Let_def)

text \<open>The account a registration adds, before the last step queues the events.\<close>

lemma register_result:
  assumes "events_unique w"
  shows "(\<exists>e. register x st ids now rq w = fail e w) \<or>
    (\<exists>w'. register x st ids now rq w = ok (new_user x ids now rq) w' \<and>
      get_user_by_email (rq_email rq) w = None \<and>
      (if truthy (rq_university_id rq) then get_university (the (rq_university_id rq)) w \<noteq> None else True) \<and>
      db_users w' = db_users w @ [new_user x ids now rq] \<and>
      db_university_proposals w' = db_university_proposals w @
        (if truthy (u_pending_university_name (new_user x ids now rq))
         then [registration_proposal x (ids 2) now (new_user x ids now rq)
                 (the (u_pending_university_name (new_user x ids now rq)))] else []) \<and>
      (\<exists>old. db_email_verification_tokens w' = old @
        [\<lparr>ot_id = ids 6, ot_user_id = ids 0, ot_token = sha256_text x (ids 5),
          ot_expires_at = now + hours (email_verification_token_expire_hours st), ot_consumed = False,
          ot_created_at = now\<rparr>]))"
proof -
  let ?u = "new_user x ids now rq"
  let ?guard = "if truthy (rq_university_id rq)
    then (if get_university (the (rq_university_id rq)) w = None
          then Inl (ResourceNotFound ''University not found'') else Inr ())
    else ensure_university_proposal_available x (or_else (rq_proposed_university_name rq) []) w"
  show ?thesis
  proof (cases "get_user_by_email (rq_email rq) w = None \<and> is_ok ?guard \<and> is_ok (fst (create_user ?u w))")
    case False
    then show ?thesis
      by (cases ?guard; cases "create_user ?u w") (auto simp: register_def Let_def split: sum.splits if_splits)
  next
    case True
    then have g: "?guard = Inr ()" and c: "create_user ?u w = ok () (w\<lparr>db_users := db_users w @ [?u]\<rparr>)"
      by (auto simp: is_ok_iff create_user_def split: if_splits)
    let ?w1 = "w\<lparr>db_users := db_users w @ [?u]\<rparr>"
    let ?step = "if truthy (u_pending_university_name ?u)
      then create_registration_university_proposal x ids now ?u (the (u_pending_university_name ?u)) ?w1
      else ok 0 ?w1"
    have u1: "events_unique ?w1" using assms by (simp add: events_unique_def)
    obtain n w2 where s: "?step = ok n w2" "events_unique w2" "db_users w2 = db_users w @ [?u]"
        "db_university_proposals w2 = db_university_proposals w @
          (if truthy (u_pending_university_name ?u)
           then [registration_proposal x (ids 2) now ?u (the (u_pending_university_name ?u))] else [])"
    proof (cases "truthy (u_pending_university_name ?u)")
      case True
      with registration_proposal_ok [OF u1, of x ids now ?u "the (u_pending_university_name ?u)"] that
      show ?thesis by auto
    next
      case False
      then show ?thesis using u1 by (intro that [of 0 ?w1]) auto
    qed
    let ?w5 = "queue_verification_email st (ids 7) now ?u (ids 5)
      (create_email_verification_token x st (ids 5) (ids 6) now ?u
        (audit (ids 4) now ''user_registered'' ''user'' (Some ?u) (Some (u_id ?u)) None w2))"
    have "events_unique ?w5"
      using s(2) by (simp add: events_unique_def queue_verification_frames create_email_verification_token_rows)
    from enqueue_user_registered_ok [OF this, of ids "10 + n" now ?u]
    obtain es w6 where q: "enqueue_user_registered_events ids (10 + n) now ?u ?w5 = ok es w6"
        "queued USER_REGISTERED (Some (u_id ?u)) (u_id ` set (list_admin_recipients ?w5)) ?w5 w6"
      by blast
    have "register x st ids now rq w = ok ?u w6"
      using True g c s(1) q(1) by (simp add: register_def Let_def)
    moreover have "u_id ?u = ids 0" by (simp add: new_user_def)
    ultimately show ?thesis
      using True s(3,4) g
      by (auto simp: queued_frames [OF q(2)] queue_verification_frames create_email_verification_token_rows
          audit_def split: if_splits)
  qed
qed

text \<open>
  C12. A registration either fails and changes nothing, or adds exactly one account with the
  e-mail asked for, which no other account has: an active, unverified student whose password
  is the one given, with a verification token of its own. An existing university was chosen,
  or a proposal for a new one is pending in the user's name.
\<close>

theorem register_adds_one_student:
  assumes "argon2_laws x" "events_unique w" "distinct (map u_email (db_users w))"
  shows "case register x st ids now rq w of
      (Inl e, w') \<Rightarrow> w' = w
    | (Inr u, w') \<Rightarrow>
        db_users w' = db_users w @ [u] \<and> distinct (map u_email (db_users w')) \<and>
        u_email u = rq_email rq \<and> u_role u = STUDENT \<and> u_is_active u \<and> \<not> u_is_verified u \<and>
        (\<forall>p. verify_password x p (u_hashed_password u) = (p = rq_password rq)) \<and>
        (\<exists>t\<in>set (db_email_verification_tokens w'). ot_user_id t = u_id u \<and> \<not> ot_consumed t \<and>
           ot_token t = sha256_text x (ids 5)) \<and>
        (if truthy (rq_university_id rq)
         then get_university (the (rq_university_id rq)) w \<noteq> None \<and>
           db_university_proposals w' = db_university_proposals w
         else if truthy (rq_proposed_university_name rq)
         then \<exists>p. db_university_proposals w' = db_university_proposals w @ [p] \<and>
           up_status p = ProposalPending \<and> up_created_by p = u_id u \<and>
           up_proposed_name p = the (rq_proposed_university_name rq)
         else True)"
proof -
  let ?u = "new_user x ids now rq"
  consider e where "register x st ids now rq w = fail e w"
    | w' old where "register x st ids now rq w = ok ?u w'" "get_user_by_email (rq_email rq) w = None"
        "if truthy (rq_university_id rq) then get_university (the (rq_university_id rq)) w \<noteq> None else True"
        "db_users w' = db_users w @ [?u]"
        "db_university_proposals w' = db_university_proposals w @
          (if truthy (u_pending_university_name ?u)
           then [registration_proposal x (ids 2) now ?u (the (u_pending_university_name ?u))] else [])"
        "db_email_verification_tokens w' = old @
          [\<lparr>ot_id = ids 6, ot_user_id = ids 0, ot_token = sha256_text x (ids 5),
            ot_expires_at = now + hours (email_verification_token_expire_hours st), ot_consumed = False,
            ot_created_at = now\<rparr>]"
    using register_result [OF assms(2), of x st ids now rq] by blast
  then show ?thesis
  proof cases
    case (2 w' old)
    have "rq_email rq \<notin> u_email ` set (db_users w)"
      using 2(2) by (auto simp: get_user_by_email_def find_None_iff)
    moreover have "up_status (registration_proposal x (ids 2) now ?u n) = ProposalPending"
        "up_created_by (registration_proposal x (ids 2) now ?u n) = u_id ?u"
        "up_proposed_name (registration_proposal x (ids 2) now ?u n) = n" for n
      by (simp_all add: registration_proposal_def)
    moreover have "u_email ?u = rq_email rq" "u_id ?u = ids 0" "u_role ?u = STUDENT" "u_is_active ?u"
        "\<not> u_is_verified ?u" "u_hashed_password ?u = hash_password x (ids 1) (rq_password rq)"
        "u_pending_university_name ?u =
           (if truthy (rq_university_id rq) then None else Some (or_else (rq_proposed_university_name rq) []))"
      by (simp_all add: new_user_def)
    moreover have "truthy (rq_proposed_university_name rq) \<Longrightarrow> the (rq_proposed_university_name rq) \<noteq> []"
      by (cases "rq_proposed_university_name rq") simp_all
    ultimately show ?thesis
      using 2 assms(3) verify_hash [OF assms(1)] by (auto simp: or_else_def)
  qed simp
qed

text \<open>
  The request schema lets an empty university id through beside a proposed name; the empty
  string is then stored as a foreign key, and the registration fails with an integrity error.
\<close>

lemma empty_university_id_crashes:
  assumes "rq_university_id rq = Some []" "get_university [] w = None"
    and "get_user_by_email (rq_email rq) w = None"
    and "ensure_university_proposal_available x (or_else (rq_proposed_university_name rq) []) w = Inr ()"
  shows "register x st ids now rq w = fail IntegrityError w"
  using assms by (simp add: register_def create_user_def new_user_def)

section \<open>Witnesses\<close>

abbreviation X :: externals where "X \<equiv> reference_externals"
abbreviation R :: "reference_state redis" where "R \<equiv> reference_redis"
abbreviation S :: settings where "S \<equiv> default_settings"

definition sample_user :: user where
  "sample_user = \<lparr>u_id = ''u1'', u_full_name = ''Ali'', u_email = ''ali@u'', u_avatar_url = None,
     u_hashed_password = hash_password X ''salt'' ''secret12'', u_role = STUDENT, u_university_id = None,
     u_university_changed_at = None, u_pending_university_name = None, u_university_status = ''selected'',
     u_is_active = True, u_is_verified = False, u_created_at = 0\<rparr>"

definition sample_ids :: "nat \<Rightarrow> string" where
  "sample_ids n = ''id'' @ digits n"

lemma sample_ids_inj [simp]: "sample_ids m = sample_ids n \<longleftrightarrow> m = n"
  by (auto simp: sample_ids_def digits_inj)

definition sample_jti :: string where "sample_jti = ''j1''"

definition sample_refresh_token :: string where
  "sample_refresh_token = create_refresh_token X S sample_jti 0 ''u1'' ''student''"

definition sample_session :: refresh_token_session where
  "sample_session = \<lparr>rs_id = ''s1'', rs_user_id = ''u1'', rs_jti = sample_jti,
     rs_token_hash = sha256_text X sample_refresh_token, rs_expires_at = days 14,
     rs_used_at = None, rs_revoked_at = None, rs_replaced_by_jti = None, rs_created_at = 0\<rparr>"

definition sample_reset_token :: one_time_token where
  "sample_reset_token = \<lparr>ot_id = ''t1'', ot_user_id = ''u1'', ot_token = sha256_text X ''reset'',
     ot_expires_at = hours 1, ot_consumed = False, ot_created_at = 0\<rparr>"

definition sample_world :: world where
  "sample_world = empty_world\<lparr>db_users := [sample_user], db_refresh_token_sessions := [sample_session],
     db_password_reset_tokens := [sample_reset_token]\<rparr>"

lemma sample_world_simps [simp]:
  "db_users sample_world = [sample_user]" "db_refresh_token_sessions sample_world = [sample_session]"
  "db_password_reset_tokens sample_world = [sample_reset_token]"
  "get_user ''u1'' sample_world = Some sample_user"
  "get_user_by_email ''ali@u'' sample_world = Some sample_user"
  "u_id sample_user = ''u1''" "u_is_active sample_user" "u_role sample_user = STUDENT"
  "u_email sample_user = ''ali@u''" "u_is_verified sample_user = False"
  "rs_id sample_session = ''s1''" "rs_user_id sample_session = ''u1''" "rs_jti sample_session = sample_jti"
  "rs_token_hash sample_session = sha256_text X sample_refresh_token"
  "ot_token sample_reset_token = sha256_text X ''reset''" "ot_user_id sample_reset_token = ''u1''"
  "db_telegram_event_outbox sample_world = []" "db_universities sample_world = []"
  by (simp_all add: sample_world_def sample_user_def sample_session_def sample_reset_token_def lookups)

lemma sample_unique: "events_unique sample_world"
  by (simp add: events_unique_def)

lemma sample_decode:
  "decode_token X S 5 sample_refresh_token = Inr (claims_of (refresh_payload S sample_jti 0 ''u1'' ''student''))"
  by (simp add: sample_refresh_token_def decode_refresh_token reference_laws timestamp_def default_settings_def)

lemma sample_claims_refresh:
  "c_type (claims_of (refresh_payload S sample_jti 0 ''u1'' ''student'')) = Some ''refresh''"
  "c_sub (claims_of (refresh_payload S sample_jti 0 ''u1'' ''student'')) = Some ''u1''"
  "c_jti (claims_of (refresh_payload S sample_jti 0 ''u1'' ''student'')) = Some sample_jti"
  by (simp_all add: refresh_payload_def)

lemma sample_issue: "\<exists>a r w'. issue_token_pair X S sample_ids 5 sample_user sample_world = ok (a, r) w' \<and>
    (\<exists>c. decode_token X S 5 r = Inr c \<and> c_jti c = Some (sample_ids 1))"
  by (simp add: issue_token_pair_def Let_def decode_refresh_token reference_laws timestamp_def
      default_settings_def claims_expiration_to_datetime_def refresh_payload_def)

lemma sample_live: "\<not> session_spent 5 sample_session"
  by (simp add: session_spent_def sample_session_def)

lemma sample_refresh: "\<exists>resp w'. refresh X S sample_ids 5 sample_refresh_token sample_world = ok resp w'"
  using sample_issue
  by (auto simp: refresh_def sample_decode sample_claims_refresh get_refresh_session_def sample_live)

lemma refresh_rotates_session_witness:
  "\<exists>resp w'. refresh X S sample_ids 5 sample_refresh_token sample_world = ok resp w' \<and>
    length (db_refresh_token_sessions w') = 2"
proof -
  obtain resp w' where r: "refresh X S sample_ids 5 sample_refresh_token sample_world = ok resp w'"
    using sample_refresh by blast
  have "\<exists>s new. db_refresh_token_sessions w' = [s, new]"
    using refresh_rotates_session [OF r] by (auto simp: sample_ids_def)
  with r show ?thesis by auto
qed

lemma refresh_replay_revokes_all_sessions_witness:
  "\<exists>msg w'. refresh X S sample_ids 5 sample_refresh_token
      (revoke_all_refresh_tokens ''u1'' 2 sample_world) = fail (AuthenticationError msg) w' \<and>
    \<not> list_ex (live_session 5 ''u1'') (db_refresh_token_sessions w')"
  using refresh_replay_revokes_all_sessions [OF sample_decode sample_claims_refresh(1,2),
      where w = "revoke_all_refresh_tokens ''u1'' 2 sample_world" and user = sample_user
        and jti = sample_jti and ids = sample_ids]
  by (force simp: get_user_def revoke_all_rows session_spent_def refresh_payload_def sample_session_def)

lemma sample_stable: "stable_jti X S sample_refresh_token"
  by (auto simp: stable_jti_def sample_refresh_token_def decode_refresh_token reference_laws split: if_splits)

lemma sample_fresh: "fresh_from (\<lambda>n k. ''n'' @ digits n) 0 sample_world"
  by (auto simp: fresh_from_def fresh_ids_def inj_def digits_inj)

lemma refresh_token_used_at_most_once_witness:
  "count_list (run_refreshes X S (\<lambda>n k. ''n'' @ digits n) 0
     [(5, sample_refresh_token), (6, sample_refresh_token)] sample_world) (sample_refresh_token, True) \<le> 1"
  by (rule refresh_token_used_at_most_once [OF sample_fresh sample_stable])

lemma sample_reset:
  "\<exists>msg w' s'. reset_password X R S sample_ids 5 ''reset'' ''new-secret'' sample_world fresh_store = (Inr msg, w', s')"
proof -
  let ?u = "sample_user\<lparr>u_hashed_password := hash_password X (sample_ids 0) ''new-secret''\<rparr>"
  let ?w = "audit (sample_ids 1) 5 ''password_reset_completed'' ''user'' (Some ?u) (Some (u_id ?u)) None
    (revoke_all_refresh_tokens (u_id ?u) 5 (sample_world\<lparr>db_users := store_row u_id ?u [sample_user],
       db_password_reset_tokens := store_row ot_id (sample_reset_token\<lparr>ot_consumed := True\<rparr>) [sample_reset_token]\<rparr>))"
  have "events_unique ?w" by (simp add: events_unique_def)
  from enqueue_user_security_ok [OF this, of sample_ids 10 5 PASSWORD_CHANGED ?u "ot_id sample_reset_token" "[]"]
  show ?thesis
    using usable_available [OF fresh_stores(1)]
    by (auto simp: reset_password_def Let_def sample_reset_token_def revoke_all_for_user_def)
qed

lemma reset_password_single_use_witness:
  "\<exists>w' s'. fst (snd (reset_password X R S sample_ids 5 ''reset'' ''new-secret'' sample_world fresh_store)) = w' \<and>
    \<not> is_ok (fst (reset_password X R S sample_ids 9 ''reset'' ''other'' w' s'))"
proof -
  obtain msg w' s' where r: "reset_password X R S sample_ids 5 ''reset'' ''new-secret'' sample_world fresh_store =
      (Inr msg, w', s')"
    using sample_reset by blast
  have "\<not> is_ok (fst (reset_password X R S sample_ids 9 ''reset'' ''other'' w' s'))"
    using reset_password_single_use [OF reference_laws(2) sample_unique r,
        where ids' = sample_ids and now' = 9 and p' = "''other''" and s'' = s'] by blast
  with r show ?thesis by auto
qed

lemma old_access_tokens_never_pass_again_witness:
  "\<not> is_ok (fst (get_current_user X R S (create_access_token X S ''j'' 0 ''u1'' ''student'') 3000000 sample_world
     (snd (revoke_all_for_user R S ''u1'' 2000000 fresh_store))))"
  using old_access_tokens_never_pass_again [OF reference_laws(1) fresh_stores(1) default_switches(2),
      where uid = "''u1''" and jti = "''j''" and issued = 0 and t = 2000000 and now = 3000000
        and role = "''student''" and w = sample_world]
    usable_available [OF fresh_stores(1)]
  by (simp add: timestamp_def revoke_all_for_user_def)

lemma sample_login:
  "\<exists>resp w'. login X S sample_ids 5 ''ali@u'' ''secret12'' sample_world = ok resp w'"
  using sample_issue verify_hash [OF reference_laws(2)]
  by (auto simp: login_def sample_user_def)


lemma no_account_enumeration_witness:
  "login X S sample_ids 5 ''ali@u'' ''wrong'' sample_world =
      fail (AuthenticationError ''Invalid credentials'') sample_world \<and>
    login X S sample_ids 5 ''nobody@u'' ''wrong'' sample_world =
      fail (AuthenticationError ''Invalid credentials'') sample_world"
  using no_account_enumeration [OF sample_unique, where email = "''ali@u''" and x = X
      and password = "''wrong''" and st = S and ids = sample_ids and now = 5]
    no_account_enumeration [OF sample_unique, where email = "''nobody@u''" and x = X
      and password = "''wrong''" and st = S and ids = sample_ids and now = 5]
    verify_hash [OF reference_laws(2), of "''wrong''"]
  by (simp add: sample_user_def get_user_by_email_def)

definition sample_registration :: register_request where
  "sample_registration = \<lparr>rq_full_name = ''Vali'', rq_email = ''vali@u'', rq_password = ''password'',
     rq_university_id = Some ''un1'', rq_proposed_university_name = None\<rparr>"

definition registration_world :: world where
  "registration_world = sample_world\<lparr>db_universities := [\<lparr>un_id = ''un1'', un_name = ''U'', un_slug = ''u''\<rparr>]\<rparr>"

lemma registration_world_simps [simp]:
  "db_users registration_world = [sample_user]" "events_unique registration_world"
  "get_university ''un1'' registration_world = Some \<lparr>un_id = ''un1'', un_name = ''U'', un_slug = ''u''\<rparr>"
  "get_user_by_email ''vali@u'' registration_world = None"
  by (simp_all add: registration_world_def lookups events_unique_def)

lemma sample_registration_ok:
  "\<exists>w'. register X S sample_ids 5 sample_registration registration_world = ok (new_user X sample_ids 5 sample_registration) w'"
proof -
  let ?u = "new_user X sample_ids 5 sample_registration"
  let ?w5 = "queue_verification_email S (sample_ids 7) 5 ?u (sample_ids 5)
    (create_email_verification_token X S (sample_ids 5) (sample_ids 6) 5 ?u
      (audit (sample_ids 4) 5 ''user_registered'' ''user'' (Some ?u) (Some (u_id ?u)) None
        (registration_world\<lparr>db_users := [sample_user, ?u]\<rparr>)))"
  have "events_unique ?w5"
    by (simp add: events_unique_def queue_verification_frames create_email_verification_token_rows
        registration_world_def)
  from enqueue_user_registered_ok [OF this, of sample_ids 10 5 ?u] show ?thesis
    by (auto simp: register_def Let_def create_user_def new_user_def sample_registration_def)
qed

lemma register_adds_one_student_witness:
  "\<exists>u w'. register X S sample_ids 5 sample_registration registration_world = ok u w' \<and>
     db_users w' = [sample_user, u] \<and> u_role u = STUDENT"
proof -
  obtain u w' where r: "register X S sample_ids 5 sample_registration registration_world = ok u w'"
    using sample_registration_ok by blast
  show ?thesis
    using register_adds_one_student [OF reference_laws(2), where w = registration_world and st = S
      and ids = sample_ids and now = 5 and rq = sample_registration] r
    by simp
qed

end
