(* ===== verification/Catalog.thy ===== *)
theory Catalog
  imports Slug World
begin

text \<open>
  \<^verbatim>\<open>app/modules/catalog/service.py\<close> and \<^verbatim>\<open>repositories.py\<close>: the universities with their faculties
  and the subjects of these. The constraints of the tables are part of the model: a flush that
  breaks a unique or a foreign key raises IntegrityError, also when a query in the middle of an
  update flushes the pending changes first. Deleting a row deletes what the tables cascade to.
\<close>

section \<open>Constraints\<close>

text \<open>Python's \<open>name.strip().lower()\<close>, and SQL's lower(trim(name)), where trim takes blanks only.\<close>

definition normalize_name :: "string \<Rightarrow> string" where
  "normalize_name name = lower (strip name)"

definition name_key :: "string \<Rightarrow> string" where
  "name_key name = lower (strip_char (CHR '' '') name)"

definition conflict_if_found :: "string \<Rightarrow> string list \<Rightarrow> unit res" where
  "conflict_if_found message found =
     (case scalar_one_or_none found of
        Inl e \<Rightarrow> Inl e
      | Inr i \<Rightarrow> if truthy i then Inl (ConflictError message) else Inr ())"

definition excluded :: "string option \<Rightarrow> string \<Rightarrow> bool" where
  "excluded exclude_id i = (truthy exclude_id \<and> the exclude_id = i)"

text \<open>INSERT, and the UPDATE of a row by its key.\<close>

definition insert_university :: "university \<Rightarrow> world \<Rightarrow> world res" where
  "insert_university u w =
     (if list_ex (\<lambda>r. un_id r = un_id u \<or> un_slug r = un_slug u) (db_universities w)
      then Inl IntegrityError
      else Inr (w\<lparr>db_universities := db_universities w @ [u]\<rparr>))"

definition flush_university :: "university \<Rightarrow> world \<Rightarrow> world res" where
  "flush_university u w =
     (if list_ex (\<lambda>r. un_id r \<noteq> un_id u \<and> un_slug r = un_slug u) (db_universities w)
      then Inl IntegrityError
      else Inr (w\<lparr>db_universities := store_row un_id u (db_universities w)\<rparr>))"

definition insert_faculty :: "faculty \<Rightarrow> world \<Rightarrow> world res" where
  "insert_faculty f w =
     (if get_university (fa_university_id f) w = None \<or>
         list_ex (\<lambda>r. fa_id r = fa_id f \<or>
           fa_university_id r = fa_university_id f \<and> fa_slug r = fa_slug f) (db_faculties w)
      then Inl IntegrityError
      else Inr (w\<lparr>db_faculties := db_faculties w @ [f]\<rparr>))"

definition flush_faculty :: "faculty \<Rightarrow> world \<Rightarrow> world res" where
  "flush_faculty f w =
     (if get_university (fa_university_id f) w = None \<or>
         list_ex (\<lambda>r. fa_id r \<noteq> fa_id f \<and>
           fa_university_id r = fa_university_id f \<and> fa_slug r = fa_slug f) (db_faculties w)
      then Inl IntegrityError
      else Inr (w\<lparr>db_faculties := store_row fa_id f (db_faculties w)\<rparr>))"

definition insert_subject :: "subject \<Rightarrow> world \<Rightarrow> world res" where
  "insert_subject s w =
     (if get_faculty (su_faculty_id s) w = None \<or>
         list_ex (\<lambda>r. su_id r = su_id s \<or>
           su_faculty_id r = su_faculty_id s \<and> su_slug r = su_slug s) (db_subjects w)
      then Inl IntegrityError
      else Inr (w\<lparr>db_subjects := db_subjects w @ [s]\<rparr>))"

definition flush_subject :: "subject \<Rightarrow> world \<Rightarrow> world res" where
  "flush_subject s w =
     (if get_faculty (su_faculty_id s) w = None \<or>
         list_ex (\<lambda>r. su_id r \<noteq> su_id s \<and>
           su_faculty_id r = su_faculty_id s \<and> su_slug r = su_slug s) (db_subjects w)
      then Inl IntegrityError
      else Inr (w\<lparr>db_subjects := store_row su_id s (db_subjects w)\<rparr>))"

text \<open>
  The rows that go with deleted ones. A subject is deleted by setting \<open>subject_id\<close> of its
  materials to null, which the column does not allow, so one with materials stays.
\<close>

definition drop_subjects :: "(subject \<Rightarrow> bool) \<Rightarrow> world \<Rightarrow> world res" where
  "drop_subjects P w =
     (let gone = map su_id (filter P (db_subjects w)) in
      if list_ex (\<lambda>m. m_subject_id m \<in> set gone) (db_materials w) then Inl IntegrityError
      else Inr (w\<lparr>
        db_subjects := delete_where P (db_subjects w),
        db_moderator_subject_scopes :=
          delete_where (\<lambda>s. mss_subject_id s \<in> set gone) (db_moderator_subject_scopes w),
        db_subject_proposals :=
          update_where (\<lambda>p. \<exists>i\<in>set gone. sp_approved_subject_id p = Some i)
            (\<lambda>p. p\<lparr>sp_approved_subject_id := None\<rparr>) (db_subject_proposals w)\<rparr>))"

definition drop_faculties :: "(faculty \<Rightarrow> bool) \<Rightarrow> world \<Rightarrow> world res" where
  "drop_faculties P w =
     (let gone = map fa_id (filter P (db_faculties w)) in
      case drop_subjects (\<lambda>s. su_faculty_id s \<in> set gone) w of
        Inl e \<Rightarrow> Inl e
      | Inr w1 \<Rightarrow> Inr (w1\<lparr>
          db_faculties := delete_where P (db_faculties w1),
          db_moderator_faculty_scopes :=
            delete_where (\<lambda>s. mfs_faculty_id s \<in> set gone) (db_moderator_faculty_scopes w1),
          db_faculty_proposals :=
            update_where (\<lambda>p. \<exists>i\<in>set gone. fp_approved_faculty_id p = Some i)
              (\<lambda>p. p\<lparr>fp_approved_faculty_id := None\<rparr>) (db_faculty_proposals w1),
          db_subject_proposals :=
            delete_where (\<lambda>p. sp_faculty_id p \<in> set gone) (db_subject_proposals w1)\<rparr>))"

section \<open>Queries\<close>

definition list_universities :: "world \<Rightarrow> university list" where
  "list_universities w = order_by un_name (db_universities w)"

definition require_university :: "string \<Rightarrow> world \<Rightarrow> university res" where
  "require_university i w =
     (case get_university i w of
        None \<Rightarrow> Inl (ResourceNotFound ''University not found'') | Some u \<Rightarrow> Inr u)"

definition require_faculty :: "string \<Rightarrow> world \<Rightarrow> faculty res" where
  "require_faculty i w =
     (case get_faculty i w of
        None \<Rightarrow> Inl (ResourceNotFound ''Faculty not found'') | Some f \<Rightarrow> Inr f)"

definition require_subject :: "string \<Rightarrow> world \<Rightarrow> subject res" where
  "require_subject i w =
     (case get_subject i w of
        None \<Rightarrow> Inl (ResourceNotFound ''Subject not found'') | Some s \<Rightarrow> Inr s)"

definition list_faculties :: "string \<Rightarrow> world \<Rightarrow> faculty list res" where
  "list_faculties university_id w =
     (case require_university university_id w of
        Inl e \<Rightarrow> Inl e
      | Inr _ \<Rightarrow>
          Inr (order_by fa_name (filter (\<lambda>f. fa_university_id f = university_id) (db_faculties w))))"

definition list_subjects :: "string \<Rightarrow> world \<Rightarrow> subject list res" where
  "list_subjects faculty_id w =
     (case require_faculty faculty_id w of
        Inl e \<Rightarrow> Inl e
      | Inr _ \<Rightarrow>
          Inr (order_by su_name (filter (\<lambda>s. su_faculty_id s = faculty_id) (db_subjects w))))"

text \<open>\<open>d.setdefault(key, []).append(row)\<close> for every row, and \<open>d.get(key, [])\<close>.\<close>

definition group_by :: "('r \<Rightarrow> 'k) \<Rightarrow> 'r list \<Rightarrow> 'k \<Rightarrow> 'r list" where
  "group_by key rows = foldl (\<lambda>d r. d(key r := d (key r) @ [r])) (\<lambda>_. []) rows"

record faculty_tree =
  ft_faculty :: faculty
  ft_subjects :: "subject list"

record university_tree =
  ut_university :: university
  ut_faculties :: "faculty_tree list"

definition list_university_tree :: "world \<Rightarrow> university_tree list" where
  "list_university_tree w =
     (let universities = order_by un_name (db_universities w);
          faculties = order_by fa_name (db_faculties w);
          subjects = order_by su_name (db_subjects w);
          subjects_by_faculty = group_by su_faculty_id subjects;
          faculties_by_university = group_by (fa_university_id \<circ> ft_faculty)
            (map (\<lambda>f. \<lparr>ft_faculty = f, ft_subjects = subjects_by_faculty (fa_id f)\<rparr>) faculties)
      in map (\<lambda>u. \<lparr>ut_university = u, ut_faculties = faculties_by_university (un_id u)\<rparr>) universities)"

section \<open>What must be free\<close>

definition ensure_university_slug_available :: "string \<Rightarrow> string option \<Rightarrow> world \<Rightarrow> unit res" where
  "ensure_university_slug_available slug exclude_id w =
     conflict_if_found ''University with this slug already exists''
       (map un_id (filter (\<lambda>u. un_slug u = slug \<and> \<not> excluded exclude_id (un_id u)) (db_universities w)))"

definition ensure_university_name_available :: "string \<Rightarrow> string option \<Rightarrow> world \<Rightarrow> unit res" where
  "ensure_university_name_available name exclude_id w =
     conflict_if_found ''University with this name already exists''
       (map un_id (filter (\<lambda>u. name_key (un_name u) = normalize_name name \<and>
          \<not> excluded exclude_id (un_id u)) (db_universities w)))"

definition ensure_faculty_slug_available ::
  "string \<Rightarrow> string \<Rightarrow> string option \<Rightarrow> world \<Rightarrow> unit res"
where
  "ensure_faculty_slug_available university_id slug exclude_id w =
     conflict_if_found ''Faculty with this slug already exists in the university''
       (map fa_id (filter (\<lambda>f. fa_university_id f = university_id \<and> fa_slug f = slug \<and>
          \<not> excluded exclude_id (fa_id f)) (db_faculties w)))"

definition ensure_faculty_name_available ::
  "string \<Rightarrow> string \<Rightarrow> string option \<Rightarrow> world \<Rightarrow> unit res"
where
  "ensure_faculty_name_available university_id name exclude_id w =
     conflict_if_found ''Faculty with this name already exists in the university''
       (map fa_id (filter (\<lambda>f. fa_university_id f = university_id \<and>
          name_key (fa_name f) = normalize_name name \<and> \<not> excluded exclude_id (fa_id f)) (db_faculties w)))"

definition ensure_subject_slug_available ::
  "string \<Rightarrow> string \<Rightarrow> string option \<Rightarrow> world \<Rightarrow> unit res"
where
  "ensure_subject_slug_available faculty_id slug exclude_id w =
     conflict_if_found ''Subject with this slug already exists in the faculty''
       (map su_id (filter (\<lambda>s. su_faculty_id s = faculty_id \<and> su_slug s = slug \<and>
          \<not> excluded exclude_id (su_id s)) (db_subjects w)))"

definition ensure_subject_name_available ::
  "string \<Rightarrow> string \<Rightarrow> string option \<Rightarrow> world \<Rightarrow> unit res"
where
  "ensure_subject_name_available faculty_id name exclude_id w =
     conflict_if_found ''Subject with this name already exists in the faculty''
       (map su_id (filter (\<lambda>s. su_faculty_id s = faculty_id \<and>
          name_key (su_name s) = normalize_name name \<and> \<not> excluded exclude_id (su_id s)) (db_subjects w)))"

section \<open>Universities\<close>

record university_create =
  uc_name :: string
  uc_slug :: "string option"

definition create_university ::
  "externals \<Rightarrow> string \<Rightarrow> university_create \<Rightarrow> world \<Rightarrow> university res \<times> world"
where
  "create_university x i payload w =
     (let slug = or_else (uc_slug payload) (slugify x (uc_name payload)) in
      case ensure_university_name_available (uc_name payload) None w of
        Inl e \<Rightarrow> fail e w
      | Inr _ \<Rightarrow>
          (case ensure_university_slug_available slug None w of
             Inl e \<Rightarrow> fail e w
           | Inr _ \<Rightarrow>
               (let u = \<lparr>un_id = i, un_name = uc_name payload, un_slug = slug\<rparr> in
                case insert_university u w of
                  Inl _ \<Rightarrow> fail (ConflictError ''University with this slug already exists'') w
                | Inr w1 \<Rightarrow> ok u w1)))"

record university_update =
  uu_name :: "string option"
  uu_slug :: "string option"

definition update_university ::
  "externals \<Rightarrow> string \<Rightarrow> university_update \<Rightarrow> world \<Rightarrow> university res \<times> world"
where
  "update_university x university_id payload w =
     (case require_university university_id w of
        Inl e \<Rightarrow> fail e w
      | Inr u \<Rightarrow>
          (case (case uu_name payload of
                   None \<Rightarrow> Inr u
                 | Some name \<Rightarrow>
                     (case ensure_university_name_available name (Some (un_id u)) w of
                        Inl e \<Rightarrow> Inl e | Inr _ \<Rightarrow> Inr (u\<lparr>un_name := name\<rparr>))) of
             Inl e \<Rightarrow> fail e w
           | Inr u1 \<Rightarrow>
               (case (case (uu_slug payload, uu_name payload) of
                        (Some slug, _) \<Rightarrow> Some slug
                      | (None, Some name) \<Rightarrow> Some (slugify x name)
                      | (None, None) \<Rightarrow> None) of
                  None \<Rightarrow>
                    (case flush_university u1 w of
                       Inl _ \<Rightarrow> fail (ConflictError ''University with this slug already exists'') w
                     | Inr w1 \<Rightarrow> ok u1 w1)
                | Some slug \<Rightarrow>
                    (case flush_university u1 w of
                       Inl e \<Rightarrow> fail e w
                     | Inr w1 \<Rightarrow>
                         (case ensure_university_slug_available slug (Some (un_id u)) w1 of
                            Inl e \<Rightarrow> fail e w
                          | Inr _ \<Rightarrow>
                              (let u2 = u1\<lparr>un_slug := slug\<rparr> in
                               case flush_university u2 w1 of
                                 Inl _ \<Rightarrow> fail (ConflictError ''University with this slug already exists'') w
                               | Inr w2 \<Rightarrow> ok u2 w2))))))"

definition delete_university :: "string \<Rightarrow> world \<Rightarrow> unit res \<times> world" where
  "delete_university university_id w =
     (case require_university university_id w of
        Inl e \<Rightarrow> fail e w
      | Inr u \<Rightarrow>
          (case drop_faculties (\<lambda>f. fa_university_id f = un_id u) w of
             Inl e \<Rightarrow> fail e w
           | Inr w1 \<Rightarrow> ok () (w1\<lparr>
               db_universities := delete_where (\<lambda>r. un_id r = un_id u) (db_universities w1),
               db_users := update_where (\<lambda>r. u_university_id r = Some (un_id u))
                 (\<lambda>r. r\<lparr>u_university_id := None\<rparr>) (db_users w1),
               db_moderator_university_scopes :=
                 delete_where (\<lambda>s. mus_university_id s = un_id u) (db_moderator_university_scopes w1),
               db_university_proposals :=
                 update_where (\<lambda>p. up_approved_university_id p = Some (un_id u))
                   (\<lambda>p. p\<lparr>up_approved_university_id := None\<rparr>) (db_university_proposals w1),
               db_faculty_proposals :=
                 delete_where (\<lambda>p. fp_university_id p = un_id u) (db_faculty_proposals w1)\<rparr>)))"

section \<open>Faculties\<close>

record faculty_create =
  fc_university_id :: string
  fc_name :: string
  fc_slug :: "string option"

definition create_faculty :: "externals \<Rightarrow> string \<Rightarrow> faculty_create \<Rightarrow> world \<Rightarrow> faculty res \<times> world" where
  "create_faculty x i payload w =
     (case require_university (fc_university_id payload) w of
        Inl e \<Rightarrow> fail e w
      | Inr _ \<Rightarrow>
          (let slug = or_else (fc_slug payload) (slugify x (fc_name payload)) in
           case ensure_faculty_name_available (fc_university_id payload) (fc_name payload) None w of
             Inl e \<Rightarrow> fail e w
           | Inr _ \<Rightarrow>
               (case ensure_faculty_slug_available (fc_university_id payload) slug None w of
                  Inl e \<Rightarrow> fail e w
                | Inr _ \<Rightarrow>
                    (let f = \<lparr>fa_id = i, fa_university_id = fc_university_id payload,
                              fa_name = fc_name payload, fa_slug = slug\<rparr> in
                     case insert_faculty f w of
                       Inl _ \<Rightarrow>
                         fail (ConflictError ''Faculty with this slug already exists in the university'') w
                     | Inr w1 \<Rightarrow> ok f w1))))"

record faculty_update =
  fu_university_id :: "string option"
  fu_name :: "string option"
  fu_slug :: "string option"

definition update_faculty :: "externals \<Rightarrow> string \<Rightarrow> faculty_update \<Rightarrow> world \<Rightarrow> faculty res \<times> world" where
  "update_faculty x faculty_id payload w =
     (case require_faculty faculty_id w of
        Inl e \<Rightarrow> fail e w
      | Inr f \<Rightarrow>
          (let target_university_id = or_else (fu_university_id payload) (fa_university_id f);
               target_name = or_else (fu_name payload) (fa_name f) in
           case ensure_faculty_name_available target_university_id target_name (Some (fa_id f)) w of
             Inl e \<Rightarrow> fail e w
           | Inr _ \<Rightarrow>
               (let f1 = f\<lparr>fa_university_id := (case fu_university_id payload of
                             None \<Rightarrow> fa_university_id f | Some u \<Rightarrow> u),
                           fa_name := (case fu_name payload of None \<Rightarrow> fa_name f | Some n \<Rightarrow> n)\<rparr> in
                case (case (fu_slug payload, fu_name payload) of
                        (Some slug, _) \<Rightarrow> Some slug
                      | (None, Some name) \<Rightarrow> Some (slugify x name)
                      | (None, None) \<Rightarrow> None) of
                  None \<Rightarrow>
                    (case flush_faculty f1 w of
                       Inl _ \<Rightarrow>
                         fail (ConflictError ''Faculty with this slug already exists in the university'') w
                     | Inr w1 \<Rightarrow> ok f1 w1)
                | Some slug \<Rightarrow>
                    (case flush_faculty f1 w of
                       Inl e \<Rightarrow> fail e w
                     | Inr w1 \<Rightarrow>
                         (case ensure_faculty_slug_available target_university_id slug (Some (fa_id f)) w1 of
                            Inl e \<Rightarrow> fail e w
                          | Inr _ \<Rightarrow>
                              (let f2 = f1\<lparr>fa_slug := slug\<rparr> in
                               case flush_faculty f2 w1 of
                                 Inl _ \<Rightarrow> fail (ConflictError
                                   ''Faculty with this slug already exists in the university'') w
                               | Inr w2 \<Rightarrow> ok f2 w2))))))"

definition delete_faculty :: "string \<Rightarrow> world \<Rightarrow> unit res \<times> world" where
  "delete_faculty faculty_id w =
     (case require_faculty faculty_id w of
        Inl e \<Rightarrow> fail e w
      | Inr f \<Rightarrow>
          (case drop_faculties (\<lambda>r. fa_id r = fa_id f) w of
             Inl e \<Rightarrow> fail e w | Inr w1 \<Rightarrow> ok () w1))"

section \<open>Subjects\<close>

record subject_create =
  sc_faculty_id :: string
  sc_name :: string
  sc_slug :: "string option"
  sc_code :: "string option"
  sc_description :: "string option"

definition create_subject :: "externals \<Rightarrow> string \<Rightarrow> subject_create \<Rightarrow> world \<Rightarrow> subject res \<times> world" where
  "create_subject x i payload w =
     (case require_faculty (sc_faculty_id payload) w of
        Inl e \<Rightarrow> fail e w
      | Inr _ \<Rightarrow>
          (let slug = or_else (sc_slug payload) (slugify x (sc_name payload)) in
           case ensure_subject_name_available (sc_faculty_id payload) (sc_name payload) None w of
             Inl e \<Rightarrow> fail e w
           | Inr _ \<Rightarrow>
               (case ensure_subject_slug_available (sc_faculty_id payload) slug None w of
                  Inl e \<Rightarrow> fail e w
                | Inr _ \<Rightarrow>
                    (let s = \<lparr>su_id = i, su_faculty_id = sc_faculty_id payload,
                              su_name = sc_name payload, su_slug = slug, su_code = sc_code payload,
                              su_description = sc_description payload\<rparr> in
                     case insert_subject s w of
                       Inl _ \<Rightarrow>
                         fail (ConflictError ''Subject with this slug already exists in the faculty'') w
                     | Inr w1 \<Rightarrow> ok s w1))))"

text \<open>A field of the update that is not set is None; one that is set to null is Some None.\<close>

record subject_update =
  sb_faculty_id :: "string option option"
  sb_name :: "string option option"
  sb_slug :: "string option option"
  sb_code :: "string option option"
  sb_description :: "string option option"

definition set_column :: "string option option \<Rightarrow> string \<Rightarrow> string res" where
  "set_column field current =
     (case field of None \<Rightarrow> Inr current | Some None \<Rightarrow> Inl IntegrityError | Some (Some v) \<Rightarrow> Inr v)"

text \<open>The loop over the fields; a null in a required column makes the next flush fail.\<close>

definition updated_subject :: "subject_update \<Rightarrow> subject \<Rightarrow> subject res" where
  "updated_subject payload s =
     (let named = truthy (Option.bind (sb_name payload) id);
          slug_field = (if sb_slug payload = Some None \<and> named then None else sb_slug payload) in
      case (set_column (sb_faculty_id payload) (su_faculty_id s), set_column (sb_name payload) (su_name s),
            set_column slug_field (su_slug s)) of
        (Inr fac, Inr name, Inr slug) \<Rightarrow>
          Inr (s\<lparr>su_faculty_id := fac, su_name := name, su_slug := slug,
                 su_code := (case sb_code payload of None \<Rightarrow> su_code s | Some c \<Rightarrow> c),
                 su_description := (case sb_description payload of None \<Rightarrow> su_description s | Some d \<Rightarrow> d)\<rparr>)
      | _ \<Rightarrow> Inl IntegrityError)"

definition flush_updated :: "subject res \<Rightarrow> world \<Rightarrow> world res" where
  "flush_updated r w = (case r of Inl e \<Rightarrow> Inl e | Inr s \<Rightarrow> flush_subject s w)"

definition update_subject :: "externals \<Rightarrow> string \<Rightarrow> subject_update \<Rightarrow> world \<Rightarrow> subject res \<times> world" where
  "update_subject x subject_id payload w =
     (case require_subject subject_id w of
        Inl e \<Rightarrow> fail e w
      | Inr s \<Rightarrow>
          (let slug = Option.bind (sb_slug payload) id;
               name = Option.bind (sb_name payload) id;
               target_faculty_id = or_else (Option.bind (sb_faculty_id payload) id) (su_faculty_id s);
               target_name = or_else name (su_name s) in
           case ensure_subject_name_available target_faculty_id target_name (Some (su_id s)) w of
             Inl e \<Rightarrow> fail e w
           | Inr _ \<Rightarrow>
               (let changed = updated_subject payload s in
                if slug = None \<and> \<not> truthy name
                then (case flush_updated changed w of
                        Inl _ \<Rightarrow>
                          fail (ConflictError ''Subject with this slug already exists in the faculty'') w
                      | Inr w1 \<Rightarrow> (changed, w1))
                else
                  (let new_slug = (case slug of None \<Rightarrow> slugify x (the name) | Some v \<Rightarrow> v) in
                   case flush_updated changed w of
                     Inl e \<Rightarrow> fail e w
                   | Inr w1 \<Rightarrow>
                       (case ensure_subject_slug_available target_faculty_id new_slug (Some (su_id s)) w1 of
                          Inl e \<Rightarrow> fail e w
                        | Inr _ \<Rightarrow>
                            (case (if slug = None then map_sum id (su_slug_update (\<lambda>_. new_slug)) changed
                                   else changed) of
                               Inl e \<Rightarrow> fail e w
                             | Inr s2 \<Rightarrow>
                                 (case flush_subject s2 w1 of
                                    Inl _ \<Rightarrow> fail (ConflictError
                                      ''Subject with this slug already exists in the faculty'') w
                                  | Inr w2 \<Rightarrow> ok s2 w2)))))))"

definition delete_subject :: "string \<Rightarrow> world \<Rightarrow> unit res \<times> world" where
  "delete_subject subject_id w =
     (case require_subject subject_id w of
        Inl e \<Rightarrow> fail e w
      | Inr s \<Rightarrow>
          (case drop_subjects (\<lambda>r. su_id r = su_id s) w of
             Inl e \<Rightarrow> fail e w | Inr w1 \<Rightarrow> ok () w1))"

end
