(* ===== verification/Files.thy ===== *)
theory Files
  imports Security
begin

text \<open>
  \<^verbatim>\<open>app/utils/files.py\<close>: the extension of an uploaded file, its kind and MIME type, and the
  check of its content against its extension. The content of a file is the list of its
  bytes. The ZIP directory, JSON and PDF parsers are parameters; UTF-8 is decoded here.
\<close>

text \<open>
  \<open>zip_namelist\<close> is None for BadZipFile; \<open>json_load_keys\<close> is None when json.load raises, and
  otherwise the keys of the document when it is a dict; \<open>pdf_pages\<close> is None when PdfReader
  cannot read the document; \<open>pdf_first_pages\<close> writes its first pages as a document.
\<close>

record parsers =
  zip_namelist :: "string \<Rightarrow> string list option"
  json_load_keys :: "string \<Rightarrow> string list option option"
  pdf_pages :: "string \<Rightarrow> nat option"
  pdf_first_pages :: "nat \<Rightarrow> string \<Rightarrow> string"
  sha256_bytes :: "string \<Rightarrow> string"

section \<open>Extensions\<close>

definition IMAGE_EXTENSIONS :: "string list" where
  "IMAGE_EXTENSIONS = [''jpg'', ''jpeg'', ''png'', ''webp'']"

definition DOCUMENT_EXTENSIONS :: "string list" where
  "DOCUMENT_EXTENSIONS =
     [''pdf'', ''docx'', ''djvu'', ''pptx'', ''ppt'', ''xlsx'', ''xls'', ''ipynb'', ''txt'', ''epub'', ''doc'']"

definition AUDIO_VIDEO_EXTENSIONS :: "string list" where
  "AUDIO_VIDEO_EXTENSIONS = [''mp3'', ''mp4'']"

definition ALLOWED_EXTENSIONS :: "string list" where
  "ALLOWED_EXTENSIONS = IMAGE_EXTENSIONS @ DOCUMENT_EXTENSIONS @ AUDIO_VIDEO_EXTENSIONS"

definition PREVIEWABLE_EXTENSIONS :: "string list" where
  "PREVIEWABLE_EXTENSIONS = ALLOWED_EXTENSIONS"

definition MIME_BY_EXTENSION :: "(string \<times> string) list" where
  "MIME_BY_EXTENSION =
     [(''jpg'', ''image/jpeg''), (''jpeg'', ''image/jpeg''), (''png'', ''image/png''),
      (''webp'', ''image/webp''), (''pdf'', ''application/pdf''),
      (''docx'', ''application/vnd.openxmlformats-officedocument.wordprocessingml.document''),
      (''djvu'', ''image/vnd.djvu''),
      (''pptx'', ''application/vnd.openxmlformats-officedocument.presentationml.presentation''),
      (''ppt'', ''application/vnd.ms-powerpoint''),
      (''xlsx'', ''application/vnd.openxmlformats-officedocument.spreadsheetml.sheet''),
      (''xls'', ''application/vnd.ms-excel''), (''ipynb'', ''application/x-ipynb+json''),
      (''txt'', ''text/plain''), (''epub'', ''application/epub+zip''), (''mp3'', ''audio/mpeg''),
      (''mp4'', ''video/mp4''), (''doc'', ''application/msword'')]"

text \<open>Path(filename).name and .suffix of a POSIX path.\<close>

definition path_name :: "string \<Rightarrow> string" where
  "path_name s =
     (case rev (filter (\<lambda>p. p \<noteq> [] \<and> p \<noteq> ''.'') (split_on (CHR ''/'') s)) of
        [] \<Rightarrow> [] | p # _ \<Rightarrow> p)"

definition path_suffix :: "string \<Rightarrow> string" where
  "path_suffix s =
     (let name = path_name s;
          tail = rev (takeWhile (\<lambda>c. c \<noteq> CHR ''.'') (rev name));
          i = length name - length tail - 1
      in if CHR ''.'' \<in> set name \<and> 0 < i \<and> i < length name - 1 then CHR ''.'' # tail else [])"

definition get_extension :: "string \<Rightarrow> string" where
  "get_extension filename = lstrip_char (CHR ''.'') (lower (path_suffix filename))"

definition detect_file_kind :: "string \<Rightarrow> file_kind" where
  "detect_file_kind extension =
     (if extension \<in> set IMAGE_EXTENSIONS then IMAGE
      else if extension \<in> set DOCUMENT_EXTENSIONS then DOCUMENT
      else OtherKind)"

definition detect_mime_type :: "string \<Rightarrow> string" where
  "detect_mime_type extension =
     (case map_of MIME_BY_EXTENSION extension of
        Some m \<Rightarrow> m | None \<Rightarrow> ''application/octet-stream'')"

section \<open>Contents\<close>

definition validate_archive ::
  "parsers \<Rightarrow> string \<Rightarrow> string list \<Rightarrow> string \<Rightarrow> string \<Rightarrow> unit res"
where
  "validate_archive pr stored required_members invalid_archive invalid_document =
     (case zip_namelist pr stored of
        None \<Rightarrow> Inl (ValidationAppError invalid_archive)
      | Some names \<Rightarrow>
          (if list_all (\<lambda>m. m \<in> set names) required_members then Inr ()
           else Inl (ValidationAppError invalid_document)))"

definition validate_docx_archive :: "parsers \<Rightarrow> string \<Rightarrow> unit res" where
  "validate_docx_archive pr stored =
     validate_archive pr stored [''[Content_Types].xml'', ''word/document.xml'']
       ''Invalid DOCX file'' ''Uploaded file is not a valid DOCX document''"

definition validate_pptx_archive :: "parsers \<Rightarrow> string \<Rightarrow> unit res" where
  "validate_pptx_archive pr stored =
     validate_archive pr stored [''[Content_Types].xml'', ''ppt/presentation.xml'']
       ''Invalid PPTX file'' ''Uploaded file is not a valid PPTX document''"

definition validate_xlsx_archive :: "parsers \<Rightarrow> string \<Rightarrow> unit res" where
  "validate_xlsx_archive pr stored =
     validate_archive pr stored [''[Content_Types].xml'', ''xl/workbook.xml'']
       ''Invalid XLSX file'' ''Uploaded file is not a valid XLSX document''"

definition validate_epub_archive :: "parsers \<Rightarrow> string \<Rightarrow> unit res" where
  "validate_epub_archive pr stored =
     validate_archive pr stored [''mimetype'', ''META-INF/container.xml'']
       ''Invalid EPUB file'' ''Uploaded file is not a valid EPUB document''"

text \<open>
  The ValidationAppError for a document of another shape is raised inside the try block, but
  it is no ValueError, so the except clause lets it pass.
\<close>

definition validate_ipynb_json :: "parsers \<Rightarrow> string \<Rightarrow> unit res" where
  "validate_ipynb_json pr stored =
     (case json_load_keys pr stored of
        None \<Rightarrow> Inl (ValidationAppError ''Invalid Jupyter Notebook file'')
      | Some None \<Rightarrow> Inl (ValidationAppError ''Uploaded file is not a valid Jupyter Notebook'')
      | Some (Some ks) \<Rightarrow>
          (if ''cells'' \<notin> set ks \<or> ''metadata'' \<notin> set ks
           then Inl (ValidationAppError ''Uploaded file is not a valid Jupyter Notebook'')
           else Inr ()))"

text \<open>
  The incremental UTF-8 decoder: the ranges of the bytes that must follow a lead byte, and the
  lead bytes of the characters decoded with the incomplete sequence that is left; None is
  UnicodeDecodeError.
\<close>

definition utf8_follow :: "nat \<Rightarrow> (nat \<times> nat) list option" where
  "utf8_follow n =
     (let c = (128, 191) in
      if n < 128 then Some []
      else if 194 \<le> n \<and> n \<le> 223 then Some [c]
      else if n = 224 then Some [(160, 191), c]
      else if n = 237 then Some [(128, 159), c]
      else if 225 \<le> n \<and> n \<le> 239 then Some [c, c]
      else if n = 240 then Some [(144, 191), c, c]
      else if 241 \<le> n \<and> n \<le> 243 then Some [c, c, c]
      else if n = 244 then Some [(128, 143), c, c]
      else None)"

fun utf8_decode :: "nat list \<Rightarrow> (nat list \<times> nat list) option" where
  "utf8_decode [] = Some ([], [])"
| "utf8_decode (b # bs) =
     (case utf8_follow b of
        None \<Rightarrow> None
      | Some rs \<Rightarrow>
          (if list_all (\<lambda>(x, lo, hi). lo \<le> x \<and> x \<le> hi) (zip bs rs)
           then if length bs < length rs then Some ([], b # bs)
                else (case utf8_decode (drop (length rs) bs) of
                        None \<Rightarrow> None
                      | Some (cs, rest) \<Rightarrow> Some (b # cs, rest))
           else None))"

text \<open>Universal newlines: a carriage return before a line feed is dropped, a last one held back.\<close>

fun translated_length :: "nat list \<Rightarrow> nat" where
  "translated_length [] = 0"
| "translated_length [c] = (if c = 13 then 0 else 1)"
| "translated_length (c # d # cs) =
     (if c = 13 \<and> d = 10 then translated_length (d # cs) else Suc (translated_length (d # cs)))"

text \<open>
  read(1000) decodes one chunk of 8192 bytes; only a chunk that gives less than 1000
  characters is followed by another read, which then is at the end of the file.
\<close>

definition validate_txt_utf8 :: "string \<Rightarrow> unit res" where
  "validate_txt_utf8 stored =
     (case utf8_decode (map of_char (take 8192 stored)) of
        None \<Rightarrow> Inl (ValidationAppError ''Uploaded TXT file must be valid UTF-8 encoded text'')
      | Some (cs, rest) \<Rightarrow>
          (if 1000 \<le> translated_length cs \<or> rest = [] then Inr ()
           else Inl (ValidationAppError ''Uploaded TXT file must be valid UTF-8 encoded text'')))"

fun contains_bytes :: "string \<Rightarrow> string \<Rightarrow> bool" where
  "contains_bytes p [] = (p = [])"
| "contains_bytes p (c # cs) = (prefix p (c # cs) \<or> contains_bytes p cs)"

definition signature_error :: "string \<Rightarrow> 'a res" where
  "signature_error kind =
     Inl (ValidationAppError (''Uploaded file content does not match '' @ kind @ '' signature''))"

definition ole_signature :: string where
  "ole_signature = [CHR 0xD0, CHR 0xCF, CHR 0x11, CHR 0xE0, CHR 0xA1, CHR 0xB1, CHR 0x1A, CHR 0xE1]"

definition zip_signature :: string where
  "zip_signature = ''PK'' @ [CHR 0x03, CHR 0x04]"

definition check_content :: "parsers \<Rightarrow> string \<Rightarrow> string \<Rightarrow> string \<Rightarrow> unit res" where
  "check_content pr extension header stored =
     (if extension \<in> {''jpg'', ''jpeg''} then
        (if \<not> startswith header [CHR 0xFF, CHR 0xD8, CHR 0xFF] then signature_error ''JPEG'' else Inr ())
      else if extension = ''png'' then
        (if \<not> startswith header ([CHR 0x89] @ ''PNG'' @ [CHR 0x0D, CHR 0x0A, CHR 0x1A, CHR 0x0A])
         then signature_error ''PNG'' else Inr ())
      else if extension = ''webp'' then
        (if \<not> (startswith header ''RIFF'' \<and> take 4 (drop 8 header) = ''WEBP'')
         then signature_error ''WEBP'' else Inr ())
      else if extension = ''pdf'' then
        (if \<not> startswith header ''%PDF-'' then signature_error ''PDF'' else Inr ())
      else if extension = ''djvu'' then
        (if \<not> startswith header ''AT&TFORM'' then signature_error ''DJVU'' else Inr ())
      else if extension = ''docx'' then
        (if \<not> startswith header zip_signature then signature_error ''DOCX''
         else validate_docx_archive pr stored)
      else if extension = ''pptx'' then
        (if \<not> startswith header zip_signature then signature_error ''PPTX''
         else validate_pptx_archive pr stored)
      else if extension = ''ppt'' then
        (if \<not> startswith header ole_signature then signature_error ''PPT'' else Inr ())
      else if extension = ''xlsx'' then
        (if \<not> startswith header zip_signature then signature_error ''XLSX''
         else validate_xlsx_archive pr stored)
      else if extension = ''xls'' then
        (if \<not> startswith header ole_signature then signature_error ''XLS'' else Inr ())
      else if extension = ''epub'' then
        (if \<not> startswith header zip_signature then signature_error ''EPUB''
         else validate_epub_archive pr stored)
      else if extension = ''ipynb'' then validate_ipynb_json pr stored
      else if extension = ''txt'' then validate_txt_utf8 stored
      else if extension = ''mp3'' then
        (if \<not> (startswith header ''ID3'' \<or> startswith header [CHR 0xFF, CHR 0xFB] \<or>
                startswith header [CHR 0xFF, CHR 0xF3] \<or> startswith header [CHR 0xFF, CHR 0xF2])
         then signature_error ''MP3'' else Inr ())
      else if extension = ''mp4'' then
        (if \<not> contains_bytes ''ftyp'' (take 8 (drop 4 header)) then signature_error ''MP4'' else Inr ())
      else if extension = ''doc'' then
        (if \<not> startswith header ole_signature then signature_error ''DOC'' else Inr ())
      else Inr ())"

definition validate_file_signature ::
  "parsers \<Rightarrow> string \<Rightarrow> string \<Rightarrow> string \<Rightarrow> (file_kind \<times> string) res"
where
  "validate_file_signature pr extension header stored =
     (if extension \<notin> set ALLOWED_EXTENSIONS then Inl (ValidationAppError ''Unsupported file type'')
      else (case check_content pr extension header stored of
              Inl e \<Rightarrow> Inl e
            | Inr _ \<Rightarrow> Inr (detect_file_kind extension, detect_mime_type extension)))"

section \<open>What the check depends on\<close>

lemma startswith_take: "length p \<le> n \<Longrightarrow> startswith (take n s) p = startswith s p"
proof -
  assume n: "length p \<le> n"
  have iff: "prefix p t \<longleftrightarrow> take (length p) t = p" for t :: string
    by (auto simp: prefix_def append_eq_conv_conj) (metis append_take_drop_id)
  show ?thesis unfolding startswith_def iff using n by (simp add: min_absorb1)
qed

lemma take_drop_take: "a + b \<le> n \<Longrightarrow> take a (drop b (take n s)) = take a (drop b s)"
  by (simp add: drop_take min_absorb1)

text \<open>No signature reaches beyond the first twelve bytes, so a header of 4096 bytes is enough.\<close>

lemma check_content_header:
  assumes "12 \<le> n" shows "check_content pr ext (take n s) stored = check_content pr ext s stored"
proof -
  have s: "startswith (take n s) p = startswith s p" if "length p < 9" for p
    using that assms by (simp add: startswith_take)
  have l: "length ole_signature < 9" "length zip_signature < 9"
    by (simp_all add: ole_signature_def zip_signature_def)
  have w: "take 4 (drop 8 (take n s)) = take 4 (drop 8 s)" "take 8 (drop 4 (take n s)) = take 8 (drop 4 s)"
    using assms by (simp_all add: take_drop_take)
  have d: "length ''ID3'' < 9" "length ''RIFF'' < 9" "length ''%PDF-'' < 9" "length ''AT&TFORM'' < 9"
    "length [CHR 0xFF, CHR 0xD8, CHR 0xFF] < 9" "length [CHR 0xFF, CHR 0xFB] < 9"
    "length [CHR 0xFF, CHR 0xF3] < 9" "length [CHR 0xFF, CHR 0xF2] < 9"
    "length ([CHR 0x89] @ ''PNG'' @ [CHR 0x0D, CHR 0x0A, CHR 0x1A, CHR 0x0A]) < 9"
    by simp_all
  show ?thesis
    unfolding check_content_def w s [OF l(1)] s [OF l(2)] s [OF d(1)] s [OF d(2)] s [OF d(3)] s [OF d(4)]
      s [OF d(5)] s [OF d(6)] s [OF d(7)] s [OF d(8)] s [OF d(9)] ..
qed

lemma validate_file_signature_header:
  "12 \<le> n \<Longrightarrow> validate_file_signature pr ext (take n s) stored = validate_file_signature pr ext s stored"
  by (simp add: validate_file_signature_def check_content_header)

lemma validate_file_signatureD:
  assumes "validate_file_signature pr ext h stored = Inr (kind, mime)"
  shows "ext \<in> set ALLOWED_EXTENSIONS" "check_content pr ext h stored = Inr ()"
    "kind = detect_file_kind ext" "mime = detect_mime_type ext"
  using assms by (auto simp: validate_file_signature_def split: if_splits sum.splits)

text \<open>Whatever is refused is refused as invalid, never with another error.\<close>

definition only_invalid :: "'a res \<Rightarrow> bool" where
  "only_invalid r = (case r of Inl (ValidationAppError _) \<Rightarrow> True | Inl _ \<Rightarrow> False | Inr _ \<Rightarrow> True)"

lemma only_invalid_simps:
  "only_invalid (Inr x)" "only_invalid (Inl (ValidationAppError m))" "only_invalid (signature_error k)"
  by (simp_all add: only_invalid_def signature_error_def)

lemma only_invalidD: "only_invalid r \<Longrightarrow> r = Inl e \<Longrightarrow> \<exists>m. e = ValidationAppError m"
  by (cases e) (simp_all add: only_invalid_def)

lemma only_invalid_archive: "only_invalid (validate_archive pr s ms a d)"
  by (simp add: validate_archive_def only_invalid_def split: option.split)

lemma only_invalid_documents:
  "only_invalid (validate_docx_archive pr s)" "only_invalid (validate_pptx_archive pr s)"
  "only_invalid (validate_xlsx_archive pr s)" "only_invalid (validate_epub_archive pr s)"
  "only_invalid (validate_ipynb_json pr s)" "only_invalid (validate_txt_utf8 s)"
  by (simp_all add: validate_docx_archive_def validate_pptx_archive_def validate_xlsx_archive_def
      validate_epub_archive_def only_invalid_archive)
    (simp_all add: only_invalid_def validate_ipynb_json_def validate_txt_utf8_def
      split: option.split prod.split)

lemma only_invalid_content: "only_invalid (check_content pr ext h s)"
  by (simp only: check_content_def if_distrib [of only_invalid] only_invalid_simps
      only_invalid_documents if_cancel)

lemma validate_file_signature_error:
  assumes "validate_file_signature pr ext h s = Inl e"
  shows "\<exists>m. e = ValidationAppError m"
proof (cases "check_content pr ext h s")
  case (Inl e')
  with only_invalidD [OF only_invalid_content] obtain m where "e' = ValidationAppError m" by blast
  with Inl assms show ?thesis by (auto simp: validate_file_signature_def split: if_splits)
qed (use assms in \<open>auto simp: validate_file_signature_def split: if_splits\<close>)

lemma validate_file_signature_Inr:
  "validate_file_signature pr ext h s = Inr km \<longleftrightarrow>
     ext \<in> set ALLOWED_EXTENSIONS \<and> check_content pr ext h s = Inr () \<and>
     km = (detect_file_kind ext, detect_mime_type ext)"
  by (cases "check_content pr ext h s") (auto simp: validate_file_signature_def)

end
