(* ===== verification/Storage.thy ===== *)
theory Storage
  imports Files World
begin

text \<open>
  \<^verbatim>\<open>app/infrastructure/storage/service.py\<close>: where uploaded files are kept. The objects a
  provider holds are a map from storage keys to contents: the files under the root of the
  local provider, the objects of the bucket of the Spaces provider. The S3 client is a
  parameter. The interface the material service relies on is the locale \<open>storage_provider\<close>,
  which both providers satisfy.
\<close>

type_synonym objects = "string \<Rightarrow> string option"

record upload =
  uf_filename :: "string option"
  uf_content :: string

record stored_file =
  sf_storage_key :: string
  sf_file_size :: int
  sf_checksum_hash :: string
  sf_file_kind :: file_kind
  sf_mime_type :: string
  sf_file_ext :: string

record storage_download =
  sd_local_path :: "string option"
  sd_redirect_url :: "string option"
  sd_filename :: "string option"
  sd_disposition :: string

text \<open>BaseStorageProvider; the fourth argument of save is the value of uuid4.\<close>

record provider =
  pv_save :: "upload \<Rightarrow> string \<Rightarrow> int \<Rightarrow> string \<Rightarrow> objects \<Rightarrow> stored_file res \<times> objects"
  pv_save_bytes :: "string \<Rightarrow> string \<Rightarrow> string option \<Rightarrow> objects \<Rightarrow> unit res \<times> objects"
  pv_delete :: "string \<Rightarrow> objects \<Rightarrow> unit res \<times> objects"
  pv_resolve_for_download :: "string \<Rightarrow> string option \<Rightarrow> string \<Rightarrow> objects \<Rightarrow> storage_download res"
  pv_exists :: "string \<Rightarrow> objects \<Rightarrow> bool"
  pv_read_bytes :: "string \<Rightarrow> objects \<Rightarrow> string res"

section \<open>Receiving an upload\<close>

definition READ_CHUNK_SIZE :: nat where "READ_CHUNK_SIZE = 1048576"
definition SIGNATURE_BUFFER_SIZE :: nat where "SIGNATURE_BUFFER_SIZE = 4096"

definition upload_extension :: "upload \<Rightarrow> string" where
  "upload_extension f = get_extension (case uf_filename f of None \<Rightarrow> [] | Some n \<Rightarrow> n)"

definition upload_storage_key :: "upload \<Rightarrow> string \<Rightarrow> string \<Rightarrow> string" where
  "upload_storage_key f material_id u =
     (let extension = upload_extension f;
          filename = (if extension \<noteq> [] then u @ ''.'' @ extension else u)
      in ''materials/'' @ material_id @ ''/'' @ filename)"

text \<open>The while loop: the total and the header read so far; what is left to read; what is written.\<close>

function receive_loop :: "int \<Rightarrow> int \<Rightarrow> string \<Rightarrow> string \<Rightarrow> string \<Rightarrow> (int \<times> string \<times> string) res" where
  "receive_loop max_file_size so_far header written rest =
     (let chunk = take READ_CHUNK_SIZE rest in
      if chunk = [] then Inr (so_far, header, written)
      else let total_size = so_far + int (length chunk) in
        if total_size > max_file_size then Inl (ValidationAppError ''File too large'')
        else receive_loop max_file_size total_size
               (if length header < SIGNATURE_BUFFER_SIZE
                then header @ take (SIGNATURE_BUFFER_SIZE - length header) chunk else header)
               (written @ chunk) (drop READ_CHUNK_SIZE rest))"
  by pat_completeness auto
termination
  by (relation "measure (\<lambda>(_, _, _, _, rest). length rest)") (auto simp: READ_CHUNK_SIZE_def)

declare receive_loop.simps [simp del]

section \<open>The local provider\<close>

definition local_save ::
  "parsers \<Rightarrow> upload \<Rightarrow> string \<Rightarrow> int \<Rightarrow> string \<Rightarrow> objects \<Rightarrow> stored_file res \<times> objects"
where
  "local_save pr f material_id max_file_size u obs =
     (let extension = upload_extension f;
          storage_key = upload_storage_key f material_id u
      in case receive_loop max_file_size 0 [] [] (uf_content f) of
           Inl e \<Rightarrow> (Inl e, obs(storage_key := None))
         | Inr (total_size, header, written) \<Rightarrow>
             (let obs1 = obs(storage_key \<mapsto> written) in
              if total_size = 0
              then (Inl (ValidationAppError ''Empty file is not allowed''), obs1(storage_key := None))
              else (case validate_file_signature pr extension header written of
                      Inl e \<Rightarrow> (Inl e, obs1(storage_key := None))
                    | Inr (file_kind, mime_type) \<Rightarrow>
                        (Inr \<lparr>sf_storage_key = storage_key, sf_file_size = total_size,
                              sf_checksum_hash = sha256_bytes pr written, sf_file_kind = file_kind,
                              sf_mime_type = mime_type, sf_file_ext = extension\<rparr>, obs1))))"

definition local_resolve_for_download ::
  "settings \<Rightarrow> string \<Rightarrow> string option \<Rightarrow> string \<Rightarrow> objects \<Rightarrow> storage_download res"
where
  "local_resolve_for_download st key filename disposition obs =
     (if obs key = None then Inl (ResourceNotFound ''File not found in storage'')
      else Inr \<lparr>sd_local_path = Some (storage_root st @ ''/'' @ key), sd_redirect_url = None,
                sd_filename = filename, sd_disposition = disposition\<rparr>)"

definition local_read_bytes :: "string \<Rightarrow> objects \<Rightarrow> string res" where
  "local_read_bytes key obs =
     (case obs key of
        None \<Rightarrow> Inl (ResourceNotFound ''File not found in storage'') | Some b \<Rightarrow> Inr b)"

definition local_provider :: "parsers \<Rightarrow> settings \<Rightarrow> provider" where
  "local_provider pr st =
     \<lparr>pv_save = local_save pr,
      pv_save_bytes = (\<lambda>content key _ obs. (Inr (), obs(key \<mapsto> content))),
      pv_delete = (\<lambda>key obs. (Inr (), if obs key \<noteq> None then obs(key := None) else obs)),
      pv_resolve_for_download = local_resolve_for_download st,
      pv_exists = (\<lambda>key obs. obs key \<noteq> None),
      pv_read_bytes = local_read_bytes\<rparr>"

section \<open>The Spaces provider\<close>

text \<open>
  The boto3 client on a bucket. A call that fails with ClientError, BotoCoreError or
  S3UploadFailedError is None and leaves the bucket as it was.
\<close>

record s3_client =
  upload_file :: "string \<Rightarrow> string \<Rightarrow> string \<Rightarrow> string \<Rightarrow> objects \<Rightarrow> objects option"
  put_object :: "string \<Rightarrow> string \<Rightarrow> string \<Rightarrow> string \<Rightarrow> objects \<Rightarrow> objects option"
  delete_object :: "string \<Rightarrow> string \<Rightarrow> objects \<Rightarrow> objects option"
  generate_presigned_url :: "string \<Rightarrow> string \<Rightarrow> string \<Rightarrow> int \<Rightarrow> string option"
  head_object :: "string \<Rightarrow> string \<Rightarrow> objects \<Rightarrow> bool"
  get_object :: "string \<Rightarrow> string \<Rightarrow> objects \<Rightarrow> string option"

definition s3_laws :: "s3_client \<Rightarrow> bool" where
  "s3_laws c \<longleftrightarrow>
     (\<forall>content bucket key ty obs obs'. upload_file c content bucket key ty obs = Some obs' \<longrightarrow>
        obs' = obs(key \<mapsto> content)) \<and>
     (\<forall>content bucket key ty obs obs'. put_object c bucket key content ty obs = Some obs' \<longrightarrow>
        obs' = obs(key \<mapsto> content)) \<and>
     (\<forall>bucket key obs obs'. delete_object c bucket key obs = Some obs' \<longrightarrow> obs' = obs(key := None)) \<and>
     (\<forall>bucket key obs. head_object c bucket key obs \<longrightarrow> obs key \<noteq> None) \<and>
     (\<forall>bucket key obs b. get_object c bucket key obs = Some b \<longrightarrow> obs key = Some b)"

text \<open>urllib.parse.quote: the bytes of the UTF-8 encoding, percent-encoded unless unreserved.\<close>

definition utf8_char :: "char \<Rightarrow> nat list" where
  "utf8_char c = (let n = of_char c in if n < 128 then [n] else [192 + n div 64, 128 + n mod 64])"

definition hex_digit :: "nat \<Rightarrow> char" where
  "hex_digit n = (if n < 10 then char_of (48 + n) else char_of (55 + n))"

definition quote_byte :: "nat \<Rightarrow> string" where
  "quote_byte n =
     (let c = (char_of n :: char) in
      if is_alpha c \<or> is_digit c \<or> c \<in> set ''_.-~/'' then [c]
      else [CHR ''%'', hex_digit (n div 16), hex_digit (n mod 16)])"

definition quote :: "string \<Rightarrow> string" where
  "quote s = concat (map quote_byte (concat (map utf8_char s)))"

definition spaces_save ::
  "parsers \<Rightarrow> s3_client \<Rightarrow> string \<Rightarrow> upload \<Rightarrow> string \<Rightarrow> int \<Rightarrow> string \<Rightarrow> objects \<Rightarrow>
   stored_file res \<times> objects"
where
  "spaces_save pr c bucket f material_id max_file_size u obs =
     (let extension = upload_extension f;
          storage_key = upload_storage_key f material_id u
      in case receive_loop max_file_size 0 [] [] (uf_content f) of
           Inl e \<Rightarrow> (Inl e, obs)
         | Inr (total_size, header, written) \<Rightarrow>
             (if total_size = 0 then (Inl (ValidationAppError ''Empty file is not allowed''), obs)
              else (case validate_file_signature pr extension header written of
                      Inl e \<Rightarrow> (Inl e, obs)
                    | Inr (file_kind, mime_type) \<Rightarrow>
                        (case upload_file c written bucket storage_key mime_type obs of
                           None \<Rightarrow> (Inl (StorageError ''upload_file''), obs)
                         | Some obs' \<Rightarrow>
                             (Inr \<lparr>sf_storage_key = storage_key, sf_file_size = total_size,
                                   sf_checksum_hash = sha256_bytes pr written, sf_file_kind = file_kind,
                                   sf_mime_type = mime_type, sf_file_ext = extension\<rparr>, obs')))))"

definition spaces_resolve_for_download ::
  "settings \<Rightarrow> s3_client \<Rightarrow> string \<Rightarrow> string \<Rightarrow> string option \<Rightarrow> string \<Rightarrow> storage_download res"
where
  "spaces_resolve_for_download st c bucket key filename disposition =
     (let content_disposition =
            (if truthy filename
             then disposition @ ''; filename*=UTF-8'' @ [CHR 0x27, CHR 0x27] @ quote (the filename)
             else disposition)
      in case generate_presigned_url c bucket key content_disposition (s3_presigned_expiry_seconds st) of
           None \<Rightarrow> Inl (ResourceNotFound ''File not found in storage'')
         | Some url \<Rightarrow> Inr \<lparr>sd_local_path = None, sd_redirect_url = Some url, sd_filename = filename,
                            sd_disposition = disposition\<rparr>)"

definition spaces_provider :: "parsers \<Rightarrow> s3_client \<Rightarrow> settings \<Rightarrow> string \<Rightarrow> provider" where
  "spaces_provider pr c st bucket =
     \<lparr>pv_save = spaces_save pr c bucket,
      pv_save_bytes = (\<lambda>content key content_type obs.
        case put_object c bucket key content
               (if truthy content_type then the content_type else ''application/octet-stream'') obs of
          None \<Rightarrow> (Inl (StorageError ''put_object''), obs) | Some obs' \<Rightarrow> (Inr (), obs')),
      pv_delete = (\<lambda>key obs.
        case delete_object c bucket key obs of
          None \<Rightarrow> (Inl (StorageError ''delete_object''), obs) | Some obs' \<Rightarrow> (Inr (), obs')),
      pv_resolve_for_download = (\<lambda>key filename disposition _.
        spaces_resolve_for_download st c bucket key filename disposition),
      pv_exists = head_object c bucket,
      pv_read_bytes = (\<lambda>key obs.
        case get_object c bucket key obs of
          None \<Rightarrow> Inl (ResourceNotFound ''File not found in storage'') | Some b \<Rightarrow> Inr b)\<rparr>"

section \<open>The service\<close>

definition storage_service :: "parsers \<Rightarrow> s3_client \<Rightarrow> settings \<Rightarrow> provider res" where
  "storage_service pr c st =
     (if lower (storage_backend st) = ''s3''
      then (let required = [(''s3_bucket'', s3_bucket st), (''s3_region'', s3_region st),
                            (''s3_endpoint_url'', s3_endpoint_url st),
                            (''s3_access_key_id'', s3_access_key_id st),
                            (''s3_secret_access_key'', s3_secret_access_key st)];
                missing = map fst (filter (\<lambda>(_, v). \<not> truthy v) required)
            in if missing \<noteq> []
               then Inl (RuntimeError (''S3 storage is not fully configured: '' @ join '', '' missing))
               else Inr (spaces_provider pr c st (the (s3_bucket st))))
      else Inr (local_provider pr st))"

text \<open>A max_file_size of None or zero is the configured limit.\<close>

definition service_save ::
  "settings \<Rightarrow> provider \<Rightarrow> upload \<Rightarrow> string \<Rightarrow> int option \<Rightarrow> string \<Rightarrow> objects \<Rightarrow> stored_file res \<times> objects"
where
  "service_save st sp f material_id max_file_size u obs =
     pv_save sp f material_id
       (case max_file_size of None \<Rightarrow> upload_max_file_size st
        | Some n \<Rightarrow> if n = 0 then upload_max_file_size st else n) u obs"

fun delete_many :: "provider \<Rightarrow> string list \<Rightarrow> objects \<Rightarrow> unit res \<times> objects" where
  "delete_many sp [] obs = (Inr (), obs)"
| "delete_many sp (key # keys) obs =
     (case pv_delete sp key obs of
        (Inl e, obs') \<Rightarrow> (Inl e, obs')
      | (Inr _, obs') \<Rightarrow> delete_many sp keys obs')"

section \<open>What an upload becomes\<close>

lemma receive_step:
  "\<not> mx < t + int (length A) \<Longrightarrow>
    (if B \<noteq> [] \<and> mx < t + int (length A) + int (length B) then e
     else Inr (t + int (length A) + int (length B), take n ((w @ A) @ B), (w @ A) @ B)) =
    (if A @ B \<noteq> [] \<and> mx < t + int (length (A @ B)) then e
     else Inr (t + int (length (A @ B)), take n (w @ A @ B), w @ A @ B))"
  by (cases "B = []") (simp_all add: add.assoc)

lemma receive_loop_eq:
  assumes "header = take SIGNATURE_BUFFER_SIZE written"
  shows "receive_loop mx so_far header written rest =
    (if rest \<noteq> [] \<and> mx < so_far + int (length rest) then Inl (ValidationAppError ''File too large'')
     else Inr (so_far + int (length rest), take SIGNATURE_BUFFER_SIZE (written @ rest), written @ rest))"
  using assms
proof (induction mx so_far header written rest rule: receive_loop.induct)
  case (1 mx so_far header written rest)
  let ?chunk = "take READ_CHUNK_SIZE rest"
  show ?case
  proof (cases "rest = []")
    case True
    with 1 show ?thesis by (subst receive_loop.simps) simp
  next
    case False
    then have chunk: "?chunk \<noteq> []" by (simp add: READ_CHUNK_SIZE_def)
    have len: "int (length rest) = int (length ?chunk) + int (length (drop READ_CHUNK_SIZE rest))"
      by (metis append_take_drop_id length_append of_nat_add)
    show ?thesis
    proof (cases "mx < so_far + int (length ?chunk)")
      case True
      with False chunk len show ?thesis by (subst receive_loop.simps) (simp add: Let_def)
    next
      case fits: False
      let ?h = "if length header < SIGNATURE_BUFFER_SIZE
        then header @ take (SIGNATURE_BUFFER_SIZE - length header) ?chunk else header"
      have h: "?h = take SIGNATURE_BUFFER_SIZE (written @ ?chunk)"
        using "1.prems" by (auto simp: min_def)
      have "receive_loop mx so_far header written rest =
          receive_loop mx (so_far + int (length ?chunk)) ?h (written @ ?chunk) (drop READ_CHUNK_SIZE rest)"
        using chunk fits by (subst receive_loop.simps) (simp add: Let_def)
      also have "\<dots> = (if drop READ_CHUNK_SIZE rest \<noteq> [] \<and>
            mx < so_far + int (length ?chunk) + int (length (drop READ_CHUNK_SIZE rest))
          then Inl (ValidationAppError ''File too large'')
          else Inr (so_far + int (length ?chunk) + int (length (drop READ_CHUNK_SIZE rest)),
            take SIGNATURE_BUFFER_SIZE ((written @ ?chunk) @ drop READ_CHUNK_SIZE rest),
            (written @ ?chunk) @ drop READ_CHUNK_SIZE rest))"
        using "1.IH" [OF refl chunk refl fits h] .
      finally show ?thesis
        unfolding receive_step [OF fits] append_take_drop_id .
    qed
  qed
qed

lemma receive_all:
  "receive_loop mx 0 [] [] content =
    (if content \<noteq> [] \<and> mx < int (length content) then Inl (ValidationAppError ''File too large'')
     else Inr (int (length content), take SIGNATURE_BUFFER_SIZE content, content))"
  by (simp add: receive_loop_eq)

text \<open>The uploads a provider accepts: not empty, within the limit, and what their extension says.\<close>

definition acceptable :: "parsers \<Rightarrow> int \<Rightarrow> upload \<Rightarrow> bool" where
  "acceptable pr mx f \<longleftrightarrow> uf_content f \<noteq> [] \<and> int (length (uf_content f)) \<le> mx \<and>
     upload_extension f \<in> set ALLOWED_EXTENSIONS \<and>
     check_content pr (upload_extension f) (uf_content f) (uf_content f) = Inr ()"

definition stored_as :: "parsers \<Rightarrow> upload \<Rightarrow> string \<Rightarrow> string \<Rightarrow> stored_file" where
  "stored_as pr f material_id u =
     \<lparr>sf_storage_key = upload_storage_key f material_id u, sf_file_size = int (length (uf_content f)),
      sf_checksum_hash = sha256_bytes pr (uf_content f),
      sf_file_kind = detect_file_kind (upload_extension f),
      sf_mime_type = detect_mime_type (upload_extension f), sf_file_ext = upload_extension f\<rparr>"

lemma header_enough:
  "check_content pr ext (take SIGNATURE_BUFFER_SIZE s) stored = check_content pr ext s stored"
  by (rule check_content_header) (simp add: SIGNATURE_BUFFER_SIZE_def)

lemma local_save_cases:
  obtains (accepted) "acceptable pr mx f"
      "local_save pr f mid mx u obs =
        (Inr (stored_as pr f mid u), obs(upload_storage_key f mid u \<mapsto> uf_content f))"
  | (refused) e where "\<not> acceptable pr mx f"
      "local_save pr f mid mx u obs = (Inl (ValidationAppError e), obs(upload_storage_key f mid u := None))"
proof (cases "acceptable pr mx f")
  case True
  then have "local_save pr f mid mx u obs =
      (Inr (stored_as pr f mid u), obs(upload_storage_key f mid u \<mapsto> uf_content f))"
    by (simp add: acceptable_def local_save_def receive_all Let_def validate_file_signature_def
        header_enough stored_as_def not_less)
  with True show ?thesis by (rule accepted)
next
  case False
  have "\<exists>e. local_save pr f mid mx u obs =
      (Inl (ValidationAppError e), obs(upload_storage_key f mid u := None))"
  proof (cases "uf_content f = [] \<or> mx < int (length (uf_content f))")
    case True
    then show ?thesis by (auto simp: local_save_def receive_all)
  next
    case sized: False
    let ?v = "validate_file_signature pr (upload_extension f)
      (take SIGNATURE_BUFFER_SIZE (uf_content f)) (uf_content f)"
    have "\<not> is_ok ?v"
      using False sized by (auto simp: is_ok_iff validate_file_signature_Inr header_enough acceptable_def)
    then obtain e where e: "?v = Inl e" by (cases ?v) auto
    then obtain m where "e = ValidationAppError m" using validate_file_signature_error by blast
    with e sized show ?thesis by (simp add: local_save_def receive_all Let_def)
  qed
  with False refused show ?thesis by blast
qed

section \<open>The interface of the providers\<close>

text \<open>
  What the services rely on: a save that returns stored the whole of an acceptable file
  under the new key; one that raises left nothing of it; deletions and single objects touch
  their key only.
\<close>

locale storage_provider =
  fixes sp :: provider and pr :: parsers
  assumes save_ok: "pv_save sp f mid mx u obs = (Inr sf, obs') \<Longrightarrow>
      acceptable pr mx f \<and> sf = stored_as pr f mid u \<and>
      obs' = obs(upload_storage_key f mid u \<mapsto> uf_content f)"
    and save_error: "pv_save sp f mid mx u obs = (Inl e, obs') \<Longrightarrow>
      obs' = obs \<or> obs' = obs(upload_storage_key f mid u := None)"
    and delete_ok: "pv_delete sp k obs = (Inr r, obs') \<Longrightarrow> obs' = obs(k := None)"
    and delete_error: "pv_delete sp k obs = (Inl e, obs') \<Longrightarrow> obs' = obs"
    and bytes_ok: "pv_save_bytes sp content k ty obs = (Inr r, obs') \<Longrightarrow> obs' = obs(k \<mapsto> content)"
    and bytes_error: "pv_save_bytes sp content k ty obs = (Inl e, obs') \<Longrightarrow> obs' = obs"
    and exists: "pv_exists sp k obs \<Longrightarrow> obs k \<noteq> None"
    and read: "pv_read_bytes sp k obs = Inr b \<Longrightarrow> obs k = Some b"
begin

lemma save_keeps:
  assumes "pv_save sp f mid mx u obs = (r, obs')" "k \<noteq> upload_storage_key f mid u"
  shows "obs' k = obs k"
proof (cases r)
  case (Inl e)
  with save_error assms show ?thesis by (metis fun_upd_other)
next
  case (Inr sf)
  with save_ok assms show ?thesis by (metis fun_upd_other)
qed

lemma saved_content:
  "pv_save sp f mid mx u obs = (Inr sf, obs') \<Longrightarrow> obs' (sf_storage_key sf) = Some (uf_content f)"
  by (drule save_ok) (simp add: stored_as_def)

lemma delete_many_ok:
  "delete_many sp ks obs = (Inr r, obs') \<Longrightarrow> obs' = obs |` (- set ks)"
proof (induction ks arbitrary: obs)
  case Nil
  then show ?case by (simp add: restrict_map_def)
next
  case (Cons k ks)
  obtain d obs1 where d: "pv_delete sp k obs = (d, obs1)" by fastforce
  with Cons.prems obtain r' where r': "d = Inr r'" by (cases d) simp_all
  with Cons d have "obs' = obs1 |` (- set ks)" by simp
  moreover have "obs1 = obs(k := None)" using delete_ok d r' by blast
  ultimately show ?case by (auto simp: restrict_map_def)
qed

lemma delete_many_keeps:
  "delete_many sp ks obs = (r, obs') \<Longrightarrow> k \<notin> set ks \<Longrightarrow> obs' k = obs k"
proof (induction ks arbitrary: obs)
  case (Cons k' ks)
  obtain d obs1 where d: "pv_delete sp k' obs = (d, obs1)" by fastforce
  then have "obs1 = obs \<or> obs1 = obs(k' := None)"
    using delete_ok [where k = k'] delete_error [where k = k'] by (cases d) blast+
  with Cons d show ?case by (cases d) auto
qed simp

end

interpretation local_storage: storage_provider "local_provider pr st" pr
proof
  fix f mid mx u obs sf obs'
  assume "pv_save (local_provider pr st) f mid mx u obs = (Inr sf, obs')"
  then show "acceptable pr mx f \<and> sf = stored_as pr f mid u \<and>
      obs' = obs(upload_storage_key f mid u \<mapsto> uf_content f)"
    by (cases rule: local_save_cases [of pr mx f mid u obs]) (auto simp: local_provider_def)
next
  fix f mid mx u obs e obs'
  assume "pv_save (local_provider pr st) f mid mx u obs = (Inl e, obs')"
  then show "obs' = obs \<or> obs' = obs(upload_storage_key f mid u := None)"
    by (cases rule: local_save_cases [of pr mx f mid u obs]) (auto simp: local_provider_def)
qed (auto simp: local_provider_def local_read_bytes_def split: if_splits option.splits)

lemma spaces_save_cases:
  assumes "s3_laws c"
  obtains (accepted) "acceptable pr mx f"
      "spaces_save pr c b f mid mx u obs =
        (Inr (stored_as pr f mid u), obs(upload_storage_key f mid u \<mapsto> uf_content f))"
  | (failed) e where "acceptable pr mx f" "spaces_save pr c b f mid mx u obs = (Inl (StorageError e), obs)"
  | (refused) e where "\<not> acceptable pr mx f"
      "spaces_save pr c b f mid mx u obs = (Inl (ValidationAppError e), obs)"
proof (cases "acceptable pr mx f")
  case True
  let ?up = "upload_file c (uf_content f) b (upload_storage_key f mid u)
    (detect_mime_type (upload_extension f)) obs"
  have s: "spaces_save pr c b f mid mx u obs =
      (case ?up of None \<Rightarrow> (Inl (StorageError ''upload_file''), obs)
       | Some obs' \<Rightarrow> (Inr (stored_as pr f mid u), obs'))"
    using True by (simp add: acceptable_def spaces_save_def receive_all Let_def
        validate_file_signature_def header_enough stored_as_def not_less split: option.split)
  show ?thesis
  proof (cases ?up)
    case None
    with s True failed show ?thesis by simp
  next
    case (Some obs')
    with assms have "obs' = obs(upload_storage_key f mid u \<mapsto> uf_content f)"
      by (simp add: s3_laws_def)
    with Some s True accepted show ?thesis by simp
  qed
next
  case False
  have "\<exists>e. spaces_save pr c b f mid mx u obs = (Inl (ValidationAppError e), obs)"
  proof (cases "uf_content f = [] \<or> mx < int (length (uf_content f))")
    case True
    then show ?thesis by (auto simp: spaces_save_def receive_all)
  next
    case sized: False
    let ?v = "validate_file_signature pr (upload_extension f)
      (take SIGNATURE_BUFFER_SIZE (uf_content f)) (uf_content f)"
    have "\<not> is_ok ?v"
      using False sized by (auto simp: is_ok_iff validate_file_signature_Inr header_enough acceptable_def)
    then obtain e where e: "?v = Inl e" by (cases ?v) auto
    then obtain m where "e = ValidationAppError m" using validate_file_signature_error by blast
    with e sized show ?thesis by (simp add: spaces_save_def receive_all Let_def)
  qed
  with False refused show ?thesis by blast
qed

lemma spaces_storage_provider:
  assumes "s3_laws c" shows "storage_provider (spaces_provider pr c st bucket) pr"
proof
  fix f mid mx u obs sf obs'
  assume "pv_save (spaces_provider pr c st bucket) f mid mx u obs = (Inr sf, obs')"
  then show "acceptable pr mx f \<and> sf = stored_as pr f mid u \<and>
      obs' = obs(upload_storage_key f mid u \<mapsto> uf_content f)"
    by (cases rule: spaces_save_cases [OF assms, of pr mx f bucket mid u obs])
      (auto simp: spaces_provider_def)
next
  fix f mid mx u obs e obs'
  assume "pv_save (spaces_provider pr c st bucket) f mid mx u obs = (Inl e, obs')"
  then show "obs' = obs \<or> obs' = obs(upload_storage_key f mid u := None)"
    by (cases rule: spaces_save_cases [OF assms, of pr mx f bucket mid u obs])
      (auto simp: spaces_provider_def)
qed (use assms in \<open>auto simp: spaces_provider_def s3_laws_def split: option.splits\<close>)

text \<open>The service's provider satisfies the interface whichever backend is configured.\<close>

lemma service_storage_provider:
  "s3_laws c \<Longrightarrow> storage_service pr c st = Inr sp \<Longrightarrow> storage_provider sp pr"
  by (auto simp: storage_service_def Let_def spaces_storage_provider
      intro: local_storage.storage_provider_axioms split: if_splits)

text \<open>
  C27. An upload is stored, whole and under its new key, exactly when it is not empty, within
  the size limit and its content is what its extension says; anything else is refused as
  invalid and leaves nothing behind, on the local provider and in the bucket, where only a
  failing upload to the bucket can prevent it, without a trace either.
\<close>

theorem upload_stored_iff_acceptable:
  assumes "s3_laws c"
  shows "(\<exists>e. service_save st (local_provider pr st) f mid None u obs =
      (if acceptable pr (upload_max_file_size st) f
       then (Inr (stored_as pr f mid u), obs(upload_storage_key f mid u \<mapsto> uf_content f))
       else (Inl (ValidationAppError e), obs(upload_storage_key f mid u := None)))) \<and>
    (\<exists>e. service_save st (spaces_provider pr c st b) f mid None u obs =
      (if acceptable pr (upload_max_file_size st) f
       then (Inr (stored_as pr f mid u), obs(upload_storage_key f mid u \<mapsto> uf_content f))
       else (Inl (ValidationAppError e), obs)) \<or>
    acceptable pr (upload_max_file_size st) f \<and>
    service_save st (spaces_provider pr c st b) f mid None u obs = (Inl (StorageError e), obs))"
    (is "?local \<and> ?spaces")
proof
  show ?local
    by (cases rule: local_save_cases [of pr "upload_max_file_size st" f mid u obs])
      (auto simp: service_save_def local_provider_def)
  show ?spaces
    by (cases rule: spaces_save_cases [OF assms, of pr "upload_max_file_size st" f b mid u obs])
      (auto simp: service_save_def spaces_provider_def)
qed

text \<open>A bucket that never fails, parsers that accept every archive, and a small text file.\<close>

definition reference_s3 :: s3_client where
  "reference_s3 =
     \<lparr>upload_file = (\<lambda>content _ key _ obs. Some (obs(key \<mapsto> content))),
      put_object = (\<lambda>_ key content _ obs. Some (obs(key \<mapsto> content))),
      delete_object = (\<lambda>_ key obs. Some (obs(key := None))),
      generate_presigned_url = (\<lambda>bucket key _ _. Some (''https://'' @ bucket @ ''/'' @ key)),
      head_object = (\<lambda>_ key obs. obs key \<noteq> None), get_object = (\<lambda>_ key obs. obs key)\<rparr>"

definition reference_parsers :: parsers where
  "reference_parsers =
     \<lparr>zip_namelist = (\<lambda>_. Some []), json_load_keys = (\<lambda>_. Some (Some [''cells'', ''metadata''])),
      pdf_pages = (\<lambda>_. Some 3), pdf_first_pages = (\<lambda>_ s. s), sha256_bytes = (\<lambda>s. s)\<rparr>"

definition sample_upload :: upload where
  "sample_upload = \<lparr>uf_filename = Some ''notes.txt'', uf_content = ''hello''\<rparr>"

lemma reference_s3_laws: "s3_laws reference_s3"
  by (simp add: s3_laws_def reference_s3_def)

lemma sample_upload_acceptable:
  "acceptable reference_parsers (upload_max_file_size default_settings) sample_upload"
  by code_simp

lemma upload_stored_iff_acceptable_witness:
  "service_save default_settings (local_provider reference_parsers default_settings)
       sample_upload ''m1'' None ''u1'' (\<lambda>_. None) =
     (Inr (stored_as reference_parsers sample_upload ''m1'' ''u1''),
      [upload_storage_key sample_upload ''m1'' ''u1'' \<mapsto> ''hello''])"
  using conjunct1 [OF upload_stored_iff_acceptable [OF reference_s3_laws,
      of default_settings reference_parsers sample_upload "''m1''" "''u1''" "\<lambda>_. None"]]
    sample_upload_acceptable
  by (simp add: sample_upload_def)

end
