(* ===== verification/Materials.thy ===== *)
theory Materials
  imports Storage TelegramEvents Slug
begin

text \<open>
  The operations of \<^verbatim>\<open>app/modules/materials/service.py\<close> that change a material: drafts, files,
  submission, withdrawal, edits, deletion, tags, and reports. Only the owner may change a
  material, one that waits for review cannot be edited, and an edit of an approved one sends
  it back to review.

  \<open>sp\<close> is the storage provider and \<open>pr\<close> the parsers of \<^theory_text>\<open>Files\<close>; \<open>ids\<close> numbers the random
  identifiers of a request in the order of the definitions below.
\<close>

section \<open>Slugs that are free\<close>

text \<open>The while loop of \<open>_generate_unique_slug\<close>, over the slugs that the table holds.\<close>

definition numbered_slug :: "string \<Rightarrow> nat \<Rightarrow> string" where
  "numbered_slug base_slug n = base_slug @ ''-'' @ str_int (int n)"

lemma numbered_slug_inj: "numbered_slug b i = numbered_slug b j \<longleftrightarrow> i = j"
  by (simp add: numbered_slug_def)

lemma finite_numbered: "finite {k. s \<le> k \<and> numbered_slug b k \<in> set used}"
proof (rule finite_subset)
  show "{k. s \<le> k \<and> numbered_slug b k \<in> set used} \<subseteq> numbered_slug b -` set used" by auto
  show "finite (numbered_slug b -` set used)"
    by (rule finite_vimageI) (simp_all add: inj_def numbered_slug_inj)
qed

function free_slug :: "string list \<Rightarrow> string \<Rightarrow> nat \<Rightarrow> string \<Rightarrow> string" where
  "free_slug used base_slug n slug =
     (if slug \<in> set used
      then free_slug used base_slug (n + 1) (numbered_slug base_slug n)
      else slug)"
  by pat_completeness auto
termination
proof (relation "measure (\<lambda>(used, b, s, slug).
    card {k. s \<le> k \<and> numbered_slug b k \<in> set used} + (if slug \<in> set used then 1 else 0))")
  fix used :: "string list" and b slug :: string and s :: nat
  assume slug: "slug \<in> set used"
  let ?K = "\<lambda>s. {k. s \<le> k \<and> numbered_slug b k \<in> set used}"
  have "?K s = ?K (s + 1) \<union> (if numbered_slug b s \<in> set used then {s} else {})"
    by (auto simp: Suc_le_eq order_le_less)
  moreover have "s \<notin> ?K (s + 1)" by simp
  ultimately have "card (?K s) = card (?K (s + 1)) + (if numbered_slug b s \<in> set used then 1 else 0)"
    using finite_numbered [of "s + 1" b used] by auto
  with slug show "((used, b, s + 1, numbered_slug b s), used, b, s, slug) \<in> measure (\<lambda>(used, b, s, slug).
    card {k. s \<le> k \<and> numbered_slug b k \<in> set used} + (if slug \<in> set used then 1 else 0))"
    by simp
qed simp

declare free_slug.simps [simp del]

definition generate_unique_slug :: "externals \<Rightarrow> string \<Rightarrow> world \<Rightarrow> string" where
  "generate_unique_slug x title w =
     (let base_slug = slugify x title
      in free_slug (map m_slug (db_materials w)) base_slug 2 base_slug)"

section \<open>Rows\<close>

definition files_of :: "string \<Rightarrow> world \<Rightarrow> material_file list" where
  "files_of mid w = order_by mf_file_order (filter (\<lambda>f. mf_material_id f = mid) (db_material_files w))"

definition get_file :: "string \<Rightarrow> world \<Rightarrow> material_file option" where
  "get_file i w = find (\<lambda>f. mf_id f = i) (db_material_files w)"

definition tags_of :: "string \<Rightarrow> world \<Rightarrow> tag list" where
  "tags_of mid w = filter (\<lambda>t. (mid, t_id t) \<in> set (db_material_tags w)) (db_tags w)"

text \<open>The flush of a changed material: the row is written, with a new updated_at, if it differs.\<close>

definition save_material :: "int \<Rightarrow> material \<Rightarrow> world \<Rightarrow> world" where
  "save_material now m w =
     w\<lparr>db_materials := map (\<lambda>r. if m_id r = m_id m
                                then (if r = m then r else m\<lparr>m_updated_at := now\<rparr>) else r)
                          (db_materials w)\<rparr>"

definition log_review ::
  "string \<Rightarrow> int \<Rightarrow> string \<Rightarrow> review_action \<Rightarrow> string \<Rightarrow> string option \<Rightarrow> string option \<Rightarrow> world \<Rightarrow> world"
where
  "log_review i now mid action actor_id note reason w =
     w\<lparr>db_material_review_logs := db_material_review_logs w @
         [\<lparr>rl_id = i, rl_material_id = mid, rl_action = action, rl_actor_id = actor_id,
           rl_note = note, rl_reason = reason, rl_created_at = now\<rparr>]\<rparr>"

definition invalidate_material_caches :: "world \<Rightarrow> world" where
  "invalidate_material_caches w =
     cache_do (CacheInvalidatePrefix ''admin:dashboard_'')
       (cache_do (CacheInvalidate ''materials:trending_ids'')
          (cache_do (CacheInvalidate ''materials:stats_summary'') w))"

text \<open>The end of most operations: commit, invalidate the caches and read the material again.\<close>

definition finish :: "string \<Rightarrow> world \<Rightarrow> material option res \<times> world" where
  "finish mid w = (let w1 = invalidate_material_caches w in ok (get_material mid w1) w1)"

definition get_owned_material :: "string \<Rightarrow> string \<Rightarrow> world \<Rightarrow> material res" where
  "get_owned_material material_id owner_id w =
     (case get_material material_id w of
        None \<Rightarrow> Inl (ResourceNotFound ''Material not found'')
      | Some m \<Rightarrow>
          (if m_deleted_at m \<noteq> None then Inl (ResourceNotFound ''Material not found'')
           else if m_uploaded_by m \<noteq> owner_id
           then Inl (PermissionDenied ''You do not own this material'')
           else Inr m))"

definition ensure_material_is_editable :: "material \<Rightarrow> unit res" where
  "ensure_material_is_editable m =
     (if m_status m = PENDING_REVIEW
      then Inl (ConflictError ''Pending review material must be withdrawn before editing'')
      else Inr ())"

text \<open>The material as the operation goes on with it, and the world with the flushed changes.\<close>

definition mark_material_for_rereview_if_needed ::
  "string \<Rightarrow> int \<Rightarrow> material \<Rightarrow> string \<Rightarrow> world \<Rightarrow> material \<times> world"
where
  "mark_material_for_rereview_if_needed i now m actor_id w =
     (if m_status m \<noteq> APPROVED then (m, w)
      else (let m' = m\<lparr>m_status := PENDING_REVIEW, m_submitted_at := Some now\<rparr>
            in (m', log_review i now (m_id m) ActResubmitted actor_id None None (save_material now m' w))))"

definition ensure_subject :: "string \<Rightarrow> world \<Rightarrow> unit res" where
  "ensure_subject subject_id w =
     (if get_subject subject_id w = None then Inl (ResourceNotFound ''Subject not found'') else Inr ())"

text \<open>The foreign keys of a material row: its subject, and files that exist, of any material.\<close>

definition material_keys_exist :: "material \<Rightarrow> world \<Rightarrow> bool" where
  "material_keys_exist m w \<longleftrightarrow> get_subject (m_subject_id m) w \<noteq> None \<and>
     (case m_cover_file_id m of None \<Rightarrow> True | Some i \<Rightarrow> get_file i w \<noteq> None) \<and>
     (case m_primary_file_id m of None \<Rightarrow> True | Some i \<Rightarrow> get_file i w \<noteq> None)"

section \<open>Drafts\<close>

record material_create =
  mc_title :: string
  mc_description :: "string option"
  mc_material_type :: material_type
  mc_subject_id :: string
  mc_semesters :: "int list"
  mc_cover_file_id :: "string option"
  mc_primary_file_id :: "string option"

definition new_material :: "string \<Rightarrow> int \<Rightarrow> string \<Rightarrow> material_create \<Rightarrow> user \<Rightarrow> material" where
  "new_material i now slug payload user =
     \<lparr>m_id = i, m_title = mc_title payload, m_slug = slug, m_description = mc_description payload,
      m_material_type = mc_material_type payload, m_status = DRAFT,
      m_subject_id = mc_subject_id payload, m_semesters = mc_semesters payload,
      m_uploaded_by = u_id user, m_approved_by = None, m_last_reviewed_by = None,
      m_rejected_reason = None, m_cover_file_id = mc_cover_file_id payload,
      m_primary_file_id = mc_primary_file_id payload, m_file_count = 0, m_total_size = 0,
      m_download_count = 0, m_submitted_at = None, m_reviewed_at = None, m_deleted_at = None,
      m_created_at = now, m_updated_at = now\<rparr>"

definition create_draft ::
  "externals \<Rightarrow> string \<Rightarrow> int \<Rightarrow> material_create \<Rightarrow> user \<Rightarrow> world \<Rightarrow> material option res \<times> world"
where
  "create_draft x i now payload user w =
     (case ensure_subject (mc_subject_id payload) w of
        Inl e \<Rightarrow> fail e w
      | Inr _ \<Rightarrow>
          (let m = new_material i now (generate_unique_slug x (mc_title payload) w) payload user in
           if \<not> material_keys_exist m w then fail IntegrityError w
           else finish i (w\<lparr>db_materials := db_materials w @ [m]\<rparr>)))"

section \<open>Files\<close>

definition PDF_PREVIEW_PAGE_LIMIT :: nat where "PDF_PREVIEW_PAGE_LIMIT = 2"

definition preview_key :: "string \<Rightarrow> string \<Rightarrow> string" where
  "preview_key material_id u = ''materials/'' @ material_id @ ''/previews/'' @ u @ ''.pdf''"

text \<open>The document goes through pypdf, which raises when it cannot read it.\<close>

definition build_pdf_preview ::
  "parsers \<Rightarrow> provider \<Rightarrow> string \<Rightarrow> string \<Rightarrow> string \<Rightarrow> objects \<Rightarrow> (string \<times> int) res \<times> objects"
where
  "build_pdf_preview pr sp u material_id storage_key obs =
     (case pv_read_bytes sp storage_key obs of
        Inl e \<Rightarrow> (Inl e, obs)
      | Inr source_bytes \<Rightarrow>
          (case pdf_pages pr source_bytes of
             None \<Rightarrow> (Inl (RuntimeError ''PdfReader''), obs)
           | Some n \<Rightarrow>
               (let page_count = min n PDF_PREVIEW_PAGE_LIMIT;
                    preview_storage_key = preview_key material_id u
                in case pv_save_bytes sp (pdf_first_pages pr page_count source_bytes)
                          preview_storage_key (Some ''application/pdf'') obs of
                     (Inl e, obs') \<Rightarrow> (Inl e, obs')
                   | (Inr _, obs') \<Rightarrow> (Inr (preview_storage_key, int page_count), obs'))))"

text \<open>The first loop: \<open>keys\<close> are the storage keys to delete if the request fails.\<close>

fun store_uploads ::
  "settings \<Rightarrow> provider \<Rightarrow> (nat \<Rightarrow> string) \<Rightarrow> nat \<Rightarrow> string \<Rightarrow> int \<Rightarrow> string list \<Rightarrow> upload list \<Rightarrow>
   objects \<Rightarrow> (stored_file list res \<times> string list) \<times> objects"
where
  "store_uploads st sp ids i material_id total_size keys [] obs = ((Inr [], keys), obs)"
| "store_uploads st sp ids i material_id total_size keys (upload # uploads) obs =
     (case service_save st sp upload material_id (Some (upload_max_file_size st)) (ids i) obs of
        (Inl e, obs1) \<Rightarrow> ((Inl e, keys), obs1)
      | (Inr stored, obs1) \<Rightarrow>
          (let total_size' = total_size + sf_file_size stored in
           if total_size' > upload_max_total_size st
           then (case pv_delete sp (sf_storage_key stored) obs1 of
                   (Inl e, obs2) \<Rightarrow> ((Inl e, keys), obs2)
                 | (Inr _, obs2) \<Rightarrow>
                     ((Inl (ValidationAppError ''Total upload size exceeded''), keys), obs2))
           else (case store_uploads st sp ids (i + 3) material_id total_size'
                        (keys @ [sf_storage_key stored]) uploads obs1 of
                   ((Inl e, keys'), obs2) \<Rightarrow> ((Inl e, keys'), obs2)
                 | ((Inr stored_files, keys'), obs2) \<Rightarrow> ((Inr (stored # stored_files), keys'), obs2))))"

definition new_file ::
  "string \<Rightarrow> string \<Rightarrow> upload \<Rightarrow> stored_file \<Rightarrow> int \<Rightarrow> (string \<times> int) option \<Rightarrow> material_file"
where
  "new_file i material_id upload stored file_order preview =
     \<lparr>mf_id = i, mf_material_id = material_id, mf_storage_key = sf_storage_key stored,
      mf_preview_storage_key = map_option fst preview,
      mf_original_filename =
        (if truthy (uf_filename upload) then the (uf_filename upload) else sf_storage_key stored),
      mf_mime_type = sf_mime_type stored, mf_file_size = sf_file_size stored,
      mf_file_ext = sf_file_ext stored, mf_file_kind = sf_file_kind stored,
      mf_file_order = file_order, mf_checksum_hash = sf_checksum_hash stored,
      mf_is_previewable = (sf_file_ext stored \<in> set PREVIEWABLE_EXTENSIONS),
      mf_preview_page_count = map_option snd preview\<rparr>"

text \<open>The second loop, over the uploads with what they were stored as and their order.\<close>

fun build_entities ::
  "parsers \<Rightarrow> provider \<Rightarrow> (nat \<Rightarrow> string) \<Rightarrow> nat \<Rightarrow> string \<Rightarrow> (upload \<times> stored_file \<times> int) list \<Rightarrow>
   objects \<Rightarrow> material_file list res \<times> objects"
where
  "build_entities pr sp ids i material_id [] obs = (Inr [], obs)"
| "build_entities pr sp ids i material_id ((upload, stored, file_order) # rest) obs =
     (let (preview, obs1) =
        (if sf_file_ext stored = ''pdf''
         then (case build_pdf_preview pr sp (ids (i + 1)) material_id (sf_storage_key stored) obs of
                 (Inl e, obs1) \<Rightarrow> (Inl e, obs1)
               | (Inr p, obs1) \<Rightarrow> (Inr (Some p), obs1))
         else (Inr None, obs))
      in case preview of
           Inl e \<Rightarrow> (Inl e, obs1)
         | Inr p \<Rightarrow>
             (case build_entities pr sp ids (i + 3) material_id rest obs1 of
                (Inl e, obs2) \<Rightarrow> (Inl e, obs2)
              | (Inr entities, obs2) \<Rightarrow>
                  (Inr (new_file (ids (i + 2)) material_id upload stored file_order p # entities), obs2)))"

definition normalize_orders :: "material \<Rightarrow> int list \<Rightarrow> int list" where
  "normalize_orders m file_orders =
     (if distinct file_orders then file_orders
      else [m_file_count m..m_file_count m + int (length file_orders) - 1])"

text \<open>The handler of the try block: what was stored is deleted and the error raised again.\<close>

definition discard_uploads ::
  "provider \<Rightarrow> app_error \<Rightarrow> string list \<Rightarrow> objects \<Rightarrow> world \<Rightarrow> 'a res \<times> world"
where
  "discard_uploads sp e keys obs w =
     (case delete_many sp keys obs of
        (Inl e', obs') \<Rightarrow> fail e' (w\<lparr>objects := obs'\<rparr>)
      | (Inr _, obs') \<Rightarrow> fail e (w\<lparr>objects := obs'\<rparr>))"

definition add_files :: "int \<Rightarrow> string \<Rightarrow> material_file list \<Rightarrow> world \<Rightarrow> world" where
  "add_files now mid entities w =
     w\<lparr>db_material_files := db_material_files w @ entities,
       db_materials := update_where (\<lambda>r. m_id r = mid)
         (\<lambda>r. r\<lparr>m_file_count := m_file_count r + int (length entities),
                m_total_size := m_total_size r + sum_list (map mf_file_size entities),
                m_updated_at := now\<rparr>) (db_materials w)\<rparr>"

definition attach_files ::
  "parsers \<Rightarrow> settings \<Rightarrow> provider \<Rightarrow> (nat \<Rightarrow> string) \<Rightarrow> int \<Rightarrow> string \<Rightarrow> user \<Rightarrow> upload list \<Rightarrow> int list \<Rightarrow>
   world \<Rightarrow> material_file list res \<times> world"
where
  "attach_files pr st sp ids now material_id user uploads file_orders w =
     (case get_owned_material material_id (u_id user) w of
        Inl e \<Rightarrow> fail e w
      | Inr m \<Rightarrow>
          (if m_status m \<noteq> DRAFT
           then fail (ConflictError ''Files can only be attached to draft materials'') w
           else if length uploads \<noteq> length file_orders
           then fail (ValidationAppError ''Each file must have a file_order'') w
           else if int (length uploads) > upload_max_file_count st
           then fail (ValidationAppError ''Too many files'') w
           else
             (case store_uploads st sp ids 0 (m_id m) (m_total_size m) [] uploads (objects w) of
                ((Inl e, keys), obs1) \<Rightarrow> discard_uploads sp e keys obs1 w
              | ((Inr stored_files, keys), obs1) \<Rightarrow>
                  (case build_entities pr sp ids 0 (m_id m)
                          (zip uploads (zip stored_files (normalize_orders m file_orders))) obs1 of
                     (Inl e, obs2) \<Rightarrow> discard_uploads sp e keys obs2 w
                   | (Inr entities, obs2) \<Rightarrow>
                       ok entities (invalidate_material_caches
                         ((add_files now (m_id m) entities w)\<lparr>objects := obs2\<rparr>))))))"

fun best_effort_delete_storage_keys :: "provider \<Rightarrow> string list \<Rightarrow> objects \<Rightarrow> objects" where
  "best_effort_delete_storage_keys sp [] obs = obs"
| "best_effort_delete_storage_keys sp (key # keys) obs =
     best_effort_delete_storage_keys sp keys (snd (pv_delete sp key obs))"

text \<open>for index, item in enumerate(...): item.file_order = index\<close>

definition set_file_orders :: "string list \<Rightarrow> material_file list \<Rightarrow> material_file list" where
  "set_file_orders file_ids rows =
     foldl (\<lambda>rows (index, i). update_where (\<lambda>f. mf_id f = i) (\<lambda>f. f\<lparr>mf_file_order := int index\<rparr>) rows)
       rows (enumerate 0 file_ids)"

text \<open>
  The DELETE of a file row violates a foreign key when another material names it as its cover
  or primary file.
\<close>

definition file_in_use :: "string \<Rightarrow> string \<Rightarrow> world \<Rightarrow> bool" where
  "file_in_use file_id mid w =
     list_ex (\<lambda>m. m_id m \<noteq> mid \<and> (m_cover_file_id m = Some file_id \<or> m_primary_file_id m = Some file_id))
       (db_materials w)"

definition without_file :: "material_file \<Rightarrow> string option \<Rightarrow> material \<Rightarrow> material" where
  "without_file target fallback_id m =
     m\<lparr>m_cover_file_id :=
          (if m_cover_file_id m = Some (mf_id target) then fallback_id else m_cover_file_id m),
       m_primary_file_id :=
          (if m_primary_file_id m = Some (mf_id target) then fallback_id else m_primary_file_id m),
       m_file_count := max 0 (m_file_count m - 1),
       m_total_size := max 0 (m_total_size m - mf_file_size target)\<rparr>"

definition delete_file ::
  "provider \<Rightarrow> string \<Rightarrow> int \<Rightarrow> string \<Rightarrow> string \<Rightarrow> user \<Rightarrow> world \<Rightarrow> material option res \<times> world"
where
  "delete_file sp i now material_id file_id user w =
     (case get_owned_material material_id (u_id user) w of
        Inl e \<Rightarrow> fail e w
      | Inr m \<Rightarrow>
          (case find (\<lambda>f. mf_id f = file_id) (files_of (m_id m) w) of
             None \<Rightarrow> fail (ResourceNotFound ''Material file not found'') w
           | Some target \<Rightarrow>
               (case ensure_material_is_editable m of
                  Inl e \<Rightarrow> fail e w
                | Inr _ \<Rightarrow>
                    (let (m1, w1) = mark_material_for_rereview_if_needed i now m (u_id user) w;
                         remaining = filter (\<lambda>f. mf_id f \<noteq> mf_id target) (files_of (m_id m) w);
                         fallback_id = (case remaining of [] \<Rightarrow> None | f # _ \<Rightarrow> Some (mf_id f));
                         w2 = save_material now (without_file target fallback_id m1) w1
                     in if file_in_use (mf_id target) (m_id m) w2 then fail IntegrityError w
                        else finish (m_id m)
                          (w2\<lparr>db_material_files :=
                               delete_where (\<lambda>f. mf_id f = mf_id target)
                                 (set_file_orders (map mf_id remaining) (db_material_files w2)),
                             objects :=
                               best_effort_delete_storage_keys sp
                                 (filter (\<lambda>k. k \<noteq> [])
                                   (mf_storage_key target #
                                    (case mf_preview_storage_key target of None \<Rightarrow> [] | Some k \<Rightarrow> [k])))
                                 (objects w2)\<rparr>)))))"

definition reorder_files ::
  "string \<Rightarrow> int \<Rightarrow> string \<Rightarrow> string list \<Rightarrow> user \<Rightarrow> world \<Rightarrow> material_file list res \<times> world"
where
  "reorder_files i now material_id file_ids user w =
     (case get_owned_material material_id (u_id user) w of
        Inl e \<Rightarrow> fail e w
      | Inr m \<Rightarrow>
          (let existing_ids = map mf_id (files_of (m_id m) w) in
           if length file_ids \<noteq> length existing_ids \<or> set file_ids \<noteq> set existing_ids
           then fail (ValidationAppError
             ''file_ids must include every existing material file exactly once'') w
           else
             (case ensure_material_is_editable m of
                Inl e \<Rightarrow> fail e w
              | Inr _ \<Rightarrow>
                  (let (m1, w1) = mark_material_for_rereview_if_needed i now m (u_id user) w;
                       w2 = invalidate_material_caches
                         (w1\<lparr>db_material_files := set_file_orders file_ids (db_material_files w1)\<rparr>)
                   in ok (files_of (m_id m) w2) w2))))"

definition select_file :: "bool option \<Rightarrow> string \<Rightarrow> string option \<Rightarrow> string option" where
  "select_file flag file_id current =
     (if flag = Some True then Some file_id
      else if flag = Some False \<and> current = Some file_id then None
      else current)"

definition update_file_selection ::
  "string \<Rightarrow> int \<Rightarrow> string \<Rightarrow> string \<Rightarrow> bool option \<Rightarrow> bool option \<Rightarrow> user \<Rightarrow> world \<Rightarrow>
   material option res \<times> world"
where
  "update_file_selection i now material_id file_id cover primary user w =
     (case get_owned_material material_id (u_id user) w of
        Inl e \<Rightarrow> fail e w
      | Inr m \<Rightarrow>
          (if \<not> list_ex (\<lambda>f. mf_id f = file_id) (files_of (m_id m) w)
           then fail (ResourceNotFound ''Material file not found'') w
           else if cover = None \<and> primary = None
           then fail (ValidationAppError ''At least one of cover or primary must be provided'') w
           else
             (case ensure_material_is_editable m of
                Inl e \<Rightarrow> fail e w
              | Inr _ \<Rightarrow>
                  (let (m1, w1) = mark_material_for_rereview_if_needed i now m (u_id user) w
                   in finish (m_id m)
                        (save_material now
                          (m1\<lparr>m_cover_file_id := select_file cover file_id (m_cover_file_id m1),
                              m_primary_file_id := select_file primary file_id (m_primary_file_id m1)\<rparr>)
                          w1)))))"

section \<open>Status\<close>

definition submit ::
  "settings \<Rightarrow> (nat \<Rightarrow> string) \<Rightarrow> int \<Rightarrow> string \<Rightarrow> user \<Rightarrow> world \<Rightarrow> material option res \<times> world"
where
  "submit st ids now material_id user w =
     (case get_owned_material material_id (u_id user) w of
        Inl e \<Rightarrow> fail e w
      | Inr m \<Rightarrow>
          (let action = (if m_status m = DRAFT then ActSubmitted else ActResubmitted) in
           if m_status m \<notin> {DRAFT, REJECTED}
           then fail (ConflictError ''Only draft or rejected materials can be submitted'') w
           else if m_file_count m < 1
           then fail (ValidationAppError ''At least one file is required before submission'') w
           else
             (let m' = m\<lparr>m_status := PENDING_REVIEW, m_submitted_at := Some now\<rparr>;
                  w1 = log_review (ids 0) now (m_id m) action (u_id user) None None
                         (save_material now m' w)
              in case enqueue_material_submitted_events st ids 1 now m' (ids 0) w1 of
                   (Inl e, _) \<Rightarrow> fail e w
                 | (Inr _, w2) \<Rightarrow> finish (m_id m) w2)))"

definition withdraw ::
  "string \<Rightarrow> int \<Rightarrow> string \<Rightarrow> user \<Rightarrow> world \<Rightarrow> material option res \<times> world"
where
  "withdraw i now material_id user w =
     (case get_owned_material material_id (u_id user) w of
        Inl e \<Rightarrow> fail e w
      | Inr m \<Rightarrow>
          (if m_status m \<noteq> PENDING_REVIEW
           then fail (ConflictError ''Only pending materials can be withdrawn'') w
           else finish (m_id m)
             (log_review i now (m_id m) ActWithdrawn (u_id user) None None
               (save_material now (m\<lparr>m_status := DRAFT\<rparr>) w))))"

definition delete_material :: "int \<Rightarrow> string \<Rightarrow> user \<Rightarrow> world \<Rightarrow> unit res \<times> world" where
  "delete_material now material_id user w =
     (case get_owned_material material_id (u_id user) w of
        Inl e \<Rightarrow> fail e w
      | Inr m \<Rightarrow>
          ok () (invalidate_material_caches (save_material now (m\<lparr>m_deleted_at := Some now\<rparr>) w)))"

section \<open>Edits\<close>

text \<open>A field of a PATCH is None when it is not set, and Some of its value, possibly null.\<close>

record material_update =
  mu_title :: "string option option"
  mu_description :: "string option option"
  mu_material_type :: "material_type option option"
  mu_subject_id :: "string option option"
  mu_semesters :: "int list option option"
  mu_cover_file_id :: "string option option"
  mu_primary_file_id :: "string option option"

text \<open>A null in a column that is not nullable is an integrity error at the commit.\<close>

definition set_required :: "'a option option \<Rightarrow> ('a \<Rightarrow> material \<Rightarrow> material) \<Rightarrow> material res \<Rightarrow> material res" where
  "set_required field f r =
     (case r of
        Inl e \<Rightarrow> Inl e
      | Inr m \<Rightarrow>
          (case field of
             None \<Rightarrow> Inr m
           | Some None \<Rightarrow> Inl IntegrityError
           | Some (Some v) \<Rightarrow> Inr (f v m)))"

definition set_nullable :: "'a option option \<Rightarrow> ('a option \<Rightarrow> material \<Rightarrow> material) \<Rightarrow> material res \<Rightarrow> material res" where
  "set_nullable field f r =
     (case r of
        Inl e \<Rightarrow> Inl e
      | Inr m \<Rightarrow> (case field of None \<Rightarrow> Inr m | Some v \<Rightarrow> Inr (f v m)))"

definition apply_update :: "material_update \<Rightarrow> material \<Rightarrow> material res" where
  "apply_update payload m =
     set_nullable (mu_primary_file_id payload) (\<lambda>v m. m\<lparr>m_primary_file_id := v\<rparr>)
      (set_nullable (mu_cover_file_id payload) (\<lambda>v m. m\<lparr>m_cover_file_id := v\<rparr>)
        (set_required (mu_semesters payload) (\<lambda>v m. m\<lparr>m_semesters := v\<rparr>)
          (set_required (mu_subject_id payload) (\<lambda>v m. m\<lparr>m_subject_id := v\<rparr>)
            (set_required (mu_material_type payload) (\<lambda>v m. m\<lparr>m_material_type := v\<rparr>)
              (set_nullable (mu_description payload) (\<lambda>v m. m\<lparr>m_description := v\<rparr>)
                (set_required (mu_title payload) (\<lambda>v m. m\<lparr>m_title := v\<rparr>) (Inr m)))))))"

definition update_material ::
  "string \<Rightarrow> int \<Rightarrow> string \<Rightarrow> material_update \<Rightarrow> user \<Rightarrow> world \<Rightarrow> material option res \<times> world"
where
  "update_material i now material_id payload user w =
     (case get_owned_material material_id (u_id user) w of
        Inl e \<Rightarrow> fail e w
      | Inr m \<Rightarrow>
          (let subject_id = (case mu_subject_id payload of None \<Rightarrow> None | Some v \<Rightarrow> v) in
           case (if truthy subject_id then ensure_subject (the subject_id) w else Inr ()) of
             Inl e \<Rightarrow> fail e w
           | Inr _ \<Rightarrow>
               (case ensure_material_is_editable m of
                  Inl e \<Rightarrow> fail e w
                | Inr _ \<Rightarrow>
                    (let (m1, w1) = mark_material_for_rereview_if_needed i now m (u_id user) w in
                     case apply_update payload m1 of
                       Inl e \<Rightarrow> fail e w
                     | Inr m2 \<Rightarrow>
                         (if \<not> material_keys_exist m2 w1 then fail IntegrityError w
                          else finish (m_id m) (save_material now m2 w1))))))"

definition attach_tag ::
  "string \<Rightarrow> int \<Rightarrow> string \<Rightarrow> string \<Rightarrow> user \<Rightarrow> world \<Rightarrow> material option res \<times> world"
where
  "attach_tag i now material_id tag_id user w =
     (case get_owned_material material_id (u_id user) w of
        Inl e \<Rightarrow> fail e w
      | Inr m \<Rightarrow>
          (case find (\<lambda>t. t_id t = tag_id) (db_tags w) of
             None \<Rightarrow> fail (ResourceNotFound ''Tag not found'') w
           | Some t \<Rightarrow>
               (if list_ex (\<lambda>t'. t_id t' = t_id t) (tags_of (m_id m) w) then ok (Some m) w
                else
                  (case ensure_material_is_editable m of
                     Inl e \<Rightarrow> fail e w
                   | Inr _ \<Rightarrow>
                       (let (m1, w1) = mark_material_for_rereview_if_needed i now m (u_id user) w
                        in finish (m_id m)
                             (w1\<lparr>db_material_tags := db_material_tags w1 @ [(m_id m, t_id t)]\<rparr>))))))"

definition detach_tag ::
  "string \<Rightarrow> int \<Rightarrow> string \<Rightarrow> string \<Rightarrow> user \<Rightarrow> world \<Rightarrow> material option res \<times> world"
where
  "detach_tag i now material_id tag_id user w =
     (case get_owned_material material_id (u_id user) w of
        Inl e \<Rightarrow> fail e w
      | Inr m \<Rightarrow>
          (case find (\<lambda>t. t_id t = tag_id) (tags_of (m_id m) w) of
             None \<Rightarrow> fail (ResourceNotFound ''Tag not attached to material'') w
           | Some t \<Rightarrow>
               (case ensure_material_is_editable m of
                  Inl e \<Rightarrow> fail e w
                | Inr _ \<Rightarrow>
                    (let (m1, w1) = mark_material_for_rereview_if_needed i now m (u_id user) w
                     in finish (m_id m)
                          (w1\<lparr>db_material_tags :=
                               delete_where (\<lambda>mt. mt = (m_id m, t_id t)) (db_material_tags w1)\<rparr>)))))"

section \<open>Reports and stale drafts\<close>

definition report_material ::
  "(nat \<Rightarrow> string) \<Rightarrow> int \<Rightarrow> string \<Rightarrow> string \<Rightarrow> string option \<Rightarrow> user \<Rightarrow> world \<Rightarrow> unit res \<times> world"
where
  "report_material ids now material_id reason details user w =
     (case get_material material_id w of
        None \<Rightarrow> fail (ResourceNotFound ''Material not found'') w
      | Some m \<Rightarrow>
          (if m_status m \<noteq> APPROVED then fail (ResourceNotFound ''Material not found'') w
           else
             ok () (audit (ids 2) now ''material_reported'' ''material_report'' (Some user)
                      (Some (m_id m)) (Some reason)
                     (log_review (ids 1) now (m_id m) ActReported (u_id user) details (Some reason)
                       (w\<lparr>db_material_reports := db_material_reports w @
                           [\<lparr>mr_id = ids 0, mr_material_id = m_id m, mr_reporter_id = u_id user,
                             mr_reviewer_id = None, mr_reason = reason, mr_details = details,
                             mr_status = ReportOpen, mr_resolution_note = None, mr_reviewed_at = None,
                             mr_created_at = now\<rparr>]\<rparr>)))))"

text \<open>The joins of \<open>build_filtered_query\<close>, which drop a material without its catalog rows.\<close>

definition material_place :: "material \<Rightarrow> world \<Rightarrow> (subject \<times> faculty \<times> university) option" where
  "material_place m w =
     (case get_subject (m_subject_id m) w of
        None \<Rightarrow> None
      | Some s \<Rightarrow>
          (case get_faculty (su_faculty_id s) w of
             None \<Rightarrow> None
           | Some f \<Rightarrow>
               (case get_university (fa_university_id f) w of
                  None \<Rightarrow> None
                | Some u \<Rightarrow> Some (s, f, u))))"

definition build_filtered_query :: "world \<Rightarrow> material list" where
  "build_filtered_query w =
     filter (\<lambda>m. material_place m w \<noteq> None \<and> m_deleted_at m = None) (db_materials w)"

definition list_filtered :: "int \<Rightarrow> int \<Rightarrow> material list \<Rightarrow> material list \<times> int" where
  "list_filtered page page_size statement = (paginate page page_size statement, int (length statement))"

definition stale_draft :: "int \<Rightarrow> material \<Rightarrow> bool" where
  "stale_draft now m = (m_status m = DRAFT \<and> m_updated_at m < now - days 7)"

fun mark_drafts_deleted :: "int \<Rightarrow> material list \<Rightarrow> world \<Rightarrow> world" where
  "mark_drafts_deleted now [] w = w"
| "mark_drafts_deleted now (d # drafts) w =
     mark_drafts_deleted now drafts (save_material now (d\<lparr>m_deleted_at := Some now\<rparr>) w)"

definition cleanup_stale_drafts :: "int \<Rightarrow> world \<Rightarrow> int \<times> world" where
  "cleanup_stale_drafts now w =
     (let drafts = fst (list_filtered 1 10000 (filter (stale_draft now) (build_filtered_query w)));
          w1 = mark_drafts_deleted now drafts w;
          count = int (length drafts)
      in (count, if count \<noteq> 0 then invalidate_material_caches w1 else w1))"

end
