(* ===== verification/Moderation.thy ===== *)
theory Moderation
  imports Materials
begin

text \<open>
  \<^verbatim>\<open>app/modules/moderation/service.py\<close>: the review of submitted materials. A moderator acts
  on the materials of the universities, faculties and subjects assigned to them; an
  administrator on all.
\<close>

section \<open>Scope\<close>

text \<open>The ids of the scopes assigned to a moderator.\<close>

definition university_scope_ids :: "string \<Rightarrow> world \<Rightarrow> string list" where
  "university_scope_ids uid w =
     map mus_university_id (filter (\<lambda>s. mus_user_id s = uid) (db_moderator_university_scopes w))"

definition faculty_scope_ids :: "string \<Rightarrow> world \<Rightarrow> string list" where
  "faculty_scope_ids uid w =
     map mfs_faculty_id (filter (\<lambda>s. mfs_user_id s = uid) (db_moderator_faculty_scopes w))"

definition subject_scope_ids :: "string \<Rightarrow> world \<Rightarrow> string list" where
  "subject_scope_ids uid w =
     map mss_subject_id (filter (\<lambda>s. mss_user_id s = uid) (db_moderator_subject_scopes w))"

text \<open>\<open>_apply_scope\<close>: without any scope the statement asks for the id \<open>__none__\<close>.\<close>

definition in_listed_scope :: "user \<Rightarrow> world \<Rightarrow> material \<Rightarrow> bool" where
  "in_listed_scope actor w m =
     (if role_value (u_role actor) = ''admin'' then True
      else
        (let uni_ids = university_scope_ids (u_id actor) w;
             fac_ids = faculty_scope_ids (u_id actor) w;
             sub_ids = subject_scope_ids (u_id actor) w
         in if uni_ids = [] \<and> fac_ids = [] \<and> sub_ids = [] then m_id m = ''__none__''
            else (case material_place m w of
                    None \<Rightarrow> False
                  | Some (s, f, _) \<Rightarrow>
                      (uni_ids \<noteq> [] \<and> fa_university_id f \<in> set uni_ids) \<or>
                      (fac_ids \<noteq> [] \<and> su_faculty_id s \<in> set fac_ids) \<or>
                      (sub_ids \<noteq> [] \<and> m_subject_id m \<in> set sub_ids))))"

definition list_pending :: "user \<Rightarrow> world \<Rightarrow> material list" where
  "list_pending actor w =
     fst (list_filtered 1 1000
       (order_by m_created_at
         (filter (in_listed_scope actor w)
           (filter (\<lambda>m. m_status m = PENDING_REVIEW) (build_filtered_query w)))))"

definition assert_scope :: "user \<Rightarrow> material \<Rightarrow> world \<Rightarrow> unit res" where
  "assert_scope actor m w =
     (if role_value (u_role actor) = ''admin'' then Inr ()
      else
        (case get_subject (m_subject_id m) w of
           None \<Rightarrow> Inl (ResourceNotFound ''Subject not found'')
         | Some sub \<Rightarrow>
             (case get_faculty (su_faculty_id sub) w of
                None \<Rightarrow> Inl (ResourceNotFound ''Faculty not found'')
              | Some fac \<Rightarrow>
                  (if su_id sub \<in> set (subject_scope_ids (u_id actor) w) \<or>
                      su_faculty_id sub \<in> set (faculty_scope_ids (u_id actor) w) \<or>
                      fa_university_id fac \<in> set (university_scope_ids (u_id actor) w)
                   then Inr ()
                   else Inl (PermissionDenied ''Material is outside your moderation scope'')))))"

definition get_scoped_material :: "string \<Rightarrow> user \<Rightarrow> world \<Rightarrow> material res" where
  "get_scoped_material material_id actor w =
     (case get_material material_id w of
        None \<Rightarrow> Inl (ResourceNotFound ''Material not found'')
      | Some m \<Rightarrow>
          (if m_deleted_at m \<noteq> None then Inl (ResourceNotFound ''Material not found'')
           else (case assert_scope actor m w of Inl e \<Rightarrow> Inl e | Inr _ \<Rightarrow> Inr m)))"

section \<open>Decisions\<close>

text \<open>The identifiers of a decision: of the review log, of the audit log, of the event.\<close>

definition approve ::
  "settings \<Rightarrow> (nat \<Rightarrow> string) \<Rightarrow> int \<Rightarrow> string \<Rightarrow> user \<Rightarrow> world \<Rightarrow> material option res \<times> world"
where
  "approve st ids now material_id actor w =
     (case get_scoped_material material_id actor w of
        Inl e \<Rightarrow> fail e w
      | Inr m \<Rightarrow>
          (if m_status m \<noteq> PENDING_REVIEW
           then fail (ConflictError ''Only pending materials can be approved'') w
           else if m_file_count m < 1
           then fail (ConflictError ''Material must have files before approval'') w
           else
             (let m' = m\<lparr>m_status := APPROVED, m_approved_by := Some (u_id actor),
                         m_last_reviewed_by := Some (u_id actor), m_reviewed_at := Some now,
                         m_rejected_reason := None\<rparr>;
                  w1 = audit (ids 1) now ''material_approved'' ''material'' (Some actor) (Some (m_id m)) None
                         (log_review (ids 0) now (m_id m) ActApproved (u_id actor) None None
                           (save_material now m' w))
              in case enqueue_material_owner_event st (ids 2) now MATERIAL_APPROVED m' actor None None w1 of
                   (Inl e, _) \<Rightarrow> fail e w
                 | (Inr _, w2) \<Rightarrow> finish (m_id m) w2)))"

definition rejected_by :: "user \<Rightarrow> int \<Rightarrow> reject_reason \<Rightarrow> material \<Rightarrow> material" where
  "rejected_by actor now reason m =
     m\<lparr>m_status := REJECTED, m_rejected_reason := Some reason,
       m_last_reviewed_by := Some (u_id actor), m_reviewed_at := Some now\<rparr>"

definition reject ::
  "settings \<Rightarrow> (nat \<Rightarrow> string) \<Rightarrow> int \<Rightarrow> string \<Rightarrow> reject_reason \<Rightarrow> string option \<Rightarrow> user \<Rightarrow> world \<Rightarrow>
   material option res \<times> world"
where
  "reject st ids now material_id reason note actor w =
     (case get_scoped_material material_id actor w of
        Inl e \<Rightarrow> fail e w
      | Inr m \<Rightarrow>
          (if m_status m \<noteq> PENDING_REVIEW
           then fail (ConflictError ''Only pending materials can be rejected'') w
           else
             (let m' = rejected_by actor now reason m;
                  w1 = audit (ids 1) now ''material_rejected'' ''material'' (Some actor) (Some (m_id m))
                         (Some (reject_reason_value reason))
                         (log_review (ids 0) now (m_id m) ActRejected (u_id actor) note
                           (Some (reject_reason_value reason)) (save_material now m' w))
              in case enqueue_material_owner_event st (ids 2) now MATERIAL_REJECTED m' actor
                        (Some (reject_reason_value reason)) note w1 of
                   (Inl e, _) \<Rightarrow> fail e w
                 | (Inr _, w2) \<Rightarrow> finish (m_id m) w2)))"

definition request_revision ::
  "settings \<Rightarrow> (nat \<Rightarrow> string) \<Rightarrow> int \<Rightarrow> string \<Rightarrow> reject_reason \<Rightarrow> string option \<Rightarrow> user \<Rightarrow> world \<Rightarrow>
   material option res \<times> world"
where
  "request_revision st ids now material_id reason note actor w =
     (case get_scoped_material material_id actor w of
        Inl e \<Rightarrow> fail e w
      | Inr m \<Rightarrow>
          (if m_status m \<noteq> PENDING_REVIEW
           then fail (ConflictError ''Only pending materials can request revision'') w
           else
             (let m' = rejected_by actor now reason m;
                  w1 = audit (ids 1) now ''material_revision_requested'' ''material'' (Some actor)
                         (Some (m_id m)) (Some (reject_reason_value reason))
                         (log_review (ids 0) now (m_id m) ActRequestedRevision (u_id actor) note
                           (Some (reject_reason_value reason)) (save_material now m' w))
              in case enqueue_material_owner_event st (ids 2) now MATERIAL_REVISION_REQUESTED m' actor
                        (Some (reject_reason_value reason)) note w1 of
                   (Inl e, _) \<Rightarrow> fail e w
                 | (Inr _, w2) \<Rightarrow> finish (m_id m) w2)))"

definition move_subject ::
  "(nat \<Rightarrow> string) \<Rightarrow> int \<Rightarrow> string \<Rightarrow> string \<Rightarrow> string option \<Rightarrow> user \<Rightarrow> world \<Rightarrow> material option res \<times> world"
where
  "move_subject ids now material_id subject_id note actor w =
     (case get_scoped_material material_id actor w of
        Inl e \<Rightarrow> fail e w
      | Inr m \<Rightarrow>
          (if get_subject subject_id w = None then fail (ResourceNotFound ''Subject not found'') w
           else
             finish (m_id m)
               (audit (ids 1) now ''material_subject_moved'' ''material'' (Some actor) (Some (m_id m))
                  (Some subject_id)
                 (log_review (ids 0) now (m_id m) ActMovedSubject (u_id actor) note None
                   (save_material now
                     (m\<lparr>m_subject_id := subject_id, m_last_reviewed_by := Some (u_id actor),
                        m_reviewed_at := Some now\<rparr>) w)))))"

definition history :: "string \<Rightarrow> user \<Rightarrow> world \<Rightarrow> material_review_log list res" where
  "history material_id actor w =
     (case get_scoped_material material_id actor w of
        Inl e \<Rightarrow> Inl e
      | Inr _ \<Rightarrow>
          Inr (order_by_desc rl_created_at
            (filter (\<lambda>l. rl_material_id l = material_id) (db_material_review_logs w))))"

record review_context =
  rc_material_id :: string
  rc_title :: string
  rc_status :: string
  rc_rejected_reason :: "string option"
  rc_history :: "material_review_log list"

definition review_context_of :: "string \<Rightarrow> user \<Rightarrow> world \<Rightarrow> review_context res" where
  "review_context_of material_id actor w =
     (case get_scoped_material material_id actor w of
        Inl e \<Rightarrow> Inl e
      | Inr m \<Rightarrow>
          (case history material_id actor w of
             Inl e \<Rightarrow> Inl e
           | Inr logs \<Rightarrow>
               Inr \<lparr>rc_material_id = m_id m, rc_title = m_title m,
                    rc_status = material_status_value (m_status m),
                    rc_rejected_reason = map_option reject_reason_value (m_rejected_reason m),
                    rc_history = logs\<rparr>))"

end
