(* ===== verification/CatalogProposals.thy ===== *)
theory CatalogProposals
  imports Catalog Moderation
begin

text \<open>
  \<^verbatim>\<open>app/modules/catalog_proposals/service.py\<close>: users propose universities, faculties and subjects;
  administrators, and moderators for the faculties and subjects in their scope, approve a
  proposal, which adds the entity, map it to an existing one, or reject it. Also the home
  university of a user and the reports on catalog entries.

  The three kinds of proposal are one datatype, as the code hands them to shared methods.
  \<open>ids\<close> numbers the identifiers of a request: 0 the new row, 1 its log, from 2 on the events.
\<close>

section \<open>Proposals\<close>

fun proposal_status_of :: "proposal \<Rightarrow> proposal_status" where
  "proposal_status_of (UniversityProposal p) = up_status p"
| "proposal_status_of (FacultyProposal p) = fp_status p"
| "proposal_status_of (SubjectProposal p) = sp_status p"

fun approved_entity :: "proposal \<Rightarrow> string option" where
  "approved_entity (UniversityProposal p) = up_approved_university_id p"
| "approved_entity (FacultyProposal p) = fp_approved_faculty_id p"
| "approved_entity (SubjectProposal p) = sp_approved_subject_id p"

text \<open>The attributes a review sets.\<close>

fun reviewed :: "proposal_status \<Rightarrow> string \<Rightarrow> int \<Rightarrow> string option \<Rightarrow> proposal \<Rightarrow> proposal" where
  "reviewed status actor_id now note (UniversityProposal p) =
     UniversityProposal (p\<lparr>up_status := status, up_reviewed_by := Some actor_id,
       up_reviewed_at := Some now, up_review_note := note\<rparr>)"
| "reviewed status actor_id now note (FacultyProposal p) =
     FacultyProposal (p\<lparr>fp_status := status, fp_reviewed_by := Some actor_id,
       fp_reviewed_at := Some now, fp_review_note := note\<rparr>)"
| "reviewed status actor_id now note (SubjectProposal p) =
     SubjectProposal (p\<lparr>sp_status := status, sp_reviewed_by := Some actor_id,
       sp_reviewed_at := Some now, sp_review_note := note\<rparr>)"

fun approved_as :: "string \<Rightarrow> proposal \<Rightarrow> proposal" where
  "approved_as i (UniversityProposal p) = UniversityProposal (p\<lparr>up_approved_university_id := Some i\<rparr>)"
| "approved_as i (FacultyProposal p) = FacultyProposal (p\<lparr>fp_approved_faculty_id := Some i\<rparr>)"
| "approved_as i (SubjectProposal p) = SubjectProposal (p\<lparr>sp_approved_subject_id := Some i\<rparr>)"

fun store_proposal :: "proposal \<Rightarrow> world \<Rightarrow> world" where
  "store_proposal (UniversityProposal p) w =
     w\<lparr>db_university_proposals := store_row up_id p (db_university_proposals w)\<rparr>"
| "store_proposal (FacultyProposal p) w =
     w\<lparr>db_faculty_proposals := store_row fp_id p (db_faculty_proposals w)\<rparr>"
| "store_proposal (SubjectProposal p) w =
     w\<lparr>db_subject_proposals := store_row sp_id p (db_subject_proposals w)\<rparr>"

fun add_proposal :: "proposal \<Rightarrow> world \<Rightarrow> world" where
  "add_proposal (UniversityProposal p) w =
     w\<lparr>db_university_proposals := db_university_proposals w @ [p]\<rparr>"
| "add_proposal (FacultyProposal p) w =
     w\<lparr>db_faculty_proposals := db_faculty_proposals w @ [p]\<rparr>"
| "add_proposal (SubjectProposal p) w =
     w\<lparr>db_subject_proposals := db_subject_proposals w @ [p]\<rparr>"

text \<open>\<open>_get_proposal\<close> of each of the three models.\<close>

definition get_university_proposal :: "string \<Rightarrow> world \<Rightarrow> university_proposal res" where
  "get_university_proposal i w =
     (case find (\<lambda>p. up_id p = i) (db_university_proposals w) of
        None \<Rightarrow> Inl (ResourceNotFound ''Proposal not found'') | Some p \<Rightarrow> Inr p)"

definition get_faculty_proposal :: "string \<Rightarrow> world \<Rightarrow> faculty_proposal res" where
  "get_faculty_proposal i w =
     (case find (\<lambda>p. fp_id p = i) (db_faculty_proposals w) of
        None \<Rightarrow> Inl (ResourceNotFound ''Proposal not found'') | Some p \<Rightarrow> Inr p)"

definition get_subject_proposal :: "string \<Rightarrow> world \<Rightarrow> subject_proposal res" where
  "get_subject_proposal i w =
     (case find (\<lambda>p. sp_id p = i) (db_subject_proposals w) of
        None \<Rightarrow> Inl (ResourceNotFound ''Proposal not found'') | Some p \<Rightarrow> Inr p)"

definition log_proposal ::
  "string \<Rightarrow> proposal_entity_type \<Rightarrow> string \<Rightarrow> string \<Rightarrow> string \<Rightarrow> string option \<Rightarrow> world \<Rightarrow> world"
where
  "log_proposal i entity_type entity_id action actor_id note w =
     w\<lparr>db_catalog_proposal_logs := db_catalog_proposal_logs w @
        [\<lparr>pl_id = i, pl_entity_type = entity_type, pl_entity_id = entity_id, pl_action = action,
          pl_actor_id = actor_id, pl_note = note\<rparr>]\<rparr>"

section \<open>Proposing\<close>

text \<open>What the three create methods end with: the row, its log, the events and the commit.\<close>

definition submit_proposal ::
  "(nat \<Rightarrow> string) \<Rightarrow> int \<Rightarrow> proposal \<Rightarrow> proposal_entity_type \<Rightarrow> string \<Rightarrow> user \<Rightarrow> world \<Rightarrow> proposal res \<times> world"
where
  "submit_proposal ids now p entity_type proposal_type user w =
     (case enqueue_proposal_created_events ids 2 now p proposal_type
             (log_proposal (ids 1) entity_type (proposal_id p) ''submitted'' (u_id user) None
               (add_proposal p w)) of
        (Inl e, _) \<Rightarrow> fail e w
      | (Inr _, w1) \<Rightarrow> ok p w1)"

text \<open>\<open>if result.scalar_one_or_none(): raise\<close> on a statement that selects whole rows.\<close>

definition conflict_if_row :: "string \<Rightarrow> 'r list \<Rightarrow> unit res" where
  "conflict_if_row message rows =
     (case scalar_one_or_none rows of
        Inl e \<Rightarrow> Inl e
      | Inr None \<Rightarrow> Inr ()
      | Inr (Some _) \<Rightarrow> Inl (ConflictError message))"

definition create_university_proposal ::
  "externals \<Rightarrow> (nat \<Rightarrow> string) \<Rightarrow> int \<Rightarrow> string \<Rightarrow> string option \<Rightarrow> user \<Rightarrow> world \<Rightarrow> proposal res \<times> world"
where
  "create_university_proposal x ids now name description user w =
     (let proposed_name = strip name; slug = slugify x proposed_name in
      if proposed_name = [] then fail (ValidationAppError ''University name is required'') w
      else
        (case conflict_if_row ''University already exists''
                (filter (\<lambda>u. ilike x (un_name u) proposed_name \<or> un_slug u = slug) (db_universities w)) of
           Inl e \<Rightarrow> fail e w
         | Inr _ \<Rightarrow>
             (case conflict_if_row ''University proposal already exists''
                     (filter (\<lambda>p. up_status p = ProposalPending \<and>
                        (ilike x (up_proposed_name p) proposed_name \<or> up_proposed_slug p = Some slug))
                       (db_university_proposals w)) of
                Inl e \<Rightarrow> fail e w
              | Inr _ \<Rightarrow>
                  submit_proposal ids now
                    (UniversityProposal
                      \<lparr>up_id = ids 0, up_proposed_name = proposed_name, up_proposed_slug = Some slug,
                       up_proposed_description = description, up_created_by = u_id user,
                       up_status = ProposalPending, up_reviewed_by = None, up_review_note = None,
                       up_approved_university_id = None, up_reviewed_at = None, up_created_at = now\<rparr>)
                    UNIVERSITY ''university'' user w)))"

text \<open>The checks of this service, with its own messages.\<close>

definition proposed_university_name_available :: "string \<Rightarrow> world \<Rightarrow> unit res" where
  "proposed_university_name_available name w =
     conflict_if_found ''University already exists''
       (map un_id (filter (\<lambda>u. name_key (un_name u) = normalize_name name) (db_universities w)))"

definition proposed_university_slug_available :: "string \<Rightarrow> world \<Rightarrow> unit res" where
  "proposed_university_slug_available slug w =
     conflict_if_found ''University already exists''
       (map un_id (filter (\<lambda>u. un_slug u = slug) (db_universities w)))"

definition proposed_faculty_name_available :: "string \<Rightarrow> string \<Rightarrow> world \<Rightarrow> unit res" where
  "proposed_faculty_name_available university_id name w =
     conflict_if_found ''Faculty already exists in this university''
       (map fa_id (filter (\<lambda>f. fa_university_id f = university_id \<and>
          name_key (fa_name f) = normalize_name name) (db_faculties w)))"

definition proposed_faculty_slug_available :: "string \<Rightarrow> string \<Rightarrow> world \<Rightarrow> unit res" where
  "proposed_faculty_slug_available university_id slug w =
     conflict_if_found ''Faculty already exists in this university''
       (map fa_id (filter (\<lambda>f. fa_university_id f = university_id \<and> fa_slug f = slug) (db_faculties w)))"

definition proposed_subject_name_available :: "string \<Rightarrow> string \<Rightarrow> world \<Rightarrow> unit res" where
  "proposed_subject_name_available faculty_id name w =
     conflict_if_found ''Subject already exists in this faculty''
       (map su_id (filter (\<lambda>s. su_faculty_id s = faculty_id \<and>
          name_key (su_name s) = normalize_name name) (db_subjects w)))"

definition proposed_subject_slug_available :: "string \<Rightarrow> string \<Rightarrow> world \<Rightarrow> unit res" where
  "proposed_subject_slug_available faculty_id slug w =
     conflict_if_found ''Subject already exists in this faculty''
       (map su_id (filter (\<lambda>s. su_faculty_id s = faculty_id \<and> su_slug s = slug) (db_subjects w)))"

definition pending_faculty_name_available :: "string \<Rightarrow> string \<Rightarrow> world \<Rightarrow> unit res" where
  "pending_faculty_name_available university_id name w =
     conflict_if_found ''Faculty proposal with this name is already pending in the university''
       (map fp_id (filter (\<lambda>p. fp_university_id p = university_id \<and> fp_status p = ProposalPending \<and>
          name_key (fp_proposed_name p) = normalize_name name) (db_faculty_proposals w)))"

definition pending_subject_name_available :: "string \<Rightarrow> string \<Rightarrow> world \<Rightarrow> unit res" where
  "pending_subject_name_available faculty_id name w =
     conflict_if_found ''Subject proposal with this name is already pending in the faculty''
       (map sp_id (filter (\<lambda>p. sp_faculty_id p = faculty_id \<and> sp_status p = ProposalPending \<and>
          name_key (sp_proposed_name p) = normalize_name name) (db_subject_proposals w)))"

definition create_faculty_proposal ::
  "externals \<Rightarrow> (nat \<Rightarrow> string) \<Rightarrow> int \<Rightarrow> string \<Rightarrow> string \<Rightarrow> string option \<Rightarrow> user \<Rightarrow> world \<Rightarrow>
   proposal res \<times> world"
where
  "create_faculty_proposal x ids now university_id name description user w =
     (case require_university university_id w of
        Inl e \<Rightarrow> fail e w
      | Inr _ \<Rightarrow>
          (let proposed_name = strip name; slug = slugify x proposed_name in
           case proposed_faculty_name_available university_id proposed_name w of
             Inl e \<Rightarrow> fail e w
           | Inr _ \<Rightarrow>
               (case pending_faculty_name_available university_id proposed_name w of
                  Inl e \<Rightarrow> fail e w
                | Inr _ \<Rightarrow>
                    (case conflict_if_row ''Faculty already exists in this university''
                            (filter (\<lambda>f. fa_university_id f = university_id \<and>
                               (ilike x (fa_name f) proposed_name \<or> fa_slug f = slug)) (db_faculties w)) of
                       Inl e \<Rightarrow> fail e w
                     | Inr _ \<Rightarrow>
                         submit_proposal ids now
                           (FacultyProposal
                             \<lparr>fp_id = ids 0, fp_university_id = university_id,
                              fp_proposed_name = proposed_name, fp_proposed_slug = Some slug,
                              fp_proposed_description = description, fp_created_by = u_id user,
                              fp_status = ProposalPending, fp_reviewed_by = None, fp_review_note = None,
                              fp_approved_faculty_id = None, fp_reviewed_at = None, fp_created_at = now\<rparr>)
                           FACULTY ''faculty'' user w))))"

definition create_subject_proposal ::
  "externals \<Rightarrow> (nat \<Rightarrow> string) \<Rightarrow> int \<Rightarrow> string \<Rightarrow> string \<Rightarrow> string option \<Rightarrow> string option \<Rightarrow> user \<Rightarrow>
   world \<Rightarrow> proposal res \<times> world"
where
  "create_subject_proposal x ids now faculty_id name code description user w =
     (case require_faculty faculty_id w of
        Inl e \<Rightarrow> fail e w
      | Inr _ \<Rightarrow>
          (let proposed_name = strip name; slug = slugify x proposed_name in
           case proposed_subject_name_available faculty_id proposed_name w of
             Inl e \<Rightarrow> fail e w
           | Inr _ \<Rightarrow>
               (case pending_subject_name_available faculty_id proposed_name w of
                  Inl e \<Rightarrow> fail e w
                | Inr _ \<Rightarrow>
                    (case conflict_if_row ''Subject already exists in this faculty''
                            (filter (\<lambda>s. su_faculty_id s = faculty_id \<and>
                               (ilike x (su_name s) proposed_name \<or> su_slug s = slug)) (db_subjects w)) of
                       Inl e \<Rightarrow> fail e w
                     | Inr _ \<Rightarrow>
                         submit_proposal ids now
                           (SubjectProposal
                             \<lparr>sp_id = ids 0, sp_faculty_id = faculty_id, sp_proposed_name = proposed_name,
                              sp_proposed_slug = Some slug, sp_proposed_code = code,
                              sp_proposed_semester = None, sp_proposed_description = description,
                              sp_created_by = u_id user, sp_status = ProposalPending,
                              sp_reviewed_by = None, sp_review_note = None, sp_approved_subject_id = None,
                              sp_reviewed_at = None, sp_created_at = now\<rparr>)
                           SUBJECT ''subject'' user w))))"

definition list_user_proposals ::
  "('p \<Rightarrow> string) \<Rightarrow> ('p \<Rightarrow> int) \<Rightarrow> 'p list \<Rightarrow> user \<Rightarrow> 'p list"
where
  "list_user_proposals created_by created_at rows user =
     order_by_desc created_at (filter (\<lambda>p. created_by p = u_id user) rows)"

section \<open>The home university\<close>

definition HOME_UNIVERSITY_COOLDOWN_DAYS :: int where "HOME_UNIVERSITY_COOLDOWN_DAYS = 45"

definition update_home_university :: "int \<Rightarrow> user \<Rightarrow> string \<Rightarrow> world \<Rightarrow> string option res \<times> world" where
  "update_home_university now user university_id w =
     (case require_university university_id w of
        Inl e \<Rightarrow> fail e w
      | Inr _ \<Rightarrow>
          (if u_university_id user = Some university_id
           then fail (ConflictError ''Home university is already set to this value'') w
           else if (case u_university_changed_at user of
                      None \<Rightarrow> False | Some t \<Rightarrow> now - t < days HOME_UNIVERSITY_COOLDOWN_DAYS)
           then fail (ValidationAppError ''Home university can only be changed once every 45 days'') w
           else ok (Some university_id)
             (w\<lparr>db_users := update_where (\<lambda>r. u_id r = u_id user)
                 (\<lambda>r. r\<lparr>u_university_id := Some university_id, u_university_changed_at := Some now,
                        u_pending_university_name := None, u_university_status := ''selected''\<rparr>)
                 (db_users w)\<rparr>)))"

section \<open>Scope of the reviewers\<close>

definition require_admin :: "user \<Rightarrow> unit res" where
  "require_admin actor =
     (if role_value (u_role actor) \<noteq> ''admin'' then Inl (PermissionDenied ''Admin access required'')
      else Inr ())"

definition scope_ids :: "string \<Rightarrow> world \<Rightarrow> string list \<times> string list \<times> string list" where
  "scope_ids uid w = (university_scope_ids uid w, faculty_scope_ids uid w, subject_scope_ids uid w)"

definition assert_faculty_proposal_scope :: "user \<Rightarrow> faculty_proposal \<Rightarrow> world \<Rightarrow> unit res" where
  "assert_faculty_proposal_scope actor p w =
     (if role_value (u_role actor) = ''admin'' then Inr ()
      else
        (let (uni_ids, _, _) = scope_ids (u_id actor) w in
         if fp_university_id p \<notin> set uni_ids
         then Inl (PermissionDenied ''Proposal is outside your moderation scope'')
         else Inr ()))"

definition assert_subject_proposal_scope :: "user \<Rightarrow> subject_proposal \<Rightarrow> world \<Rightarrow> unit res" where
  "assert_subject_proposal_scope actor p w =
     (if role_value (u_role actor) = ''admin'' then Inr ()
      else
        (case get_faculty (sp_faculty_id p) w of
           None \<Rightarrow> Inl (ResourceNotFound ''Faculty not found'')
         | Some f \<Rightarrow>
             (let (uni_ids, fac_ids, sub_ids) = scope_ids (u_id actor) w;
                  allowed = (fa_university_id f \<in> set uni_ids \<or> sp_faculty_id p \<in> set fac_ids) in
              case (if \<not> allowed \<and> sub_ids \<noteq> []
                    then map_sum id (\<lambda>r. r \<noteq> None)
                      (scalar_one_or_none (map su_id (filter (\<lambda>s. su_id s \<in> set sub_ids \<and>
                        su_faculty_id s = sp_faculty_id p) (db_subjects w))))
                    else Inr allowed) of
                Inl e \<Rightarrow> Inl e
              | Inr allowed \<Rightarrow>
                  (if \<not> allowed then Inl (PermissionDenied ''Proposal is outside your moderation scope'')
                   else Inr ()))))"

section \<open>Pending proposals\<close>

definition list_pending_university_proposals :: "user \<Rightarrow> world \<Rightarrow> university_proposal list res" where
  "list_pending_university_proposals actor w =
     (case require_admin actor of
        Inl e \<Rightarrow> Inl e
      | Inr _ \<Rightarrow> Inr (order_by up_created_at
          (filter (\<lambda>p. up_status p = ProposalPending) (db_university_proposals w))))"

definition list_pending_faculty_proposals :: "user \<Rightarrow> world \<Rightarrow> faculty_proposal list" where
  "list_pending_faculty_proposals actor w =
     (let statement = (\<lambda>P. order_by fp_created_at
            (filter (\<lambda>p. fp_status p = ProposalPending \<and> P p) (db_faculty_proposals w)))
      in if role_value (u_role actor) = ''admin'' then statement (\<lambda>_. True)
         else
           (let (uni_ids, fac_ids, _) = scope_ids (u_id actor) w in
            if uni_ids = [] \<and> fac_ids = [] then []
            else statement (\<lambda>p.
              (uni_ids \<noteq> [] \<and> fp_university_id p \<in> set uni_ids) \<or>
              (fac_ids \<noteq> [] \<and> fp_university_id p \<in> set (map fa_university_id
                (filter (\<lambda>f. fa_id f \<in> set fac_ids) (db_faculties w)))))))"

definition list_pending_subject_proposals :: "user \<Rightarrow> world \<Rightarrow> subject_proposal list" where
  "list_pending_subject_proposals actor w =
     (let statement = (\<lambda>P. order_by sp_created_at
            (filter (\<lambda>p. sp_status p = ProposalPending \<and>
               (case get_faculty (sp_faculty_id p) w of None \<Rightarrow> False | Some f \<Rightarrow> P p f))
             (db_subject_proposals w)))
      in if role_value (u_role actor) = ''admin'' then statement (\<lambda>_ _. True)
         else
           (let (uni_ids, fac_ids, sub_ids) = scope_ids (u_id actor) w in
            if uni_ids = [] \<and> fac_ids = [] \<and> sub_ids = [] then []
            else statement (\<lambda>p f.
              (uni_ids \<noteq> [] \<and> fa_university_id f \<in> set uni_ids) \<or>
              (fac_ids \<noteq> [] \<and> sp_faculty_id p \<in> set fac_ids) \<or>
              (sub_ids \<noteq> [] \<and> sp_faculty_id p \<in> set (map su_faculty_id
                (filter (\<lambda>s. su_id s \<in> set sub_ids) (db_subjects w)))))))"

definition list_pending_proposals ::
  "user \<Rightarrow> string option \<Rightarrow> world \<Rightarrow>
   (university_proposal list \<times> faculty_proposal list \<times> subject_proposal list) res"
where
  "list_pending_proposals actor proposal_type w =
     (case (if proposal_type \<in> {None, Some ''universities''}
            then list_pending_university_proposals actor w else Inr []) of
        Inl e \<Rightarrow> Inl e
      | Inr university_items \<Rightarrow>
          Inr (university_items,
               if proposal_type \<in> {None, Some ''faculties''}
               then list_pending_faculty_proposals actor w else [],
               if proposal_type \<in> {None, Some ''subjects''}
               then list_pending_subject_proposals actor w else []))"

section \<open>Decisions\<close>

record proposal_approval =
  pa_canonical_name :: "string option"
  pa_canonical_slug :: "string option"
  pa_canonical_description :: "string option"
  pa_canonical_code :: "string option"
  pa_note :: "string option"

text \<open>
  What every decision ends with: the reviewed row, its log, the event to the owner and the
  commit; \<open>w0\<close> is the world of the transaction's start, to which an error rolls back.
\<close>

definition settle ::
  "(nat \<Rightarrow> string) \<Rightarrow> int \<Rightarrow> proposal \<Rightarrow> proposal_entity_type \<Rightarrow> string \<Rightarrow> string \<Rightarrow> telegram_event_type \<Rightarrow>
   user \<Rightarrow> string option \<Rightarrow> world \<Rightarrow> world \<Rightarrow> proposal res \<times> world"
where
  "settle ids now p entity_type action proposal_type event_type actor note w0 w =
     (case enqueue_proposal_owner_event (ids 2) now event_type p proposal_type actor note
             (log_proposal (ids 1) entity_type (proposal_id p) action (u_id actor) note w) of
        (Inl e, _) \<Rightarrow> fail e w0
      | (Inr _, w1) \<Rightarrow> ok p w1)"

definition apply_approved_university :: "int \<Rightarrow> string \<Rightarrow> string \<Rightarrow> world \<Rightarrow> world" where
  "apply_approved_university now created_by university_id w =
     (case get_user created_by w of
        None \<Rightarrow> w
      | Some user \<Rightarrow>
          (if truthy (u_university_id user) \<or> u_university_status user \<notin> {''pending'', ''rejected''}
           then w
           else w\<lparr>db_users := store_row u_id
             (user\<lparr>u_university_id := Some university_id, u_pending_university_name := None,
                   u_university_status := ''selected'', u_university_changed_at := Some now\<rparr>)
             (db_users w)\<rparr>))"

definition mark_registration_university_rejected :: "string \<Rightarrow> world \<Rightarrow> world" where
  "mark_registration_university_rejected created_by w =
     (case get_user created_by w of
        None \<Rightarrow> w
      | Some user \<Rightarrow>
          (if truthy (u_university_id user) \<or> u_university_status user \<noteq> ''pending'' then w
           else w\<lparr>db_users := store_row u_id (user\<lparr>u_university_status := ''rejected''\<rparr>) (db_users w)\<rparr>))"

definition canonical_name_of :: "proposal_approval \<Rightarrow> string \<Rightarrow> string" where
  "canonical_name_of payload proposed_name = or_else (pa_canonical_name payload) proposed_name"

definition canonical_slug_of :: "externals \<Rightarrow> proposal_approval \<Rightarrow> string option \<Rightarrow> string \<Rightarrow> string" where
  "canonical_slug_of x payload proposed_slug proposed_name =
     or_else (pa_canonical_slug payload) (or_else proposed_slug (slugify x proposed_name))"

definition approve_university ::
  "externals \<Rightarrow> (nat \<Rightarrow> string) \<Rightarrow> int \<Rightarrow> string \<Rightarrow> user \<Rightarrow> proposal_approval \<Rightarrow> world \<Rightarrow> proposal res \<times> world"
where
  "approve_university x ids now i actor payload w =
     (case require_admin actor of
        Inl e \<Rightarrow> fail e w
      | Inr _ \<Rightarrow>
     (case get_university_proposal i w of
        Inl e \<Rightarrow> fail e w
      | Inr p \<Rightarrow>
          (if up_status p \<noteq> ProposalPending then fail (ConflictError ''Proposal is not pending'') w
           else
             (let name = canonical_name_of payload (up_proposed_name p);
                  slug = canonical_slug_of x payload (up_proposed_slug p) (up_proposed_name p) in
              case proposed_university_name_available name w of
                Inl e \<Rightarrow> fail e w
              | Inr _ \<Rightarrow>
             (case proposed_university_slug_available slug w of
                Inl e \<Rightarrow> fail e w
              | Inr _ \<Rightarrow>
             (case insert_university \<lparr>un_id = ids 0, un_name = name, un_slug = slug\<rparr> w of
                Inl e \<Rightarrow> fail e w
              | Inr w1 \<Rightarrow>
                  (let p' = approved_as (ids 0)
                         (reviewed ProposalApproved (u_id actor) now (pa_note payload) (UniversityProposal p))
                   in settle ids now p' UNIVERSITY ''approved'' ''university'' PROPOSAL_APPROVED actor
                        (pa_note payload) w
                        (apply_approved_university now (up_created_by p) (ids 0)
                          (store_proposal p' w1)))))))))"

definition approve_faculty ::
  "externals \<Rightarrow> (nat \<Rightarrow> string) \<Rightarrow> int \<Rightarrow> string \<Rightarrow> user \<Rightarrow> proposal_approval \<Rightarrow> world \<Rightarrow> proposal res \<times> world"
where
  "approve_faculty x ids now i actor payload w =
     (case get_faculty_proposal i w of
        Inl e \<Rightarrow> fail e w
      | Inr p \<Rightarrow>
          (if fp_status p \<noteq> ProposalPending then fail (ConflictError ''Proposal is not pending'') w
           else
             (case assert_faculty_proposal_scope actor p w of
                Inl e \<Rightarrow> fail e w
              | Inr _ \<Rightarrow>
             (let name = canonical_name_of payload (fp_proposed_name p);
                  slug = canonical_slug_of x payload (fp_proposed_slug p) (fp_proposed_name p) in
              case proposed_faculty_name_available (fp_university_id p) name w of
                Inl e \<Rightarrow> fail e w
              | Inr _ \<Rightarrow>
             (case proposed_faculty_slug_available (fp_university_id p) slug w of
                Inl e \<Rightarrow> fail e w
              | Inr _ \<Rightarrow>
             (case insert_faculty \<lparr>fa_id = ids 0, fa_university_id = fp_university_id p,
                     fa_name = name, fa_slug = slug\<rparr> w of
                Inl e \<Rightarrow> fail e w
              | Inr w1 \<Rightarrow>
                  (let p' = approved_as (ids 0)
                         (reviewed ProposalApproved (u_id actor) now (pa_note payload) (FacultyProposal p))
                   in settle ids now p' FACULTY ''approved'' ''faculty'' PROPOSAL_APPROVED actor
                        (pa_note payload) w (store_proposal p' w1))))))))"

definition approve_subject ::
  "externals \<Rightarrow> (nat \<Rightarrow> string) \<Rightarrow> int \<Rightarrow> string \<Rightarrow> user \<Rightarrow> proposal_approval \<Rightarrow> world \<Rightarrow> proposal res \<times> world"
where
  "approve_subject x ids now i actor payload w =
     (case get_subject_proposal i w of
        Inl e \<Rightarrow> fail e w
      | Inr p \<Rightarrow>
          (if sp_status p \<noteq> ProposalPending then fail (ConflictError ''Proposal is not pending'') w
           else
             (case assert_subject_proposal_scope actor p w of
                Inl e \<Rightarrow> fail e w
              | Inr _ \<Rightarrow>
             (let name = canonical_name_of payload (sp_proposed_name p);
                  slug = canonical_slug_of x payload (sp_proposed_slug p) (sp_proposed_name p) in
              case proposed_subject_name_available (sp_faculty_id p) name w of
                Inl e \<Rightarrow> fail e w
              | Inr _ \<Rightarrow>
             (case proposed_subject_slug_available (sp_faculty_id p) slug w of
                Inl e \<Rightarrow> fail e w
              | Inr _ \<Rightarrow>
             (case insert_subject \<lparr>su_id = ids 0, su_faculty_id = sp_faculty_id p, su_name = name,
                     su_slug = slug,
                     su_code = (if truthy (pa_canonical_code payload) then pa_canonical_code payload
                                else sp_proposed_code p),
                     su_description = (if truthy (pa_canonical_description payload)
                                       then pa_canonical_description payload
                                       else sp_proposed_description p)\<rparr> w of
                Inl e \<Rightarrow> fail e w
              | Inr w1 \<Rightarrow>
                  (let p' = approved_as (ids 0)
                         (reviewed ProposalApproved (u_id actor) now (pa_note payload) (SubjectProposal p))
                   in settle ids now p' SUBJECT ''approved'' ''subject'' PROPOSAL_APPROVED actor
                        (pa_note payload) w (store_proposal p' w1))))))))"

definition map_existing_university ::
  "(nat \<Rightarrow> string) \<Rightarrow> int \<Rightarrow> string \<Rightarrow> user \<Rightarrow> string \<Rightarrow> string option \<Rightarrow> world \<Rightarrow> proposal res \<times> world"
where
  "map_existing_university ids now i actor target_id note w =
     (case require_admin actor of
        Inl e \<Rightarrow> fail e w
      | Inr _ \<Rightarrow>
     (case get_university_proposal i w of
        Inl e \<Rightarrow> fail e w
      | Inr p \<Rightarrow>
          (if up_status p \<noteq> ProposalPending then fail (ConflictError ''Proposal is not pending'') w
           else
             (case require_university target_id w of
                Inl e \<Rightarrow> fail e w
              | Inr _ \<Rightarrow>
                  (let p' = approved_as target_id
                         (reviewed ProposalApproved (u_id actor) now note (UniversityProposal p))
                   in settle ids now p' UNIVERSITY ''mapped_to_existing'' ''university'' PROPOSAL_APPROVED
                        actor note w
                        (apply_approved_university now (up_created_by p) target_id
                          (store_proposal p' w)))))))"

definition map_existing_faculty ::
  "(nat \<Rightarrow> string) \<Rightarrow> int \<Rightarrow> string \<Rightarrow> user \<Rightarrow> string \<Rightarrow> string option \<Rightarrow> world \<Rightarrow> proposal res \<times> world"
where
  "map_existing_faculty ids now i actor target_id note w =
     (case get_faculty_proposal i w of
        Inl e \<Rightarrow> fail e w
      | Inr p \<Rightarrow>
          (if fp_status p \<noteq> ProposalPending then fail (ConflictError ''Proposal is not pending'') w
           else
             (case assert_faculty_proposal_scope actor p w of
                Inl e \<Rightarrow> fail e w
              | Inr _ \<Rightarrow>
             (case require_faculty target_id w of
                Inl e \<Rightarrow> fail e w
              | Inr f \<Rightarrow>
                  (let p' = approved_as (fa_id f)
                         (reviewed ProposalApproved (u_id actor) now note (FacultyProposal p))
                   in settle ids now p' FACULTY ''mapped_to_existing'' ''faculty'' PROPOSAL_APPROVED
                        actor note w (store_proposal p' w))))))"

definition map_existing_subject ::
  "(nat \<Rightarrow> string) \<Rightarrow> int \<Rightarrow> string \<Rightarrow> user \<Rightarrow> string \<Rightarrow> string option \<Rightarrow> world \<Rightarrow> proposal res \<times> world"
where
  "map_existing_subject ids now i actor target_id note w =
     (case get_subject_proposal i w of
        Inl e \<Rightarrow> fail e w
      | Inr p \<Rightarrow>
          (if sp_status p \<noteq> ProposalPending then fail (ConflictError ''Proposal is not pending'') w
           else
             (case assert_subject_proposal_scope actor p w of
                Inl e \<Rightarrow> fail e w
              | Inr _ \<Rightarrow>
             (case require_subject target_id w of
                Inl e \<Rightarrow> fail e w
              | Inr s \<Rightarrow>
                  (let p' = approved_as (su_id s)
                         (reviewed ProposalApproved (u_id actor) now note (SubjectProposal p))
                   in settle ids now p' SUBJECT ''mapped_to_existing'' ''subject'' PROPOSAL_APPROVED
                        actor note w (store_proposal p' w))))))"

definition reject_proposal ::
  "(nat \<Rightarrow> string) \<Rightarrow> int \<Rightarrow> proposal \<Rightarrow> proposal_entity_type \<Rightarrow> user \<Rightarrow> string \<Rightarrow> string option \<Rightarrow> world \<Rightarrow>
   proposal res \<times> world"
where
  "reject_proposal ids now p entity_type actor reason note w =
     (if proposal_status_of p \<noteq> ProposalPending then fail (ConflictError ''Proposal is not pending'') w
      else
        (let review_note = Some (or_else note reason);
             p' = reviewed ProposalRejected (u_id actor) now review_note p;
             w1 = store_proposal p' w;
             w2 = (if entity_type = UNIVERSITY
                   then mark_registration_university_rejected (proposal_created_by p) w1 else w1)
         in settle ids now p' entity_type ''rejected'' (proposal_entity_value entity_type)
              PROPOSAL_REJECTED actor review_note w w2))"

definition reject_university ::
  "(nat \<Rightarrow> string) \<Rightarrow> int \<Rightarrow> string \<Rightarrow> user \<Rightarrow> string \<Rightarrow> string option \<Rightarrow> world \<Rightarrow> proposal res \<times> world"
where
  "reject_university ids now i actor reason note w =
     (case require_admin actor of
        Inl e \<Rightarrow> fail e w
      | Inr _ \<Rightarrow>
          (case get_university_proposal i w of
             Inl e \<Rightarrow> fail e w
           | Inr p \<Rightarrow> reject_proposal ids now (UniversityProposal p) UNIVERSITY actor reason note w))"

definition reject_faculty ::
  "(nat \<Rightarrow> string) \<Rightarrow> int \<Rightarrow> string \<Rightarrow> user \<Rightarrow> string \<Rightarrow> string option \<Rightarrow> world \<Rightarrow> proposal res \<times> world"
where
  "reject_faculty ids now i actor reason note w =
     (case get_faculty_proposal i w of
        Inl e \<Rightarrow> fail e w
      | Inr p \<Rightarrow>
          (case assert_faculty_proposal_scope actor p w of
             Inl e \<Rightarrow> fail e w
           | Inr _ \<Rightarrow> reject_proposal ids now (FacultyProposal p) FACULTY actor reason note w))"

definition reject_subject ::
  "(nat \<Rightarrow> string) \<Rightarrow> int \<Rightarrow> string \<Rightarrow> user \<Rightarrow> string \<Rightarrow> string option \<Rightarrow> world \<Rightarrow> proposal res \<times> world"
where
  "reject_subject ids now i actor reason note w =
     (case get_subject_proposal i w of
        Inl e \<Rightarrow> fail e w
      | Inr p \<Rightarrow>
          (case assert_subject_proposal_scope actor p w of
             Inl e \<Rightarrow> fail e w
           | Inr _ \<Rightarrow> reject_proposal ids now (SubjectProposal p) SUBJECT actor reason note w))"

section \<open>Reports on catalog entries\<close>

definition reported_name :: "string \<Rightarrow> string \<Rightarrow> world \<Rightarrow> string res" where
  "reported_name entity_type entity_id w =
     (if entity_type = ''university'' then map_sum id un_name (require_university entity_id w)
      else if entity_type = ''faculty'' then map_sum id fa_name (require_faculty entity_id w)
      else if entity_type = ''subject'' then map_sum id su_name (require_subject entity_id w)
      else Inl (ValidationAppError ''Invalid entity type''))"

definition create_catalog_report ::
  "string \<Rightarrow> int \<Rightarrow> string \<Rightarrow> string \<Rightarrow> string \<Rightarrow> string option \<Rightarrow> user \<Rightarrow> world \<Rightarrow> catalog_report res \<times> world"
where
  "create_catalog_report i now entity_type entity_id reason details user w =
     (case reported_name entity_type entity_id w of
        Inl e \<Rightarrow> fail e w
      | Inr entity_name \<Rightarrow>
          (let report = \<lparr>cr_id = i, cr_entity_type = entity_type, cr_entity_id = entity_id,
                 cr_entity_name = entity_name, cr_reporter_id = u_id user, cr_reviewer_id = None,
                 cr_reason = reason, cr_details = details, cr_status = ReportOpen,
                 cr_resolution_note = None, cr_reviewed_at = None, cr_created_at = now\<rparr>
           in ok report (w\<lparr>db_catalog_reports := db_catalog_reports w @ [report]\<rparr>)))"

definition list_catalog_reports ::
  "int \<Rightarrow> int \<Rightarrow> report_status option \<Rightarrow> string option \<Rightarrow> world \<Rightarrow> (catalog_report list \<times> int) res"
where
  "list_catalog_reports page page_size status entity_type w =
     (let rows = order_by_desc cr_created_at
            (filter (\<lambda>r. (case status of None \<Rightarrow> True | Some s \<Rightarrow> cr_status r = s) \<and>
               (truthy entity_type \<longrightarrow> Some (cr_entity_type r) = entity_type)) (db_catalog_reports w))
      in map_sum id (\<lambda>items. (items, int (length rows))) (select_page page page_size rows))"

definition get_catalog_report :: "string \<Rightarrow> world \<Rightarrow> catalog_report res" where
  "get_catalog_report i w =
     (case find (\<lambda>r. cr_id r = i) (db_catalog_reports w) of
        None \<Rightarrow> Inl (ResourceNotFound ''Report not found'') | Some r \<Rightarrow> Inr r)"

definition close_catalog_report ::
  "report_status \<Rightarrow> int \<Rightarrow> string \<Rightarrow> user \<Rightarrow> string option \<Rightarrow> world \<Rightarrow> catalog_report res \<times> world"
where
  "close_catalog_report status now i reviewer note w =
     (case get_catalog_report i w of
        Inl e \<Rightarrow> fail e w
      | Inr r \<Rightarrow>
          (let r' = r\<lparr>cr_status := status, cr_reviewer_id := Some (u_id reviewer),
                     cr_resolution_note := note, cr_reviewed_at := Some now\<rparr>
           in ok r' (w\<lparr>db_catalog_reports := store_row cr_id r' (db_catalog_reports w)\<rparr>)))"

definition resolve_catalog_report where
  "resolve_catalog_report = close_catalog_report ReportResolved"

definition dismiss_catalog_report where
  "dismiss_catalog_report = close_catalog_report ReportDismissed"

end
