(* ===== verification/TelegramLink.thy ===== *)
theory TelegramLink
  imports CatalogProposals
begin

text \<open>
  \<^verbatim>\<open>app/modules/telegram/service.py\<close>: the link between an account of the platform and a Telegram
  account, made with a token or a code that the platform hands out and the bot brings back, and
  the moderation through the bot, on behalf of the account that is linked.

  \<open>ids\<close> numbers the identifiers of a request: 0 the new row, 1 the audit row, 2 the token, 3 the
  code, from 4 on the events.
\<close>

section \<open>Queries\<close>

definition get_session_by_token :: "externals \<Rightarrow> string \<Rightarrow> world \<Rightarrow> telegram_link_session option res" where
  "get_session_by_token x token w =
     scalar_one_or_none (filter (\<lambda>s. ts_token_hash s = sha256_text x token) (db_telegram_link_sessions w))"

definition get_session_by_code :: "externals \<Rightarrow> string \<Rightarrow> world \<Rightarrow> telegram_link_session option res" where
  "get_session_by_code x code w =
     scalar_one_or_none (filter (\<lambda>s. ts_code_hash s = sha256_text x code) (db_telegram_link_sessions w))"

definition get_active_link_by_user_id :: "string \<Rightarrow> world \<Rightarrow> telegram_link option res" where
  "get_active_link_by_user_id uid w =
     scalar_one_or_none (filter (\<lambda>l. tl_user_id l = uid \<and> tl_is_active l) (db_telegram_links w))"

definition get_link_by_user_id :: "string \<Rightarrow> world \<Rightarrow> telegram_link option res" where
  "get_link_by_user_id uid w = scalar_one_or_none (filter (\<lambda>l. tl_user_id l = uid) (db_telegram_links w))"

definition get_active_link_by_telegram_user_id :: "int \<Rightarrow> world \<Rightarrow> telegram_link option res" where
  "get_active_link_by_telegram_user_id tid w =
     scalar_one_or_none (filter (\<lambda>l. tl_telegram_user_id l = tid \<and> tl_is_active l) (db_telegram_links w))"

definition get_link_by_telegram_user_id :: "int \<Rightarrow> world \<Rightarrow> telegram_link option res" where
  "get_link_by_telegram_user_id tid w =
     scalar_one_or_none (filter (\<lambda>l. tl_telegram_user_id l = tid) (db_telegram_links w))"

definition load_user :: "string \<Rightarrow> world \<Rightarrow> user res" where
  "load_user uid w =
     (case get_user uid w of None \<Rightarrow> Inl (ResourceNotFound ''User not found'') | Some u \<Rightarrow> Inr u)"

record platform_identity =
  pi_id :: string
  pi_display_name :: string
  pi_role :: string
  pi_is_active :: bool

definition build_platform_identity :: "user \<Rightarrow> platform_identity" where
  "build_platform_identity user =
     \<lparr>pi_id = u_id user, pi_display_name = u_full_name user, pi_role = role_value (u_role user),
      pi_is_active = u_is_active user\<rparr>"

section \<open>Link sessions\<close>

record link_session_read =
  lr_session_id :: string
  lr_deep_link_url :: string
  lr_manual_code :: string
  lr_expires_at :: int
  lr_expires_in_seconds :: int

definition build_deep_link_url :: "settings \<Rightarrow> string \<Rightarrow> string res" where
  "build_deep_link_url st token =
     (if \<not> truthy (telegram_bot_username st)
      then Inl (RuntimeError ''TELEGRAM_BOT_USERNAME is not configured'')
      else Inr (''https://t.me/'' @ the (telegram_bot_username st) @ ''?start=link_'' @ token))"

text \<open>
  The address is built after the commit. The audit row names no session, whose identifier is
  given by the flush. The hashes of all sessions are unique.
\<close>

definition revoke_link_sessions :: "int \<Rightarrow> string \<Rightarrow> world \<Rightarrow> world" where
  "revoke_link_sessions now uid w =
     w\<lparr>db_telegram_link_sessions := update_where (\<lambda>s. ts_user_id s = uid \<and> ts_is_active s)
        (\<lambda>s. s\<lparr>ts_is_active := False, ts_revoked_at := Some now\<rparr>) (db_telegram_link_sessions w)\<rparr>"

definition create_link_session ::
  "externals \<Rightarrow> settings \<Rightarrow> (nat \<Rightarrow> string) \<Rightarrow> int \<Rightarrow> user \<Rightarrow> world \<Rightarrow> link_session_read res \<times> world"
where
  "create_link_session x st ids now user w =
     (let w1 = revoke_link_sessions now (u_id user) w;
          token = ids 2; manual_code = ''TG-'' @ ids 3;
          expires_at = now + seconds (telegram_link_session_ttl_seconds st);
          s = \<lparr>ts_id = ids 0, ts_user_id = u_id user, ts_token_hash = sha256_text x token,
               ts_code_hash = sha256_text x manual_code, ts_expires_at = expires_at, ts_used_at = None,
               ts_revoked_at = None, ts_is_active = True, ts_created_at = now\<rparr>
      in if list_ex (\<lambda>r. ts_id r = ts_id s \<or> ts_token_hash r = ts_token_hash s \<or> ts_code_hash r = ts_code_hash s)
              (db_telegram_link_sessions w1)
         then fail IntegrityError w
         else
           (let w2 = audit (ids 1) now ''telegram_link_session_created'' ''telegram_link_session'' (Some user)
                  None None (w1\<lparr>db_telegram_link_sessions := db_telegram_link_sessions w1 @ [s]\<rparr>)
            in case build_deep_link_url st token of
                 Inl e \<Rightarrow> fail e w2
               | Inr url \<Rightarrow>
                   ok \<lparr>lr_session_id = ts_id s, lr_deep_link_url = url, lr_manual_code = manual_code,
                       lr_expires_at = expires_at,
                       lr_expires_in_seconds = telegram_link_session_ttl_seconds st\<rparr> w2))"

record link_status =
  ls_is_linked :: bool
  ls_telegram_username :: "string option"
  ls_telegram_first_name :: "string option"
  ls_linked_at :: "int option"

definition get_link_status :: "user \<Rightarrow> world \<Rightarrow> link_status res" where
  "get_link_status user w =
     (case get_active_link_by_user_id (u_id user) w of
        Inl e \<Rightarrow> Inl e
      | Inr None \<Rightarrow> Inr \<lparr>ls_is_linked = False, ls_telegram_username = None,
          ls_telegram_first_name = None, ls_linked_at = None\<rparr>
      | Inr (Some l) \<Rightarrow> Inr \<lparr>ls_is_linked = True, ls_telegram_username = tl_telegram_username l,
          ls_telegram_first_name = tl_telegram_first_name l, ls_linked_at = Some (tl_linked_at l)\<rparr>)"

section \<open>Linking\<close>

record telegram_user =
  tg_user_id :: int
  tg_username :: "string option"
  tg_first_name :: "string option"
  tg_last_name :: "string option"
  tg_language_code :: "string option"

record link_response =
  ir_status :: string
  ir_platform_user :: "platform_identity option"

definition plain_status :: "string \<Rightarrow> link_response" where
  "plain_status s = \<lparr>ir_status = s, ir_platform_user = None\<rparr>"

definition store_session :: "telegram_link_session \<Rightarrow> world \<Rightarrow> world" where
  "store_session s w =
     w\<lparr>db_telegram_link_sessions := store_row ts_id s (db_telegram_link_sessions w)\<rparr>"

text \<open>The row to use again, and the tables without the one that goes.\<close>

definition resolve_link_record ::
  "telegram_link option \<Rightarrow> telegram_link option \<Rightarrow> world \<Rightarrow> telegram_link option \<times> world"
where
  "resolve_link_record existing_user_link existing_telegram_link w =
     (case (existing_user_link, existing_telegram_link) of
        (Some ul, Some gl) \<Rightarrow>
          (if tl_id ul = tl_id gl then (Some ul, w)
           else (Some ul, w\<lparr>db_telegram_links := delete_where (\<lambda>l. tl_id l = tl_id gl) (db_telegram_links w)\<rparr>))
      | (Some ul, None) \<Rightarrow> (Some ul, w)
      | (None, Some gl) \<Rightarrow> (Some gl, w)
      | (None, None) \<Rightarrow> (None, w))"

definition linked :: "telegram_user \<Rightarrow> user \<Rightarrow> int \<Rightarrow> telegram_link \<Rightarrow> telegram_link" where
  "linked tg user now l =
     l\<lparr>tl_user_id := u_id user, tl_telegram_user_id := tg_user_id tg,
       tl_telegram_username := tg_username tg, tl_telegram_first_name := tg_first_name tg,
       tl_telegram_last_name := tg_last_name tg, tl_language_code := tg_language_code tg,
       tl_linked_at := now, tl_unlinked_at := None, tl_is_active := True\<rparr>"

text \<open>A new row, with the identifier the flush gives it; the audit row is made before the flush.\<close>

definition save_link ::
  "(nat \<Rightarrow> string) \<Rightarrow> int \<Rightarrow> telegram_user \<Rightarrow> user \<Rightarrow> telegram_link option \<Rightarrow> world \<Rightarrow> telegram_link \<times> world"
where
  "save_link ids now tg user existing w =
     (case existing of
        Some l \<Rightarrow>
          (let l' = linked tg user now l
           in (l', w\<lparr>db_telegram_links := store_row tl_id l' (db_telegram_links w)\<rparr>))
      | None \<Rightarrow>
          (let l' = linked tg user now
                 \<lparr>tl_id = ids 0, tl_user_id = u_id user, tl_telegram_user_id = tg_user_id tg,
                  tl_telegram_username = None, tl_telegram_first_name = None, tl_telegram_last_name = None,
                  tl_language_code = None, tl_linked_at = now, tl_unlinked_at = None, tl_is_active = True\<rparr>
           in (l', w\<lparr>db_telegram_links := db_telegram_links w @ [l']\<rparr>)))"

definition link_accounts ::
  "(nat \<Rightarrow> string) \<Rightarrow> int \<Rightarrow> telegram_link_session \<Rightarrow> telegram_user \<Rightarrow> user \<Rightarrow> telegram_link option \<Rightarrow>
   telegram_link option \<Rightarrow> world \<Rightarrow> link_response res \<times> world"
where
  "link_accounts ids now s tg user user_link telegram_link w =
     (let (existing, w1) = resolve_link_record user_link telegram_link w;
          (l, w2) = save_link ids now tg user existing w1;
          w3 = store_session (s\<lparr>ts_used_at := Some now, ts_is_active := False\<rparr>) w2;
          w4 = audit (ids 1) now ''telegram_linked'' ''telegram_link'' (Some user)
                 (map_option tl_id existing) (Some (str_int (tg_user_id tg))) w3
      in case enqueue_telegram_account_linked_events ids 4 now user l w4 of
           (Inl e, _) \<Rightarrow> fail e w
         | (Inr _, w5) \<Rightarrow>
             ok \<lparr>ir_status = ''linked_successfully'', ir_platform_user = Some (build_platform_identity user)\<rparr> w5)"

definition consume_link_session ::
  "(nat \<Rightarrow> string) \<Rightarrow> int \<Rightarrow> telegram_link_session \<Rightarrow> telegram_user \<Rightarrow> string \<Rightarrow> string \<Rightarrow> world \<Rightarrow>
   link_response res \<times> world"
where
  "consume_link_session ids now s tg invalid_status expired_status w =
     (if ts_used_at s \<noteq> None
      then ok (plain_status (if invalid_status = ''invalid_code'' then ''used_code'' else ''token_used'')) w
      else if \<not> ts_is_active s \<or> ts_revoked_at s \<noteq> None then ok (plain_status invalid_status) w
      else if ts_expires_at s \<le> now
      then ok (plain_status expired_status) (store_session (s\<lparr>ts_is_active := False\<rparr>) w)
      else
        (case load_user (ts_user_id s) w of
           Inl e \<Rightarrow> fail e w
         | Inr user \<Rightarrow>
             (case get_link_by_user_id (u_id user) w of
                Inl e \<Rightarrow> fail e w
              | Inr user_link \<Rightarrow>
                  (if (case user_link of None \<Rightarrow> False
                       | Some l \<Rightarrow> tl_is_active l \<and> tl_telegram_user_id l = tg_user_id tg)
                   then ok \<lparr>ir_status = ''already_linked_to_this_account'',
                            ir_platform_user = Some (build_platform_identity user)\<rparr>
                          (store_session (s\<lparr>ts_used_at := Some now, ts_is_active := False\<rparr>) w)
                   else
                     (case get_link_by_telegram_user_id (tg_user_id tg) w of
                        Inl e \<Rightarrow> fail e w
                      | Inr telegram_link \<Rightarrow>
                          (if (case telegram_link of None \<Rightarrow> False
                               | Some l \<Rightarrow> tl_is_active l \<and> tl_user_id l \<noteq> u_id user)
                           then ok (plain_status ''telegram_account_already_used'') w
                           else if (case user_link of None \<Rightarrow> False
                               | Some l \<Rightarrow> tl_is_active l \<and> tl_telegram_user_id l \<noteq> tg_user_id tg)
                           then ok (plain_status ''platform_account_has_another_telegram'') w
                           else link_accounts ids now s tg user user_link telegram_link w))))))"

definition consume_token ::
  "externals \<Rightarrow> (nat \<Rightarrow> string) \<Rightarrow> int \<Rightarrow> string \<Rightarrow> telegram_user \<Rightarrow> world \<Rightarrow> link_response res \<times> world"
where
  "consume_token x ids now token tg w =
     (case get_session_by_token x token w of
        Inl e \<Rightarrow> fail e w
      | Inr None \<Rightarrow> ok (plain_status ''token_invalid'') w
      | Inr (Some s) \<Rightarrow> consume_link_session ids now s tg ''token_invalid'' ''token_expired'' w)"

definition verify_code ::
  "externals \<Rightarrow> (nat \<Rightarrow> string) \<Rightarrow> int \<Rightarrow> string \<Rightarrow> telegram_user \<Rightarrow> world \<Rightarrow> link_response res \<times> world"
where
  "verify_code x ids now code tg w =
     (case get_session_by_code x code w of
        Inl e \<Rightarrow> fail e w
      | Inr None \<Rightarrow> ok (plain_status ''invalid_code'') w
      | Inr (Some s) \<Rightarrow> consume_link_session ids now s tg ''invalid_code'' ''expired_code'' w)"

section \<open>Unlinking\<close>

definition unlinked :: "int \<Rightarrow> telegram_link \<Rightarrow> telegram_link" where
  "unlinked now l = l\<lparr>tl_is_active := False, tl_unlinked_at := Some now\<rparr>"

definition remove_link ::
  "(nat \<Rightarrow> string) \<Rightarrow> int \<Rightarrow> string \<Rightarrow> string option \<Rightarrow> user \<Rightarrow> telegram_link \<Rightarrow> world \<Rightarrow> unit res \<times> world"
where
  "remove_link ids now action details user l w =
     (let l' = unlinked now l;
          w1 = audit (ids 1) now action ''telegram_link'' (Some user) (Some (tl_id l)) details
                 (w\<lparr>db_telegram_links := store_row tl_id l' (db_telegram_links w)\<rparr>)
      in case enqueue_telegram_account_unlinked_events ids 4 now user l' w1 of
           (Inl e, _) \<Rightarrow> fail e w
         | (Inr _, w2) \<Rightarrow> ok () w2)"

definition unlink :: "(nat \<Rightarrow> string) \<Rightarrow> int \<Rightarrow> user \<Rightarrow> world \<Rightarrow> unit res \<times> world" where
  "unlink ids now user w =
     (case get_active_link_by_user_id (u_id user) w of
        Inl e \<Rightarrow> fail e w
      | Inr None \<Rightarrow> fail (ResourceNotFound ''Telegram link not found'') w
      | Inr (Some l) \<Rightarrow> remove_link ids now ''telegram_unlinked'' None user l w)"

definition unlink_by_telegram_user_id ::
  "(nat \<Rightarrow> string) \<Rightarrow> int \<Rightarrow> int \<Rightarrow> world \<Rightarrow> link_response res \<times> world"
where
  "unlink_by_telegram_user_id ids now tid w =
     (case get_active_link_by_telegram_user_id tid w of
        Inl e \<Rightarrow> fail e w
      | Inr None \<Rightarrow> ok (plain_status ''not_linked'') w
      | Inr (Some l) \<Rightarrow>
          (case load_user (tl_user_id l) w of
             Inl e \<Rightarrow> fail e w
           | Inr user \<Rightarrow>
               (case remove_link ids now ''telegram_unlinked_by_internal_service'' (Some (str_int tid)) user l w of
                  (Inl e, w1) \<Rightarrow> fail e w1
                | (Inr _, w1) \<Rightarrow>
                    ok \<lparr>ir_status = ''unlinked'', ir_platform_user = Some (build_platform_identity user)\<rparr> w1)))"

definition get_identity_by_telegram_user_id :: "int \<Rightarrow> world \<Rightarrow> platform_identity option res" where
  "get_identity_by_telegram_user_id tid w =
     (case get_active_link_by_telegram_user_id tid w of
        Inl e \<Rightarrow> Inl e
      | Inr None \<Rightarrow> Inr None
      | Inr (Some l) \<Rightarrow>
          (case load_user (tl_user_id l) w of
             Inl e \<Rightarrow> Inl e | Inr user \<Rightarrow> Inr (Some (build_platform_identity user))))"

section \<open>Moderation through the bot\<close>

text \<open>The account to act for, or the status to answer with.\<close>

definition resolve_actor_from_telegram :: "int \<Rightarrow> world \<Rightarrow> (string + user) res" where
  "resolve_actor_from_telegram tid w =
     (case get_active_link_by_telegram_user_id tid w of
        Inl e \<Rightarrow> Inl e
      | Inr None \<Rightarrow> Inr (Inl ''not_linked'')
      | Inr (Some l) \<Rightarrow>
          (case load_user (tl_user_id l) w of
             Inl e \<Rightarrow> Inl e
           | Inr user \<Rightarrow> Inr (if \<not> u_is_active user then Inl ''forbidden'' else Inr user)))"

definition get_any_proposal :: "string \<Rightarrow> world \<Rightarrow> (proposal \<times> string) option" where
  "get_any_proposal i w =
     (case find (\<lambda>p. up_id p = i) (db_university_proposals w) of
        Some p \<Rightarrow> Some (UniversityProposal p, ''university'')
      | None \<Rightarrow>
          (case find (\<lambda>p. fp_id p = i) (db_faculty_proposals w) of
             Some p \<Rightarrow> Some (FacultyProposal p, ''faculty'')
           | None \<Rightarrow>
               (case find (\<lambda>p. sp_id p = i) (db_subject_proposals w) of
                  Some p \<Rightarrow> Some (SubjectProposal p, ''subject'')
                | None \<Rightarrow> None)))"

definition require_any_proposal :: "string \<Rightarrow> world \<Rightarrow> (proposal \<times> string) res" where
  "require_any_proposal i w =
     (case get_any_proposal i w of
        None \<Rightarrow> Inl (ResourceNotFound ''Proposal not found'') | Some p \<Rightarrow> Inr p)"

fun map_exception :: "app_error \<Rightarrow> string" where
  "map_exception (PermissionDenied _) = ''forbidden''"
| "map_exception (ResourceNotFound _) = ''not_found''"
| "map_exception (ConflictError _) = ''already_processed''"
| "map_exception _ = ''invalid_state''"

definition empty_approval :: proposal_approval where
  "empty_approval = \<lparr>pa_canonical_name = None, pa_canonical_slug = None, pa_canonical_description = None,
     pa_canonical_code = None, pa_note = None\<rparr>"

definition approve_by_type ::
  "externals \<Rightarrow> (nat \<Rightarrow> string) \<Rightarrow> int \<Rightarrow> string \<Rightarrow> string \<Rightarrow> user \<Rightarrow> world \<Rightarrow> proposal res \<times> world"
where
  "approve_by_type x ids now proposal_type i actor w =
     (if proposal_type = ''university'' then approve_university x ids now i actor empty_approval w
      else if proposal_type = ''faculty'' then approve_faculty x ids now i actor empty_approval w
      else approve_subject x ids now i actor empty_approval w)"

definition reject_by_type ::
  "(nat \<Rightarrow> string) \<Rightarrow> int \<Rightarrow> string \<Rightarrow> string \<Rightarrow> user \<Rightarrow> string \<Rightarrow> world \<Rightarrow> proposal res \<times> world"
where
  "reject_by_type ids now proposal_type i actor reason w =
     (if proposal_type = ''university'' then reject_university ids now i actor reason None w
      else if proposal_type = ''faculty'' then reject_faculty ids now i actor reason None w
      else reject_subject ids now i actor reason None w)"

record 'a bot_response =
  br_status :: string
  br_moderated :: "'a option"
  br_moderated_by :: "(string \<times> string) option"

definition bot_status :: "string \<Rightarrow> 'a bot_response" where
  "bot_status s = \<lparr>br_status = s, br_moderated = None, br_moderated_by = None\<rparr>"

text \<open>What the five methods share: an error of the decision becomes a status.\<close>

definition answer_decision :: "string \<Rightarrow> user \<Rightarrow> world \<Rightarrow> 'a res \<times> world \<Rightarrow> 'a bot_response res \<times> world" where
  "answer_decision status actor w outcome =
     (case outcome of
        (Inl e, _) \<Rightarrow> ok (bot_status (map_exception e)) w
      | (Inr moderated, w') \<Rightarrow>
          ok \<lparr>br_status = status, br_moderated = Some moderated,
              br_moderated_by = Some (u_id actor, u_full_name actor)\<rparr> w')"

definition approve_proposal_by_bot ::
  "externals \<Rightarrow> (nat \<Rightarrow> string) \<Rightarrow> int \<Rightarrow> string \<Rightarrow> int \<Rightarrow> world \<Rightarrow> proposal bot_response res \<times> world"
where
  "approve_proposal_by_bot x ids now i tid w =
     (case resolve_actor_from_telegram tid w of
        Inl e \<Rightarrow> fail e w
      | Inr (Inl status) \<Rightarrow> ok (bot_status status) w
      | Inr (Inr actor) \<Rightarrow>
          (case get_any_proposal i w of
             None \<Rightarrow> ok (bot_status ''not_found'') w
           | Some (_, proposal_type) \<Rightarrow>
               answer_decision ''approved'' actor w (approve_by_type x ids now proposal_type i actor w)))"

definition reject_proposal_by_bot ::
  "(nat \<Rightarrow> string) \<Rightarrow> int \<Rightarrow> string \<Rightarrow> int \<Rightarrow> string \<Rightarrow> world \<Rightarrow> proposal bot_response res \<times> world"
where
  "reject_proposal_by_bot ids now i tid reason w =
     (case resolve_actor_from_telegram tid w of
        Inl e \<Rightarrow> fail e w
      | Inr (Inl status) \<Rightarrow> ok (bot_status status) w
      | Inr (Inr actor) \<Rightarrow>
          (case get_any_proposal i w of
             None \<Rightarrow> ok (bot_status ''not_found'') w
           | Some (_, proposal_type) \<Rightarrow>
               answer_decision ''rejected'' actor w (reject_by_type ids now proposal_type i actor reason w)))"

definition approve_material_by_bot ::
  "settings \<Rightarrow> (nat \<Rightarrow> string) \<Rightarrow> int \<Rightarrow> string \<Rightarrow> int \<Rightarrow> world \<Rightarrow> material option bot_response res \<times> world"
where
  "approve_material_by_bot st ids now i tid w =
     (case resolve_actor_from_telegram tid w of
        Inl e \<Rightarrow> fail e w
      | Inr (Inl status) \<Rightarrow> ok (bot_status status) w
      | Inr (Inr actor) \<Rightarrow> answer_decision ''approved'' actor w (approve st ids now i actor w))"

definition reject_material_by_bot ::
  "settings \<Rightarrow> (nat \<Rightarrow> string) \<Rightarrow> int \<Rightarrow> string \<Rightarrow> int \<Rightarrow> reject_reason \<Rightarrow> string option \<Rightarrow> world \<Rightarrow>
   material option bot_response res \<times> world"
where
  "reject_material_by_bot st ids now i tid reason note w =
     (case resolve_actor_from_telegram tid w of
        Inl e \<Rightarrow> fail e w
      | Inr (Inl status) \<Rightarrow> ok (bot_status status) w
      | Inr (Inr actor) \<Rightarrow> answer_decision ''rejected'' actor w (reject st ids now i reason note actor w))"

definition request_material_revision_by_bot ::
  "settings \<Rightarrow> (nat \<Rightarrow> string) \<Rightarrow> int \<Rightarrow> string \<Rightarrow> int \<Rightarrow> reject_reason \<Rightarrow> string option \<Rightarrow> world \<Rightarrow>
   material option bot_response res \<times> world"
where
  "request_material_revision_by_bot st ids now i tid reason note w =
     (case resolve_actor_from_telegram tid w of
        Inl e \<Rightarrow> fail e w
      | Inr (Inl status) \<Rightarrow> ok (bot_status status) w
      | Inr (Inr actor) \<Rightarrow>
          answer_decision ''revision_requested'' actor w (request_revision st ids now i reason note actor w))"

section \<open>Lists and messages for the bot\<close>

definition pluralize_proposal_type :: "string \<Rightarrow> string" where
  "pluralize_proposal_type t =
     (if t = ''university'' then ''universities'' else if t = ''faculty'' then ''faculties''
      else if t = ''subject'' then ''subjects'' else t)"

definition get_any_admin_user :: "world \<Rightarrow> user res" where
  "get_any_admin_user w =
     (case order_by u_created_at (filter (\<lambda>u. u_role u = ADMIN) (db_users w)) of
        [] \<Rightarrow> Inl (ResourceNotFound ''Admin user not found'') | u # _ \<Rightarrow> Inr u)"

record proposal_list_item =
  li_id :: string
  li_proposal_type :: string
  li_title :: string
  li_created_at :: int
  li_submitted_by_name :: "string option"

fun proposal_created_at :: "proposal \<Rightarrow> int" where
  "proposal_created_at (UniversityProposal p) = up_created_at p"
| "proposal_created_at (FacultyProposal p) = fp_created_at p"
| "proposal_created_at (SubjectProposal p) = sp_created_at p"

definition list_item :: "string \<Rightarrow> world \<Rightarrow> proposal \<Rightarrow> proposal_list_item" where
  "list_item singular_type w p =
     \<lparr>li_id = proposal_id p, li_proposal_type = singular_type, li_title = proposal_proposed_name p,
      li_created_at = proposal_created_at p,
      li_submitted_by_name = map_option u_full_name (get_user (proposal_created_by p) w)\<rparr>"

text \<open>\<open>key[:-1]\<close> of the three keys: the singular of the first two is not a proposal type.\<close>

definition list_pending_proposals_for_bot ::
  "string option \<Rightarrow> int \<Rightarrow> int \<Rightarrow> world \<Rightarrow> (proposal_list_item list \<times> int) res"
where
  "list_pending_proposals_for_bot proposal_type limit offset w =
     (let type_filter = (if truthy proposal_type then Some (pluralize_proposal_type (the proposal_type)) else None)
      in case get_any_admin_user w of
           Inl e \<Rightarrow> Inl e
         | Inr admin_actor \<Rightarrow>
             (case list_pending_proposals admin_actor type_filter w of
                Inl e \<Rightarrow> Inl e
              | Inr (us, fs, ss) \<Rightarrow>
                  (let flattened =
                         map (list_item (butlast ''universities'') w \<circ> UniversityProposal) us @
                         map (list_item (butlast ''faculties'') w \<circ> FacultyProposal) fs @
                         map (list_item (butlast ''subjects'') w \<circ> SubjectProposal) ss;
                       flattened = sort_key li_created_at flattened
                   in Inr (take (nat limit) (drop (nat offset) flattened), int (length flattened)))))"

fun proposed_description :: "proposal \<Rightarrow> string option" where
  "proposed_description (UniversityProposal p) = up_proposed_description p"
| "proposed_description (FacultyProposal p) = fp_proposed_description p"
| "proposed_description (SubjectProposal p) = sp_proposed_description p"

fun build_scope :: "proposal \<Rightarrow> (string \<times> string option) list" where
  "build_scope (UniversityProposal p) = [(''university_id'', None)]"
| "build_scope (FacultyProposal p) = [(''university_id'', Some (fp_university_id p))]"
| "build_scope (SubjectProposal p) = [(''faculty_id'', Some (sp_faculty_id p))]"

record proposal_detail =
  pd_id :: string
  pd_status :: proposal_status
  pd_proposal_type :: string
  pd_title :: string
  pd_description :: "string option"
  pd_submitted_by :: "string \<times> string"
  pd_scope :: "(string \<times> string option) list"
  pd_created_at :: int

definition get_proposal_detail :: "string \<Rightarrow> world \<Rightarrow> proposal_detail res" where
  "get_proposal_detail i w =
     (case require_any_proposal i w of
        Inl e \<Rightarrow> Inl e
      | Inr (p, proposal_type) \<Rightarrow>
          (case load_user (proposal_created_by p) w of
             Inl e \<Rightarrow> Inl e
           | Inr creator \<Rightarrow>
               Inr \<lparr>pd_id = proposal_id p, pd_status = proposal_status_of p,
                    pd_proposal_type = proposal_type, pd_title = proposal_proposed_name p,
                    pd_description = proposed_description p,
                    pd_submitted_by = (u_id creator, u_full_name creator),
                    pd_scope = build_scope p, pd_created_at = proposal_created_at p\<rparr>))"

record proposal_message =
  pm_proposal_id :: string
  pm_proposal_type :: string
  pm_title :: string
  pm_description :: "string option"
  pm_submitted_by_name :: string
  pm_created_at :: int
  pm_approve_callback_data :: string
  pm_reject_callback_data :: string

definition get_proposal_message_payload :: "string \<Rightarrow> world \<Rightarrow> proposal_message res" where
  "get_proposal_message_payload i w =
     (case require_any_proposal i w of
        Inl e \<Rightarrow> Inl e
      | Inr (p, proposal_type) \<Rightarrow>
          (case load_user (proposal_created_by p) w of
             Inl e \<Rightarrow> Inl e
           | Inr creator \<Rightarrow>
               Inr \<lparr>pm_proposal_id = proposal_id p, pm_proposal_type = proposal_type,
                    pm_title = proposal_proposed_name p, pm_description = proposed_description p,
                    pm_submitted_by_name = u_full_name creator, pm_created_at = proposal_created_at p,
                    pm_approve_callback_data = ''proposal:approve:'' @ proposal_id p,
                    pm_reject_callback_data = ''proposal:reject:'' @ proposal_id p\<rparr>))"

record registration_message =
  rm_user_id :: string
  rm_full_name :: string
  rm_email :: string
  rm_university_name :: "string option"
  rm_registered_at :: int

definition get_user_registration_message_payload :: "string \<Rightarrow> world \<Rightarrow> registration_message res" where
  "get_user_registration_message_payload uid w =
     (case load_user uid w of
        Inl e \<Rightarrow> Inl e
      | Inr user \<Rightarrow>
          Inr \<lparr>rm_user_id = u_id user, rm_full_name = u_full_name user, rm_email = u_email user,
               rm_university_name = (case u_university_id user of None \<Rightarrow> None
                 | Some i \<Rightarrow> map_option un_name (get_university i w)),
               rm_registered_at = u_created_at user\<rparr>)"

end
