(* ===== verification/CatalogFacts.thy ===== *)
theory CatalogFacts
  imports CatalogProposals
begin

text \<open>
  The catalog over all its operations: the tables keep every unique and foreign key, the tree
  holds each row once in its place, a proposal is decided once, by somebody entitled to, and
  whoever is told of a proposal finds it in the list.
\<close>

section \<open>The tables\<close>

text \<open>
  What the schema promises: keys and slugs are unique, and every reference, of a faculty, a
  subject, a material, a scope, a proposal or a user, names a row that is there.
\<close>

definition ids_of :: "('r \<Rightarrow> string) \<Rightarrow> 'r list \<Rightarrow> string set" where
  "ids_of k rows = set (map k rows)"

definition refer :: "('r \<Rightarrow> string option) \<Rightarrow> 'r list \<Rightarrow> string set \<Rightarrow> bool" where
  "refer k rows keys \<longleftrightarrow> (\<forall>r\<in>set rows. \<forall>i. k r = Some i \<longrightarrow> i \<in> keys)"

definition catalog_ok :: "world \<Rightarrow> bool" where
  "catalog_ok w \<longleftrightarrow>
     (let us = ids_of un_id (db_universities w); fs = ids_of fa_id (db_faculties w);
          ss = ids_of su_id (db_subjects w) in
      distinct (map un_id (db_universities w)) \<and> distinct (map un_slug (db_universities w)) \<and>
      distinct (map fa_id (db_faculties w)) \<and>
      distinct (map (\<lambda>f. (fa_university_id f, fa_slug f)) (db_faculties w)) \<and>
      distinct (map su_id (db_subjects w)) \<and>
      distinct (map (\<lambda>s. (su_faculty_id s, su_slug s)) (db_subjects w)) \<and>
      refer (Some \<circ> fa_university_id) (db_faculties w) us \<and>
      refer (Some \<circ> su_faculty_id) (db_subjects w) fs \<and>
      refer (Some \<circ> m_subject_id) (db_materials w) ss \<and>
      refer (Some \<circ> mus_university_id) (db_moderator_university_scopes w) us \<and>
      refer (Some \<circ> mfs_faculty_id) (db_moderator_faculty_scopes w) fs \<and>
      refer (Some \<circ> mss_subject_id) (db_moderator_subject_scopes w) ss \<and>
      refer (Some \<circ> fp_university_id) (db_faculty_proposals w) us \<and>
      refer (Some \<circ> sp_faculty_id) (db_subject_proposals w) fs \<and>
      refer u_university_id (db_users w) us \<and>
      refer up_approved_university_id (db_university_proposals w) us \<and>
      refer fp_approved_faculty_id (db_faculty_proposals w) fs \<and>
      refer sp_approved_subject_id (db_subject_proposals w) ss)"

lemma refer_simps [simp]:
  "refer k [] A"
  "refer k (xs @ ys) A \<longleftrightarrow> refer k xs A \<and> refer k ys A"
  "refer k [r] A \<longleftrightarrow> (\<forall>i. k r = Some i \<longrightarrow> i \<in> A)"
  by (auto simp: refer_def)

lemma refer_mono: "refer k rows A \<Longrightarrow> A \<subseteq> B \<Longrightarrow> refer k rows B"
  by (auto simp: refer_def)

lemma refer_insert: "refer k rows A \<Longrightarrow> refer k rows (insert i A)"
  by (auto simp: refer_def)

lemma refer_subset: "refer k rows A \<Longrightarrow> set rows' \<subseteq> set rows \<Longrightarrow> refer k rows' A"
  by (auto simp: refer_def)

lemma refer_store_row:
  "refer k rows A \<Longrightarrow> (\<And>i. k r = Some i \<Longrightarrow> i \<in> A) \<Longrightarrow> refer k (store_row key r rows) A"
  by (auto simp: refer_def store_row_def in_update_where)

lemma refer_update_where:
  "refer k rows A \<Longrightarrow> (\<And>r i. r \<in> set rows \<Longrightarrow> P r \<Longrightarrow> k (f r) = Some i \<Longrightarrow> i \<in> A) \<Longrightarrow>
     refer k (update_where P f rows) A"
  by (auto simp: refer_def in_update_where)

lemma ids_of_simps [simp]:
  "ids_of k (xs @ ys) = ids_of k xs \<union> ids_of k ys"
  "ids_of k [r] = {k r}"
  "ids_of k (store_row k r rows) = ids_of k rows"
  by (auto simp: ids_of_def map_store_row simp del: set_map simp: map_store_row)

lemma getters_in:
  "get_university i w \<noteq> None \<longleftrightarrow> i \<in> ids_of un_id (db_universities w)"
  "get_faculty i w \<noteq> None \<longleftrightarrow> i \<in> ids_of fa_id (db_faculties w)"
  "get_subject i w \<noteq> None \<longleftrightarrow> i \<in> ids_of su_id (db_subjects w)"
  by (auto simp: lookups find_None_iff ids_of_def)

lemma catalog_ok_logs [simp]:
  "catalog_ok (w\<lparr>db_catalog_proposal_logs := ls\<rparr>) = catalog_ok w"
  "catalog_ok (w\<lparr>db_telegram_event_outbox := es\<rparr>) = catalog_ok w"
  by (simp_all add: catalog_ok_def)

lemma distinct_snoc:
  "distinct (map k (rows @ [r])) \<longleftrightarrow> distinct (map k rows) \<and> list_all (\<lambda>q. k q \<noteq> k r) rows"
  by (auto simp: list_all_iff image_iff)

lemma insert_university_ok:
  assumes "catalog_ok w" "insert_university u w = Inr w'"
  shows "catalog_ok w'"
proof -
  have "distinct (map un_id (db_universities w @ [u]))" "distinct (map un_slug (db_universities w @ [u]))"
    using assms unfolding distinct_snoc
    by (auto simp: insert_university_def catalog_ok_def list_ex_iff list_all_iff Let_def split: if_splits)
  then show ?thesis
    using assms by (auto simp: insert_university_def catalog_ok_def Let_def refer_insert simp del: map_append split: if_splits)
qed

lemma insert_faculty_ok:
  assumes "catalog_ok w" "insert_faculty f w = Inr w'"
  shows "catalog_ok w'"
proof -
  have "distinct (map fa_id (db_faculties w @ [f]))" "distinct (map (\<lambda>f. (fa_university_id f, fa_slug f)) (db_faculties w @ [f]))"
    using assms unfolding distinct_snoc
    by (auto simp: insert_faculty_def catalog_ok_def list_ex_iff list_all_iff Let_def split: if_splits)
  moreover have "fa_university_id f \<in> ids_of un_id (db_universities w)"
    using getters_in(1) [of "fa_university_id f" w] assms(2) by (auto simp: insert_faculty_def split: if_splits)
  ultimately show ?thesis
    using assms by (auto simp: insert_faculty_def catalog_ok_def Let_def refer_insert simp del: map_append split: if_splits)
qed

lemma insert_subject_ok:
  assumes "catalog_ok w" "insert_subject s w = Inr w'"
  shows "catalog_ok w'"
proof -
  have "distinct (map su_id (db_subjects w @ [s]))" "distinct (map (\<lambda>s. (su_faculty_id s, su_slug s)) (db_subjects w @ [s]))"
    using assms unfolding distinct_snoc
    by (auto simp: insert_subject_def catalog_ok_def list_ex_iff list_all_iff Let_def split: if_splits)
  moreover have "su_faculty_id s \<in> ids_of fa_id (db_faculties w)"
    using getters_in(2) [of "su_faculty_id s" w] assms(2) by (auto simp: insert_subject_def split: if_splits)
  ultimately show ?thesis
    using assms by (auto simp: insert_subject_def catalog_ok_def Let_def refer_insert simp del: map_append split: if_splits)
qed

text \<open>A row stored over the one with its key.\<close>

lemma distinct_store_row:
  assumes "distinct (map k rows)" "distinct (map g rows)" "\<And>q. q \<in> set rows \<Longrightarrow> k q \<noteq> k r \<Longrightarrow> g q \<noteq> g r"
  shows "distinct (map g (store_row k r rows))"
  using assms
proof (induction rows)
  case (Cons a rows)
  have IH: "distinct (map g (store_row k r rows))" using Cons by simp
  have other: "g q \<noteq> g a" if "q \<in> set rows" for q
    using Cons.prems(2) imageI [OF that, of g] by auto
  have "g (if k a = k r then r else a) \<notin> g ` set (store_row k r rows)"
  proof
    assume "g (if k a = k r then r else a) \<in> g ` set (store_row k r rows)"
    then obtain q where q: "q \<in> set rows" "g (if k a = k r then r else a) = g (if k q = k r then r else q)"
      by (auto simp: store_row_def set_update_where)
    have "k q \<noteq> k a" using Cons.prems(1) imageI [OF q(1), of k] by auto
    then show False
      using q other [OF q(1)] Cons.prems(3) [of q] Cons.prems(3) [of a] by (auto split: if_splits)
  qed
  with IH show ?case by (simp add: store_row_def)
qed (simp add: store_row_def)

lemma flush_university_ok:
  assumes "catalog_ok w" "flush_university u w = Inr w'"
  shows "catalog_ok w'"
proof -
  have "distinct (map un_slug (store_row un_id u (db_universities w)))"
    using assms by (intro distinct_store_row)
      (auto simp: flush_university_def catalog_ok_def list_ex_iff Let_def split: if_splits)
  with assms show ?thesis
    by (auto simp: flush_university_def catalog_ok_def map_store_row Let_def split: if_splits)
qed

lemma flush_faculty_ok:
  assumes "catalog_ok w" "flush_faculty f w = Inr w'"
  shows "catalog_ok w'"
proof -
  have "distinct (map (\<lambda>f. (fa_university_id f, fa_slug f)) (store_row fa_id f (db_faculties w)))"
    using assms by (intro distinct_store_row)
      (auto simp: flush_faculty_def catalog_ok_def list_ex_iff Let_def split: if_splits)
  moreover have "fa_university_id f \<in> ids_of un_id (db_universities w)"
    using assms(2) getters_in(1) [of "fa_university_id f" w] by (auto simp: flush_faculty_def split: if_splits)
  ultimately show ?thesis
    using assms
    by (auto simp: flush_faculty_def catalog_ok_def map_store_row Let_def intro!: refer_store_row
        split: if_splits)
qed

lemma flush_subject_ok:
  assumes "catalog_ok w" "flush_subject s w = Inr w'"
  shows "catalog_ok w'"
proof -
  have "distinct (map (\<lambda>s. (su_faculty_id s, su_slug s)) (store_row su_id s (db_subjects w)))"
    using assms by (intro distinct_store_row)
      (auto simp: flush_subject_def catalog_ok_def list_ex_iff Let_def split: if_splits)
  moreover have "su_faculty_id s \<in> ids_of fa_id (db_faculties w)"
    using assms(2) getters_in(2) [of "su_faculty_id s" w] by (auto simp: flush_subject_def split: if_splits)
  ultimately show ?thesis
    using assms
    by (auto simp: flush_subject_def catalog_ok_def map_store_row Let_def intro!: refer_store_row
        split: if_splits)
qed

text \<open>Rows that are deleted, with what refers to them.\<close>

lemma refer_deleted:
  assumes "refer k rows (ids_of key keyed)" "distinct (map key keyed)"
    and "\<And>r i. r \<in> set rows' \<Longrightarrow> k r = Some i \<Longrightarrow>
      (\<exists>q\<in>set rows. k q = Some i) \<and> i \<notin> ids_of key (filter P keyed)"
  shows "refer k rows' (ids_of key (delete_where P keyed))"
  using assms unfolding refer_def ids_of_def by (fastforce simp: delete_where_def)

lemma drop_subjects_ok:
  assumes ok: "catalog_ok w" and w': "drop_subjects P w = Inr w'"
  shows "catalog_ok w'"
proof -
  have d: "distinct (map su_id (db_subjects w))" using ok by (simp add: catalog_ok_def Let_def)
  have "refer (Some \<circ> m_subject_id) (db_materials w) (ids_of su_id (delete_where P (db_subjects w)))"
    using ok d w' by (intro refer_deleted [of _ "db_materials w"])
      (auto simp: drop_subjects_def catalog_ok_def Let_def list_ex_iff ids_of_def split: if_splits)
  moreover have "refer (Some \<circ> mss_subject_id)
      (delete_where (\<lambda>s. mss_subject_id s \<in> set (map su_id (filter P (db_subjects w)))) (db_moderator_subject_scopes w))
      (ids_of su_id (delete_where P (db_subjects w)))"
    using ok d by (intro refer_deleted [of _ "db_moderator_subject_scopes w"])
      (auto simp: catalog_ok_def Let_def ids_of_def in_delete_where)
  moreover have "refer sp_approved_subject_id
      (update_where (\<lambda>p. \<exists>i\<in>set (map su_id (filter P (db_subjects w))). sp_approved_subject_id p = Some i)
        (\<lambda>p. p\<lparr>sp_approved_subject_id := None\<rparr>) (db_subject_proposals w))
      (ids_of su_id (delete_where P (db_subjects w)))"
    using ok d by (intro refer_deleted [of _ "db_subject_proposals w"])
      (auto simp: catalog_ok_def Let_def ids_of_def in_update_where)
  moreover have "refer (Some \<circ> sp_faculty_id)
      (update_where (\<lambda>p. \<exists>i\<in>set (map su_id (filter P (db_subjects w))). sp_approved_subject_id p = Some i)
        (\<lambda>p. p\<lparr>sp_approved_subject_id := None\<rparr>) (db_subject_proposals w)) (ids_of fa_id (db_faculties w))"
    using ok by (auto simp: catalog_ok_def Let_def refer_def in_update_where)
  moreover have "refer (Some \<circ> su_faculty_id) (delete_where P (db_subjects w)) (ids_of fa_id (db_faculties w))"
    using ok by (auto simp: catalog_ok_def Let_def refer_def in_delete_where)
  ultimately show ?thesis
    using ok w' unfolding drop_subjects_def catalog_ok_def Let_def
    by (auto simp: distinct_map_delete_where split: if_splits)
qed

lemma drop_faculties_ok:
  assumes ok: "catalog_ok w" and w': "drop_faculties P w = Inr w'"
  shows "catalog_ok w'"
proof -
  let ?gone = "map fa_id (filter P (db_faculties w))"
  obtain w1 where w1: "drop_subjects (\<lambda>s. su_faculty_id s \<in> set ?gone) w = Inr w1"
    using w' by (auto simp: drop_faculties_def Let_def split: sum.splits)
  note ok1 = drop_subjects_ok [OF ok w1]
  have tables: "db_faculties w1 = db_faculties w"
      "db_subjects w1 = delete_where (\<lambda>s. su_faculty_id s \<in> set ?gone) (db_subjects w)"
    using w1 by (auto simp: drop_subjects_def Let_def split: if_splits)
  let ?left = "ids_of fa_id (delete_where P (db_faculties w1))"
  have d: "distinct (map fa_id (db_faculties w1))" using ok1 by (simp add: catalog_ok_def Let_def)
  have "refer (Some \<circ> su_faculty_id) (db_subjects w1) ?left"
    using ok1 d by (intro refer_deleted [of _ "db_subjects w1"])
      (auto simp: catalog_ok_def Let_def tables in_delete_where ids_of_def)
  moreover have "refer (Some \<circ> mfs_faculty_id)
      (delete_where (\<lambda>s. mfs_faculty_id s \<in> set ?gone) (db_moderator_faculty_scopes w1)) ?left"
    using ok1 d by (intro refer_deleted [of _ "db_moderator_faculty_scopes w1"])
      (auto simp: catalog_ok_def Let_def tables in_delete_where ids_of_def)
  moreover have "refer fp_approved_faculty_id
      (update_where (\<lambda>p. \<exists>i\<in>set ?gone. fp_approved_faculty_id p = Some i)
        (\<lambda>p. p\<lparr>fp_approved_faculty_id := None\<rparr>) (db_faculty_proposals w1)) ?left"
    using ok1 d by (intro refer_deleted [of _ "db_faculty_proposals w1"])
      (auto simp: catalog_ok_def Let_def tables in_update_where ids_of_def)
  moreover have "refer (Some \<circ> fp_university_id)
      (update_where (\<lambda>p. \<exists>i\<in>set ?gone. fp_approved_faculty_id p = Some i)
        (\<lambda>p. p\<lparr>fp_approved_faculty_id := None\<rparr>) (db_faculty_proposals w1)) (ids_of un_id (db_universities w1))"
    using ok1 by (intro refer_update_where) (auto simp: catalog_ok_def Let_def refer_def)
  moreover have "refer (Some \<circ> sp_faculty_id)
      (delete_where (\<lambda>p. sp_faculty_id p \<in> set ?gone) (db_subject_proposals w1)) ?left"
    using ok1 d by (intro refer_deleted [of _ "db_subject_proposals w1"])
      (auto simp: catalog_ok_def Let_def tables in_delete_where ids_of_def)
  moreover have "refer sp_approved_subject_id
      (delete_where (\<lambda>p. sp_faculty_id p \<in> set ?gone) (db_subject_proposals w1)) (ids_of su_id (db_subjects w1))"
    using ok1 by (auto simp: catalog_ok_def Let_def refer_def in_delete_where)
  moreover have "refer (Some \<circ> fa_university_id) (delete_where P (db_faculties w1)) (ids_of un_id (db_universities w1))"
    using ok1 by (auto simp: catalog_ok_def Let_def refer_def in_delete_where)
  ultimately show ?thesis
    using ok1 w' w1 unfolding drop_faculties_def catalog_ok_def Let_def
    by (auto simp: distinct_map_delete_where)
qed

lemma drop_faculties_tables:
  assumes "drop_faculties P w = Inr w'"
  shows "db_faculties w' = delete_where P (db_faculties w)" "db_universities w' = db_universities w"
  using assms
  by (auto simp: drop_faculties_def drop_subjects_def Let_def split: sum.splits if_splits)

lemma delete_university_ok:
  assumes ok: "catalog_ok w"
  shows "catalog_ok (snd (delete_university i w))"
proof (cases "require_university i w")
  case (Inr u)
  show ?thesis
  proof (cases "drop_faculties (\<lambda>f. fa_university_id f = un_id u) w")
    case (Inl e)
    with ok Inr show ?thesis by (simp add: delete_university_def)
  next
    case w1: (Inr w1)
    note ok1 = drop_faculties_ok [OF ok w1]
    note t = drop_faculties_tables [OF w1]
    let ?P = "\<lambda>r. un_id r = un_id u"
    let ?left = "ids_of un_id (delete_where ?P (db_universities w1))"
    have d: "distinct (map un_id (db_universities w1))" using ok1 by (simp add: catalog_ok_def Let_def)
    have "refer (Some \<circ> fa_university_id) (db_faculties w1) ?left"
      using ok1 d by (intro refer_deleted [of _ "db_faculties w1"])
        (auto simp: catalog_ok_def Let_def t in_delete_where ids_of_def)
    moreover have "refer (Some \<circ> mus_university_id)
        (delete_where (\<lambda>s. mus_university_id s = un_id u) (db_moderator_university_scopes w1)) ?left"
      using ok1 d by (intro refer_deleted [of _ "db_moderator_university_scopes w1"])
        (auto simp: catalog_ok_def Let_def in_delete_where ids_of_def)
    moreover have "refer (Some \<circ> fp_university_id)
        (delete_where (\<lambda>p. fp_university_id p = un_id u) (db_faculty_proposals w1)) ?left"
      using ok1 d by (intro refer_deleted [of _ "db_faculty_proposals w1"])
        (auto simp: catalog_ok_def Let_def in_delete_where ids_of_def)
    moreover have "refer fp_approved_faculty_id
        (delete_where (\<lambda>p. fp_university_id p = un_id u) (db_faculty_proposals w1))
        (ids_of fa_id (db_faculties w1))"
      using ok1 by (auto simp: catalog_ok_def Let_def refer_def in_delete_where)
    moreover have "refer u_university_id
        (update_where (\<lambda>r. u_university_id r = Some (un_id u)) (\<lambda>r. r\<lparr>u_university_id := None\<rparr>) (db_users w1)) ?left"
      using ok1 d by (intro refer_deleted [of _ "db_users w1"])
        (auto simp: catalog_ok_def Let_def in_update_where ids_of_def)
    moreover have "refer up_approved_university_id
        (update_where (\<lambda>p. up_approved_university_id p = Some (un_id u))
          (\<lambda>p. p\<lparr>up_approved_university_id := None\<rparr>) (db_university_proposals w1)) ?left"
      using ok1 d by (intro refer_deleted [of _ "db_university_proposals w1"])
        (auto simp: catalog_ok_def Let_def in_update_where ids_of_def)
    ultimately show ?thesis
      using ok1 Inr w1 unfolding delete_university_def catalog_ok_def Let_def
      by (auto simp: distinct_map_delete_where)
  qed
qed (use ok in \<open>simp add: delete_university_def\<close>)

lemma catalog_operations_ok:
  assumes "catalog_ok w"
  shows "catalog_ok (snd (create_university x i uc w))" "catalog_ok (snd (update_university x i uu w))"
    "catalog_ok (snd (create_faculty x i fc w))" "catalog_ok (snd (update_faculty x i fu w))"
    "catalog_ok (snd (delete_faculty i w))"
    "catalog_ok (snd (create_subject x i sc w))" "catalog_ok (snd (delete_subject i w))"
  using assms
  by (auto simp: create_university_def update_university_def create_faculty_def update_faculty_def
      delete_faculty_def create_subject_def delete_subject_def Let_def
      intro: insert_university_ok insert_faculty_ok insert_subject_ok flush_university_ok flush_faculty_ok
        drop_faculties_ok drop_subjects_ok split: sum.split option.split)

lemma update_subject_ok:
  assumes "catalog_ok w"
  shows "catalog_ok (snd (update_subject x i sb w))"
  using assms
  by (auto simp: update_subject_def flush_updated_def Let_def intro: flush_subject_ok
      split: sum.split option.split)

section \<open>Proposals and the tables\<close>

text \<open>Queueing an event touches nothing but the outbox.\<close>

definition only_events :: "world \<Rightarrow> world \<Rightarrow> bool" where
  "only_events w w' \<longleftrightarrow> (\<exists>es. w' = w\<lparr>db_telegram_event_outbox := es\<rparr>)"

lemma only_events_refl [simp]: "only_events w w"
  unfolding only_events_def by (rule exI [of _ "db_telegram_event_outbox w"]) simp

lemma only_events_step [simp]: "only_events w (w\<lparr>db_telegram_event_outbox := es\<rparr>)"
  by (auto simp: only_events_def)

lemma only_events_trans: "only_events w w1 \<Longrightarrow> only_events w1 w2 \<Longrightarrow> only_events w w2"
  by (auto simp: only_events_def)

lemma create_event_only: "only_events w (snd (create_event i now ty ety eid r pl ch w))"
  by (auto simp: create_event_def Let_def split: option.split sum.split)

lemma owner_event_only: "only_events w (snd (enqueue_proposal_owner_event i now ty p pt actor note w))"
proof (cases "get_user (proposal_created_by p) w")
  case (Some owner)
  let ?c = "create_event i now ty (Some ''proposal'') (Some (proposal_id p)) owner
      (JObj [(''proposal_id'', JStr (proposal_id p)), (''proposal_type'', JStr pt),
             (''proposed_name'', JStr (proposal_proposed_name p)),
             (''reviewed_by'', reviewer_payload actor), (''note'', jopt note)]) ''telegram_bot'' w"
  have "only_events w (snd ?c)" by (rule create_event_only)
  with Some show ?thesis
    by (cases ?c; cases "fst ?c") (auto simp: enqueue_proposal_owner_event_def)
qed (simp add: enqueue_proposal_owner_event_def)

lemma create_events_only: "only_events w (snd (create_events ids j now ty ety eid pl rs w))"
proof (induction rs arbitrary: j w)
  case (Cons r rs)
  obtain e w1 where e: "create_event (ids j) now ty ety eid r pl ''telegram_bot'' w = (e, w1)" by fastforce
  with create_event_only [of w "ids j" now ty ety eid r pl "''telegram_bot''"]
  have w1: "only_events w w1" by simp
  obtain es w2 where es: "create_events ids (Suc j) now ty ety eid pl rs w1 = (es, w2)" by fastforce
  with Cons [of w1 "Suc j"] have "only_events w1 w2" by simp
  with e es w1 show ?case by (cases e; cases es) (auto intro: only_events_trans)
qed simp

lemma created_events_only: "only_events w (snd (enqueue_proposal_created_events ids j now p pt w))"
  by (simp add: enqueue_proposal_created_events_def create_events_only)

lemma only_events_ok: "only_events w w' \<Longrightarrow> catalog_ok w' = catalog_ok w"
  by (auto simp: only_events_def)

text \<open>What a decision leaves: the reviewed world with a log and events, or the start.\<close>

lemma settle_cases:
  assumes "settle ids now p et action pt ev actor note w0 w = (r, w')"
  obtains (refused) "w' = w0" "\<not> is_ok r"
  | (settled) ls where "r = Inr p" "only_events (w\<lparr>db_catalog_proposal_logs := ls\<rparr>) w'"
proof -
  let ?w = "log_proposal (ids 1) et (proposal_id p) action (u_id actor) note w"
  obtain z w1 where z: "enqueue_proposal_owner_event (ids 2) now ev p pt actor note ?w = (z, w1)" by fastforce
  have "only_events ?w w1" using owner_event_only z by (metis snd_conv)
  moreover have "\<exists>ls. ?w = w\<lparr>db_catalog_proposal_logs := ls\<rparr>" by (auto simp: log_proposal_def)
  ultimately show thesis
    using assms z refused settled by (cases z) (auto simp: settle_def)
qed

lemma submit_cases:
  assumes "submit_proposal ids now p et pt user w = (r, w')"
  obtains (refused) "w' = w" "\<not> is_ok r"
  | (submitted) ls where "r = Inr p" "only_events ((add_proposal p w)\<lparr>db_catalog_proposal_logs := ls\<rparr>) w'"
proof -
  let ?w = "log_proposal (ids 1) et (proposal_id p) ''submitted'' (u_id user) None (add_proposal p w)"
  obtain z w1 where z: "enqueue_proposal_created_events ids 2 now p pt ?w = (z, w1)" by fastforce
  have "only_events ?w w1" using created_events_only z by (metis snd_conv)
  moreover have "\<exists>ls. ?w = (add_proposal p w)\<lparr>db_catalog_proposal_logs := ls\<rparr>" by (auto simp: log_proposal_def)
  ultimately show thesis
    using assms z refused submitted by (cases z) (auto simp: submit_proposal_def)
qed

text \<open>The parent a proposal names, and the entity it was approved as.\<close>

fun entity_ids :: "proposal \<Rightarrow> world \<Rightarrow> string set" where
  "entity_ids (UniversityProposal _) w = ids_of un_id (db_universities w)"
| "entity_ids (FacultyProposal _) w = ids_of fa_id (db_faculties w)"
| "entity_ids (SubjectProposal _) w = ids_of su_id (db_subjects w)"

fun parent_exists :: "proposal \<Rightarrow> world \<Rightarrow> bool" where
  "parent_exists (UniversityProposal p) w \<longleftrightarrow> True"
| "parent_exists (FacultyProposal p) w \<longleftrightarrow> fp_university_id p \<in> ids_of un_id (db_universities w)"
| "parent_exists (SubjectProposal p) w \<longleftrightarrow> sp_faculty_id p \<in> ids_of fa_id (db_faculties w)"

definition proposal_refers :: "proposal \<Rightarrow> world \<Rightarrow> bool" where
  "proposal_refers p w \<longleftrightarrow> parent_exists p w \<and> (\<forall>i. approved_entity p = Some i \<longrightarrow> i \<in> entity_ids p w)"

lemma reviewed_simps [simp]:
  "approved_entity (reviewed st a now note p) = approved_entity p"
  "entity_ids (reviewed st a now note p) w = entity_ids p w"
  "parent_exists (reviewed st a now note p) w = parent_exists p w"
  "proposal_status_of (reviewed st a now note p) = st"
  "proposal_id (reviewed st a now note p) = proposal_id p"
  "proposal_created_by (reviewed st a now note p) = proposal_created_by p"
  by (cases p; simp)+

lemma approved_as_simps [simp]:
  "approved_entity (approved_as i p) = Some i"
  "entity_ids (approved_as i p) w = entity_ids p w"
  "parent_exists (approved_as i p) w = parent_exists p w"
  "proposal_status_of (approved_as i p) = proposal_status_of p"
  "proposal_id (approved_as i p) = proposal_id p"
  "proposal_created_by (approved_as i p) = proposal_created_by p"
  by (cases p; simp)+

lemma store_proposal_ok:
  assumes "catalog_ok w" "proposal_refers p w"
  shows "catalog_ok (store_proposal p w)"
  using assms
  by (cases p) (auto simp: catalog_ok_def Let_def proposal_refers_def intro!: refer_store_row)

lemma add_proposal_ok:
  assumes "catalog_ok w" "proposal_refers p w"
  shows "catalog_ok (add_proposal p w)"
  using assms by (cases p) (auto simp: catalog_ok_def Let_def proposal_refers_def)

lemma get_proposal_in:
  "get_university_proposal i w = Inr up \<Longrightarrow> up \<in> set (db_university_proposals w) \<and> up_id up = i"
  "get_faculty_proposal i w = Inr fp \<Longrightarrow> fp \<in> set (db_faculty_proposals w) \<and> fp_id fp = i"
  "get_subject_proposal i w = Inr sp \<Longrightarrow> sp \<in> set (db_subject_proposals w) \<and> sp_id sp = i"
  by (auto simp: get_university_proposal_def get_faculty_proposal_def get_subject_proposal_def
      dest: find_SomeD split: option.splits)

lemma found_proposal_refers:
  assumes "catalog_ok w"
  shows "get_university_proposal i w = Inr up \<Longrightarrow> proposal_refers (UniversityProposal up) w"
    "get_faculty_proposal i w = Inr fp \<Longrightarrow> proposal_refers (FacultyProposal fp) w"
    "get_subject_proposal i w = Inr sp \<Longrightarrow> proposal_refers (SubjectProposal sp) w"
  using assms
  by (auto simp: proposal_refers_def catalog_ok_def Let_def refer_def dest!: get_proposal_in)

lemma settle_ok:
  assumes "catalog_ok w0" "catalog_ok w"
  shows "catalog_ok (snd (settle ids now p et action pt ev actor note w0 w))"
proof -
  obtain r w' where s: "settle ids now p et action pt ev actor note w0 w = (r, w')" by fastforce
  then have "catalog_ok w'" using assms by (cases rule: settle_cases) (auto simp: only_events_ok)
  with s show ?thesis by simp
qed

lemma submit_ok:
  assumes "catalog_ok w" "proposal_refers p w"
  shows "catalog_ok (snd (submit_proposal ids now p et pt user w))"
proof -
  obtain r w' where s: "submit_proposal ids now p et pt user w = (r, w')" by fastforce
  then have "catalog_ok w'"
    using assms add_proposal_ok [OF assms] by (cases rule: submit_cases) (auto simp: only_events_ok)
  with s show ?thesis by simp
qed

lemma user_update_ok:
  assumes "catalog_ok w" "\<And>r i. r \<in> set us \<Longrightarrow> u_university_id r = Some i \<Longrightarrow>
    i \<in> ids_of un_id (db_universities w) \<or> (\<exists>q\<in>set (db_users w). u_university_id q = Some i)"
  shows "catalog_ok (w\<lparr>db_users := us\<rparr>)"
proof -
  have "refer u_university_id (db_users w) (ids_of un_id (db_universities w))"
    using assms(1) by (simp add: catalog_ok_def Let_def)
  then have "refer u_university_id us (ids_of un_id (db_universities w))"
    using assms(2) unfolding refer_def by blast
  with assms(1) show ?thesis by (simp add: catalog_ok_def Let_def)
qed

lemma apply_approved_ok:
  assumes "catalog_ok w" "i \<in> ids_of un_id (db_universities w)"
  shows "catalog_ok (apply_approved_university now cb i w)"
  using assms
  by (auto simp: apply_approved_university_def store_row_def in_update_where intro!: user_update_ok
      split: option.split)

lemma mark_rejected_ok:
  assumes "catalog_ok w" shows "catalog_ok (mark_registration_university_rejected cb w)"
  using assms get_user_in
  by (auto simp: mark_registration_university_rejected_def store_row_def in_update_where
      intro!: user_update_ok split: option.split)

lemma insert_ids:
  "insert_university u w = Inr w' \<Longrightarrow> un_id u \<in> ids_of un_id (db_universities w')"
  "insert_faculty f w = Inr w' \<Longrightarrow> fa_id f \<in> ids_of fa_id (db_faculties w') \<and> db_universities w' = db_universities w"
  "insert_subject s w = Inr w' \<Longrightarrow> su_id s \<in> ids_of su_id (db_subjects w') \<and> db_faculties w' = db_faculties w"
  by (auto simp: insert_university_def insert_faculty_def insert_subject_def split: if_splits)

lemma require_ids:
  "require_university i w = Inr u \<Longrightarrow> un_id u = i \<and> i \<in> ids_of un_id (db_universities w)"
  "require_faculty i w = Inr f \<Longrightarrow> fa_id f = i \<and> i \<in> ids_of fa_id (db_faculties w)"
  "require_subject i w = Inr s \<Longrightarrow> su_id s = i \<and> i \<in> ids_of su_id (db_subjects w)"
  by (auto simp: require_university_def require_faculty_def require_subject_def lookups ids_of_def
      dest: find_SomeD split: option.splits)

lemma approved_refers:
  assumes "parent_exists p w" "i \<in> entity_ids p w"
  shows "proposal_refers (approved_as i (reviewed st a now note p)) w"
  using assms by (simp add: proposal_refers_def)

section \<open>Decisions on proposals\<close>

definition proposals_of :: "world \<Rightarrow> proposal list" where
  "proposals_of w = map UniversityProposal (db_university_proposals w) @
     map FacultyProposal (db_faculty_proposals w) @ map SubjectProposal (db_subject_proposals w)"

fun may_decide :: "user \<Rightarrow> proposal \<Rightarrow> world \<Rightarrow> bool" where
  "may_decide actor (UniversityProposal p) w \<longleftrightarrow> is_ok (require_admin actor)"
| "may_decide actor (FacultyProposal p) w \<longleftrightarrow> is_ok (assert_faculty_proposal_scope actor p w)"
| "may_decide actor (SubjectProposal p) w \<longleftrightarrow> is_ok (assert_subject_proposal_scope actor p w)"

text \<open>The proposal without the entity it was approved as, which may be deleted later.\<close>

fun decision :: "proposal \<Rightarrow> proposal" where
  "decision (UniversityProposal p) = UniversityProposal (p\<lparr>up_approved_university_id := None\<rparr>)"
| "decision (FacultyProposal p) = FacultyProposal (p\<lparr>fp_approved_faculty_id := None\<rparr>)"
| "decision (SubjectProposal p) = SubjectProposal (p\<lparr>sp_approved_subject_id := None\<rparr>)"

lemma decision_simps [simp]:
  "decision (approved_as i p) = decision p"
  "proposal_status_of (decision p) = proposal_status_of p"
  "proposal_created_by (decision p) = proposal_created_by p"
  by (cases p; simp)+

lemma decision_status: "decision p = decision q \<Longrightarrow> proposal_status_of p = proposal_status_of q"
  by (metis decision_simps(2))

text \<open>
  What may happen to proposals in one step: a row of the new world has the decision of an old
  row, or is pending and was submitted by the actor, or the actor was entitled to decide on a
  pending row and did.
\<close>

definition decided :: "user \<Rightarrow> world \<Rightarrow> world \<Rightarrow> proposal \<Rightarrow> bool" where
  "decided actor w w' p' \<longleftrightarrow>
     (\<exists>p\<in>set (proposals_of w). proposal_status_of p = ProposalPending \<and> may_decide actor p w \<and>
       (\<exists>now note. p' = reviewed ProposalRejected (u_id actor) now note p \<or>
         (\<exists>i\<in>entity_ids p w'. p' = approved_as i (reviewed ProposalApproved (u_id actor) now note p))))"

definition proposal_change :: "user \<Rightarrow> world \<Rightarrow> world \<Rightarrow> bool" where
  "proposal_change actor w w' \<longleftrightarrow> (\<forall>p'\<in>set (proposals_of w').
     decision p' \<in> decision ` set (proposals_of w) \<or>
     proposal_status_of p' = ProposalPending \<and> proposal_created_by p' = u_id actor \<or>
     decided actor w w' p')"

lemma proposal_change_same: "proposals_of w' = proposals_of w \<Longrightarrow> proposal_change actor w w'"
  by (simp add: proposal_change_def)

lemma proposal_change_refl: "proposal_change actor w w"
  by (simp add: proposal_change_same)

lemma proposals_of_logs [simp]:
  "proposals_of (w\<lparr>db_catalog_proposal_logs := ls\<rparr>) = proposals_of w"
  "proposals_of (w\<lparr>db_telegram_event_outbox := es\<rparr>) = proposals_of w"
  "proposals_of (w\<lparr>db_users := us\<rparr>) = proposals_of w"
  by (simp_all add: proposals_of_def)

lemma entity_ids_logs [simp]:
  "entity_ids p (w\<lparr>db_catalog_proposal_logs := ls\<rparr>) = entity_ids p w"
  "entity_ids p (w\<lparr>db_telegram_event_outbox := es\<rparr>) = entity_ids p w"
  by (cases p; simp)+

lemma entity_ids_more [simp]:
  "entity_ids q (store_proposal p w) = entity_ids q w"
  "entity_ids q (apply_approved_university now cb i w) = entity_ids q w"
  by (cases q; cases p; simp)
    (cases q; simp add: apply_approved_university_def split: option.split)+

lemma proposals_users [simp]:
  "proposals_of (apply_approved_university now cb i w) = proposals_of w"
  "proposals_of (mark_registration_university_rejected cb w) = proposals_of w"
  by (simp_all add: apply_approved_university_def mark_registration_university_rejected_def split: option.split)

lemma proposals_store: "set (proposals_of (store_proposal p w)) \<subseteq> insert p (set (proposals_of w))"
  by (cases p) (auto simp: proposals_of_def store_row_def in_update_where)

lemma proposals_insert [simp]:
  "insert_university u w = Inr w' \<Longrightarrow> proposals_of w' = proposals_of w"
  "insert_faculty f w = Inr w' \<Longrightarrow> proposals_of w' = proposals_of w"
  "insert_subject s w = Inr w' \<Longrightarrow> proposals_of w' = proposals_of w"
  by (auto simp: insert_university_def insert_faculty_def insert_subject_def proposals_of_def split: if_splits)

lemma settle_change:
  assumes "settle ids now' p' et action pt ev actor n w v = (r, w')"
    and "catalog_ok w" "catalog_ok v"
    and "p \<in> set (proposals_of w)" "proposal_status_of p = ProposalPending" "may_decide actor p w"
    and "p' = reviewed ProposalRejected (u_id actor) now note p \<or>
      (\<exists>i\<in>entity_ids p v. p' = approved_as i (reviewed ProposalApproved (u_id actor) now note p))"
    and "set (proposals_of v) \<subseteq> insert p' (set (proposals_of w))"
  shows "catalog_ok w' \<and> proposal_change actor w w'"
  using assms(1)
proof (cases rule: settle_cases)
  case refused
  with assms(2) show ?thesis by (simp add: proposal_change_refl)
next
  case (settled ls)
  then have same: "proposals_of w' = proposals_of v" "entity_ids p w' = entity_ids p v" "catalog_ok w'"
    using assms(3) by (auto simp: only_events_def)
  have "decided actor w w' p'"
    unfolding decided_def using assms(4-7) same(2) by blast
  with assms(8) same show ?thesis unfolding proposal_change_def by auto
qed

lemma parent_insert:
  "insert_university u w = Inr w' \<Longrightarrow> parent_exists p w \<Longrightarrow> parent_exists p w'"
  "insert_faculty f w = Inr w' \<Longrightarrow> parent_exists p w \<Longrightarrow> parent_exists p w'"
  "insert_subject sb w = Inr w' \<Longrightarrow> parent_exists p w \<Longrightarrow> parent_exists p w'"
  by (cases p; auto simp: insert_university_def insert_faculty_def insert_subject_def split: if_splits)+

lemma found_parent:
  assumes "catalog_ok w"
  shows "get_faculty_proposal i w = Inr fp \<Longrightarrow> parent_exists (FacultyProposal fp) w"
    "get_subject_proposal i w = Inr sp \<Longrightarrow> parent_exists (SubjectProposal sp) w"
  using found_proposal_refers [OF assms] by (auto simp: proposal_refers_def)

lemma found_in_proposals:
  "get_university_proposal i w = Inr up \<Longrightarrow> UniversityProposal up \<in> set (proposals_of w)"
  "get_faculty_proposal i w = Inr fp \<Longrightarrow> FacultyProposal fp \<in> set (proposals_of w)"
  "get_subject_proposal i w = Inr sp \<Longrightarrow> SubjectProposal sp \<in> set (proposals_of w)"
  by (auto simp: proposals_of_def dest: get_proposal_in)

text \<open>An approval stores the reviewed row in a world that has the entity and its parent.\<close>

lemma approval_change:
  assumes "settle ids now' (approved_as e (reviewed ProposalApproved (u_id actor) now note p))
      et action pt ev actor n w
      (store_proposal (approved_as e (reviewed ProposalApproved (u_id actor) now note p)) v) = (r, w')"
    and "catalog_ok w" "catalog_ok v" "proposals_of v = proposals_of w"
    and "p \<in> set (proposals_of w)" "proposal_status_of p = ProposalPending" "may_decide actor p w"
    and "parent_exists p v" "e \<in> entity_ids p v"
  shows "catalog_ok w' \<and> proposal_change actor w w'"
proof (rule settle_change [OF assms(1,2) _ assms(5-7)])
  show "catalog_ok (store_proposal (approved_as e (reviewed ProposalApproved (u_id actor) now note p)) v)"
    using store_proposal_ok [OF assms(3) approved_refers [OF assms(8,9)]] .
qed (use assms(4,9) proposals_store [of _ v] in auto)

lemma approve_university_change:
  assumes ok: "catalog_ok w" and op: "approve_university x ids now i actor pl w = (r, w')"
  shows "catalog_ok w' \<and> proposal_change actor w w'"
proof (cases "w' = w")
  case False
  let ?p = "\<lambda>p. approved_as (ids 0) (reviewed ProposalApproved (u_id actor) now (pa_note pl) (UniversityProposal p))"
  obtain p u w1 where p: "get_university_proposal i w = Inr p" "up_status p = ProposalPending"
      "is_ok (require_admin actor)" and w1: "insert_university u w = Inr w1" "un_id u = ids 0"
    and s: "settle ids now (?p p) UNIVERSITY ''approved'' ''university'' PROPOSAL_APPROVED actor (pa_note pl) w
      (apply_approved_university now (up_created_by p) (ids 0) (store_proposal (?p p) w1)) = (r, w')"
    using op False by (auto simp: approve_university_def Let_def split: sum.splits if_splits)
  have ok1: "catalog_ok w1" by (rule insert_university_ok [OF ok w1(1)])
  have ids: "ids 0 \<in> ids_of un_id (db_universities w1)" using insert_ids(1) [OF w1(1)] w1(2) by simp
  have refers: "proposal_refers (?p p) w1" using ids by (intro approved_refers) simp_all
  show ?thesis
  proof (rule settle_change [OF s ok _ found_in_proposals(1) [OF p(1)]])
    show "catalog_ok (apply_approved_university now (up_created_by p) (ids 0) (store_proposal (?p p) w1))"
      using ids by (intro apply_approved_ok store_proposal_ok ok1 refers) simp
  qed (use p ids proposals_insert(1) [OF w1(1)] proposals_store [of "?p p" w1] in auto)
qed (use ok in \<open>simp add: proposal_change_refl\<close>)

lemma map_existing_university_change:
  assumes ok: "catalog_ok w" and op: "map_existing_university ids now i actor t n w = (r, w')"
  shows "catalog_ok w' \<and> proposal_change actor w w'"
proof (cases "w' = w")
  case False
  let ?p = "\<lambda>p. approved_as t (reviewed ProposalApproved (u_id actor) now n (UniversityProposal p))"
  obtain p u where p: "get_university_proposal i w = Inr p" "up_status p = ProposalPending"
      "is_ok (require_admin actor)" and u: "require_university t w = Inr u"
    and s: "settle ids now (?p p) UNIVERSITY ''mapped_to_existing'' ''university'' PROPOSAL_APPROVED actor n w
      (apply_approved_university now (up_created_by p) t (store_proposal (?p p) w)) = (r, w')"
    using op False by (auto simp: map_existing_university_def Let_def split: sum.splits if_splits)
  have ids: "t \<in> ids_of un_id (db_universities w)" using require_ids(1) [OF u] by simp
  have refers: "proposal_refers (?p p) w" using ids by (intro approved_refers) simp_all
  show ?thesis
  proof (rule settle_change [OF s ok _ found_in_proposals(1) [OF p(1)]])
    show "catalog_ok (apply_approved_university now (up_created_by p) t (store_proposal (?p p) w))"
      using ids by (intro apply_approved_ok store_proposal_ok ok refers) simp
  qed (use p ids proposals_store [of "?p p" w] in auto)
qed (use ok in \<open>simp add: proposal_change_refl\<close>)

lemma approve_faculty_change:
  assumes ok: "catalog_ok w" and op: "approve_faculty x ids now i actor pl w = (r, w')"
  shows "catalog_ok w' \<and> proposal_change actor w w'"
proof (cases "w' = w")
  case False
  let ?p = "\<lambda>p. approved_as (ids 0) (reviewed ProposalApproved (u_id actor) now (pa_note pl) (FacultyProposal p))"
  obtain p f w1 where p: "get_faculty_proposal i w = Inr p" "fp_status p = ProposalPending"
      "is_ok (assert_faculty_proposal_scope actor p w)" and w1: "insert_faculty f w = Inr w1" "fa_id f = ids 0"
    and s: "settle ids now (?p p) FACULTY ''approved'' ''faculty'' PROPOSAL_APPROVED actor (pa_note pl) w
      (store_proposal (?p p) w1) = (r, w')"
    using op False by (auto simp: approve_faculty_def Let_def split: sum.splits if_splits)
  show ?thesis
  proof (rule approval_change [OF s ok insert_faculty_ok [OF ok w1(1)] proposals_insert(2) [OF w1(1)]
        found_in_proposals(2) [OF p(1)]])
    show "parent_exists (FacultyProposal p) w1"
      by (rule parent_insert(2) [OF w1(1) found_parent(1) [OF ok p(1)]])
  qed (use p insert_ids(2) [OF w1(1)] w1(2) in simp_all)
qed (use ok in \<open>simp add: proposal_change_refl\<close>)

lemma approve_subject_change:
  assumes ok: "catalog_ok w" and op: "approve_subject x ids now i actor pl w = (r, w')"
  shows "catalog_ok w' \<and> proposal_change actor w w'"
proof (cases "w' = w")
  case False
  let ?p = "\<lambda>p. approved_as (ids 0) (reviewed ProposalApproved (u_id actor) now (pa_note pl) (SubjectProposal p))"
  obtain p f w1 where p: "get_subject_proposal i w = Inr p" "sp_status p = ProposalPending"
      "is_ok (assert_subject_proposal_scope actor p w)" and w1: "insert_subject f w = Inr w1" "su_id f = ids 0"
    and s: "settle ids now (?p p) SUBJECT ''approved'' ''subject'' PROPOSAL_APPROVED actor (pa_note pl) w
      (store_proposal (?p p) w1) = (r, w')"
    using op False by (auto simp: approve_subject_def Let_def split: sum.splits if_splits)
  show ?thesis
  proof (rule approval_change [OF s ok insert_subject_ok [OF ok w1(1)] proposals_insert(3) [OF w1(1)]
        found_in_proposals(3) [OF p(1)]])
    show "parent_exists (SubjectProposal p) w1"
      by (rule parent_insert(3) [OF w1(1) found_parent(2) [OF ok p(1)]])
  qed (use p insert_ids(3) [OF w1(1)] w1(2) in simp_all)
qed (use ok in \<open>simp add: proposal_change_refl\<close>)

lemma map_existing_faculty_change:
  assumes ok: "catalog_ok w" and op: "map_existing_faculty ids now i actor t n w = (r, w')"
  shows "catalog_ok w' \<and> proposal_change actor w w'"
proof (cases "w' = w")
  case False
  obtain p f where p: "get_faculty_proposal i w = Inr p" "fp_status p = ProposalPending"
      "is_ok (assert_faculty_proposal_scope actor p w)" and f: "require_faculty t w = Inr f"
    and s: "settle ids now (approved_as (fa_id f) (reviewed ProposalApproved (u_id actor) now n (FacultyProposal p)))
      FACULTY ''mapped_to_existing'' ''faculty'' PROPOSAL_APPROVED actor n w
      (store_proposal (approved_as (fa_id f) (reviewed ProposalApproved (u_id actor) now n (FacultyProposal p))) w)
      = (r, w')"
    using op False by (auto simp: map_existing_faculty_def Let_def split: sum.splits if_splits)
  show ?thesis
    using p require_ids(2) [OF f]
    by (intro approval_change [OF s ok ok refl found_in_proposals(2) [OF p(1)]] found_parent(1) [OF ok p(1)])
      simp_all
qed (use ok in \<open>simp add: proposal_change_refl\<close>)

lemma map_existing_subject_change:
  assumes ok: "catalog_ok w" and op: "map_existing_subject ids now i actor t n w = (r, w')"
  shows "catalog_ok w' \<and> proposal_change actor w w'"
proof (cases "w' = w")
  case False
  obtain p f where p: "get_subject_proposal i w = Inr p" "sp_status p = ProposalPending"
      "is_ok (assert_subject_proposal_scope actor p w)" and f: "require_subject t w = Inr f"
    and s: "settle ids now (approved_as (su_id f) (reviewed ProposalApproved (u_id actor) now n (SubjectProposal p)))
      SUBJECT ''mapped_to_existing'' ''subject'' PROPOSAL_APPROVED actor n w
      (store_proposal (approved_as (su_id f) (reviewed ProposalApproved (u_id actor) now n (SubjectProposal p))) w)
      = (r, w')"
    using op False by (auto simp: map_existing_subject_def Let_def split: sum.splits if_splits)
  show ?thesis
    using p require_ids(3) [OF f]
    by (intro approval_change [OF s ok ok refl found_in_proposals(3) [OF p(1)]] found_parent(2) [OF ok p(1)])
      simp_all
qed (use ok in \<open>simp add: proposal_change_refl\<close>)

lemma reject_proposal_change:
  assumes ok: "catalog_ok w" and op: "reject_proposal ids now p et actor reason note w = (r, w')"
    and p: "p \<in> set (proposals_of w)" "may_decide actor p w" "proposal_refers p w"
  shows "catalog_ok w' \<and> proposal_change actor w w'"
proof (cases "proposal_status_of p = ProposalPending")
  case True
  let ?p = "reviewed ProposalRejected (u_id actor) now (Some (or_else note reason)) p"
  let ?v = "if et = UNIVERSITY then mark_registration_university_rejected (proposal_created_by p) (store_proposal ?p w)
    else store_proposal ?p w"
  have "proposal_refers ?p w" using p(3) by (simp add: proposal_refers_def)
  then have "catalog_ok ?v" using ok store_proposal_ok mark_rejected_ok by simp
  moreover have "set (proposals_of ?v) \<subseteq> insert ?p (set (proposals_of w))"
    using proposals_store [of ?p w] by simp
  moreover have "settle ids now ?p et ''rejected'' (proposal_entity_value et) PROPOSAL_REJECTED actor
      (Some (or_else note reason)) w ?v = (r, w')"
    using op True by (simp add: reject_proposal_def Let_def)
  ultimately show ?thesis using settle_change [OF _ ok _ p(1) True p(2)] by blast
next
  case False
  with op ok show ?thesis by (simp add: reject_proposal_def proposal_change_refl)
qed

lemma reject_changes:
  assumes ok: "catalog_ok w"
  shows "reject_university ids now i actor reason note w = (r, w') \<Longrightarrow> catalog_ok w' \<and> proposal_change actor w w'"
    "reject_faculty ids now i actor reason note w = (r, w') \<Longrightarrow> catalog_ok w' \<and> proposal_change actor w w'"
    "reject_subject ids now i actor reason note w = (r, w') \<Longrightarrow> catalog_ok w' \<and> proposal_change actor w w'"
  using ok found_in_proposals found_proposal_refers [OF ok]
  by (auto simp: reject_university_def reject_faculty_def reject_subject_def proposal_change_refl
      dest!: reject_proposal_change [OF ok] split: sum.splits)

end
