(* ===== verification/Delivery.thy ===== *)
theory Delivery
  imports Complex_Main Materials
begin

text \<open>
  What \<^verbatim>\<open>app/modules/materials/service.py\<close>, \<^verbatim>\<open>repositories.py\<close>, \<^verbatim>\<open>search_service.py\<close> and
  \<^verbatim>\<open>common.py\<close> hand out: the visibility of a material, downloads and previews of its files,
  the filtered lists, the trending list and the statistics with their cache, and the ratings.
  A cached value that is read is an argument. Averages are exact rationals, and text is
  ordered by its code points.
\<close>

section \<open>Visibility\<close>

definition get_material_by_slug :: "string \<Rightarrow> world \<Rightarrow> material option" where
  "get_material_by_slug slug w = find (\<lambda>m. m_slug m = slug) (db_materials w)"

definition lookup_material :: "string \<Rightarrow> string \<Rightarrow> world \<Rightarrow> material option" where
  "lookup_material identifier lookup_field w =
     (if lookup_field = ''slug'' then get_material_by_slug identifier w else get_material identifier w)"

definition is_staff :: "user \<Rightarrow> bool" where
  "is_staff user = (role_value (u_role user) \<in> {''admin'', ''moderator''})"

definition get_material_for_view ::
  "string \<Rightarrow> user option \<Rightarrow> string \<Rightarrow> world \<Rightarrow> material res"
where
  "get_material_for_view identifier user lookup_field w =
     (case lookup_material identifier lookup_field w of
        None \<Rightarrow> Inl (ResourceNotFound ''Material not found'')
      | Some m \<Rightarrow>
          (if m_deleted_at m \<noteq> None then Inl (ResourceNotFound ''Material not found'')
           else if m_status m = APPROVED then Inr m
           else
             (case user of
                None \<Rightarrow> Inl (PermissionDenied ''You do not have access to this material'')
              | Some u \<Rightarrow>
                  (if is_staff u then Inr m
                   else if m_uploaded_by m \<noteq> u_id u
                   then Inl (PermissionDenied ''You do not have access to this material'')
                   else Inr m))))"

section \<open>Downloads\<close>

text \<open>Python's \<open>a or b\<close> on nullable ids.\<close>

definition or_id :: "string option \<Rightarrow> string option \<Rightarrow> string option" where
  "or_id a b = (if truthy a then a else b)"

text \<open>Without a file id: the primary file, the cover, or files[0], an IndexError without files.\<close>

definition download_entry :: "material \<Rightarrow> string option \<Rightarrow> world \<Rightarrow> material_file option res" where
  "download_entry m file_id w =
     (if truthy file_id then Inr (get_file (the file_id) w)
      else
        (case or_id (m_primary_file_id m) (m_cover_file_id m) of
           Some i \<Rightarrow>
             (if i \<noteq> [] then Inr (get_file i w)
              else (case files_of (m_id m) w of [] \<Rightarrow> Inl IndexError | f # _ \<Rightarrow> Inr (get_file (mf_id f) w)))
         | None \<Rightarrow>
             (case files_of (m_id m) w of [] \<Rightarrow> Inl IndexError | f # _ \<Rightarrow> Inr (get_file (mf_id f) w))))"

definition downloaded_before :: "string \<Rightarrow> string \<Rightarrow> world \<Rightarrow> bool" where
  "downloaded_before uid mid w =
     list_ex (\<lambda>d. md_user_id d = Some uid \<and> md_material_id d = mid) (db_material_downloads w)"

definition count_download :: "int \<Rightarrow> string \<Rightarrow> world \<Rightarrow> world" where
  "count_download now mid w =
     w\<lparr>db_materials := update_where (\<lambda>r. m_id r = mid)
         (\<lambda>r. r\<lparr>m_download_count := m_download_count r + 1, m_updated_at := now\<rparr>) (db_materials w)\<rparr>"

definition record_download :: "string \<Rightarrow> int \<Rightarrow> string \<Rightarrow> user option \<Rightarrow> world \<Rightarrow> world" where
  "record_download i now mid user w =
     (case user of
        None \<Rightarrow> count_download now mid w
      | Some u \<Rightarrow>
          (if downloaded_before (u_id u) mid w then w
           else count_download now mid
             (w\<lparr>db_material_downloads := db_material_downloads w @
                 [\<lparr>md_id = i, md_user_id = Some (u_id u), md_material_id = mid, md_ip_address = None,
                   md_created_at = now\<rparr>]\<rparr>)))"

definition prepare_download ::
  "provider \<Rightarrow> string \<Rightarrow> int \<Rightarrow> string \<Rightarrow> string option \<Rightarrow> user option \<Rightarrow> string \<Rightarrow> world \<Rightarrow>
   storage_download res \<times> world"
where
  "prepare_download sp i now identifier file_id user lookup_field w =
     (case get_material_for_view identifier user lookup_field w of
        Inl e \<Rightarrow> fail e w
      | Inr m \<Rightarrow>
          (if m_status m = APPROVED \<and> user = None
           then fail (AuthenticationError ''Authentication is required to download this material'') w
           else
             (case download_entry m file_id w of
                Inl e \<Rightarrow> fail e w
              | Inr None \<Rightarrow> fail (ResourceNotFound ''Material file not found'') w
              | Inr (Some entry) \<Rightarrow>
                  (if mf_material_id entry \<noteq> m_id m
                   then fail (ResourceNotFound ''Material file not found'') w
                   else if \<not> pv_exists sp (mf_storage_key entry) (objects w)
                   then fail (ResourceNotFound ''Stored file not found'') w
                   else
                     (let w1 = cache_do (CacheInvalidate ''materials:trending_ids'')
                            (cache_do (CacheInvalidate ''materials:stats_summary'')
                              (record_download i now (m_id m) user w))
                      in (pv_resolve_for_download sp (mf_storage_key entry)
                            (Some (mf_original_filename entry)) ''attachment'' (objects w1), w1))))))"

definition LARGE_FILE_LIMIT_BYTES :: int where "LARGE_FILE_LIMIT_BYTES = 20 * 1024 * 1024"

definition store_file :: "material_file \<Rightarrow> world \<Rightarrow> world" where
  "store_file f w = w\<lparr>db_material_files := store_row mf_id f (db_material_files w)\<rparr>"

definition prepare_preview ::
  "parsers \<Rightarrow> provider \<Rightarrow> string \<Rightarrow> string \<Rightarrow> string \<Rightarrow> user option \<Rightarrow> string \<Rightarrow> world \<Rightarrow>
   (storage_download \<times> string) res \<times> world"
where
  "prepare_preview pr sp u identifier file_id user lookup_field w =
     (case get_material_for_view identifier user lookup_field w of
        Inl e \<Rightarrow> fail e w
      | Inr m \<Rightarrow>
          (case get_file file_id w of
             None \<Rightarrow> fail (ResourceNotFound ''Material file not found'') w
           | Some entry \<Rightarrow>
               (let is_large_pdf = (mf_file_ext entry = ''pdf'' \<and> mf_file_size entry > LARGE_FILE_LIMIT_BYTES);
                    resolve = (\<lambda>key name mode obs.
                      (case pv_resolve_for_download sp key (Some name) ''inline'' obs of
                         Inl e \<Rightarrow> Inl e | Inr d \<Rightarrow> Inr (d, mode)))
                in if mf_material_id entry \<noteq> m_id m
                   then fail (ResourceNotFound ''Material file not found'') w
                   else if \<not> mf_is_previewable entry
                   then fail (PermissionDenied ''File is not previewable'') w
                   else if (m_status m = APPROVED \<and> user = None) \<or> is_large_pdf
                   then
                     (if mf_file_kind entry = IMAGE
                      then (resolve (mf_storage_key entry) (mf_original_filename entry) ''full'' (objects w), w)
                      else if mf_file_ext entry = ''pdf''
                      then
                        (if \<not> truthy (mf_preview_storage_key entry)
                         then
                           (case build_pdf_preview pr sp u (m_id m) (mf_storage_key entry) (objects w) of
                              (Inl e, obs) \<Rightarrow> fail e (w\<lparr>objects := obs\<rparr>)
                            | (Inr (k, n), obs) \<Rightarrow>
                                (let w1 = store_file (entry\<lparr>mf_preview_storage_key := Some k,
                                              mf_preview_page_count := Some n\<rparr>) (w\<lparr>objects := obs\<rparr>)
                                 in (resolve k (''preview_'' @ mf_original_filename entry) ''limited''
                                       (objects w1), w1)))
                         else (resolve (the (mf_preview_storage_key entry))
                                 (''preview_'' @ mf_original_filename entry) ''limited'' (objects w), w))
                      else fail (AuthenticationError ''Authentication is required to preview this file'') w)
                   else (resolve (mf_storage_key entry) (mf_original_filename entry) ''full'' (objects w), w))))"

section \<open>What the reader is told\<close>

record access_context =
  ac_access_level :: string
  ac_can_download :: bool
  ac_can_preview :: bool
  ac_requires_auth_for_download :: bool
  ac_preview_page_limit :: "int option"

definition build_access_context ::
  "string \<Rightarrow> bool \<Rightarrow> bool \<Rightarrow> bool \<Rightarrow> int option \<Rightarrow> access_context"
where
  "build_access_context level download preview requires_auth limit =
     \<lparr>ac_access_level = level, ac_can_download = download, ac_can_preview = preview,
      ac_requires_auth_for_download = requires_auth, ac_preview_page_limit = limit\<rparr>"

definition get_material_access_context :: "material \<Rightarrow> user option \<Rightarrow> world \<Rightarrow> access_context" where
  "get_material_access_context m user w =
     (if m_status m \<noteq> APPROVED
      then (case user of
              None \<Rightarrow> build_access_context ''restricted'' False False True None
            | Some u \<Rightarrow>
                (if is_staff u then build_access_context ''moderator'' True True False None
                 else if m_uploaded_by m = u_id u then build_access_context ''owner'' True True False None
                 else build_access_context ''restricted'' False False True None))
      else
        (let previewable_files = filter mf_is_previewable (files_of (m_id m) w) in
         if user = None
         then build_access_context ''public'' False
                (list_ex (\<lambda>f. mf_file_kind f = IMAGE \<or> mf_file_ext f = ''pdf'') previewable_files) True
                (if list_ex (\<lambda>f. mf_file_ext f = ''pdf'') previewable_files
                 then Some (int PDF_PREVIEW_PAGE_LIMIT) else None)
         else build_access_context ''authenticated'' True (previewable_files \<noteq> []) False None))"

text \<open>RedirectResponse with 307, FileResponse, or RuntimeError.\<close>

datatype download_response = Redirect string | File string "string option" string

definition storage_download_response :: "storage_download \<Rightarrow> download_response res" where
  "storage_download_response d =
     (if truthy (sd_redirect_url d) then Inr (Redirect (the (sd_redirect_url d)))
      else
        (case sd_local_path d of
           Some p \<Rightarrow> Inr (File p (sd_filename d) (sd_disposition d))
         | None \<Rightarrow> Inl (RuntimeError ''Storage download target is not available'')))"

section \<open>Ratings\<close>

definition get_rating_snapshot :: "string list \<Rightarrow> world \<Rightarrow> string \<Rightarrow> (rat \<times> int) option" where
  "get_rating_snapshot material_ids w mid =
     (let values = map ra_value (filter (\<lambda>r. ra_material_id r = mid) (db_material_ratings w))
      in if mid \<in> set material_ids \<and> values \<noteq> []
         then Some (Fract (sum_list values) (int (length values)), int (length values))
         else None)"

definition rating_of :: "string list \<Rightarrow> world \<Rightarrow> string \<Rightarrow> rat \<times> int" where
  "rating_of material_ids w mid =
     (case get_rating_snapshot material_ids w mid of None \<Rightarrow> (0, 0) | Some r \<Rightarrow> r)"

section \<open>Lists\<close>

record material_list_query =
  lq_q :: "string option"
  lq_subject_id :: "string option"
  lq_faculty_id :: "string option"
  lq_university_id :: "string option"
  lq_material_type :: "material_type option"
  lq_semester :: "int option"
  lq_status :: "material_status option"
  lq_file_format :: "string option"
  lq_course :: "int option"
  lq_is_public :: "bool option"
  lq_only_approved :: "bool option"
  lq_uploaded_by :: "string option"
  lq_download_count_gte :: "int option"
  lq_sort :: string
  lq_page :: int
  lq_page_size :: int

definition default_query :: material_list_query where
  "default_query =
     \<lparr>lq_q = None, lq_subject_id = None, lq_faculty_id = None, lq_university_id = None,
      lq_material_type = None, lq_semester = None, lq_status = None, lq_file_format = None,
      lq_course = None, lq_is_public = None, lq_only_approved = None, lq_uploaded_by = None,
      lq_download_count_gte = None, lq_sort = ''created_at_desc'', lq_page = 1, lq_page_size = 20\<rparr>"

definition escape_like :: "string \<Rightarrow> string" where
  "escape_like v =
     concat (map (\<lambda>c. if c \<in> set ''%_'' \<or> c = CHR 0x5C then [CHR 0x5C, c] else [c]) v)"

definition text_matches :: "externals \<Rightarrow> string \<Rightarrow> material \<Rightarrow> world \<Rightarrow> bool" where
  "text_matches x search_text m w =
     (let pat = ''%'' @ escape_like search_text @ ''%'' in
      ilike x (m_title m) pat \<or>
      (case m_description m of None \<Rightarrow> False | Some d \<Rightarrow> ilike x d pat) \<or>
      (case material_place m w of
         None \<Rightarrow> False
       | Some (s, f, u) \<Rightarrow> ilike x (su_name s) pat \<or> ilike x (fa_name f) pat \<or> ilike x (un_name u) pat) \<or>
      list_ex (\<lambda>t. ilike x (t_name t) pat) (tags_of (m_id m) w) \<or>
      list_ex (\<lambda>t. ilike x (t_slug t) pat) (tags_of (m_id m) w))"

definition set_and_true :: "bool option \<Rightarrow> bool" where
  "set_and_true b = (b = Some True)"

definition set_and_nonzero :: "int option \<Rightarrow> bool" where
  "set_and_nonzero n = (case n of None \<Rightarrow> False | Some k \<Rightarrow> k \<noteq> 0)"

text \<open>The where clauses of apply_filters, each under the condition that adds it.\<close>

definition matches_query :: "externals \<Rightarrow> material_list_query \<Rightarrow> world \<Rightarrow> material \<Rightarrow> bool" where
  "matches_query x q w m =
     ((truthy (lq_q q) \<and> strip (the (lq_q q)) \<noteq> [] \<longrightarrow> text_matches x (strip (the (lq_q q))) m w) \<and>
      (truthy (lq_subject_id q) \<longrightarrow> Some (m_subject_id m) = lq_subject_id q) \<and>
      (truthy (lq_faculty_id q) \<longrightarrow>
         map_option (\<lambda>(s, _). su_faculty_id s) (material_place m w) = lq_faculty_id q) \<and>
      (truthy (lq_university_id q) \<longrightarrow>
         map_option (\<lambda>(_, f, _). fa_university_id f) (material_place m w) = lq_university_id q) \<and>
      (case lq_material_type q of None \<Rightarrow> True | Some t \<Rightarrow> m_material_type m = t) \<and>
      (set_and_nonzero (lq_semester q) \<longrightarrow> the (lq_semester q) \<in> set (m_semesters m)) \<and>
      (set_and_nonzero (lq_course q) \<longrightarrow> the (lq_course q) \<in> set (m_semesters m)) \<and>
      (case lq_status q of None \<Rightarrow> True | Some s \<Rightarrow> m_status m = s) \<and>
      (set_and_true (lq_only_approved q) \<longrightarrow> m_status m = APPROVED) \<and>
      (set_and_true (lq_is_public q) \<longrightarrow> m_status m = APPROVED) \<and>
      (truthy (lq_uploaded_by q) \<longrightarrow> Some (m_uploaded_by m) = lq_uploaded_by q) \<and>
      (case lq_download_count_gte q of None \<Rightarrow> True | Some n \<Rightarrow> m_download_count m \<ge> n) \<and>
      (truthy (lq_file_format q) \<longrightarrow>
         list_ex (\<lambda>f. mf_file_ext f = lower (the (lq_file_format q))) (files_of (m_id m) w)))"

definition sort_materials :: "string \<Rightarrow> world \<Rightarrow> material list \<Rightarrow> material list" where
  "sort_materials srt w ms =
     (if srt = ''rating_desc''
      then order_by_desc (\<lambda>m. (rating_of [m_id m] w (m_id m), m_created_at m)) ms
      else if srt = ''created_at_asc'' then order_by m_created_at ms
      else if srt = ''title_asc'' then order_by m_title ms
      else if srt = ''download_count_desc'' then order_by_desc m_download_count ms
      else order_by_desc m_created_at ms)"

definition apply_filters ::
  "externals \<Rightarrow> material_list_query \<Rightarrow> world \<Rightarrow> material list \<Rightarrow> material list"
where
  "apply_filters x q w statement = sort_materials (lq_sort q) w (filter (matches_query x q w) statement)"

definition list_public ::
  "externals \<Rightarrow> material_list_query \<Rightarrow> world \<Rightarrow> material list \<times> int"
where
  "list_public x query w =
     (let q = query\<lparr>lq_status := Some APPROVED\<rparr>
      in list_filtered (lq_page q) (lq_page_size q) (apply_filters x q w (build_filtered_query w)))"

definition list_for_user :: "user \<Rightarrow> world \<Rightarrow> material list" where
  "list_for_user user w =
     order_by_desc m_created_at
       (filter (\<lambda>m. m_uploaded_by m = u_id user \<and> m_deleted_at m = None) (db_materials w))"

definition list_related :: "externals \<Rightarrow> string \<Rightarrow> world \<Rightarrow> material list res" where
  "list_related x material_id w =
     (case get_material material_id w of
        None \<Rightarrow> Inl (ResourceNotFound ''Material not found'')
      | Some m \<Rightarrow>
          (let items = fst (list_public x (default_query\<lparr>lq_subject_id := Some (m_subject_id m),
                              lq_page := 1, lq_page_size := 6\<rparr>) w)
           in Inr (take 5 (filter (\<lambda>i. m_id i \<noteq> material_id) items))))"

definition list_resources :: "string \<Rightarrow> world \<Rightarrow> material_file list res" where
  "list_resources material_id w =
     (case get_material material_id w of
        None \<Rightarrow> Inl (ResourceNotFound ''Material not found'')
      | Some m \<Rightarrow> Inr (files_of (m_id m) w))"

definition list_featured :: "externals \<Rightarrow> world \<Rightarrow> material list" where
  "list_featured x w =
     fst (list_public x (default_query\<lparr>lq_sort := ''download_count_desc'', lq_page := 1,
                           lq_page_size := 10\<rparr>) w)"

definition get_many :: "string list \<Rightarrow> world \<Rightarrow> material list" where
  "get_many material_ids w =
     (let items = filter (\<lambda>m. m_id m \<in> set material_ids \<and> m_deleted_at m = None) (db_materials w)
      in List.map_filter (\<lambda>i. find (\<lambda>m. m_id m = i) items) material_ids)"

definition list_trending :: "settings \<Rightarrow> string list option \<Rightarrow> world \<Rightarrow> material list \<times> world" where
  "list_trending st cached_ids w =
     (let cached_items = (case cached_ids of None \<Rightarrow> [] | Some is \<Rightarrow> get_many is w)
      in if (case cached_ids of None \<Rightarrow> False | Some is \<Rightarrow> is \<noteq> [] \<and> length cached_items = length is)
         then (cached_items, w)
         else
           (let items = take 10 (order_by_desc
                  (\<lambda>m. ((case m_reviewed_at m of None \<Rightarrow> (0::int, 0) | Some t \<Rightarrow> (1, t)),
                         m_download_count m))
                  (filter (\<lambda>m. m_status m = APPROVED) (build_filtered_query w)))
            in (items,
                cache_do (CacheSet ''materials:trending_ids'' (JList (map (JStr \<circ> m_id) items))
                            (cache_ttl_trending_seconds st)) w)))"

definition summary_of :: "world \<Rightarrow> json" where
  "summary_of w =
     (let ms = db_materials w in
      JObj [(''total_materials'', JInt (int (length ms))),
            (''approved_materials'', JInt (int (length (filter (\<lambda>m. m_status m = APPROVED) ms)))),
            (''pending_materials'', JInt (int (length (filter (\<lambda>m. m_status m = PENDING_REVIEW) ms)))),
            (''total_downloads'', JInt (sum_list (map m_download_count ms)))])"

definition stats_summary :: "settings \<Rightarrow> json option \<Rightarrow> world \<Rightarrow> json \<times> world" where
  "stats_summary st cached_summary w =
     (case cached_summary of
        Some s \<Rightarrow> (s, w)
      | None \<Rightarrow>
          (summary_of w,
           cache_do (CacheSet ''materials:stats_summary'' (summary_of w) (cache_ttl_stats_seconds st)) w))"

end
