(* ===== verification/Lifecycle.thy ===== *)
theory Lifecycle
  imports Moderation Delivery
begin

text \<open>
  The life of a material across the material and the moderation service: the step relation of
  every operation that changes the materials or their files, the invariant those steps
  preserve, the status changes they make and who makes them.
\<close>

section \<open>What the operations touch\<close>

definition same_materials :: "world \<Rightarrow> world \<Rightarrow> bool" where
  "same_materials w w' \<longleftrightarrow>
     db_materials w' = db_materials w \<and> db_material_files w' = db_material_files w"

lemma material_frames [simp]:
  "db_materials (cache_do c w) = db_materials w"
  "db_material_files (cache_do c w) = db_material_files w"
  "db_materials (invalidate_material_caches w) = db_materials w"
  "db_material_files (invalidate_material_caches w) = db_material_files w"
  "db_materials (log_review i now mid act aid note reason w) = db_materials w"
  "db_material_files (log_review i now mid act aid note reason w) = db_material_files w"
  "db_materials (audit i now what ent actor eid det w) = db_materials w"
  "db_material_files (audit i now what ent actor eid det w) = db_material_files w"
  "db_material_files (save_material now m w) = db_material_files w"
  by (simp_all add: cache_do_def invalidate_material_caches_def log_review_def audit_def save_material_def)

lemma finish_eq [simp]:
  "finish mid w = (Inr (get_material mid w), invalidate_material_caches w)"
  by (simp add: finish_def get_material_def)

lemma create_event_same:
  "same_materials w (snd (create_event i now ty ety eid r payload ch w))"
  by (auto simp: create_event_def same_materials_def Let_def split: sum.splits option.splits)

lemma create_events_same:
  "same_materials w (snd (create_events ids j now ty ety eid payload rs w))"
proof (induction rs arbitrary: j w)
  case (Cons r rs)
  obtain res w1 where e: "create_event (ids j) now ty ety eid r payload ''telegram_bot'' w = (res, w1)"
    by fastforce
  have "same_materials w w1"
    using create_event_same [of w "ids j" now ty ety eid r payload "''telegram_bot''"] e by simp
  with Cons.IH [of w1 "j + 1"] e show ?case
    by (auto simp: same_materials_def split: sum.splits prod.splits)
qed (simp add: same_materials_def)

lemma enqueue_same:
  "enqueue_material_submitted_events st ids j now m eid w = (r, w') \<Longrightarrow> same_materials w w'"
  "enqueue_material_owner_event st i now ty m actor reason note w = (r', w') \<Longrightarrow> same_materials w w'"
proof -
  assume "enqueue_material_submitted_events st ids j now m eid w = (r, w')"
  then show "same_materials w w'"
    unfolding enqueue_material_submitted_events_def by (metis create_events_same snd_conv)
next
  assume a: "enqueue_material_owner_event st i now ty m actor reason note w = (r', w')"
  have "\<exists>own payload. w' = w \<or> w' = snd (create_event i now ty (Some ''material'') (Some (m_id m)) own payload ''telegram_bot'' w)"
    using a by (auto simp: enqueue_material_owner_event_def split: option.splits if_splits prod.splits sum.splits)
      (metis snd_conv)+
  then show "same_materials w w'" using create_event_same by (auto simp: same_materials_def)
qed

section \<open>Rows of materials\<close>

text \<open>The row of one material replaced, the others as they are.\<close>

definition set_row :: "material \<Rightarrow> material list \<Rightarrow> material list" where
  "set_row m rows = map (\<lambda>r. if m_id r = m_id m then m else r) rows"

lemma set_row_ids [simp]: "map m_id (set_row m rows) = map m_id rows"
  by (simp add: set_row_def)

lemma set_row_twice: "m_id m = m_id m' \<Longrightarrow> set_row m (set_row m' rows) = set_row m rows"
  by (simp add: set_row_def)

lemma find_set_row:
  "find (\<lambda>r. m_id r = i) (set_row m rows) =
     (if i = m_id m then map_option (\<lambda>_. m) (find (\<lambda>r. m_id r = i) rows)
      else find (\<lambda>r. m_id r = i) rows)"
  unfolding set_row_def by (induction rows) auto

lemma get_material_id: "get_material i w = Some m \<Longrightarrow> m_id m = i"
  unfolding get_material_def by (rule find_key_Some)

lemma get_material_in: "get_material i w = Some m \<Longrightarrow> m \<in> set (db_materials w)"
  unfolding get_material_def by (rule find_Some_in)

lemma get_material_cong: "db_materials w' = db_materials w \<Longrightarrow> get_material i w' = get_material i w"
  by (simp add: get_material_def)

lemma get_material_iff:
  "distinct (map m_id (db_materials w)) \<Longrightarrow>
     get_material i w = Some m \<longleftrightarrow> m \<in> set (db_materials w) \<and> m_id m = i"
proof
  assume "distinct (map m_id (db_materials w))" "m \<in> set (db_materials w) \<and> m_id m = i"
  then show "get_material i w = Some m"
    using find_distinct [of m_id "db_materials w" m] unfolding get_material_def by blast
qed (blast intro: get_material_in get_material_id)

lemma get_owned_materialD:
  assumes "get_owned_material mid uid w = Inr m"
  shows "get_material mid w = Some m" "m_deleted_at m = None" "m_uploaded_by m = uid"
  using assms by (auto simp: get_owned_material_def split: option.splits if_splits)

lemma get_scoped_materialD:
  assumes "get_scoped_material mid actor w = Inr m"
  shows "get_material mid w = Some m" "m_deleted_at m = None" "assert_scope actor m w = Inr ()"
  using assms by (auto simp: get_scoped_material_def split: option.splits if_splits sum.splits)

lemma ensure_editable_ok [guards]:
  "ensure_material_is_editable m = Inr u \<longleftrightarrow> m_status m \<noteq> PENDING_REVIEW"
  by (simp add: ensure_material_is_editable_def)

lemma rereviewD:
  assumes "mark_material_for_rereview_if_needed i now m aid w = (m1, w1)"
  shows "m_id m1 = m_id m" "m_slug m1 = m_slug m" "m_file_count m1 = m_file_count m"
    "m_total_size m1 = m_total_size m" "m_uploaded_by m1 = m_uploaded_by m"
    "m_status m1 = (if m_status m = APPROVED then PENDING_REVIEW else m_status m)"
    "m_deleted_at m1 = m_deleted_at m" "m_download_count m1 = m_download_count m"
    "db_material_files w1 = db_material_files w"
    "db_materials w1 = db_materials (if m_status m = APPROVED then save_material now m1 w else w)"
  using assms by (auto simp: mark_material_for_rereview_if_needed_def Let_def split: if_splits)

lemma update_where_set_row:
  assumes "distinct (map m_id rows)" "m \<in> set rows" "m_id (f m) = m_id m"
  shows "update_where (\<lambda>r. m_id r = m_id m) f rows = set_row (f m) rows"
proof -
  have eq: "r = m" if "r \<in> set rows" "m_id r = m_id m" for r
    using distinct_map_keyed [OF assms(1) that(1) assms(2) that(2)] .
  show ?thesis
    unfolding update_where_def set_row_def assms(3) by (rule map_cong) (auto dest: eq)
qed

text \<open>The flush of \<open>m'\<close> over the row \<open>m\<close>.\<close>

definition flushed :: "int \<Rightarrow> material \<Rightarrow> material \<Rightarrow> material" where
  "flushed now m m' = (if m = m' then m else m'\<lparr>m_updated_at := now\<rparr>)"

lemma flushed_simps [simp]:
  "m_id (flushed now m m') = m_id m'" "m_slug (flushed now m m') = m_slug m'"
  "m_uploaded_by (flushed now m m') = m_uploaded_by m'" "m_status (flushed now m m') = m_status m'"
  "m_file_count (flushed now m m') = m_file_count m'" "m_total_size (flushed now m m') = m_total_size m'"
  "m_deleted_at (flushed now m m') = m_deleted_at m'"
  "m_download_count (flushed now m m') = m_download_count m'"
  "m_approved_by (flushed now m m') = m_approved_by m'"
  by (simp_all add: flushed_def)

lemma set_row_same:
  "distinct (map m_id rows) \<Longrightarrow> m \<in> set rows \<Longrightarrow> set_row m rows = rows"
  unfolding set_row_def by (rule map_idI) (auto dest: distinct_map_keyed)

lemma save_material_set_row:
  assumes "distinct (map m_id (db_materials w))" "get_material (m_id m') w = Some m"
  shows "db_materials (save_material now m' w) = set_row (flushed now m m') (db_materials w)"
proof -
  have "m \<in> set (db_materials w)" "m_id m = m_id m'"
    using assms(2) by (simp_all add: get_material_in get_material_id)
  then have eq: "r = m" if "r \<in> set (db_materials w)" "m_id r = m_id m'" for r
    using distinct_map_keyed [OF assms(1) that(1)] that(2) by simp
  have "(if m_id r = m_id m' then (if r = m' then r else m'\<lparr>m_updated_at := now\<rparr>) else r) =
      (if m_id r = m_id m' then flushed now m m' else r)" if r: "r \<in> set (db_materials w)" for r
  proof (cases "m_id r = m_id m'")
    case True
    with eq [OF r] have "r = m" .
    with True show ?thesis by (simp add: flushed_def)
  qed simp
  then show ?thesis
    unfolding set_row_def by (simp add: save_material_def cong: map_cong)
qed

text \<open>One material rewritten: its row replaced, its identity, slug and owner kept.\<close>

definition rewritten :: "world \<Rightarrow> world \<Rightarrow> material \<Rightarrow> material \<Rightarrow> bool" where
  "rewritten w w' m m' \<longleftrightarrow>
     distinct (map m_id (db_materials w)) \<and> get_material (m_id m) w = Some m \<and>
     db_materials w' = set_row m' (db_materials w) \<and>
     m_id m' = m_id m \<and> m_slug m' = m_slug m \<and> m_uploaded_by m' = m_uploaded_by m"

lemma rewritten_get:
  assumes "rewritten w w' m m'"
  shows "get_material i w' = (if i = m_id m then Some m' else get_material i w)"
  using assms by (auto simp: rewritten_def get_material_def find_set_row)

lemma rewritten_distinct: "rewritten w w' m m' \<Longrightarrow> distinct (map m_id (db_materials w'))"
  by (simp add: rewritten_def)

lemma rewritten_cong: "rewritten w w1 m m' \<Longrightarrow> db_materials w2 = db_materials w1 \<Longrightarrow> rewritten w w2 m m'"
  by (simp add: rewritten_def)

lemma rewritten_same:
  assumes "distinct (map m_id (db_materials w))" "get_material mid w = Some m"
    "db_materials w' = db_materials w"
  shows "rewritten w w' m m"
  using assms get_material_in [OF assms(2)] get_material_id [OF assms(2)]
  by (simp add: rewritten_def set_row_same)

lemma rewritten_trans:
  assumes "rewritten w w1 m m1" "rewritten w1 w2 m1 m2" shows "rewritten w w2 m m2"
  using assms by (simp add: rewritten_def set_row_twice)

lemma rewritten_save:
  assumes "distinct (map m_id (db_materials w))" "get_material mid w = Some m"
    "m_id m' = m_id m" "m_slug m' = m_slug m" "m_uploaded_by m' = m_uploaded_by m"
  shows "rewritten w (save_material now m' w) m (flushed now m m')"
  using assms get_material_id [OF assms(2)] by (simp add: rewritten_def save_material_set_row)

lemma rewritten_rereview:
  assumes "distinct (map m_id (db_materials w))" "get_material mid w = Some m"
    "mark_material_for_rereview_if_needed i now m aid w = (m1, w1)"
  shows "rewritten w w1 m (if m_status m = APPROVED then flushed now m m1 else m)"
proof -
  note d = rereviewD [OF assms(3)]
  show ?thesis
  proof (cases "m_status m = APPROVED")
    case True
    with d rewritten_cong [OF rewritten_save [OF assms(1,2), of m1 now]] show ?thesis by simp
  next
    case False
    with d rewritten_same [OF assms(1,2), of w1] show ?thesis by simp
  qed
qed

text \<open>The last step of an edit: the changes of the request on top of the way back to review.\<close>

lemma rewritten_edit:
  assumes "distinct (map m_id (db_materials w))" "get_material mid w = Some m"
    "mark_material_for_rereview_if_needed i now m aid w = (m1, w1)"
    "m_id m2 = m_id m" "m_slug m2 = m_slug m" "m_uploaded_by m2 = m_uploaded_by m"
  shows "\<exists>m'. rewritten w (save_material now m2 w1) m m' \<and> (m' = m2 \<or> m' = m2\<lparr>m_updated_at := now\<rparr>)"
proof -
  let ?r = "if m_status m = APPROVED then flushed now m m1 else m"
  note r = rewritten_rereview [OF assms(1-3)]
  note d = rereviewD [OF assms(3)]
  have "m_id ?r = m_id m" "m_slug ?r = m_slug m" "m_uploaded_by ?r = m_uploaded_by m"
    using d by simp_all
  moreover have "get_material (m_id m) w1 = Some ?r" using rewritten_get [OF r] by simp
  ultimately have "rewritten w1 (save_material now m2 w1) ?r (flushed now ?r m2)"
    using assms(4-6) by (intro rewritten_save [OF rewritten_distinct [OF r], of "m_id m"]) simp_all
  from rewritten_trans [OF r this] show ?thesis
    by (intro exI [of _ "flushed now ?r m2"]) (simp add: flushed_def)
qed

section \<open>What a change may be\<close>

text \<open>What a reviewer judges: the text of a material and its files.\<close>

definition content :: "material \<Rightarrow> string \<times> string option \<times> material_type \<times> int list \<times> string option \<times> string option \<times> int \<times> int" where
  "content m = (m_title m, m_description m, m_material_type m, m_semesters m, m_cover_file_id m,
     m_primary_file_id m, m_file_count m, m_total_size m)"

definition file_key :: "material_file \<Rightarrow> string \<times> string \<times> string \<times> int" where
  "file_key f = (mf_id f, mf_material_id f, mf_storage_key f, mf_file_size f)"

definition file_keys :: "world \<Rightarrow> (string \<times> string \<times> string \<times> int) list" where
  "file_keys w = map file_key (db_material_files w)"

definition deletion :: "material \<Rightarrow> material \<Rightarrow> bool" where
  "deletion m m' \<longleftrightarrow> m' = m\<lparr>m_deleted_at := m_deleted_at m', m_updated_at := m_updated_at m'\<rparr> \<and>
     m_deleted_at m' \<noteq> None"

definition owner_change :: "material \<Rightarrow> material \<Rightarrow> bool" where
  "owner_change m m' \<longleftrightarrow> deletion m m' \<or>
     m_deleted_at m' = None \<and> m_download_count m' = m_download_count m \<and>
     (m_status m, m_status m') \<in>
       {(DRAFT, DRAFT), (REJECTED, REJECTED), (DRAFT, PENDING_REVIEW), (REJECTED, PENDING_REVIEW),
        (APPROVED, PENDING_REVIEW), (PENDING_REVIEW, DRAFT)}"

definition reviewer_change :: "user \<Rightarrow> material \<Rightarrow> material \<Rightarrow> bool" where
  "reviewer_change u m m' \<longleftrightarrow>
     m_deleted_at m' = None \<and> m_download_count m' = m_download_count m \<and> content m' = content m \<and>
     m_last_reviewed_by m' = Some (u_id u) \<and>
     (m_status m' = m_status m \<or>
      m_status m = PENDING_REVIEW \<and> m_status m' = REJECTED \<or>
      m_status m = PENDING_REVIEW \<and> m_status m' = APPROVED \<and> m_approved_by m' = Some (u_id u) \<and>
      1 \<le> m_file_count m)"

definition counted :: "material \<Rightarrow> material \<Rightarrow> bool" where
  "counted m m' \<longleftrightarrow>
     m' = m\<lparr>m_download_count := m_download_count m + 1, m_updated_at := m_updated_at m'\<rparr>"

text \<open>The changes of one material that an actor may make; None is the clean-up of stale drafts.\<close>

definition permitted :: "user option \<Rightarrow> world \<Rightarrow> material \<Rightarrow> material \<Rightarrow> bool" where
  "permitted actor w m m' \<longleftrightarrow>
     m' = m \<or>
     m_deleted_at m = None \<and>
     (counted m m' \<or>
      (case actor of
         None \<Rightarrow> m_status m = DRAFT \<and> deletion m m'
       | Some u \<Rightarrow> m_uploaded_by m = u_id u \<and> owner_change m m' \<or>
                   assert_scope u m w = Inr () \<and> reviewer_change u m m'))"

definition plain :: "user option \<Rightarrow> world \<Rightarrow> world \<Rightarrow> bool" where
  "plain actor w w' \<longleftrightarrow>
     (\<exists>m m'. rewritten w w' m m' \<and> permitted actor w m m' \<and>
        m_file_count m' = m_file_count m \<and> m_total_size m' = m_total_size m \<and>
        file_keys w' = file_keys w)"

lemma plainI:
  assumes "rewritten w w1 m m'" "permitted actor w m m'" "db_materials w' = db_materials w1"
    "m_file_count m' = m_file_count m" "m_total_size m' = m_total_size m" "file_keys w' = file_keys w"
  shows "plain actor w w'"
  unfolding plain_def using rewritten_cong [OF assms(1,3)] assms by blast

lemma file_keys_cong: "db_material_files w' = db_material_files w \<Longrightarrow> file_keys w' = file_keys w"
  by (simp add: file_keys_def)

text \<open>The three shapes an operation on one material has: a save, an edit, no change of the row.\<close>

lemma plain_save:
  assumes "distinct (map m_id (db_materials w))" "get_material mid w = Some m"
    and "m_id m' = m_id m" "m_slug m' = m_slug m" "m_uploaded_by m' = m_uploaded_by m"
    and "m_file_count m' = m_file_count m" "m_total_size m' = m_total_size m"
    and "permitted actor w m (flushed now m m')"
    and "db_materials w' = db_materials (save_material now m' w)" "file_keys w' = file_keys w"
  shows "plain actor w w'"
  by (rule plainI [OF rewritten_save [OF assms(1-5)] assms(8,9)]) (simp_all add: assms)

lemma plain_edit:
  assumes "distinct (map m_id (db_materials w))" "get_owned_material mid (u_id user) w = Inr m"
    and "m_status m \<noteq> PENDING_REVIEW"
    and e: "mark_material_for_rereview_if_needed i now m aid w = (m1, w1)"
    and "m_id m2 = m_id m1" "m_slug m2 = m_slug m1" "m_uploaded_by m2 = m_uploaded_by m1"
    and "m_file_count m2 = m_file_count m1" "m_total_size m2 = m_total_size m1"
    and "m_status m2 = m_status m1" "m_deleted_at m2 = m_deleted_at m1"
    and "m_download_count m2 = m_download_count m1"
    and w': "db_materials w' = db_materials (save_material now m2 w1)" "file_keys w' = file_keys w"
  shows "plain (Some user) w w'"
proof -
  note g = get_owned_materialD [OF assms(2)]
  note d = rereviewD [OF e]
  obtain m' where m': "rewritten w (save_material now m2 w1) m m'"
      "m' = m2 \<or> m' = m2\<lparr>m_updated_at := now\<rparr>"
    using rewritten_edit [OF assms(1) g(1) e, of m2] d assms by auto
  then have k: "m_status m' = m_status m1" "m_deleted_at m' = m_deleted_at m1"
    "m_download_count m' = m_download_count m1" "m_file_count m' = m_file_count m1"
    "m_total_size m' = m_total_size m1"
    using assms by auto
  have "permitted (Some user) w m m'"
    using assms(3) g d k by (cases "m_status m") (auto simp: permitted_def owner_change_def)
  with k d show ?thesis by (intro plainI [OF m'(1) _ w'(1) _ _ w'(2)]) simp_all
qed

lemma plain_row_kept:
  assumes "distinct (map m_id (db_materials w))" "get_owned_material mid (u_id user) w = Inr m"
    and "m_status m \<noteq> PENDING_REVIEW"
    and e: "mark_material_for_rereview_if_needed i now m aid w = (m1, w1)"
    and w': "db_materials w' = db_materials w1" "file_keys w' = file_keys w"
  shows "plain (Some user) w w'"
proof -
  note g = get_owned_materialD [OF assms(2)]
  note d = rereviewD [OF e]
  let ?m = "if m_status m = APPROVED then flushed now m m1 else m"
  have "permitted (Some user) w m ?m"
    using g d by (auto simp: permitted_def owner_change_def)
  then show ?thesis
    by (rule plainI [OF rewritten_rereview [OF assms(1) g(1) e] _ w'(1) _ _ w'(2)]) (simp_all add: d)
qed

section \<open>Each operation\<close>

lemma submit_effect:
  assumes "distinct (map m_id (db_materials w))" "submit st ids now mid user w = (r, w')"
  shows "w' = w \<or> plain (Some user) w w'"
proof (cases r)
  case (Inl e)
  with assms(2) have "w' = w"
    by (auto simp: submit_def Let_def split: sum.splits if_splits prod.splits)
  then show ?thesis ..
next
  case (Inr x)
  obtain m where m: "get_owned_material mid (u_id user) w = Inr m"
    using assms(2) Inr by (auto simp: submit_def split: sum.splits)
  note d = get_owned_materialD [OF m]
  let ?m = "m\<lparr>m_status := PENDING_REVIEW, m_submitted_at := Some now\<rparr>"
  let ?act = "if m_status m = DRAFT then ActSubmitted else ActResubmitted"
  let ?w1 = "log_review (ids 0) now (m_id m) ?act (u_id user) None None (save_material now ?m w)"
  obtain es w2 where e: "enqueue_material_submitted_events st ids 1 now ?m (ids 0) ?w1 = (Inr es, w2)"
      and w': "w' = invalidate_material_caches w2" and s: "m_status m \<in> {DRAFT, REJECTED}"
    using assms(2) Inr m by (auto simp: submit_def Let_def split: sum.splits if_splits prod.splits)
  have "permitted (Some user) w m (flushed now m ?m)"
    using d s by (auto simp: permitted_def owner_change_def)
  moreover have "same_materials ?w1 w2" using enqueue_same(1) [OF e] .
  ultimately have "plain (Some user) w w'"
    by (intro plain_save [OF assms(1) d(1), where m' = ?m and now = now])
      (simp_all add: w' same_materials_def file_keys_def)
  then show ?thesis ..
qed

lemma withdraw_effect:
  assumes "distinct (map m_id (db_materials w))" "withdraw i now mid user w = (r, w')"
  shows "w' = w \<or> plain (Some user) w w'"
proof (cases "w' = w")
  case False
  obtain m where m: "get_owned_material mid (u_id user) w = Inr m"
    using assms(2) False by (auto simp: withdraw_def split: sum.splits)
  note d = get_owned_materialD [OF m]
  let ?m = "m\<lparr>m_status := DRAFT\<rparr>"
  have s: "m_status m = PENDING_REVIEW"
    and w': "w' = invalidate_material_caches (log_review i now (m_id m) ActWithdrawn (u_id user) None None
      (save_material now ?m w))"
    using assms(2) False m by (auto simp: withdraw_def split: if_splits)
  have "permitted (Some user) w m (flushed now m ?m)"
    using d s by (auto simp: permitted_def owner_change_def)
  then have "plain (Some user) w w'"
    by (intro plain_save [OF assms(1) d(1), where m' = ?m and now = now])
      (simp_all add: w' file_keys_def)
  then show ?thesis ..
qed simp

lemma delete_material_effect:
  assumes "distinct (map m_id (db_materials w))" "delete_material now mid user w = (r, w')"
  shows "w' = w \<or> plain (Some user) w w'"
proof (cases "w' = w")
  case False
  obtain m where m: "get_owned_material mid (u_id user) w = Inr m"
    using assms(2) False by (auto simp: delete_material_def split: sum.splits)
  note d = get_owned_materialD [OF m]
  let ?m = "m\<lparr>m_deleted_at := Some now\<rparr>"
  have w': "w' = invalidate_material_caches (save_material now ?m w)"
    using assms(2) m by (auto simp: delete_material_def)
  have "permitted (Some user) w m (flushed now m ?m)"
    using d by (auto simp: permitted_def owner_change_def deletion_def flushed_def)
  then have "plain (Some user) w w'"
    by (intro plain_save [OF assms(1) d(1), where m' = ?m and now = now])
      (simp_all add: w' file_keys_def)
  then show ?thesis ..
qed simp

text \<open>The columns a PATCH cannot reach.\<close>

definition fixed_columns ::
  "material \<Rightarrow> string \<times> string \<times> string \<times> int \<times> int \<times> material_status \<times> int option \<times> int"
where
  "fixed_columns m = (m_id m, m_slug m, m_uploaded_by m, m_file_count m, m_total_size m, m_status m,
     m_deleted_at m, m_download_count m)"

definition kept :: "material \<Rightarrow> material res \<Rightarrow> bool" where
  "kept m r = (case r of Inl _ \<Rightarrow> True | Inr m' \<Rightarrow> fixed_columns m' = fixed_columns m)"

lemma kept_set:
  assumes "kept m r" "\<And>v m. fixed_columns (g v m) = fixed_columns m"
  shows "kept m (set_required f g r)"
  using assms by (auto simp: kept_def set_required_def split: sum.splits option.splits)

lemma kept_set_nullable:
  assumes "kept m r" "\<And>v m. fixed_columns (g v m) = fixed_columns m"
  shows "kept m (set_nullable f g r)"
  using assms by (auto simp: kept_def set_nullable_def split: sum.splits option.splits)

lemma apply_update_fixed:
  assumes "apply_update payload m = Inr m'" shows "fixed_columns m' = fixed_columns m"
proof -
  have "kept m (apply_update payload m)"
    unfolding apply_update_def
    by (intro kept_set kept_set_nullable) (simp_all add: kept_def fixed_columns_def)
  with assms show ?thesis by (simp add: kept_def)
qed

lemma apply_update_keeps:
  assumes "apply_update payload m = Inr m'"
  shows "m_id m' = m_id m" "m_slug m' = m_slug m" "m_uploaded_by m' = m_uploaded_by m"
    "m_file_count m' = m_file_count m" "m_total_size m' = m_total_size m"
    "m_status m' = m_status m" "m_deleted_at m' = m_deleted_at m"
    "m_download_count m' = m_download_count m"
  using apply_update_fixed [OF assms] by (simp_all add: fixed_columns_def)

lemma update_material_effect:
  assumes "distinct (map m_id (db_materials w))" "update_material i now mid payload user w = (r, w')"
  shows "w' = w \<or> plain (Some user) w w'"
proof (cases "w' = w")
  case False
  obtain m where m: "get_owned_material mid (u_id user) w = Inr m"
    using assms(2) False by (auto simp: update_material_def split: sum.splits)
  obtain m1 w1 where e: "mark_material_for_rereview_if_needed i now m (u_id user) w = (m1, w1)"
    by fastforce
  have ed: "m_status m \<noteq> PENDING_REVIEW"
    using assms(2) False m
    by (auto simp: update_material_def Let_def ensure_material_is_editable_def split: sum.splits if_splits)
  then have "\<exists>m2. apply_update payload m1 = Inr m2 \<and>
      w' = invalidate_material_caches (save_material now m2 w1)"
    using assms(2) False m e
    by (auto simp: update_material_def Let_def ensure_material_is_editable_def split: sum.splits if_splits)
  then obtain m2 where m2: "apply_update payload m1 = Inr m2"
      and w': "w' = invalidate_material_caches (save_material now m2 w1)" by blast
  have "plain (Some user) w w'"
    by (rule plain_edit [OF assms(1) m ed e apply_update_keeps [OF m2]])
      (simp_all add: w' file_keys_def rereviewD(9) [OF e])
  then show ?thesis ..
qed simp

lemma update_file_selection_effect:
  assumes "distinct (map m_id (db_materials w))"
    "update_file_selection i now mid fid cover primary user w = (r, w')"
  shows "w' = w \<or> plain (Some user) w w'"
proof (cases "w' = w")
  case False
  obtain m where m: "get_owned_material mid (u_id user) w = Inr m"
    using assms(2) False by (auto simp: update_file_selection_def split: sum.splits)
  obtain m1 w1 where e: "mark_material_for_rereview_if_needed i now m (u_id user) w = (m1, w1)"
    by fastforce
  let ?m2 = "m1\<lparr>m_cover_file_id := select_file cover fid (m_cover_file_id m1),
    m_primary_file_id := select_file primary fid (m_primary_file_id m1)\<rparr>"
  have ed: "m_status m \<noteq> PENDING_REVIEW"
    and w': "w' = invalidate_material_caches (save_material now ?m2 w1)"
    using assms(2) False m e
    by (auto simp: update_file_selection_def ensure_material_is_editable_def split: sum.splits if_splits)
  have "plain (Some user) w w'"
    by (rule plain_edit [OF assms(1) m ed e, of ?m2])
      (simp_all add: w' file_keys_def rereviewD(9) [OF e])
  then show ?thesis ..
qed simp

lemma attach_tag_effect:
  assumes "distinct (map m_id (db_materials w))" "attach_tag i now mid tid user w = (r, w')"
  shows "w' = w \<or> plain (Some user) w w'"
proof (cases "w' = w")
  case False
  obtain m where m: "get_owned_material mid (u_id user) w = Inr m"
    using assms(2) False by (auto simp: attach_tag_def split: sum.splits)
  obtain m1 w1 where e: "mark_material_for_rereview_if_needed i now m (u_id user) w = (m1, w1)"
    by fastforce
  have ed: "m_status m \<noteq> PENDING_REVIEW"
    and same: "db_materials w' = db_materials w1" "db_material_files w' = db_material_files w1"
    using assms(2) False m e
    by (auto simp: attach_tag_def ensure_material_is_editable_def
        split: sum.splits option.splits if_splits)
  have "plain (Some user) w w'"
    by (rule plain_row_kept [OF assms(1) m ed e same(1)])
      (simp add: file_keys_def same rereviewD(9) [OF e])
  then show ?thesis ..
qed simp

lemma detach_tag_effect:
  assumes "distinct (map m_id (db_materials w))" "detach_tag i now mid tid user w = (r, w')"
  shows "w' = w \<or> plain (Some user) w w'"
proof (cases "w' = w")
  case False
  obtain m where m: "get_owned_material mid (u_id user) w = Inr m"
    using assms(2) False by (auto simp: detach_tag_def split: sum.splits)
  obtain m1 w1 where e: "mark_material_for_rereview_if_needed i now m (u_id user) w = (m1, w1)"
    by fastforce
  have ed: "m_status m \<noteq> PENDING_REVIEW"
    and same: "db_materials w' = db_materials w1" "db_material_files w' = db_material_files w1"
    using assms(2) False m e
    by (auto simp: detach_tag_def ensure_material_is_editable_def
        split: sum.splits option.splits if_splits)
  have "plain (Some user) w w'"
    by (rule plain_row_kept [OF assms(1) m ed e same(1)])
      (simp add: file_keys_def same rereviewD(9) [OF e])
  then show ?thesis ..
qed simp

lemma set_file_orders_keys: "map file_key (set_file_orders is rows) = map file_key rows"
proof -
  have "map file_key (foldl (\<lambda>rows (index, i). update_where (\<lambda>f. mf_id f = i)
      (\<lambda>f. f\<lparr>mf_file_order := int index\<rparr>) rows) rows ps) = map file_key rows" for ps
    by (induction ps arbitrary: rows) (auto simp: update_where_def file_key_def)
  then show ?thesis by (simp add: set_file_orders_def)
qed

lemma reorder_files_effect:
  assumes "distinct (map m_id (db_materials w))" "reorder_files i now mid is user w = (r, w')"
  shows "w' = w \<or> plain (Some user) w w'"
proof (cases "w' = w")
  case False
  obtain m where m: "get_owned_material mid (u_id user) w = Inr m"
    using assms(2) False by (auto simp: reorder_files_def split: sum.splits)
  obtain m1 w1 where e: "mark_material_for_rereview_if_needed i now m (u_id user) w = (m1, w1)"
    by fastforce
  have ed: "m_status m \<noteq> PENDING_REVIEW"
    and same: "db_materials w' = db_materials w1"
      "db_material_files w' = set_file_orders is (db_material_files w1)"
    using assms(2) False m e
    by (auto simp: reorder_files_def Let_def ensure_material_is_editable_def
        split: sum.splits if_splits)
  have "plain (Some user) w w'"
    by (rule plain_row_kept [OF assms(1) m ed e same(1)])
      (simp add: file_keys_def same set_file_orders_keys rereviewD(9) [OF e])
  then show ?thesis ..
qed simp

lemma report_material_same:
  "report_material ids now mid reason details user w = (r, w') \<Longrightarrow> same_materials w w'"
  by (auto simp: report_material_def same_materials_def split: option.splits if_splits)

text \<open>Decisions: the material that is saved, in the scope of the reviewer.\<close>

lemma decision_effect:
  assumes "distinct (map m_id (db_materials w))" "get_scoped_material mid actor w = Inr m"
    and "m_id m' = m_id m" "m_slug m' = m_slug m" "m_uploaded_by m' = m_uploaded_by m"
    and "reviewer_change actor m m'"
    and "same_materials (save_material now m' w) w'"
  shows "plain (Some actor) w w'"
proof -
  note d = get_scoped_materialD [OF assms(2)]
  have c: "content m' = content m" using assms(6) by (simp add: reviewer_change_def)
  have "reviewer_change actor m (flushed now m m')"
    using assms(6) by (cases "m = m'") (simp_all add: reviewer_change_def flushed_def content_def)
  then have "permitted (Some actor) w m (flushed now m m')"
    using d by (simp add: permitted_def)
  with c assms show ?thesis
    by (intro plain_save [OF assms(1) d(1), where m' = m' and now = now])
      (simp_all add: content_def same_materials_def file_keys_def)
qed

lemma approve_effect:
  assumes "distinct (map m_id (db_materials w))" "approve st ids now mid actor w = (r, w')"
  shows "w' = w \<or> plain (Some actor) w w'"
proof (cases "w' = w")
  case False
  obtain m where m: "get_scoped_material mid actor w = Inr m"
    using assms(2) False by (auto simp: approve_def split: sum.splits)
  let ?m = "m\<lparr>m_status := APPROVED, m_approved_by := Some (u_id actor),
    m_last_reviewed_by := Some (u_id actor), m_reviewed_at := Some now, m_rejected_reason := None\<rparr>"
  let ?w1 = "audit (ids 1) now ''material_approved'' ''material'' (Some actor) (Some (m_id m)) None
    (log_review (ids 0) now (m_id m) ActApproved (u_id actor) None None (save_material now ?m w))"
  obtain es w2 where s: "m_status m = PENDING_REVIEW" "1 \<le> m_file_count m"
      and e: "enqueue_material_owner_event st (ids 2) now MATERIAL_APPROVED ?m actor None None ?w1 = (Inr es, w2)"
      and w': "w' = invalidate_material_caches w2"
    using assms(2) False m by (auto simp: approve_def Let_def split: sum.splits if_splits prod.splits)
  have "reviewer_change actor m ?m"
    using s get_scoped_materialD(2) [OF m] by (simp add: reviewer_change_def content_def)
  moreover have "same_materials (save_material now ?m w) w'"
    using enqueue_same(2) [OF e] by (simp add: same_materials_def w')
  ultimately have "plain (Some actor) w w'" by (intro decision_effect [OF assms(1) m, of ?m]) simp_all
  then show ?thesis ..
qed simp

lemma rejected_by_change:
  "m_status m = PENDING_REVIEW \<Longrightarrow> m_deleted_at m = None \<Longrightarrow>
     reviewer_change actor m (rejected_by actor now reason m)"
  by (simp add: reviewer_change_def rejected_by_def content_def)

lemma reject_effect:
  assumes "distinct (map m_id (db_materials w))" "reject st ids now mid reason note actor w = (r, w')"
  shows "w' = w \<or> plain (Some actor) w w'"
proof (cases "w' = w")
  case False
  obtain m where m: "get_scoped_material mid actor w = Inr m"
    using assms(2) False by (auto simp: reject_def split: sum.splits)
  let ?m = "rejected_by actor now reason m"
  let ?w1 = "audit (ids 1) now ''material_rejected'' ''material'' (Some actor) (Some (m_id m))
    (Some (reject_reason_value reason)) (log_review (ids 0) now (m_id m) ActRejected (u_id actor) note
      (Some (reject_reason_value reason)) (save_material now ?m w))"
  obtain es w2 where s: "m_status m = PENDING_REVIEW"
      and e: "enqueue_material_owner_event st (ids 2) now MATERIAL_REJECTED ?m actor
        (Some (reject_reason_value reason)) note ?w1 = (Inr es, w2)"
      and w': "w' = invalidate_material_caches w2"
    using assms(2) False m by (auto simp: reject_def Let_def split: sum.splits if_splits prod.splits)
  have "reviewer_change actor m ?m" using rejected_by_change [OF s get_scoped_materialD(2) [OF m]] .
  moreover have "same_materials (save_material now ?m w) w'"
    using enqueue_same(2) [OF e] by (simp add: same_materials_def w')
  ultimately have "plain (Some actor) w w'"
    by (intro decision_effect [OF assms(1) m, of ?m]) (simp_all add: rejected_by_def)
  then show ?thesis ..
qed simp

lemma request_revision_effect:
  assumes "distinct (map m_id (db_materials w))"
    "request_revision st ids now mid reason note actor w = (r, w')"
  shows "w' = w \<or> plain (Some actor) w w'"
proof (cases "w' = w")
  case False
  obtain m where m: "get_scoped_material mid actor w = Inr m"
    using assms(2) False by (auto simp: request_revision_def split: sum.splits)
  let ?m = "rejected_by actor now reason m"
  let ?w1 = "audit (ids 1) now ''material_revision_requested'' ''material'' (Some actor) (Some (m_id m))
    (Some (reject_reason_value reason)) (log_review (ids 0) now (m_id m) ActRequestedRevision (u_id actor)
      note (Some (reject_reason_value reason)) (save_material now ?m w))"
  obtain es w2 where s: "m_status m = PENDING_REVIEW"
      and e: "enqueue_material_owner_event st (ids 2) now MATERIAL_REVISION_REQUESTED ?m actor
        (Some (reject_reason_value reason)) note ?w1 = (Inr es, w2)"
      and w': "w' = invalidate_material_caches w2"
    using assms(2) False m by (auto simp: request_revision_def Let_def split: sum.splits if_splits prod.splits)
  have "reviewer_change actor m ?m" using rejected_by_change [OF s get_scoped_materialD(2) [OF m]] .
  moreover have "same_materials (save_material now ?m w) w'"
    using enqueue_same(2) [OF e] by (simp add: same_materials_def w')
  ultimately have "plain (Some actor) w w'"
    by (intro decision_effect [OF assms(1) m, of ?m]) (simp_all add: rejected_by_def)
  then show ?thesis ..
qed simp

lemma move_subject_effect:
  assumes "distinct (map m_id (db_materials w))" "move_subject ids now mid sid note actor w = (r, w')"
  shows "w' = w \<or> plain (Some actor) w w'"
proof (cases "w' = w")
  case False
  obtain m where m: "get_scoped_material mid actor w = Inr m"
    using assms(2) False by (auto simp: move_subject_def split: sum.splits)
  let ?m = "m\<lparr>m_subject_id := sid, m_last_reviewed_by := Some (u_id actor), m_reviewed_at := Some now\<rparr>"
  have same: "same_materials (save_material now ?m w) w'"
    using assms(2) False m by (auto simp: move_subject_def same_materials_def split: if_splits)
  have "reviewer_change actor m ?m"
    using get_scoped_materialD(2) [OF m] by (simp add: reviewer_change_def content_def)
  with same have "plain (Some actor) w w'" by (intro decision_effect [OF assms(1) m, of ?m]) simp_all
  then show ?thesis ..
qed simp

lemma view_material:
  assumes "get_material_for_view ident user lf w = Inr m"
  shows "m \<in> set (db_materials w)" "m_deleted_at m = None"
  using assms by (auto simp: get_material_for_view_def lookup_material_def get_material_by_slug_def
      get_material_in find_Some_in split: option.splits if_splits)

lemma count_download_rows:
  assumes "distinct (map m_id (db_materials w))" "m \<in> set (db_materials w)" "m_deleted_at m = None"
    "db_materials w' = db_materials (count_download now (m_id m) w)" "file_keys w' = file_keys w"
  shows "plain actor w w'"
proof -
  let ?m = "m\<lparr>m_download_count := m_download_count m + 1, m_updated_at := now\<rparr>"
  have g: "get_material (m_id m) w = Some m" using assms(1,2) by (simp add: get_material_iff)
  have "db_materials (count_download now (m_id m) w) = set_row ?m (db_materials w)"
    using update_where_set_row [OF assms(1,2)] by (simp add: count_download_def)
  then have "rewritten w (count_download now (m_id m) w) m ?m"
    using assms(1) g by (simp add: rewritten_def)
  moreover have "permitted actor w m ?m" using assms(3) by (simp add: permitted_def counted_def)
  ultimately show ?thesis by (rule plainI [OF _ _ assms(4) _ _ assms(5)]) simp_all
qed

lemma plain_same:
  assumes "distinct (map m_id (db_materials w))" "m \<in> set (db_materials w)"
    "db_materials w' = db_materials w" "file_keys w' = file_keys w"
  shows "plain actor w w'"
proof -
  have "get_material (m_id m) w = Some m" using assms(1,2) by (simp add: get_material_iff)
  from plainI [OF rewritten_same [OF assms(1) this assms(3)] _ refl refl refl assms(4)]
  show ?thesis by (simp add: permitted_def)
qed

lemma prepare_download_effect:
  assumes "distinct (map m_id (db_materials w))"
    "prepare_download sp i now ident fid user lf w = (r, w')"
  shows "w' = w \<or> plain actor w w'"
proof (cases "w' = w")
  case False
  obtain m where m: "get_material_for_view ident user lf w = Inr m"
    using assms(2) False by (auto simp: prepare_download_def split: sum.splits)
  note v = view_material [OF m]
  have w': "w' = cache_do (CacheInvalidate ''materials:trending_ids'')
      (cache_do (CacheInvalidate ''materials:stats_summary'') (record_download i now (m_id m) user w))"
    using assms(2) False m
    by (auto simp: prepare_download_def Let_def split: sum.splits option.splits if_splits)
  have f: "file_keys w' = file_keys w"
    by (auto simp: w' file_keys_def record_download_def count_download_def split: option.split)
  have "db_materials w' = db_materials w \<or> db_materials w' = db_materials (count_download now (m_id m) w)"
    by (auto simp: w' record_download_def count_download_def split: option.split)
  then show ?thesis
    using plain_same [OF assms(1) v(1) _ f] count_download_rows [OF assms(1) v _ f] by blast
qed simp

lemma prepare_preview_effect:
  assumes "distinct (map mf_id (db_material_files w))"
    "prepare_preview pr sp u ident fid user lf w = (r, w')"
  shows "db_materials w' = db_materials w \<and> file_keys w' = file_keys w"
proof (cases "db_materials w' = db_materials w \<and> db_material_files w' = db_material_files w")
  case True
  then show ?thesis by (simp add: file_keys_def)
next
  case False
  obtain m where m: "get_material_for_view ident user lf w = Inr m"
    using assms(2) False by (auto simp: prepare_preview_def split: sum.splits)
  obtain entry where en: "get_file fid w = Some entry"
    using assms(2) False m by (auto simp: prepare_preview_def split: option.splits)
  have "\<exists>k n obs. w' = store_file (entry\<lparr>mf_preview_storage_key := Some k,
      mf_preview_page_count := Some n\<rparr>) (w\<lparr>objects := obs\<rparr>)"
    using assms(2) False m en
    by (auto simp: prepare_preview_def Let_def split: sum.splits prod.splits if_splits)
  then obtain k n obs where w': "w' = store_file (entry\<lparr>mf_preview_storage_key := Some k,
      mf_preview_page_count := Some n\<rparr>) (w\<lparr>objects := obs\<rparr>)" by blast
  have in_e: "entry \<in> set (db_material_files w)"
    using en unfolding get_file_def by (rule find_Some_in)
  have "store_row mf_id (entry\<lparr>mf_preview_storage_key := Some k, mf_preview_page_count := Some n\<rparr>)
      (db_material_files w) = map (\<lambda>f. if f = entry then entry\<lparr>mf_preview_storage_key := Some k,
        mf_preview_page_count := Some n\<rparr> else f) (db_material_files w)"
    using store_row_map [OF assms(1) in_e, of "\<lambda>f. f\<lparr>mf_preview_storage_key := Some k,
      mf_preview_page_count := Some n\<rparr>"]
    by (simp cong: map_cong if_cong)
  then show ?thesis
    by (auto simp: w' store_file_def file_keys_def file_key_def)
qed

section \<open>The counters of a material and its files\<close>

definition keys_of :: "string \<Rightarrow> world \<Rightarrow> (string \<times> string \<times> string \<times> int) list" where
  "keys_of mid w = filter (\<lambda>(_, k, _). k = mid) (file_keys w)"

definition file_sizes :: "string \<Rightarrow> world \<Rightarrow> int list" where
  "file_sizes mid w = map mf_file_size (filter (\<lambda>f. mf_material_id f = mid) (db_material_files w))"

lemma file_sizes_keys: "file_sizes mid w = map (\<lambda>(_, _, _, n). n) (keys_of mid w)"
  unfolding file_sizes_def keys_of_def file_keys_def
  by (induction "db_material_files w") (simp_all add: filter_map o_def file_key_def)

text \<open>
  The counters tell the files that are there, their size stays within the limit, and an
  approved material has a file.
\<close>

definition material_ok :: "settings \<Rightarrow> world \<Rightarrow> material \<Rightarrow> bool" where
  "material_ok st w m \<longleftrightarrow>
     m_file_count m = int (length (file_sizes (m_id m) w)) \<and>
     m_total_size m = sum_list (file_sizes (m_id m) w) \<and>
     m_total_size m \<le> upload_max_total_size st \<and>
     (m_status m = APPROVED \<longrightarrow> 1 \<le> m_file_count m)"

definition materials_ok :: "settings \<Rightarrow> world \<Rightarrow> bool" where
  "materials_ok st w \<longleftrightarrow>
     distinct (map m_id (db_materials w)) \<and> distinct (map m_slug (db_materials w)) \<and>
     distinct (map (\<lambda>(i, _). i) (file_keys w)) \<and>
     list_all (\<lambda>(_, mid, _, n). 0 < n \<and> mid \<in> m_id ` set (db_materials w)) (file_keys w) \<and>
     list_all (material_ok st w) (db_materials w)"

lemma materials_okD:
  assumes "materials_ok st w"
  shows "distinct (map m_id (db_materials w))" "distinct (map m_slug (db_materials w))"
    "distinct (map (\<lambda>(i, _). i) (file_keys w))"
    "list_all (\<lambda>(_, mid, _, n). 0 < n \<and> mid \<in> m_id ` set (db_materials w)) (file_keys w)"
    "list_all (material_ok st w) (db_materials w)"
  using assms unfolding materials_ok_def by blast+

lemma file_ids_distinct:
  assumes "materials_ok st w" shows "distinct (map mf_id (db_material_files w))"
proof -
  have "map (\<lambda>(i, _). i) (file_keys w) = map mf_id (db_material_files w)"
    by (simp add: file_keys_def file_key_def)
  with materials_okD(3) [OF assms] show ?thesis by simp
qed

lemma material_ok_row: "materials_ok st w \<Longrightarrow> get_material i w = Some m \<Longrightarrow> material_ok st w m"
  using materials_okD(5) get_material_in by (metis list_all_iff)

lemma material_ok_cong:
  "file_sizes (m_id m) w' = file_sizes (m_id m) w \<Longrightarrow> material_ok st w' m = material_ok st w m"
  by (simp add: material_ok_def)

lemma materials_ok_same:
  assumes "materials_ok st w" "db_materials w' = db_materials w" "file_keys w' = file_keys w"
  shows "materials_ok st w'"
proof -
  have "file_sizes i w' = file_sizes i w" for i by (simp add: file_sizes_keys keys_of_def assms(3))
  then have "material_ok st w' = material_ok st w" by (auto simp: material_ok_def fun_eq_iff)
  with assms show ?thesis by (simp add: materials_ok_def)
qed

lemma set_row_in: "r \<in> set (set_row m rows) \<Longrightarrow> r = m \<or> (r \<in> set rows \<and> m_id r \<noteq> m_id m)"
  by (auto simp: set_row_def split: if_splits)

lemma set_row_slugs:
  assumes "rewritten w w' m m'" shows "map m_slug (db_materials w') = map m_slug (db_materials w)"
proof -
  have d: "distinct (map m_id (db_materials w))" and g: "m \<in> set (db_materials w)"
    using assms by (auto simp: rewritten_def get_material_in)
  have "m_slug m' = m_slug r" if "r \<in> set (db_materials w)" "m_id r = m_id m'" for r
  proof -
    have "r = m" using distinct_map_keyed [OF d that(1) g] that(2) assms by (simp add: rewritten_def)
    with assms show ?thesis by (simp add: rewritten_def)
  qed
  with assms show ?thesis by (auto simp: rewritten_def set_row_def)
qed

text \<open>The invariant after the row of one material has been replaced.\<close>

lemma rewritten_ok:
  assumes "materials_ok st w" "rewritten w w' m m'" "material_ok st w' m'"
    and "distinct (map (\<lambda>(i, _). i) (file_keys w'))"
    and "list_all (\<lambda>(_, mid, _, n). 0 < n \<and> mid \<in> m_id ` set (db_materials w)) (file_keys w')"
    and "\<And>i. i \<noteq> m_id m \<Longrightarrow> keys_of i w' = keys_of i w"
  shows "materials_ok st w'"
proof -
  have ids: "map m_id (db_materials w') = map m_id (db_materials w)"
    using assms(2) by (simp add: rewritten_def)
  then have ids': "m_id ` set (db_materials w') = m_id ` set (db_materials w)"
    by (metis list.set_map)
  have "material_ok st w' r" if "r \<in> set (db_materials w')" for r
  proof (cases "r = m'")
    case False
    with that assms(2) have r: "r \<in> set (db_materials w)" "m_id r \<noteq> m_id m"
      by (auto simp: rewritten_def dest: set_row_in)
    then have "material_ok st w r" using materials_okD(5) [OF assms(1)] by (simp add: list_all_iff)
    with assms(6) [OF r(2)] show ?thesis
      by (subst material_ok_cong [of r w' w]) (simp_all add: file_sizes_keys)
  qed (use assms(3) in simp)
  then show ?thesis
    using assms(4,5) materials_okD(1,2) [OF assms(1)]
    by (simp add: materials_ok_def ids ids' set_row_slugs [OF assms(2)] list_all_iff)
qed

lemma permitted_approved:
  assumes "permitted actor w m m'" "m_status m' = APPROVED"
  shows "m_status m = APPROVED \<or> 1 \<le> m_file_count m"
proof -
  have del: "m_status m' = m_status m" if "deletion m m'"
    using arg_cong [OF conjunct1 [OF that [unfolded deletion_def]], of m_status] by simp
  have cnt: "m_status m' = m_status m" if "counted m m'"
    using arg_cong [OF that [unfolded counted_def], of m_status] by simp
  show ?thesis
    using assms del cnt by (auto simp: permitted_def owner_change_def reviewer_change_def split: option.splits)
qed

lemma plain_ok:
  assumes "materials_ok st w" "plain actor w w'" shows "materials_ok st w'"
proof -
  obtain m m' where r: "rewritten w w' m m'" and p: "permitted actor w m m'"
      and c: "m_file_count m' = m_file_count m" "m_total_size m' = m_total_size m"
      and f: "file_keys w' = file_keys w"
    using assms(2) by (auto simp: plain_def)
  have k: "keys_of i w' = keys_of i w" for i by (simp add: keys_of_def f)
  have "material_ok st w m" using r material_ok_row [OF assms(1)] by (auto simp: rewritten_def)
  with permitted_approved [OF p] r c have "material_ok st w' m'"
    by (auto simp: material_ok_def file_sizes_keys k rewritten_def)
  with rewritten_ok [OF assms(1) r] k f materials_okD(3,4) [OF assms(1)] show ?thesis by simp
qed

section \<open>Drafts and files\<close>

lemma free_slug_free: "free_slug used base n slug \<notin> set used"
  by (induction used base n slug rule: free_slug.induct) (subst free_slug.simps, simp)

lemma create_draft_rows:
  assumes "create_draft x i now payload user w = (r, w')"
  shows "same_materials w w' \<or>
    db_material_files w' = db_material_files w \<and>
    db_materials w' = db_materials w @
      [new_material i now (generate_unique_slug x (mc_title payload) w) payload user]"
  using assms by (auto simp: create_draft_def Let_def same_materials_def split: sum.splits if_splits)

lemma create_draft_ok:
  assumes "materials_ok st w" "0 \<le> upload_max_total_size st" "i \<notin> m_id ` set (db_materials w)"
    "create_draft x i now payload user w = (r, w')"
  shows "materials_ok st w'"
  using create_draft_rows [OF assms(4)]
proof
  assume "same_materials w w'"
  then show ?thesis
    by (intro materials_ok_same [OF assms(1)]) (simp_all add: same_materials_def file_keys_def)
next
  let ?m = "new_material i now (generate_unique_slug x (mc_title payload) w) payload user"
  assume w': "db_material_files w' = db_material_files w \<and> db_materials w' = db_materials w @ [?m]"
  have f: "file_keys w' = file_keys w" using w' by (simp add: file_keys_def)
  then have k: "file_sizes j w' = file_sizes j w" for j by (simp add: file_sizes_keys keys_of_def)
  have "keys_of i w = []"
    using materials_okD(4) [OF assms(1)] assms(3)
    by (auto simp: keys_of_def filter_empty_conv list_all_iff)
  then have "material_ok st w' ?m"
    using assms(2) k [of i] by (simp add: material_ok_def new_material_def file_sizes_keys)
  moreover have "material_ok st w' r" if "r \<in> set (db_materials w)" for r
    using that materials_okD(5) [OF assms(1)] k material_ok_cong [of r w' w st] by (simp add: list_all_iff)
  moreover have "generate_unique_slug x (mc_title payload) w \<notin> m_slug ` set (db_materials w)"
    using free_slug_free [of "map m_slug (db_materials w)"]
    by (simp add: generate_unique_slug_def Let_def)
  ultimately show ?thesis
    using w' materials_okD [OF assms(1)] assms(3) f
    by (auto simp: materials_ok_def list_all_iff new_material_def)
qed

text \<open>What the two loops of \<open>attach_files\<close> give on any provider.\<close>

context storage_provider
begin

lemma store_uploads_ok:
  assumes "store_uploads st sp ids i mid tot keys ups obs = ((Inr ss, keys'), obs')"
    "tot \<le> upload_max_total_size st"
  shows "length ss = length ups \<and> tot + sum_list (map sf_file_size ss) \<le> upload_max_total_size st \<and>
    list_all (\<lambda>s. 0 < sf_file_size s) ss"
  using assms
proof (induction ups arbitrary: i tot keys obs ss keys' obs')
  case (Cons up ups)
  obtain s obs1 where s: "service_save st sp up mid (Some (upload_max_file_size st)) (ids i) obs = (Inr s, obs1)"
    using Cons.prems by (auto split: prod.splits sum.splits)
  then obtain mx where "pv_save sp up mid mx (ids i) obs = (Inr s, obs1)"
    by (simp add: service_save_def)
  from save_ok [OF this] have pos: "0 < sf_file_size s"
    by (simp add: acceptable_def stored_as_def)
  obtain ss' keys2 obs2 where rest:
      "store_uploads st sp ids (i + 3) mid (tot + sf_file_size s) (keys @ [sf_storage_key s]) ups obs1 =
        ((Inr ss', keys2), obs2)"
      and ss: "ss = s # ss'" and le: "tot + sf_file_size s \<le> upload_max_total_size st"
    using Cons.prems(1) s by (auto simp: Let_def split: prod.splits sum.splits if_splits)
  from Cons.IH [OF rest le] ss pos show ?case by (simp add: add.assoc)
qed simp

end

lemma store_uploads_length:
  "store_uploads st sp ids i mid tot keys ups obs = ((Inr ss, keys'), obs') \<Longrightarrow> length ss = length ups"
  by (induction ups arbitrary: i tot keys obs ss keys' obs')
    (auto simp: Let_def split: prod.splits sum.splits if_splits)

lemma build_entities_rows:
  assumes "build_entities pr sp ids i mid rows obs = (Inr es, obs')"
  shows "map file_key es =
    map (\<lambda>(j, _, stored, _). (ids (i + 3 * j + 2), mid, sf_storage_key stored, sf_file_size stored))
      (enumerate 0 rows)"
  using assms
proof (induction rows arbitrary: i obs es obs')
  case (Cons row rows)
  obtain up stored ord where row: "row = (up, stored, ord)" by (cases row)
  obtain p obs1 es' obs2 where es: "build_entities pr sp ids (i + 3) mid rows obs1 = (Inr es', obs2)"
      and e: "es = new_file (ids (i + 2)) mid up stored ord p # es'"
    using Cons.prems row
    by (auto simp: Let_def split: prod.splits sum.splits if_splits)
  have shift: "map (\<lambda>(j, _, stored, _). (ids (i + 3 + 3 * j + 2), mid, sf_storage_key stored, sf_file_size stored))
        (enumerate 0 rows) =
      map (\<lambda>(j, _, stored, _). (ids (i + 3 * j + 2), mid, sf_storage_key stored, sf_file_size stored))
        (enumerate (Suc 0) rows)"
    by (simp add: enumerate_Suc_eq split_def o_def add.assoc)
  show ?case
    using Cons.IH [OF es] shift by (simp add: e row file_key_def new_file_def)
qed simp

lemma normalize_orders_length [simp]: "length (normalize_orders m os) = length os"
  by (simp add: normalize_orders_def)

lemma attach_files_cases:
  assumes sp: "storage_provider sp pr"
    and a: "attach_files pr st sp ids now mid user ups os w = (r, w')"
  obtains (unchanged) "same_materials w w'"
  | (attached) m es and ss :: "stored_file list" where "get_owned_material mid (u_id user) w = Inr m" "m_status m = DRAFT"
      "r = Inr es" "length ss = length ups" "length os = length ups"
      "m_total_size m \<le> upload_max_total_size st \<Longrightarrow>
        m_total_size m + sum_list (map sf_file_size ss) \<le> upload_max_total_size st \<and>
        list_all (\<lambda>s. 0 < sf_file_size s) ss"
      "map file_key es = map (\<lambda>(j, _, stored, _). (ids (3 * j + 2), m_id m, sf_storage_key stored,
        sf_file_size stored)) (enumerate 0 (zip ups (zip ss (normalize_orders m os))))"
      "db_materials w' = db_materials (add_files now (m_id m) es w)"
      "db_material_files w' = db_material_files w @ es"
proof (cases "same_materials w w'")
  case False
  then obtain m where m: "get_owned_material mid (u_id user) w = Inr m"
    using a by (auto simp: attach_files_def same_materials_def split: sum.splits)
  have dis: "same_materials w w'" if "discard_uploads sp e keys obs w = (r, w')" for e keys obs
    using that by (auto simp: discard_uploads_def same_materials_def split: prod.splits sum.splits)
  have len: "m_status m = DRAFT" "length os = length ups"
    using a False m by (auto simp: attach_files_def same_materials_def split: if_splits)
  obtain ss keys obs1 where ss:
      "store_uploads st sp ids 0 (m_id m) (m_total_size m) [] ups (objects w) = ((Inr ss, keys), obs1)"
    using a False m len dis
    by (auto simp: attach_files_def same_materials_def split: if_splits prod.splits sum.splits)
  obtain es obs2 where es: "build_entities pr sp ids 0 (m_id m)
      (zip ups (zip ss (normalize_orders m os))) obs1 = (Inr es, obs2)" "r = Inr es"
    and w': "w' = invalidate_material_caches ((add_files now (m_id m) es w)\<lparr>objects := obs2\<rparr>)"
    using a False m len ss dis
    by (auto simp: attach_files_def same_materials_def split: if_splits prod.splits sum.splits)
  have l: "length ss = length ups" by (rule store_uploads_length [OF ss])
  show ?thesis
  proof (rule attached)
    show "get_owned_material mid (u_id user) w = Inr m" by (rule m)
    show "m_status m = DRAFT" "length os = length ups" by (rule len)+
    show "r = Inr es" by (rule es)
    show "length ss = length ups" by (rule l)
  qed (use storage_provider.store_uploads_ok [OF sp ss] build_entities_rows [OF es(1)] w' in
      \<open>simp_all add: add_files_def\<close>)
qed (rule unchanged)

lemma key_size: "(\<lambda>(_, _, _, n). n) \<circ> file_key = mf_file_size"
  by (simp add: fun_eq_iff file_key_def)

lemma sum_list_sizes: "map mf_file_size es = map (\<lambda>(_, _, _, n). n) (map file_key es)"
  by (simp add: file_key_def)

lemma attach_files_ok:
  assumes ok: "materials_ok st w" and sp: "storage_provider sp pr"
    and fresh: "inj ids" "range ids \<inter> mf_id ` set (db_material_files w) = {}"
    and a: "attach_files pr st sp ids now mid user ups os w = (r, w')"
  shows "materials_ok st w'"
  using sp a
proof (cases rule: attach_files_cases)
  case unchanged
  then show ?thesis
    by (intro materials_ok_same [OF ok]) (simp_all add: same_materials_def file_keys_def)
next
  case (attached m es ss)
  note g = get_owned_materialD [OF attached(1)]
  let ?rows = "zip ups (zip ss (normalize_orders m os))"
  let ?m = "m\<lparr>m_file_count := m_file_count m + int (length es),
    m_total_size := m_total_size m + sum_list (map mf_file_size es), m_updated_at := now\<rparr>"
  have mok: "material_ok st w m" using material_ok_row [OF ok g(1)] .
  have rows: "length ?rows = length ss" "map (fst \<circ> snd) ?rows = ss"
    using attached(4,5) by (simp_all add: map_fst_zip flip: map_map)
  have sizes: "map mf_file_size es = map sf_file_size ss"
  proof -
    have "map mf_file_size es = map ((\<lambda>(_, s, _). sf_file_size s) \<circ> snd) (enumerate 0 ?rows)"
      unfolding sum_list_sizes attached(7) by (simp add: o_def split_def)
    also have "\<dots> = map (\<lambda>(_, s, _). sf_file_size s) ?rows" by (simp flip: map_map)
    also have "\<dots> = map sf_file_size (map (fst \<circ> snd) ?rows)" by (simp add: o_def split_def)
    finally show ?thesis using rows by simp
  qed
  have ids: "map mf_id es = map (\<lambda>j. ids (3 * j + 2)) [0..<length es]"
  proof -
    have l: "length es = length ?rows" using arg_cong [OF attached(7), of length] by simp
    have "map mf_id es = map (\<lambda>(i, _). i) (map file_key es)" by (simp add: file_key_def)
    also have "\<dots> = map ((\<lambda>j. ids (3 * j + 2)) \<circ> fst) (enumerate 0 ?rows)"
      unfolding attached(7) by (simp add: o_def split_def)
    finally show ?thesis using l by (simp flip: map_map)
  qed
  have mids: "mf_material_id f = m_id m" if "f \<in> set es" for f
  proof -
    have "file_key f \<in> set (map file_key es)" using that by simp
    then show ?thesis unfolding attached(7) by (auto simp: file_key_def)
  qed
  have f: "file_keys w' = file_keys w @ map file_key es"
    by (simp add: file_keys_def attached(9))
  have k: "keys_of i w' = keys_of i w @ (if i = m_id m then map file_key es else [])" for i
    using mids by (auto simp: keys_of_def f filter_map o_def file_key_def intro!: filter_True filter_False)
  have in_m: "m \<in> set (db_materials w)" using g(1) by (rule get_material_in)
  have r: "rewritten w w' m ?m"
    using materials_okD(1) [OF ok] g(1) get_material_id [OF g(1)]
      update_where_set_row [OF materials_okD(1) [OF ok] in_m]
    by (simp add: rewritten_def attached(8) add_files_def)
  have "material_ok st w' ?m"
    using mok attached(2,6) sizes map_eq_imp_length_eq [OF sizes]
    by (simp add: material_ok_def file_sizes_keys k key_size)
  moreover have "distinct (map (\<lambda>(i, _). i) (file_keys w'))"
  proof -
    have "map (\<lambda>(i, _). i) (file_keys w') = map mf_id (db_material_files w) @ map mf_id es"
      by (simp add: file_keys_def attached(9) file_key_def)
    moreover have "distinct (map mf_id es)"
      unfolding ids by (simp add: distinct_map inj_on_def inj_eq [OF fresh(1)])
    moreover have "set (map mf_id es) \<subseteq> range ids" unfolding ids by auto
    ultimately show ?thesis using file_ids_distinct [OF ok] fresh(2) by auto
  qed
  moreover have "list_all (\<lambda>(_, mid, _, n). 0 < n \<and> mid \<in> m_id ` set (db_materials w)) (file_keys w')"
  proof -
    have "list_all (\<lambda>n. 0 < n) (map mf_file_size es)"
      using mok attached(6) by (simp add: sizes list_all_iff material_ok_def)
    then show ?thesis
      using materials_okD(4) [OF ok] mids in_m by (auto simp: f list_all_iff file_key_def)
  qed
  ultimately show ?thesis by (intro rewritten_ok [OF ok r]) (simp_all add: k)
qed

text \<open>Deleting a file: its row goes, the counters follow, the rest keeps its rows.\<close>

lemma delete_file_cases:
  assumes "delete_file sp i now mid fid user w = (r, w')"
  obtains (unchanged) "w' = w"
  | (deleted) m m1 w1 f fb where "get_owned_material mid (u_id user) w = Inr m"
      "m_status m \<noteq> PENDING_REVIEW" "f \<in> set (db_material_files w)" "mf_material_id f = m_id m"
      "mark_material_for_rereview_if_needed i now m (u_id user) w = (m1, w1)"
      "db_materials w' = db_materials (save_material now (without_file f fb m1) w1)"
      "file_keys w' = filter (\<lambda>k. fst k \<noteq> mf_id f) (file_keys w)"
proof (cases "w' = w")
  case False
  obtain m where m: "get_owned_material mid (u_id user) w = Inr m"
    using assms False by (auto simp: delete_file_def split: sum.splits)
  obtain f where f: "find (\<lambda>f. mf_id f = fid) (files_of (m_id m) w) = Some f"
    using assms False m by (auto simp: delete_file_def split: option.splits)
  then have in_f: "f \<in> set (db_material_files w)" "mf_material_id f = m_id m"
    using find_Some_in [OF f] by (simp_all add: files_of_def)
  obtain m1 w1 where e: "mark_material_for_rereview_if_needed i now m (u_id user) w = (m1, w1)"
    by fastforce
  let ?remaining = "filter (\<lambda>g. mf_id g \<noteq> mf_id f) (files_of (m_id m) w)"
  let ?fb = "case ?remaining of [] \<Rightarrow> None | g # _ \<Rightarrow> Some (mf_id g)"
  let ?w2 = "save_material now (without_file f ?fb m1) w1"
  have ed: "m_status m \<noteq> PENDING_REVIEW"
    and w': "db_materials w' = db_materials ?w2" "db_material_files w' =
      delete_where (\<lambda>g. mf_id g = mf_id f) (set_file_orders (map mf_id ?remaining) (db_material_files ?w2))"
    using assms False m f e
    by (auto simp: delete_file_def Let_def ensure_material_is_editable_def split: sum.splits if_splits)
  have "file_keys w' = filter (\<lambda>k. fst k \<noteq> mf_id f)
      (map file_key (set_file_orders (map mf_id ?remaining) (db_material_files w)))"
    by (simp add: file_keys_def w'(2) rereviewD(9) [OF e] delete_where_def filter_map o_def file_key_def)
  also have "\<dots> = filter (\<lambda>k. fst k \<noteq> mf_id f) (file_keys w)"
    by (simp add: set_file_orders_keys file_keys_def)
  finally show ?thesis using deleted [OF m ed in_f e w'(1)] by blast
qed (rule unchanged)

lemma without_one_key:
  assumes "distinct (map fst ks)" "k \<in> set ks"
  shows "int (length (filter (\<lambda>x. fst x \<noteq> fst k) ks)) = int (length ks) - 1"
    "sum_list (map g (filter (\<lambda>x. fst x \<noteq> fst k) ks)) = sum_list (map g ks) - (g k :: int)"
proof -
  have id: "filter (\<lambda>x. fst x \<noteq> a) xs = xs" if "a \<notin> fst ` set xs" for a and xs :: "('a \<times> 'b) list"
    using that by (intro filter_True) auto
  have "int (length (filter (\<lambda>x. fst x \<noteq> fst k) ks)) = int (length ks) - 1 \<and>
      sum_list (map g (filter (\<lambda>x. fst x \<noteq> fst k) ks)) = sum_list (map g ks) - g k"
    using assms
  proof (induction ks)
    case (Cons a ks)
    show ?case
    proof (cases "a = k")
      case True
      with Cons.prems have "filter (\<lambda>x. fst x \<noteq> fst k) ks = ks" by (intro id) auto
      with True show ?thesis by simp
    next
      case False
      with Cons have "k \<in> set ks" "fst a \<noteq> fst k" by (auto simp: rev_image_eqI)
      with Cons show ?thesis by auto
    qed
  qed simp
  then show "int (length (filter (\<lambda>x. fst x \<noteq> fst k) ks)) = int (length ks) - 1"
    "sum_list (map g (filter (\<lambda>x. fst x \<noteq> fst k) ks)) = sum_list (map g ks) - g k"
    by blast+
qed

lemma delete_file_ok:
  assumes ok: "materials_ok st w" and d: "delete_file sp i now mid fid user w = (r, w')"
  shows "materials_ok st w'"
  using d
proof (cases rule: delete_file_cases)
  case unchanged
  with ok show ?thesis by simp
next
  case (deleted m m1 w1 f fb)
  note g = get_owned_materialD [OF deleted(1)]
  note dd = rereviewD [OF deleted(5)]
  let ?m2 = "without_file f fb m1"
  have keep: "m_id ?m2 = m_id m" "m_slug ?m2 = m_slug m" "m_uploaded_by ?m2 = m_uploaded_by m"
    "m_status ?m2 = m_status m1" "m_file_count ?m2 = max 0 (m_file_count m - 1)"
    "m_total_size ?m2 = max 0 (m_total_size m - mf_file_size f)"
    using dd by (simp_all add: without_file_def)
  obtain m' where r: "rewritten w (save_material now ?m2 w1) m m'"
      and m': "m' = ?m2 \<or> m' = ?m2\<lparr>m_updated_at := now\<rparr>"
    using rewritten_edit [OF materials_okD(1) [OF ok] g(1) deleted(5) keep(1-3)] by blast
  note r' = rewritten_cong [OF r deleted(6)]
  have mok: "material_ok st w m" using material_ok_row [OF ok g(1)] .
  let ?k = "file_key f"
  have kin: "?k \<in> set (keys_of (m_id m) w)"
    using deleted(3,4) by (auto simp: keys_of_def file_keys_def file_key_def)
  have fst_eq: "map (\<lambda>(i, _). i) ks = map fst ks" for ks :: "(string \<times> string \<times> string \<times> int) list"
    by (simp add: split_def)
  have dist: "distinct (map fst (keys_of (m_id m) w))"
    using materials_okD(3) [OF ok] by (simp add: keys_of_def fst_eq distinct_map_filter)
  have k: "keys_of j w' = (if j = m_id m then filter (\<lambda>x. fst x \<noteq> fst ?k) (keys_of j w) else keys_of j w)" for j
  proof (cases "j = m_id m")
    case True
    then show ?thesis by (simp add: keys_of_def deleted(7) file_key_def conj_commute)
  next
    case False
    have "fst x \<noteq> mf_id f" if "x \<in> set (keys_of j w)" for x
    proof
      assume "fst x = mf_id f"
      moreover have "x \<in> set (file_keys w)" "?k \<in> set (file_keys w)"
        using that kin by (auto simp: keys_of_def)
      ultimately have "x = ?k"
        using materials_okD(3) [OF ok]
        by (intro distinct_map_keyed [of fst "file_keys w"]) (simp_all add: fst_eq file_key_def)
      with that False deleted(4) show False by (simp add: keys_of_def file_key_def)
    qed
    then have "filter (\<lambda>x. fst x \<noteq> mf_id f) (keys_of j w) = keys_of j w" by (intro filter_True) simp
    with False show ?thesis by (simp add: keys_of_def deleted(7) conj_commute)
  qed
  have size: "(\<lambda>(_, _, _, n). n) ?k = mf_file_size f" by (simp add: file_key_def)
  have pos: "0 < mf_file_size f" "sum_list (file_sizes (m_id m) w) - mf_file_size f \<ge> 0"
  proof -
    show "0 < mf_file_size f"
      using materials_okD(4) [OF ok] deleted(3) by (auto simp: file_keys_def list_all_iff file_key_def)
    have "0 \<le> sum_list (map (\<lambda>(_, _, _, n). n) (filter (\<lambda>x. fst x \<noteq> fst ?k) (keys_of (m_id m) w)))"
      using materials_okD(4) [OF ok]
      by (intro sum_list_nonneg) (auto simp: keys_of_def list_all_iff intro: less_imp_le)
    then show "sum_list (file_sizes (m_id m) w) - mf_file_size f \<ge> 0"
      using without_one_key(2) [OF dist kin, of "\<lambda>(_, _, _, n). n"]
      by (simp add: file_sizes_keys file_key_def)
  qed
  have one: "1 \<le> m_file_count m"
    using mok kin by (cases "keys_of (m_id m) w") (auto simp: material_ok_def file_sizes_keys)
  have "material_ok st w' m'"
    using mok m' keep one pos dd(6) deleted(2) k [of "m_id m"]
      without_one_key [OF dist kin] without_one_key(2) [OF dist kin, of "\<lambda>(_, _, _, n). n"] size
    by (cases "m_status m") (auto simp: material_ok_def file_sizes_keys)
  moreover have "distinct (map (\<lambda>(i, _). i) (file_keys w'))"
    using materials_okD(3) [OF ok] by (simp add: fst_eq deleted(7) distinct_map_filter)
  moreover have "list_all (\<lambda>(_, mid, _, n). 0 < n \<and> mid \<in> m_id ` set (db_materials w)) (file_keys w')"
    using materials_okD(4) [OF ok] by (auto simp: deleted(7) list_all_iff)
  ultimately show ?thesis by (intro rewritten_ok [OF ok r']) (simp_all add: k)
qed

section \<open>Lawful steps\<close>

text \<open>
  Every material stays, under its slug and owner; it changes only as the actor may change it;
  the files of one that is approved afterwards are the files it had; and new ones are drafts.
\<close>

definition lawful :: "user option \<Rightarrow> world \<Rightarrow> world \<Rightarrow> bool" where
  "lawful actor w w' \<longleftrightarrow>
     (\<forall>i m. get_material i w = Some m \<longrightarrow>
       (\<exists>m'. get_material i w' = Some m' \<and> m_slug m' = m_slug m \<and>
         m_uploaded_by m' = m_uploaded_by m \<and> permitted actor w m m' \<and>
         (m_status m' = APPROVED \<longrightarrow> keys_of i w' = keys_of i w))) \<and>
     (\<forall>i m'. get_material i w = None \<longrightarrow> get_material i w' = Some m' \<longrightarrow> m_status m' = DRAFT)"

lemma get_material_None: "get_material i w = None \<longleftrightarrow> i \<notin> set (map m_id (db_materials w))"
  by (auto simp: get_material_def find_None_iff)

text \<open>What is to show of an operation that adds no material.\<close>

lemma lawfulI:
  assumes "map m_id (db_materials w') = map m_id (db_materials w)"
    and "\<And>i m. get_material i w = Some m \<Longrightarrow>
      \<exists>m'. get_material i w' = Some m' \<and> m_slug m' = m_slug m \<and>
        m_uploaded_by m' = m_uploaded_by m \<and> permitted actor w m m' \<and>
        (m_status m' = APPROVED \<longrightarrow> keys_of i w' = keys_of i w)"
  shows "lawful actor w w'"
proof -
  have "get_material i w' = None" if "get_material i w = None" for i
    using that by (simp only: get_material_None assms(1) not_False_eq_True)
  with assms(2) show ?thesis unfolding lawful_def by fastforce
qed

lemma permitted_refl [simp]: "permitted actor w m m"
  by (simp add: permitted_def)

lemma lawful_same: "db_materials w' = db_materials w \<Longrightarrow> file_keys w' = file_keys w \<Longrightarrow> lawful actor w w'"
  by (simp add: lawful_def get_material_def keys_of_def)

lemma lawful_rewritten:
  assumes "rewritten w w' m m'" "permitted actor w m m'"
    and "\<And>j. j \<noteq> m_id m \<or> m_status m' = APPROVED \<Longrightarrow> keys_of j w' = keys_of j w"
  shows "lawful actor w w'"
proof (rule lawfulI)
  show "map m_id (db_materials w') = map m_id (db_materials w)"
    using assms(1) by (simp add: rewritten_def)
  fix i n
  assume n: "get_material i w = Some n"
  show "\<exists>n'. get_material i w' = Some n' \<and> m_slug n' = m_slug n \<and>
      m_uploaded_by n' = m_uploaded_by n \<and> permitted actor w n n' \<and>
      (m_status n' = APPROVED \<longrightarrow> keys_of i w' = keys_of i w)"
  proof (cases "i = m_id m")
    case True
    with n assms(1) have "n = m" by (simp add: rewritten_def)
    with True assms rewritten_get [OF assms(1), of i] show ?thesis by (auto simp: rewritten_def)
  next
    case False
    with n assms(3) rewritten_get [OF assms(1), of i] show ?thesis by auto
  qed
qed

lemma lawful_plain: "plain actor w w' \<Longrightarrow> lawful actor w w'"
  unfolding plain_def by (auto intro!: lawful_rewritten simp: keys_of_def)

lemma lawful_draft:
  assumes "create_draft x i now payload user w = (r, w')" shows "lawful actor w w'"
proof -
  have "same_materials w w' \<or> db_material_files w' = db_material_files w \<and>
      (\<exists>m. db_materials w' = db_materials w @ [m] \<and> m_status m = DRAFT)"
    using create_draft_rows [OF assms] by (auto simp: new_material_def)
  then show ?thesis
    by (auto simp: same_materials_def lawful_def get_material_def find_append keys_of_def file_keys_def
        split: if_splits)
qed

lemma lawful_attach:
  assumes "distinct (map m_id (db_materials w))" "storage_provider sp pr"
    and a: "attach_files pr st sp ids now mid user ups os w = (r, w')"
  shows "lawful (Some user) w w'"
  using assms(2) a
proof (cases rule: attach_files_cases)
  case unchanged
  then show ?thesis by (intro lawful_same) (simp_all add: same_materials_def file_keys_def)
next
  case (attached m es ss)
  note g = get_owned_materialD [OF attached(1)]
  let ?m = "m\<lparr>m_file_count := m_file_count m + int (length es),
    m_total_size := m_total_size m + sum_list (map mf_file_size es), m_updated_at := now\<rparr>"
  have "rewritten w w' m ?m"
    using assms(1) g(1) get_material_id [OF g(1)]
      update_where_set_row [OF assms(1) get_material_in [OF g(1)]]
    by (simp add: rewritten_def attached(8) add_files_def)
  moreover have "permitted (Some user) w m ?m"
    using g attached(2) by (simp add: permitted_def owner_change_def)
  moreover have "keys_of j w' = keys_of j w" if "j \<noteq> m_id m" for j
  proof -
    have "\<forall>k\<in>set (map file_key es). fst (snd k) = m_id m"
      unfolding attached(7) by auto
    with that have "filter (\<lambda>(_, k, _). k = j) (map file_key es) = []"
      by (auto simp: filter_empty_conv)
    then show ?thesis by (simp add: keys_of_def file_keys_def attached(9))
  qed
  ultimately show ?thesis using attached(2) by (intro lawful_rewritten [where m = m]) auto
qed

lemma lawful_delete_file:
  assumes ok: "materials_ok st w" and d: "delete_file sp i now mid fid user w = (r, w')"
  shows "lawful (Some user) w w'"
  using d
proof (cases rule: delete_file_cases)
  case unchanged
  then show ?thesis by (intro lawful_same) simp_all
next
  case (deleted m m1 w1 f fb)
  note g = get_owned_materialD [OF deleted(1)]
  note dd = rereviewD [OF deleted(5)]
  let ?m2 = "without_file f fb m1"
  have keep: "m_id ?m2 = m_id m" "m_slug ?m2 = m_slug m" "m_uploaded_by ?m2 = m_uploaded_by m"
    "m_status ?m2 = m_status m1" "m_deleted_at ?m2 = None" "m_download_count ?m2 = m_download_count m"
    using dd g by (simp_all add: without_file_def)
  obtain m' where r: "rewritten w (save_material now ?m2 w1) m m'"
      and m': "m' = ?m2 \<or> m' = ?m2\<lparr>m_updated_at := now\<rparr>"
    using rewritten_edit [OF materials_okD(1) [OF ok] g(1) deleted(5) keep(1-3)] by blast
  have st: "m_status m' = m_status m1" "m_deleted_at m' = None" "m_download_count m' = m_download_count m"
    using m' keep by auto
  then have "permitted (Some user) w m m'"
    using g dd(6) deleted(2) by (cases "m_status m") (auto simp: permitted_def owner_change_def)
  moreover have "keys_of j w' = keys_of j w" if "j \<noteq> m_id m" for j
  proof -
    have "fst x \<noteq> mf_id f" if x: "x \<in> set (keys_of j w)" for x
    proof
      assume "fst x = mf_id f"
      moreover have "x \<in> set (file_keys w)" "file_key f \<in> set (file_keys w)"
        using x deleted(3) by (auto simp: keys_of_def file_keys_def)
      ultimately have "x = file_key f"
        using materials_okD(3) [OF ok]
        by (intro distinct_map_keyed [of fst "file_keys w"]) (simp_all add: split_def file_key_def)
      with x \<open>j \<noteq> m_id m\<close> deleted(4) show False by (simp add: keys_of_def file_key_def)
    qed
    then have "filter (\<lambda>x. fst x \<noteq> mf_id f) (keys_of j w) = keys_of j w" by (intro filter_True) simp
    then show ?thesis by (simp add: keys_of_def deleted(7) conj_commute)
  qed
  moreover have "m_status m' \<noteq> APPROVED" using st dd(6) by auto
  ultimately show ?thesis
    by (intro lawful_rewritten [OF rewritten_cong [OF r deleted(6)]]) auto
qed

text \<open>The clean-up deletes drafts one after the other.\<close>

lemma deletion_keeps:
  assumes "deletion m m'"
  shows "m_slug m' = m_slug m" "m_uploaded_by m' = m_uploaded_by m" "m_status m' = m_status m" "m_id m' = m_id m"
proof -
  note e = conjunct1 [OF assms [unfolded deletion_def]]
  show "m_slug m' = m_slug m" using arg_cong [OF e, of m_slug] by simp
  show "m_uploaded_by m' = m_uploaded_by m" using arg_cong [OF e, of m_uploaded_by] by simp
  show "m_status m' = m_status m" using arg_cong [OF e, of m_status] by simp
  show "m_id m' = m_id m" using arg_cong [OF e, of m_id] by simp
qed

lemma cleanup_fold:
  assumes "materials_ok st w" "distinct (map m_id ds)"
    and "\<And>d. d \<in> set ds \<Longrightarrow> get_material (m_id d) w = Some d \<and> m_status d = DRAFT \<and> m_deleted_at d = None"
  shows "materials_ok st (mark_drafts_deleted now ds w) \<and>
    file_keys (mark_drafts_deleted now ds w) = file_keys w \<and>
    (\<forall>i m. get_material i w = Some m \<longrightarrow>
      (\<exists>m'. get_material i (mark_drafts_deleted now ds w) = Some m' \<and>
        (m' = m \<or> m \<in> set ds \<and> deletion m m')))"
  using assms
proof (induction ds arbitrary: w)
  case (Cons d ds)
  let ?d = "d\<lparr>m_deleted_at := Some now\<rparr>"
  let ?w1 = "save_material now ?d w"
  have d: "get_material (m_id d) w = Some d" "m_status d = DRAFT" "m_deleted_at d = None"
    using Cons.prems(3) [of d] by simp_all
  have r: "rewritten w ?w1 d (flushed now d ?d)"
    by (rule rewritten_save [OF materials_okD(1) [OF Cons.prems(1)] d(1)]) simp_all
  have "d \<noteq> ?d"
  proof
    assume "d = ?d"
    then have "m_deleted_at d = m_deleted_at ?d" by (rule arg_cong)
    with d(3) show False by simp
  qed
  then have fl: "flushed now d ?d = ?d\<lparr>m_updated_at := now\<rparr>" by (simp add: flushed_def)
  then have del: "deletion d (flushed now d ?d)" by (simp add: deletion_def)
  then have "permitted None w d (flushed now d ?d)" using d by (simp add: permitted_def)
  then have "plain None w ?w1" by (intro plainI [OF r]) (simp_all add: file_keys_def)
  then have ok1: "materials_ok st ?w1" by (rule plain_ok [OF Cons.prems(1)])
  have g1: "get_material i ?w1 = (if i = m_id d then Some (flushed now d ?d) else get_material i w)" for i
    by (rule rewritten_get [OF r])
  have rest: "get_material (m_id e) ?w1 = Some e \<and> m_status e = DRAFT \<and> m_deleted_at e = None"
    if "e \<in> set ds" for e
  proof -
    have "m_id e \<noteq> m_id d" using that Cons.prems(2) by (auto simp: rev_image_eqI)
    with that g1 Cons.prems(3) [of e] show ?thesis by simp
  qed
  have IH: "materials_ok st (mark_drafts_deleted now ds ?w1) \<and>
    file_keys (mark_drafts_deleted now ds ?w1) = file_keys ?w1 \<and>
    (\<forall>i m. get_material i ?w1 = Some m \<longrightarrow> (\<exists>m'. get_material i
      (mark_drafts_deleted now ds ?w1) = Some m' \<and>
      (m' = m \<or> m \<in> set ds \<and> deletion m m')))"
    using Cons.prems(2) by (intro Cons.IH [OF ok1 _ rest]) simp_all
  have nd: "flushed now d ?d \<notin> set ds"
    using rest [of "flushed now d ?d"] by (auto simp: fl)
  show ?case
  proof (intro conjI allI impI)
    fix i m
    assume m: "get_material i w = Some m"
    show "\<exists>m'. get_material i (mark_drafts_deleted now (d # ds) w) =
        Some m' \<and> (m' = m \<or> m \<in> set (d # ds) \<and> deletion m m')"
    proof (cases "i = m_id d")
      case True
      with m d have "m = d" by simp
      have "get_material i ?w1 = Some (flushed now d ?d)" using g1 True by simp
      with IH obtain m' where "get_material i (mark_drafts_deleted now ds ?w1) = Some m'"
          "m' = flushed now d ?d \<or> flushed now d ?d \<in> set ds \<and> deletion (flushed now d ?d) m'"
        by blast
      with nd del \<open>m = d\<close> show ?thesis by auto
    next
      case False
      then have "get_material i ?w1 = Some m" using g1 m by simp
      with IH obtain m' where "get_material i (mark_drafts_deleted now ds ?w1) = Some m'"
          "m' = m \<or> m \<in> set ds \<and> deletion m m'"
        by blast
      then show ?thesis by auto
    qed
  qed (use IH in \<open>simp_all add: file_keys_def\<close>)
qed simp

lemma cleanup_drafts:
  assumes "distinct (map m_id (db_materials w))" "cleanup_stale_drafts now w = (n, w')"
  obtains ds where "set ds \<subseteq> {m \<in> set (db_materials w). m_status m = DRAFT \<and> m_deleted_at m = None}"
    "distinct (map m_id ds)" "db_materials w' = db_materials (mark_drafts_deleted now ds w)"
    "file_keys w' = file_keys (mark_drafts_deleted now ds w)"
proof
  let ?ds = "fst (list_filtered 1 10000 (filter (stale_draft now) (build_filtered_query w)))"
  show "set ?ds \<subseteq> {m \<in> set (db_materials w). m_status m = DRAFT \<and> m_deleted_at m = None}"
    using set_paginate_subset [of 1 10000 "filter (stale_draft now) (build_filtered_query w)"]
    unfolding list_filtered_def build_filtered_query_def by (auto simp: stale_draft_def)
  show "distinct (map m_id ?ds)"
    using assms(1)
    by (simp add: list_filtered_def paginate_def build_filtered_query_def distinct_map_filter
        flip: take_map drop_map)
  have either: "(if P then a else b) = z \<Longrightarrow> z = a \<or> z = b" for P and a b z :: world
    by (cases P) simp_all
  have "w' = invalidate_material_caches (mark_drafts_deleted now ?ds w) \<or> w' = mark_drafts_deleted now ?ds w"
    by (rule either [OF conjunct2 [OF assms(2) [unfolded cleanup_stale_drafts_def Let_def prod.inject]]])
  then show "db_materials w' = db_materials (mark_drafts_deleted now ?ds w)"
    "file_keys w' = file_keys (mark_drafts_deleted now ?ds w)"
    by (elim disjE; simp only: material_frames file_keys_def)+
qed

lemma save_material_ids: "map m_id (db_materials (save_material now m w)) = map m_id (db_materials w)"
  by (simp add: save_material_def)

lemma mark_drafts_ids: "map m_id (db_materials (mark_drafts_deleted now ds w)) = map m_id (db_materials w)"
  by (induction ds arbitrary: w) (simp_all add: save_material_ids)

lemma cleanup_effect:
  assumes ok: "materials_ok st w" and c: "cleanup_stale_drafts now w = (n, w')"
  shows "materials_ok st w' \<and> lawful None w w'"
proof -
  note ids = materials_okD(1) [OF ok]
  obtain ds where sub: "set ds \<subseteq> {m \<in> set (db_materials w). m_status m = DRAFT \<and> m_deleted_at m = None}"
    and dist: "distinct (map m_id ds)"
    and w': "db_materials w' = db_materials (mark_drafts_deleted now ds w)"
      "file_keys w' = file_keys (mark_drafts_deleted now ds w)"
    using cleanup_drafts [OF ids c] .
  have "get_material (m_id d) w = Some d \<and> m_status d = DRAFT \<and> m_deleted_at d = None"
    if "d \<in> set ds" for d
  proof -
    have "d \<in> set (db_materials w)" "m_status d = DRAFT" "m_deleted_at d = None"
      using sub that by blast+
    then show ?thesis using get_material_iff [OF ids, of "m_id d" d] by blast
  qed
  note fold = cleanup_fold [OF ok dist this, of now]
  have "materials_ok st w'" using fold by (intro materials_ok_same [OF _ w']) blast
  moreover have "lawful None w w'"
  proof (rule lawfulI)
    show "map m_id (db_materials w') = map m_id (db_materials w)"
      by (simp add: w' mark_drafts_ids)
    fix i m
    assume m: "get_material i w = Some m"
    with fold obtain m' where m': "get_material i (mark_drafts_deleted now ds w) = Some m'"
        "m' = m \<or> m \<in> set ds \<and> deletion m m'"
      by blast
    then have "permitted None w m m'" using sub by (auto simp: permitted_def)
    moreover have "m_slug m' = m_slug m" "m_uploaded_by m' = m_uploaded_by m"
      using m'(2) deletion_keeps by auto
    moreover have "get_material i w' = Some m'" using m'(1) get_material_cong [OF w'(1)] by simp
    moreover have "keys_of i w' = keys_of i w" using fold w' by (simp add: keys_of_def)
    ultimately show "\<exists>m'. get_material i w' = Some m' \<and> m_slug m' = m_slug m \<and>
        m_uploaded_by m' = m_uploaded_by m \<and> permitted None w m m' \<and>
        (m_status m' = APPROVED \<longrightarrow> keys_of i w' = keys_of i w)" by blast
  qed
  ultimately show ?thesis ..
qed

section \<open>The step relation\<close>

text \<open>
  One request, whatever its result, or one run of the clean-up; the identifiers it draws are
  new. The last rule stands for every operation outside these two services: none of them
  writes a material or a file.
\<close>

inductive material_step :: "settings \<Rightarrow> user option \<Rightarrow> world \<Rightarrow> world \<Rightarrow> bool" for st :: settings where
  step_draft: "create_draft x i now payload user w = (r, w') \<Longrightarrow> i \<notin> m_id ` set (db_materials w) \<Longrightarrow>
    material_step st (Some user) w w'"
| step_attach: "attach_files pr st sp ids now mid user ups os w = (fs, w') \<Longrightarrow> storage_provider sp pr \<Longrightarrow>
    inj ids \<Longrightarrow> range ids \<inter> mf_id ` set (db_material_files w) = {} \<Longrightarrow> material_step st (Some user) w w'"
| step_update: "update_material i now mid upd user w = (r, w') \<Longrightarrow> material_step st (Some user) w w'"
| step_delete: "delete_material now mid user w = (n, w') \<Longrightarrow> material_step st (Some user) w w'"
| step_attach_tag: "attach_tag i now mid tid user w = (r, w') \<Longrightarrow> material_step st (Some user) w w'"
| step_detach_tag: "detach_tag i now mid tid user w = (r, w') \<Longrightarrow> material_step st (Some user) w w'"
| step_delete_file: "delete_file sp i now mid fid user w = (r, w') \<Longrightarrow> material_step st (Some user) w w'"
| step_reorder: "reorder_files i now mid is user w = (fs, w') \<Longrightarrow> material_step st (Some user) w w'"
| step_select: "update_file_selection i now mid fid cover primary user w = (r, w') \<Longrightarrow>
    material_step st (Some user) w w'"
| step_submit: "submit st ids now mid user w = (r, w') \<Longrightarrow> material_step st (Some user) w w'"
| step_withdraw: "withdraw i now mid user w = (r, w') \<Longrightarrow> material_step st (Some user) w w'"
| step_report: "report_material ids now mid reason details user w = (n, w') \<Longrightarrow>
    material_step st (Some user) w w'"
| step_approve: "approve st ids now mid actor w = (r, w') \<Longrightarrow> material_step st (Some actor) w w'"
| step_reject: "reject st ids now mid why note actor w = (r, w') \<Longrightarrow> material_step st (Some actor) w w'"
| step_revision: "request_revision st ids now mid why note actor w = (r, w') \<Longrightarrow>
    material_step st (Some actor) w w'"
| step_move: "move_subject ids now mid sid note actor w = (r, w') \<Longrightarrow> material_step st (Some actor) w w'"
| step_download: "prepare_download sp i now ident fid' viewer lf w = (d, w') \<Longrightarrow>
    material_step st viewer w w'"
| step_preview: "prepare_preview pr sp u ident fid viewer lf w = (p, w') \<Longrightarrow> material_step st viewer w w'"
| step_cleanup: "cleanup_stale_drafts now w = (k, w') \<Longrightarrow> material_step st None w w'"
| step_elsewhere: "same_materials w w' \<Longrightarrow> material_step st actor w w'"

inductive_cases material_stepE: "material_step st actor w w'"

lemma plain_effect:
  assumes "materials_ok st w" "w' = w \<or> plain actor w w'"
  shows "materials_ok st w' \<and> lawful actor w w'"
  using assms(2)
proof
  assume "w' = w"
  with assms(1) show ?thesis by (simp add: lawful_same)
next
  assume "plain actor w w'"
  with assms(1) show ?thesis using plain_ok lawful_plain by blast
qed

lemma kept_effect:
  assumes "materials_ok st w" "db_materials w' = db_materials w" "file_keys w' = file_keys w"
  shows "materials_ok st w' \<and> lawful actor w w'"
  using materials_ok_same [OF assms] lawful_same [OF assms(2,3)] by blast

text \<open>One rule per operation: the effect of each, in one place.\<close>

lemma step_effect:
  assumes "material_step st actor w w'" "materials_ok st w" "0 \<le> upload_max_total_size st"
  shows "materials_ok st w' \<and> lawful actor w w'"
proof -
  note ids = materials_okD(1) [OF assms(2)]
  note plain = plain_effect [OF assms(2)]
  from assms(1) show ?thesis
  proof cases
    case step_draft
    then show ?thesis using create_draft_ok [OF assms(2,3)] lawful_draft by blast
  next
    case step_attach
    from attach_files_ok [OF assms(2) step_attach(3-5,2)] lawful_attach [OF ids step_attach(3,2)]
      step_attach(1) show ?thesis by simp
  next
    case step_delete_file
    then show ?thesis using delete_file_ok [OF assms(2)] lawful_delete_file [OF assms(2)] by blast
  next
    case step_report
    then show ?thesis
      using report_material_same kept_effect [OF assms(2)] by (auto simp: same_materials_def file_keys_def)
  next
    case step_preview
    then show ?thesis
      using prepare_preview_effect [OF file_ids_distinct [OF assms(2)]] kept_effect [OF assms(2)] by blast
  next
    case step_elsewhere
    then show ?thesis
      using kept_effect [OF assms(2)] by (auto simp: same_materials_def file_keys_def)
  next
    case step_cleanup
    then show ?thesis using cleanup_effect [OF assms(2)] by blast
  next
    case step_update then show ?thesis using plain [OF update_material_effect [OF ids]] by blast
  next
    case step_delete then show ?thesis using plain [OF delete_material_effect [OF ids]] by blast
  next
    case step_attach_tag then show ?thesis using plain [OF attach_tag_effect [OF ids]] by blast
  next
    case step_detach_tag then show ?thesis using plain [OF detach_tag_effect [OF ids]] by blast
  next
    case step_reorder then show ?thesis using plain [OF reorder_files_effect [OF ids]] by blast
  next
    case step_select then show ?thesis using plain [OF update_file_selection_effect [OF ids]] by blast
  next
    case step_submit then show ?thesis using plain [OF submit_effect [OF ids]] by blast
  next
    case step_withdraw then show ?thesis using plain [OF withdraw_effect [OF ids]] by blast
  next
    case step_approve then show ?thesis using plain [OF approve_effect [OF ids]] by blast
  next
    case step_reject then show ?thesis using plain [OF reject_effect [OF ids]] by blast
  next
    case step_revision then show ?thesis using plain [OF request_revision_effect [OF ids]] by blast
  next
    case step_move then show ?thesis using plain [OF move_subject_effect [OF ids]] by blast
  next
    case step_download then show ?thesis using plain [OF prepare_download_effect [OF ids]] by blast
  qed
qed

text \<open>A run, with the actor of each step and the world it started from.\<close>

inductive material_run :: "settings \<Rightarrow> world \<Rightarrow> (user option \<times> world) list \<Rightarrow> world \<Rightarrow> bool"
  for st :: settings and w0 :: world where
  run_start: "material_run st w0 [] w0"
| run_step: "material_run st w0 xs w \<Longrightarrow> material_step st actor w w' \<Longrightarrow>
    material_run st w0 (xs @ [(actor, w)]) w'"

lemma run_ok:
  "material_run st w0 xs w \<Longrightarrow> materials_ok st w0 \<Longrightarrow> 0 \<le> upload_max_total_size st \<Longrightarrow> materials_ok st w"
  by (induction rule: material_run.induct) (auto dest: step_effect)

lemma step_lawful:
  "material_step st actor w w' \<Longrightarrow> materials_ok st w \<Longrightarrow> 0 \<le> upload_max_total_size st \<Longrightarrow> lawful actor w w'"
  using step_effect by blast

lemma lawfulD:
  assumes "lawful actor w w'" "get_material i w = Some m"
  obtains m' where "get_material i w' = Some m'" "m_slug m' = m_slug m"
    "m_uploaded_by m' = m_uploaded_by m" "permitted actor w m m'"
    "m_status m' = APPROVED \<Longrightarrow> keys_of i w' = keys_of i w"
  using assms unfolding lawful_def by blast

text \<open>A change that leaves a material approved is a decision, or leaves its content as it was.\<close>

lemma approved_change:
  assumes "permitted actor w m m'" "m_status m' = APPROVED"
  shows "content m' = content m \<and>
    (m_status m = APPROVED \<or>
     m_status m = PENDING_REVIEW \<and> (\<exists>u. actor = Some u \<and> assert_scope u m w = Inr () \<and>
       m_approved_by m' = Some (u_id u) \<and> 1 \<le> m_file_count m))"
proof -
  have cnt: "content m' = content m \<and> m_status m' = m_status m" if "counted m m'"
    using arg_cong [OF that [unfolded counted_def], of content]
      arg_cong [OF that [unfolded counted_def], of m_status] by (simp add: content_def)
  have del: "content m' = content m \<and> m_status m' = m_status m" if "deletion m m'"
    using arg_cong [OF conjunct1 [OF that [unfolded deletion_def]], of content]
      arg_cong [OF conjunct1 [OF that [unfolded deletion_def]], of m_status] by (simp add: content_def)
  show ?thesis
    using assms cnt del
    by (auto simp: permitted_def owner_change_def reviewer_change_def split: option.splits)
qed

section \<open>Properties\<close>

text \<open>
  C30. Whatever sequence of requests and clean-ups runs, in whatever order: the counters of every
  material tell the files it has and their total size, which stays within the limit; no two
  materials share a slug; and a material that is approved has a file.
\<close>

theorem material_counters_invariant:
  assumes "material_run st w0 xs w" "materials_ok st w0" "0 \<le> upload_max_total_size st"
    and "m \<in> set (db_materials w)"
  shows "m_file_count m = int (length (filter (\<lambda>f. mf_material_id f = m_id m) (db_material_files w))) \<and>
    m_total_size m = sum_list (file_sizes (m_id m) w) \<and>
    m_total_size m \<le> upload_max_total_size st \<and>
    (m_status m = APPROVED \<longrightarrow> (\<exists>f\<in>set (db_material_files w). mf_material_id f = m_id m)) \<and>
    distinct (map m_slug (db_materials w))"
proof -
  have ok: "materials_ok st w" using assms(1-3) by (rule run_ok)
  then have m: "material_ok st w m"
    using materials_okD(5) assms(4) by (simp add: list_all_iff)
  have len: "length (file_sizes (m_id m) w) =
      length (filter (\<lambda>f. mf_material_id f = m_id m) (db_material_files w))"
    by (simp add: file_sizes_def)
  moreover have "\<exists>f\<in>set (db_material_files w). mf_material_id f = m_id m" if "m_status m = APPROVED"
  proof -
    have "filter (\<lambda>f. mf_material_id f = m_id m) (db_material_files w) \<noteq> []"
      using m that len by (auto simp: material_ok_def)
    then show ?thesis by (simp add: filter_empty_conv)
  qed
  ultimately show ?thesis using m materials_okD(2) [OF ok] by (simp add: material_ok_def)
qed

text \<open>
  C29. Nobody but its owner and the reviewers in whose scope it lies changes a material. The owner
  moves it only from draft or rejected to review, from review back to draft, and, by editing an
  approved one, back to review; a reviewer only decides on one that waits for review, or moves
  it to another subject, and never touches its content; deleted materials are not touched at
  all. Otherwise downloads are counted and stale drafts deleted.
\<close>

theorem material_changes_lawful:
  assumes "material_step st actor w w'" "materials_ok st w" "0 \<le> upload_max_total_size st"
    and "get_material i w = Some m"
  shows "\<exists>m'. get_material i w' = Some m' \<and> m_slug m' = m_slug m \<and>
    m_uploaded_by m' = m_uploaded_by m \<and> permitted actor w m m'"
  using lawfulD [OF step_lawful [OF assms(1-3)] assms(4)] by blast

text \<open>
  C28. What is published is what was reviewed: if a material was not approved at the start of a
  run and is approved at its end, then at some step a reviewer in whose scope it lay approved
  it out of review, and its text and files are still those of that moment.
\<close>

theorem published_was_approved:
  assumes "material_run st w0 xs w" "materials_ok st w0" "0 \<le> upload_max_total_size st"
    and "case get_material i w0 of None \<Rightarrow> True | Some m0 \<Rightarrow> m_status m0 \<noteq> APPROVED"
    and "get_material i w = Some m" "m_status m = APPROVED"
  shows "\<exists>u v n. (Some u, v) \<in> set xs \<and> get_material i v = Some n \<and> m_status n = PENDING_REVIEW \<and>
    assert_scope u n v = Inr () \<and> content n = content m \<and> keys_of i v = keys_of i w"
  using assms
proof (induction arbitrary: m rule: material_run.induct)
  case run_start
  then show ?case by simp
next
  case (run_step xs v actor w)
  have law: "lawful actor v w"
    using step_lawful [OF run_step.hyps(2) run_ok [OF run_step.hyps(1) run_step.prems(1,2)] run_step.prems(2)] .
  show ?case
  proof (cases "get_material i v")
    case None
    with law run_step.prems(4) have "m_status m = DRAFT" unfolding lawful_def by blast
    with run_step.prems(5) show ?thesis by simp
  next
    case (Some n)
    with lawfulD [OF law] run_step.prems(4) have p: "permitted actor v n m"
        and k: "keys_of i w = keys_of i v"
      using run_step.prems(5) by (metis option.inject)+
    note c = approved_change [OF p run_step.prems(5)]
    show ?thesis
    proof (cases "m_status n = APPROVED")
      case True
      from run_step.IH [OF run_step.prems(1-3) Some True] c k show ?thesis by (auto 4 4)
    next
      case False
      with c obtain u where "actor = Some u" "m_status n = PENDING_REVIEW" "assert_scope u n v = Inr ()"
        by blast
      then have "(Some u, v) \<in> set (xs @ [(actor, v)]) \<and> get_material i v = Some n \<and>
          m_status n = PENDING_REVIEW \<and> assert_scope u n v = Inr () \<and> content n = content m \<and>
          keys_of i v = keys_of i w"
        using Some c k by simp
      then show ?thesis by blast
    qed
  qed
qed

section \<open>Witnesses\<close>

text \<open>A library with one material of one file that waits for review, its owner, and an admin.\<close>

definition sample_owner :: user where
  "sample_owner = sample_admin\<lparr>u_id := ''o1'', u_email := ''o@b'', u_role := STUDENT\<rparr>"

definition sample_subject :: subject where
  "sample_subject = \<lparr>su_id = ''s1'', su_faculty_id = ''f1'', su_name = ''Algebra'', su_slug = ''algebra'',
     su_code = None, su_description = None\<rparr>"

definition sample_faculty :: faculty where
  "sample_faculty = \<lparr>fa_id = ''f1'', fa_university_id = ''v1'', fa_name = ''Maths'', fa_slug = ''maths''\<rparr>"

definition sample_university :: university where
  "sample_university = \<lparr>un_id = ''v1'', un_name = ''Tashkent'', un_slug = ''tashkent''\<rparr>"

definition sample_material :: material where
  "sample_material =
     (new_material ''m1'' 0 ''notes'' \<lparr>mc_title = ''Notes'', mc_description = None, mc_material_type = NOTES,
        mc_subject_id = ''s1'', mc_semesters = [1], mc_cover_file_id = None, mc_primary_file_id = None\<rparr>
        sample_owner)
     \<lparr>m_status := PENDING_REVIEW, m_file_count := 1, m_total_size := 5, m_submitted_at := Some 1\<rparr>"

definition sample_file :: material_file where
  "sample_file = new_file ''x1'' ''m1'' sample_upload (stored_as reference_parsers sample_upload ''m1'' ''u1'') 0 None"

definition sample_library :: world where
  "sample_library = empty_world\<lparr>db_users := [sample_admin, sample_owner],
     db_universities := [sample_university], db_faculties := [sample_faculty],
     db_subjects := [sample_subject], db_materials := [sample_material],
     db_material_files := [sample_file],
     objects := [upload_storage_key sample_upload ''m1'' ''u1'' \<mapsto> ''hello'']\<rparr>"

lemma sample_library_ok: "materials_ok default_settings sample_library"
  by (simp add: materials_ok_def material_ok_def sample_library_def file_keys_def file_sizes_def
      file_key_def sample_file_def new_file_def stored_as_def sample_upload_def sample_material_def
      new_material_def default_settings_def)

definition approved_library :: world where
  "approved_library = snd (approve default_settings (\<lambda>n. ''i'' @ str_int (int n)) 9 ''m1'' sample_admin sample_library)"

lemma approve_run:
  "material_run default_settings sample_library [(Some sample_admin, sample_library)] approved_library"
proof -
  have "material_step default_settings (Some sample_admin) sample_library approved_library"
    unfolding approved_library_def by (rule step_approve [OF surjective_pairing])
  from run_step [OF run_start this] show ?thesis by simp
qed

lemma default_limit: "0 \<le> upload_max_total_size default_settings"
  by (simp add: default_settings_def)

lemma approved_library_material:
  "map_option m_status (get_material ''m1'' approved_library) = Some APPROVED"
  by code_simp

lemma approved_library_rows: "map m_id (db_materials approved_library) = [''m1'']"
  by code_simp

lemma material_counters_invariant_witness:
  "\<exists>m. db_materials approved_library = [m] \<and>
     m_file_count m = int (length (filter (\<lambda>f. mf_material_id f = m_id m) (db_material_files approved_library)))"
proof -
  obtain m where m: "db_materials approved_library = [m]"
    using approved_library_rows by (cases "db_materials approved_library") auto
  with material_counters_invariant [OF approve_run sample_library_ok default_limit, of m] show ?thesis
    by simp
qed

lemma sample_library_material: "get_material ''m1'' sample_library = Some sample_material"
  by (simp add: get_material_def sample_library_def sample_material_def new_material_def)

lemma material_changes_lawful_witness:
  "\<exists>m'. get_material ''m1'' approved_library = Some m' \<and> m_slug m' = m_slug sample_material \<and>
     permitted (Some sample_admin) sample_library sample_material m'"
proof -
  have "material_step default_settings (Some sample_admin) sample_library approved_library"
    unfolding approved_library_def by (rule step_approve [OF surjective_pairing])
  from material_changes_lawful [OF this sample_library_ok default_limit sample_library_material]
  show ?thesis by blast
qed

lemma published_was_approved_witness:
  "\<exists>u v n. (Some u, v) \<in> set [(Some sample_admin, sample_library)] \<and> get_material ''m1'' v = Some n \<and>
     m_status n = PENDING_REVIEW \<and> assert_scope u n v = Inr () \<and>
     keys_of ''m1'' v = keys_of ''m1'' approved_library"
proof -
  obtain m where m: "get_material ''m1'' approved_library = Some m" "m_status m = APPROVED"
    using approved_library_material by auto
  have "case get_material ''m1'' sample_library of None \<Rightarrow> True | Some m0 \<Rightarrow> m_status m0 \<noteq> APPROVED"
    by (simp add: sample_library_material) (simp add: sample_material_def)
  from published_was_approved [OF approve_run sample_library_ok default_limit this m] show ?thesis
    by blast
qed

end
