(* ===== verification/MaterialFacts.thy ===== *)
theory MaterialFacts
  imports Lifecycle
begin

text \<open>
  Properties of single operations of the material and the moderation service: reordering files,
  counting downloads, the access that is announced and the access that is granted, uploads
  that fail, and the scope of moderators, which three parts of the program compute on their own.
\<close>

section \<open>Reordering\<close>

definition position :: "'a \<Rightarrow> 'a list \<Rightarrow> nat" where
  "position x xs = length (takeWhile (\<lambda>y. y \<noteq> x) xs)"

lemma position_Cons: "position x (y # xs) = (if x = y then 0 else Suc (position x xs))"
  by (simp add: position_def)

lemma position_nth: "distinct xs \<Longrightarrow> k < length xs \<Longrightarrow> position (xs ! k) xs = k"
proof (induction xs arbitrary: k)
  case (Cons x xs)
  then show ?case by (cases k) (auto simp: position_Cons)
qed simp

lemma position_less: "x \<in> set xs \<Longrightarrow> position x xs < length xs"
  by (induction xs) (auto simp: position_Cons)

lemma nth_position: "x \<in> set xs \<Longrightarrow> xs ! position x xs = x"
  by (induction xs) (auto simp: position_Cons)

lemma set_file_orders_map:
  assumes "distinct is"
  shows "set_file_orders is rows =
    map (\<lambda>f. if mf_id f \<in> set is then f\<lparr>mf_file_order := int (position (mf_id f) is)\<rparr> else f) rows"
proof -
  have "foldl (\<lambda>rows (index, i). update_where (\<lambda>f. mf_id f = i) (\<lambda>f. f\<lparr>mf_file_order := int index\<rparr>) rows)
      rows (enumerate n is) =
    map (\<lambda>f. if mf_id f \<in> set is then f\<lparr>mf_file_order := int (n + position (mf_id f) is)\<rparr> else f) rows" for n
    using assms
  proof (induction "is" arbitrary: n rows)
    case (Cons a as)
    let ?rows = "update_where (\<lambda>f. mf_id f = a) (\<lambda>f. f\<lparr>mf_file_order := int n\<rparr>) rows"
    have "foldl (\<lambda>rows (index, i). update_where (\<lambda>f. mf_id f = i) (\<lambda>f. f\<lparr>mf_file_order := int index\<rparr>) rows)
        rows (enumerate n (a # as)) =
      map (\<lambda>f. if mf_id f \<in> set as then f\<lparr>mf_file_order := int (Suc n + position (mf_id f) as)\<rparr> else f) ?rows"
      using Cons by simp
    also have "\<dots> = map (\<lambda>f. if mf_id f \<in> set (a # as)
        then f\<lparr>mf_file_order := int (n + position (mf_id f) (a # as))\<rparr> else f) rows"
      using Cons.prems by (auto simp: update_where_def position_Cons)
    finally show ?case .
  qed simp
  from this [of 0] show ?thesis by (simp add: set_file_orders_def)
qed

lemma sorted_by_position:
  assumes ids: "distinct (map k L)" "set (map k L) = set is" and "distinct is"
    and key: "\<And>f. f \<in> set L \<Longrightarrow> ord f = int (position (k f) is)"
  shows "map k (sort_key ord L) = is"
proof (rule nth_equalityI)
  let ?S = "sort_key ord L"
  have set: "set ?S = set L" by simp
  have len: "length L = length is"
    using ids \<open>distinct is\<close> by (metis distinct_card length_map)
  then show "length (map k ?S) = length is" by simp
  have ord: "map ord ?S = map (\<lambda>f. int (position (k f) is)) ?S"
    using key by (intro map_cong) simp_all
  have "distinct (map ord ?S)"
    unfolding ord
  proof (subst distinct_map, intro conjI inj_onI)
    show "distinct ?S" using ids(1) by (simp add: distinct_map)
    fix f g
    assume f: "f \<in> set ?S" and g: "g \<in> set ?S" and e: "int (position (k f) is) = int (position (k g) is)"
    then have "k f = k g" using nth_position [of "k f" "is"] nth_position [of "k g" "is"] ids(2)
      by (metis image_eqI list.set_map of_nat_eq_iff set)
    with f g show "f = g" using ids(1) distinct_map_keyed [of k L f g] by simp
  qed
  moreover have "set (map ord ?S) = set (map int [0..<length is])"
  proof
    show "set (map ord ?S) \<subseteq> set (map int [0..<length is])"
      using ids(2) position_less unfolding ord by fastforce
    show "set (map int [0..<length is]) \<subseteq> set (map ord ?S)"
    proof
      fix x assume "x \<in> set (map int [0..<length is])"
      then obtain j where j: "j < length is" "x = int j" by auto
      then have "is ! j \<in> set (map k L)" using ids(2) by (metis nth_mem)
      then obtain f where "f \<in> set L" "k f = is ! j" by auto
      with j position_nth [OF \<open>distinct is\<close>] show "x \<in> set (map ord ?S)" unfolding ord by force
    qed
  qed
  moreover have "sorted (map ord ?S)" by simp
  moreover have "sorted (map int [0..<length is])" "distinct (map int [0..<length is])"
    by (simp_all add: distinct_map sorted_iff_nth_mono)
  ultimately have eq: "map ord ?S = map int [0..<length is]"
    by (intro sorted_distinct_set_unique) simp_all
  fix j
  assume "j < length (map k ?S)"
  then have j: "j < length ?S" "j < length is" using len by simp_all
  then have "ord (?S ! j) = int j" using arg_cong [OF eq, of "\<lambda>xs. xs ! j"] by simp
  moreover have in_S: "?S ! j \<in> set L" using j(1) nth_mem set by metis
  ultimately have "position (k (?S ! j)) is = j" using key by simp
  moreover have "k (?S ! j) \<in> set is" using in_S ids(2) by auto
  ultimately show "map k ?S ! j = is ! j" using nth_position [of "k (?S ! j)" "is"] j by simp
qed

text \<open>
  A successful reordering puts the files of the material in exactly the order of the
  request, which must name each of them once.
\<close>

theorem reorder_files_order:
  assumes "materials_ok st w" "reorder_files i now mid is user w = (Inr fs, w')"
  shows "map mf_id fs = is \<and> set is = set (map mf_id (files_of mid w)) \<and> distinct is"
proof -
  obtain m where m: "get_owned_material mid (u_id user) w = Inr m"
    using assms(2) by (auto simp: reorder_files_def split: sum.splits)
  note mid = get_material_id [OF get_owned_materialD(1) [OF m]]
  obtain m1 w1 where e: "mark_material_for_rereview_if_needed i now m (u_id user) w = (m1, w1)"
    by fastforce
  let ?w2 = "invalidate_material_caches (w1\<lparr>db_material_files := set_file_orders is (db_material_files w1)\<rparr>)"
  have len: "length is = length (files_of mid w)" and set: "set is = set (map mf_id (files_of mid w))"
    and fs: "fs = files_of mid ?w2"
    using assms(2) m e mid
    by (auto simp: reorder_files_def Let_def split: if_splits sum.splits)
  let ?L = "filter (\<lambda>f. mf_material_id f = mid) (set_file_orders is (db_material_files w))"
  let ?old = "filter (\<lambda>f. mf_material_id f = mid) (db_material_files w)"
  have d0: "distinct (map mf_id ?old)"
    using file_ids_distinct [OF assms(1)] by (rule distinct_map_filter)
  have set0: "set (map mf_id ?old) = set is" using set by (simp add: files_of_def)
  have "distinct is"
    using len set0 d0 by (intro card_distinct) (metis distinct_card files_of_def length_map length_order_by)
  note orders = set_file_orders_map [OF this, of "db_material_files w"]
  have L: "?L = map (\<lambda>f. if mf_id f \<in> set is then f\<lparr>mf_file_order := int (position (mf_id f) is)\<rparr> else f) ?old"
    by (simp add: orders filter_map o_def cong: if_cong)
  have ids: "map mf_id ?L = map mf_id ?old" unfolding L by simp
  have key: "mf_file_order f = int (position (mf_id f) is)" if f: "f \<in> set ?L" for f
  proof -
    from f obtain f0 where f0: "f0 \<in> set ?old"
        "f = (if mf_id f0 \<in> set is then f0\<lparr>mf_file_order := int (position (mf_id f0) is)\<rparr> else f0)"
      unfolding L by auto
    then have "mf_id f0 \<in> set is" using set0 by auto
    with f0 show ?thesis by simp
  qed
  have "fs = sort_key mf_file_order ?L"
    by (simp add: fs files_of_def order_by_def rereviewD(9) [OF e])
  then have "map mf_id fs = is"
    using sorted_by_position [of mf_id ?L "is" mf_file_order] ids d0 set0 \<open>distinct is\<close> key by simp
  with set \<open>distinct is\<close> show ?thesis by blast
qed

section \<open>Downloads\<close>

text \<open>
  A user has at most one download row of a material, and the counter of a material is the
  number of its rows.
\<close>

definition downloads_ok :: "world \<Rightarrow> bool" where
  "downloads_ok w \<longleftrightarrow>
     distinct (map m_id (db_materials w)) \<and>
     distinct (map (\<lambda>d. (md_user_id d, md_material_id d)) (db_material_downloads w)) \<and>
     list_all (\<lambda>m. m_download_count m =
        int (length (filter (\<lambda>d. md_material_id d = m_id m) (db_material_downloads w)))) (db_materials w)"

lemma prepare_download_cases:
  assumes "prepare_download sp i now ident fid user lf w = (r, w')"
  obtains (refused) "w' = w" "\<not> is_ok r"
  | (granted) m u where "get_material_for_view ident user lf w = Inr m" "user = Some u"
      "db_materials w' = db_materials (record_download i now (m_id m) user w)"
      "db_material_downloads w' = db_material_downloads (record_download i now (m_id m) user w)"
proof (cases "w' = w \<and> \<not> is_ok r")
  case False
  obtain m where m: "get_material_for_view ident user lf w = Inr m"
    using assms False by (auto simp: prepare_download_def split: sum.splits)
  have w': "w' = cache_do (CacheInvalidate ''materials:trending_ids'')
      (cache_do (CacheInvalidate ''materials:stats_summary'') (record_download i now (m_id m) user w))"
    and nu: "\<not> (m_status m = APPROVED \<and> user = None)"
    using assms False m
    by (auto simp: prepare_download_def Let_def split: sum.splits option.splits if_splits)
  have "user \<noteq> None"
    using m nu by (auto simp: get_material_for_view_def split: option.splits if_splits)
  then obtain u where u: "user = Some u" by auto
  show ?thesis
    by (rule granted [OF m u]) (simp_all add: w' cache_do_def)
qed (use refused in blast)

lemma record_download_rows:
  assumes "downloads_ok w" "m \<in> set (db_materials w)"
    "db_materials w' = db_materials (record_download i now (m_id m) (Some u) w)"
    "db_material_downloads w' = db_material_downloads (record_download i now (m_id m) (Some u) w)"
  shows "downloads_ok w' \<and> downloaded_before (u_id u) (m_id m) w'"
proof (cases "downloaded_before (u_id u) (m_id m) w")
  case True
  with assms show ?thesis by (simp add: record_download_def downloads_ok_def downloaded_before_def)
next
  case False
  let ?d = "\<lparr>md_id = i, md_user_id = Some (u_id u), md_material_id = m_id m, md_ip_address = None, md_created_at = now\<rparr>"
  have rows: "db_material_downloads w' = db_material_downloads w @ [?d]"
    and mats: "db_materials w' = update_where (\<lambda>r. m_id r = m_id m)
      (\<lambda>r. r\<lparr>m_download_count := m_download_count r + 1, m_updated_at := now\<rparr>) (db_materials w)"
    using False assms(3,4) by (simp_all add: record_download_def count_download_def)
  have "(Some (u_id u), m_id m) \<notin> set (map (\<lambda>d. (md_user_id d, md_material_id d)) (db_material_downloads w))"
    using False by (auto simp: downloaded_before_def list_ex_iff)
  with assms(1) have "distinct (map (\<lambda>d. (md_user_id d, md_material_id d)) (db_material_downloads w'))"
    by (auto simp: downloads_ok_def rows)
  moreover have "distinct (map m_id (db_materials w'))"
    using assms(1) unfolding mats downloads_ok_def by (subst map_update_where) simp_all
  moreover have "list_all (\<lambda>m. m_download_count m =
        int (length (filter (\<lambda>d. md_material_id d = m_id m) (db_material_downloads w')))) (db_materials w')"
    using assms(1) unfolding mats rows downloads_ok_def
    by (auto simp: list_all_iff in_update_where)
  ultimately show ?thesis by (simp add: downloads_ok_def rows downloaded_before_def)
qed

text \<open>
  C34. The download counter of a material is the number of different users who downloaded it: a
  request adds to it, and a row for the user, only when the user had not downloaded the
  material before, and one that is refused leaves everything as it was.
\<close>

theorem download_counted_once_per_user:
  assumes "downloads_ok w" "prepare_download sp i now ident fid user lf w = (r, w')"
  shows "downloads_ok w' \<and>
    (case user of
       None \<Rightarrow> w' = w \<and> \<not> is_ok r
     | Some u \<Rightarrow>
         (if is_ok r
          then \<exists>m. get_material_for_view ident user lf w = Inr m \<and> downloaded_before (u_id u) (m_id m) w' \<and>
            (if downloaded_before (u_id u) (m_id m) w
             then db_materials w' = db_materials w \<and> db_material_downloads w' = db_material_downloads w
             else map_option m_download_count (get_material (m_id m) w') = Some (m_download_count m + 1))
          else True))"
  using assms(2)
proof (cases rule: prepare_download_cases)
  case refused
  with assms(1) show ?thesis by (auto split: option.split)
next
  case (granted m u)
  have m: "m \<in> set (db_materials w)" using view_material(1) [OF granted(1)] .
  note rows = record_download_rows [OF assms(1) m granted(3,4) [unfolded granted(2)]]
  have "map_option m_download_count (get_material (m_id m) w') = Some (m_download_count m + 1)"
    if "\<not> downloaded_before (u_id u) (m_id m) w"
  proof -
    have "get_material (m_id m) w = Some m"
      using assms(1) m by (simp add: downloads_ok_def get_material_iff)
    with that granted(2,3) show ?thesis
      by (simp add: get_material_def record_download_def count_download_def find_update_key)
  qed
  moreover have "db_materials w' = db_materials w \<and> db_material_downloads w' = db_material_downloads w"
    if "downloaded_before (u_id u) (m_id m) w"
    using that granted(2-4) by (simp add: record_download_def)
  ultimately show ?thesis using rows granted(1,2) by auto
qed

section \<open>Access\<close>

lemma view_error:
  assumes "get_material_for_view i user lf w = Inl e"
  shows "e = ResourceNotFound ''Material not found'' \<or>
    e = PermissionDenied ''You do not have access to this material''"
  using assms by (auto simp: get_material_for_view_def split: option.splits if_splits)

lemma download_entry_error: "download_entry m fid w = Inl e \<Longrightarrow> e = IndexError"
  by (auto simp: download_entry_def split: option.splits list.splits if_splits)

lemma local_resolve_error:
  "local_resolve_for_download st k nm d obs = Inl e \<Longrightarrow> e = ResourceNotFound ''File not found in storage''"
  by (auto simp: local_resolve_for_download_def split: if_splits)

text \<open>A download is refused for want of a login exactly when an anonymous reader asks for an approved material.\<close>

lemma download_needs_login:
  "fst (prepare_download (local_provider pr st) j now i fid user lf w) = Inl (AuthenticationError e) \<longleftrightarrow>
     e = ''Authentication is required to download this material'' \<and> user = None \<and>
     (\<exists>m. get_material_for_view i user lf w = Inr m \<and> m_status m = APPROVED)"
  (is "?l \<longleftrightarrow> ?r")
proof
  assume l: ?l
  obtain m where m: "get_material_for_view i user lf w = Inr m"
    using l view_error by (cases "get_material_for_view i user lf w")
      (fastforce simp: prepare_download_def)+
  show ?r
  proof (cases "m_status m = APPROVED \<and> user = None")
    case True
    with l m show ?thesis by (auto simp: prepare_download_def)
  next
    case False
    then have False
      using l m download_entry_error local_resolve_error
      by (fastforce simp: prepare_download_def local_provider_def Let_def
          split: sum.splits option.splits if_splits)
    then show ?thesis ..
  qed
qed (auto simp: prepare_download_def)


section \<open>Uploads that fail\<close>

text \<open>The keys under which a request stores its uploads, and the previews of a material.\<close>

definition upload_keys :: "(nat \<Rightarrow> string) \<Rightarrow> nat \<Rightarrow> string \<Rightarrow> upload list \<Rightarrow> string set" where
  "upload_keys ids i mid ups = (\<lambda>(j, f). upload_storage_key f mid (ids (i + 3 * j))) ` set (enumerate 0 ups)"

lemma upload_keys_simps [simp]:
  "upload_keys ids i mid [] = {}"
  "upload_keys ids i mid (f # fs) = insert (upload_storage_key f mid (ids i)) (upload_keys ids (i + 3) mid fs)"
proof -
  have "(\<lambda>(j, f). upload_storage_key f mid (ids (i + 3 * j))) ` set (enumerate (Suc 0) fs) =
      (\<lambda>(j, f). upload_storage_key f mid (ids (i + 3 + 3 * j))) ` set (enumerate 0 fs)"
    by (simp add: enumerate_Suc_eq image_image split_def add.assoc)
  then show "upload_keys ids i mid (f # fs) =
      insert (upload_storage_key f mid (ids i)) (upload_keys ids (i + 3) mid fs)"
    by (simp add: upload_keys_def)
qed (simp add: upload_keys_def)

context storage_provider
begin

text \<open>The first loop writes the keys of the request only, and reports those it left behind.\<close>

lemma store_uploads_objects:
  assumes "store_uploads st sp ids i mid tot keys ups obs = ((x, keys'), obs')"
  shows "(\<forall>k. k \<notin> upload_keys ids i mid ups \<longrightarrow> obs' k = obs k) \<and>
    set keys \<subseteq> set keys' \<and> set keys' \<subseteq> set keys \<union> upload_keys ids i mid ups"
  using assms
proof (induction ups arbitrary: i tot keys obs x keys' obs')
  case (Cons f fs)
  obtain y obs1 where y: "service_save st sp f mid (Some (upload_max_file_size st)) (ids i) obs = (y, obs1)"
    by fastforce
  then obtain mx where save: "pv_save sp f mid mx (ids i) obs = (y, obs1)"
    by (simp add: service_save_def)
  note k1 = save_keeps [OF save]
  show ?case
  proof (cases y)
    case (Inl e)
    with Cons.prems y k1 show ?thesis by auto
  next
    case (Inr s)
    have key: "sf_storage_key s = upload_storage_key f mid (ids i)"
      using save_ok [of f mid mx "ids i" obs s obs1] save Inr by (simp add: stored_as_def)
    show ?thesis
    proof (cases "tot + sf_file_size s > upload_max_total_size st")
      case True
      obtain d obs2 where d: "pv_delete sp (sf_storage_key s) obs1 = (d, obs2)" by fastforce
      have "obs2 = obs1 \<or> obs2 = obs1(sf_storage_key s := None)"
        using d delete_ok [of "sf_storage_key s" obs1] delete_error [of "sf_storage_key s" obs1]
        by (cases d) auto
      moreover have "obs' = obs2 \<and> keys' = keys"
        using Cons.prems y Inr True d by (auto simp: Let_def split: sum.splits)
      ultimately show ?thesis using k1 key by auto
    next
      case False
      obtain z keys2 obs2 where z: "store_uploads st sp ids (i + 3) mid (tot + sf_file_size s)
          (keys @ [sf_storage_key s]) fs obs1 = ((z, keys2), obs2)"
        by (metis surj_pair)
      have "obs' = obs2 \<and> keys' = keys2"
        using Cons.prems y Inr False z by (auto simp: Let_def split: sum.splits)
      with Cons.IH [OF z] k1 key show ?thesis by auto
    qed
  qed
qed simp

lemma store_uploads_kept:
  assumes "store_uploads st sp ids i mid tot keys ups obs = ((x, keys'), obs')"
    and "\<And>k obs. is_ok (fst (pv_delete sp k obs))"
    and "\<And>k. k \<in> upload_keys ids i mid ups \<Longrightarrow> k \<notin> set keys \<Longrightarrow> obs k = None"
    and "k \<notin> set keys'"
  shows "obs' k = obs k"
  using assms(1,3,4)
proof (induction ups arbitrary: i tot keys obs x keys' obs')
  case (Cons f fs)
  let ?key = "upload_storage_key f mid (ids i)"
  obtain y obs1 where y: "service_save st sp f mid (Some (upload_max_file_size st)) (ids i) obs = (y, obs1)"
    by fastforce
  then obtain mx where save: "pv_save sp f mid mx (ids i) obs = (y, obs1)"
    by (simp add: service_save_def)
  have free: "?key \<notin> set keys \<Longrightarrow> obs ?key = None" using Cons.prems(2) by simp
  show ?case
  proof (cases y)
    case (Inl e)
    then have "obs1 = obs \<or> obs1 = obs(?key := None)" "keys' = keys" "obs' = obs1"
      using save_error [of f mid mx "ids i" obs e obs1] save Cons.prems(1) y by auto
    with free Cons.prems(3) show ?thesis by (cases "k = ?key") auto
  next
    case (Inr s)
    have key: "sf_storage_key s = ?key" "obs1 = obs(?key \<mapsto> uf_content f)"
      using save_ok [of f mid mx "ids i" obs s obs1] save Inr by (simp_all add: stored_as_def)
    show ?thesis
    proof (cases "tot + sf_file_size s > upload_max_total_size st")
      case True
      obtain d obs2 where d: "pv_delete sp ?key obs1 = (d, obs2)" by fastforce
      then obtain u where "d = Inr u" using assms(2) [of ?key obs1] by (auto simp: is_ok_iff)
      then have "obs2 = obs1(?key := None)" using delete_ok d by blast
      moreover have "obs' = obs2" "keys' = keys"
        using Cons.prems(1) y Inr True d key by (auto simp: Let_def split: sum.splits)
      ultimately show ?thesis using free Cons.prems(3) key by (cases "k = ?key") auto
    next
      case False
      obtain z keys2 obs2 where z: "store_uploads st sp ids (i + 3) mid (tot + sf_file_size s)
          (keys @ [sf_storage_key s]) fs obs1 = ((z, keys2), obs2)"
        by (metis surj_pair)
      have e: "obs' = obs2" "keys' = keys2"
        using Cons.prems(1) y Inr False z by (auto simp: Let_def split: sum.splits)
      have "set (keys @ [sf_storage_key s]) \<subseteq> set keys2" using store_uploads_objects [OF z] by blast
      then have "k \<noteq> ?key" using Cons.prems(3) e key by auto
      moreover have "obs' k = obs1 k"
        unfolding e using Cons.prems(2,3) e key by (intro Cons.IH [OF z]) auto
      ultimately show ?thesis using key by simp
    qed
  qed
qed simp

lemma build_pdf_preview_objects:
  assumes "build_pdf_preview pr' sp u mid key obs = (x, obs')" "k \<noteq> preview_key mid u"
  shows "obs' k = obs k"
proof (cases "obs' = obs")
  case False
  then obtain content ty y where "pv_save_bytes sp content (preview_key mid u) ty obs = (y, obs')"
    using assms(1) by (auto simp: build_pdf_preview_def Let_def split: sum.splits option.splits prod.splits)
  then have "obs' = obs \<or> obs' = obs(preview_key mid u \<mapsto> content)"
    using bytes_ok [of content "preview_key mid u" ty obs] bytes_error [of content "preview_key mid u" ty obs]
    by (cases y) auto
  with assms(2) show ?thesis by auto
qed simp

lemma build_entities_objects:
  assumes "build_entities pr' sp ids i mid rows obs = (x, obs')" "\<And>u. k \<noteq> preview_key mid u"
  shows "obs' k = obs k"
  using assms(1)
proof (induction rows arbitrary: i obs x)
  case (Cons row rows)
  obtain up s ord where row: "row = (up, s, ord)" by (cases row)
  let ?p = "if sf_file_ext s = ''pdf''
    then (case build_pdf_preview pr' sp (ids (i + 1)) mid (sf_storage_key s) obs of
            (Inl e, obs1) \<Rightarrow> (Inl e, obs1) | (Inr p, obs1) \<Rightarrow> (Inr (Some p), obs1))
    else (Inr None, obs)"
  obtain pv obs1 where pv: "?p = (pv, obs1)" by (rule prod.exhaust [of ?p])
  have o1: "obs1 k = obs k"
  proof (cases "sf_file_ext s = ''pdf''")
    case True
    obtain q obs2 where q: "build_pdf_preview pr' sp (ids (i + 1)) mid (sf_storage_key s) obs = (q, obs2)"
      by fastforce
    with pv True have "obs1 = obs2" by (cases q) simp_all
    with build_pdf_preview_objects [OF q assms(2)] show ?thesis by simp
  qed (use pv in simp)
  show ?case
  proof (cases pv)
    case (Inl e)
    with Cons.prems row pv o1 show ?thesis by simp
  next
    case (Inr p)
    obtain z obs2 where z: "build_entities pr' sp ids (i + 3) mid rows obs1 = (z, obs2)" by fastforce
    with Cons.prems row pv Inr have "obs' = obs2" by (cases z) simp_all
    with Cons.IH z o1 show ?thesis by simp
  qed
qed simp

end

lemma delete_many_is_ok:
  assumes "\<And>k obs. is_ok (fst (pv_delete sp k obs))"
  shows "is_ok (fst (delete_many sp ks obs))"
proof (induction ks arbitrary: obs)
  case (Cons k ks)
  obtain d obs1 where d: "pv_delete sp k obs = (d, obs1)" by fastforce
  with assms [of k obs] Cons show ?case by (cases d) simp_all
qed simp


section \<open>Scope of moderators\<close>

lemma list_pending_iff:
  assumes "length (filter (\<lambda>m. m_status m = PENDING_REVIEW) (build_filtered_query w)) \<le> 1000"
  shows "m \<in> set (list_pending u w) \<longleftrightarrow>
    m \<in> set (build_filtered_query w) \<and> m_status m = PENDING_REVIEW \<and> in_listed_scope u w m"
proof -
  let ?rows = "filter (in_listed_scope u w)
    (filter (\<lambda>m. m_status m = PENDING_REVIEW) (build_filtered_query w))"
  have "length ?rows \<le> 1000" using assms le_trans [OF length_filter_le] by blast
  then have "list_pending u w = order_by m_created_at ?rows"
    by (simp add: list_pending_def list_filtered_def paginate_def)
  then show ?thesis by auto
qed

lemma in_scope_ids:
  "i \<in> set (university_scope_ids u w) \<longleftrightarrow>
     list_ex (\<lambda>c. mus_user_id c = u \<and> mus_university_id c = i) (db_moderator_university_scopes w)"
  "i \<in> set (faculty_scope_ids u w) \<longleftrightarrow>
     list_ex (\<lambda>c. mfs_user_id c = u \<and> mfs_faculty_id c = i) (db_moderator_faculty_scopes w)"
  "i \<in> set (subject_scope_ids u w) \<longleftrightarrow>
     list_ex (\<lambda>c. mss_user_id c = u \<and> mss_subject_id c = i) (db_moderator_subject_scopes w)"
  by (auto simp: university_scope_ids_def faculty_scope_ids_def subject_scope_ids_def list_ex_iff)

lemma in_listed_scope_iff:
  assumes "m \<in> set (build_filtered_query w)" "m_id m \<noteq> ''__none__''"
  shows "in_listed_scope u w m \<longleftrightarrow> u_role u = ADMIN \<or> subject_scoped (u_id u) (m_subject_id m) w"
proof -
  obtain s f where s: "get_subject (m_subject_id m) w = Some s" "get_faculty (su_faculty_id s) w = Some f"
    and p: "\<exists>v. material_place m w = Some (s, f, v)"
    using assms(1) by (auto simp: build_filtered_query_def material_place_def split: option.splits)
  have "su_id s = m_subject_id m" using s(1) unfolding get_subject_def by (rule find_key_Some)
  with s p assms(2) show ?thesis
    by (cases "u_role u") (auto simp: in_listed_scope_def subject_scoped_def Let_def
        simp flip: in_scope_ids)
qed

lemma assert_scope_iff:
  assumes "m \<in> set (build_filtered_query w)"
  shows "is_ok (assert_scope u m w) \<longleftrightarrow> u_role u = ADMIN \<or> subject_scoped (u_id u) (m_subject_id m) w"
proof -
  obtain s f where s: "get_subject (m_subject_id m) w = Some s" "get_faculty (su_faculty_id s) w = Some f"
    using assms(1) by (auto simp: build_filtered_query_def material_place_def split: option.splits)
  then show ?thesis
    by (cases "u_role u") (auto simp: assert_scope_def subject_scoped_def in_scope_ids)
qed

text \<open>
  C31. Three parts of the program compute the scope of a moderator in their own way, and they
  agree on every material that waits for review: the list of pending materials shows it to
  exactly those whom the decision on it is granted, and these, when active, are exactly those
  who are told of its submission.
\<close>

theorem moderation_scope_consistent:
  assumes "distinct (map u_id (db_users w))" "u \<in> set (db_users w)"
    and "m \<in> set (build_filtered_query w)" "m_id m \<noteq> ''__none__''" "m_status m = PENDING_REVIEW"
    and "length (filter (\<lambda>m. m_status m = PENDING_REVIEW) (build_filtered_query w)) \<le> 1000"
  shows "(m \<in> set (list_pending u w) \<longleftrightarrow> is_ok (assert_scope u m w)) \<and>
    (u \<in> set (resolve_material_recipients m w) \<longleftrightarrow> u_is_active u \<and> is_ok (assert_scope u m w))"
  using assms(2-5)
  by (auto simp: list_pending_iff [OF assms(6)] in_listed_scope_iff [OF assms(3,4)]
      assert_scope_iff [OF assms(3)] material_recipients_iff [OF assms(1)])

section \<open>Witnesses\<close>

lemma sample_library_downloads: "downloads_ok sample_library"
  by (simp add: downloads_ok_def sample_library_def sample_material_def new_material_def)

text \<open>A draft with two files, whose order its owner exchanges.\<close>

definition draft_library :: world where
  "draft_library = sample_library\<lparr>
     db_materials := [sample_material\<lparr>m_status := DRAFT, m_file_count := 2, m_total_size := 10\<rparr>],
     db_material_files := [sample_file, sample_file\<lparr>mf_id := ''x2'', mf_file_order := 1\<rparr>]\<rparr>"

lemma draft_library_ok: "materials_ok default_settings draft_library"
  by (simp add: materials_ok_def material_ok_def draft_library_def sample_library_def file_keys_def
      file_sizes_def file_key_def sample_file_def new_file_def stored_as_def sample_upload_def
      sample_material_def new_material_def default_settings_def)

lemma draft_library_reordered:
  "is_ok (fst (reorder_files ''r1'' 9 ''m1'' [''x2'', ''x1''] sample_owner draft_library))"
  by code_simp

lemma reorder_files_order_witness:
  "\<exists>fs w'. reorder_files ''r1'' 9 ''m1'' [''x2'', ''x1''] sample_owner draft_library = (Inr fs, w') \<and>
     map mf_id fs = [''x2'', ''x1'']"
proof -
  obtain fs w' where "reorder_files ''r1'' 9 ''m1'' [''x2'', ''x1''] sample_owner draft_library = (Inr fs, w')"
    using draft_library_reordered by (metis is_ok_iff surjective_pairing)
  moreover from reorder_files_order [OF draft_library_ok this] have "map mf_id fs = [''x2'', ''x1'']" by (rule conjunct1)
  ultimately show ?thesis by (intro exI conjI)
qed

lemma download_counted_once_per_user_witness:
  "downloads_ok (snd (prepare_download (local_provider reference_parsers default_settings) ''d1'' 9 ''m1''
     None (Some sample_admin) ''id'' sample_library))"
  using download_counted_once_per_user [OF sample_library_downloads surjective_pairing] by blast


lemma local_delete_is_ok: "is_ok (fst (pv_delete (local_provider pr st) k obs))"
  by (simp add: local_provider_def)

text \<open>A request whose second file is empty: the first is stored, and deleted again.\<close>

definition failing_uploads :: "upload list" where
  "failing_uploads = [sample_upload, \<lparr>uf_filename = Some ''b.txt'', uf_content = []\<rparr>]"

definition sample_ids :: "nat \<Rightarrow> string" where
  "sample_ids n = ''i'' @ replicate n (CHR ''x'')"

definition failed_upload :: "material_file list res \<times> world" where
  "failed_upload = attach_files reference_parsers default_settings
     (local_provider reference_parsers default_settings) sample_ids 9 ''m1'' sample_owner
     failing_uploads [2, 3] draft_library"

lemma draft_library_owned:
  "map_sum id (\<lambda>m. (m_status m, m_id m, m_total_size m)) (get_owned_material ''m1'' (u_id sample_owner) draft_library) =
     Inr (DRAFT, ''m1'', 10)"
  by code_simp

lemma failed_upload_error: "\<not> is_ok (fst failed_upload)"
proof -
  obtain m where m: "get_owned_material ''m1'' (u_id sample_owner) draft_library = Inr m"
      "m_status m = DRAFT" "m_id m = ''m1''" "m_total_size m = 10"
    using draft_library_owned by (cases "get_owned_material ''m1'' (u_id sample_owner) draft_library") auto
  let ?pr = reference_parsers
  have first: "local_save ?pr sample_upload ''m1'' 10485760 u obs =
      (Inr (stored_as ?pr sample_upload ''m1'' u), obs(upload_storage_key sample_upload ''m1'' u \<mapsto> ''hello''))"
    for u obs
    using sample_upload_acceptable
    by (cases rule: local_save_cases [of ?pr 10485760 sample_upload "''m1''" u obs])
      (simp_all add: default_settings_def sample_upload_def)
  let ?empty = "\<lparr>uf_filename = Some ''b.txt'', uf_content = []\<rparr>"
  let ?sp = "local_provider ?pr default_settings"
  let ?obs = "(objects draft_library)(upload_storage_key sample_upload ''m1'' (sample_ids 0) \<mapsto> ''hello'')"
  obtain e obs where second: "local_save ?pr ?empty ''m1'' 10485760 (sample_ids 3) ?obs = (Inl e, obs)"
    by (cases rule: local_save_cases [of ?pr 10485760 ?empty "''m1''" "sample_ids 3" ?obs])
      (simp_all add: acceptable_def)
  have "service_save default_settings ?sp sample_upload ''m1'' (Some 10485760) (sample_ids 0) (objects draft_library) =
      (Inr (stored_as ?pr sample_upload ''m1'' (sample_ids 0)), ?obs)"
    by (simp add: service_save_def local_provider_def first)
  moreover have "service_save default_settings ?sp ?empty ''m1'' (Some 10485760) (sample_ids 3) ?obs = (Inl e, obs)"
    by (simp add: service_save_def local_provider_def second)
  moreover have "sf_file_size (stored_as ?pr sample_upload ''m1'' (sample_ids 0)) = 5"
    by (simp add: stored_as_def sample_upload_def)
  moreover have "upload_max_file_size default_settings = 10485760" "upload_max_total_size default_settings = 52428800"
      "upload_max_file_count default_settings = 10"
    by (simp_all add: default_settings_def)
  ultimately show ?thesis
    using m by (simp add: failed_upload_def attach_files_def failing_uploads_def discard_uploads_def
        split: prod.splits sum.splits)
qed

lemma failed_upload_keys:
  "list_all (\<lambda>k. objects draft_library k = None) (map (\<lambda>(j, f). upload_storage_key f ''m1'' (sample_ids (0 + 3 * j)))
     (enumerate 0 failing_uploads))"
  by code_simp

lemma sample_key: "upload_storage_key sample_upload ''m1'' ''i'' = ''materials/m1/i.txt''"
  by code_simp

lemma sample_key_no_preview: "upload_storage_key sample_upload ''m1'' ''i'' \<noteq> preview_key ''m1'' u"
  unfolding sample_key by (simp add: preview_key_def)


lemma sample_library_pending:
  "build_filtered_query sample_library = [sample_material]"
  by code_simp

lemma moderation_scope_consistent_witness:
  "sample_material \<in> set (list_pending sample_admin sample_library) \<and>
   sample_admin \<in> set (resolve_material_recipients sample_material sample_library)"
proof -
  have "distinct (map u_id (db_users sample_library))" "sample_admin \<in> set (db_users sample_library)"
      "sample_material \<in> set (build_filtered_query sample_library)" "m_id sample_material \<noteq> ''__none__''"
      "m_status sample_material = PENDING_REVIEW"
      "length (filter (\<lambda>m. m_status m = PENDING_REVIEW) (build_filtered_query sample_library)) \<le> 1000"
    by (simp_all add: sample_library_pending)
      (simp_all add: sample_library_def sample_admin_def sample_owner_def sample_material_def new_material_def)
  from moderation_scope_consistent [OF this] show ?thesis
    by (simp add: assert_scope_def sample_admin_def)
qed

section \<open>The search for a free slug ends\<close>

lemma free_slug_search:
  assumes "numbered_slug b ` {2..<n} - {slug} \<subseteq> set used" "slug = b \<or> b \<in> set used"
    and "slug = b \<Longrightarrow> n = 2" "slug \<noteq> b \<Longrightarrow> 2 < n \<and> slug = numbered_slug b (n - 1)"
  shows "free_slug used b n slug = b \<and> b \<notin> set used \<or>
    (\<exists>m\<ge>2. free_slug used b n slug = numbered_slug b m \<and> b \<in> set used \<and>
       numbered_slug b ` {2..<m} \<subseteq> set used)"
  using assms
proof (induction used b n slug rule: free_slug.induct)
  case (1 used b n slug)
  show ?case
  proof (cases "slug \<in> set used")
    case False
    then have eq: "free_slug used b n slug = slug" by (subst free_slug.simps) simp
    show ?thesis
    proof (cases "slug = b")
      case True
      with False eq show ?thesis by simp
    next
      case other: False
      with 1(5) have n: "2 < n" "slug = numbered_slug b (n - 1)" by simp_all
      have "numbered_slug b ` {2..<n - 1} \<subseteq> set used"
      proof
        fix s assume "s \<in> numbered_slug b ` {2..<n - 1}"
        then obtain k where "s = numbered_slug b k" "2 \<le> k" "k < n - 1" by auto
        then have "s \<in> numbered_slug b ` {2..<n} - {slug}" using n by (auto simp: numbered_slug_inj)
        with 1(2) show "s \<in> set used" by blast
      qed
      with n eq other 1(3) show ?thesis by (intro disjI2 exI [of _ "n - 1"]) auto
    qed
  next
    case True
    have ne: "numbered_slug b n \<noteq> b" by (simp add: numbered_slug_def)
    have n: "2 \<le> n" using 1(4,5) by (cases "slug = b") auto
    have eq: "free_slug used b n slug = free_slug used b (n + 1) (numbered_slug b n)"
      using True by (subst free_slug.simps) simp
    have "numbered_slug b ` {2..<n + 1} - {numbered_slug b n} \<subseteq> set used"
    proof
      fix s assume "s \<in> numbered_slug b ` {2..<n + 1} - {numbered_slug b n}"
      then have "s \<in> numbered_slug b ` {2..<n}" by (auto simp: less_Suc_eq)
      with 1(2) True show "s \<in> set used" by (cases "s = slug") auto
    qed
    with 1(1) [OF True] ne n True 1(3) show ?thesis unfolding eq by auto
  qed
qed

text \<open>
  C25. The search for a free slug ends with the first candidate no material has, the slug of the
  title and then the numbered ones from 2 on, and it has looked at no more candidates than one
  for each material and one more.
\<close>

theorem slug_search_ends:
  "generate_unique_slug x title w \<notin> m_slug ` set (db_materials w) \<and>
   (generate_unique_slug x title w = slugify x title \<or>
    (\<exists>n. generate_unique_slug x title w = numbered_slug (slugify x title) n \<and>
       2 \<le> n \<and> n \<le> length (db_materials w) + 1 \<and>
       insert (slugify x title) (numbered_slug (slugify x title) ` {2..<n}) \<subseteq> m_slug ` set (db_materials w)))"
proof -
  let ?b = "slugify x title" and ?used = "map m_slug (db_materials w)"
  have free: "generate_unique_slug x title w \<notin> m_slug ` set (db_materials w)"
    using free_slug_free [of ?used] by (simp add: generate_unique_slug_def Let_def)
  have "n \<le> length (db_materials w) + 1"
    if n: "2 \<le> n" "insert ?b (numbered_slug ?b ` {2..<n}) \<subseteq> m_slug ` set (db_materials w)" for n
  proof -
    have "inj_on (numbered_slug ?b) {2..<n}" by (simp add: inj_on_def numbered_slug_inj)
    moreover have "?b \<notin> numbered_slug ?b ` {2..<n}" by (auto simp: numbered_slug_def)
    ultimately have "card (insert ?b (numbered_slug ?b ` {2..<n})) = n - 1"
      using n(1) by (simp add: card_image)
    moreover have "card (insert ?b (numbered_slug ?b ` {2..<n})) \<le> card (set ?used)"
      using n(2) by (intro card_mono) simp_all
    ultimately show ?thesis using card_length [of ?used] by simp
  qed
  with free free_slug_search [of ?b 2 ?b ?used] show ?thesis
    by (auto simp: generate_unique_slug_def Let_def)
qed

end
