(* ===== verification/CatalogRuns.thy ===== *)
theory CatalogRuns
  imports CatalogFacts MaterialFacts "HOL-Library.Multiset"
begin

text \<open>
  Any sequence of catalog and proposal operations, and what holds in all of them; the tree of
  the catalog; and who is told of a proposal.
\<close>

section \<open>Operations that leave decisions alone\<close>

lemma decision_subset:
  assumes "decision ` set (proposals_of w') \<subseteq> decision ` set (proposals_of w)"
  shows "proposal_change actor w w'"
  using assms by (auto simp: proposal_change_def)

lemma decisions_of:
  "decision ` set (proposals_of w) =
     decision ` UniversityProposal ` set (db_university_proposals w) \<union>
     decision ` FacultyProposal ` set (db_faculty_proposals w) \<union>
     decision ` SubjectProposal ` set (db_subject_proposals w)"
  by (simp add: proposals_of_def image_Un Un_assoc)

lemma cleared_subset:
  "decision ` UniversityProposal ` set (update_where P (\<lambda>p. p\<lparr>up_approved_university_id := None\<rparr>) us) \<subseteq>
     decision ` UniversityProposal ` set us"
  "decision ` FacultyProposal ` set (update_where Q (\<lambda>p. p\<lparr>fp_approved_faculty_id := None\<rparr>) fs) \<subseteq>
     decision ` FacultyProposal ` set fs"
  "decision ` SubjectProposal ` set (update_where R (\<lambda>p. p\<lparr>sp_approved_subject_id := None\<rparr>) ss) \<subseteq>
     decision ` SubjectProposal ` set ss"
  by (auto simp: set_update_where image_iff)

lemma deleted_subset: "f ` set (delete_where P rows) \<subseteq> f ` set rows"
  by (auto simp: delete_where_def)

lemma drop_subjects_decisions:
  assumes "drop_subjects P w = Inr w'"
  shows "decision ` set (proposals_of w') \<subseteq> decision ` set (proposals_of w)"
proof -
  have "db_university_proposals w' = db_university_proposals w"
      "db_faculty_proposals w' = db_faculty_proposals w"
      "db_subject_proposals w' = update_where
        (\<lambda>p. \<exists>i\<in>set (map su_id (filter P (db_subjects w))). sp_approved_subject_id p = Some i)
        (\<lambda>p. p\<lparr>sp_approved_subject_id := None\<rparr>) (db_subject_proposals w)"
    using assms by (auto simp: drop_subjects_def Let_def split: if_splits)
  then show ?thesis unfolding decisions_of by (simp only:) (intro Un_mono order_refl cleared_subset)
qed

lemma drop_faculties_decisions:
  assumes "drop_faculties P w = Inr w'"
  shows "decision ` set (proposals_of w') \<subseteq> decision ` set (proposals_of w)"
proof -
  let ?gone = "map fa_id (filter P (db_faculties w))"
  obtain w1 where w1: "drop_subjects (\<lambda>s. su_faculty_id s \<in> set ?gone) w = Inr w1"
    using assms by (auto simp: drop_faculties_def Let_def split: sum.splits)
  have "db_university_proposals w' = db_university_proposals w1"
      "db_faculty_proposals w' = update_where (\<lambda>p. \<exists>i\<in>set ?gone. fp_approved_faculty_id p = Some i)
        (\<lambda>p. p\<lparr>fp_approved_faculty_id := None\<rparr>) (db_faculty_proposals w1)"
      "db_subject_proposals w' = delete_where (\<lambda>p. sp_faculty_id p \<in> set ?gone) (db_subject_proposals w1)"
    using assms w1 by (auto simp: drop_faculties_def Let_def)
  then have "decision ` set (proposals_of w') \<subseteq> decision ` set (proposals_of w1)"
    using cleared_subset(2) deleted_subset [of "decision \<circ> SubjectProposal"]
    unfolding decisions_of by (simp add: image_comp) blast
  with drop_subjects_decisions [OF w1] show ?thesis by blast
qed

lemma delete_university_decisions:
  "decision ` set (proposals_of (snd (delete_university i w))) \<subseteq> decision ` set (proposals_of w)"
proof (cases "require_university i w")
  case (Inr u)
  show ?thesis
  proof (cases "drop_faculties (\<lambda>f. fa_university_id f = un_id u) w")
    case w1: (Inr w1)
    let ?w = "snd (delete_university i w)"
    have "db_subject_proposals ?w = db_subject_proposals w1"
        "db_university_proposals ?w = update_where (\<lambda>p. up_approved_university_id p = Some (un_id u))
          (\<lambda>p. p\<lparr>up_approved_university_id := None\<rparr>) (db_university_proposals w1)"
        "db_faculty_proposals ?w = delete_where (\<lambda>p. fp_university_id p = un_id u) (db_faculty_proposals w1)"
      by (simp_all add: delete_university_def Inr w1)
    then have "decision ` set (proposals_of ?w) \<subseteq> decision ` set (proposals_of w1)"
      using cleared_subset(1) deleted_subset [of "decision \<circ> FacultyProposal"]
      unfolding decisions_of by (simp add: image_comp) blast
    with drop_faculties_decisions [OF w1] show ?thesis by blast
  qed (simp add: delete_university_def Inr)
qed (simp add: delete_university_def)

lemma flush_decisions:
  "flush_university u w = Inr w' \<Longrightarrow> proposals_of w' = proposals_of w"
  "flush_faculty f w = Inr w' \<Longrightarrow> proposals_of w' = proposals_of w"
  "flush_subject s w = Inr w' \<Longrightarrow> proposals_of w' = proposals_of w"
  by (auto simp: flush_university_def flush_faculty_def flush_subject_def proposals_of_def split: if_splits)

lemma kept_sum:
  assumes "\<And>e. r = Inl e \<Longrightarrow> proposals_of (snd (F e)) = ps" "\<And>v. r = Inr v \<Longrightarrow> proposals_of (snd (G v)) = ps"
  shows "proposals_of (snd (case r of Inl e \<Rightarrow> F e | Inr v \<Rightarrow> G v)) = ps"
  using assms by (cases r) auto

lemma kept_option:
  assumes "r = None \<Longrightarrow> proposals_of (snd F) = ps" "\<And>v. r = Some v \<Longrightarrow> proposals_of (snd (G v)) = ps"
  shows "proposals_of (snd (case r of None \<Rightarrow> F | Some v \<Rightarrow> G v)) = ps"
  using assms by (cases r) auto

lemma kept_if:
  assumes "b \<Longrightarrow> proposals_of (snd F) = ps" "\<not> b \<Longrightarrow> proposals_of (snd G) = ps"
  shows "proposals_of (snd (if b then F else G)) = ps"
  using assms by auto

lemmas kept = kept_sum kept_option kept_if

lemma flush_updated_decisions: "flush_updated r w = Inr w' \<Longrightarrow> proposals_of w' = proposals_of w"
  by (auto simp: flush_updated_def split: sum.splits dest: flush_decisions)

lemma catalog_decisions:
  "proposals_of (snd (create_university x i uc w)) = proposals_of w"
  "proposals_of (snd (update_university x i uu w)) = proposals_of w"
  "proposals_of (snd (create_faculty x i fc w)) = proposals_of w"
  "proposals_of (snd (update_faculty x i fu w)) = proposals_of w"
  "proposals_of (snd (create_subject x i sc w)) = proposals_of w"
  "proposals_of (snd (update_subject x i sb w)) = proposals_of w"
  unfolding create_university_def update_university_def create_faculty_def update_faculty_def
    create_subject_def update_subject_def Let_def
  by (intro kept; simp only: snd_conv flush_decisions flush_updated_decisions proposals_insert)+

lemma deletion_decisions:
  "decision ` set (proposals_of (snd (delete_faculty i w))) \<subseteq> decision ` set (proposals_of w)"
  "decision ` set (proposals_of (snd (delete_subject i w))) \<subseteq> decision ` set (proposals_of w)"
  by (auto simp: delete_faculty_def delete_subject_def split: sum.split
      dest!: drop_faculties_decisions drop_subjects_decisions)

section \<open>New proposals\<close>

lemma submit_change:
  assumes "submit_proposal ids now p et pt user w = (r, w')"
    and "proposal_status_of p = ProposalPending" "proposal_created_by p = u_id user"
  shows "proposal_change user w w'"
  using assms(1)
proof (cases rule: submit_cases)
  case refused
  then show ?thesis by (simp add: proposal_change_refl)
next
  case (submitted ls)
  then have "proposals_of w' = proposals_of (add_proposal p w)" by (auto simp: only_events_def)
  moreover have "set (proposals_of (add_proposal p w)) = insert p (set (proposals_of w))"
    by (cases p) (auto simp: proposals_of_def)
  ultimately show ?thesis using assms(2,3) by (auto simp: proposal_change_def)
qed

lemma require_in:
  "require_university i w = Inr u \<Longrightarrow> i \<in> ids_of un_id (db_universities w)"
  "require_faculty i w = Inr f \<Longrightarrow> i \<in> ids_of fa_id (db_faculties w)"
  using require_ids by blast+

lemma create_proposals_change:
  assumes ok: "catalog_ok w"
  shows "create_university_proposal x ids now n d user w = (r, w') \<Longrightarrow> catalog_ok w' \<and> proposal_change user w w'"
    "create_faculty_proposal x ids now i n d user w = (r, w') \<Longrightarrow> catalog_ok w' \<and> proposal_change user w w'"
    "create_subject_proposal x ids now i n c d user w = (r, w') \<Longrightarrow> catalog_ok w' \<and> proposal_change user w w'"
proof -
  have sub: "catalog_ok w' \<and> proposal_change user w w'"
    if "submit_proposal ids now p et pt user w = (r, w')" "proposal_status_of p = ProposalPending"
      "proposal_created_by p = u_id user" "parent_exists p w" "approved_entity p = None" for p et pt
    using submit_change [OF that(1-3)] submit_ok [OF ok, of p ids now et pt user] that
    by (simp add: proposal_refers_def)
  show "create_university_proposal x ids now n d user w = (r, w') \<Longrightarrow> catalog_ok w' \<and> proposal_change user w w'"
    using ok by (auto simp: create_university_proposal_def Let_def proposal_change_refl dest: sub
        split: if_splits sum.splits)
  show "create_faculty_proposal x ids now i n d user w = (r, w') \<Longrightarrow> catalog_ok w' \<and> proposal_change user w w'"
    using ok by (auto simp: create_faculty_proposal_def Let_def proposal_change_refl
        dest!: require_in sub split: if_splits sum.splits)
  show "create_subject_proposal x ids now i n c d user w = (r, w') \<Longrightarrow> catalog_ok w' \<and> proposal_change user w w'"
    using ok by (auto simp: create_subject_proposal_def Let_def proposal_change_refl
        dest!: require_in sub split: if_splits sum.splits)
qed

lemma update_home_university_change:
  assumes ok: "catalog_ok w" and "update_home_university now user i w = (r, w')"
  shows "catalog_ok w' \<and> proposal_change user w w'"
proof -
  have "w' = w \<or> (\<exists>u. require_university i w = Inr u) \<and> w' = w\<lparr>db_users := update_where (\<lambda>r. u_id r = u_id user)
      (\<lambda>r. r\<lparr>u_university_id := Some i, u_university_changed_at := Some now,
             u_pending_university_name := None, u_university_status := ''selected''\<rparr>) (db_users w)\<rparr>"
    using assms(2) by (auto simp: update_home_university_def split: sum.splits if_splits)
  then show ?thesis
  proof
    assume w': "(\<exists>u. require_university i w = Inr u) \<and> w' = w\<lparr>db_users := update_where (\<lambda>r. u_id r = u_id user)
      (\<lambda>r. r\<lparr>u_university_id := Some i, u_university_changed_at := Some now,
             u_pending_university_name := None, u_university_status := ''selected''\<rparr>) (db_users w)\<rparr>"
    then have i: "i \<in> ids_of un_id (db_universities w)" using require_in(1) by blast
    have "proposals_of w' = proposals_of w" using w' by (simp add: proposals_of_def)
    moreover have "catalog_ok w'"
      unfolding conjunct2 [OF w'] using i by (intro user_update_ok [OF ok]) (auto simp: in_update_where)
    ultimately show ?thesis by (simp add: proposal_change_same)
  qed (use ok in \<open>simp add: proposal_change_refl\<close>)
qed

section \<open>Runs\<close>

text \<open>One request that changes the catalog or its proposals, with the user who makes it.\<close>

inductive catalog_step :: "user \<Rightarrow> world \<Rightarrow> world \<Rightarrow> bool" for actor :: user where
  step_create_university: "create_university x i uc w = (r, w') \<Longrightarrow> catalog_step actor w w'"
| step_update_university: "update_university x i uu w = (r, w') \<Longrightarrow> catalog_step actor w w'"
| step_delete_university: "delete_university i w = (r, w') \<Longrightarrow> catalog_step actor w w'"
| step_create_faculty: "create_faculty x i fc w = (r, w') \<Longrightarrow> catalog_step actor w w'"
| step_update_faculty: "update_faculty x i fu w = (r, w') \<Longrightarrow> catalog_step actor w w'"
| step_delete_faculty: "delete_faculty i w = (r, w') \<Longrightarrow> catalog_step actor w w'"
| step_create_subject: "create_subject x i sc w = (r, w') \<Longrightarrow> catalog_step actor w w'"
| step_update_subject: "update_subject x i sb w = (r, w') \<Longrightarrow> catalog_step actor w w'"
| step_delete_subject: "delete_subject i w = (r, w') \<Longrightarrow> catalog_step actor w w'"
| step_propose_university:
    "create_university_proposal x ids now n d actor w = (r, w') \<Longrightarrow> catalog_step actor w w'"
| step_propose_faculty:
    "create_faculty_proposal x ids now i n d actor w = (r, w') \<Longrightarrow> catalog_step actor w w'"
| step_propose_subject:
    "create_subject_proposal x ids now i n c d actor w = (r, w') \<Longrightarrow> catalog_step actor w w'"
| step_home_university: "update_home_university now actor i w = (r, w') \<Longrightarrow> catalog_step actor w w'"
| step_approve_university: "approve_university x ids now i actor pl w = (r, w') \<Longrightarrow> catalog_step actor w w'"
| step_approve_faculty: "approve_faculty x ids now i actor pl w = (r, w') \<Longrightarrow> catalog_step actor w w'"
| step_approve_subject: "approve_subject x ids now i actor pl w = (r, w') \<Longrightarrow> catalog_step actor w w'"
| step_map_university: "map_existing_university ids now i actor t n w = (r, w') \<Longrightarrow> catalog_step actor w w'"
| step_map_faculty: "map_existing_faculty ids now i actor t n w = (r, w') \<Longrightarrow> catalog_step actor w w'"
| step_map_subject: "map_existing_subject ids now i actor t n w = (r, w') \<Longrightarrow> catalog_step actor w w'"
| step_reject_university: "reject_university ids now i actor rs n w = (r, w') \<Longrightarrow> catalog_step actor w w'"
| step_reject_faculty: "reject_faculty ids now i actor rs n w = (r, w') \<Longrightarrow> catalog_step actor w w'"
| step_reject_subject: "reject_subject ids now i actor rs n w = (r, w') \<Longrightarrow> catalog_step actor w w'"

text \<open>A change of the catalog that keeps the tables well formed and the decisions as they are.\<close>

lemma catalog_change:
  assumes "op = (r, w')" "catalog_ok (snd op)" "decision ` set (proposals_of (snd op)) \<subseteq> decision ` set (proposals_of w)"
  shows "catalog_ok w' \<and> proposal_change actor w w'"
  using assms decision_subset by simp

lemma step_change:
  assumes "catalog_step actor w w'" "catalog_ok w"
  shows "catalog_ok w' \<and> proposal_change actor w w'"
  using assms(1)
proof (cases rule: catalog_step.cases)
  case step_create_university from catalog_change [OF this, of w actor] show ?thesis
    by (simp add: catalog_operations_ok assms(2) catalog_decisions)
next
  case step_update_university from catalog_change [OF this, of w actor] show ?thesis
    by (simp add: catalog_operations_ok assms(2) catalog_decisions)
next
  case step_delete_university from catalog_change [OF this, of w actor] show ?thesis
    by (simp add: delete_university_ok assms(2) delete_university_decisions)
next
  case step_create_faculty from catalog_change [OF this, of w actor] show ?thesis
    by (simp add: catalog_operations_ok assms(2) catalog_decisions)
next
  case step_update_faculty from catalog_change [OF this, of w actor] show ?thesis
    by (simp add: catalog_operations_ok assms(2) catalog_decisions)
next
  case step_delete_faculty from catalog_change [OF this, of w actor] show ?thesis
    by (simp add: catalog_operations_ok assms(2) deletion_decisions)
next
  case step_create_subject from catalog_change [OF this, of w actor] show ?thesis
    by (simp add: catalog_operations_ok assms(2) catalog_decisions)
next
  case step_update_subject from catalog_change [OF this, of w actor] show ?thesis
    by (simp add: update_subject_ok assms(2) catalog_decisions)
next
  case step_delete_subject from catalog_change [OF this, of w actor] show ?thesis
    by (simp add: catalog_operations_ok assms(2) deletion_decisions)
next
  case step_propose_university then show ?thesis by (rule create_proposals_change [OF assms(2)])
next
  case step_propose_faculty then show ?thesis by (rule create_proposals_change [OF assms(2)])
next
  case step_propose_subject then show ?thesis by (rule create_proposals_change [OF assms(2)])
next
  case step_home_university then show ?thesis by (rule update_home_university_change [OF assms(2)])
next
  case step_approve_university then show ?thesis by (rule approve_university_change [OF assms(2)])
next
  case step_approve_faculty then show ?thesis by (rule approve_faculty_change [OF assms(2)])
next
  case step_approve_subject then show ?thesis by (rule approve_subject_change [OF assms(2)])
next
  case step_map_university then show ?thesis by (rule map_existing_university_change [OF assms(2)])
next
  case step_map_faculty then show ?thesis by (rule map_existing_faculty_change [OF assms(2)])
next
  case step_map_subject then show ?thesis by (rule map_existing_subject_change [OF assms(2)])
next
  case step_reject_university then show ?thesis by (rule reject_changes [OF assms(2)])
next
  case step_reject_faculty then show ?thesis by (rule reject_changes [OF assms(2)])
next
  case step_reject_subject then show ?thesis by (rule reject_changes [OF assms(2)])
qed

inductive catalog_run :: "world \<Rightarrow> (user \<times> world) list \<Rightarrow> world \<Rightarrow> bool" for w0 :: world where
  catalog_start: "catalog_run w0 [] w0"
| catalog_next: "catalog_run w0 xs w \<Longrightarrow> catalog_step actor w w' \<Longrightarrow> catalog_run w0 (xs @ [(actor, w)]) w'"

lemma catalog_run_ok: "catalog_run w0 xs w \<Longrightarrow> catalog_ok w0 \<Longrightarrow> catalog_ok w"
  by (induction rule: catalog_run.induct) (auto dest: step_change)

section \<open>Properties\<close>


text \<open>
  C36. A proposal is decided once, and by somebody entitled to: a proposal that is approved or
  rejected at the end of a run was so, with the same reviewer, moment and note, at its start, or
  at some step a user who was entitled to decide on it found it pending and took that decision.
\<close>

theorem proposal_decided_once:
  assumes "catalog_run w0 xs w" "catalog_ok w0"
    and "p \<in> set (proposals_of w)" "proposal_status_of p \<noteq> ProposalPending"
  shows "(\<exists>p0\<in>set (proposals_of w0). decision p0 = decision p) \<or>
    (\<exists>u v q st now note. (u, v) \<in> set xs \<and> q \<in> set (proposals_of v) \<and>
       proposal_status_of q = ProposalPending \<and> may_decide u q v \<and>
       decision p = decision (reviewed st (u_id u) now note q))"
  using assms
proof (induction arbitrary: p rule: catalog_run.induct)
  case catalog_start
  then show ?case by blast
next
  case (catalog_next xs v actor w)
  have "proposal_change actor v w"
    using step_change [OF catalog_next.hyps(2) catalog_run_ok [OF catalog_next.hyps(1) catalog_next.prems(1)]]
    by blast
  then have "decision p \<in> decision ` set (proposals_of v) \<or>
      proposal_status_of p = ProposalPending \<and> proposal_created_by p = u_id actor \<or> decided actor v w p"
    unfolding proposal_change_def by (rule bspec [OF _ catalog_next.prems(2)])
  with catalog_next.prems(3) have "decision p \<in> decision ` set (proposals_of v) \<or> decided actor v w p"
    by argo
  then show ?case
  proof
    assume "decision p \<in> decision ` set (proposals_of v)"
    then obtain q where q: "q \<in> set (proposals_of v)" and e: "decision p = decision q" by (rule imageE)
    have "proposal_status_of q \<noteq> ProposalPending"
      using catalog_next.prems(3) decision_status [OF e] by simp
    from catalog_next.IH [OF catalog_next.prems(1) q this] show ?thesis
      unfolding e set_append by blast
  next
    assume "decided actor v w p"
    then obtain q now n st where "q \<in> set (proposals_of v)" "proposal_status_of q = ProposalPending"
        "may_decide actor q v" "decision p = decision (reviewed st (u_id actor) now n q)"
      unfolding decided_def by auto
    then have "\<exists>st now note. (actor, v) \<in> set (xs @ [(actor, v)]) \<and> q \<in> set (proposals_of v) \<and>
        proposal_status_of q = ProposalPending \<and> may_decide actor q v \<and>
        decision p = decision (reviewed st (u_id actor) now note q)" by auto
    then show ?thesis by blast
  qed
qed

section \<open>The tree\<close>

lemma group_by_filter: "group_by key rows k = filter (\<lambda>r. key r = k) rows"
  by (induction rows rule: rev_induct) (auto simp: group_by_def)

lemma mset_grouped:
  assumes "distinct (map k us)" "key ` set rows \<subseteq> k ` set us"
  shows "mset (concat (map (\<lambda>u. filter (\<lambda>r. key r = k u) rows) us)) = mset rows"
  using assms(2)
proof (induction rows)
  case (Cons r rows)
  have one: "(\<Sum>u\<leftarrow>us. if key r = k u then {#r#} else {#}) = {#r#}" if "key r \<in> k ` set us"
    using assms(1) that
  proof (induction us)
    case (Cons u us)
    have "(\<Sum>u\<leftarrow>us. if key r = k u then {#r#} else {#}) = {#}" if "key r \<notin> k ` set us"
      using that by (induction us) auto
    with Cons show ?case by auto
  qed simp
  have "mset (concat (map (\<lambda>u. filter (\<lambda>q. key q = k u) (r # rows)) us)) =
      (\<Sum>u\<leftarrow>us. (if key r = k u then {#r#} else {#}) + mset (filter (\<lambda>q. key q = k u) rows))"
    unfolding mset_concat map_map by (intro arg_cong [where f = sum_list] map_cong) simp_all
  also have "\<dots> = {#r#} + mset (concat (map (\<lambda>u. filter (\<lambda>q. key q = k u) rows) us))"
    using one Cons.prems by (simp add: sum_list_addf mset_concat o_def)
  finally show ?case using Cons by simp
qed (simp add: mset_concat o_def)

text \<open>The faculties and the subjects of a tree, from left to right.\<close>

definition tree_faculties :: "university_tree list \<Rightarrow> faculty_tree list" where
  "tree_faculties t = concat (map ut_faculties t)"

definition tree_subjects :: "university_tree list \<Rightarrow> subject list" where
  "tree_subjects t = concat (map ft_subjects (tree_faculties t))"

lemma mset_order_by [simp]: "mset (order_by k rows) = mset rows"
  by (simp add: order_by_def)

lemma tree_nodes:
  fixes w :: world
  defines "nodes \<equiv> map (\<lambda>f. \<lparr>ft_faculty = f, ft_subjects =
      filter (\<lambda>s. su_faculty_id s = fa_id f) (order_by su_name (db_subjects w))\<rparr>) (order_by fa_name (db_faculties w))"
  shows "list_university_tree w = map (\<lambda>u. \<lparr>ut_university = u,
      ut_faculties = filter (\<lambda>t. fa_university_id (ft_faculty t) = un_id u) nodes\<rparr>) (order_by un_name (db_universities w))"
  by (simp add: list_university_tree_def group_by_filter Let_def nodes_def)

lemma concat_mset_cong: "mset xs = mset ys \<Longrightarrow> mset (concat (map f xs)) = mset (concat (map f ys))"
  unfolding mset_concat map_map by (metis mset_map sum_mset_sum_list)

text \<open>
  C38. The tree of the catalog shows every university, every faculty and every subject exactly
  once, each faculty under its university and each subject under its faculty.
\<close>

theorem tree_is_the_catalog:
  assumes "catalog_ok w"
  shows "map ut_university (list_university_tree w) = list_universities w \<and>
    mset (map ft_faculty (tree_faculties (list_university_tree w))) = mset (db_faculties w) \<and>
    mset (tree_subjects (list_university_tree w)) = mset (db_subjects w) \<and>
    list_all (\<lambda>u. list_all (\<lambda>f. fa_university_id (ft_faculty f) = un_id (ut_university u) \<and>
      list_all (\<lambda>s. su_faculty_id s = fa_id (ft_faculty f)) (ft_subjects f)) (ut_faculties u))
      (list_university_tree w)"
proof -
  let ?us = "order_by un_name (db_universities w)"
  let ?ss = "order_by su_name (db_subjects w)"
  define nodes where "nodes = map (\<lambda>f. \<lparr>ft_faculty = f,
    ft_subjects = filter (\<lambda>s. su_faculty_id s = fa_id f) ?ss\<rparr>) (order_by fa_name (db_faculties w))"
  have tree: "list_university_tree w = map (\<lambda>u. \<lparr>ut_university = u,
      ut_faculties = filter (\<lambda>t. fa_university_id (ft_faculty t) = un_id u) nodes\<rparr>) ?us"
    unfolding nodes_def by (rule tree_nodes)
  have dist: "distinct (map un_id ?us)" "distinct (map fa_id (order_by fa_name (db_faculties w)))"
    using assms by (simp_all add: catalog_ok_def Let_def order_by_def distinct_map)
  have refs: "(fa_university_id \<circ> ft_faculty) ` set nodes \<subseteq> un_id ` set ?us"
      "su_faculty_id ` set ?ss \<subseteq> fa_id ` set (order_by fa_name (db_faculties w))"
    using assms by (auto simp: catalog_ok_def Let_def refer_def ids_of_def nodes_def)
  have faculties: "mset (tree_faculties (list_university_tree w)) = mset nodes"
    using mset_grouped [OF dist(1) refs(1)] by (simp add: tree_faculties_def tree o_def)
  then have "mset (map ft_faculty (tree_faculties (list_university_tree w))) = mset (map ft_faculty nodes)"
    by (metis mset_map)
  also have "\<dots> = mset (db_faculties w)" by (simp add: nodes_def o_def)
  finally have 1: "mset (map ft_faculty (tree_faculties (list_university_tree w))) = mset (db_faculties w)" .
  have "mset (tree_subjects (list_university_tree w)) = mset (concat (map ft_subjects nodes))"
    unfolding tree_subjects_def by (rule concat_mset_cong [OF faculties])
  also have "\<dots> = mset (db_subjects w)"
    using mset_grouped [OF dist(2) refs(2)] by (simp add: nodes_def o_def)
  finally have 2: "mset (tree_subjects (list_university_tree w)) = mset (db_subjects w)" .
  have "map ut_university (list_university_tree w) = list_universities w"
    by (simp add: tree list_universities_def o_def)
  moreover have "list_all (\<lambda>u. list_all (\<lambda>f. fa_university_id (ft_faculty f) = un_id (ut_university u) \<and>
      list_all (\<lambda>s. su_faculty_id s = fa_id (ft_faculty f)) (ft_subjects f)) (ut_faculties u))
      (list_university_tree w)"
    by (auto simp: tree nodes_def list_all_iff)
  ultimately show ?thesis using 1 2 by blast
qed

section \<open>Who is told of a proposal\<close>

fun listed :: "user \<Rightarrow> proposal \<Rightarrow> world \<Rightarrow> bool" where
  "listed u (UniversityProposal p) w \<longleftrightarrow>
     (case list_pending_university_proposals u w of Inl _ \<Rightarrow> False | Inr ps \<Rightarrow> p \<in> set ps)"
| "listed u (FacultyProposal p) w \<longleftrightarrow> p \<in> set (list_pending_faculty_proposals u w)"
| "listed u (SubjectProposal p) w \<longleftrightarrow> p \<in> set (list_pending_subject_proposals u w)"

lemma scope_members:
  "u_id u \<in> set (university_scope_users i w) \<longleftrightarrow> i \<in> set (university_scope_ids (u_id u) w)"
  "u_id u \<in> set (faculty_scope_users i w) \<longleftrightarrow> i \<in> set (faculty_scope_ids (u_id u) w)"
  "u_id u \<in> set (subject_scope_users i w) \<longleftrightarrow> i \<in> set (subject_scope_ids (u_id u) w)"
  by (simp_all add: in_scope_users in_scope_ids)

lemma is_admin [simp]: "role_value r = ''admin'' \<longleftrightarrow> r = ADMIN"
  by (cases r) simp_all

text \<open>
  C37. The list of pending proposals and the events agree: who is told of a new proposal are
  exactly the active users who find it in their list, and everybody who may decide on a
  proposal finds it there.
\<close>

theorem told_of_proposal_iff_listed:
  assumes "catalog_ok w" "distinct (map u_id (db_users w))" "u \<in> set (db_users w)"
    and "p \<in> set (proposals_of w)" "proposal_status_of p = ProposalPending"
  shows "(u \<in> set (resolve_proposal_recipients p w) \<longleftrightarrow> u_is_active u \<and> listed u p w) \<and>
    (may_decide u p w \<longrightarrow> listed u p w)"
proof (cases p)
  case (UniversityProposal up)
  then have "up \<in> set (db_university_proposals w)" "up_status up = ProposalPending"
    using assms(4,5) by (auto simp: proposals_of_def)
  with UniversityProposal show ?thesis
    using assms(3) admin_ids [OF assms(2,3)]
    by (auto simp: in_load_users list_pending_university_proposals_def require_admin_def)
next
  case (FacultyProposal fp)
  then have fp: "fp \<in> set (db_faculty_proposals w)" "fp_status fp = ProposalPending"
    using assms(4,5) by (auto simp: proposals_of_def)
  let ?su = "fp_university_id fp \<in> set (university_scope_ids (u_id u) w)"
  let ?sf = "\<exists>f\<in>set (db_faculties w). fa_university_id f = fp_university_id fp \<and>
    fa_id f \<in> set (faculty_scope_ids (u_id u) w)"
  have "listed u p w \<longleftrightarrow> u_role u = ADMIN \<or> ?su \<or> ?sf"
    using FacultyProposal fp
    by (auto simp: list_pending_faculty_proposals_def scope_ids_def Let_def image_iff)
  moreover have "u \<in> set (resolve_proposal_recipients p w) \<longleftrightarrow> u_is_active u \<and> (u_role u = ADMIN \<or> ?su \<or> ?sf)"
    using FacultyProposal assms(3) admin_ids [OF assms(2,3)]
    by (auto simp: in_load_users scope_members)
  moreover have "may_decide u p w \<Longrightarrow> u_role u = ADMIN \<or> ?su"
    using FacultyProposal by (auto simp: assert_faculty_proposal_scope_def scope_ids_def split: if_splits)
  ultimately show ?thesis by blast
next
  case (SubjectProposal sp)
  then have sp: "sp \<in> set (db_subject_proposals w)" "sp_status sp = ProposalPending"
    using assms(4,5) by (auto simp: proposals_of_def)
  then obtain f where f: "get_faculty (sp_faculty_id sp) w = Some f"
    using assms(1) getters_in(2) [of "sp_faculty_id sp" w] by (auto simp: catalog_ok_def Let_def refer_def)
  let ?su = "fa_university_id f \<in> set (university_scope_ids (u_id u) w)"
  let ?sf = "sp_faculty_id sp \<in> set (faculty_scope_ids (u_id u) w)"
  let ?ss = "\<exists>s\<in>set (db_subjects w). su_faculty_id s = sp_faculty_id sp \<and>
    su_id s \<in> set (subject_scope_ids (u_id u) w)"
  have "listed u p w \<longleftrightarrow> u_role u = ADMIN \<or> ?su \<or> ?sf \<or> ?ss"
    using SubjectProposal sp f
    by (auto simp: list_pending_subject_proposals_def scope_ids_def Let_def image_iff)
  moreover have "u \<in> set (resolve_proposal_recipients p w) \<longleftrightarrow>
      u_is_active u \<and> (u_role u = ADMIN \<or> ?su \<or> ?sf \<or> ?ss)"
    using SubjectProposal f assms(3) admin_ids [OF assms(2,3)]
    by (auto simp: in_load_users scope_members)
  moreover have "may_decide u p w \<Longrightarrow> u_role u = ADMIN \<or> ?su \<or> ?sf \<or> ?ss"
    using SubjectProposal f
    by (auto simp: assert_subject_proposal_scope_def scope_ids_def Let_def is_ok_iff scalar_one_or_none_def
        filter_empty_conv dest!: filter_eq_ConsD split: if_splits sum.splits list.splits)
  ultimately show ?thesis by blast
qed

section \<open>Defects in small worlds\<close>

text \<open>A moderator of a faculty, and of both subjects of it.\<close>

definition sample_moderator :: user where
  "sample_moderator = sample_admin\<lparr>u_id := ''mo'', u_email := ''mo@b'', u_role := MODERATOR\<rparr>"

definition moderated_library :: world where
  "moderated_library = sample_library\<lparr>
     db_users := [sample_admin, sample_owner, sample_moderator],
     db_subjects := [sample_subject, sample_subject\<lparr>su_id := ''s2'', su_slug := ''geometry''\<rparr>],
     db_moderator_faculty_scopes := [\<lparr>mfs_id = ''k1'', mfs_user_id = ''mo'', mfs_faculty_id = ''f1''\<rparr>]\<rparr>"

definition proposed_library :: world where
  "proposed_library = snd (create_faculty_proposal reference_externals sample_ids 5 ''v1'' ''Physics'' None
     sample_owner moderated_library)"

text \<open>A moderator of a faculty is told of proposals for its university, but may not decide on them.\<close>

lemma faculty_moderator_cannot_decide:
  "list_all (\<lambda>p. fp_status p = ProposalPending \<and> p \<in> set (list_pending_faculty_proposals sample_moderator proposed_library) \<and>
      sample_moderator \<in> set (resolve_proposal_recipients (FacultyProposal p) proposed_library) \<and>
      \<not> may_decide sample_moderator (FacultyProposal p) proposed_library) (db_faculty_proposals proposed_library) \<and>
   db_faculty_proposals proposed_library \<noteq> []"
  by code_simp

text \<open>A moderator of two subjects of a faculty gets an internal error on its subject proposals.\<close>

definition two_subjects_world :: world where
  "two_subjects_world = moderated_library\<lparr>db_moderator_faculty_scopes := [],
     db_moderator_subject_scopes := [\<lparr>mss_id = ''k1'', mss_user_id = ''mo'', mss_subject_id = ''s1''\<rparr>,
       \<lparr>mss_id = ''k2'', mss_user_id = ''mo'', mss_subject_id = ''s2''\<rparr>]\<rparr>"

lemma two_subject_scopes_crash:
  "fst (create_subject_proposal reference_externals sample_ids 5 ''f1'' ''Logic'' None None sample_owner
     two_subjects_world) = Inr (SubjectProposal p) \<Longrightarrow>
   assert_subject_proposal_scope sample_moderator p two_subjects_world = Inl MultipleResultsFound"
proof -
  assume "fst (create_subject_proposal reference_externals sample_ids 5 ''f1'' ''Logic'' None None sample_owner
     two_subjects_world) = Inr (SubjectProposal p)"
  then have "sp_faculty_id p = ''f1''"
    by (auto simp: create_subject_proposal_def submit_proposal_def Let_def split: sum.splits prod.splits)
  moreover have "get_faculty ''f1'' two_subjects_world = Some sample_faculty"
    by (simp add: lookups two_subjects_world_def moderated_library_def sample_library_def sample_faculty_def)
  ultimately show ?thesis
    by (simp add: assert_subject_proposal_scope_def scope_ids_def university_scope_ids_def
        faculty_scope_ids_def subject_scope_ids_def two_subjects_world_def moderated_library_def
        sample_library_def sample_moderator_def sample_admin_def sample_faculty_def sample_subject_def
        scalar_one_or_none_def)
qed

text \<open>Giving a subject the slug of a sibling is an internal error, not the conflict it should be.\<close>

lemma taken_subject_slug_crashes:
  "fst (update_subject reference_externals ''s2'' \<lparr>sb_faculty_id = None, sb_name = None,
     sb_slug = Some (Some ''algebra''), sb_code = None, sb_description = None\<rparr>
     (moderated_library\<lparr>db_subjects := [sample_subject,
        sample_subject\<lparr>su_id := ''s2'', su_name := ''Geometry'', su_slug := ''geometry''\<rparr>]\<rparr>)) = Inl IntegrityError"
  by code_simp

section \<open>Witnesses\<close>

definition decided_library :: world where
  "decided_library = snd (approve_faculty reference_externals (\<lambda>n. CHR ''j'' # sample_ids n) 9 (sample_ids 0)
     sample_admin \<lparr>pa_canonical_name = None, pa_canonical_slug = None, pa_canonical_description = None,
       pa_canonical_code = None, pa_note = None\<rparr> proposed_library)"

lemma moderated_library_ok: "catalog_ok moderated_library"
  by (simp add: catalog_ok_def moderated_library_def sample_library_def sample_university_def
      sample_faculty_def sample_subject_def sample_material_def new_material_def sample_owner_def
      sample_moderator_def sample_admin_def refer_def ids_of_def Let_def)

lemma sample_catalog_run:
  "catalog_run moderated_library [(sample_owner, moderated_library), (sample_admin, proposed_library)] decided_library"
proof -
  have "catalog_step sample_owner moderated_library proposed_library"
    unfolding proposed_library_def by (rule step_propose_faculty [OF surjective_pairing])
  from catalog_next [OF catalog_start this]
  have "catalog_run moderated_library [(sample_owner, moderated_library)] proposed_library" by simp
  moreover have "catalog_step sample_admin proposed_library decided_library"
    unfolding decided_library_def by (rule step_approve_faculty [OF surjective_pairing])
  ultimately show ?thesis using catalog_next by fastforce
qed


lemma decided_library_faculties: "map fa_name (db_faculties decided_library) = [''Maths'', ''Physics'']"
  by code_simp

lemma decided_library_proposals:
  "list_ex (\<lambda>p. proposal_status_of p = ProposalApproved) (proposals_of decided_library)"
  by code_simp

lemma no_proposals_at_first: "proposals_of moderated_library = []"
  by code_simp

lemma proposal_decided_once_witness:
  "\<exists>u v q. (u, v) \<in> set [(sample_owner, moderated_library), (sample_admin, proposed_library)] \<and>
     proposal_status_of q = ProposalPending \<and> may_decide u q v"
proof -
  obtain p where "p \<in> set (proposals_of decided_library)" "proposal_status_of p \<noteq> ProposalPending"
    using decided_library_proposals by (auto simp: list_ex_iff)
  from proposal_decided_once [OF sample_catalog_run moderated_library_ok this] show ?thesis
    unfolding no_proposals_at_first by simp blast
qed

lemma tree_is_the_catalog_witness:
  "mset (tree_subjects (list_university_tree moderated_library)) = mset (db_subjects moderated_library)"
  using tree_is_the_catalog [OF moderated_library_ok] by blast

lemma proposed_library_ok: "catalog_ok proposed_library"
proof -
  have "catalog_step sample_owner moderated_library proposed_library"
    unfolding proposed_library_def by (rule step_propose_faculty [OF surjective_pairing])
  from step_change [OF this moderated_library_ok] show ?thesis by blast
qed

lemma proposed_library_users: "db_users proposed_library = [sample_admin, sample_owner, sample_moderator]"
  by code_simp

lemma proposed_library_pending:
  "\<exists>p. p \<in> set (proposals_of proposed_library) \<and> proposal_status_of p = ProposalPending"
proof -
  have "list_ex (\<lambda>p. proposal_status_of p = ProposalPending) (proposals_of proposed_library)" by code_simp
  then show ?thesis by (auto simp: list_ex_iff)
qed

lemma told_of_proposal_iff_listed_witness:
  "\<exists>p. p \<in> set (proposals_of proposed_library) \<and>
     sample_moderator \<in> set (resolve_proposal_recipients p proposed_library) = listed sample_moderator p proposed_library"
proof -
  obtain p where p: "p \<in> set (proposals_of proposed_library)" "proposal_status_of p = ProposalPending"
    using proposed_library_pending by blast
  have "distinct (map u_id (db_users proposed_library))" "sample_moderator \<in> set (db_users proposed_library)"
    by (simp_all add: proposed_library_users sample_admin_def sample_owner_def sample_moderator_def)
  from told_of_proposal_iff_listed [OF proposed_library_ok this p] p(1) show ?thesis
    by (auto simp: sample_moderator_def sample_admin_def)
qed

end
