(* ===== verification/TelegramLinkFacts.thy ===== *)
theory TelegramLinkFacts
  imports TelegramLink CatalogRuns
begin

text \<open>
  What holds of the links to Telegram accounts in any sequence of requests: they are one to one,
  each goes back to a session that the owner of the account created, and no session is used
  twice. Moderation through the bot is moderation by the account that is linked.
\<close>

section \<open>The tables of the links\<close>

definition links_ok :: "world \<Rightarrow> bool" where
  "links_ok w \<longleftrightarrow>
     distinct (map tl_id (db_telegram_links w)) \<and>
     distinct (map tl_user_id (db_telegram_links w)) \<and>
     distinct (map tl_telegram_user_id (db_telegram_links w)) \<and>
     distinct (map ts_id (db_telegram_link_sessions w))"

text \<open>Which accounts are linked to which, and the sessions that have been used.\<close>

definition active_pairs :: "telegram_link list \<Rightarrow> (string \<times> int) set" where
  "active_pairs ls = (\<lambda>l. (tl_user_id l, tl_telegram_user_id l)) ` {l \<in> set ls. tl_is_active l}"

definition used_sessions :: "world \<Rightarrow> string set" where
  "used_sessions w = ts_id ` {s \<in> set (db_telegram_link_sessions w). ts_used_at s \<noteq> None}"

definition links_unique :: "telegram_link list \<Rightarrow> bool" where
  "links_unique ls \<longleftrightarrow> distinct (map tl_id ls) \<and> distinct (map tl_user_id ls) \<and>
     distinct (map tl_telegram_user_id ls)"

lemma links_ok_alt:
  "links_ok w \<longleftrightarrow> links_unique (db_telegram_links w) \<and> distinct (map ts_id (db_telegram_link_sessions w))"
  by (auto simp: links_ok_def links_unique_def)

lemma linked_simps [simp]:
  "tl_id (linked tg user now l) = tl_id l" "tl_user_id (linked tg user now l) = u_id user"
  "tl_telegram_user_id (linked tg user now l) = tg_user_id tg" "tl_is_active (linked tg user now l)"
  by (simp_all add: linked_def)

lemma only_match:
  assumes "filter P rows = [x]"
  shows "x \<in> set rows \<and> P x \<and> (\<forall>q\<in>set rows. P q \<longrightarrow> q = x)"
proof -
  have "set (filter P rows) = {x}" by (simp add: assms)
  then show ?thesis by auto
qed

lemma store_linked:
  assumes "links_unique ls" "l \<in> set ls"
    and "\<And>q. q \<in> set ls \<Longrightarrow> tl_id q \<noteq> tl_id l \<Longrightarrow> tl_user_id q \<noteq> u_id user \<and> tl_telegram_user_id q \<noteq> tg_user_id tg"
  shows "links_unique (store_row tl_id (linked tg user now l) ls) \<and>
    active_pairs (store_row tl_id (linked tg user now l) ls) \<subseteq> insert (u_id user, tg_user_id tg) (active_pairs ls)"
proof -
  have "distinct (map tl_user_id (store_row tl_id (linked tg user now l) ls))"
      "distinct (map tl_telegram_user_id (store_row tl_id (linked tg user now l) ls))"
    using assms by (auto simp: links_unique_def intro!: distinct_store_row)
  moreover have "distinct (map tl_id (store_row tl_id (linked tg user now l) ls))"
    using assms(1) by (simp add: links_unique_def map_store_row)
  moreover have "active_pairs (store_row tl_id (linked tg user now l) ls) \<subseteq>
      insert (u_id user, tg_user_id tg) (active_pairs ls)"
    by (auto simp: active_pairs_def store_row_def in_update_where)
  ultimately show ?thesis by (simp add: links_unique_def)
qed

text \<open>Whatever rows there are for the two accounts, the new link is the only one of either.\<close>

lemma save_resolved:
  assumes u: "links_unique (db_telegram_links w)"
    and ul: "get_link_by_user_id (u_id user) w = Inr user_link"
    and tl: "get_link_by_telegram_user_id (tg_user_id tg) w = Inr telegram_link"
    and fresh: "ids 0 \<notin> tl_id ` set (db_telegram_links w)"
    and w1: "resolve_link_record user_link telegram_link w = (existing, w1)"
    and w2: "save_link ids now tg user existing w1 = (l, w2)"
  shows "links_unique (db_telegram_links w2) \<and>
    active_pairs (db_telegram_links w2) \<subseteq> insert (u_id user, tg_user_id tg) (active_pairs (db_telegram_links w)) \<and>
    db_telegram_link_sessions w2 = db_telegram_link_sessions w"
proof -
  let ?ls = "db_telegram_links w"
  have no_user: "user_link = None \<Longrightarrow> q \<in> set ?ls \<Longrightarrow> tl_user_id q \<noteq> u_id user" for q
    using ul by (auto simp: get_link_by_user_id_def scalar_one_or_none_None filter_empty_conv)
  have no_tg: "telegram_link = None \<Longrightarrow> q \<in> set ?ls \<Longrightarrow> tl_telegram_user_id q \<noteq> tg_user_id tg" for q
    using tl by (auto simp: get_link_by_telegram_user_id_def scalar_one_or_none_None filter_empty_conv)
  have the_user: "ul \<in> set ?ls \<and> tl_user_id ul = u_id user \<and>
      (\<forall>q\<in>set ?ls. tl_id q \<noteq> tl_id ul \<longrightarrow> tl_user_id q \<noteq> u_id user)" if "user_link = Some ul" for ul
    using only_match [of "\<lambda>l. tl_user_id l = u_id user" ?ls ul] ul that
    by (auto simp: get_link_by_user_id_def scalar_one_or_none_Some)
  have the_tg: "gl \<in> set ?ls \<and> tl_telegram_user_id gl = tg_user_id tg \<and>
      (\<forall>q\<in>set ?ls. tl_id q \<noteq> tl_id gl \<longrightarrow> tl_telegram_user_id q \<noteq> tg_user_id tg)" if "telegram_link = Some gl" for gl
    using only_match [of "\<lambda>l. tl_telegram_user_id l = tg_user_id tg" ?ls gl] tl that
    by (auto simp: get_link_by_telegram_user_id_def scalar_one_or_none_Some)
  show ?thesis
  proof (cases user_link; cases telegram_link)
    assume n: "user_link = None" "telegram_link = None"
    then have "existing = None" "w1 = w" using w1 by (simp_all add: resolve_link_record_def)
    then have w2': "db_telegram_links w2 = ?ls @ [l]" "tl_id l = ids 0" "tl_user_id l = u_id user"
        "tl_telegram_user_id l = tg_user_id tg" "db_telegram_link_sessions w2 = db_telegram_link_sessions w"
      using w2 by (auto simp: save_link_def Let_def)
    have "links_unique (?ls @ [l])"
      using u fresh no_user [OF n(1)] no_tg [OF n(2)] w2' unfolding links_unique_def distinct_snoc list_all_iff
      by (auto simp: image_iff)
    with w2' show ?thesis by (auto simp: active_pairs_def)
  next
    fix gl assume n: "user_link = None" "telegram_link = Some gl"
    then have "existing = Some gl" "w1 = w" using w1 by (simp_all add: resolve_link_record_def)
    then have "db_telegram_links w2 = store_row tl_id (linked tg user now gl) ?ls"
        "db_telegram_link_sessions w2 = db_telegram_link_sessions w"
      using w2 by (auto simp: save_link_def Let_def)
    with store_linked [OF u, of gl user tg now] the_tg [OF n(2)] no_user [OF n(1)] show ?thesis by simp
  next
    fix ul assume n: "user_link = Some ul" "telegram_link = None"
    then have "existing = Some ul" "w1 = w" using w1 by (simp_all add: resolve_link_record_def)
    then have "db_telegram_links w2 = store_row tl_id (linked tg user now ul) ?ls"
        "db_telegram_link_sessions w2 = db_telegram_link_sessions w"
      using w2 by (auto simp: save_link_def Let_def)
    with store_linked [OF u, of ul user tg now] the_user [OF n(1)] no_tg [OF n(2)] show ?thesis by simp
  next
    fix ul gl assume n: "user_link = Some ul" "telegram_link = Some gl"
    let ?rest = "if tl_id ul = tl_id gl then ?ls else delete_where (\<lambda>l. tl_id l = tl_id gl) ?ls"
    have w2': "db_telegram_links w2 = store_row tl_id (linked tg user now ul) ?rest"
        "db_telegram_link_sessions w2 = db_telegram_link_sessions w"
      using w1 w2 n by (auto simp: resolve_link_record_def save_link_def Let_def split: if_splits)
    have "links_unique ?rest" using u by (auto simp: links_unique_def distinct_map_delete_where)
    moreover have "ul \<in> set ?rest" using the_user [OF n(1)] by (auto simp: in_delete_where)
    moreover have "tl_user_id q \<noteq> u_id user \<and> tl_telegram_user_id q \<noteq> tg_user_id tg"
      if "q \<in> set ?rest" "tl_id q \<noteq> tl_id ul" for q
      using that the_user [OF n(1)] the_tg [OF n(2)] by (auto simp: in_delete_where split: if_splits)
    moreover have "active_pairs ?rest \<subseteq> active_pairs ?ls" by (auto simp: active_pairs_def in_delete_where)
    ultimately show ?thesis using store_linked [of ?rest ul user tg now] w2' by auto
  qed
qed


section \<open>Sessions\<close>

text \<open>No session goes, changes its owner or becomes unused again.\<close>

definition sessions_kept :: "world \<Rightarrow> world \<Rightarrow> bool" where
  "sessions_kept w w' \<longleftrightarrow>
     (\<forall>s\<in>set (db_telegram_link_sessions w). \<exists>s'\<in>set (db_telegram_link_sessions w').
        ts_id s' = ts_id s \<and> ts_user_id s' = ts_user_id s \<and> (ts_used_at s \<noteq> None \<longrightarrow> ts_used_at s' \<noteq> None))"

text \<open>The consent to a link: a session of the account that was not used before, and is now.\<close>

definition consented :: "world \<Rightarrow> world \<Rightarrow> string \<Rightarrow> bool" where
  "consented w w' uid \<longleftrightarrow>
     (\<exists>s\<in>set (db_telegram_link_sessions w'). ts_user_id s = uid \<and> ts_used_at s \<noteq> None \<and>
        ts_id s \<notin> used_sessions w)"

definition link_change :: "world \<Rightarrow> world \<Rightarrow> bool" where
  "link_change w w' \<longleftrightarrow> links_ok w' \<and> sessions_kept w w' \<and>
     (\<forall>(uid, tid)\<in>active_pairs (db_telegram_links w') - active_pairs (db_telegram_links w).
        consented w w' uid)"

lemma sessions_kept_refl [simp]: "sessions_kept w w"
  by (auto simp: sessions_kept_def)

lemma sessions_kept_trans: "sessions_kept w w1 \<Longrightarrow> sessions_kept w1 w2 \<Longrightarrow> sessions_kept w w2"
  unfolding sessions_kept_def by (metis (no_types, lifting))

lemma sessions_kept_eq:
  "db_telegram_link_sessions w1 = db_telegram_link_sessions w2 \<Longrightarrow> sessions_kept w w1 = sessions_kept w w2"
  by (simp add: sessions_kept_def)

lemma used_sessions_mono: "sessions_kept w w' \<Longrightarrow> used_sessions w \<subseteq> used_sessions w'"
  unfolding sessions_kept_def used_sessions_def by (fastforce simp: image_iff)

lemma link_change_refl: "links_ok w \<Longrightarrow> link_change w w"
  by (simp add: link_change_def)

text \<open>A change of one session, whose row was read from the table.\<close>

lemma store_session_kept:
  assumes "distinct (map ts_id (db_telegram_link_sessions w))" "s \<in> set (db_telegram_link_sessions w)"
    and "ts_id s' = ts_id s" "ts_user_id s' = ts_user_id s" "ts_used_at s \<noteq> None \<longrightarrow> ts_used_at s' \<noteq> None"
  shows "sessions_kept w (store_session s' w)"
    "distinct (map ts_id (db_telegram_link_sessions (store_session s' w)))"
    "s' \<in> set (db_telegram_link_sessions (store_session s' w))"
proof -
  let ?rows = "db_telegram_link_sessions w"
  show "distinct (map ts_id (db_telegram_link_sessions (store_session s' w)))"
    using assms(1) by (simp add: store_session_def map_store_row)
  show new: "s' \<in> set (db_telegram_link_sessions (store_session s' w))"
    using assms(2,3) by (auto simp: store_session_def store_row_def in_update_where)
  have "\<exists>q'\<in>set (store_row ts_id s' ?rows). ts_id q' = ts_id q \<and> ts_user_id q' = ts_user_id q \<and>
      (ts_used_at q \<noteq> None \<longrightarrow> ts_used_at q' \<noteq> None)" if q: "q \<in> set ?rows" for q
  proof (cases "ts_id q = ts_id s")
    case True
    then have "q = s" using distinct_map_keyed [OF assms(1)] q assms(2) by blast
    then show ?thesis using new assms(3-5) by (auto simp: store_session_def)
  next
    case False
    then have "q \<in> set (store_row ts_id s' ?rows)"
      using q assms(3) by (auto simp: store_row_def in_update_where)
    then show ?thesis by blast
  qed
  then show "sessions_kept w (store_session s' w)"
    by (simp add: sessions_kept_def store_session_def)
qed

lemma session_found:
  "get_session_by_token x t w = Inr (Some s) \<Longrightarrow> s \<in> set (db_telegram_link_sessions w)"
  "get_session_by_code x c w = Inr (Some s) \<Longrightarrow> s \<in> set (db_telegram_link_sessions w)"
  by (auto simp: get_session_by_token_def get_session_by_code_def scalar_one_or_none_Some dest!: only_match)

section \<open>One operation\<close>

lemma create_link_session_change:
  assumes ok: "links_ok w" and c: "create_link_session x st ids now user w = (r, w')"
  shows "link_change w w'"
proof -
  let ?f = "\<lambda>s. s\<lparr>ts_is_active := False, ts_revoked_at := Some now\<rparr>"
  define rows where
    "rows = update_where (\<lambda>s. ts_user_id s = u_id user \<and> ts_is_active s) ?f (db_telegram_link_sessions w)"
  have revoked: "db_telegram_link_sessions (revoke_link_sessions now (u_id user) w) = rows"
      "db_telegram_links (revoke_link_sessions now (u_id user) w) = db_telegram_links w"
    by (simp_all add: revoke_link_sessions_def rows_def)
  have "w' = w \<or> (\<exists>s. db_telegram_link_sessions w' = rows @ [s] \<and> (\<forall>r\<in>set rows. ts_id r \<noteq> ts_id s) \<and>
      db_telegram_links w' = db_telegram_links w)"
    using c unfolding create_link_session_def Let_def
    by (auto simp: revoked list_ex_iff audit_def split: if_splits sum.splits)
  then show ?thesis
  proof
    assume "\<exists>s. db_telegram_link_sessions w' = rows @ [s] \<and> (\<forall>r\<in>set rows. ts_id r \<noteq> ts_id s) \<and>
      db_telegram_links w' = db_telegram_links w"
    then obtain s where s: "db_telegram_link_sessions w' = rows @ [s]" "\<forall>r\<in>set rows. ts_id r \<noteq> ts_id s"
      "db_telegram_links w' = db_telegram_links w" by blast
    have "distinct (map ts_id rows)" using ok by (simp add: links_ok_def map_update_where rows_def)
    with s ok have "links_ok w'" by (auto simp: links_ok_def)
    moreover have "sessions_kept w w'"
    proof -
      have "\<exists>q'\<in>set rows. ts_id q' = ts_id q \<and> ts_user_id q' = ts_user_id q \<and> ts_used_at q' = ts_used_at q"
        if "q \<in> set (db_telegram_link_sessions w)" for q
        using that by (intro bexI [of _ "if ts_user_id q = u_id user \<and> ts_is_active q then ?f q else q"])
          (auto simp: rows_def set_update_where)
      then show ?thesis unfolding sessions_kept_def s(1) set_append by (metis UnI1)
    qed
    ultimately show ?thesis using s(3) by (simp add: link_change_def)
  qed (use ok in \<open>simp add: link_change_refl\<close>)
qed

lemma link_accounts_change:
  assumes ok: "links_ok w" and s: "s \<in> set (db_telegram_link_sessions w)" "ts_used_at s = None" "ts_user_id s = u_id user"
    and ul: "get_link_by_user_id (u_id user) w = Inr user_link"
    and gl: "get_link_by_telegram_user_id (tg_user_id tg) w = Inr telegram_link"
    and fresh: "ids 0 \<notin> tl_id ` set (db_telegram_links w)"
    and c: "link_accounts ids now s tg user user_link telegram_link w = (r, w')"
  shows "link_change w w'"
proof -
  obtain existing w1 where w1: "resolve_link_record user_link telegram_link w = (existing, w1)" by fastforce
  obtain l w2 where w2: "save_link ids now tg user existing w1 = (l, w2)" by fastforce
  let ?s = "s\<lparr>ts_used_at := Some now, ts_is_active := False\<rparr>"
  have u: "links_unique (db_telegram_links w)" and d: "distinct (map ts_id (db_telegram_link_sessions w))"
    using ok by (simp_all add: links_ok_alt)
  note saved = save_resolved [OF u ul gl fresh w1 w2]
  let ?w4 = "audit (ids 1) now ''telegram_linked'' ''telegram_link'' (Some user) (map_option tl_id existing)
      (Some (str_int (tg_user_id tg))) (store_session ?s w2)"
  let ?e = "enqueue_telegram_account_linked_events ids 4 now user l ?w4"
  have only: "only_events ?w4 (snd ?e)"
    unfolding enqueue_telegram_account_linked_events_def by (rule create_events_only)
  have cases: "w' = w \<or> w' = snd ?e"
    using c by (auto simp: link_accounts_def w1 w2 Let_def split: prod.splits sum.splits)
  have tables: "db_telegram_links (snd ?e) = db_telegram_links w2"
      "db_telegram_link_sessions (snd ?e) = db_telegram_link_sessions (store_session ?s w)"
    using only saved by (auto simp: only_events_def audit_def store_session_def)
  have kept: "sessions_kept w (store_session ?s w)"
      "distinct (map ts_id (db_telegram_link_sessions (store_session ?s w)))"
      "?s \<in> set (db_telegram_link_sessions (store_session ?s w))"
    using store_session_kept [OF d s(1), of ?s] by simp_all
  have "ts_id s \<notin> used_sessions w"
  proof
    assume "ts_id s \<in> used_sessions w"
    then obtain q where q: "q \<in> set (db_telegram_link_sessions w)" "ts_used_at q \<noteq> None" "ts_id q = ts_id s"
      unfolding used_sessions_def by fastforce
    then have "q = s" using distinct_map_keyed [OF d] s(1) by blast
    with q(2) s(2) show False by simp
  qed
  then have "consented w (snd ?e) (u_id user)"
    using kept(3) s(3) unfolding consented_def tables by (intro bexI [of _ ?s]) simp_all
  moreover have "active_pairs (db_telegram_links (snd ?e)) \<subseteq>
      insert (u_id user, tg_user_id tg) (active_pairs (db_telegram_links w))"
    unfolding tables using saved by blast
  ultimately have new: "\<forall>(uid, tid)\<in>active_pairs (db_telegram_links (snd ?e)) - active_pairs (db_telegram_links w).
      consented w (snd ?e) uid" by blast
  have "sessions_kept w (snd ?e)" using kept(1) sessions_kept_eq tables(2) by blast
  moreover have "links_ok (snd ?e)" unfolding links_ok_alt tables using kept(2) saved by blast
  ultimately have "link_change w (snd ?e)" using new by (simp add: link_change_def)
  with cases link_change_refl [OF ok] show ?thesis by auto
qed

lemma consume_link_session_change:
  assumes ok: "links_ok w" and s: "s \<in> set (db_telegram_link_sessions w)"
    and fresh: "ids 0 \<notin> tl_id ` set (db_telegram_links w)"
    and c: "consume_link_session ids now s tg sa sb w = (r, w')"
  shows "link_change w w'"
proof -
  have d: "distinct (map ts_id (db_telegram_link_sessions w))" using ok by (simp add: links_ok_def)
  have stored: "link_change w (store_session s' w)"
    if "ts_id s' = ts_id s" "ts_user_id s' = ts_user_id s" "ts_used_at s \<noteq> None \<longrightarrow> ts_used_at s' \<noteq> None" for s'
  proof -
    have "db_telegram_links (store_session s' w) = db_telegram_links w" by (simp add: store_session_def)
    then show ?thesis
      using store_session_kept [OF d s that] ok by (simp add: link_change_def links_ok_alt)
  qed
  consider "w' = w" | "w' = store_session (s\<lparr>ts_is_active := False\<rparr>) w"
    | "w' = store_session (s\<lparr>ts_used_at := Some now, ts_is_active := False\<rparr>) w"
    | user ul gl where "ts_used_at s = None" "load_user (ts_user_id s) w = Inr user"
      "get_link_by_user_id (u_id user) w = Inr ul" "get_link_by_telegram_user_id (tg_user_id tg) w = Inr gl"
      "link_accounts ids now s tg user ul gl w = (r, w')"
    using c unfolding consume_link_session_def by (auto split: if_splits sum.splits)
  then show ?thesis
  proof cases
    case 1
    with link_change_refl [OF ok] show ?thesis by simp
  next
    case 2
    with stored [of "s\<lparr>ts_is_active := False\<rparr>"] show ?thesis by simp
  next
    case 3
    with stored [of "s\<lparr>ts_used_at := Some now, ts_is_active := False\<rparr>"] show ?thesis by simp
  next
    case (4 user ul gl)
    then have "ts_user_id s = u_id user"
      by (auto simp: load_user_def split: option.splits dest: get_user_id)
    with 4 show ?thesis using link_accounts_change [OF ok s] fresh by blast
  qed
qed

lemma remove_link_change:
  assumes ok: "links_ok w" and l: "l \<in> set (db_telegram_links w)"
    and c: "remove_link ids now a dt user l w = (r, w')"
  shows "link_change w w'"
proof -
  let ?w1 = "audit (ids 1) now a ''telegram_link'' (Some user) (Some (tl_id l)) dt
    (w\<lparr>db_telegram_links := store_row tl_id (unlinked now l) (db_telegram_links w)\<rparr>)"
  let ?e = "enqueue_telegram_account_unlinked_events ids 4 now user (unlinked now l) ?w1"
  have cases: "w' = w \<or> w' = snd ?e"
    using c by (auto simp: remove_link_def Let_def split: prod.splits sum.splits)
  have "only_events ?w1 (snd ?e)"
    unfolding enqueue_telegram_account_unlinked_events_def by (rule create_events_only)
  then have tables: "db_telegram_links (snd ?e) = store_row tl_id (unlinked now l) (db_telegram_links w)"
      "db_telegram_link_sessions (snd ?e) = db_telegram_link_sessions w"
    by (auto simp: only_events_def audit_def)
  have d: "distinct (map tl_id (db_telegram_links w))" using ok by (simp add: links_ok_def)
  have stored: "store_row tl_id (unlinked now l) (db_telegram_links w) =
      map (\<lambda>q. if q = l then unlinked now q else q) (db_telegram_links w)"
    by (rule store_row_map [OF d l]) (simp add: unlinked_def)
  have "map tl_id (store_row tl_id (unlinked now l) (db_telegram_links w)) = map tl_id (db_telegram_links w)"
      "map tl_user_id (store_row tl_id (unlinked now l) (db_telegram_links w)) = map tl_user_id (db_telegram_links w)"
      "map tl_telegram_user_id (store_row tl_id (unlinked now l) (db_telegram_links w)) =
         map tl_telegram_user_id (db_telegram_links w)"
    unfolding stored by (simp_all add: unlinked_def)
  then have "links_unique (store_row tl_id (unlinked now l) (db_telegram_links w))"
    using ok unfolding links_ok_alt links_unique_def by metis
  then have "links_ok (snd ?e)" using ok unfolding links_ok_alt tables by blast
  moreover have "active_pairs (store_row tl_id (unlinked now l) (db_telegram_links w)) \<subseteq>
      active_pairs (db_telegram_links w)"
    unfolding stored by (auto simp: active_pairs_def unlinked_def split: if_splits)
  then have "active_pairs (db_telegram_links (snd ?e)) \<subseteq> active_pairs (db_telegram_links w)"
    unfolding tables(1) .
  moreover have "sessions_kept w (snd ?e)" using sessions_kept_eq [of "snd ?e" w w] tables(2) by simp
  ultimately have "link_change w (snd ?e)" unfolding link_change_def by blast
  with cases link_change_refl [OF ok] show ?thesis by auto
qed

section \<open>Any sequence of operations\<close>

text \<open>One request to the linking service. The identifier of a new link is a fresh \<^verbatim>\<open>uuid4\<close>.\<close>

inductive link_step :: "world \<Rightarrow> world \<Rightarrow> bool" where
  step_link_session: "create_link_session x st ids now user w = (r, w') \<Longrightarrow> link_step w w'"
| step_token: "consume_token x ids now token tg w = (r, w') \<Longrightarrow>
    ids 0 \<notin> tl_id ` set (db_telegram_links w) \<Longrightarrow> link_step w w'"
| step_code: "verify_code x ids now code tg w = (r, w') \<Longrightarrow>
    ids 0 \<notin> tl_id ` set (db_telegram_links w) \<Longrightarrow> link_step w w'"
| step_unlink: "unlink ids now user w = (n, w') \<Longrightarrow> link_step w w'"
| step_unlink_bot: "unlink_by_telegram_user_id ids now tid w = (r, w') \<Longrightarrow> link_step w w'"

inductive link_run :: "world \<Rightarrow> world \<Rightarrow> bool" for w0 :: world where
  link_start: "link_run w0 w0"
| link_next: "link_run w0 w \<Longrightarrow> link_step w w' \<Longrightarrow> link_run w0 w'"

lemma active_link_in:
  "get_active_link_by_user_id i w = Inr (Some l) \<Longrightarrow> l \<in> set (db_telegram_links w)"
  "get_active_link_by_telegram_user_id t w = Inr (Some l) \<Longrightarrow> l \<in> set (db_telegram_links w) \<and>
     tl_is_active l \<and> tl_telegram_user_id l = t"
  by (auto simp: get_active_link_by_user_id_def get_active_link_by_telegram_user_id_def
      scalar_one_or_none_Some dest!: only_match)

lemma link_step_change:
  assumes "link_step w w'" "links_ok w"
  shows "link_change w w'"
  using assms(1)
proof cases
  case step_link_session
  then show ?thesis by (rule create_link_session_change [OF assms(2)])
next
  case step_token
  then show ?thesis
    using consume_link_session_change [OF assms(2)] link_change_refl [OF assms(2)]
    by (auto simp: consume_token_def split: sum.splits option.splits dest!: session_found)
next
  case step_code
  then show ?thesis
    using consume_link_session_change [OF assms(2)] link_change_refl [OF assms(2)]
    by (auto simp: verify_code_def split: sum.splits option.splits dest!: session_found)
next
  case step_unlink
  then show ?thesis
    using remove_link_change [OF assms(2)] link_change_refl [OF assms(2)]
    by (auto simp: unlink_def split: sum.splits option.splits dest!: active_link_in)
next
  case step_unlink_bot
  then show ?thesis
    using remove_link_change [OF assms(2)] link_change_refl [OF assms(2)]
    by (auto simp: unlink_by_telegram_user_id_def split: sum.splits option.splits prod.splits dest!: active_link_in)
qed

lemma consented_later:
  assumes "consented w w1 uid" "sessions_kept w1 w2"
  shows "consented w w2 uid"
proof -
  obtain s where s: "s \<in> set (db_telegram_link_sessions w1)" "ts_user_id s = uid" "ts_used_at s \<noteq> None"
      "ts_id s \<notin> used_sessions w"
    using assms(1) unfolding consented_def by blast
  with assms(2) obtain s' where "s' \<in> set (db_telegram_link_sessions w2)" "ts_id s' = ts_id s"
      "ts_user_id s' = uid" "ts_used_at s' \<noteq> None"
    unfolding sessions_kept_def by blast
  with s(4) show ?thesis unfolding consented_def by metis
qed

lemma consented_since: "consented w1 w2 uid \<Longrightarrow> sessions_kept w w1 \<Longrightarrow> consented w w2 uid"
  using used_sessions_mono unfolding consented_def by blast

lemma link_change_trans:
  assumes "link_change w w1" "link_change w1 w2"
  shows "link_change w w2"
proof -
  have kept: "sessions_kept w w1" "sessions_kept w1 w2" using assms by (simp_all add: link_change_def)
  have "consented w w2 uid" if "(uid, tid) \<in> active_pairs (db_telegram_links w2)"
    "(uid, tid) \<notin> active_pairs (db_telegram_links w)" for uid tid
  proof (cases "(uid, tid) \<in> active_pairs (db_telegram_links w1)")
    case True
    then have "consented w w1 uid" using assms(1) that(2) unfolding link_change_def by blast
    then show ?thesis using kept(2) by (rule consented_later)
  next
    case False
    then have "consented w1 w2 uid" using assms(2) that(1) unfolding link_change_def by blast
    then show ?thesis using kept(1) by (rule consented_since)
  qed
  moreover have "links_ok w2" "sessions_kept w w2"
    using assms(2) sessions_kept_trans [OF kept] by (simp_all add: link_change_def)
  ultimately show ?thesis unfolding link_change_def by blast
qed

lemma link_run_change: "link_run w0 w \<Longrightarrow> links_ok w0 \<Longrightarrow> link_change w0 w"
proof (induction rule: link_run.induct)
  case link_start
  then show ?case by (rule link_change_refl)
next
  case (link_next w w')
  then have "link_change w0 w" by blast
  moreover have "link_change w w'"
    using link_step_change [OF link_next.hyps(2)] \<open>link_change w0 w\<close> by (simp add: link_change_def)
  ultimately show ?case by (rule link_change_trans)
qed

section \<open>Properties\<close>

text \<open>
  C40. Whatever sequence of linking requests runs, an account has at most one Telegram account and
  a Telegram account at most one account of the platform; and who is linked at the end without
  having been linked so at the start has, since then, created a session that the bot brought back:
  a session of the account that was unused before and is used now. Used sessions stay used.
\<close>

theorem links_one_to_one_with_consent:
  assumes "link_run w0 w" "links_ok w0"
  shows "distinct (map tl_user_id (db_telegram_links w)) \<and>
    distinct (map tl_telegram_user_id (db_telegram_links w)) \<and> used_sessions w0 \<subseteq> used_sessions w \<and>
    (\<forall>l\<in>set (db_telegram_links w). tl_is_active l \<longrightarrow>
       (tl_user_id l, tl_telegram_user_id l) \<in> active_pairs (db_telegram_links w0) \<or>
       (\<exists>s\<in>set (db_telegram_link_sessions w). ts_user_id s = tl_user_id l \<and> ts_used_at s \<noteq> None \<and>
          ts_id s \<notin> used_sessions w0))"
proof -
  have c: "link_change w0 w" using assms by (rule link_run_change)
  have "(tl_user_id l, tl_telegram_user_id l) \<in> active_pairs (db_telegram_links w)"
    if "l \<in> set (db_telegram_links w)" "tl_is_active l" for l
    using that by (auto simp: active_pairs_def)
  with c show ?thesis
    using used_sessions_mono unfolding link_change_def links_ok_def consented_def by blast
qed

section \<open>Moderation through the bot\<close>

definition acts_for :: "int \<Rightarrow> user \<Rightarrow> world \<Rightarrow> bool" where
  "acts_for tid u w \<longleftrightarrow>
     (\<exists>l\<in>set (db_telegram_links w). tl_is_active l \<and> tl_telegram_user_id l = tid \<and>
        get_user (tl_user_id l) w = Some u \<and> u_is_active u)"

lemma resolve_actorD: "resolve_actor_from_telegram tid w = Inr (Inr u) \<Longrightarrow> acts_for tid u w"
  unfolding resolve_actor_from_telegram_def acts_for_def load_user_def
  by (auto split: sum.splits option.splits if_splits dest!: active_link_in)

text \<open>The requests a user may make in the web application to decide on a material or a proposal.\<close>

inductive material_decision :: "settings \<Rightarrow> user \<Rightarrow> string \<Rightarrow> world \<Rightarrow> world \<Rightarrow> bool" for st u i w w' where
  "approve st ids now i u w = (Inr r, w') \<Longrightarrow> material_decision st u i w w'"
| "reject st ids now i why remark u w = (Inr r, w') \<Longrightarrow> material_decision st u i w w'"
| "request_revision st ids now i why remark u w = (Inr r, w') \<Longrightarrow> material_decision st u i w w'"

inductive proposal_decision :: "user \<Rightarrow> string \<Rightarrow> world \<Rightarrow> world \<Rightarrow> bool" for u i w w' where
  "approve_university x ids now i u pl w = (Inr p, w') \<Longrightarrow> proposal_decision u i w w'"
| "approve_faculty x ids now i u pl w = (Inr p, w') \<Longrightarrow> proposal_decision u i w w'"
| "approve_subject x ids now i u pl w = (Inr p, w') \<Longrightarrow> proposal_decision u i w w'"
| "reject_university ids now i u why remark w = (Inr p, w') \<Longrightarrow> proposal_decision u i w w'"
| "reject_faculty ids now i u why remark w = (Inr p, w') \<Longrightarrow> proposal_decision u i w w'"
| "reject_subject ids now i u why remark w = (Inr p, w') \<Longrightarrow> proposal_decision u i w w'"

text \<open>The requests of the bot that decide.\<close>

inductive bot_step :: "settings \<Rightarrow> int \<Rightarrow> string \<Rightarrow> world \<Rightarrow> world \<Rightarrow> bool" for st tid i w w' where
  bot_approve_proposal: "approve_proposal_by_bot x ids now i tid w = (r, w') \<Longrightarrow> bot_step st tid i w w'"
| bot_reject_proposal: "reject_proposal_by_bot ids now i tid why w = (r, w') \<Longrightarrow> bot_step st tid i w w'"
| bot_approve_material: "approve_material_by_bot st ids now i tid w = (m, w') \<Longrightarrow> bot_step st tid i w w'"
| bot_reject_material:
    "reject_material_by_bot st ids now i tid why remark w = (m, w') \<Longrightarrow> bot_step st tid i w w'"
| bot_request_revision:
    "request_material_revision_by_bot st ids now i tid why remark w = (m, w') \<Longrightarrow> bot_step st tid i w w'"

lemma answer_decisionD:
  assumes "answer_decision s u w out = (r, w')" "w' \<noteq> w"
  obtains m where "out = (Inr m, w')"
  using assms by (auto simp: answer_decision_def split: prod.splits sum.splits)

lemma material_decisionD:
  assumes "material_decision st u i w w'"
  shows "\<exists>m. get_scoped_material i u w = Inr m \<and> m_status m = PENDING_REVIEW"
  using assms
  by cases (auto simp: approve_def reject_def request_revision_def split: sum.splits if_splits)

lemma proposal_decisionD:
  assumes "proposal_decision u i w w'"
  shows "\<exists>p\<in>set (proposals_of w). proposal_status_of p = ProposalPending \<and> may_decide u p w"
  using assms
proof cases
  case 1
  then obtain p where "get_university_proposal i w = Inr p" "up_status p = ProposalPending"
      "require_admin u = Inr ()"
    by (auto simp: approve_university_def split: sum.splits if_splits)
  then show ?thesis using found_in_proposals(1) by (intro bexI [of _ "UniversityProposal p"]) simp_all
next
  case 2
  then obtain p where "get_faculty_proposal i w = Inr p" "fp_status p = ProposalPending"
      "assert_faculty_proposal_scope u p w = Inr ()"
    by (auto simp: approve_faculty_def split: sum.splits if_splits)
  then show ?thesis using found_in_proposals(2) by (intro bexI [of _ "FacultyProposal p"]) simp_all
next
  case 3
  then obtain p where "get_subject_proposal i w = Inr p" "sp_status p = ProposalPending"
      "assert_subject_proposal_scope u p w = Inr ()"
    by (auto simp: approve_subject_def split: sum.splits if_splits)
  then show ?thesis using found_in_proposals(3) by (intro bexI [of _ "SubjectProposal p"]) simp_all
next
  case 4
  then obtain p where "get_university_proposal i w = Inr p" "up_status p = ProposalPending"
      "require_admin u = Inr ()"
    by (auto simp: reject_university_def reject_proposal_def split: sum.splits if_splits)
  then show ?thesis using found_in_proposals(1) by (intro bexI [of _ "UniversityProposal p"]) simp_all
next
  case 5
  then obtain p where "get_faculty_proposal i w = Inr p" "fp_status p = ProposalPending"
      "assert_faculty_proposal_scope u p w = Inr ()"
    by (auto simp: reject_faculty_def reject_proposal_def split: sum.splits if_splits)
  then show ?thesis using found_in_proposals(2) by (intro bexI [of _ "FacultyProposal p"]) simp_all
next
  case 6
  then obtain p where "get_subject_proposal i w = Inr p" "sp_status p = ProposalPending"
      "assert_subject_proposal_scope u p w = Inr ()"
    by (auto simp: reject_subject_def reject_proposal_def split: sum.splits if_splits)
  then show ?thesis using found_in_proposals(3) by (intro bexI [of _ "SubjectProposal p"]) simp_all
qed

lemma by_type_decision:
  "approve_by_type x ids now t i u w = (Inr p, w') \<Longrightarrow> proposal_decision u i w w'"
  "reject_by_type ids now t i u why w = (Inr p, w') \<Longrightarrow> proposal_decision u i w w'"
  by (auto simp: approve_by_type_def reject_by_type_def split: if_splits intro: proposal_decision.intros)

text \<open>A request of the bot that changes anything is a decision of the linked account.\<close>

lemma bot_proposal_decisions:
  "approve_proposal_by_bot x ids now i tid w = (r, w') \<Longrightarrow> w' \<noteq> w \<Longrightarrow> \<exists>u. acts_for tid u w \<and> proposal_decision u i w w'"
  "reject_proposal_by_bot ids now i tid why w = (r, w') \<Longrightarrow> w' \<noteq> w \<Longrightarrow> \<exists>u. acts_for tid u w \<and> proposal_decision u i w w'"
  unfolding approve_proposal_by_bot_def reject_proposal_by_bot_def
  by (auto split: sum.splits option.splits elim!: answer_decisionD intro: resolve_actorD by_type_decision)

lemma bot_material_decisions:
  "approve_material_by_bot st ids now i tid w = (m, w') \<Longrightarrow> w' \<noteq> w \<Longrightarrow>
     \<exists>u. acts_for tid u w \<and> material_decision st u i w w'"
  "reject_material_by_bot st ids now i tid why2 remark w = (m, w') \<Longrightarrow> w' \<noteq> w \<Longrightarrow>
     \<exists>u. acts_for tid u w \<and> material_decision st u i w w'"
  "request_material_revision_by_bot st ids now i tid why2 remark w = (m, w') \<Longrightarrow> w' \<noteq> w \<Longrightarrow>
     \<exists>u. acts_for tid u w \<and> material_decision st u i w w'"
  unfolding approve_material_by_bot_def reject_material_by_bot_def request_material_revision_by_bot_def
  by (auto split: sum.splits elim!: answer_decisionD intro: resolve_actorD material_decision.intros)

text \<open>
  Moderation through the bot is moderation in the web application: a request of the bot that
  changes anything leaves exactly the world that a decision of the linked account would leave,
  the account is active and linked to the Telegram account the request names, and what it decides
  on is pending and within its own scope. The bot adds no rights of its own.
\<close>

theorem bot_moderates_as_linked_account:
  assumes "bot_step st tid i w w'" "w' \<noteq> w"
  shows "\<exists>u. acts_for tid u w \<and>
    (material_decision st u i w w' \<and>
       (\<exists>m. get_material i w = Some m \<and> m_status m = PENDING_REVIEW \<and> assert_scope u m w = Inr ()) \<or>
     proposal_decision u i w w' \<and>
       (\<exists>p\<in>set (proposals_of w). proposal_status_of p = ProposalPending \<and> may_decide u p w))"
proof -
  have "\<exists>u. acts_for tid u w \<and> (material_decision st u i w w' \<or> proposal_decision u i w w')"
    using assms by cases (blast dest: bot_proposal_decisions bot_material_decisions)+
  then show ?thesis using material_decisionD proposal_decisionD get_scoped_materialD by meson
qed

section \<open>Witnesses\<close>

definition sample_telegram_user :: telegram_user where
  "sample_telegram_user = \<lparr>tg_user_id = 77, tg_username = Some ''ann'', tg_first_name = None,
     tg_last_name = None, tg_language_code = None\<rparr>"

text \<open>The administrator asks for a session, and the bot brings its code back.\<close>

definition bot_settings :: settings where
  "bot_settings = default_settings\<lparr>telegram_bot_username := Some ''hub_bot''\<rparr>"

definition session_library :: world where
  "session_library = snd (create_link_session reference_externals bot_settings sample_ids 5 sample_admin sample_library)"

definition linked_library :: world where
  "linked_library = snd (verify_code reference_externals (\<lambda>n. CHR ''k'' # sample_ids n) 6 (''TG-'' @ sample_ids 3)
     sample_telegram_user session_library)"

lemma linked_library_links:
  "map (\<lambda>l. (tl_user_id l, tl_telegram_user_id l, tl_is_active l)) (db_telegram_links linked_library) =
     [(''a1'', 77, True)]"
  by code_simp

lemma sample_library_links: "links_ok sample_library"
  by (simp add: links_ok_def sample_library_def)

lemma sample_link_run: "link_run sample_library linked_library"
proof -
  have "link_step sample_library session_library"
    unfolding session_library_def by (rule step_link_session [OF surjective_pairing])
  moreover have "link_step session_library linked_library"
    unfolding linked_library_def
  proof (rule step_code [OF surjective_pairing])
    have "db_telegram_links session_library = []" by code_simp
    then show "(\<lambda>n. CHR ''k'' # sample_ids n) 0 \<notin> tl_id ` set (db_telegram_links session_library)" by simp
  qed
  ultimately show ?thesis using link_start link_next by blast
qed

lemma links_one_to_one_with_consent_witness:
  "distinct (map tl_telegram_user_id (db_telegram_links linked_library)) \<and>
   (\<exists>s\<in>set (db_telegram_link_sessions linked_library). ts_used_at s \<noteq> None)"
proof -
  note c = links_one_to_one_with_consent [OF sample_link_run sample_library_links]
  have none: "active_pairs (db_telegram_links sample_library) = {}"
    by (simp add: active_pairs_def sample_library_def)
  obtain l where "l \<in> set (db_telegram_links linked_library)" "tl_is_active l"
    using linked_library_links by (cases "db_telegram_links linked_library") auto
  with c show ?thesis unfolding none by blast
qed

definition bot_approved_library :: world where
  "bot_approved_library = snd (approve_material_by_bot bot_settings (\<lambda>n. CHR ''m'' # sample_ids n) 7 ''m1'' 77 linked_library)"

lemma bot_moderates_as_linked_account_witness:
  "\<exists>u. acts_for 77 u linked_library \<and>
     (material_decision bot_settings u ''m1'' linked_library bot_approved_library \<or>
      proposal_decision u ''m1'' linked_library bot_approved_library)"
proof -
  have s: "bot_step bot_settings 77 ''m1'' linked_library bot_approved_library"
    unfolding bot_approved_library_def by (rule bot_approve_material [OF surjective_pairing])
  have "map m_status (db_materials bot_approved_library) = [APPROVED]"
       "map m_status (db_materials linked_library) = [PENDING_REVIEW]" by code_simp+
  then have "bot_approved_library \<noteq> linked_library" by auto
  from bot_moderates_as_linked_account [OF s this] show ?thesis by blast
qed

end
