(* ===== verification/Backup.thy ===== *)
theory Backup
  imports Config "HOL-Library.AList"
begin

text \<open>
  \<^verbatim>\<open>app/bootstrap/backup_service.py\<close> and \<^verbatim>\<open>app/bootstrap/backup_scheduler.py\<close>: dumps of the
  database with a manifest each, their copies in a bucket, retention, and the restore.

  The state is the host: its files by resolved path, the objects of the bucket, the database and
  the commands that were run. What is outside the program is a parameter (\<^verbatim>\<open>tools\<close>): how each
  command ends, in the order they run, and what it writes when it succeeds or fails; which calls of
  the bucket fail; the parsed URL of the database. Files that are not manifests are byte strings;
  a manifest stands for its JSON text. Paths have no symbolic links.
\<close>

section \<open>The host\<close>

record backup_manifest =
  bm_backup_id :: string
  bm_created_at :: string
  bm_database_name :: string
  bm_dump_format :: string
  bm_checksum_sha256 :: string
  bm_size_bytes :: int
  bm_verified :: bool
  bm_trigger :: string
  bm_local_dump_path :: string
  bm_local_manifest_path :: string
  bm_offsite_enabled :: bool
  bm_offsite_bucket :: "string option"
  bm_offsite_dump_key :: "string option"
  bm_offsite_manifest_key :: "string option"

datatype host_file = Bytes string | ManifestText backup_manifest

record host =
  h_files :: "(string list \<times> host_file) list"
  h_bucket :: "(string \<times> host_file) list"
  h_database :: "string option"
  h_commands :: "string list list"

text \<open>How a process ends: it is not found, takes too long, or exits, with its two outputs.\<close>

datatype process = CommandNotFound | TimedOut | Failed string string | Finished

datatype bucket_answer = BucketDone | BucketMissing | BucketError

record db_url =
  url_drivername :: string
  url_database :: "string option"
  url_username :: "string option"
  url_dbpassword :: "string option"
  url_host :: "string option"
  url_port :: "int option"

record tools =
  bt_url :: db_url
  bt_cwd :: "string list"
  bt_sha256 :: "string \<Rightarrow> string"
  bt_json :: "backup_manifest \<Rightarrow> string"
  bt_outcome :: "nat \<Rightarrow> string list \<Rightarrow> process"
  bt_dump :: "string option \<Rightarrow> string"
  bt_restored :: "string \<Rightarrow> string"
  bt_script :: "string \<Rightarrow> string"
  bt_execute :: "string \<Rightarrow> string"
  bt_partial :: "string \<Rightarrow> string"
  bt_bucket :: "string \<Rightarrow> string \<Rightarrow> bucket_answer"
  bt_temp_file :: string
  bt_temp_dir :: string

section \<open>Paths\<close>

text \<open>\<open>Path(s)\<close> drops empty and single-dot parts; \<open>resolve\<close> also takes away the double dots.\<close>

definition path_parts :: "string \<Rightarrow> string list" where
  "path_parts s = filter (\<lambda>p. p \<noteq> [] \<and> p \<noteq> ''.'') (split_on (CHR ''/'') s)"

definition is_absolute :: "string \<Rightarrow> bool" where
  "is_absolute s = startswith s ''/''"

definition path_str :: "string \<Rightarrow> string" where
  "path_str s =
     (let p = (if is_absolute s then ''/'' else '''') @ join ''/'' (path_parts s)
      in if p = [] then ''.'' else p)"

definition dump_path_name :: "string \<Rightarrow> string" where
  "dump_path_name s = (if path_parts s = [] then [] else last (path_parts s))"

fun drop_dots :: "string list \<Rightarrow> string list \<Rightarrow> string list" where
  "drop_dots up [] = rev up"
| "drop_dots up (p # ps) = (if p = ''..'' then drop_dots (tl up) ps else drop_dots (p # up) ps)"

definition resolve :: "tools \<Rightarrow> string \<Rightarrow> string list" where
  "resolve t s = drop_dots [] (if is_absolute s then path_parts s else bt_cwd t @ path_parts s)"

definition read_file :: "tools \<Rightarrow> string \<Rightarrow> host \<Rightarrow> host_file option" where
  "read_file t p h = map_of (h_files h) (resolve t p)"

definition path_exists :: "tools \<Rightarrow> string \<Rightarrow> host \<Rightarrow> bool" where
  "path_exists t p h = (read_file t p h \<noteq> None)"

definition write_file :: "tools \<Rightarrow> string \<Rightarrow> host_file \<Rightarrow> host \<Rightarrow> host" where
  "write_file t p f h = h\<lparr>h_files := AList.update (resolve t p) f (h_files h)\<rparr>"

definition unlink_file :: "tools \<Rightarrow> string \<Rightarrow> host \<Rightarrow> host" where
  "unlink_file t p h = h\<lparr>h_files := AList.delete (resolve t p) (h_files h)\<rparr>"

definition file_bytes :: "tools \<Rightarrow> host_file \<Rightarrow> string" where
  "file_bytes t f = (case f of Bytes b \<Rightarrow> b | ManifestText m \<Rightarrow> bt_json t m)"

section \<open>Moments\<close>

text \<open>
  \<open>datetime\<close> in UTC: year, month and day of a moment in the proleptic Gregorian calendar, counted
  from the first of March of the year 0.
\<close>

definition civil_date :: "int \<Rightarrow> int \<times> int \<times> int" where
  "civil_date now =
     (let z = now div days 1 + 719468; era = z div 146097; doe = z mod 146097;
          yoe = (doe - doe div 1460 + doe div 36524 - doe div 146096) div 365;
          doy = doe - (365 * yoe + yoe div 4 - yoe div 100);
          mp = (5 * doy + 2) div 153;
          d = doy - (153 * mp + 2) div 5 + 1;
          m = (if mp < 10 then mp + 3 else mp - 9)
      in (yoe + era * 400 + (if m \<le> 2 then 1 else 0), m, d))"

definition padded :: "nat \<Rightarrow> int \<Rightarrow> string" where
  "padded n i = replicate (n - length (str_int i)) (CHR ''0'') @ str_int i"

definition clock :: "int \<Rightarrow> int \<times> int \<times> int" where
  "clock now = (let s = now mod days 1 div seconds 1 in (s div 3600, s div 60 mod 60, s mod 60))"

definition strftime_stamp :: "int \<Rightarrow> string" where
  "strftime_stamp now =
     (let (y, m, d) = civil_date now; (hh, mm, ss) = clock now
      in padded 4 y @ padded 2 m @ padded 2 d @ ''T'' @ padded 2 hh @ padded 2 mm @ padded 2 ss @ ''Z'')"

definition isoformat :: "int \<Rightarrow> string" where
  "isoformat now =
     (let (y, m, d) = civil_date now; (hh, mm, ss) = clock now; us = now mod seconds 1
      in padded 4 y @ ''-'' @ padded 2 m @ ''-'' @ padded 2 d @ ''T'' @ padded 2 hh @ '':'' @ padded 2 mm
         @ '':'' @ padded 2 ss @ (if us = 0 then '''' else ''.'' @ padded 6 us) @ ''+00:00'')"

section \<open>Commands\<close>

record connection_info =
  ci_database :: string
  ci_username :: string
  ci_password :: "string option"
  ci_host :: string
  ci_port :: int

definition build_connection_info :: "tools \<Rightarrow> connection_info res" where
  "build_connection_info t =
     (let url = bt_url t in
      if \<not> startswith (url_drivername url) ''postgresql''
      then Inl (BackupError ''Backups are only supported for PostgreSQL databases'')
      else if \<not> truthy (url_database url) \<or> \<not> truthy (url_username url) \<or> \<not> truthy (url_host url)
      then Inl (BackupError ''Backup DB URL must include database, username, and host'')
      else Inr \<lparr>ci_database = the (url_database url), ci_username = the (url_username url),
                ci_password = url_dbpassword url, ci_host = the (url_host url),
                ci_port = (case url_port url of None \<Rightarrow> 5432 | Some p \<Rightarrow> if p = 0 then 5432 else p)\<rparr>)"

definition run_command :: "tools \<Rightarrow> string list \<Rightarrow> host \<Rightarrow> unit res \<times> host" where
  "run_command t command h =
     (let h1 = h\<lparr>h_commands := h_commands h @ [command]\<rparr>
      in case bt_outcome t (length (h_commands h)) command of
           Finished \<Rightarrow> ok () h1
         | CommandNotFound \<Rightarrow> fail (BackupError (''Required command not found: '' @ hd command)) h1
         | TimedOut \<Rightarrow> fail (BackupError (''Command timed out: '' @ join '' '' command)) h1
         | Failed out err \<Rightarrow>
             fail (BackupError
               (if strip err \<noteq> [] then strip err
                else if strip out \<noteq> [] then strip out
                else ''Command failed: '' @ join '' '' command)) h1)"

definition server_args :: "connection_info \<Rightarrow> string list" where
  "server_args c = [''--host'', ci_host c, ''--port'', str_int (ci_port c), ''--username'', ci_username c]"

text \<open>A dump that fails once it runs leaves what it has written.\<close>

definition run_pg_dump :: "tools \<Rightarrow> connection_info \<Rightarrow> string \<Rightarrow> host \<Rightarrow> unit res \<times> host" where
  "run_pg_dump t c dump_path h =
     (let command = [''pg_dump'', ''--format=custom'', ''--file='' @ dump_path] @ server_args c @
            [''--dbname'', ci_database c];
          archive = bt_dump t (h_database h);
          written = (case bt_outcome t (length (h_commands h)) command of
            CommandNotFound \<Rightarrow> (\<lambda>h. h)
          | Finished \<Rightarrow> write_file t dump_path (Bytes archive)
          | _ \<Rightarrow> write_file t dump_path (Bytes (bt_partial t archive)));
          (r, h1) = run_command t command h
      in (r, written h1))"

definition verify_dump :: "tools \<Rightarrow> string \<Rightarrow> host \<Rightarrow> unit res \<times> host" where
  "verify_dump t dump_path h = run_command t [''pg_restore'', ''--list'', path_str dump_path] h"

section \<open>The bucket\<close>

definition offsite_enabled :: "settings \<Rightarrow> bool" where
  "offsite_enabled st = (storage_backend st = ''s3'')"

text \<open>\<open>_build_backup_s3_client\<close>: the client is a parameter; this is what it checks.\<close>

definition check_s3_settings :: "settings \<Rightarrow> unit res" where
  "check_s3_settings st =
     (let required = [(''s3_bucket'', s3_bucket st), (''s3_region'', s3_region st),
            (''s3_endpoint_url'', s3_endpoint_url st), (''s3_access_key_id'', s3_access_key_id st),
            (''s3_secret_access_key'', s3_secret_access_key st)];
          missing = map fst (filter (\<lambda>(_, v). \<not> truthy v) required)
      in if \<not> offsite_enabled st
         then Inl (BackupError ''S3 backup storage is disabled when STORAGE_BACKEND is local'')
         else if missing \<noteq> []
         then Inl (BackupError (''S3 storage is not fully configured for backups: '' @ join '', '' missing))
         else Inr ())"

definition offsite_prefix :: "settings \<Rightarrow> string" where
  "offsite_prefix st =
     rstrip_char (CHR ''/'') (if backup_s3_prefix st \<noteq> [] then backup_s3_prefix st else ''production/postgres'')"

definition offsite_dir :: "settings \<Rightarrow> string" where
  "offsite_dir st = offsite_prefix st @ ''/''"

definition offsite_keys :: "settings \<Rightarrow> host \<Rightarrow> string list" where
  "offsite_keys st h = filter (\<lambda>k. startswith k (offsite_dir st)) (map fst (h_bucket h))"

definition remove_suffix :: "string \<Rightarrow> string \<Rightarrow> string" where
  "remove_suffix key s = take (length key - length s) key"

definition remote_backup_stem :: "string \<Rightarrow> string option" where
  "remote_backup_stem key =
     (if endswith key ''.manifest.json'' then Some (remove_suffix key ''.manifest.json'')
      else if endswith key ''.dump'' then Some (remove_suffix key ''.dump'')
      else None)"

definition grouped_stems :: "string list \<Rightarrow> string list" where
  "grouped_stems keys = remdups (List.map_filter remote_backup_stem keys)"

fun delete_keys :: "tools \<Rightarrow> string list \<Rightarrow> string list \<Rightarrow> host \<Rightarrow> string list res \<times> host" where
  "delete_keys t deleted [] h = ok deleted h"
| "delete_keys t deleted (key # keys) h =
     (case bt_bucket t ''delete_object'' key of
        BucketDone \<Rightarrow>
          delete_keys t (deleted @ [key]) keys (h\<lparr>h_bucket := AList.delete key (h_bucket h)\<rparr>)
      | _ \<Rightarrow> fail (StorageError ''delete_object'') h)"

definition prune_offsite_backups :: "tools \<Rightarrow> settings \<Rightarrow> host \<Rightarrow> string list res \<times> host" where
  "prune_offsite_backups t st h =
     (let retention = max (backup_retention_offsite st) 1
      in case bt_bucket t ''list_objects_v2'' (offsite_dir st) of
           BucketMissing \<Rightarrow> ok [] h
         | BucketError \<Rightarrow> fail (BackupError ''Offsite backup listing failed'') h
         | BucketDone \<Rightarrow>
             (let keys = offsite_keys st h;
                  stale_stems = drop (nat retention) (rev (sort (grouped_stems keys)))
              in delete_keys t []
                   (concat (map (\<lambda>stem. filter (\<lambda>k. remote_backup_stem k = Some stem) keys) stale_stems)) h))"

definition upload_object :: "tools \<Rightarrow> string \<Rightarrow> string \<Rightarrow> host_file option \<Rightarrow> host \<Rightarrow> unit res \<times> host" where
  "upload_object t call key content h =
     (case (bt_bucket t call key, content) of
        (BucketDone, Some f) \<Rightarrow> ok () (h\<lparr>h_bucket := AList.update key f (h_bucket h)\<rparr>)
      | _ \<Rightarrow> fail (BackupError ''Offsite backup upload failed'') h)"

text \<open>The copy of the manifest goes up before the keys are set in it.\<close>

definition upload_and_prune_offsite ::
  "tools \<Rightarrow> settings \<Rightarrow> backup_manifest \<Rightarrow> string \<Rightarrow> string \<Rightarrow> host \<Rightarrow>
   (backup_manifest \<times> string list) res \<times> host"
where
  "upload_and_prune_offsite t st m dump_path manifest_path h =
     (case check_s3_settings st of
        Inl e \<Rightarrow> fail e h
      | Inr _ \<Rightarrow>
          (let dump_key = offsite_dir st @ bm_backup_id m @ ''.dump'';
               manifest_key = offsite_dir st @ bm_backup_id m @ ''.manifest.json''
           in case upload_object t ''upload_file'' dump_key (read_file t dump_path h) h of
                (Inl e, h1) \<Rightarrow> fail e h1
              | (Inr _, h1) \<Rightarrow>
             (case upload_object t ''put_object'' manifest_key (read_file t manifest_path h1) h1 of
                (Inl e, h2) \<Rightarrow> fail e h2
              | (Inr _, h2) \<Rightarrow>
             (case prune_offsite_backups t st h2 of
                (Inl e, h3) \<Rightarrow> fail e h3
              | (Inr deleted, h3) \<Rightarrow>
                  ok (m\<lparr>bm_offsite_bucket := Some (or_else (s3_bucket st) ''''),
                        bm_offsite_dump_key := Some dump_key,
                        bm_offsite_manifest_key := Some manifest_key\<rparr>, deleted) h3))))"

section \<open>Local manifests\<close>

definition daily_root :: "settings \<Rightarrow> string" where
  "daily_root st = path_str (backup_local_root st @ ''/daily'')"

text \<open>\<open>sorted(root.glob("*.manifest.json"), reverse=True)\<close>\<close>

definition manifest_names :: "tools \<Rightarrow> settings \<Rightarrow> host \<Rightarrow> string list" where
  "manifest_names t st h =
     map last (filter (\<lambda>p. p \<noteq> [] \<and> butlast p = resolve t (daily_root st) \<and>
       endswith (last p) ''.manifest.json'') (map fst (h_files h)))"

definition list_local_manifests :: "tools \<Rightarrow> settings \<Rightarrow> host \<Rightarrow> string list" where
  "list_local_manifests t st h =
     map (\<lambda>n. daily_root st @ ''/'' @ n) (rev (sort (manifest_names t st h)))"

definition load_manifest :: "tools \<Rightarrow> string \<Rightarrow> host \<Rightarrow> backup_manifest res" where
  "load_manifest t p h =
     (case read_file t p h of
        None \<Rightarrow> Inl (StorageError ''FileNotFoundError'')
      | Some (Bytes _) \<Rightarrow> Inl (ValueError ''JSONDecodeError'')
      | Some (ManifestText m) \<Rightarrow> Inr m)"

definition unlink_if_exists :: "tools \<Rightarrow> string \<Rightarrow> string list \<times> host \<Rightarrow> string list \<times> host" where
  "unlink_if_exists t p d =
     (case d of (deleted, h) \<Rightarrow>
        if path_exists t p h then (deleted @ [path_str p], unlink_file t p h) else (deleted, h))"

fun delete_stale :: "tools \<Rightarrow> string list \<Rightarrow> string list \<Rightarrow> host \<Rightarrow> string list res \<times> host" where
  "delete_stale t deleted [] h = ok deleted h"
| "delete_stale t deleted (p # ps) h =
     (case load_manifest t p h of
        Inl e \<Rightarrow> fail e h
      | Inr m \<Rightarrow>
          (let (deleted', h') = unlink_if_exists t p (unlink_if_exists t (bm_local_dump_path m) (deleted, h))
           in delete_stale t deleted' ps h'))"

definition prune_local_backups :: "tools \<Rightarrow> settings \<Rightarrow> host \<Rightarrow> string list res \<times> host" where
  "prune_local_backups t st h =
     delete_stale t [] (drop (nat (max (backup_retention_local st) 1)) (list_local_manifests t st h)) h"

section \<open>Making a backup\<close>

definition build_backup_id :: "settings \<Rightarrow> int \<Rightarrow> string \<Rightarrow> string" where
  "build_backup_id st now trigger =
     backup_filename_prefix st @ ''-'' @ strftime_stamp now @
     (if trigger \<noteq> ''manual'' then ''-'' @ trigger else '''')"

definition backup_dump_path :: "settings \<Rightarrow> string \<Rightarrow> string" where
  "backup_dump_path st i = path_str (daily_root st @ ''/'' @ i @ ''.dump'')"

definition backup_manifest_path :: "settings \<Rightarrow> string \<Rightarrow> string" where
  "backup_manifest_path st i = path_str (daily_root st @ ''/'' @ i @ ''.manifest.json'')"

record backup_result =
  bs_manifest :: backup_manifest
  bs_local_deleted :: "string list"
  bs_offsite_deleted :: "string list"

definition new_manifest ::
  "tools \<Rightarrow> settings \<Rightarrow> int \<Rightarrow> string \<Rightarrow> connection_info \<Rightarrow> string \<Rightarrow> backup_manifest"
where
  "new_manifest t st now trigger c bytes =
     (let i = build_backup_id st now trigger in
      \<lparr>bm_backup_id = i, bm_created_at = isoformat now, bm_database_name = ci_database c,
       bm_dump_format = ''custom'', bm_checksum_sha256 = bt_sha256 t bytes,
       bm_size_bytes = int (length bytes), bm_verified = backup_verify_restore st, bm_trigger = trigger,
       bm_local_dump_path = backup_dump_path st i, bm_local_manifest_path = backup_manifest_path st i,
       bm_offsite_enabled = offsite_enabled st, bm_offsite_bucket = None, bm_offsite_dump_key = None,
       bm_offsite_manifest_key = None\<rparr>)"

text \<open>The second half of \<open>run_backup\<close>: the copies and the retention.\<close>

definition store_backup ::
  "tools \<Rightarrow> settings \<Rightarrow> backup_manifest \<Rightarrow> host \<Rightarrow> backup_result res \<times> host"
where
  "store_backup t st m h =
     (let manifest_path = bm_local_manifest_path m;
          h1 = write_file t manifest_path (ManifestText m) h
      in case (if offsite_enabled st
               then (case upload_and_prune_offsite t st m (bm_local_dump_path m) manifest_path h1 of
                       (Inl e, h2) \<Rightarrow> fail e h2
                     | (Inr (m', deleted), h2) \<Rightarrow>
                         ok (m', deleted) (write_file t manifest_path (ManifestText m') h2))
               else ok (m, []) h1) of
           (Inl e, h3) \<Rightarrow> fail e h3
         | (Inr (m', offsite_deleted), h3) \<Rightarrow>
             (case prune_local_backups t st h3 of
                (Inl e, h4) \<Rightarrow> fail e h4
              | (Inr local_deleted, h4) \<Rightarrow>
                  ok \<lparr>bs_manifest = m', bs_local_deleted = local_deleted,
                      bs_offsite_deleted = offsite_deleted\<rparr> h4))"

definition run_backup :: "tools \<Rightarrow> settings \<Rightarrow> int \<Rightarrow> string \<Rightarrow> host \<Rightarrow> backup_result res \<times> host" where
  "run_backup t st now trigger h =
     (case build_connection_info t of
        Inl e \<Rightarrow> fail e h
      | Inr c \<Rightarrow>
          (let dump_path = backup_dump_path st (build_backup_id st now trigger)
           in case run_pg_dump t c dump_path h of
                (Inl e, h1) \<Rightarrow> fail e h1
              | (Inr _, h1) \<Rightarrow>
             (case (if backup_verify_restore st then verify_dump t dump_path h1 else ok () h1) of
                (Inl e, h2) \<Rightarrow> fail e h2
              | (Inr _, h2) \<Rightarrow>
             (case read_file t dump_path h2 of
                None \<Rightarrow> fail (StorageError ''FileNotFoundError'') h2
              | Some f \<Rightarrow> store_backup t st (new_manifest t st now trigger c (file_bytes t f)) h2))))"

section \<open>Listing backups\<close>

record backup_record =
  br_manifest :: backup_manifest
  br_available_local :: bool
  br_available_offsite :: bool

text \<open>\<open>BACKUP_ID_PATTERN\<close>, a full match.\<close>

definition id_start_char :: "char \<Rightarrow> bool" where
  "id_start_char c = (is_digit c \<or> CHR ''A'' \<le> c \<and> c \<le> CHR ''Z'' \<or> CHR ''a'' \<le> c \<and> c \<le> CHR ''z'')"

definition id_char :: "char \<Rightarrow> bool" where
  "id_char c = (id_start_char c \<or> c \<in> {CHR ''_'', CHR ''.'', CHR '':'', CHR ''-''})"

definition matches_backup_id :: "string \<Rightarrow> bool" where
  "matches_backup_id s =
     (case s of [] \<Rightarrow> False | c # cs \<Rightarrow> id_start_char c \<and> length cs \<le> 200 \<and> list_all id_char cs)"

definition validate_backup_id :: "string \<Rightarrow> unit res" where
  "validate_backup_id i =
     (if \<not> matches_backup_id i then Inl (BackupError ''Backup id contains invalid characters'')
      else if contains i ''/'' \<or> contains i [CHR 0x5C] \<or> contains i ''..''
      then Inl (BackupError ''Backup id contains invalid path segments'')
      else Inr ())"

definition ensure_path_allowed :: "tools \<Rightarrow> settings \<Rightarrow> string \<Rightarrow> unit res" where
  "ensure_path_allowed t st p =
     (if prefix (resolve t (backup_local_root st)) (resolve t p) then Inr ()
      else Inl (BackupError ''Backup path is outside the configured backup root''))"

definition validate_restore_dump_path ::
  "tools \<Rightarrow> settings \<Rightarrow> bool \<Rightarrow> bool \<Rightarrow> string \<Rightarrow> host \<Rightarrow> unit res"
where
  "validate_restore_dump_path t st require_allowed_root require_exists p h =
     (if dump_path_name p \<noteq> strip (dump_path_name p) \<or> \<not> endswith (dump_path_name p) ''.dump''
      then Inl (BackupError ''Backup dump must use .dump extension'')
      else
        (case (if require_allowed_root then ensure_path_allowed t st p else Inr ()) of
           Inl e \<Rightarrow> Inl e
         | Inr _ \<Rightarrow>
             (if \<not> require_exists then Inr ()
              else
                (case read_file t p h of
                   None \<Rightarrow> Inl (BackupError ''Backup dump file not found'')
                 | Some f \<Rightarrow>
                     (if length (file_bytes t f) = 0 then Inl (BackupError ''Backup dump file is empty'')
                      else if backup_max_restore_size_bytes st < int (length (file_bytes t f))
                      then Inl (BackupError ''Backup dump exceeds maximum restore size'')
                      else Inr ())))))"

definition allowed_key :: "settings \<Rightarrow> string \<Rightarrow> string \<Rightarrow> bool" where
  "allowed_key st ext key \<longleftrightarrow> startswith key (offsite_dir st) \<and> endswith key ext \<and> \<not> contains key ''..''"

definition validate_offsite_dump_key :: "settings \<Rightarrow> string \<Rightarrow> unit res" where
  "validate_offsite_dump_key st key =
     (if \<not> allowed_key st ''.dump'' key
      then Inl (BackupError ''Offsite backup dump key is outside the allowed prefix'') else Inr ())"

definition validate_offsite_manifest_key :: "settings \<Rightarrow> string \<Rightarrow> unit res" where
  "validate_offsite_manifest_key st key =
     (if \<not> allowed_key st ''.manifest.json'' key
      then Inl (BackupError ''Offsite backup manifest key is outside the allowed prefix'') else Inr ())"

definition validate_manifest_record ::
  "tools \<Rightarrow> settings \<Rightarrow> backup_manifest \<Rightarrow> string \<Rightarrow> host \<Rightarrow> unit res"
where
  "validate_manifest_record t st m manifest_path h =
     (case validate_backup_id (bm_backup_id m) of
        Inl e \<Rightarrow> Inl e
      | Inr _ \<Rightarrow>
     (if bm_dump_format m \<noteq> ''custom'' then Inl (BackupError ''Unsupported backup dump format'')
      else if \<not> endswith (dump_path_name manifest_path) ''.manifest.json''
      then Inl (BackupError ''Backup manifest must use .manifest.json extension'')
      else
     (case (if bm_local_manifest_path m \<noteq> [] \<and> path_exists t (bm_local_manifest_path m) h
            then ensure_path_allowed t st (bm_local_manifest_path m) else Inr ()) of
        Inl e \<Rightarrow> Inl e
      | Inr _ \<Rightarrow>
     (case validate_restore_dump_path t st True False (bm_local_dump_path m) h of
        Inl e \<Rightarrow> Inl e
      | Inr _ \<Rightarrow>
     (case (if truthy (bm_offsite_dump_key m) then validate_offsite_dump_key st (the (bm_offsite_dump_key m))
            else Inr ()) of
        Inl e \<Rightarrow> Inl e
      | Inr _ \<Rightarrow>
     (if truthy (bm_offsite_manifest_key m)
      then validate_offsite_manifest_key st (the (bm_offsite_manifest_key m)) else Inr ()))))))"

text \<open>\<open>records[backup_id] = record\<close>: a known key keeps its place.\<close>

definition set_record :: "backup_record \<Rightarrow> backup_record list \<Rightarrow> backup_record list" where
  "set_record r rs =
     (if list_ex (\<lambda>q. bm_backup_id (br_manifest q) = bm_backup_id (br_manifest r)) rs
      then update_where (\<lambda>q. bm_backup_id (br_manifest q) = bm_backup_id (br_manifest r)) (\<lambda>_. r) rs
      else rs @ [r])"

text \<open>A manifest that is refused is left out; one that is no manifest ends the listing.\<close>

fun local_records ::
  "tools \<Rightarrow> settings \<Rightarrow> host \<Rightarrow> string list \<Rightarrow> backup_record list \<Rightarrow> backup_record list res"
where
  "local_records t st h [] rs = Inr rs"
| "local_records t st h (p # ps) rs =
     (case load_manifest t p h of
        Inl e \<Rightarrow> Inl e
      | Inr m \<Rightarrow>
          (case validate_manifest_record t st m p h of
             Inl _ \<Rightarrow> local_records t st h ps rs
           | Inr _ \<Rightarrow>
               local_records t st h ps
                 (set_record \<lparr>br_manifest = m, br_available_local = path_exists t (bm_local_dump_path m) h,
                   br_available_offsite = offsite_enabled st \<and> truthy (bm_offsite_dump_key m)\<rparr> rs)))"

fun read_offsite_manifests ::
  "tools \<Rightarrow> host \<Rightarrow> string list \<Rightarrow> backup_manifest list \<Rightarrow> backup_manifest list res"
where
  "read_offsite_manifests t h [] ms = Inr ms"
| "read_offsite_manifests t h (key # keys) ms =
     (case (bt_bucket t ''get_object'' key, map_of (h_bucket h) key) of
        (BucketDone, Some (ManifestText m)) \<Rightarrow> read_offsite_manifests t h keys (ms @ [m])
      | (BucketDone, Some (Bytes _)) \<Rightarrow> Inl (ValueError ''JSONDecodeError'')
      | _ \<Rightarrow> Inl (BackupError ''Offsite backup manifest read failed''))"

definition list_offsite_manifests :: "tools \<Rightarrow> settings \<Rightarrow> host \<Rightarrow> backup_manifest list res" where
  "list_offsite_manifests t st h =
     (case bt_bucket t ''list_objects_v2'' (offsite_dir st) of
        BucketMissing \<Rightarrow> Inr []
      | BucketError \<Rightarrow> Inl (BackupError ''Offsite backup listing failed'')
      | BucketDone \<Rightarrow>
          read_offsite_manifests t h (filter (\<lambda>k. endswith k ''.manifest.json'') (offsite_keys st h)) [])"

definition add_offsite :: "tools \<Rightarrow> host \<Rightarrow> backup_record list \<Rightarrow> backup_manifest \<Rightarrow> backup_record list" where
  "add_offsite t h rs m =
     (if list_ex (\<lambda>r. bm_backup_id (br_manifest r) = bm_backup_id m) rs
      then update_where (\<lambda>r. bm_backup_id (br_manifest r) = bm_backup_id m)
             (\<lambda>r. r\<lparr>br_available_offsite := True\<rparr>) rs
      else rs @ [\<lparr>br_manifest = m, br_available_local = path_exists t (bm_local_dump_path m) h,
                  br_available_offsite = True\<rparr>])"

text \<open>\<open>sorted(..., reverse=True)\<close> keeps the order of equal keys.\<close>

definition sorted_desc :: "('a \<Rightarrow> 'k::linorder) \<Rightarrow> 'a list \<Rightarrow> 'a list" where
  "sorted_desc k xs = rev (sort_key k (rev xs))"

definition list_backups :: "tools \<Rightarrow> settings \<Rightarrow> host \<Rightarrow> backup_record list res" where
  "list_backups t st h =
     (case local_records t st h (list_local_manifests t st h) [] of
        Inl e \<Rightarrow> Inl e
      | Inr rs \<Rightarrow>
          (case (if offsite_enabled st
                 then (case check_s3_settings st of
                         Inl e \<Rightarrow> Inr rs
                       | Inr _ \<Rightarrow>
                           (case list_offsite_manifests t st h of
                              Inl (BackupError _) \<Rightarrow> Inr rs
                            | Inl e \<Rightarrow> Inl e
                            | Inr ms \<Rightarrow> Inr (foldl (add_offsite t h) rs ms)))
                 else Inr rs) of
             Inl e \<Rightarrow> Inl e
           | Inr rs' \<Rightarrow> Inr (sorted_desc (bm_created_at \<circ> br_manifest) rs')))"

definition get_backup :: "tools \<Rightarrow> settings \<Rightarrow> string \<Rightarrow> host \<Rightarrow> backup_record res" where
  "get_backup t st i h =
     (case validate_backup_id i of
        Inl e \<Rightarrow> Inl e
      | Inr _ \<Rightarrow>
          (case list_backups t st h of
             Inl e \<Rightarrow> Inl e
           | Inr rs \<Rightarrow>
               (case find (\<lambda>r. bm_backup_id (br_manifest r) = i) rs of
                  None \<Rightarrow> Inl (ResourceNotFound ''Backup not found'') | Some r \<Rightarrow> Inr r)))"

section \<open>Restoring\<close>

text \<open>The path of the dump to restore and the temporary files; a refused download stays on disk.\<close>

definition prepare_restore_dump ::
  "tools \<Rightarrow> settings \<Rightarrow> backup_record \<Rightarrow> host \<Rightarrow> (string \<times> string list) res \<times> host"
where
  "prepare_restore_dump t st r h =
     (let m = br_manifest r in
      case validate_manifest_record t st m (bm_local_manifest_path m) h of
        Inl e \<Rightarrow> fail e h
      | Inr _ \<Rightarrow>
          (if br_available_local r \<and> path_exists t (bm_local_dump_path m) h
           then (case validate_restore_dump_path t st True True (bm_local_dump_path m) h of
                   Inl e \<Rightarrow> fail e h | Inr _ \<Rightarrow> ok (bm_local_dump_path m, []) h)
           else if \<not> offsite_enabled st \<or> \<not> br_available_offsite r \<or> \<not> truthy (bm_offsite_dump_key m)
           then fail (BackupError ''Backup dump is not available for restore'') h
           else
             (let key = the (bm_offsite_dump_key m) in
              case validate_offsite_dump_key st key of
                Inl e \<Rightarrow> fail e h
              | Inr _ \<Rightarrow>
             (case check_s3_settings st of
                Inl e \<Rightarrow> fail e h
              | Inr _ \<Rightarrow>
             (case (bt_bucket t ''download_file'' key, map_of (h_bucket h) key) of
                (BucketDone, Some f) \<Rightarrow>
                  (let h1 = write_file t (bt_temp_file t) f h in
                   case validate_restore_dump_path t st False True (bt_temp_file t) h1 of
                     Inl e \<Rightarrow> fail e h1
                   | Inr _ \<Rightarrow> ok (bt_temp_file t, [bt_temp_file t]) h1)
              | _ \<Rightarrow> fail (BackupError ''Offsite backup download failed'') (unlink_file t (bt_temp_file t) h))))))"

definition verify_backup_integrity :: "tools \<Rightarrow> backup_manifest \<Rightarrow> string \<Rightarrow> host \<Rightarrow> unit res \<times> host" where
  "verify_backup_integrity t m dump_path h =
     (case read_file t dump_path h of
        None \<Rightarrow> fail (BackupError ''Backup dump file not found'') h
      | Some f \<Rightarrow>
          (if bt_sha256 t (file_bytes t f) \<noteq> bm_checksum_sha256 m
           then fail (BackupError ''Backup checksum verification failed'') h
           else verify_dump t dump_path h))"

definition set_database :: "string option \<Rightarrow> host \<Rightarrow> host" where
  "set_database d h = h\<lparr>h_database := d\<rparr>"

text \<open>\<open>str.replace("'", "''")\<close>\<close>

definition escape_quotes :: "string \<Rightarrow> string" where
  "escape_quotes s = concat (map (\<lambda>c. if c = CHR 0x27 then [c, c] else [c]) s)"

definition terminate_database_connections :: "tools \<Rightarrow> connection_info \<Rightarrow> host \<Rightarrow> unit res \<times> host" where
  "terminate_database_connections t c h =
     (let maintenance_db = (if ci_database c \<noteq> ''postgres'' then ''postgres'' else ''template1'');
          terminate_sql = ''SELECT pg_terminate_backend(pid) FROM pg_stat_activity WHERE datname = ''
            @ [CHR 0x27] @ escape_quotes (ci_database c) @ [CHR 0x27] @ '' AND pid <> pg_backend_pid();''
      in run_command t ([''psql''] @ server_args c @
           [''--dbname'', maintenance_db, ''-v'', ''ON_ERROR_STOP=1'', ''--command'', terminate_sql]) h)"

definition drop_and_create_database :: "tools \<Rightarrow> connection_info \<Rightarrow> host \<Rightarrow> unit res \<times> host" where
  "drop_and_create_database t c h =
     (case run_command t ([''dropdb'', ''--if-exists''] @ server_args c @ [ci_database c]) h of
        (Inl e, h1) \<Rightarrow> fail e h1
      | (Inr _, h1) \<Rightarrow>
          (case run_command t ([''createdb''] @ server_args c @ [''--owner'', ci_username c, ci_database c])
                  (set_database None h1) of
             (Inl e, h2) \<Rightarrow> fail e h2
           | (Inr _, h2) \<Rightarrow> ok () (set_database (Some []) h2)))"

text \<open>The bytes of the dump; \<open>verify_backup_integrity\<close> has just read them.\<close>

definition dump_bytes :: "tools \<Rightarrow> string \<Rightarrow> host \<Rightarrow> string" where
  "dump_bytes t p h = (case read_file t p h of None \<Rightarrow> [] | Some f \<Rightarrow> file_bytes t f)"

definition run_pg_restore_direct ::
  "tools \<Rightarrow> connection_info \<Rightarrow> string \<Rightarrow> host \<Rightarrow> unit res \<times> host"
where
  "run_pg_restore_direct t c dump_path h =
     (let bytes = dump_bytes t dump_path h;
          command = [''pg_restore'', ''--exit-on-error'', ''--no-owner'', ''--no-privileges''] @
             server_args c @ [''--dbname'', ci_database c, path_str dump_path]
      in case run_command t command h of
        (Inl e, h1) \<Rightarrow> fail e (if bt_outcome t (length (h_commands h)) command = CommandNotFound then h1
                            else set_database (Some (bt_partial t bytes)) h1)
      | (Inr _, h1) \<Rightarrow> ok () (set_database (Some (bt_restored t bytes)) h1))"

text \<open>A line with its line break, as the iteration over a text file gives it.\<close>

fun lines_of :: "string \<Rightarrow> string list" where
  "lines_of [] = []"
| "lines_of (c # cs) =
     (if c = CHR 0x0A then [c] # lines_of cs
      else (case lines_of cs of [] \<Rightarrow> [[c]] | l # ls \<Rightarrow> (c # l) # ls))"

definition unsupported_restore_set_commands :: "string set" where
  "unsupported_restore_set_commands = {''SET transaction_timeout = 0;''}"

definition filter_script :: "string \<Rightarrow> string" where
  "filter_script raw = concat (filter (\<lambda>l. strip l \<notin> unsupported_restore_set_commands) (lines_of raw))"

definition run_pg_restore_filtered_sql ::
  "tools \<Rightarrow> connection_info \<Rightarrow> string \<Rightarrow> host \<Rightarrow> unit res \<times> host"
where
  "run_pg_restore_filtered_sql t c dump_path h =
     (let raw = bt_script t (dump_bytes t dump_path h) in
      case run_command t [''pg_restore'', ''--no-owner'', ''--no-privileges'', ''--file'',
             bt_temp_dir t @ ''/restore.sql'', path_str dump_path] h of
        (Inl e, h1) \<Rightarrow> fail e h1
      | (Inr _, h1) \<Rightarrow>
          (let command = [''psql''] @ server_args c @ [''--dbname'', ci_database c, ''-v'',
                  ''ON_ERROR_STOP=1'', ''--file'', bt_temp_dir t @ ''/restore.filtered.sql'']
           in case run_command t command h1 of
             (Inl e, h2) \<Rightarrow>
               fail e (if bt_outcome t (length (h_commands h1)) command = CommandNotFound then h2
                       else set_database (Some (bt_partial t (filter_script raw))) h2)
           | (Inr _, h2) \<Rightarrow> ok () (set_database (Some (bt_execute t (filter_script raw))) h2)))"

definition is_transaction_timeout_restore_error :: "string \<Rightarrow> bool" where
  "is_transaction_timeout_restore_error message \<longleftrightarrow>
     contains message ''unrecognized configuration parameter \"transaction_timeout\"'' \<or>
     contains message ''SET transaction_timeout = 0''"

definition restore_dump :: "tools \<Rightarrow> connection_info \<Rightarrow> string \<Rightarrow> host \<Rightarrow> unit res \<times> host" where
  "restore_dump t c dump_path h =
     (case terminate_database_connections t c h of
        (Inl e, h1) \<Rightarrow> fail e h1
      | (Inr _, h1) \<Rightarrow>
     (case drop_and_create_database t c h1 of
        (Inl e, h2) \<Rightarrow> fail e h2
      | (Inr _, h2) \<Rightarrow>
     (case run_pg_restore_direct t c dump_path h2 of
        (Inr _, h3) \<Rightarrow> ok () h3
      | (Inl e, h3) \<Rightarrow>
          (if \<not> (case e of BackupError message \<Rightarrow> is_transaction_timeout_restore_error message | _ \<Rightarrow> False)
           then fail e h3
           else
             (case drop_and_create_database t c h3 of
                (Inl e, h4) \<Rightarrow> fail e h4
              | (Inr _, h4) \<Rightarrow> run_pg_restore_filtered_sql t c dump_path h4)))))"

record backup_restore_result =
  rr_restored_backup :: backup_record
  rr_pre_restore_backup :: backup_manifest
  rr_restored_at :: string

definition unlink_all :: "tools \<Rightarrow> string list \<Rightarrow> host \<Rightarrow> host" where
  "unlink_all t ps h = foldl (\<lambda>h p. unlink_file t p h) h ps"

text \<open>From the record to the restored database; the temporary files go in any case.\<close>

definition restore_record :: "tools \<Rightarrow> settings \<Rightarrow> backup_record \<Rightarrow> host \<Rightarrow> unit res \<times> host" where
  "restore_record t st r h =
     (case prepare_restore_dump t st r h of
        (Inl e, h2) \<Rightarrow> fail e h2
      | (Inr (dump_path, temp_paths), h2) \<Rightarrow>
     (case (case verify_backup_integrity t (br_manifest r) dump_path h2 of
              (Inl e, h3) \<Rightarrow> fail e h3
            | (Inr _, h3) \<Rightarrow>
                (case build_connection_info t of
                   Inl e \<Rightarrow> fail e h3 | Inr c \<Rightarrow> restore_dump t c dump_path h3)) of
        (result, h4) \<Rightarrow> (result, unlink_all t temp_paths h4)))"

definition restore_backup ::
  "tools \<Rightarrow> settings \<Rightarrow> string \<Rightarrow> int \<Rightarrow> host \<Rightarrow> backup_restore_result res \<times> host"
where
  "restore_backup t st i now h =
     (case get_backup t st i h of
        Inl e \<Rightarrow> fail e h
      | Inr r \<Rightarrow>
     (case run_backup t st now ''pre-restore'' h of
        (Inl e, h1) \<Rightarrow> fail e h1
      | (Inr pre, h1) \<Rightarrow>
     (case restore_record t st r h1 of
        (Inl e, h2) \<Rightarrow> fail e h2
      | (Inr _, h2) \<Rightarrow>
          ok \<lparr>rr_restored_backup = r, rr_pre_restore_backup = bs_manifest pre,
              rr_restored_at = isoformat now\<rparr> h2)))"

text \<open>
  \<^verbatim>\<open>scripts/manual_restore_backup.py\<close>: the restore of a database that was lost, without a backup of
  what is there.
\<close>

definition manual_restore_backup ::
  "tools \<Rightarrow> settings \<Rightarrow> string \<Rightarrow> string \<Rightarrow> int \<Rightarrow> host \<Rightarrow> string res \<times> host"
where
  "manual_restore_backup t st backup_id confirmation now h =
     (let expected_confirmation = ''RESTORE:'' @ backup_id in
      if confirmation \<noteq> expected_confirmation
      then fail (RuntimeError (''Invalid confirmation. Expected: '' @ expected_confirmation)) h
      else
        (case get_backup t st backup_id h of
           Inl e \<Rightarrow> fail e h
         | Inr r \<Rightarrow>
        (case restore_record t st r h of
           (Inl e, h1) \<Rightarrow> fail e h1
         | (Inr _, h1) \<Rightarrow> ok (''Restored backup '' @ backup_id @ '' at '' @ isoformat now) h1)))"

section \<open>The scheduler\<close>

text \<open>
  \<open>BackupScheduler.run\<close> over its rounds: the two answers of \<open>stop_requested\<close> and the time at which
  the backup of the round is made. The count of runs, or the error that ends the process.
\<close>

definition run_once :: "tools \<Rightarrow> settings \<Rightarrow> int \<Rightarrow> host \<Rightarrow> unit res \<times> host" where
  "run_once t st now h =
     (case run_backup t st now ''scheduled'' h of
        (Inl (BackupError _), h1) \<Rightarrow> ok () h1
      | (Inl e, h1) \<Rightarrow> fail e h1
      | (Inr _, h1) \<Rightarrow> ok () h1)"

definition runs_reached :: "int option \<Rightarrow> int \<Rightarrow> bool" where
  "runs_reached max_runs run_count = (case max_runs of None \<Rightarrow> False | Some n \<Rightarrow> n \<le> run_count)"

fun schedule_loop ::
  "tools \<Rightarrow> settings \<Rightarrow> int option \<Rightarrow> int \<Rightarrow> (bool \<times> bool \<times> int) list \<Rightarrow> host \<Rightarrow> int res \<times> host"
where
  "schedule_loop t st max_runs run_count [] h = ok run_count h"
| "schedule_loop t st max_runs run_count ((stop1, stop2, now) # rounds) h =
     (if stop1 \<or> stop2 then ok run_count h
      else
        (case run_once t st now h of
           (Inl e, h1) \<Rightarrow> fail e h1
         | (Inr _, h1) \<Rightarrow>
             (if runs_reached max_runs (run_count + 1) then ok (run_count + 1) h1
              else schedule_loop t st max_runs (run_count + 1) rounds h1)))"

definition run_scheduler ::
  "tools \<Rightarrow> settings \<Rightarrow> int option \<Rightarrow> int \<Rightarrow> (bool \<times> bool \<times> int) list \<Rightarrow> host \<Rightarrow> int res \<times> host"
where
  "run_scheduler t st max_runs now rounds h =
     (if \<not> backup_schedule_enabled st then ok 0 h
      else if backup_run_on_start st
      then (case run_once t st now h of
              (Inl e, h1) \<Rightarrow> fail e h1
            | (Inr _, h1) \<Rightarrow>
                (if runs_reached max_runs 1 then ok 1 h1 else schedule_loop t st max_runs 1 rounds h1))
      else schedule_loop t st max_runs 0 rounds h)"

end
