(* ===== verification/BackupFacts.thy ===== *)
theory BackupFacts
  imports Backup
begin

text \<open>
  What holds of backups: retention keeps the newest of them whole, and a restore touches the
  database only after the checks; and where the copies in the bucket do not do what they are for.
\<close>

section \<open>Paths\<close>

lemma split_on_append_sep: "split_on c (a @ c # b) = split_on c a @ split_on c b"
  by (induction a) (auto split: list.splits)

lemma split_on_plain: "c \<notin> set s \<Longrightarrow> split_on c s = [s]"
  by (induction s) auto

lemma split_on_join: "xs \<noteq> [] \<Longrightarrow> list_all (\<lambda>x. c \<notin> set x) xs \<Longrightarrow> split_on c (join [c] xs) = xs"
  by (induction "[c]" xs rule: join.induct) (auto simp: split_on_plain split_on_append_sep)

lemma path_parts_free: "list_all (\<lambda>p. CHR ''/'' \<notin> set p) (path_parts s)"
  by (auto simp: path_parts_def list_all_iff dest: split_on_free)

lemma path_parts_idem: "filter (\<lambda>p. p \<noteq> [] \<and> p \<noteq> ''.'') (path_parts s) = path_parts s"
  by (simp add: path_parts_def)

lemma path_parts_join: "path_parts (join ''/'' (path_parts s)) = path_parts s"
proof (cases "path_parts s = []")
  case True
  then show ?thesis by (simp add: path_parts_def)
next
  case False
  then have "split_on (CHR ''/'') (join ''/'' (path_parts s)) = path_parts s"
    by (rule split_on_join) (rule path_parts_free)
  then show ?thesis by (simp only: path_parts_def [of "join ''/'' (path_parts s)"] path_parts_idem)
qed

lemma path_parts_slash: "path_parts (CHR ''/'' # s) = path_parts s"
  by (simp add: path_parts_def)

lemma join_head: "xs \<noteq> [] \<Longrightarrow> hd xs \<noteq> [] \<Longrightarrow> join sep xs \<noteq> [] \<and> hd (join sep xs) = hd (hd xs)"
  by (induction sep xs rule: join.induct) auto

lemma path_str_parts [simp]: "path_parts (path_str s) = path_parts s"
proof -
  have "path_parts ''.'' = []" "path_parts [] = []" by (simp_all add: path_parts_def)
  then show ?thesis
    using path_parts_join [of s] by (auto simp: path_str_def Let_def path_parts_slash)
qed

lemma path_str_absolute [simp]: "is_absolute (path_str s) = is_absolute s"
proof (cases "is_absolute s")
  case True
  then show ?thesis by (simp add: path_str_def is_absolute_def startswith_def Let_def)
next
  case False
  let ?p = "path_parts s"
  have "\<not> is_absolute (join ''/'' ?p)"
  proof (cases "?p = []")
    case True
    then show ?thesis by (simp add: is_absolute_def startswith_def)
  next
    case nonempty: False
    then have "hd ?p \<in> set ?p" by simp
    then have hd: "hd ?p \<noteq> []" "CHR ''/'' \<notin> set (hd ?p)"
      using path_parts_free [of s] by (auto simp: path_parts_def list_all_iff)
    then have "join ''/'' ?p \<noteq> []" "hd (join ''/'' ?p) = hd (hd ?p)" using join_head nonempty by blast+
    moreover have "hd (hd ?p) \<noteq> CHR ''/''" using hd by (metis list.set_sel(1))
    ultimately show ?thesis by (cases "join ''/'' ?p") (auto simp: is_absolute_def startswith_def)
  qed
  with False show ?thesis
    by (auto simp: path_str_def Let_def is_absolute_def startswith_def)
qed

lemma resolve_path_str [simp]: "resolve t (path_str s) = resolve t s"
  by (simp add: resolve_def)

text \<open>A file of a directory, by its name.\<close>

definition plain_name :: "string \<Rightarrow> bool" where
  "plain_name n \<longleftrightarrow> CHR ''/'' \<notin> set n \<and> n \<notin> {[], ''.'', ''..''}"

lemma drop_dots_snoc: "p \<noteq> ''..'' \<Longrightarrow> drop_dots up (ps @ [p]) = drop_dots up ps @ [p]"
  by (induction ps arbitrary: up) auto

lemma resolve_child:
  assumes "plain_name n" "d \<noteq> []"
  shows "resolve t (d @ ''/'' @ n) = resolve t d @ [n]"
proof -
  have "path_parts (d @ ''/'' @ n) = path_parts d @ [n]"
    using assms split_on_append_sep [of "CHR ''/''" d n] split_on_plain [of "CHR ''/''" n]
    by (simp add: path_parts_def plain_name_def)
  moreover have "is_absolute (d @ ''/'' @ n) = is_absolute d"
    using assms(2) by (cases d) (simp_all add: is_absolute_def startswith_def)
  ultimately show ?thesis
    using assms(1) by (simp add: resolve_def drop_dots_snoc plain_name_def flip: append_assoc)
qed

lemma daily_root_not_Nil [simp]: "daily_root st \<noteq> []"
  by (simp add: daily_root_def path_str_def Let_def)

definition sibling :: "tools \<Rightarrow> settings \<Rightarrow> string \<Rightarrow> string list" where
  "sibling t st n = resolve t (daily_root st) @ [n]"

lemma resolve_daily: "plain_name n \<Longrightarrow> resolve t (daily_root st @ CHR ''/'' # n) = sibling t st n"
  using resolve_child [of n "daily_root st" t] by (simp add: sibling_def)

lemma sibling_inj [simp]: "sibling t st m = sibling t st n \<longleftrightarrow> m = n"
  by (simp add: sibling_def)

section \<open>Names\<close>

definition dump_name :: "string \<Rightarrow> string" where
  "dump_name n = remove_suffix n ''.manifest.json'' @ ''.dump''"

lemma dump_name_manifest [simp]: "dump_name (i @ ''.manifest.json'') = i @ ''.dump''"
  by (simp add: dump_name_def remove_suffix_def)

lemma manifest_suffix: "endswith n ''.manifest.json'' \<longleftrightarrow> (\<exists>i. n = i @ ''.manifest.json'')"
  by (auto simp: endswith_def Sublist.suffix_def)

lemma dump_not_manifest [simp]: "\<not> endswith (i @ ''.dump'') ''.manifest.json''"
proof
  assume "endswith (i @ ''.dump'') ''.manifest.json''"
  then obtain j where "i @ ''.dump'' = j @ ''.manifest.json''" by (auto simp: manifest_suffix)
  then have "rev (i @ ''.dump'') = rev (j @ ''.manifest.json'')" by (rule arg_cong)
  then show False by simp
qed

lemma dump_name_not_manifest [simp]: "\<not> endswith (dump_name n) ''.manifest.json''"
  by (simp add: dump_name_def)

lemma dump_name_inj:
  "endswith m ''.manifest.json'' \<Longrightarrow> endswith n ''.manifest.json'' \<Longrightarrow> dump_name m = dump_name n \<Longrightarrow> m = n"
  by (auto simp: manifest_suffix)

lemma plain_suffixed:
  "CHR ''/'' \<notin> set i \<Longrightarrow> plain_name (i @ ''.manifest.json'')"
  "CHR ''/'' \<notin> set i \<Longrightarrow> plain_name (i @ ''.dump'')"
  by (cases i; cases "tl i"; force simp: plain_name_def)+

lemma plain_dump_name: "endswith n ''.manifest.json'' \<Longrightarrow> plain_name n \<Longrightarrow> plain_name (dump_name n)"
  using plain_suffixed(2) by (auto simp: manifest_suffix plain_name_def)

section \<open>Manifests of the directory\<close>

definition named :: "tools \<Rightarrow> settings \<Rightarrow> string list \<Rightarrow> bool" where
  "named t st p \<longleftrightarrow> p \<noteq> [] \<and> butlast p = resolve t (daily_root st) \<and> endswith (last p) ''.manifest.json''"

lemma manifest_names_alt: "manifest_names t st h = map last (filter (named t st) (map fst (h_files h)))"
  unfolding manifest_names_def named_def ..

lemma named_sibling [simp]: "named t st (sibling t st n) \<longleftrightarrow> endswith n ''.manifest.json''"
  by (simp add: named_def sibling_def)

lemma last_sibling [simp]: "last (sibling t st n) = n"
  by (simp add: sibling_def)

lemma named_is_sibling: "named t st p \<Longrightarrow> p = sibling t st (last p)"
  by (metis append_butlast_last_id named_def sibling_def)

lemma in_manifest_names:
  "n \<in> set (manifest_names t st h) \<longleftrightarrow>
     sibling t st n \<in> fst ` set (h_files h) \<and> endswith n ''.manifest.json''"
proof
  assume "n \<in> set (manifest_names t st h)"
  then obtain p where "p \<in> fst ` set (h_files h)" "named t st p" "n = last p"
    by (auto simp: manifest_names_alt)
  then show "sibling t st n \<in> fst ` set (h_files h) \<and> endswith n ''.manifest.json''"
    using named_is_sibling by (metis named_sibling)
next
  assume "sibling t st n \<in> fst ` set (h_files h) \<and> endswith n ''.manifest.json''"
  then have "sibling t st n \<in> set (filter (named t st) (map fst (h_files h)))" by simp
  then have "last (sibling t st n) \<in> set (manifest_names t st h)"
    unfolding manifest_names_alt set_map by (rule imageI)
  then show "n \<in> set (manifest_names t st h)" by simp
qed

lemma distinct_manifest_names:
  assumes "distinct (map fst (h_files h))"
  shows "distinct (manifest_names t st h)"
proof -
  have "inj_on last (set (filter (named t st) (map fst (h_files h))))"
    by (rule inj_onI) (auto, metis named_is_sibling)
  with assms show ?thesis by (simp add: manifest_names_alt distinct_map)
qed

lemma names_update:
  "manifest_names t st (h\<lparr>h_files := AList.update (sibling t st k) f (h_files h)\<rparr>) =
     (if endswith k ''.manifest.json'' \<and> k \<notin> set (manifest_names t st h)
      then manifest_names t st h @ [k] else manifest_names t st h)"
proof -
  have "k \<in> set (manifest_names t st h) \<longleftrightarrow> sibling t st k \<in> set (map fst (h_files h)) \<and> endswith k ''.manifest.json''"
    by (simp add: in_manifest_names)
  then show ?thesis by (auto simp: manifest_names_alt AList.update_keys)
qed

lemma names_delete:
  "manifest_names t st (h\<lparr>h_files := AList.delete (sibling t st k) (h_files h)\<rparr>) =
     removeAll k (manifest_names t st h)"
proof -
  have "map last (filter (named t st) (removeAll (sibling t st k) ks)) =
      removeAll k (map last (filter (named t st) ks))" for ks
    by (induction ks) (auto dest: named_is_sibling)
  then show ?thesis by (simp add: manifest_names_alt AList.delete_keys)
qed

lemma names_other: "manifest_names t st (h\<lparr>h_bucket := b\<rparr>) = manifest_names t st h"
    "manifest_names t st (h\<lparr>h_commands := c\<rparr>) = manifest_names t st h"
  by (simp_all add: manifest_names_def)

text \<open>A backup is complete when its dump lies beside its manifest and has the recorded checksum.\<close>

definition complete :: "tools \<Rightarrow> settings \<Rightarrow> host \<Rightarrow> string \<Rightarrow> bool" where
  "complete t st h n \<longleftrightarrow> plain_name n \<and>
     (\<exists>m b. map_of (h_files h) (sibling t st n) = Some (ManifestText m) \<and>
        resolve t (bm_local_dump_path m) = sibling t st (dump_name n) \<and>
        map_of (h_files h) (sibling t st (dump_name n)) = Some (Bytes b) \<and>
        bm_checksum_sha256 m = bt_sha256 t b)"

definition backups_ok :: "tools \<Rightarrow> settings \<Rightarrow> host \<Rightarrow> bool" where
  "backups_ok t st h \<longleftrightarrow>
     distinct (map fst (h_files h)) \<and> (\<forall>n\<in>set (manifest_names t st h). complete t st h n)"

lemma complete_cong:
  "h_files h' = h_files h \<Longrightarrow> complete t st h' = complete t st h"
  "h_files h' = h_files h \<Longrightarrow> manifest_names t st h' = manifest_names t st h"
  "h_files h' = h_files h \<Longrightarrow> backups_ok t st h' = backups_ok t st h"
  by (simp_all add: complete_def backups_ok_def manifest_names_def fun_eq_iff)

lemma complete_delete:
  assumes "complete t st h n" "n \<noteq> k" "endswith n ''.manifest.json''" "endswith k ''.manifest.json''"
  shows "complete t st (h\<lparr>h_files := AList.delete (sibling t st k)
    (AList.delete (sibling t st (dump_name k)) (h_files h))\<rparr>) n"
proof -
  have "dump_name n \<noteq> k" "dump_name k \<noteq> n" "dump_name n \<noteq> dump_name k"
    using assms dump_name_inj dump_name_not_manifest by metis+
  with assms show ?thesis by (auto simp: complete_def AList.delete_conv')
qed

lemma stale_step:
  assumes ok: "backups_ok t st h" and k: "k \<in> set (manifest_names t st h)"
  defines "h' \<equiv> h\<lparr>h_files := AList.delete (sibling t st k) (AList.delete (sibling t st (dump_name k)) (h_files h))\<rparr>"
  shows "\<exists>d'. delete_stale t d ((daily_root st @ ''/'' @ k) # ps) h = delete_stale t d' ps h'"
    "backups_ok t st h'" "manifest_names t st h' = removeAll k (manifest_names t st h)"
proof -
  have "complete t st h k" "endswith k ''.manifest.json''"
    using ok k by (simp_all add: backups_ok_def in_manifest_names)
  then obtain m b where c: "plain_name k" "endswith k ''.manifest.json''"
      "map_of (h_files h) (sibling t st k) = Some (ManifestText m)"
      "resolve t (bm_local_dump_path m) = sibling t st (dump_name k)"
      "map_of (h_files h) (sibling t st (dump_name k)) = Some (Bytes b)"
    unfolding complete_def by blast
  have "dump_name k \<noteq> k" using c(2) dump_name_not_manifest by metis
  with c show "\<exists>d'. delete_stale t d ((daily_root st @ ''/'' @ k) # ps) h = delete_stale t d' ps h'"
    by (auto simp: load_manifest_def read_file_def resolve_daily unlink_if_exists_def path_exists_def
        unlink_file_def AList.delete_conv' h'_def Let_def)
  have "manifest_names t st h' = removeAll k (removeAll (dump_name k) (manifest_names t st h))"
    using names_delete [of t st k "h\<lparr>h_files := AList.delete (sibling t st (dump_name k)) (h_files h)\<rparr>"]
    by (simp add: h'_def names_delete)
  moreover have "dump_name k \<notin> set (manifest_names t st h)" by (simp add: in_manifest_names)
  ultimately show names: "manifest_names t st h' = removeAll k (manifest_names t st h)" by simp
  have "distinct (map fst (h_files h'))"
    using ok by (simp add: h'_def backups_ok_def AList.distinct_delete)
  moreover have "complete t st h' n" if "n \<in> set (manifest_names t st h')" for n
  proof -
    have n: "n \<in> set (manifest_names t st h)" "n \<noteq> k" using that unfolding names by simp_all
    then have "complete t st h n" "endswith n ''.manifest.json''"
      using ok by (simp_all add: backups_ok_def in_manifest_names)
    then show ?thesis unfolding h'_def using n(2) c(2) by (intro complete_delete) simp_all
  qed
  ultimately show "backups_ok t st h'" by (simp add: backups_ok_def)
qed

lemma delete_stale_effect:
  assumes "backups_ok t st h" "distinct ns" "set ns \<subseteq> set (manifest_names t st h)"
  shows "\<exists>d' h'. delete_stale t d (map (\<lambda>n. daily_root st @ ''/'' @ n) ns) h = (Inr d', h') \<and> backups_ok t st h' \<and>
    manifest_names t st h' = filter (\<lambda>n. n \<notin> set ns) (manifest_names t st h) \<and> h_bucket h' = h_bucket h"
  using assms
proof (induction ns arbitrary: h d)
  case (Cons k ns)
  let ?h = "h\<lparr>h_files := AList.delete (sibling t st k) (AList.delete (sibling t st (dump_name k)) (h_files h))\<rparr>"
  note s = stale_step [OF Cons.prems(1), of k]
  have k: "k \<in> set (manifest_names t st h)" using Cons.prems by simp
  obtain d1 where e: "delete_stale t d (map (\<lambda>n. daily_root st @ ''/'' @ n) (k # ns)) h =
      delete_stale t d1 (map (\<lambda>n. daily_root st @ ''/'' @ n) ns) ?h"
    using s(1) [OF k] by auto
  have "set ns \<subseteq> set (manifest_names t st ?h)" using Cons.prems s(3) [OF k] by auto
  from Cons.IH [OF s(2) [OF k] _ this, of d1] Cons.prems(2)
  show ?case unfolding e s(3) [OF k] by (auto simp: removeAll_filter_not_eq intro!: filter_cong)
qed simp

lemma filter_not_dropped: "distinct ys \<Longrightarrow> filter (\<lambda>x. x \<notin> set (drop n ys)) ys = take n ys"
proof -
  assume d: "distinct ys"
  have "set (take n ys) \<inter> set (drop n ys) = {}" by (rule set_take_disj_set_drop_if_distinct [OF d]) simp
  then have "filter (\<lambda>x. x \<notin> set (drop n ys)) (take n ys @ drop n ys) = take n ys"
    by (auto simp: filter_id_conv filter_empty_conv simp del: append_take_drop_id)
  then show ?thesis by simp
qed

definition kept_manifests :: "settings \<Rightarrow> string list \<Rightarrow> string list" where
  "kept_manifests st names = map (\<lambda>n. daily_root st @ ''/'' @ n)
     (take (nat (max (backup_retention_local st) 1)) (rev (sort names)))"

lemma prune_local_effect:
  assumes "backups_ok t st h"
  shows "\<exists>d h'. prune_local_backups t st h = (Inr d, h') \<and> backups_ok t st h' \<and>
    list_local_manifests t st h' = kept_manifests st (manifest_names t st h)"
proof -
  let ?names = "rev (sort (manifest_names t st h))" and ?n = "nat (max (backup_retention_local st) 1)"
  have d: "distinct ?names" using assms distinct_manifest_names by (auto simp: backups_ok_def)
  have "set (drop ?n ?names) \<subseteq> set (manifest_names t st h)"
    using set_drop_subset [of ?n ?names] by simp
  from delete_stale_effect [OF assms distinct_drop [OF d] this, of "[]"] obtain d' h' where
    e: "delete_stale t [] (map (\<lambda>n. daily_root st @ ''/'' @ n) (drop ?n ?names)) h = (Inr d', h')"
      "backups_ok t st h'"
      "manifest_names t st h' = filter (\<lambda>n. n \<notin> set (drop ?n ?names)) (manifest_names t st h)" by blast
  have "rev (sort (manifest_names t st h')) = take ?n ?names"
    unfolding e(3) filter_sort [symmetric] rev_filter by (rule filter_not_dropped [OF d])
  then have "list_local_manifests t st h' = kept_manifests st (manifest_names t st h)"
    by (simp add: list_local_manifests_def kept_manifests_def)
  then show ?thesis
    using e(1,2) by (auto simp: prune_local_backups_def list_local_manifests_def drop_map)
qed

section \<open>One run\<close>

lemma run_command_effect:
  "run_command t c h = (r, h1) \<Longrightarrow> h1 = h\<lparr>h_commands := h_commands h @ [c]\<rparr>"
  by (auto simp: run_command_def Let_def split: process.splits)

lemma no_slash_digits: "CHR ''/'' \<notin> set (digits n)"
  using digits_are_digits [of n] by (auto simp: list_all_iff is_digit_def)

lemma no_slash_padded: "CHR ''/'' \<notin> set (padded n i)"
  using no_slash_digits by (auto simp: padded_def str_int_def)

lemma no_slash_stamp: "CHR ''/'' \<notin> set (strftime_stamp now)"
  by (auto simp: strftime_stamp_def no_slash_padded split: prod.splits)

lemma no_slash_id:
  "CHR ''/'' \<notin> set (backup_filename_prefix st) \<Longrightarrow> CHR ''/'' \<notin> set trigger \<Longrightarrow>
     CHR ''/'' \<notin> set (build_backup_id st now trigger)"
  using no_slash_stamp by (auto simp: build_backup_id_def)

lemma resolve_backup_paths:
  assumes "CHR ''/'' \<notin> set i"
  shows "resolve t (backup_dump_path st i) = sibling t st (i @ ''.dump'')"
    "resolve t (backup_manifest_path st i) = sibling t st (i @ ''.manifest.json'')"
  using resolve_daily [OF plain_suffixed(1) [OF assms], of t st] resolve_daily [OF plain_suffixed(2) [OF assms], of t st]
  by (simp_all add: backup_dump_path_def backup_manifest_path_def)

text \<open>A new dump leaves the other backups complete, and a manifest beside it makes one more.\<close>

lemma write_dump_ok:
  fixes f :: host_file
  assumes "backups_ok t st h" "CHR ''/'' \<notin> set i" "i @ ''.manifest.json'' \<notin> set (manifest_names t st h)"
  defines "h' \<equiv> write_file t (backup_dump_path st i) f h"
  shows "backups_ok t st h'" "manifest_names t st h' = manifest_names t st h"
proof -
  have h': "h' = h\<lparr>h_files := AList.update (sibling t st (i @ ''.dump'')) f (h_files h)\<rparr>"
    by (simp add: h'_def write_file_def resolve_backup_paths [OF assms(2)])
  show names: "manifest_names t st h' = manifest_names t st h" by (simp add: h' names_update)
  have "complete t st h' n" if n: "n \<in> set (manifest_names t st h)" for n
  proof -
    have e: "endswith n ''.manifest.json''" and "n \<noteq> i @ ''.manifest.json''"
      using n assms(3) by (auto simp: in_manifest_names)
    then have "n \<noteq> i @ ''.dump''" "dump_name n \<noteq> i @ ''.dump''"
      using dump_not_manifest by (metis, auto simp: manifest_suffix)
    then show ?thesis using assms(1) n by (auto simp: backups_ok_def complete_def h' AList.update_conv')
  qed
  then show "backups_ok t st h'"
    using assms(1) names by (simp add: backups_ok_def h' AList.distinct_update)
qed

lemma write_manifest_ok:
  assumes "backups_ok t st h" "CHR ''/'' \<notin> set i"
    and "map_of (h_files h) (sibling t st (i @ ''.dump'')) = Some (Bytes b)"
    and "bm_local_dump_path m = backup_dump_path st i" "bm_checksum_sha256 m = bt_sha256 t b"
  defines "h' \<equiv> write_file t (backup_manifest_path st i) (ManifestText m) h"
  shows "backups_ok t st h'"
    "manifest_names t st h' = (if i @ ''.manifest.json'' \<in> set (manifest_names t st h)
       then manifest_names t st h else manifest_names t st h @ [i @ ''.manifest.json''])"
    "map_of (h_files h') (sibling t st (i @ ''.dump'')) = Some (Bytes b)"
proof -
  let ?n = "i @ ''.manifest.json''"
  have h': "h' = h\<lparr>h_files := AList.update (sibling t st ?n) (ManifestText m) (h_files h)\<rparr>"
    by (simp add: h'_def write_file_def resolve_backup_paths [OF assms(2)])
  have suf: "endswith ?n ''.manifest.json''" by (auto simp: manifest_suffix)
  show names: "manifest_names t st h' = (if ?n \<in> set (manifest_names t st h)
      then manifest_names t st h else manifest_names t st h @ [?n])"
    unfolding h' names_update using suf by simp
  have differ: "i @ ''.dump'' \<noteq> ?n" by simp
  then show dump: "map_of (h_files h') (sibling t st (i @ ''.dump'')) = Some (Bytes b)"
    using assms(3) by (simp add: h' AList.update_conv')
  have "complete t st h' n" if n: "n \<in> set (manifest_names t st h')" for n
  proof (cases "n = ?n")
    case True
    have "map_of (h_files h') (sibling t st ?n) = Some (ManifestText m)" by (simp add: h' AList.update_conv')
    with True dump assms(4,5) show ?thesis
      using plain_suffixed(1) [OF assms(2)] resolve_backup_paths(1) [OF assms(2), of t st]
      unfolding complete_def by (intro conjI exI [of _ m] exI [of _ b]) simp_all
  next
    case False
    then have "n \<in> set (manifest_names t st h)" using n unfolding names by (auto split: if_splits)
    moreover have "dump_name n \<noteq> ?n" using suf dump_name_not_manifest by metis
    ultimately show ?thesis
      using assms(1) False by (auto simp: backups_ok_def complete_def h' AList.update_conv')
  qed
  then show "backups_ok t st h'"
    using assms(1) by (simp add: backups_ok_def h' AList.distinct_update)
qed

text \<open>The bucket has no part in the files of the host.\<close>

lemma upload_object_effect: "upload_object t call key f h = (r, h') \<Longrightarrow> h_files h' = h_files h"
  by (auto simp: upload_object_def split: bucket_answer.splits option.splits)

lemma delete_keys_effect: "delete_keys t d keys h = (r, h') \<Longrightarrow> h_files h' = h_files h"
  by (induction t d keys h rule: delete_keys.induct) (auto split: bucket_answer.splits)

lemma upload_effect:
  assumes "upload_and_prune_offsite t st m dp mp h = (r, h')"
  shows "h_files h' = h_files h \<and> (\<forall>m' d. r = Inr (m', d) \<longrightarrow>
    bm_local_dump_path m' = bm_local_dump_path m \<and> bm_checksum_sha256 m' = bm_checksum_sha256 m \<and>
    bm_local_manifest_path m' = bm_local_manifest_path m)"
proof -
  have prune: "prune_offsite_backups t st h1 = (q, h2) \<Longrightarrow> h_files h2 = h_files h1" for h1 h2 q
    by (auto simp: prune_offsite_backups_def Let_def split: bucket_answer.splits dest: delete_keys_effect)
  show ?thesis
    using assms unfolding upload_and_prune_offsite_def Let_def
    by (auto split: sum.splits prod.splits dest!: upload_object_effect prune)
qed

lemma store_backup_effect:
  assumes ok: "backups_ok t st h" and i: "CHR ''/'' \<notin> set i" "i @ ''.manifest.json'' \<notin> set (manifest_names t st h)"
    and b: "map_of (h_files h) (sibling t st (i @ ''.dump'')) = Some (Bytes b)"
    and m: "bm_local_dump_path m = backup_dump_path st i" "bm_checksum_sha256 m = bt_sha256 t b"
      "bm_local_manifest_path m = backup_manifest_path st i"
    and s: "store_backup t st m h = (r, h')"
  shows "backups_ok t st h' \<and>
    (is_ok r \<longrightarrow> list_local_manifests t st h' = kept_manifests st (manifest_names t st h @ [i @ ''.manifest.json'']))"
proof -
  let ?n = "i @ ''.manifest.json''"
  define h1 where "h1 = write_file t (backup_manifest_path st i) (ManifestText m) h"
  note w1 = write_manifest_ok [OF ok i(1) b m(1,2), folded h1_def]
  have names1: "manifest_names t st h1 = manifest_names t st h @ [?n]" using w1(2) i(2) by simp
  have finish: "backups_ok t st h4 \<and> (is_ok r \<longrightarrow> list_local_manifests t st h4 = kept_manifests st (manifest_names t st h @ [?n]))"
    if "backups_ok t st h3" "manifest_names t st h3 = manifest_names t st h @ [?n]"
      "(case prune_local_backups t st h3 of (Inl e, h4) \<Rightarrow> fail e h4
        | (Inr local_deleted, h4) \<Rightarrow> ok (f local_deleted) h4) = (r, h4)" for h3 h4 f
    using prune_local_effect [OF that(1)] that(2,3) by auto
  show ?thesis
  proof (cases "offsite_enabled st")
    case False
    with s m(3) show ?thesis
      unfolding store_backup_def Let_def by (intro finish [OF w1(1) names1]) (auto simp: h1_def)
  next
    case True
    obtain q h2 where u: "upload_and_prune_offsite t st m (bm_local_dump_path m) (backup_manifest_path st i) h1 = (q, h2)"
      by fastforce
    have same: "h_files h2 = h_files h1" using upload_effect [OF u] by blast
    show ?thesis
    proof (cases q)
      case (Inl e)
      with s True u m(3) have "h' = h2" "r = Inl e" by (simp_all add: store_backup_def Let_def h1_def)
      with w1(1) complete_cong(3) [OF same] show ?thesis by simp
    next
      case (Inr p)
      obtain m' d where p: "p = (m', d)" by fastforce
      define h3 where "h3 = write_file t (backup_manifest_path st i) (ManifestText m') h2"
      have m': "bm_local_dump_path m' = backup_dump_path st i" "bm_checksum_sha256 m' = bt_sha256 t b"
        using upload_effect [OF u] m Inr p by simp_all
      have w2: "backups_ok t st h2" "map_of (h_files h2) (sibling t st (i @ ''.dump'')) = Some (Bytes b)"
        using w1 complete_cong(3) [OF same] same by simp_all
      note w3 = write_manifest_ok [OF w2(1) i(1) w2(2) m', folded h3_def]
      have names3: "manifest_names t st h3 = manifest_names t st h @ [?n]"
        using w3(2) names1 complete_cong(2) [OF same, of t st] by simp
      show ?thesis
        using s True u m(3) Inr p unfolding store_backup_def Let_def
        by (intro finish [OF w3(1) names3, of "\<lambda>l. \<lparr>bs_manifest = m', bs_local_deleted = l, bs_offsite_deleted = d\<rparr>"])
          (simp add: h1_def h3_def)
    qed
  qed
qed

lemma verify_dump_effect:
  "verify_dump t p h = (r, h') \<Longrightarrow> h_files h' = h_files h \<and> h_database h' = h_database h"
  unfolding verify_dump_def by (drule run_command_effect) simp

lemma pg_dump_effect:
  assumes "run_pg_dump t c p h = (r, h')"
  shows "\<exists>cs. h' = h\<lparr>h_commands := cs\<rparr> \<or> (\<exists>b. h' = write_file t p (Bytes b) (h\<lparr>h_commands := cs\<rparr>))"
    "r = Inr u \<Longrightarrow> \<exists>cs. h' = write_file t p (Bytes (bt_dump t (h_database h))) (h\<lparr>h_commands := cs\<rparr>)"
proof -
  let ?c = "[''pg_dump'', ''--format=custom'', ''--file='' @ p] @ server_args c @ [''--dbname'', ci_database c]"
  obtain q h1 where q: "run_command t ?c h = (q, h1)" by fastforce
  have h1: "h1 = h\<lparr>h_commands := h_commands h @ [?c]\<rparr>" using run_command_effect [OF q] .
  have r: "r = q" using assms q by (simp add: run_pg_dump_def Let_def)
  show "\<exists>cs. h' = h\<lparr>h_commands := cs\<rparr> \<or> (\<exists>b. h' = write_file t p (Bytes b) (h\<lparr>h_commands := cs\<rparr>))"
    using assms q h1 by (auto simp: run_pg_dump_def Let_def split: process.splits)
  assume "r = Inr u"
  then have "bt_outcome t (length (h_commands h)) ?c = Finished"
    using q r by (auto simp: run_command_def Let_def split: process.splits)
  then show "\<exists>cs. h' = write_file t p (Bytes (bt_dump t (h_database h))) (h\<lparr>h_commands := cs\<rparr>)"
    using assms q h1 by (auto simp: run_pg_dump_def Let_def)
qed

lemma run_backup_effect:
  assumes ok: "backups_ok t st h" and plain: "CHR ''/'' \<notin> set (backup_filename_prefix st)" "CHR ''/'' \<notin> set trigger"
    and new: "build_backup_id st now trigger @ ''.manifest.json'' \<notin> set (manifest_names t st h)"
    and run: "run_backup t st now trigger h = (r, h')"
  shows "backups_ok t st h' \<and> (is_ok r \<longrightarrow> list_local_manifests t st h' =
    kept_manifests st (manifest_names t st h @ [build_backup_id st now trigger @ ''.manifest.json'']))"
proof (cases "build_connection_info t")
  case (Inl e)
  with run ok show ?thesis by (auto simp: run_backup_def)
next
  case (Inr c)
  let ?i = "build_backup_id st now trigger"
  have i: "CHR ''/'' \<notin> set ?i" using plain by (rule no_slash_id)
  obtain r1 h1 where d: "run_pg_dump t c (backup_dump_path st ?i) h = (r1, h1)" by fastforce
  have start: "backups_ok t st (h\<lparr>h_commands := cs\<rparr>)" "manifest_names t st (h\<lparr>h_commands := cs\<rparr>) = manifest_names t st h" for cs
    using ok complete_cong [of "h\<lparr>h_commands := cs\<rparr>" h t st] by simp_all
  have ok1: "backups_ok t st h1 \<and> manifest_names t st h1 = manifest_names t st h"
    using pg_dump_effect(1) [OF d] write_dump_ok [OF start(1) i] new start by auto
  show ?thesis
  proof (cases r1)
    case (Inl e)
    with run Inr d ok1 show ?thesis by (auto simp: run_backup_def Let_def)
  next
    case r1: (Inr u)
    let ?b = "bt_dump t (h_database h)"
    obtain r2 h2 where v: "(if backup_verify_restore st then verify_dump t (backup_dump_path st ?i) h1 else ok () h1) = (r2, h2)"
      by fastforce
    have same: "h_files h2 = h_files h1"
      using v verify_dump_effect by (auto split: if_splits)
    have b: "map_of (h_files h2) (sibling t st (?i @ ''.dump'')) = Some (Bytes ?b)"
      using pg_dump_effect(2) [OF d r1] same
      by (auto simp: write_file_def resolve_backup_paths [OF i] AList.update_conv')
    have ok2: "backups_ok t st h2" "manifest_names t st h2 = manifest_names t st h"
      using ok1 complete_cong [OF same] by simp_all
    show ?thesis
    proof (cases r2)
      case (Inl e)
      with run Inr d r1 v ok2 show ?thesis by (auto simp: run_backup_def Let_def)
    next
      case r2: (Inr u2)
      have "read_file t (backup_dump_path st ?i) h2 = Some (Bytes ?b)"
        using b by (simp add: read_file_def resolve_backup_paths [OF i])
      then have s: "store_backup t st (new_manifest t st now trigger c ?b) h2 = (r, h')"
        using run Inr d r1 v r2 by (simp add: run_backup_def Let_def file_bytes_def)
      have "?i @ ''.manifest.json'' \<notin> set (manifest_names t st h2)" using new ok2(2) by simp
      from store_backup_effect [OF ok2(1) i this b _ _ _ s] ok2(2)
      show ?thesis by (simp add: new_manifest_def Let_def)
    qed
  qed
qed

section \<open>The database\<close>

lemma write_file_database [simp]: "h_database (write_file t p f h) = h_database h"
  by (simp add: write_file_def)

lemma unlink_database: "h_database (unlink_file t p h) = h_database h"
  "h_database (snd (unlink_if_exists t p d)) = h_database (snd d)"
  "h_database (unlink_all t ps h) = h_database h"
proof -
  show one: "h_database (unlink_file t p h) = h_database h" for p h by (simp add: unlink_file_def)
  show "h_database (snd (unlink_if_exists t p d)) = h_database (snd d)"
    by (auto simp: unlink_if_exists_def one split: prod.split)
  show "h_database (unlink_all t ps h) = h_database h"
    by (induction ps arbitrary: h) (simp_all add: unlink_all_def one)
qed

lemma prune_local_database: "prune_local_backups t st h = (r, h') \<Longrightarrow> h_database h' = h_database h"
proof -
  have "delete_stale t d ps h = (r, h') \<Longrightarrow> h_database h' = h_database h" for d ps h
  proof (induction t d ps h rule: delete_stale.induct)
    case (2 t d p ps h)
    show ?case
    proof (cases "load_manifest t p h")
      case (Inr m)
      obtain d1 h1 where u: "unlink_if_exists t p (unlink_if_exists t (bm_local_dump_path m) (d, h)) = (d1, h1)"
        by fastforce
      then have "h_database h1 = h_database h" using unlink_database(2) by (metis snd_conv)
      with 2 Inr u show ?thesis by simp
    qed (use 2 in simp)
  qed simp
  then show "prune_local_backups t st h = (r, h') \<Longrightarrow> h_database h' = h_database h"
    unfolding prune_local_backups_def .
qed

lemma upload_database:
  assumes "upload_and_prune_offsite t st m dp mp h = (r, h')"
  shows "h_database h' = h_database h"
proof -
  have up: "upload_object t call key f h1 = (q, h2) \<Longrightarrow> h_database h2 = h_database h1" for call key f h1 h2 q
    by (auto simp: upload_object_def split: bucket_answer.splits option.splits)
  have "delete_keys t d keys h1 = (q, h2) \<Longrightarrow> h_database h2 = h_database h1" for d keys h1 h2 q
    by (induction t d keys h1 rule: delete_keys.induct) (auto split: bucket_answer.splits)
  then have "prune_offsite_backups t st h1 = (q, h2) \<Longrightarrow> h_database h2 = h_database h1" for h1 h2 q
    by (auto simp: prune_offsite_backups_def Let_def split: bucket_answer.splits)
  with assms show ?thesis
    unfolding upload_and_prune_offsite_def Let_def
    by (auto split: sum.splits prod.splits dest!: up)
qed

lemma store_backup_database:
  "store_backup t st m h = (r, h') \<Longrightarrow> h_database h' = h_database h"
  unfolding store_backup_def Let_def
  by (auto split: sum.splits prod.splits if_splits dest!: prune_local_database upload_database)

lemma store_backup_checksum:
  "store_backup t st m h = (Inr x, h') \<Longrightarrow> bm_checksum_sha256 (bs_manifest x) = bm_checksum_sha256 m"
  unfolding store_backup_def Let_def
  by (auto split: sum.splits prod.splits if_splits dest!: upload_effect)

lemma run_backup_database:
  assumes "run_backup t st now trigger h = (r, h')"
  shows "h_database h' = h_database h"
    "r = Inr x \<Longrightarrow> bm_checksum_sha256 (bs_manifest x) = bt_sha256 t (bt_dump t (h_database h))"
proof -
  show "h_database h' = h_database h"
    using assms unfolding run_backup_def Let_def
    by (auto split: sum.splits prod.splits if_splits option.splits
        dest!: pg_dump_effect(1) store_backup_database verify_dump_effect)
  assume x: "r = Inr x"
  obtain c where c: "build_connection_info t = Inr c"
    using assms x by (auto simp: run_backup_def split: sum.splits)
  let ?p = "backup_dump_path st (build_backup_id st now trigger)"
  obtain u h1 where d: "run_pg_dump t c ?p h = (Inr u, h1)"
    using assms x c by (auto simp: run_backup_def Let_def split: sum.splits prod.splits)
  then obtain h2 f where f: "read_file t ?p h2 = Some f" "h_files h2 = h_files h1"
      "store_backup t st (new_manifest t st now trigger c (file_bytes t f)) h2 = (r, h')"
    using assms x c by (auto simp: run_backup_def Let_def split: sum.splits prod.splits option.splits if_splits
        dest: verify_dump_effect)
  have "read_file t ?p h1 = Some (Bytes (bt_dump t (h_database h)))"
    using pg_dump_effect(2) [OF d] by (auto simp: read_file_def write_file_def AList.update_conv')
  then have "f = Bytes (bt_dump t (h_database h))" using f(1,2) by (simp add: read_file_def)
  then show "bm_checksum_sha256 (bs_manifest x) = bt_sha256 t (bt_dump t (h_database h))"
    using store_backup_checksum f(3) x by (simp add: new_manifest_def Let_def file_bytes_def)
qed

text \<open>A dump is accepted when it is not empty and not too large.\<close>

lemma prepare_effect:
  assumes "prepare_restore_dump t st r h = (Inr (p, ps), h')"
  shows "h_database h' = h_database h \<and>
    (\<exists>f. read_file t p h' = Some f \<and> file_bytes t f \<noteq> [] \<and>
       int (length (file_bytes t f)) \<le> backup_max_restore_size_bytes st)"
proof -
  have valid: "\<exists>f. read_file t q h1 = Some f \<and> file_bytes t f \<noteq> [] \<and>
      int (length (file_bytes t f)) \<le> backup_max_restore_size_bytes st"
    if "validate_restore_dump_path t st root True q h1 = Inr ()" for root q h1
    using that by (auto simp: validate_restore_dump_path_def split: if_splits sum.splits option.splits)
  show ?thesis
    using assms unfolding prepare_restore_dump_def Let_def
    by (auto split: sum.splits if_splits bucket_answer.splits option.splits dest!: valid)
qed

lemma restore_steps_files:
  "terminate_database_connections t c h = (r, h') \<Longrightarrow> h_files h' = h_files h \<and> h_database h' = h_database h"
  "drop_and_create_database t c h = (r, h') \<Longrightarrow> h_files h' = h_files h"
  "run_pg_restore_direct t c p h = (r, h') \<Longrightarrow> h_files h' = h_files h \<and>
     (is_ok r \<longrightarrow> h_database h' = Some (bt_restored t (dump_bytes t p h)))"
  "run_pg_restore_filtered_sql t c p h = (r, h') \<Longrightarrow> h_files h' = h_files h \<and>
     (is_ok r \<longrightarrow> h_database h' = Some (bt_execute t (filter_script (bt_script t (dump_bytes t p h)))))"
  by (auto simp: terminate_database_connections_def drop_and_create_database_def run_pg_restore_direct_def
      run_pg_restore_filtered_sql_def set_database_def Let_def split: sum.splits prod.splits
      dest!: run_command_effect)

lemma restore_dump_effect:
  assumes "restore_dump t c p h = (r, h')" "is_ok r"
  shows "h_database h' \<in> {Some (bt_restored t (dump_bytes t p h)),
    Some (bt_execute t (filter_script (bt_script t (dump_bytes t p h))))}"
proof -
  have same: "h_files h1 = h_files h2 \<Longrightarrow> dump_bytes t p h1 = dump_bytes t p h2" for h1 h2
    by (simp add: dump_bytes_def read_file_def)
  show ?thesis
    using assms unfolding restore_dump_def
    by (auto split: sum.splits prod.splits if_splits dest!: restore_steps_files dest: same) (metis same)+
qed

section \<open>Properties\<close>


text \<open>The database changes only when the dump was checked, and then to what the dump holds.\<close>

lemma restore_record_checked:
  assumes "restore_record t st b h = (r, h')" "is_ok r \<or> h_database h' \<noteq> h_database h"
  shows "\<exists>bytes. bytes \<noteq> [] \<and> int (length bytes) \<le> backup_max_restore_size_bytes st \<and>
    bt_sha256 t bytes = bm_checksum_sha256 (br_manifest b) \<and>
    (is_ok r \<longrightarrow> h_database h' \<in>
      {Some (bt_restored t bytes), Some (bt_execute t (filter_script (bt_script t bytes)))})"
proof -
  obtain q2 h2 where prep: "prepare_restore_dump t st b h = (q2, h2)" by fastforce
  have refused: "q2 = Inl e \<Longrightarrow> h_database h2 = h_database h" for e
    using prep unfolding prepare_restore_dump_def Let_def
    by (auto simp: unlink_database split: sum.splits if_splits bucket_answer.splits option.splits)
  obtain p ps where q2: "q2 = Inr (p, ps)"
    using assms prep refused by (cases q2) (auto simp: restore_record_def)
  obtain f where f: "read_file t p h2 = Some f" "file_bytes t f \<noteq> []"
      "int (length (file_bytes t f)) \<le> backup_max_restore_size_bytes st"
      and h2: "h_database h2 = h_database h"
    using prepare_effect [of t st b h p ps h2] prep q2 by auto
  obtain q3 h3 where ver: "verify_backup_integrity t (br_manifest b) p h2 = (q3, h3)" by fastforce
  have h3: "h_database h3 = h_database h" "h_files h3 = h_files h2"
    using ver f(1) h2 by (auto simp: verify_backup_integrity_def dest!: verify_dump_effect split: if_splits)
  obtain u where q3: "q3 = Inr u"
    using assms prep q2 ver h3(1) by (cases q3) (auto simp: restore_record_def unlink_database)
  have sum: "bt_sha256 t (file_bytes t f) = bm_checksum_sha256 (br_manifest b)"
    using ver q3 f(1) by (auto simp: verify_backup_integrity_def split: if_splits)
  obtain c where c: "build_connection_info t = Inr c"
    using assms prep q2 ver q3 h3(1)
    by (cases "build_connection_info t") (auto simp: restore_record_def unlink_database)
  obtain q4 h4 where rest: "restore_dump t c p h3 = (q4, h4)" by fastforce
  have r: "r = q4" "h_database h' = h_database h4"
    using assms(1) prep q2 ver q3 c rest by (auto simp: restore_record_def unlink_database)
  have "dump_bytes t p h3 = file_bytes t f" using f(1) h3(2) by (simp add: dump_bytes_def read_file_def)
  with restore_dump_effect [OF rest] r f(2,3) sum show ?thesis by (intro exI [of _ "file_bytes t f"]) simp
qed

lemma get_backup_id: "get_backup t st i h = Inr b \<Longrightarrow> bm_backup_id (br_manifest b) = i"
  by (auto simp: get_backup_def split: sum.splits option.splits dest: find_key_Some)

text \<open>
  C4. A restore destroys nothing it has not saved and checked: if it succeeds, or changes the
  database at all, then a dump of the database as it was has been made, with its checksum in the
  manifest, and what it restores is the dump of the backup it was asked for, neither empty nor too
  large and with the checksum of the manifest. If it succeeds the database is that dump, loaded
  directly or, after a time-out setting was refused, from its script without that setting.
\<close>

theorem restore_touches_database_only_after_checks:
  assumes "restore_backup t st i now h = (r, h')" "is_ok r \<or> h_database h' \<noteq> h_database h"
  shows "\<exists>b pre bytes. get_backup t st i h = Inr b \<and> bm_backup_id (br_manifest b) = i \<and>
    fst (run_backup t st now ''pre-restore'' h) = Inr pre \<and>
    bm_checksum_sha256 (bs_manifest pre) = bt_sha256 t (bt_dump t (h_database h)) \<and>
    bytes \<noteq> [] \<and> int (length bytes) \<le> backup_max_restore_size_bytes st \<and>
    bt_sha256 t bytes = bm_checksum_sha256 (br_manifest b) \<and>
    (is_ok r \<longrightarrow> h_database h' \<in>
      {Some (bt_restored t bytes), Some (bt_execute t (filter_script (bt_script t bytes)))})"
proof -
  obtain b where b: "get_backup t st i h = Inr b"
    using assms by (auto simp: restore_backup_def split: sum.splits)
  obtain q h1 where run: "run_backup t st now ''pre-restore'' h = (q, h1)" by fastforce
  have h1: "h_database h1 = h_database h" using run_backup_database(1) [OF run] .
  obtain pre where pre: "q = Inr pre"
    using assms b run h1 by (cases q) (auto simp: restore_backup_def)
  obtain q2 h2 where rest: "restore_record t st b h1 = (q2, h2)" by fastforce
  have r: "is_ok r = is_ok q2" "h' = h2"
    using assms(1) b run pre rest by (cases q2; auto simp: restore_backup_def)+
  have "is_ok q2 \<or> h_database h2 \<noteq> h_database h1" using assms(2) r h1 by simp
  from restore_record_checked [OF rest this] show ?thesis
    using b get_backup_id [OF b] run_backup_database(2) [OF run pre] run pre r by auto
qed

text \<open>By hand the checks are the same, but what is in the database is not saved before.\<close>

lemma manual_restore_checked:
  assumes "manual_restore_backup t st i confirmation now h = (r, h')" "is_ok r \<or> h_database h' \<noteq> h_database h"
  shows "confirmation = ''RESTORE:'' @ i \<and> (\<exists>b bytes. get_backup t st i h = Inr b \<and> bm_backup_id (br_manifest b) = i \<and>
    bytes \<noteq> [] \<and> int (length bytes) \<le> backup_max_restore_size_bytes st \<and>
    bt_sha256 t bytes = bm_checksum_sha256 (br_manifest b) \<and>
    (is_ok r \<longrightarrow> h_database h' \<in>
      {Some (bt_restored t bytes), Some (bt_execute t (filter_script (bt_script t bytes)))}))"
proof -
  obtain b where b: "confirmation = ''RESTORE:'' @ i" "get_backup t st i h = Inr b"
    using assms by (auto simp: manual_restore_backup_def Let_def split: if_splits sum.splits)
  obtain q h1 where rest: "restore_record t st b h = (q, h1)" by fastforce
  have r: "is_ok r = is_ok q" "h' = h1"
    using assms(1) b rest by (cases q; auto simp: manual_restore_backup_def)+
  with restore_record_checked [OF rest] assms(2) get_backup_id [OF b(2)] b show ?thesis by auto
qed

section \<open>Witnesses\<close>

definition sample_tools :: tools where
  "sample_tools =
     \<lparr>bt_url = \<lparr>url_drivername = ''postgresql+asyncpg'', url_database = Some ''hub'', url_username = Some ''u'',
        url_dbpassword = None, url_host = Some ''db'', url_port = Some 5432\<rparr>,
      bt_cwd = [''srv''], bt_sha256 = (\<lambda>b. b), bt_json = (\<lambda>_. ''{}''), bt_outcome = (\<lambda>_ _. Finished),
      bt_dump = (\<lambda>d. case d of None \<Rightarrow> ''-'' | Some s \<Rightarrow> CHR ''#'' # s), bt_restored = tl,
      bt_script = tl, bt_execute = (\<lambda>s. s), bt_partial = (\<lambda>s. s), bt_bucket = (\<lambda>_ _. BucketDone),
      bt_temp_file = ''/tmp/t.dump'', bt_temp_dir = ''/tmp''\<rparr>"

definition sample_host :: host where
  "sample_host = \<lparr>h_files = [], h_bucket = [], h_database = Some ''old'', h_commands = []\<rparr>"

definition backup_settings :: "int \<Rightarrow> settings" where
  "backup_settings n = default_settings\<lparr>backup_filename_prefix := ''b'', backup_retention_local := n\<rparr>"

definition saved_host :: "int \<Rightarrow> host" where
  "saved_host n = set_database (Some ''new'')
     (snd (run_backup sample_tools (backup_settings n) 0 ''manual'' sample_host))"

lemma sample_backup_ok: "is_ok (fst (run_backup sample_tools (backup_settings 2) 0 ''manual'' sample_host))"
  by code_simp

lemma sample_host_names: "manifest_names t st sample_host = []"
  by (simp add: manifest_names_def sample_host_def)

lemma sample_host_ok: "backups_ok t st sample_host"
  unfolding backups_ok_def sample_host_names by (simp add: sample_host_def)

lemma backup_settings_prefix: "backup_filename_prefix (backup_settings n) = ''b''"
  by (simp add: backup_settings_def)


lemma sample_restore:
  "h_database (snd (restore_backup sample_tools (backup_settings 2) ''b-19700101T000000Z'' (days 400)
     (saved_host 2))) = Some ''old''"
  by code_simp

lemma saved_host_database: "h_database (saved_host n) = Some ''new''"
  by (simp add: saved_host_def set_database_def)

lemma restore_touches_database_only_after_checks_witness:
  "\<exists>b bytes. get_backup sample_tools (backup_settings 2) ''b-19700101T000000Z'' (saved_host 2) = Inr b \<and>
     bytes \<noteq> [] \<and> bt_sha256 sample_tools bytes = bm_checksum_sha256 (br_manifest b)"
proof -
  let ?r = "restore_backup sample_tools (backup_settings 2) ''b-19700101T000000Z'' (days 400) (saved_host 2)"
  have "h_database (snd ?r) \<noteq> h_database (saved_host 2)"
    unfolding sample_restore saved_host_database by simp
  with restore_touches_database_only_after_checks [of sample_tools "backup_settings 2" "''b-19700101T000000Z''"
    "days 400" "saved_host 2" "fst ?r" "snd ?r"]
  show ?thesis by auto
qed

section \<open>Defects in small worlds\<close>

text \<open>With one backup kept, the backup made before a restore deletes the one to be restored.\<close>

lemma pre_restore_backup_deletes_target:
  "fst (restore_backup sample_tools (backup_settings 1) ''b-19700101T000000Z'' (days 400) (saved_host 1)) =
     Inl (BackupError ''Backup dump is not available for restore'')"
  by code_simp

text \<open>
  The copy of the manifest in the bucket has no keys: once the local files are gone, the backup is
  listed as available in the bucket and cannot be restored.
\<close>

definition bucket_settings :: settings where
  "bucket_settings = (backup_settings 7)\<lparr>storage_backend := ''s3'', s3_bucket := Some ''k'', s3_region := Some ''r'',
     s3_endpoint_url := Some ''e'', s3_access_key_id := Some ''a'', s3_secret_access_key := Some ''s''\<rparr>"

definition lost_host :: host where
  "lost_host = (snd (run_backup sample_tools bucket_settings 0 ''manual'' sample_host))\<lparr>h_files := []\<rparr>"

lemma bucket_copy_cannot_be_restored:
  "(case get_backup sample_tools bucket_settings ''b-19700101T000000Z'' lost_host of
      Inl _ \<Rightarrow> False | Inr r \<Rightarrow> br_available_offsite r) \<and>
   fst (restore_backup sample_tools bucket_settings ''b-19700101T000000Z'' (days 400) lost_host) =
     Inl (BackupError ''Backup dump is not available for restore'')"
  by code_simp

end
