(* ===== verification/Admin.thy ===== *)
theory Admin
  imports Delivery Backup
begin

text \<open>
  \<^verbatim>\<open>app/modules/admin/service.py\<close> with \<^verbatim>\<open>admin/repository.py\<close> and the list of users of
  \<^verbatim>\<open>users/repository.py\<close>: accounts and their roles, the scopes of moderators, reports, the audit
  log, the dashboard, and the backups. Every entry that the service makes in the audit log is
  without an actor.

  \<open>ids\<close> numbers the identifiers of a request: 0 the new row, 1 the audit row.
\<close>

definition invalidate_dashboard_cache :: "world \<Rightarrow> world" where
  "invalidate_dashboard_cache w = cache_do (CacheInvalidatePrefix ''admin:dashboard_'') w"

section \<open>Accounts\<close>

definition require_user :: "string \<Rightarrow> world \<Rightarrow> user res" where
  "require_user i w =
     (case get_user i w of None \<Rightarrow> Inl (ResourceNotFound ''User not found'') | Some u \<Rightarrow> Inr u)"

definition active_admins :: "world \<Rightarrow> user list" where
  "active_admins w = filter (\<lambda>u. u_role u = ADMIN \<and> u_is_active u) (db_users w)"

definition ensure_not_last_active_admin :: "user \<Rightarrow> world \<Rightarrow> unit res" where
  "ensure_not_last_active_admin user w =
     (if u_is_active user \<and> length (active_admins w) \<le> 1
      then Inl (ValidationAppError ''At least one active admin must remain'') else Inr ())"

definition store_user :: "user \<Rightarrow> world \<Rightarrow> world" where
  "store_user u w = w\<lparr>db_users := store_row u_id u (db_users w)\<rparr>"

definition update_user_role ::
  "(nat \<Rightarrow> string) \<Rightarrow> int \<Rightarrow> string \<Rightarrow> user_role \<Rightarrow> user option \<Rightarrow> world \<Rightarrow> user res \<times> world"
where
  "update_user_role ids now uid role actor w =
     (case require_user uid w of
        Inl e \<Rightarrow> fail e w
      | Inr user \<Rightarrow>
          (if map_option u_id actor = Some (u_id user) \<and> role \<noteq> ADMIN
           then fail (PermissionDenied ''Admin cannot demote their own account'') w
           else
             (case (if u_role user = ADMIN \<and> role \<noteq> ADMIN then ensure_not_last_active_admin user w else Inr ()) of
                Inl e \<Rightarrow> fail e w
              | Inr _ \<Rightarrow>
                  (let user' = user\<lparr>u_role := role\<rparr>
                   in ok user' (invalidate_dashboard_cache
                        (audit (ids 1) now ''user_role_updated'' ''user'' None (Some (u_id user))
                          (Some (role_value role)) (store_user user' w)))))))"

text \<open>
  The payload is a dictionary of JSON values. A value that the column does not take, which the
  request schema leaves to the null of a column that must not be null, is refused by the database,
  as is a university that does not exist.
\<close>

definition user_update_fields :: "string list" where
  "user_update_fields = [''full_name'', ''avatar_url'', ''university_id'', ''is_active'', ''is_verified'']"

fun json_truthy :: "json \<Rightarrow> bool" where
  "json_truthy JNull = False"
| "json_truthy (JBool b) = b"
| "json_truthy (JInt i) = (i \<noteq> 0)"
| "json_truthy (JStr s) = (s \<noteq> [])"
| "json_truthy (JList l) = (l \<noteq> [])"
| "json_truthy (JObj o') = (o' \<noteq> [])"

fun json_text :: "json \<Rightarrow> string option option" where
  "json_text (JStr s) = Some (Some s)"
| "json_text JNull = Some None"
| "json_text _ = None"

definition set_user_field :: "string \<times> json \<Rightarrow> user \<Rightarrow> user res" where
  "set_user_field fv u =
     (let (field, v) = fv in
      if field = ''full_name'' then (case v of JStr s \<Rightarrow> Inr (u\<lparr>u_full_name := s\<rparr>) | _ \<Rightarrow> Inl IntegrityError)
      else if field = ''avatar_url''
      then (case json_text v of Some s \<Rightarrow> Inr (u\<lparr>u_avatar_url := s\<rparr>) | None \<Rightarrow> Inl IntegrityError)
      else if field = ''university_id''
      then (case json_text v of Some s \<Rightarrow> Inr (u\<lparr>u_university_id := s\<rparr>) | None \<Rightarrow> Inl IntegrityError)
      else if field = ''is_active'' then (case v of JBool b \<Rightarrow> Inr (u\<lparr>u_is_active := b\<rparr>) | _ \<Rightarrow> Inl IntegrityError)
      else if field = ''is_verified''
      then (case v of JBool b \<Rightarrow> Inr (u\<lparr>u_is_verified := b\<rparr>) | _ \<Rightarrow> Inl IntegrityError)
      else Inr u)"

fun set_user_fields :: "(string \<times> json) list \<Rightarrow> user \<Rightarrow> user res" where
  "set_user_fields [] u = Inr u"
| "set_user_fields (fv # fvs) u = (case set_user_field fv u of Inl e \<Rightarrow> Inl e | Inr u' \<Rightarrow> set_user_fields fvs u')"

definition ensure_university_exists :: "string \<Rightarrow> world \<Rightarrow> unit res" where
  "ensure_university_exists i w =
     (if \<not> list_ex (\<lambda>u. un_id u = i) (db_universities w)
      then Inl (ResourceNotFound ''University not found'') else Inr ())"

definition flush_user :: "user \<Rightarrow> world \<Rightarrow> world res" where
  "flush_user u w =
     (case u_university_id u of
        None \<Rightarrow> Inr (store_user u w)
      | Some i \<Rightarrow> (if get_university i w = None then Inl IntegrityError else Inr (store_user u w)))"

definition chosen_university :: "(string \<times> json) list \<Rightarrow> string option" where
  "chosen_university payload =
     (case map_of payload ''university_id'' of Some (JStr s) \<Rightarrow> (if s = [] then None else Some s) | _ \<Rightarrow> None)"

definition update_user_checks ::
  "(string \<times> json) list \<Rightarrow> user option \<Rightarrow> user \<Rightarrow> world \<Rightarrow> unit res"
where
  "update_user_checks payload actor user w =
     (if \<not> set (map fst payload) \<subseteq> set user_update_fields
      then Inl (ValidationAppError ''User update contains unsupported fields'')
      else
        (case (case chosen_university payload of None \<Rightarrow> Inr () | Some i \<Rightarrow> ensure_university_exists i w) of
           Inl e \<Rightarrow> Inl e
         | Inr _ \<Rightarrow>
             (if map_of payload ''is_active'' \<noteq> Some (JBool False) then Inr ()
              else if map_option u_id actor = Some (u_id user)
              then Inl (PermissionDenied ''Admin cannot disable their own account'')
              else if u_role user = ADMIN then ensure_not_last_active_admin user w
              else Inr ())))"

definition with_chosen_university :: "(string \<times> json) list \<Rightarrow> user \<Rightarrow> user" where
  "with_chosen_university payload u =
     (if chosen_university payload = None then u
      else u\<lparr>u_pending_university_name := None, u_university_status := ''selected''\<rparr>)"

definition update_user ::
  "(nat \<Rightarrow> string) \<Rightarrow> int \<Rightarrow> string \<Rightarrow> (string \<times> json) list \<Rightarrow> user option \<Rightarrow> world \<Rightarrow> user res \<times> world"
where
  "update_user ids now uid payload actor w =
     (case require_user uid w of
        Inl e \<Rightarrow> fail e w
      | Inr user \<Rightarrow>
     (case update_user_checks payload actor user w of
        Inl e \<Rightarrow> fail e w
      | Inr _ \<Rightarrow>
     (case set_user_fields payload user of
        Inl e \<Rightarrow> fail e w
      | Inr user1 \<Rightarrow>
     (case flush_user (with_chosen_university payload user1) w of
        Inl e \<Rightarrow> fail e w
      | Inr w1 \<Rightarrow>
          ok (with_chosen_university payload user1) (invalidate_dashboard_cache
            (audit (ids 1) now ''user_updated'' ''user'' None (Some (u_id user)) None w1))))))"

definition set_user_status ::
  "(nat \<Rightarrow> string) \<Rightarrow> int \<Rightarrow> string \<Rightarrow> bool \<Rightarrow> user option \<Rightarrow> world \<Rightarrow> user res \<times> world"
where
  "set_user_status ids now uid is_active actor w =
     update_user ids now uid [(''is_active'', JBool is_active)] actor w"

definition verify_user :: "(nat \<Rightarrow> string) \<Rightarrow> int \<Rightarrow> string \<Rightarrow> bool \<Rightarrow> world \<Rightarrow> user res \<times> world" where
  "verify_user ids now uid is_verified w =
     update_user ids now uid [(''is_verified'', JBool is_verified)] None w"

section \<open>Lists of users\<close>

definition parse_role :: "string \<Rightarrow> user_role res" where
  "parse_role s =
     (if s = ''student'' then Inr STUDENT else if s = ''moderator'' then Inr MODERATOR
      else if s = ''admin'' then Inr ADMIN else Inl (ValueError ''is not a valid UserRole''))"

definition list_users ::
  "externals \<Rightarrow> string option \<Rightarrow> string option \<Rightarrow> bool option \<Rightarrow> string option \<Rightarrow> int \<Rightarrow> int \<Rightarrow> world \<Rightarrow>
   (user list \<times> int) res"
where
  "list_users x q role is_active university_id page page_size w =
     (let pattern = ''%'' @ escape_like (lower (the q)) @ ''%'';
          by_text = (\<lambda>u. truthy q \<longrightarrow> ilike x (lower (u_full_name u)) pattern \<or> ilike x (lower (u_email u)) pattern)
      in case (if truthy role then map_sum id Some (parse_role (the role)) else Inr None) of
           Inl e \<Rightarrow> Inl e
         | Inr r \<Rightarrow>
             (let rows = filter (\<lambda>u. by_text u \<and> (case r of None \<Rightarrow> True | Some r' \<Rightarrow> u_role u = r') \<and>
                    (case is_active of None \<Rightarrow> True | Some b \<Rightarrow> u_is_active u = b) \<and>
                    (truthy university_id \<longrightarrow> u_university_id u = university_id)) (db_users w)
              in map_sum id (\<lambda>items. (items, int (length rows)))
                   (select_page page page_size (order_by_desc u_created_at rows))))"

section \<open>Scopes of moderators\<close>

record moderator_scope_create =
  ms_university_id :: "string option"
  ms_faculty_id :: "string option"
  ms_subject_id :: "string option"

definition add_scope ::
  "string \<Rightarrow> string \<Rightarrow> moderator_scope_create \<Rightarrow> world \<Rightarrow> world res"
where
  "add_scope i uid payload w =
     (if truthy (ms_university_id payload)
      then
        (let t = the (ms_university_id payload) in
         if get_university t w = None \<or>
            list_ex (\<lambda>s. mus_id s = i \<or> mus_user_id s = uid \<and> mus_university_id s = t) (db_moderator_university_scopes w)
         then Inl IntegrityError
         else Inr (w\<lparr>db_moderator_university_scopes := db_moderator_university_scopes w @
                [\<lparr>mus_id = i, mus_user_id = uid, mus_university_id = t\<rparr>]\<rparr>))
      else if truthy (ms_faculty_id payload)
      then
        (let t = the (ms_faculty_id payload) in
         if get_faculty t w = None \<or>
            list_ex (\<lambda>s. mfs_id s = i \<or> mfs_user_id s = uid \<and> mfs_faculty_id s = t) (db_moderator_faculty_scopes w)
         then Inl IntegrityError
         else Inr (w\<lparr>db_moderator_faculty_scopes := db_moderator_faculty_scopes w @
                [\<lparr>mfs_id = i, mfs_user_id = uid, mfs_faculty_id = t\<rparr>]\<rparr>))
      else
        (let t = the (ms_subject_id payload) in
         if get_subject t w = None \<or>
            list_ex (\<lambda>s. mss_id s = i \<or> mss_user_id s = uid \<and> mss_subject_id s = t) (db_moderator_subject_scopes w)
         then Inl IntegrityError
         else Inr (w\<lparr>db_moderator_subject_scopes := db_moderator_subject_scopes w @
                [\<lparr>mss_id = i, mss_user_id = uid, mss_subject_id = t\<rparr>]\<rparr>)))"

definition add_moderator_scope ::
  "(nat \<Rightarrow> string) \<Rightarrow> int \<Rightarrow> string \<Rightarrow> moderator_scope_create \<Rightarrow> world \<Rightarrow> string res \<times> world"
where
  "add_moderator_scope ids now uid payload w =
     (case require_user uid w of
        Inl e \<Rightarrow> fail e w
      | Inr user \<Rightarrow>
          (if length (filter truthy [ms_university_id payload, ms_faculty_id payload, ms_subject_id payload]) \<noteq> 1
           then fail (ValidationAppError ''Provide exactly one scope target'') w
           else
             (case add_scope (ids 0) uid payload w of
                Inl e \<Rightarrow> fail e w
              | Inr w1 \<Rightarrow>
                  ok (ids 0) (invalidate_dashboard_cache
                    (audit (ids 1) now ''moderator_scope_added'' ''user_scope'' None (Some uid) None
                      (if u_role user = STUDENT then store_user (user\<lparr>u_role := MODERATOR\<rparr>) w1 else w1))))))"

record scope_row =
  sr_id :: string
  sr_scope_type :: string
  sr_scope_id :: string
  sr_name :: string

definition list_moderator_scopes :: "string \<Rightarrow> world \<Rightarrow> scope_row list" where
  "list_moderator_scopes uid w =
     List.map_filter (\<lambda>s. map_option (\<lambda>t. \<lparr>sr_id = mus_id s, sr_scope_type = ''university'',
         sr_scope_id = un_id t, sr_name = un_name t\<rparr>) (get_university (mus_university_id s) w))
       (filter (\<lambda>s. mus_user_id s = uid) (db_moderator_university_scopes w)) @
     List.map_filter (\<lambda>s. map_option (\<lambda>t. \<lparr>sr_id = mfs_id s, sr_scope_type = ''faculty'',
         sr_scope_id = fa_id t, sr_name = fa_name t\<rparr>) (get_faculty (mfs_faculty_id s) w))
       (filter (\<lambda>s. mfs_user_id s = uid) (db_moderator_faculty_scopes w)) @
     List.map_filter (\<lambda>s. map_option (\<lambda>t. \<lparr>sr_id = mss_id s, sr_scope_type = ''subject'',
         sr_scope_id = su_id t, sr_name = su_name t\<rparr>) (get_subject (mss_subject_id s) w))
       (filter (\<lambda>s. mss_user_id s = uid) (db_moderator_subject_scopes w))"

text \<open>The first of the three tables that has the scope, for this user.\<close>

definition remove_scope :: "string \<Rightarrow> string \<Rightarrow> world \<Rightarrow> world option" where
  "remove_scope uid i w =
     (if list_ex (\<lambda>s. mus_id s = i \<and> mus_user_id s = uid) (db_moderator_university_scopes w)
      then Some (w\<lparr>db_moderator_university_scopes := delete_where (\<lambda>s. mus_id s = i) (db_moderator_university_scopes w)\<rparr>)
      else if list_ex (\<lambda>s. mfs_id s = i \<and> mfs_user_id s = uid) (db_moderator_faculty_scopes w)
      then Some (w\<lparr>db_moderator_faculty_scopes := delete_where (\<lambda>s. mfs_id s = i) (db_moderator_faculty_scopes w)\<rparr>)
      else if list_ex (\<lambda>s. mss_id s = i \<and> mss_user_id s = uid) (db_moderator_subject_scopes w)
      then Some (w\<lparr>db_moderator_subject_scopes := delete_where (\<lambda>s. mss_id s = i) (db_moderator_subject_scopes w)\<rparr>)
      else None)"

definition delete_moderator_scope ::
  "(nat \<Rightarrow> string) \<Rightarrow> int \<Rightarrow> string \<Rightarrow> string \<Rightarrow> world \<Rightarrow> unit res \<times> world"
where
  "delete_moderator_scope ids now uid scope_id w =
     (case remove_scope uid scope_id w of
        None \<Rightarrow> fail (ResourceNotFound ''Moderator scope not found'') w
      | Some w1 \<Rightarrow>
          ok () (invalidate_dashboard_cache
            (audit (ids 1) now ''moderator_scope_deleted'' ''user_scope'' None (Some uid) (Some scope_id) w1)))"

text \<open>The scopes of the 500 newest users, whatever their role.\<close>

definition list_all_moderator_scopes :: "world \<Rightarrow> (string \<times> string \<times> scope_row) list res" where
  "list_all_moderator_scopes w =
     map_sum id (\<lambda>users. concat (map (\<lambda>u. map (\<lambda>s. (u_id u, u_full_name u, s)) (list_moderator_scopes (u_id u) w)) users))
       (select_page 1 500 (order_by_desc u_created_at (db_users w)))"

section \<open>Reports on materials\<close>

definition find_report :: "string \<Rightarrow> world \<Rightarrow> material_report res" where
  "find_report i w =
     (case find (\<lambda>r. mr_id r = i) (db_material_reports w) of
        None \<Rightarrow> Inl (ResourceNotFound ''Report not found'') | Some r \<Rightarrow> Inr r)"

definition list_reports ::
  "int \<Rightarrow> int \<Rightarrow> report_status option \<Rightarrow> world \<Rightarrow> (material_report list \<times> int) res"
where
  "list_reports page page_size status w =
     (let rows = filter (\<lambda>r. case status of None \<Rightarrow> True | Some s \<Rightarrow> mr_status r = s) (db_material_reports w)
      in map_sum id (\<lambda>items. (items, int (length rows)))
           (select_page page page_size (order_by_desc mr_created_at rows)))"

text \<open>
  \<open>update_report\<close> sets whatever attributes the request names. A relationship takes no JSON value;
  the parameters of the UPDATE take text for text, the name of a status and no moment; then the
  database looks at the constraints. A name that is not a column changes nothing.
\<close>

definition report_text_columns :: "string list" where
  "report_text_columns =
     [''id'', ''material_id'', ''reporter_id'', ''reviewer_id'', ''reason'', ''details'', ''resolution_note'']"

definition report_required :: "string list" where
  "report_required = [''id'', ''material_id'', ''reporter_id'', ''reason'', ''status'', ''created_at'',
     ''updated_at'', ''material'', ''reporter'']"

definition status_of_name :: "string \<Rightarrow> report_status option" where
  "status_of_name s =
     map_of [(''OPEN'', ReportOpen), (''RESOLVED'', ReportResolved), (''DISMISSED'', ReportDismissed)] s"

definition column_width :: "string \<Rightarrow> nat option" where
  "column_width field =
     (if field = ''reason'' then Some 128 else if field \<in> {''details'', ''resolution_note''} then None
      else Some 36)"

definition report_value_accepted :: "string \<times> json \<Rightarrow> bool" where
  "report_value_accepted fv =
     (case fv of (field, v) \<Rightarrow>
        if field \<in> set report_text_columns
        then (case v of JStr s \<Rightarrow> (case column_width field of None \<Rightarrow> True | Some n \<Rightarrow> length s \<le> n)
              | JNull \<Rightarrow> True | _ \<Rightarrow> False)
        else if field = ''status'' then (case v of JStr s \<Rightarrow> status_of_name s \<noteq> None | JNull \<Rightarrow> True | _ \<Rightarrow> False)
        else if field \<in> {''reviewed_at'', ''created_at'', ''updated_at''} then v = JNull
        else True)"

definition set_report_column :: "string \<times> json \<Rightarrow> material_report \<Rightarrow> material_report" where
  "set_report_column fv r =
     (case fv of
        (field, JStr s) \<Rightarrow>
          (if field = ''id'' then r\<lparr>mr_id := s\<rparr>
           else if field = ''material_id'' then r\<lparr>mr_material_id := s\<rparr>
           else if field = ''reporter_id'' then r\<lparr>mr_reporter_id := s\<rparr>
           else if field = ''reviewer_id'' then r\<lparr>mr_reviewer_id := Some s\<rparr>
           else if field = ''reason'' then r\<lparr>mr_reason := s\<rparr>
           else if field = ''details'' then r\<lparr>mr_details := Some s\<rparr>
           else if field = ''resolution_note'' then r\<lparr>mr_resolution_note := Some s\<rparr>
           else if field = ''status'' then
             (case status_of_name s of None \<Rightarrow> r | Some st \<Rightarrow> r\<lparr>mr_status := st\<rparr>)
           else r)
      | (field, JNull) \<Rightarrow>
          (if field = ''reviewer_id'' then r\<lparr>mr_reviewer_id := None\<rparr>
           else if field = ''details'' then r\<lparr>mr_details := None\<rparr>
           else if field = ''resolution_note'' then r\<lparr>mr_resolution_note := None\<rparr>
           else if field = ''reviewed_at'' then r\<lparr>mr_reviewed_at := None\<rparr>
           else r)
      | _ \<Rightarrow> r)"

definition report_references_ok :: "string \<Rightarrow> material_report \<Rightarrow> world \<Rightarrow> bool" where
  "report_references_ok old_id r w \<longleftrightarrow>
     get_material (mr_material_id r) w \<noteq> None \<and> get_user (mr_reporter_id r) w \<noteq> None \<and>
     (case mr_reviewer_id r of None \<Rightarrow> True | Some i \<Rightarrow> get_user i w \<noteq> None) \<and>
     (mr_id r = old_id \<or> \<not> list_ex (\<lambda>q. mr_id q = mr_id r) (db_material_reports w))"

definition set_report_columns ::
  "(string \<times> json) list \<Rightarrow> material_report \<Rightarrow> world \<Rightarrow> material_report res"
where
  "set_report_columns payload r w =
     (let r' = fold set_report_column payload r in
      if list_ex (\<lambda>(field, v). field \<in> {''material'', ''reporter''} \<and> v \<noteq> JNull) payload
      then Inl (ValueError ''not a mapped object'')
      else if \<not> list_all report_value_accepted payload
      then Inl (DatabaseError ''invalid value for a column'')
      else if list_ex (\<lambda>(field, v). field \<in> set report_required \<and> v = JNull) payload \<or>
              \<not> report_references_ok (mr_id r) r' w
      then Inl IntegrityError
      else Inr r')"

definition write_report :: "string \<Rightarrow> material_report \<Rightarrow> world \<Rightarrow> world" where
  "write_report i r w =
     w\<lparr>db_material_reports := update_where (\<lambda>q. mr_id q = i) (\<lambda>_. r) (db_material_reports w)\<rparr>"

text \<open>The report is read again under the old identifier, after the commit.\<close>

definition update_report ::
  "(nat \<Rightarrow> string) \<Rightarrow> int \<Rightarrow> string \<Rightarrow> (string \<times> json) list \<Rightarrow> world \<Rightarrow> material_report res \<times> world"
where
  "update_report ids now report_id payload w =
     (case find_report report_id w of
        Inl e \<Rightarrow> fail e w
      | Inr r \<Rightarrow>
          (case set_report_columns payload r w of
             Inl e \<Rightarrow> fail e w
           | Inr r' \<Rightarrow>
               (let w1 = invalidate_dashboard_cache
                      (audit (ids 1) now ''report_updated'' ''material_report'' None (Some (mr_id r'))
                        None (write_report report_id r' w))
                in (find_report report_id w1, w1))))"

definition resolve_report ::
  "(nat \<Rightarrow> string) \<Rightarrow> int \<Rightarrow> string \<Rightarrow> string option \<Rightarrow> world \<Rightarrow> material_report res \<times> world"
where
  "resolve_report ids now report_id resolution_note w =
     (case find_report report_id w of
        Inl e \<Rightarrow> fail e w
      | Inr r \<Rightarrow>
          (let r' = r\<lparr>mr_status := ReportResolved, mr_resolution_note := resolution_note,
                 mr_reviewed_at := Some now\<rparr>;
               w1 = audit (ids 1) now ''report_resolved'' ''material_report'' None (Some (mr_id r))
                 resolution_note (write_report report_id r' w);
               w2 = invalidate_dashboard_cache (w1\<lparr>db_notifications := db_notifications w1 @
                 [\<lparr>no_id = ids 0, no_user_id = mr_reporter_id r, no_title = ''Your report was resolved'',
                   no_body = ''Report for material '' @ mr_material_id r @ '' has been resolved.'',
                   no_is_read = False, no_created_at = now\<rparr>]\<rparr>)
           in (find_report report_id w2, w2)))"

definition dismiss_report ::
  "(nat \<Rightarrow> string) \<Rightarrow> int \<Rightarrow> string \<Rightarrow> string option \<Rightarrow> world \<Rightarrow> material_report res \<times> world"
where
  "dismiss_report ids now report_id resolution_note w =
     (case find_report report_id w of
        Inl e \<Rightarrow> fail e w
      | Inr r \<Rightarrow>
          (let r' = r\<lparr>mr_status := ReportDismissed, mr_resolution_note := resolution_note,
                 mr_reviewed_at := Some now\<rparr>;
               w1 = invalidate_dashboard_cache
                 (audit (ids 1) now ''report_dismissed'' ''material_report'' None (Some (mr_id r))
                   resolution_note (write_report report_id r' w))
           in (find_report report_id w1, w1)))"

section \<open>The audit log and the dashboard\<close>

definition list_audit_logs ::
  "string option \<Rightarrow> string option \<Rightarrow> string option \<Rightarrow> int \<Rightarrow> int \<Rightarrow> world \<Rightarrow> (audit_log list \<times> int) res"
where
  "list_audit_logs actor_id entity action page page_size w =
     (let rows = filter (\<lambda>a. (truthy actor_id \<longrightarrow> al_actor_id a = actor_id) \<and>
             (truthy entity \<longrightarrow> Some (al_entity a) = entity) \<and> (truthy action \<longrightarrow> Some (al_action a) = action))
           (db_audit_logs w)
      in map_sum id (\<lambda>items. (items, int (length rows)))
           (select_page page page_size (order_by_desc al_created_at rows)))"

text \<open>\<open>GROUP BY\<close> with \<open>count\<close>; the groups come in the order of their last rows.\<close>

definition count_groups :: "'k list \<Rightarrow> ('k \<times> int) list" where
  "count_groups ks = map (\<lambda>k. (k, int (count_list ks k))) (remdups ks)"

definition count_where :: "('r \<Rightarrow> bool) \<Rightarrow> 'r list \<Rightarrow> int" where
  "count_where P rows = int (length (filter P rows))"

definition build_summary :: "world \<Rightarrow> json" where
  "build_summary w = JObj [
     (''total_materials'', JInt (int (length (db_materials w)))),
     (''pending_moderation'', JInt (count_where (\<lambda>m. m_status m = PENDING_REVIEW) (db_materials w))),
     (''open_reports'', JInt (count_where (\<lambda>r. mr_status r = ReportOpen) (db_material_reports w))),
     (''users_by_role'', JObj (map (\<lambda>(r, n). (role_value r, JInt n)) (count_groups (map u_role (db_users w)))))]"

text \<open>The first argument is what the cache answers; a value is kept for 300 seconds.\<close>

definition dashboard_summary :: "json option \<Rightarrow> world \<Rightarrow> json \<times> world" where
  "dashboard_summary cached w =
     (case cached of
        Some summary \<Rightarrow> (summary, w)
      | None \<Rightarrow> (build_summary w, cache_do (CacheSet ''admin:dashboard_summary'' (build_summary w) 300) w))"

definition chart_rows :: "(string \<times> int) list \<Rightarrow> json" where
  "chart_rows rows = JList (map (\<lambda>(label, n). JObj [(''label'', JStr label), (''value'', JInt n)]) rows)"

definition university_names :: "world \<Rightarrow> string list" where
  "university_names w =
     List.map_filter (\<lambda>m. map_option (\<lambda>(s, f, u). un_name u) (material_place m w)) (db_materials w)"

definition build_charts :: "world \<Rightarrow> json" where
  "build_charts w = JObj [
     (''top_universities'', chart_rows (take 5 (order_by_desc snd (count_groups (university_names w))))),
     (''top_material_types'', chart_rows
        (map (\<lambda>(t, n). (material_type_value t, n))
          (order_by_desc snd (count_groups (map m_material_type (db_materials w))))))]"

definition dashboard_charts :: "json option \<Rightarrow> world \<Rightarrow> json \<times> world" where
  "dashboard_charts cached w =
     (case cached of
        Some charts \<Rightarrow> (charts, w)
      | None \<Rightarrow> (build_charts w, cache_do (CacheSet ''admin:dashboard_charts'' (build_charts w) 300) w))"

section \<open>Backups\<close>

text \<open>
  The answer about a backup without its paths and keys; \<open>created_at\<close> keeps the text that the
  manifest has.
\<close>

record backup_read =
  rd_backup_id :: string
  rd_created_at :: string
  rd_database_name :: string
  rd_dump_format :: string
  rd_checksum_sha256 :: string
  rd_size_bytes :: int
  rd_verified :: bool
  rd_trigger :: string
  rd_local_dump_path :: "string option"
  rd_local_manifest_path :: "string option"
  rd_offsite_enabled :: bool
  rd_offsite_bucket :: "string option"
  rd_offsite_dump_key :: "string option"
  rd_offsite_manifest_key :: "string option"
  rd_available_local :: bool
  rd_available_offsite :: bool

definition backup_read_from_record :: "backup_record \<Rightarrow> backup_read" where
  "backup_read_from_record r =
     (let m = br_manifest r in
      \<lparr>rd_backup_id = bm_backup_id m, rd_created_at = bm_created_at m, rd_database_name = bm_database_name m,
       rd_dump_format = bm_dump_format m, rd_checksum_sha256 = bm_checksum_sha256 m,
       rd_size_bytes = bm_size_bytes m, rd_verified = bm_verified m, rd_trigger = bm_trigger m,
       rd_local_dump_path = None, rd_local_manifest_path = None, rd_offsite_enabled = bm_offsite_enabled m,
       rd_offsite_bucket = None, rd_offsite_dump_key = None, rd_offsite_manifest_key = None,
       rd_available_local = br_available_local r, rd_available_offsite = br_available_offsite r\<rparr>)"

definition new_backup_record :: "backup_manifest \<Rightarrow> backup_record" where
  "new_backup_record m =
     \<lparr>br_manifest = m, br_available_local = True, br_available_offsite = truthy (bm_offsite_dump_key m)\<rparr>"

text \<open>\<open>except BackupError as exc: raise ValidationAppError(str(exc))\<close>\<close>

definition as_validation_error :: "'a res \<Rightarrow> 'a res" where
  "as_validation_error r = (case r of Inl (BackupError message) \<Rightarrow> Inl (ValidationAppError message) | _ \<Rightarrow> r)"

definition admin_list_backups :: "tools \<Rightarrow> settings \<Rightarrow> host \<Rightarrow> backup_read list res" where
  "admin_list_backups t st h = map_sum id (map backup_read_from_record) (list_backups t st h)"

definition admin_get_backup :: "tools \<Rightarrow> settings \<Rightarrow> string \<Rightarrow> host \<Rightarrow> backup_read res" where
  "admin_get_backup t st i h = map_sum id backup_read_from_record (as_validation_error (get_backup t st i h))"

definition admin_create_backup :: "tools \<Rightarrow> settings \<Rightarrow> int \<Rightarrow> host \<Rightarrow> backup_read res \<times> host" where
  "admin_create_backup t st now h =
     (case run_backup t st now ''manual'' h of
        (r, h1) \<Rightarrow>
          (map_sum id (\<lambda>b. backup_read_from_record (new_backup_record (bs_manifest b))) (as_validation_error r),
           h1))"

definition validate_restore_confirmation :: "string \<Rightarrow> string \<Rightarrow> unit res" where
  "validate_restore_confirmation i confirmation =
     (if confirmation \<noteq> ''RESTORE:'' @ i
      then Inl (ValidationAppError ''Backup restore confirmation is invalid'') else Inr ())"

record backup_restore_response =
  rs_restored_backup :: backup_read
  rs_pre_restore_backup :: backup_read
  rs_restored_at :: string

definition backup_restore_response_of :: "backup_restore_result \<Rightarrow> backup_restore_response" where
  "backup_restore_response_of r =
     \<lparr>rs_restored_backup = backup_read_from_record (rr_restored_backup r),
      rs_pre_restore_backup = backup_read_from_record (new_backup_record (rr_pre_restore_backup r)),
      rs_restored_at = rr_restored_at r\<rparr>"

definition admin_restore_backup ::
  "tools \<Rightarrow> settings \<Rightarrow> string \<Rightarrow> string \<Rightarrow> int \<Rightarrow> host \<Rightarrow> backup_restore_response res \<times> host"
where
  "admin_restore_backup t st i confirmation now h =
     (if \<not> backup_restore_api_enabled st
      then fail (PermissionDenied ''Backup restore API is disabled; use the manual restore script'') h
      else
        (case (if backup_restore_confirmation_required st then validate_restore_confirmation i confirmation
               else Inr ()) of
           Inl e \<Rightarrow> fail e h
         | Inr _ \<Rightarrow>
             (case restore_backup t st i now h of
                (r, h1) \<Rightarrow> (map_sum id backup_restore_response_of (as_validation_error r), h1))))"

end
