(* ===== verification/AdminFacts.thy ===== *)
theory AdminFacts
  imports Admin
begin

text \<open>
  What the requests of administrators keep: an active administrator always remains, nobody loses
  the own account by an own request, and every change has its row in the audit log, which does not
  name the administrator who made it.
\<close>

section \<open>One change of an account\<close>

lemma invalidate_tables [simp]:
  "db_users (invalidate_dashboard_cache w) = db_users w"
  "db_audit_logs (invalidate_dashboard_cache w) = db_audit_logs w"
  "db_material_reports (invalidate_dashboard_cache w) = db_material_reports w"
  "db_notifications (invalidate_dashboard_cache w) = db_notifications w"
  by (simp_all add: invalidate_dashboard_cache_def cache_do_def)

lemma audit_tables [simp]:
  "db_users (audit i now a e u d t w) = db_users w"
  "db_audit_logs (audit i now a e u d t w) = db_audit_logs w @ [audit_log_row i now a e u d t]"
  "db_material_reports (audit i now a e u d t w) = db_material_reports w"
  "db_notifications (audit i now a e u d t w) = db_notifications w"
  by (simp_all add: audit_def)

lemma store_user_tables [simp]:
  "db_users (store_user u w) = store_row u_id u (db_users w)"
  "db_audit_logs (store_user u w) = db_audit_logs w"
  by (simp_all add: store_user_def)

lemma require_user_ok: "require_user i w = Inr u \<longleftrightarrow> get_user i w = Some u"
  by (auto simp: require_user_def split: option.splits)

lemma get_user_after_store:
  assumes "get_user i w = Some u" "u_id u' = i" "db_users w' = store_row u_id u' (db_users w)"
  shows "get_user j w' = (if j = i then Some u' else get_user j w)"
proof -
  have "find (\<lambda>u. u_id u = j) (store_row u_id u' rows) =
      (if j = i \<and> find (\<lambda>u. u_id u = i) rows \<noteq> None then Some u' else find (\<lambda>u. u_id u = j) rows)" for rows
    using assms(2) by (induction rows) (auto simp: store_row_def)
  with assms(1,3) show ?thesis by (simp add: get_user_def)
qed

definition is_active_admin :: "string \<Rightarrow> world \<Rightarrow> bool" where
  "is_active_admin i w \<longleftrightarrow> (\<exists>u. get_user i w = Some u \<and> u_role u = ADMIN \<and> u_is_active u)"

lemma active_admins_iff:
  assumes "distinct (map u_id (db_users w))"
  shows "active_admins w \<noteq> [] \<longleftrightarrow> (\<exists>i. is_active_admin i w)"
proof
  assume "active_admins w \<noteq> []"
  then obtain u where "u \<in> set (db_users w)" "u_role u = ADMIN" "u_is_active u"
    by (auto simp: active_admins_def filter_empty_conv)
  with find_distinct [OF assms] show "\<exists>i. is_active_admin i w"
    by (auto simp: is_active_admin_def get_user_def)
next
  assume "\<exists>i. is_active_admin i w"
  then show "active_admins w \<noteq> []"
    by (auto simp: is_active_admin_def active_admins_def filter_empty_conv dest: get_user_in)
qed

text \<open>With two active administrators another one than a given account remains.\<close>

lemma another_active_admin:
  assumes "distinct (map u_id (db_users w))" "1 < length (active_admins w)"
  shows "\<exists>j. j \<noteq> i \<and> is_active_admin j w"
proof -
  have "distinct (map u_id (active_admins w))"
    using assms(1) by (simp add: active_admins_def distinct_map_filter)
  moreover obtain a b rest where ab: "active_admins w = a # b # rest"
    using assms(2) by (cases "active_admins w"; cases "tl (active_admins w)") auto
  ultimately have "u_id a \<noteq> u_id b" by simp
  moreover have "is_active_admin (u_id q) w" if "q \<in> set (active_admins w)" for q
    using that find_distinct [OF assms(1)] by (auto simp: active_admins_def is_active_admin_def get_user_def)
  ultimately show ?thesis using ab by (metis list.set_intros(1) list.set_intros(2))
qed

lemma ensure_not_last_ok:
  "ensure_not_last_active_admin u w = Inr () \<longleftrightarrow> (u_is_active u \<longrightarrow> 1 < length (active_admins w))"
  by (auto simp: ensure_not_last_active_admin_def)

text \<open>What one request may do to the accounts: nothing, or one account \<open>u\<close> becomes \<open>u'\<close>.\<close>

definition account_change :: "user option \<Rightarrow> world \<Rightarrow> world \<Rightarrow> bool" where
  "account_change actor w w' \<longleftrightarrow> db_users w' = db_users w \<or>
     (\<exists>u u'. get_user (u_id u) w = Some u \<and> u_id u' = u_id u \<and>
        db_users w' = store_row u_id u' (db_users w) \<and>
        (u_role u = ADMIN \<and> u_is_active u \<and> \<not> (u_role u' = ADMIN \<and> u_is_active u') \<longrightarrow>
           1 < length (active_admins w) \<and> map_option u_id actor \<noteq> Some (u_id u)))"

lemma account_change_keeps_ids:
  "account_change actor w w' \<Longrightarrow> map u_id (db_users w') = map u_id (db_users w)"
  by (auto simp: account_change_def map_store_row)

lemma account_change_cases:
  assumes "account_change actor w w'"
  obtains "\<And>j. get_user j w' = get_user j w" | u u' where "get_user (u_id u) w = Some u" "u_id u' = u_id u"
    "\<And>j. get_user j w' = (if j = u_id u then Some u' else get_user j w)"
    "u_role u = ADMIN \<and> u_is_active u \<and> \<not> (u_role u' = ADMIN \<and> u_is_active u') \<longrightarrow>
       1 < length (active_admins w) \<and> map_option u_id actor \<noteq> Some (u_id u)"
  using assms unfolding account_change_def
proof (elim disjE exE conjE)
  assume "db_users w' = db_users w"
  then show thesis by (intro that(1)) (simp add: get_user_def)
next
  fix u u'
  assume u: "get_user (u_id u) w = Some u" "u_id u' = u_id u" "db_users w' = store_row u_id u' (db_users w)"
    and guard: "u_role u = ADMIN \<and> u_is_active u \<and> \<not> (u_role u' = ADMIN \<and> u_is_active u') \<longrightarrow>
       1 < length (active_admins w) \<and> map_option u_id actor \<noteq> Some (u_id u)"
  show thesis by (rule that(2) [OF u(1,2) get_user_after_store [OF u] guard])
qed

lemma account_change_keeps_admin:
  assumes "account_change actor w w'" "distinct (map u_id (db_users w))" "active_admins w \<noteq> []"
  shows "active_admins w' \<noteq> []"
proof -
  have dist: "distinct (map u_id (db_users w'))" using assms(2) account_change_keeps_ids [OF assms(1)] by simp
  from assms(2,3) obtain i where i: "is_active_admin i w" by (auto simp: active_admins_iff)
  have "\<exists>j. is_active_admin j w'"
    using assms(1)
  proof (cases rule: account_change_cases)
    case 1
    with i show ?thesis by (auto simp: is_active_admin_def)
  next
    case (2 u u')
    show ?thesis
    proof (cases "i = u_id u \<and> \<not> (u_role u' = ADMIN \<and> u_is_active u')")
      case True
      with i 2(1,4) have "1 < length (active_admins w)" by (auto simp: is_active_admin_def)
      from another_active_admin [OF assms(2) this, of "u_id u"] show ?thesis
        by (auto simp: is_active_admin_def 2(3))
    next
      case False
      with i have "is_active_admin i w'" by (auto simp: is_active_admin_def 2(3))
      then show ?thesis ..
    qed
  qed
  then show ?thesis by (simp add: active_admins_iff [OF dist])
qed

lemma account_change_keeps_actor:
  assumes "account_change (Some a) w w'" "is_active_admin (u_id a) w"
  shows "is_active_admin (u_id a) w'"
  using assms(1)
proof (cases rule: account_change_cases)
  case 1
  with assms(2) show ?thesis by (simp add: is_active_admin_def)
next
  case (2 u u')
  with assms(2) show ?thesis by (auto simp: is_active_admin_def)
qed

section \<open>Every request\<close>

lemma account_changeI:
  assumes "get_user i w = Some u" "u_id u' = u_id u" "db_users w' = store_row u_id u' (db_users w)"
    and "u_role u = ADMIN \<Longrightarrow> u_is_active u \<Longrightarrow> \<not> (u_role u' = ADMIN \<and> u_is_active u') \<Longrightarrow>
      1 < length (active_admins w) \<and> map_option u_id actor \<noteq> Some (u_id u)"
  shows "account_change actor w w'"
  using assms get_user_id [OF assms(1)] unfolding account_change_def
  by (intro disjI2 exI [of _ u] exI [of _ u']) blast

lemma update_user_role_change:
  assumes "update_user_role ids now i role actor w = (r, w')"
  shows "account_change actor w w'"
proof (cases r)
  case (Inl e)
  with assms show ?thesis
    by (auto simp: update_user_role_def account_change_def Let_def split: sum.splits if_splits)
next
  case (Inr u')
  with assms obtain u where u: "get_user i w = Some u" "u' = u\<lparr>u_role := role\<rparr>"
    "db_users w' = store_row u_id u' (db_users w)"
    and own: "map_option u_id actor = Some (u_id u) \<Longrightarrow> role = ADMIN"
    and last: "u_role u = ADMIN \<Longrightarrow> role \<noteq> ADMIN \<Longrightarrow> u_is_active u \<Longrightarrow> 1 < length (active_admins w)"
    by (fastforce simp: update_user_role_def require_user_ok ensure_not_last_ok Let_def split: sum.splits if_splits)
  show ?thesis by (rule account_changeI [OF u(1) _ u(3)]) (use u(2) own last in auto)
qed

text \<open>A value of the payload for \<open>is_active\<close>, or the value the account has.\<close>

definition activity_of :: "json option \<Rightarrow> bool \<Rightarrow> bool" where
  "activity_of v old = (case v of Some (JBool b) \<Rightarrow> b | _ \<Rightarrow> old)"

lemma activity_of_simps [simp]: "activity_of (Some (JBool b)) old = b" "activity_of None old = old"
  by (simp_all add: activity_of_def)

lemma set_user_field_keeps:
  "set_user_field (f, v) u = Inr u' \<Longrightarrow> u_id u' = u_id u \<and> u_role u' = u_role u \<and>
    u_is_active u' = (if f = ''is_active'' then activity_of (Some v) (u_is_active u) else u_is_active u)"
  by (auto simp: set_user_field_def activity_of_def split: json.splits option.splits if_splits)

lemma set_user_fields_keeps:
  "set_user_fields fvs u = Inr u' \<Longrightarrow> distinct (map fst fvs) \<Longrightarrow> u_id u' = u_id u \<and> u_role u' = u_role u \<and>
    u_is_active u' = activity_of (map_of fvs ''is_active'') (u_is_active u)"
proof (induction fvs arbitrary: u)
  case (Cons fv fvs)
  obtain f v where fv: "fv = (f, v)" by fastforce
  from Cons.prems(1) obtain u1 where u1: "set_user_field (f, v) u = Inr u1" "set_user_fields fvs u1 = Inr u'"
    by (auto simp: fv split: sum.splits)
  note step = set_user_field_keeps [OF u1(1)] and rest = Cons.IH [OF u1(2)]
  show ?case
  proof (cases "f = ''is_active''")
    case True
    with Cons.prems(2) fv have "map_of fvs ''is_active'' = None" by (auto simp: map_of_eq_None_iff)
    with step rest Cons.prems(2) True fv show ?thesis by simp
  next
    case False
    with step rest Cons.prems(2) fv show ?thesis by simp
  qed
qed simp

lemma flush_user_ok: "flush_user u w = Inr w1 \<Longrightarrow> w1 = store_user u w"
  by (auto simp: flush_user_def split: option.splits if_splits)

lemma with_chosen_university_keeps [simp]:
  "u_id (with_chosen_university p u) = u_id u" "u_role (with_chosen_university p u) = u_role u"
  "u_is_active (with_chosen_university p u) = u_is_active u"
  by (simp_all add: with_chosen_university_def)

lemma update_user_checks_ok:
  assumes "update_user_checks payload actor u w = Inr ()" "map_of payload ''is_active'' = Some (JBool False)"
  shows "map_option u_id actor \<noteq> Some (u_id u)"
    and "u_role u = ADMIN \<Longrightarrow> u_is_active u \<Longrightarrow> 1 < length (active_admins w)"
  using assms
  by (auto simp: update_user_checks_def ensure_not_last_ok split: sum.splits if_splits)

lemma update_user_ok:
  assumes "update_user ids now i payload actor w = (Inr u', w')"
  obtains u u1 where "get_user i w = Some u" "set_user_fields payload u = Inr u1"
    "u' = with_chosen_university payload u1" "update_user_checks payload actor u w = Inr ()"
    "w' = invalidate_dashboard_cache (audit (ids 1) now ''user_updated'' ''user'' None (Some (u_id u)) None
      (store_user u' w))"
  using assms by (auto simp: update_user_def require_user_ok dest: flush_user_ok split: sum.splits)

lemma update_user_change:
  assumes "update_user ids now i payload actor w = (r, w')" "distinct (map fst payload)"
  shows "account_change actor w w'"
proof (cases r)
  case (Inl e)
  with assms(1) have "w' = w" by (auto simp: update_user_def split: sum.splits)
  then show ?thesis by (simp add: account_change_def)
next
  case (Inr u')
  obtain u u1 where u: "get_user i w = Some u" "set_user_fields payload u = Inr u1"
    "u' = with_chosen_university payload u1" and checks: "update_user_checks payload actor u w = Inr ()"
    and w': "db_users w' = store_row u_id u' (db_users w)"
    by (rule update_user_ok [OF assms(1) [unfolded Inr]]) simp
  note keeps = set_user_fields_keeps [OF u(2) assms(2)]
  have disabling: "map_of payload ''is_active'' = Some (JBool False)" if "u_is_active u" "\<not> u_is_active u'"
    using that keeps u(3) by (auto simp: activity_of_def split: option.splits json.splits)
  show ?thesis
    by (rule account_changeI [OF u(1) _ w'])
      (use keeps u(3) disabling update_user_checks_ok [OF checks] in auto)
qed

lemma add_moderator_scope_change:
  assumes "add_moderator_scope ids now i payload w = (r, w')"
  shows "account_change actor w w'"
proof (cases r)
  case (Inl e)
  with assms have "w' = w" by (auto simp: add_moderator_scope_def Let_def split: sum.splits if_splits)
  then show ?thesis by (simp add: account_change_def)
next
  case (Inr s)
  with assms obtain u where u: "get_user i w = Some u"
    by (auto simp: add_moderator_scope_def require_user_def split: option.splits)
  with assms Inr obtain w1 where w1: "add_scope (ids 0) i payload w = Inr w1"
    by (auto simp: add_moderator_scope_def require_user_def split: if_splits sum.splits)
  have w1_users: "db_users w1 = db_users w" using w1 by (auto simp: add_scope_def Let_def split: if_splits)
  have w': "db_users w' = db_users (if u_role u = STUDENT then store_user (u\<lparr>u_role := MODERATOR\<rparr>) w1 else w1)"
    using assms Inr u w1 by (auto simp: add_moderator_scope_def require_user_def split: if_splits)
  show ?thesis
  proof (cases "u_role u = STUDENT")
    case True
    with w' w1_users show ?thesis by (intro account_changeI [OF u]) auto
  next
    case False
    with w' w1_users show ?thesis by (simp add: account_change_def)
  qed
qed

lemma scope_and_report_change:
  "delete_moderator_scope ids now i sid w = (r1, w') \<Longrightarrow> account_change actor w w'"
  "update_report ids now rid payload w = (r2, w') \<Longrightarrow> account_change actor w w'"
  "resolve_report ids now rid res_note w = (r3, w') \<Longrightarrow> account_change actor w w'"
  "dismiss_report ids now rid res_note w = (r4, w') \<Longrightarrow> account_change actor w w'"
  by (auto simp: delete_moderator_scope_def remove_scope_def update_report_def resolve_report_def
      dismiss_report_def write_report_def account_change_def Let_def split: option.splits sum.splits if_splits)

section \<open>Runs of requests\<close>

text \<open>The payloads are dictionaries: no key twice.\<close>

inductive admin_step :: "user option \<Rightarrow> world \<Rightarrow> world \<Rightarrow> bool" where
  step_role: "update_user_role ids now i role actor w = (ru, w') \<Longrightarrow> admin_step actor w w'"
| step_user: "update_user ids now i payload actor w = (ru, w') \<Longrightarrow> distinct (map fst payload) \<Longrightarrow>
     admin_step actor w w'"
| step_status: "set_user_status ids now i active actor w = (ru, w') \<Longrightarrow> admin_step actor w w'"
| step_verify: "verify_user ids now i verified w = (ru, w') \<Longrightarrow> admin_step actor w w'"
| step_add_scope: "add_moderator_scope ids now i scope w = (rs, w') \<Longrightarrow> admin_step actor w w'"
| step_delete_scope: "delete_moderator_scope ids now i sid w = (ro, w') \<Longrightarrow> admin_step actor w w'"
| step_update_report: "update_report ids now rid payload w = (rr, w') \<Longrightarrow> admin_step actor w w'"
| step_resolve: "resolve_report ids now rid res_note w = (rr, w') \<Longrightarrow> admin_step actor w w'"
| step_dismiss: "dismiss_report ids now rid res_note w = (rr, w') \<Longrightarrow> admin_step actor w w'"

inductive admin_run :: "world \<Rightarrow> world \<Rightarrow> bool" where
  admin_start: "admin_run w w"
| admin_next: "admin_run w w1 \<Longrightarrow> admin_step actor w1 w2 \<Longrightarrow> admin_run w w2"

lemma account_change_verify:
  assumes "verify_user ids now i v w = (r, w')" shows "account_change actor w w'"
proof -
  have "update_user_checks [(''is_verified'', JBool v)] actor = update_user_checks [(''is_verified'', JBool v)] None"
    by (intro ext) (simp add: update_user_checks_def)
  then have "update_user ids now i [(''is_verified'', JBool v)] actor w = (r, w')"
    using assms by (simp only: verify_user_def update_user_def)
  then show ?thesis by (rule update_user_change) simp
qed

lemma admin_step_change: "admin_step actor w w' \<Longrightarrow> account_change actor w w'"
proof (induction rule: admin_step.induct)
  case (step_status ids now i active actor w ru w')
  then show ?case unfolding set_user_status_def by (rule update_user_change) simp
qed (blast intro: update_user_role_change update_user_change add_moderator_scope_change scope_and_report_change
      account_change_verify)+

text \<open>Each request that changes something leaves one row in the log, and no name in it.\<close>

definition logged :: "world \<Rightarrow> world \<Rightarrow> bool" where
  "logged w w' \<longleftrightarrow> w' = w \<or>
     (\<exists>row. db_audit_logs w' = db_audit_logs w @ [row] \<and> al_actor_id row = None)"

lemma audit_logged:
  "db_audit_logs w1 = db_audit_logs w \<Longrightarrow> logged w (invalidate_dashboard_cache (audit i now a e None d t w1))"
  by (simp add: logged_def audit_log_row_def)

lemma update_user_logged: "update_user ids now i payload actor w = (r, w') \<Longrightarrow> logged w w'"
proof (cases r)
  case (Inl e)
  then show "update_user ids now i payload actor w = (r, w') \<Longrightarrow> ?thesis"
    by (auto simp: logged_def update_user_def split: sum.splits)
next
  case (Inr u')
  then show "update_user ids now i payload actor w = (r, w') \<Longrightarrow> ?thesis"
    by (auto elim!: update_user_ok intro: audit_logged)
qed

lemma scope_tables_logged:
  "add_scope s i payload w = Inr w1 \<Longrightarrow> db_audit_logs w1 = db_audit_logs w"
  "remove_scope i s w = Some w1 \<Longrightarrow> db_audit_logs w1 = db_audit_logs w"
  by (auto simp: add_scope_def remove_scope_def Let_def split: if_splits)

lemma add_moderator_scope_logged:
  assumes "add_moderator_scope ids now i payload w = (r, w')" shows "logged w w'"
proof (cases r)
  case (Inl e)
  with assms show ?thesis
    by (auto simp: logged_def add_moderator_scope_def split: sum.splits if_splits)
next
  case (Inr s)
  with assms obtain u where u: "get_user i w = Some u"
    by (auto simp: add_moderator_scope_def require_user_def split: option.splits)
  with assms Inr obtain w1 where w1: "add_scope (ids 0) i payload w = Inr w1"
    by (auto simp: add_moderator_scope_def require_user_def split: if_splits sum.splits)
  have "db_audit_logs w' =
      db_audit_logs w1 @ [audit_log_row (ids 1) now ''moderator_scope_added'' ''user_scope'' None (Some i) None]"
    using assms Inr u w1 by (auto simp: add_moderator_scope_def require_user_def split: if_splits)
  with w1 show ?thesis by (simp add: logged_def scope_tables_logged audit_log_row_def)
qed

lemma report_tables_logged: "db_audit_logs (write_report i r w) = db_audit_logs w"
  by (simp add: write_report_def)

lemma admin_step_logged: "admin_step actor w w' \<Longrightarrow> logged w w'"
proof (induction rule: admin_step.induct)
  case (step_role ids now i role actor w ru w')
  then show ?case
    by (auto simp: update_user_role_def Let_def intro!: audit_logged split: sum.splits if_splits)
      (simp_all add: logged_def)
next
  case (step_delete_scope ids now i sid w ro w' actor)
  then show ?case
    by (auto simp: delete_moderator_scope_def logged_def audit_log_row_def scope_tables_logged split: option.splits)
next
  case (step_update_report ids now rid payload w rr w' actor)
  then show ?case
    by (auto simp: update_report_def logged_def audit_log_row_def report_tables_logged Let_def split: sum.splits)
next
  case (step_resolve ids now rid res_note w rr w' actor)
  then show ?case
    by (auto simp: resolve_report_def logged_def audit_log_row_def report_tables_logged Let_def split: sum.splits)
next
  case (step_dismiss ids now rid res_note w rr w' actor)
  then show ?case
    by (auto simp: dismiss_report_def logged_def audit_log_row_def report_tables_logged Let_def split: sum.splits)
qed (auto simp: set_user_status_def verify_user_def intro: update_user_logged add_moderator_scope_logged)

lemma admin_run_keeps:
  "admin_run w w' \<Longrightarrow> distinct (map u_id (db_users w)) \<Longrightarrow> active_admins w \<noteq> [] \<Longrightarrow>
     distinct (map u_id (db_users w')) \<and> active_admins w' \<noteq> []"
  by (induction rule: admin_run.induct)
    (auto dest!: admin_step_change simp: account_change_keeps_ids account_change_keeps_admin)

text \<open>
  C6. Whatever administrators ask for, one request after the other, an active administrator
  remains; nobody is demoted or disabled by a request of their own; and each request that changes
  anything leaves exactly one row in the audit log (in which the administrator is not named).
\<close>

theorem active_admin_always_remains:
  assumes "admin_run w w1" "admin_step actor w1 w2"
    and "distinct (map u_id (db_users w))" "active_admins w \<noteq> []"
  shows "active_admins w2 \<noteq> [] \<and>
    (\<forall>a. actor = Some a \<longrightarrow> is_active_admin (u_id a) w1 \<longrightarrow> is_active_admin (u_id a) w2) \<and>
    (w2 = w1 \<or> (\<exists>row. db_audit_logs w2 = db_audit_logs w1 @ [row] \<and> al_actor_id row = None))"
  using admin_run_keeps [OF admin_next [OF assms(1,2)] assms(3,4)] admin_step_change [OF assms(2)]
    account_change_keeps_actor admin_step_logged [OF assms(2)] unfolding logged_def by blast

section \<open>Examples\<close>

definition sample_account :: "string \<Rightarrow> user_role \<Rightarrow> user" where
  "sample_account i r = \<lparr>u_id = i, u_full_name = ''A'', u_email = i @ ''@x.uz'', u_avatar_url = None,
     u_hashed_password = '''', u_role = r, u_university_id = None, u_university_changed_at = None,
     u_pending_university_name = None, u_university_status = ''selected'', u_is_active = True,
     u_is_verified = True, u_created_at = 0\<rparr>"

definition admin_world :: world where
  "admin_world = empty_world\<lparr>db_users := [sample_account ''a'' ADMIN, sample_account ''b'' ADMIN]\<rparr>"

definition one_admin_world :: world where
  "one_admin_world = snd (update_user_role (\<lambda>_. ''l'') 0 ''a'' STUDENT (Some (sample_account ''b'' ADMIN)) admin_world)"

lemma second_admin_goes: "map u_role (db_users one_admin_world) = [STUDENT, ADMIN]"
  by code_simp

lemma last_admin_stays:
  "update_user_role (\<lambda>_. ''l'') 1 ''b'' MODERATOR None one_admin_world =
     (Inl (ValidationAppError ''At least one active admin must remain''), one_admin_world)"
proof -
  have "fst (update_user_role (\<lambda>_. ''l'') 1 ''b'' MODERATOR None one_admin_world) =
      Inl (ValidationAppError ''At least one active admin must remain'')" by code_simp
  then show ?thesis
    by (auto simp: update_user_role_def prod_eq_iff Let_def split: sum.splits if_splits)
qed

lemma active_admin_always_remains_witness:
  "active_admins one_admin_world \<noteq> [] \<and> is_active_admin ''b'' one_admin_world"
proof -
  have step: "admin_step (Some (sample_account ''b'' ADMIN)) admin_world one_admin_world"
    unfolding one_admin_world_def by (rule step_role [OF prod.collapse [symmetric]])
  have "is_active_admin ''b'' admin_world"
    by (simp add: is_active_admin_def admin_world_def sample_account_def get_user_def)
  with active_admin_always_remains [OF admin_start step]
  show ?thesis by (simp add: admin_world_def sample_account_def active_admins_def)
qed

end
