(* ===== verification/Users.thy ===== *)
theory Users
  imports Auth TelegramLink Delivery
begin

text \<open>
  \<^verbatim>\<open>app/modules/users/service.py\<close>, \<^verbatim>\<open>notifications/service.py\<close> and the avatars of \<^verbatim>\<open>users/api.py\<close>
  and \<^verbatim>\<open>telegram/internal_api.py\<close>: a user's profile, password, preferences, notifications, saved
  and downloaded materials.

  A field of a partial update is set only when the request has it, and may then be null:
  \<open>Some None\<close>. \<open>ids\<close> numbers the identifiers of a request: 0 the new row, 1 the audit row.
\<close>

section \<open>Profile and password\<close>

definition require_known_user :: "string \<Rightarrow> world \<Rightarrow> user res" where
  "require_known_user i w =
     (case get_user i w of None \<Rightarrow> Inl (ResourceNotFound ''User not found'') | Some u \<Rightarrow> Inr u)"

record user_update_me =
  um_full_name :: "string option option"
  um_avatar_url :: "string option option"

text \<open>A name that is null is refused by the column.\<close>

definition update_me ::
  "(nat \<Rightarrow> string) \<Rightarrow> int \<Rightarrow> user \<Rightarrow> user_update_me \<Rightarrow> world \<Rightarrow> user res \<times> world"
where
  "update_me ids now user payload w =
     (if um_full_name payload = Some None then fail IntegrityError w
      else
        (let named = (case um_full_name payload of Some (Some s) \<Rightarrow> user\<lparr>u_full_name := s\<rparr> | _ \<Rightarrow> user);
             user' = (case um_avatar_url payload of Some a \<Rightarrow> named\<lparr>u_avatar_url := a\<rparr> | None \<Rightarrow> named);
             w1 = audit (ids 1) now ''user_profile_updated'' ''user'' (Some user) (Some (u_id user)) None
               (w\<lparr>db_users := store_row u_id user' (db_users w)\<rparr>)
         in (require_known_user (u_id user) w1, w1)))"

definition change_password ::
  "externals \<Rightarrow> (nat \<Rightarrow> string) \<Rightarrow> int \<Rightarrow> user \<Rightarrow> string \<Rightarrow> string \<Rightarrow> world \<Rightarrow> unit res \<times> world"
where
  "change_password x ids now user current_password new_password w =
     (if \<not> verify_password x current_password (u_hashed_password user)
      then fail (ConflictError ''Current password is incorrect'') w
      else
        (let user' = user\<lparr>u_hashed_password := hash_password x (ids 0) new_password\<rparr>
         in ok () (audit (ids 1) now ''user_password_changed'' ''user'' (Some user) (Some (u_id user)) None
              (revoke_all_refresh_tokens (u_id user) now
                (w\<lparr>db_users := store_row u_id user' (db_users w)\<rparr>)))))"

section \<open>Preferences\<close>

definition default_preference :: "string \<Rightarrow> string \<Rightarrow> user_preference" where
  "default_preference i uid =
     \<lparr>pf_id = i, pf_user_id = uid, pf_language = ''uz'', pf_email_notifications = True,
      pf_marketing_notifications = False, pf_theme = ''system''\<rparr>"

definition get_preferences :: "(nat \<Rightarrow> string) \<Rightarrow> user \<Rightarrow> world \<Rightarrow> user_preference res \<times> world" where
  "get_preferences ids user w =
     (case scalar_one_or_none (filter (\<lambda>p. pf_user_id p = u_id user) (db_user_preferences w)) of
        Inl e \<Rightarrow> fail e w
      | Inr (Some p) \<Rightarrow> ok p w
      | Inr None \<Rightarrow>
          (let p = default_preference (ids 0) (u_id user)
           in ok p (w\<lparr>db_user_preferences := db_user_preferences w @ [p]\<rparr>)))"

record preference_update =
  pu_language :: "string option option"
  pu_email_notifications :: "bool option option"
  pu_marketing_notifications :: "bool option option"
  pu_theme :: "string option option"

definition set_unless_absent :: "('v \<Rightarrow> 'r \<Rightarrow> 'r) \<Rightarrow> 'v option option \<Rightarrow> 'r \<Rightarrow> 'r res" where
  "set_unless_absent set_field v r =
     (case v of None \<Rightarrow> Inr r | Some None \<Rightarrow> Inl IntegrityError | Some (Some y) \<Rightarrow> Inr (set_field y r))"

definition apply_preferences :: "preference_update \<Rightarrow> user_preference \<Rightarrow> user_preference res" where
  "apply_preferences payload p =
     (case set_unless_absent (\<lambda>v p. p\<lparr>pf_language := v\<rparr>) (pu_language payload) p of
        Inl e \<Rightarrow> Inl e
      | Inr p1 \<Rightarrow>
     (case set_unless_absent (\<lambda>v p. p\<lparr>pf_email_notifications := v\<rparr>) (pu_email_notifications payload) p1 of
        Inl e \<Rightarrow> Inl e
      | Inr p2 \<Rightarrow>
     (case set_unless_absent (\<lambda>v p. p\<lparr>pf_marketing_notifications := v\<rparr>) (pu_marketing_notifications payload) p2 of
        Inl e \<Rightarrow> Inl e
      | Inr p3 \<Rightarrow> set_unless_absent (\<lambda>v p. p\<lparr>pf_theme := v\<rparr>) (pu_theme payload) p3)))"

text \<open>The row that \<open>get_preferences\<close> makes is committed, whatever becomes of the update.\<close>

definition update_preferences ::
  "(nat \<Rightarrow> string) \<Rightarrow> int \<Rightarrow> user \<Rightarrow> preference_update \<Rightarrow> world \<Rightarrow> user_preference res \<times> world"
where
  "update_preferences ids now user payload w =
     (case get_preferences ids user w of
        (Inl e, w1) \<Rightarrow> fail e w1
      | (Inr p, w1) \<Rightarrow>
          (case apply_preferences payload p of
             Inl e \<Rightarrow> fail e w1
           | Inr p' \<Rightarrow>
               ok p' (audit (ids 1) now ''user_preferences_updated'' ''user_preference'' (Some user)
                 (Some (pf_id p))  None
                 (w1\<lparr>db_user_preferences := store_row pf_id p' (db_user_preferences w1)\<rparr>))))"

section \<open>Notifications\<close>

definition list_notifications :: "user \<Rightarrow> world \<Rightarrow> notification list" where
  "list_notifications user w =
     order_by_desc no_created_at (filter (\<lambda>n. no_user_id n = u_id user) (db_notifications w))"

definition mark_notification_read :: "string \<Rightarrow> user \<Rightarrow> world \<Rightarrow> notification res \<times> world" where
  "mark_notification_read notification_id user w =
     (case find (\<lambda>n. no_id n = notification_id) (db_notifications w) of
        None \<Rightarrow> fail (ResourceNotFound ''Notification not found'') w
      | Some n \<Rightarrow>
          (if no_user_id n \<noteq> u_id user then fail (ResourceNotFound ''Notification not found'') w
           else
             (let n' = n\<lparr>no_is_read := True\<rparr>
              in ok n' (w\<lparr>db_notifications := store_row no_id n' (db_notifications w)\<rparr>))))"

definition mark_all_notifications_read :: "user \<Rightarrow> world \<Rightarrow> int \<times> world" where
  "mark_all_notifications_read user w =
     (let items = list_notifications user w
      in (int (length items),
          w\<lparr>db_notifications := foldl (\<lambda>ns n. store_row no_id (n\<lparr>no_is_read := True\<rparr>) ns)
              (db_notifications w) items\<rparr>))"

section \<open>Saved, downloaded and uploaded materials\<close>

definition undeleted_material :: "string \<Rightarrow> world \<Rightarrow> material option" where
  "undeleted_material i w =
     (case get_material i w of
        None \<Rightarrow> None | Some m \<Rightarrow> (if m_deleted_at m = None then Some m else None))"

definition list_saved_materials :: "user \<Rightarrow> world \<Rightarrow> material list" where
  "list_saved_materials user w =
     List.map_filter (\<lambda>s. undeleted_material (sm_material_id s) w)
       (order_by_desc sm_created_at (filter (\<lambda>s. sm_user_id s = u_id user) (db_saved_materials w)))"

definition list_downloaded_materials :: "user \<Rightarrow> world \<Rightarrow> material list" where
  "list_downloaded_materials user w =
     List.map_filter (\<lambda>d. undeleted_material (md_material_id d) w)
       (order_by_desc md_created_at (filter (\<lambda>d. md_user_id d = Some (u_id user)) (db_material_downloads w)))"

definition is_saved :: "string \<Rightarrow> string \<Rightarrow> world \<Rightarrow> bool" where
  "is_saved uid mid w = list_ex (\<lambda>s. sm_user_id s = uid \<and> sm_material_id s = mid) (db_saved_materials w)"

definition save_material_for_user ::
  "(nat \<Rightarrow> string) \<Rightarrow> int \<Rightarrow> string \<Rightarrow> user \<Rightarrow> world \<Rightarrow> unit res \<times> world"
where
  "save_material_for_user ids now material_id user w =
     (case get_material material_id w of
        None \<Rightarrow> fail (ResourceNotFound ''Material not found'') w
      | Some m \<Rightarrow>
          (case scalar_one_or_none
                  (filter (\<lambda>s. sm_user_id s = u_id user \<and> sm_material_id s = material_id) (db_saved_materials w)) of
             Inl e \<Rightarrow> fail e w
           | Inr (Some _) \<Rightarrow> ok () w
           | Inr None \<Rightarrow>
               ok () (audit (ids 1) now ''saved_material_added'' ''saved_material'' (Some user)
                 (Some material_id) None
                 (w\<lparr>db_saved_materials := db_saved_materials w @
                    [\<lparr>sm_id = ids 0, sm_user_id = u_id user, sm_material_id = material_id,
                      sm_created_at = now\<rparr>]\<rparr>))))"

definition remove_saved_material ::
  "(nat \<Rightarrow> string) \<Rightarrow> int \<Rightarrow> string \<Rightarrow> user \<Rightarrow> world \<Rightarrow> unit res \<times> world"
where
  "remove_saved_material ids now material_id user w =
     ok () (audit (ids 1) now ''saved_material_removed'' ''saved_material'' (Some user) (Some material_id) None
       (w\<lparr>db_saved_materials :=
          delete_where (\<lambda>s. sm_user_id s = u_id user \<and> sm_material_id s = material_id) (db_saved_materials w)\<rparr>))"

definition clear_saved_materials ::
  "(nat \<Rightarrow> string) \<Rightarrow> int \<Rightarrow> user \<Rightarrow> world \<Rightarrow> unit res \<times> world"
where
  "clear_saved_materials ids now user w =
     ok () (audit (ids 1) now ''saved_materials_cleared'' ''saved_material'' (Some user) (Some (u_id user)) None
       (w\<lparr>db_saved_materials := delete_where (\<lambda>s. sm_user_id s = u_id user) (db_saved_materials w)\<rparr>))"

definition list_user_materials ::
  "externals \<Rightarrow> user \<Rightarrow> material_list_query \<Rightarrow> world \<Rightarrow> material list \<times> int"
where
  "list_user_materials x user query w =
     list_filtered (lq_page query) (lq_page_size query)
       (apply_filters x query w (filter (\<lambda>m. m_uploaded_by m = u_id user) (build_filtered_query w)))"

section \<open>Avatars\<close>

text \<open>
  The upload as the form has it. The table of \<open>mimetypes\<close> is the system's, so the guess is a
  parameter.
\<close>

record avatar_upload =
  av_filename :: "string option"
  av_content_type :: "string option"
  av_content :: string

definition avatar_extension :: "string \<Rightarrow> string" where
  "avatar_extension filename =
     (if CHR ''.'' \<in> set filename then lower (last (split_on (CHR ''.'') filename)) else [])"

definition avatar_extensions :: "string list" where
  "avatar_extensions = [''jpg'', ''jpeg'', ''png'']"

definition avatar_key :: "string \<Rightarrow> string \<Rightarrow> string" where
  "avatar_key uid ext = ''avatars/'' @ uid @ ''/avatar.'' @ ext"

fun delete_old_avatars ::
  "provider \<Rightarrow> string \<Rightarrow> string list \<Rightarrow> objects \<Rightarrow> unit res \<times> objects"
where
  "delete_old_avatars sp uid [] obs = ok () obs"
| "delete_old_avatars sp uid (ext # exts) obs =
     (if pv_exists sp (avatar_key uid ext) obs
      then (case pv_delete sp (avatar_key uid ext) obs of
              (Inl e, obs1) \<Rightarrow> fail e obs1
            | (Inr _, obs1) \<Rightarrow> delete_old_avatars sp uid exts obs1)
      else delete_old_avatars sp uid exts obs)"

definition avatar_content_type :: "(string \<Rightarrow> string option) \<Rightarrow> avatar_upload \<Rightarrow> string" where
  "avatar_content_type guess f =
     or_else (av_content_type f) (or_else (guess (or_else (av_filename f) [])) ''image/jpeg'')"

definition avatar_url :: "string \<Rightarrow> int \<Rightarrow> string" where
  "avatar_url uid now = ''/api/v1/users/'' @ uid @ ''/avatar?v='' @ str_int (timestamp now)"

definition upload_avatar ::
  "provider \<Rightarrow> (string \<Rightarrow> string option) \<Rightarrow> int \<Rightarrow> user \<Rightarrow> avatar_upload \<Rightarrow> world \<Rightarrow> user res \<times> world"
where
  "upload_avatar sp guess now user f w =
     (let ext = avatar_extension (or_else (av_filename f) []) in
      if ext \<notin> set avatar_extensions
      then fail (ValidationAppError ''Faqat rasm formatidagi fayllar ruxsat etiladi (.jpg, .jpeg, .png)'') w
      else if int (length (av_content f)) > 5 * 1024 * 1024
      then fail (ValidationAppError ''Rasm hajmi 5MB dan oshmasligi kerak'') w
      else
        (case delete_old_avatars sp (u_id user) avatar_extensions (objects w) of
           (Inl e, obs1) \<Rightarrow> fail e (w\<lparr>objects := obs1\<rparr>)
         | (Inr _, obs1) \<Rightarrow>
             (case pv_save_bytes sp (av_content f) (avatar_key (u_id user) ext)
                     (Some (avatar_content_type guess f)) obs1 of
                (Inl e, obs2) \<Rightarrow> fail e (w\<lparr>objects := obs2\<rparr>)
              | (Inr _, obs2) \<Rightarrow>
                  (let user' = user\<lparr>u_avatar_url := Some (avatar_url (u_id user) now)\<rparr>
                   in ok user' (w\<lparr>objects := obs2, db_users := store_row u_id user' (db_users w)\<rparr>)))))"

definition delete_avatar :: "provider \<Rightarrow> user \<Rightarrow> world \<Rightarrow> user res \<times> world" where
  "delete_avatar sp user w =
     (case delete_old_avatars sp (u_id user) avatar_extensions (objects w) of
        (Inl e, obs1) \<Rightarrow> fail e (w\<lparr>objects := obs1\<rparr>)
      | (Inr _, obs1) \<Rightarrow>
          (let user' = user\<lparr>u_avatar_url := None\<rparr>
           in ok user' (w\<lparr>objects := obs1, db_users := store_row u_id user' (db_users w)\<rparr>)))"

datatype avatar_response = AvatarRedirect string | AvatarFile string string

definition find_avatar :: "provider \<Rightarrow> string \<Rightarrow> world \<Rightarrow> string option" where
  "find_avatar sp uid w =
     find (\<lambda>ext. pv_exists sp (avatar_key uid ext) (objects w)) [''png'', ''jpg'', ''jpeg'']"

definition get_avatar :: "provider \<Rightarrow> string \<Rightarrow> world \<Rightarrow> avatar_response res" where
  "get_avatar sp uid w =
     (case find_avatar sp uid w of
        None \<Rightarrow> Inl (ResourceNotFound ''Avatar topilmadi'')
      | Some ext \<Rightarrow>
          (case pv_resolve_for_download sp (avatar_key uid ext) None ''attachment'' (objects w) of
             Inl e \<Rightarrow> Inl e
           | Inr d \<Rightarrow>
               (if truthy (sd_redirect_url d) then Inr (AvatarRedirect (the (sd_redirect_url d)))
                else
                  (case sd_local_path d of
                     Some p \<Rightarrow> Inr (AvatarFile p (''image/'' @ (if ext = ''png'' then ''png'' else ''jpeg'')))
                   | None \<Rightarrow> Inl (ResourceNotFound ''Avatar yuklab olish imkoni bo'lmadi'')))))"

definition upload_telegram_avatar ::
  "provider \<Rightarrow> (string \<Rightarrow> string option) \<Rightarrow> int \<Rightarrow> int \<Rightarrow> avatar_upload \<Rightarrow> world \<Rightarrow> user res \<times> world"
where
  "upload_telegram_avatar sp guess now tid f w =
     (case get_identity_by_telegram_user_id tid w of
        Inl e \<Rightarrow> fail e w
      | Inr None \<Rightarrow> fail (ResourceNotFound ''Telegramga bog'langan foydalanuvchi topilmadi'') w
      | Inr (Some identity) \<Rightarrow>
          (case require_known_user (pi_id identity) w of
             Inl e \<Rightarrow> fail e w
           | Inr user \<Rightarrow> upload_avatar sp guess now user f w))"

end
