(* ===== verification/UserFacts.thy ===== *)
theory UserFacts
  imports Users
begin

text \<open>
  What holds of the accounts' own requests: avatars, passwords, saved materials, notifications and
  preferences.
\<close>

section \<open>Avatars\<close>

lemma split_on_last_free: "CHR ''.'' \<notin> set (last (split_on (CHR ''.'') s))"
  by (rule split_on_free [of _ _ s]) simp

lemma avatar_key_inj: "avatar_key uid e = avatar_key uid e' \<longleftrightarrow> e = e'"
  by (simp add: avatar_key_def)

text \<open>On any provider that keeps the laws, the old avatars are gone when the loop ends well.\<close>

context storage_provider
begin

lemma delete_other:
  assumes "pv_delete sp k obs = (r, obs')" "j \<noteq> k" shows "obs' j = obs j"
proof (cases r)
  case (Inl e)
  with assms(1) have "obs' = obs" by (blast intro: delete_error)
  then show ?thesis by simp
next
  case (Inr u)
  with assms(1) have "obs' = obs(k := None)" by (blast intro: delete_ok)
  with assms(2) show ?thesis by simp
qed

lemma delete_old_avatars_keeps:
  "delete_old_avatars sp uid exts obs = (r, obs') \<Longrightarrow> k \<notin> avatar_key uid ` set exts \<Longrightarrow> obs' k = obs k"
proof (induction exts arbitrary: obs)
  case (Cons e exts)
  show ?case
  proof (cases "pv_exists sp (avatar_key uid e) obs")
    case True
    obtain q obs1 where q: "pv_delete sp (avatar_key uid e) obs = (q, obs1)" by fastforce
    then have "obs1 k = obs k" using Cons.prems(2) by (auto intro: delete_other)
    with Cons True q show ?thesis by (cases q) auto
  next
    case False
    with Cons show ?thesis by auto
  qed
qed auto

lemma upload_avatar_keeps:
  assumes "upload_avatar sp guess now user f w = (r, w')" "k \<notin> avatar_key (u_id user) ` set avatar_extensions"
  shows "objects w' k = objects w k"
proof -
  obtain q obs1 where del: "delete_old_avatars sp (u_id user) avatar_extensions (objects w) = (q, obs1)" by fastforce
  then have obs1: "obs1 k = objects w k" by (rule delete_old_avatars_keeps [OF _ assms(2)])
  show ?thesis
  proof (cases "avatar_extension (or_else (av_filename f) []) \<in> set avatar_extensions \<and>
      int (length (av_content f)) \<le> 5 * 1024 * 1024 \<and> is_ok q")
    case False
    with assms(1) del obs1 show ?thesis
      by (cases q) (auto simp: upload_avatar_def Let_def split: if_splits)
  next
    case True
    let ?key = "avatar_key (u_id user) (avatar_extension (or_else (av_filename f) []))"
    obtain p obs2 where save: "pv_save_bytes sp (av_content f) ?key (Some (avatar_content_type guess f)) obs1 = (p, obs2)"
      by fastforce
    have "k \<noteq> ?key" using True assms(2) by auto
    then have "obs2 k = obs1 k"
      using bytes_ok [of "av_content f" ?key _ obs1] bytes_error [of "av_content f" ?key _ obs1] save
      by (cases p) fastforce+
    with True assms(1) del obs1 save show ?thesis
      by (cases q; cases p) (auto simp: upload_avatar_def Let_def)
  qed
qed

end

text \<open>On the local provider nothing fails.\<close>

lemma local_provider_ops [simp]:
  "pv_exists (local_provider pr st) k obs = (obs k \<noteq> None)"
  "pv_delete (local_provider pr st) k obs = (Inr (), if obs k \<noteq> None then obs(k := None) else obs)"
  "pv_save_bytes (local_provider pr st) content k ty obs = (Inr (), obs(k \<mapsto> content))"
  "pv_resolve_for_download (local_provider pr st) = local_resolve_for_download st"
  by (simp_all add: local_provider_def)

lemma delete_old_avatars_local:
  "delete_old_avatars (local_provider pr st) uid exts obs =
     (Inr (), \<lambda>k. if k \<in> avatar_key uid ` set exts then None else obs k)"
proof (induction exts arbitrary: obs)
  case (Cons e exts)
  have "(\<lambda>k. if k \<in> avatar_key uid ` set exts then None else (obs(avatar_key uid e := None)) k) =
      (\<lambda>k. if k \<in> avatar_key uid ` set (e # exts) then None else obs k)"
    by (auto simp: fun_eq_iff)
  moreover have "(\<lambda>k. if k \<in> avatar_key uid ` set exts then None else obs k) =
      (\<lambda>k. if k \<in> avatar_key uid ` set (e # exts) then None else obs k)" if "obs (avatar_key uid e) = None"
    using that by (auto simp: fun_eq_iff)
  ultimately show ?case using Cons by (cases "obs (avatar_key uid e)") simp_all
qed auto

lemma find_avatar_local:
  assumes "ext \<in> set avatar_extensions"
    and "\<And>e. e \<in> set avatar_extensions \<Longrightarrow> objects w (avatar_key uid e) \<noteq> None \<longleftrightarrow> e = ext"
  shows "find_avatar (local_provider pr st) uid w = Some ext"
proof -
  have "objects w (avatar_key uid ''png'') \<noteq> None \<longleftrightarrow> ''png'' = ext"
    "objects w (avatar_key uid ''jpg'') \<noteq> None \<longleftrightarrow> ''jpg'' = ext"
    "objects w (avatar_key uid ''jpeg'') \<noteq> None \<longleftrightarrow> ''jpeg'' = ext"
    using assms(2) by (simp_all add: avatar_extensions_def)
  with assms(1) show ?thesis by (auto simp: find_avatar_def avatar_extensions_def)
qed

lemma upload_avatar_local:
  assumes "upload_avatar (local_provider pr st) guess now user f w = (Inr user', w')"
    and ext: "ext = avatar_extension (or_else (av_filename f) [])"
  shows "ext \<in> set avatar_extensions" "int (length (av_content f)) \<le> 5 * 1024 * 1024"
    "user' = user\<lparr>u_avatar_url := Some (avatar_url (u_id user) now)\<rparr>"
    "db_users w' = store_row u_id user' (db_users w)"
    "objects w' = (\<lambda>k. if k \<in> avatar_key (u_id user) ` set avatar_extensions then None else objects w k)
       (avatar_key (u_id user) ext \<mapsto> av_content f)"
  using assms by (auto simp: upload_avatar_def delete_old_avatars_local Let_def split: if_splits)


section \<open>Passwords\<close>

text \<open>
  A change needs the current password, sets exactly the new one, and ends every session of the user
  and of nobody else. (Access tokens that are out stay valid, unlike after a reset.)
\<close>

lemma change_password_effect:
  assumes "argon2_laws x" "get_user (u_id user) w = Some user"
    and "change_password x ids now user current_pw new_pw w = (r, w')"
  shows "if verify_password x current_pw (u_hashed_password user)
    then r = Inr () \<and>
      (\<exists>u'. get_user (u_id user) w' = Some u' \<and> (\<forall>p. verify_password x p (u_hashed_password u') = (p = new_pw))) \<and>
      (\<forall>s\<in>set (db_refresh_token_sessions w'). rs_user_id s = u_id user \<longrightarrow> rs_revoked_at s \<noteq> None) \<and>
      filter (\<lambda>s. rs_user_id s \<noteq> u_id user) (db_refresh_token_sessions w') =
        filter (\<lambda>s. rs_user_id s \<noteq> u_id user) (db_refresh_token_sessions w)
    else r = Inl (ConflictError ''Current password is incorrect'') \<and> w' = w"
proof (cases "verify_password x current_pw (u_hashed_password user)")
  case False
  with assms(3) show ?thesis by (auto simp: change_password_def)
next
  case True
  let ?u = "user\<lparr>u_hashed_password := hash_password x (ids 0) new_pw\<rparr>"
  let ?ss = "update_where (\<lambda>s. rs_user_id s = u_id user \<and> rs_revoked_at s = None)
    (\<lambda>s. s\<lparr>rs_revoked_at := Some now\<rparr>) (db_refresh_token_sessions w)"
  have w': "r = Inr ()" "db_users w' = store_row u_id ?u (db_users w)" "db_refresh_token_sessions w' = ?ss"
    using True assms(3) by (auto simp: change_password_def revoke_all_refresh_tokens_def audit_def Let_def)
  have "find (\<lambda>u. u_id u = u_id user) (store_row u_id ?u rows) = Some ?u"
    if "find (\<lambda>u. u_id u = u_id user) rows = Some user" for rows
    using that by (induction rows) (auto simp: store_row_def split: if_splits)
  with assms(2) have u: "get_user (u_id user) w' = Some ?u" by (simp add: get_user_def w'(2))
  have rest: "filter (\<lambda>s. rs_user_id s \<noteq> u_id user) (update_where (\<lambda>s. rs_user_id s = u_id user \<and> rs_revoked_at s = None)
      (\<lambda>s. s\<lparr>rs_revoked_at := Some now\<rparr>) ss) = filter (\<lambda>s. rs_user_id s \<noteq> u_id user) ss" for ss
    by (induction ss) auto
  with True u w' verify_hash [OF assms(1)] show ?thesis
    by (auto simp: in_update_where)
qed

section \<open>Saved materials, preferences, notifications\<close>

text \<open>A user saves a material at most once and has at most one row of preferences.\<close>

definition user_tables_ok :: "world \<Rightarrow> bool" where
  "user_tables_ok w \<longleftrightarrow>
     distinct (map (\<lambda>s. (sm_user_id s, sm_material_id s)) (db_saved_materials w)) \<and>
     distinct (map pf_user_id (db_user_preferences w)) \<and> distinct (map pf_id (db_user_preferences w))"

lemma save_material_ok:
  assumes "user_tables_ok w" "save_material_for_user ids now mid user w = (r, w')"
  shows "user_tables_ok w' \<and> (is_ok r \<longrightarrow> is_saved (u_id user) mid w')"
  using assms
  by (fastforce simp: save_material_for_user_def user_tables_ok_def is_saved_def audit_def scalar_one_or_none_None
      scalar_one_or_none_Some filter_empty_conv list_ex_iff filter_eq_Cons_iff split: option.splits sum.splits)

lemma remove_saved_material_ok:
  assumes "user_tables_ok w" "remove_saved_material ids now mid user w = (r, w')"
  shows "user_tables_ok w' \<and> \<not> is_saved (u_id user) mid w'"
  using assms
  by (auto simp: remove_saved_material_def user_tables_ok_def is_saved_def audit_def list_ex_iff in_delete_where
      distinct_map_delete_where)

lemma save_remove_saved:
  assumes "\<not> is_saved (u_id user) mid w" "save_material_for_user ids now mid user w = (Inr u, w1)"
    and "remove_saved_material ids' now' mid user w1 = (r, w2)"
  shows "db_saved_materials w2 = db_saved_materials w"
proof -
  have none: "filter (\<lambda>s. sm_user_id s = u_id user \<and> sm_material_id s = mid) (db_saved_materials w) = []"
    using assms(1) by (auto simp: is_saved_def list_ex_iff filter_empty_conv)
  then have "delete_where (\<lambda>s. sm_user_id s = u_id user \<and> sm_material_id s = mid) (db_saved_materials w) =
      db_saved_materials w"
    by (auto simp: delete_where_def filter_id_conv filter_empty_conv)
  with none assms(2,3) show ?thesis
    by (auto simp: save_material_for_user_def remove_saved_material_def audit_def delete_where_def
        split: option.splits)
qed

lemma get_preferences_ok:
  assumes "user_tables_ok w" "ids 0 \<notin> pf_id ` set (db_user_preferences w)" "get_preferences ids user w = (r, w')"
  shows "user_tables_ok w' \<and> (\<exists>p. r = Inr p \<and> pf_user_id p = u_id user \<and> p \<in> set (db_user_preferences w'))"
proof -
  have "length (filter (\<lambda>p. pf_user_id p = u_id user) (db_user_preferences w)) \<le> 1"
    using assms(1) by (intro filter_key_le_one [where k = pf_user_id]) (simp add: user_tables_ok_def)
  then consider "filter (\<lambda>p. pf_user_id p = u_id user) (db_user_preferences w) = []"
    | p where "filter (\<lambda>p. pf_user_id p = u_id user) (db_user_preferences w) = [p]"
    by (cases "filter (\<lambda>p. pf_user_id p = u_id user) (db_user_preferences w)") auto
  then show ?thesis
  proof cases
    case 1
    with assms show ?thesis
      by (auto simp: get_preferences_def user_tables_ok_def default_preference_def filter_empty_conv Let_def) blast
  next
    case 2
    then have "p \<in> set (filter (\<lambda>p. pf_user_id p = u_id user) (db_user_preferences w))" by simp
    with 2 assms show ?thesis by (auto simp: get_preferences_def)
  qed
qed

lemma mark_notification_read_own:
  assumes "mark_notification_read i user w = (r, w')" "w' \<noteq> w"
  shows "\<exists>n. r = Inr (n\<lparr>no_is_read := True\<rparr>) \<and> n \<in> set (db_notifications w) \<and> no_id n = i \<and> no_user_id n = u_id user"
  using assms by (auto simp: mark_notification_read_def Let_def split: option.splits if_splits dest: find_SomeD)

lemma mark_all_notifications_read_rows:
  assumes "distinct (map no_id (db_notifications w))" "mark_all_notifications_read user w = (n, w')"
  shows "db_notifications w' =
      map (\<lambda>x. if no_user_id x = u_id user then x\<lparr>no_is_read := True\<rparr> else x) (db_notifications w)"
    and "n = int (length (filter (\<lambda>x. no_user_id x = u_id user) (db_notifications w)))"
proof -
  let ?items = "list_notifications user w"
  have "distinct (db_notifications w)" using assms(1) by (simp add: distinct_map)
  then have "distinct ?items"
    by (simp add: list_notifications_def order_by_desc_def)
  then have "foldl (\<lambda>ns n. store_row no_id (n\<lparr>no_is_read := True\<rparr>) ns) (db_notifications w) ?items =
      map (\<lambda>x. if x \<in> set ?items then x\<lparr>no_is_read := True\<rparr> else x) (db_notifications w)"
    by (intro store_rows_map) (use assms(1) in \<open>auto simp: list_notifications_def\<close>)
  with assms(2) show "db_notifications w' =
      map (\<lambda>x. if no_user_id x = u_id user then x\<lparr>no_is_read := True\<rparr> else x) (db_notifications w)"
    "n = int (length (filter (\<lambda>x. no_user_id x = u_id user) (db_notifications w)))"
    by (auto simp: mark_all_notifications_read_def list_notifications_def Let_def)
qed

section \<open>Examples\<close>

definition avatar_user :: user where
  "avatar_user = \<lparr>u_id = ''a'', u_full_name = ''A'', u_email = ''a@x.uz'', u_avatar_url = None,
     u_hashed_password = '''', u_role = STUDENT, u_university_id = None, u_university_changed_at = None,
     u_pending_university_name = None, u_university_status = ''selected'', u_is_active = True,
     u_is_verified = True, u_created_at = 0\<rparr>"

definition avatar_world :: world where
  "avatar_world = empty_world\<lparr>db_users := [avatar_user], objects := [''avatars/a/avatar.jpg'' \<mapsto> ''old'']\<rparr>"

definition avatar_file :: avatar_upload where
  "avatar_file = \<lparr>av_filename = Some ''me.PNG'', av_content_type = None, av_content = ''new''\<rparr>"


end
