(* ===== verification/Community.thy ===== *)
theory Community
  imports Complex_Main World
begin

text \<open>
  \<^verbatim>\<open>app/modules/community/service.py\<close>: comments and ratings on materials. \<open>ids\<close> numbers the
  identifiers of a request: 0 the new row, 1 the audit row.
\<close>

section \<open>Comments\<close>

definition get_comment :: "string \<Rightarrow> world \<Rightarrow> comment option" where
  "get_comment i w = find (\<lambda>c. co_id c = i) (db_comments w)"

definition list_comments :: "string \<Rightarrow> world \<Rightarrow> comment list" where
  "list_comments mid w = order_by co_created_at (filter (\<lambda>c. co_material_id c = mid) (db_comments w))"

definition create_comment ::
  "(nat \<Rightarrow> string) \<Rightarrow> int \<Rightarrow> string \<Rightarrow> string \<Rightarrow> user \<Rightarrow> world \<Rightarrow> comment res \<times> world"
where
  "create_comment ids now mid content user w =
     (case get_material mid w of
        None \<Rightarrow> fail (ResourceNotFound ''Material not found'') w
      | Some _ \<Rightarrow>
          (let c = \<lparr>co_id = ids 0, co_material_id = mid, co_user_id = u_id user, co_content = content,
                 co_created_at = now, co_updated_at = now\<rparr>
           in ok c (audit (ids 1) now ''comment_created'' ''comment'' (Some user) (Some (co_id c))
                (Some (take 200 content)) (w\<lparr>db_comments := db_comments w @ [c]\<rparr>))))"

definition update_comment ::
  "(nat \<Rightarrow> string) \<Rightarrow> int \<Rightarrow> string \<Rightarrow> string \<Rightarrow> user \<Rightarrow> world \<Rightarrow> comment res \<times> world"
where
  "update_comment ids now comment_id content user w =
     (case get_comment comment_id w of
        None \<Rightarrow> fail (ResourceNotFound ''Comment not found'') w
      | Some c \<Rightarrow>
          (if co_user_id c \<noteq> u_id user then fail (PermissionDenied ''You do not own this comment'') w
           else
             (let c' = (if content = co_content c then c
                        else c\<lparr>co_content := content, co_updated_at := now\<rparr>)
              in ok c' (audit (ids 1) now ''comment_updated'' ''comment'' (Some user) (Some (co_id c))
                   (Some (take 200 content)) (w\<lparr>db_comments := store_row co_id c' (db_comments w)\<rparr>)))))"

definition delete_comment ::
  "(nat \<Rightarrow> string) \<Rightarrow> int \<Rightarrow> string \<Rightarrow> user \<Rightarrow> world \<Rightarrow> unit res \<times> world"
where
  "delete_comment ids now comment_id user w =
     (case get_comment comment_id w of
        None \<Rightarrow> fail (ResourceNotFound ''Comment not found'') w
      | Some c \<Rightarrow>
          (if co_user_id c \<noteq> u_id user \<and> role_value (u_role user) \<noteq> ''admin''
           then fail (PermissionDenied ''You do not own this comment'') w
           else
             (let w1 = audit (ids 1) now ''comment_deleted'' ''comment'' (Some user) (Some (co_id c)) None w
              in ok () (w1\<lparr>db_comments := delete_where (\<lambda>q. co_id q = comment_id) (db_comments w1)\<rparr>))))"

section \<open>Ratings\<close>

record rating_summary =
  rsm_average :: rat
  rsm_total :: int
  rsm_my_rating :: "int option"

text \<open>\<open>func.avg\<close> of no rows is null, which the code makes 0.\<close>

definition average :: "int list \<Rightarrow> rat" where
  "average vs = (if vs = [] then 0 else Fract (sum_list vs) (int (length vs)))"

definition own_ratings :: "string \<Rightarrow> string \<Rightarrow> world \<Rightarrow> material_rating list" where
  "own_ratings mid uid w =
     filter (\<lambda>r. ra_material_id r = mid \<and> ra_user_id r = uid) (db_material_ratings w)"

definition get_rating_summary :: "string \<Rightarrow> user option \<Rightarrow> world \<Rightarrow> rating_summary res" where
  "get_rating_summary mid user w =
     (case get_material mid w of
        None \<Rightarrow> Inl (ResourceNotFound ''Material not found'')
      | Some _ \<Rightarrow>
          (let vs = map ra_value (filter (\<lambda>r. ra_material_id r = mid) (db_material_ratings w))
           in case (case user of None \<Rightarrow> Inr None
                    | Some u \<Rightarrow> scalar_one_or_none (map ra_value (own_ratings mid (u_id u) w))) of
                Inl e \<Rightarrow> Inl e
              | Inr mine \<Rightarrow>
                  Inr \<lparr>rsm_average = average vs, rsm_total = int (length vs), rsm_my_rating = mine\<rparr>))"

definition rate ::
  "(nat \<Rightarrow> string) \<Rightarrow> int \<Rightarrow> string \<Rightarrow> int \<Rightarrow> user \<Rightarrow> world \<Rightarrow> rating_summary res \<times> world"
where
  "rate ids now mid v user w =
     (case get_material mid w of
        None \<Rightarrow> fail (ResourceNotFound ''Material not found'') w
      | Some _ \<Rightarrow>
          (case scalar_one_or_none (own_ratings mid (u_id user) w) of
             Inl e \<Rightarrow> fail e w
           | Inr existing \<Rightarrow>
               (let (action, rows) =
                      (case existing of
                         Some r \<Rightarrow> (''rating_updated'', store_row ra_id (r\<lparr>ra_value := v\<rparr>) (db_material_ratings w))
                       | None \<Rightarrow> (''rating_created'', db_material_ratings w @
                           [\<lparr>ra_id = ids 0, ra_user_id = u_id user, ra_material_id = mid, ra_value = v\<rparr>]));
                    w1 = audit (ids 1) now action ''material_rating'' (Some user) (Some mid) (Some (str_int v))
                      (w\<lparr>db_material_ratings := rows\<rparr>)
                in (get_rating_summary mid (Some user) w1, w1))))"

definition unrate :: "(nat \<Rightarrow> string) \<Rightarrow> int \<Rightarrow> string \<Rightarrow> user \<Rightarrow> world \<Rightarrow> unit res \<times> world" where
  "unrate ids now mid user w =
     (case scalar_one_or_none (own_ratings mid (u_id user) w) of
        Inl e \<Rightarrow> fail e w
      | Inr None \<Rightarrow> fail (ConflictError ''Rating does not exist'') w
      | Inr (Some r) \<Rightarrow>
          (let w1 = audit (ids 1) now ''rating_deleted'' ''material_rating'' (Some user) (Some mid) None w
           in ok () (w1\<lparr>db_material_ratings := delete_where (\<lambda>q. ra_id q = ra_id r) (db_material_ratings w1)\<rparr>)))"

text \<open>Who may change a comment: its author; who may delete it: its author or an admin.\<close>

lemma update_comment_author:
  assumes "update_comment ids now i content user w = (r, w')"
  shows "db_comments w' = (case get_comment i w of
      Some c \<Rightarrow> (if co_user_id c = u_id user \<and> content \<noteq> co_content c
        then store_row co_id (c\<lparr>co_content := content, co_updated_at := now\<rparr>) (db_comments w)
        else if co_user_id c = u_id user then store_row co_id c (db_comments w) else db_comments w)
    | None \<Rightarrow> db_comments w)"
  using assms by (auto simp: update_comment_def audit_def Let_def split: option.splits if_splits)

lemma delete_comment_author:
  assumes "delete_comment ids now i user w = (r, w')" "db_comments w' \<noteq> db_comments w"
  shows "r = Inr () \<and> db_comments w' = delete_where (\<lambda>c. co_id c = i) (db_comments w) \<and>
    (u_role user = ADMIN \<or> (\<exists>c. get_comment i w = Some c \<and> co_user_id c = u_id user))"
  using assms
  by (cases "u_role user") (auto simp: delete_comment_def audit_def Let_def split: option.splits if_splits)

section \<open>What the table of ratings always satisfies\<close>

text \<open>A user rates a material at most once, and from 1 to 5.\<close>

definition ratings_ok :: "world \<Rightarrow> bool" where
  "ratings_ok w \<longleftrightarrow>
     distinct (map ra_id (db_material_ratings w)) \<and>
     distinct (map (\<lambda>r. (ra_user_id r, ra_material_id r)) (db_material_ratings w)) \<and>
     list_all (\<lambda>r. ra_value r \<in> {1..5}) (db_material_ratings w)"

lemma own_ratings_audit [simp]:
  "own_ratings mid uid (audit i now a e u d t w) = own_ratings mid uid w"
  by (simp add: own_ratings_def audit_def)

lemma audit_community [simp]:
  "db_material_ratings (audit i now a e u d t w) = db_material_ratings w"
  "db_comments (audit i now a e u d t w) = db_comments w"
  "db_materials (audit i now a e u d t w) = db_materials w"
  by (simp_all add: audit_def)

lemma own_ratings_le_1: "ratings_ok w \<Longrightarrow> length (own_ratings mid uid w) \<le> 1"
  using filter_key_le_one [of "\<lambda>r. (ra_user_id r, ra_material_id r)" "db_material_ratings w" "(uid, mid)"]
  by (simp add: ratings_ok_def own_ratings_def conj_commute)

lemma own_ratings_cases:
  assumes "ratings_ok w"
  obtains "own_ratings mid uid w = []" | r where "own_ratings mid uid w = [r]"
    "r \<in> set (db_material_ratings w)" "ra_material_id r = mid" "ra_user_id r = uid"
proof (cases "own_ratings mid uid w")
  case Nil
  then show ?thesis by (rule that(1))
next
  case (Cons r rs)
  with own_ratings_le_1 [OF assms, of mid uid] have "own_ratings mid uid w = [r]" by simp
  moreover from this have "r \<in> set (own_ratings mid uid w)" by simp
  then have "r \<in> set (db_material_ratings w)" "ra_material_id r = mid" "ra_user_id r = uid"
    by (simp_all add: own_ratings_def)
  ultimately show ?thesis by (rule that(2))
qed

lemma own_ratings_Nil:
  "own_ratings mid uid w = [] \<longleftrightarrow> (uid, mid) \<notin> (\<lambda>r. (ra_user_id r, ra_material_id r)) ` set (db_material_ratings w)"
  by (auto simp: own_ratings_def filter_empty_conv)

lemma get_rating_summary_ok:
  assumes "ratings_ok w" "get_material mid w = Some m"
  shows "\<exists>s. get_rating_summary mid user w = Inr s \<and>
    rsm_total s = int (length (filter (\<lambda>r. ra_material_id r = mid) (db_material_ratings w))) \<and>
    rsm_average s = average (map ra_value (filter (\<lambda>r. ra_material_id r = mid) (db_material_ratings w))) \<and>
    rsm_my_rating s = (case user of None \<Rightarrow> None
      | Some u \<Rightarrow> (case own_ratings mid (u_id u) w of [] \<Rightarrow> None | r # _ \<Rightarrow> Some (ra_value r)))"
proof (cases user)
  case None
  with assms(2) show ?thesis by (simp add: get_rating_summary_def Let_def)
next
  case (Some u)
  with assms(2) show ?thesis
    by (cases rule: own_ratings_cases [OF assms(1), of mid "u_id u"])
      (simp_all add: get_rating_summary_def Let_def)
qed

lemma average_bounds:
  assumes "vs \<noteq> []" "list_all (\<lambda>v. v \<in> {1..5}) vs"
  shows "1 \<le> average vs" "average vs \<le> 5"
proof -
  have sum: "int (length vs) \<le> sum_list vs \<and> sum_list vs \<le> 5 * int (length vs)"
    using assms(2) by (induction vs) auto
  have "0 < int (length vs)" using assms(1) by simp
  with sum assms(1) show "1 \<le> average vs" "average vs \<le> 5"
    by (simp_all add: average_def Fract_le_one_iff Fract_of_int_quotient le_divide_eq_1 divide_le_eq)
qed

text \<open>The rows after a rating: changed in place, or a new one at the end.\<close>

lemma rate_rows:
  assumes "ratings_ok w" "get_material mid w = Some m" "rate ids now mid v user w = (r, w')"
  shows "db_materials w' = db_materials w"
    and "own_ratings mid (u_id user) w = [] \<Longrightarrow> db_material_ratings w' = db_material_ratings w @
      [\<lparr>ra_id = ids 0, ra_user_id = u_id user, ra_material_id = mid, ra_value = v\<rparr>]"
    and "own_ratings mid (u_id user) w = [q] \<Longrightarrow> db_material_ratings w' =
      map (\<lambda>p. if p = q then q\<lparr>ra_value := v\<rparr> else p) (db_material_ratings w)"
    and "r = get_rating_summary mid (Some user) w'"
proof -
  show "db_materials w' = db_materials w" "r = get_rating_summary mid (Some user) w'"
    by (cases rule: own_ratings_cases [OF assms(1), of mid "u_id user"]; use assms(2,3) in
      \<open>auto simp: rate_def Let_def\<close>)+
  show "own_ratings mid (u_id user) w = [] \<Longrightarrow> db_material_ratings w' = db_material_ratings w @
      [\<lparr>ra_id = ids 0, ra_user_id = u_id user, ra_material_id = mid, ra_value = v\<rparr>]"
    using assms(2,3) by (auto simp: rate_def Let_def)
  assume q: "own_ratings mid (u_id user) w = [q]"
  then have "q \<in> set (own_ratings mid (u_id user) w)" by simp
  then have "q \<in> set (db_material_ratings w)" by (simp add: own_ratings_def)
  then have "store_row ra_id (q\<lparr>ra_value := v\<rparr>) (db_material_ratings w) =
      map (\<lambda>p. if p = q then p\<lparr>ra_value := v\<rparr> else p) (db_material_ratings w)"
    using assms(1) by (intro store_row_map) (simp_all add: ratings_ok_def)
  with q assms(2,3) show "db_material_ratings w' =
      map (\<lambda>p. if p = q then q\<lparr>ra_value := v\<rparr> else p) (db_material_ratings w)"
    by (auto simp: rate_def Let_def cong: if_cong)
qed

lemma rate_ratings_ok:
  assumes "ratings_ok w" "v \<in> {1..5}" "ids 0 \<notin> ra_id ` set (db_material_ratings w)"
    and "rate ids now mid v user w = (r, w')"
  shows "ratings_ok w'"
proof (cases "get_material mid w")
  case None
  with assms show ?thesis by (simp add: rate_def)
next
  case (Some m)
  note rows = rate_rows [OF assms(1) Some assms(4)]
  show ?thesis
  proof (cases rule: own_ratings_cases [OF assms(1), of mid "u_id user"])
    case 1
    with assms rows(2) show ?thesis by (auto simp: ratings_ok_def own_ratings_Nil)
  next
    case (2 q)
    have key: "map f (map (\<lambda>p. if p = q then q\<lparr>ra_value := v\<rparr> else p) (db_material_ratings w)) =
        map f (db_material_ratings w)" if "f (q\<lparr>ra_value := v\<rparr>) = f q" for f :: "material_rating \<Rightarrow> 'a"
      using that by simp
    show ?thesis using assms(1,2) 2(1) rows(3)
      by (auto simp: ratings_ok_def list_all_iff key simp del: map_map)
  qed
qed

lemma unrate_ratings_ok:
  assumes "ratings_ok w" "unrate ids now mid user w = (r, w')"
  shows "ratings_ok w'"
  using assms
  by (cases rule: own_ratings_cases [OF assms(1), of mid "u_id user"])
    (auto simp: unrate_def Let_def ratings_ok_def list_all_iff in_delete_where distinct_map_delete_where)

section \<open>Runs of rating requests\<close>

text \<open>The schema of the request lets only 1 to 5 through; a new identifier is not one of the table.\<close>

inductive rating_run :: "world \<Rightarrow> world \<Rightarrow> bool" where
  run_start: "rating_run w w"
| run_rate: "rating_run w w1 \<Longrightarrow> v \<in> {1..5} \<Longrightarrow> ids 0 \<notin> ra_id ` set (db_material_ratings w1) \<Longrightarrow>
     rate ids now mid v user w1 = (s, w2) \<Longrightarrow> rating_run w w2"
| run_unrate: "rating_run w w1 \<Longrightarrow> unrate ids now mid user w1 = (u, w2) \<Longrightarrow> rating_run w w2"

lemma rating_run_ok: "rating_run w w' \<Longrightarrow> ratings_ok w \<Longrightarrow> ratings_ok w'"
  by (induction rule: rating_run.induct) (auto dest: rate_ratings_ok unrate_ratings_ok)

lemma length_raters:
  assumes "ratings_ok w"
  shows "length (filter (\<lambda>r. ra_material_id r = mid) (db_material_ratings w)) =
    card {uid. own_ratings mid uid w \<noteq> []}"
proof -
  let ?rs = "filter (\<lambda>r. ra_material_id r = mid) (db_material_ratings w)"
  have "inj_on ra_user_id (set ?rs)"
    using assms by (auto simp: ratings_ok_def inj_on_def dest: distinct_map_keyed)
  moreover have "distinct ?rs"
    using assms by (auto simp: ratings_ok_def distinct_map)
  moreover have "{uid. own_ratings mid uid w \<noteq> []} = ra_user_id ` set ?rs"
    by (auto simp: own_ratings_def filter_empty_conv)
  ultimately show ?thesis by (metis card_image distinct_card)
qed

text \<open>
  After any rating requests the summary of a material counts each user who rates it once, and
  its average lies between 1 and 5; it is 0 exactly when nobody rates the material.
\<close>

theorem rating_summary_bounds:
  assumes "rating_run w w'" "ratings_ok w" "get_material mid w' = Some m"
  shows "\<exists>s. get_rating_summary mid user w' = Inr s \<and>
    rsm_total s = int (card {uid. own_ratings mid uid w' \<noteq> []}) \<and>
    (if rsm_total s = 0 then rsm_average s = 0 else 1 \<le> rsm_average s \<and> rsm_average s \<le> 5)"
proof -
  let ?vs = "map ra_value (filter (\<lambda>r. ra_material_id r = mid) (db_material_ratings w'))"
  have ok: "ratings_ok w'" by (rule rating_run_ok [OF assms(1,2)])
  then have "list_all (\<lambda>v. v \<in> {1..5}) ?vs" by (auto simp: ratings_ok_def list_all_iff)
  from get_rating_summary_ok [OF ok assms(3), of user] average_bounds [OF _ this] length_raters [OF ok, of mid]
  show ?thesis by (cases "?vs = []") (auto simp: average_def)
qed

text \<open>
  A rating that is taken back leaves the ratings as they were; in between, the summary has it,
  and counts one rating more.
\<close>

theorem rate_unrate_roundtrip:
  assumes "ratings_ok w" "get_material mid w = Some m" "own_ratings mid (u_id user) w = []"
    and "ids 0 \<notin> ra_id ` set (db_material_ratings w)"
    and "rate ids now mid v user w = (r, w1)" "unrate ids' now' mid user w1 = (r', w2)"
  shows "(\<exists>s. r = Inr s \<and> rsm_my_rating s = Some v \<and>
      rsm_total s = int (card {uid. own_ratings mid uid w \<noteq> []}) + 1) \<and>
    r' = Inr () \<and> db_material_ratings w2 = db_material_ratings w"
proof -
  note rows = rate_rows [OF assms(1,2,5)]
  let ?q = "\<lparr>ra_id = ids 0, ra_user_id = u_id user, ra_material_id = mid, ra_value = v\<rparr>"
  have rs: "db_material_ratings w1 = db_material_ratings w @ [?q]" by (rule rows(2) [OF assms(3)])
  then have own: "own_ratings mid (u_id user) w1 = [?q]" using assms(3) by (simp add: own_ratings_def)
  from rows(1) assms(2) have m: "get_material mid w1 = Some m" by (simp add: get_material_def)
  have "r' = Inr ()" "db_material_ratings w2 = delete_where (\<lambda>p. ra_id p = ids 0) (db_material_ratings w1)"
    using assms(6) own by (auto simp: unrate_def Let_def)
  moreover have "delete_where (\<lambda>p. ra_id p = ids 0) (db_material_ratings w1) = db_material_ratings w"
    using assms(4) unfolding rs by (auto simp: delete_where_def filter_id_conv) (metis imageI)
  moreover have "\<exists>s. r = Inr s \<and> rsm_my_rating s = Some v \<and>
      rsm_total s = int (card {uid. own_ratings mid uid w \<noteq> []}) + 1"
    using rows(4) m own length_raters [OF assms(1), of mid]
    by (auto simp: get_rating_summary_def Let_def rs)
  ultimately show ?thesis by simp
qed

section \<open>Examples\<close>

definition rater :: "string \<Rightarrow> user" where
  "rater i = \<lparr>u_id = i, u_full_name = ''R'', u_email = ''r@x.uz'', u_avatar_url = None,
     u_hashed_password = '''', u_role = STUDENT, u_university_id = None, u_university_changed_at = None,
     u_pending_university_name = None, u_university_status = ''selected'', u_is_active = True,
     u_is_verified = True, u_created_at = 0\<rparr>"

definition rated_material :: material where
  "rated_material = \<lparr>m_id = ''m'', m_title = ''T'', m_slug = ''t'', m_description = None,
     m_material_type = BOOK, m_status = APPROVED, m_subject_id = ''s'', m_semesters = [],
     m_uploaded_by = ''o'', m_approved_by = None, m_last_reviewed_by = None, m_rejected_reason = None,
     m_cover_file_id = None, m_primary_file_id = None, m_file_count = 0, m_total_size = 0,
     m_download_count = 0, m_submitted_at = None, m_reviewed_at = None, m_deleted_at = None,
     m_created_at = 0, m_updated_at = 0\<rparr>"

definition rated_world :: world where
  "rated_world = empty_world\<lparr>db_materials := [rated_material],
     db_material_ratings := [\<lparr>ra_id = ''r1'', ra_user_id = ''b'', ra_material_id = ''m'', ra_value = 4\<rparr>]\<rparr>"

lemma rated_world_ok: "ratings_ok rated_world" "get_material ''m'' rated_world = Some rated_material"
  "own_ratings ''m'' (u_id (rater ''a'')) rated_world = []"
  by (simp_all add: rated_world_def ratings_ok_def get_material_def rated_material_def own_ratings_def rater_def)

lemma rating_summary_bounds_witness:
  "\<exists>s. get_rating_summary ''m'' None (snd (rate (\<lambda>_. ''r2'') 5 ''m'' 5 (rater ''a'') rated_world)) = Inr s \<and>
    rsm_total s = int (card {uid. own_ratings ''m'' uid
      (snd (rate (\<lambda>_. ''r2'') 5 ''m'' 5 (rater ''a'') rated_world)) \<noteq> []}) \<and>
    (if rsm_total s = 0 then rsm_average s = 0 else 1 \<le> rsm_average s \<and> rsm_average s \<le> 5)"
proof (rule rating_summary_bounds)
  show "rating_run rated_world (snd (rate (\<lambda>_. ''r2'') 5 ''m'' 5 (rater ''a'') rated_world))"
    by (rule run_rate [OF run_start _ _ prod.collapse [symmetric]])
      (simp_all add: rated_world_def)
  show "get_material ''m'' (snd (rate (\<lambda>_. ''r2'') 5 ''m'' 5 (rater ''a'') rated_world)) = Some rated_material"
    using rate_rows(1) [OF rated_world_ok(1,2) prod.collapse [symmetric]] rated_world_ok(2)
    by (simp add: get_material_def)
qed (rule rated_world_ok)

lemma rate_unrate_roundtrip_witness:
  "(\<exists>s. fst (rate (\<lambda>_. ''r2'') 5 ''m'' 5 (rater ''a'') rated_world) = Inr s \<and> rsm_my_rating s = Some 5 \<and>
      rsm_total s = int (card {uid. own_ratings ''m'' uid rated_world \<noteq> []}) + 1) \<and>
    fst (unrate (\<lambda>_. ''x'') 6 ''m'' (rater ''a'') (snd (rate (\<lambda>_. ''r2'') 5 ''m'' 5 (rater ''a'') rated_world))) = Inr () \<and>
    db_material_ratings (snd (unrate (\<lambda>_. ''x'') 6 ''m'' (rater ''a'')
      (snd (rate (\<lambda>_. ''r2'') 5 ''m'' 5 (rater ''a'') rated_world)))) = db_material_ratings rated_world"
  by (rule rate_unrate_roundtrip [OF rated_world_ok _ prod.collapse [symmetric] prod.collapse [symmetric]])
    (simp add: rated_world_def)

end
