(* ===== verification/Tags.thy ===== *)
theory Tags
  imports Slug World
begin

text \<open>
  \<^verbatim>\<open>app/modules/tags/service.py\<close>: the tags that materials share.
\<close>

definition get_tag :: "string \<Rightarrow> world \<Rightarrow> tag res" where
  "get_tag i w =
     (case find (\<lambda>t. t_id t = i) (db_tags w) of
        None \<Rightarrow> Inl (ResourceNotFound ''Tag not found'') | Some t \<Rightarrow> Inr t)"

definition list_tags :: "world \<Rightarrow> tag list" where
  "list_tags w = order_by t_name (db_tags w)"

text \<open>SQL's \<open>trim\<close> takes away spaces only. \<open>if result.scalar_one_or_none()\<close>: a row that was found.\<close>

definition tag_name_key :: "string \<Rightarrow> string" where
  "tag_name_key s = lower (strip_char (CHR '' '') s)"

definition refuse_found :: "string \<Rightarrow> string list \<Rightarrow> unit res" where
  "refuse_found message found =
     (case scalar_one_or_none found of
        Inl e \<Rightarrow> Inl e
      | Inr i \<Rightarrow> (if truthy i then Inl (ConflictError message) else Inr ()))"

definition tag_excluded :: "string option \<Rightarrow> tag \<Rightarrow> bool" where
  "tag_excluded exclude_id t \<longleftrightarrow> truthy exclude_id \<and> exclude_id = Some (t_id t)"

definition ensure_tag_name_available :: "string \<Rightarrow> string option \<Rightarrow> tag list \<Rightarrow> unit res" where
  "ensure_tag_name_available name exclude_id tags =
     refuse_found ''Tag with this name already exists''
       (map t_id (filter (\<lambda>t. tag_name_key (t_name t) = lower (strip name) \<and> \<not> tag_excluded exclude_id t) tags))"

definition ensure_tag_slug_available :: "string \<Rightarrow> string option \<Rightarrow> tag list \<Rightarrow> unit res" where
  "ensure_tag_slug_available slug exclude_id tags =
     refuse_found ''Tag with this slug already exists''
       (map t_id (filter (\<lambda>t. t_slug t = slug \<and> \<not> tag_excluded exclude_id t) tags))"

text \<open>The columns of a tag: at most 100 characters, each unique.\<close>

definition flush_tag :: "tag \<Rightarrow> tag list \<Rightarrow> unit res" where
  "flush_tag t others =
     (if length (t_name t) > 100 \<or> length (t_slug t) > 100
      then Inl (DatabaseError ''value too long for type character varying(100)'')
      else if list_ex (\<lambda>q. t_id q = t_id t \<or> t_name q = t_name t \<or> t_slug q = t_slug t) others
      then Inl IntegrityError
      else Inr ())"

definition create_tag :: "externals \<Rightarrow> string \<Rightarrow> string \<Rightarrow> string option \<Rightarrow> world \<Rightarrow> tag res \<times> world" where
  "create_tag x i payload_name payload_slug w =
     (let name = strip payload_name in
      if name = [] then fail (ValidationAppError ''Tag name is required'') w
      else
        (let slug = (if truthy payload_slug then slugify x (the payload_slug) else slugify x name)
         in case ensure_tag_name_available name None (db_tags w) of
              Inl e \<Rightarrow> fail e w
            | Inr _ \<Rightarrow>
           (case ensure_tag_slug_available slug None (db_tags w) of
              Inl e \<Rightarrow> fail e w
            | Inr _ \<Rightarrow>
                (let t = \<lparr>t_id = i, t_name = name, t_slug = slug\<rparr>
                 in case flush_tag t (db_tags w) of
                      Inl e \<Rightarrow> fail e w
                    | Inr _ \<Rightarrow> ok t (w\<lparr>db_tags := db_tags w @ [t]\<rparr>)))))"

text \<open>The name is flushed by the query for the slug; a failure there is one of the request.\<close>

definition rename_tag :: "string option \<Rightarrow> tag \<Rightarrow> tag list \<Rightarrow> tag res" where
  "rename_tag payload_name t tags =
     (case payload_name of
        None \<Rightarrow> Inr t
      | Some n \<Rightarrow>
          (let name = strip n in
           if name = [] then Inl (ValidationAppError ''Tag name is required'')
           else
             (case ensure_tag_name_available name (Some (t_id t)) tags of
                Inl e \<Rightarrow> Inl e | Inr _ \<Rightarrow> Inr (t\<lparr>t_name := name\<rparr>))))"

definition set_tag_slug :: "string \<Rightarrow> tag \<Rightarrow> tag list \<Rightarrow> tag res" where
  "set_tag_slug slug t tags =
     (case ensure_tag_slug_available slug (Some (t_id t)) tags of
        Inl e \<Rightarrow> Inl e | Inr _ \<Rightarrow> Inr (t\<lparr>t_slug := slug\<rparr>))"

definition reslug_tag ::
  "externals \<Rightarrow> string option \<Rightarrow> string option \<Rightarrow> tag \<Rightarrow> tag list \<Rightarrow> tag res"
where
  "reslug_tag x payload_name payload_slug t tags =
     (case payload_slug of
        Some s \<Rightarrow>
          (if slugify x s = [] then Inl (ValidationAppError ''Tag slug is required'')
           else set_tag_slug (slugify x s) t tags)
      | None \<Rightarrow> (if payload_name \<noteq> None then set_tag_slug (slugify x (t_name t)) t tags else Inr t))"

definition update_tag ::
  "externals \<Rightarrow> string \<Rightarrow> string option \<Rightarrow> string option \<Rightarrow> world \<Rightarrow> tag res \<times> world"
where
  "update_tag x tag_id payload_name payload_slug w =
     (case get_tag tag_id w of
        Inl e \<Rightarrow> fail e w
      | Inr t \<Rightarrow>
     (case rename_tag payload_name t (db_tags w) of
        Inl e \<Rightarrow> fail e w
      | Inr t1 \<Rightarrow>
     (case reslug_tag x payload_name payload_slug t1 (db_tags w) of
        Inl e \<Rightarrow> fail e w
      | Inr t2 \<Rightarrow>
     (case flush_tag t2 (delete_where (\<lambda>q. t_id q = t_id t) (db_tags w)) of
        Inl e \<Rightarrow> fail e w
      | Inr _ \<Rightarrow> ok t2 (w\<lparr>db_tags := store_row t_id t2 (db_tags w)\<rparr>)))))"

definition delete_tag :: "string \<Rightarrow> world \<Rightarrow> unit res \<times> world" where
  "delete_tag tag_id w =
     (case get_tag tag_id w of
        Inl e \<Rightarrow> fail e w
      | Inr t \<Rightarrow>
          ok () (w\<lparr>db_material_tags := delete_where (\<lambda>mt. snd mt = t_id t) (db_material_tags w),
                  db_tags := delete_where (\<lambda>q. t_id q = t_id t) (db_tags w)\<rparr>))"

section \<open>What the table of tags always satisfies\<close>

text \<open>
  Names differ even without their case, slugs differ and are slugs, and a material has only tags
  that exist.
\<close>

definition tags_ok :: "world \<Rightarrow> bool" where
  "tags_ok w \<longleftrightarrow>
     distinct (map t_id (db_tags w)) \<and>
     distinct (map (\<lambda>t. lower (t_name t)) (db_tags w)) \<and>
     distinct (map t_slug (db_tags w)) \<and>
     list_all (\<lambda>t. t_id t \<noteq> [] \<and> t_name t \<noteq> [] \<and> strip (t_name t) = t_name t \<and> is_slug (t_slug t)) (db_tags w) \<and>
     snd ` set (db_material_tags w) \<subseteq> t_id ` set (db_tags w)"

lemma strip_ends:
  assumes "strip s \<noteq> []" shows "\<not> is_space (hd (strip s))" "\<not> is_space (last (strip s))"
proof -
  let ?t = "lstrip s"
  have d: "dropWhile is_space (rev ?t) \<noteq> []" using assms by (simp add: strip_def rstrip_def)
  then show "\<not> is_space (last (strip s))"
    using hd_dropWhile [OF d] by (simp add: strip_def rstrip_def last_rev)
  have "?t = strip s @ rev (takeWhile is_space (rev ?t))"
    by (metis rev_append rev_rev_ident rstrip_def strip_def takeWhile_dropWhile_id)
  with assms have hd: "hd (strip s) = hd ?t" by (metis hd_append2)
  have "dropWhile is_space s \<noteq> []"
  proof
    assume "dropWhile is_space s = []"
    then have "strip s = []" by (simp only: strip_def lstrip_def rstrip_def) simp
    with assms show False ..
  qed
  from hd_dropWhile [OF this] hd show "\<not> is_space (hd (strip s))" by (simp add: lstrip_def)
qed

lemma strip_id: "s \<noteq> [] \<Longrightarrow> \<not> is_space (hd s) \<Longrightarrow> \<not> is_space (last s) \<Longrightarrow> strip s = s"
proof -
  assume s: "s \<noteq> []" "\<not> is_space (hd s)" "\<not> is_space (last s)"
  have drop: "dropWhile is_space t = t" if "t \<noteq> []" "\<not> is_space (hd t)" for t
    using that by (cases t) auto
  show ?thesis using s drop [of s] drop [of "rev s"] by (simp add: strip_def lstrip_def rstrip_def hd_rev)
qed

lemma strip_strip: "strip (strip s) = strip s"
proof (cases "strip s = []")
  case False
  then show ?thesis by (intro strip_id strip_ends)
qed simp

lemma name_key_stripped: "s \<noteq> [] \<Longrightarrow> strip s = s \<Longrightarrow> tag_name_key s = lower s"
proof -
  assume s: "s \<noteq> []" "strip s = s"
  then have "\<not> is_space (hd s)" "\<not> is_space (last s)" using strip_ends [of s] by simp_all
  moreover have "is_space (CHR '' '')" by (simp add: is_space_def)
  ultimately have "strip_char (CHR '' '') s = s" using s(1) by (intro strip_char_id) auto
  then show ?thesis by (simp add: tag_name_key_def)
qed

lemma distinct_map_store_row:
  assumes "distinct (map k rows)" "distinct (map f rows)"
    and "\<And>q. q \<in> set rows \<Longrightarrow> k q \<noteq> k r \<Longrightarrow> f q \<noteq> f r"
  shows "distinct (map f (store_row k r rows))"
  using assms
proof (induction rows)
  case (Cons q rows)
  then have ih: "distinct (map f (store_row k r rows))" by simp
  have "f (if k q = k r then r else q) \<notin> f ` set (store_row k r rows)"
  proof (cases "k q = k r")
    case True
    with Cons.prems(1) have "store_row k r rows = rows"
      unfolding store_row_def by (intro update_where_id) (auto, metis imageI)
    with True Cons.prems(1,3) show ?thesis by (auto, metis imageI)
  next
    case False
    with Cons.prems(2,3) show ?thesis
      by (auto simp: store_row_def in_update_where)
  qed
  with ih show ?case by (simp add: store_row_def)
qed (simp add: store_row_def)

lemma refuse_found_ok:
  assumes "[] \<notin> set is" shows "refuse_found m is = Inr () \<longleftrightarrow> is = []"
  using assms by (auto simp: refuse_found_def scalar_one_or_none_def truthy_def split: list.splits option.splits sum.splits)

lemma name_available:
  assumes "tags_ok w"
  shows "ensure_tag_name_available name ex (db_tags w) = Inr () \<longleftrightarrow>
    (\<forall>t\<in>set (db_tags w). tag_excluded ex t \<or> lower (t_name t) \<noteq> lower (strip name))"
proof -
  have "tag_name_key (t_name t) = lower (t_name t)" "t_id t \<noteq> []" if "t \<in> set (db_tags w)" for t
    using assms that by (auto simp: tags_ok_def list_all_iff intro: name_key_stripped)
  then show ?thesis
    unfolding ensure_tag_name_available_def
    by (subst refuse_found_ok) (fastforce simp: filter_empty_conv)+
qed

lemma slug_available:
  assumes "tags_ok w"
  shows "ensure_tag_slug_available slug ex (db_tags w) = Inr () \<longleftrightarrow>
    (\<forall>t\<in>set (db_tags w). tag_excluded ex t \<or> t_slug t \<noteq> slug)"
proof -
  have "t_id t \<noteq> []" if "t \<in> set (db_tags w)" for t
    using assms that by (auto simp: tags_ok_def list_all_iff)
  then show ?thesis
    unfolding ensure_tag_slug_available_def
    by (subst refuse_found_ok) (fastforce simp: filter_empty_conv)+
qed

lemma excluded_self [simp]: "tag_excluded (Some i) t \<longleftrightarrow> i \<noteq> [] \<and> i = t_id t" "\<not> tag_excluded None t"
  by (auto simp: tag_excluded_def)

lemma create_tag_ok:
  assumes "tags_ok w" "i \<noteq> []" "create_tag x i n s w = (r, w')"
  shows "tags_ok w'"
proof (cases r)
  case (Inl e)
  with assms(1,3) show ?thesis by (auto simp: create_tag_def Let_def split: if_splits sum.splits)
next
  case (Inr t)
  with assms(3) have nonempty: "strip n \<noteq> []" and slug: "is_slug (t_slug t)" and name: "t_name t = strip n"
    and free: "ensure_tag_name_available (strip n) None (db_tags w) = Inr ()"
      "ensure_tag_slug_available (t_slug t) None (db_tags w) = Inr ()" "flush_tag t (db_tags w) = Inr ()"
    and t: "t_id t = i" and w': "w' = w\<lparr>db_tags := db_tags w @ [t]\<rparr>"
    by (auto simp: create_tag_def Let_def slugify_is_slug split: if_splits sum.splits)
  from free(3) t have "i \<notin> t_id ` set (db_tags w)"
    by (auto simp: flush_tag_def list_ex_iff split: if_splits)
  with assms(1,2) free(1,2) show ?thesis
    unfolding name_available [OF assms(1)] slug_available [OF assms(1)]
    by (auto simp: tags_ok_def w' t name nonempty slug strip_strip)
qed

lemma delete_tag_ok:
  assumes "tags_ok w" "delete_tag i w = (r, w')" shows "tags_ok w'"
proof (cases "get_tag i w")
  case (Inl e)
  with assms show ?thesis by (simp add: delete_tag_def)
next
  case (Inr t)
  let ?gone = "delete_where (\<lambda>q. t_id q = t_id t) (db_tags w)"
  from Inr assms(2) have w': "w' = w\<lparr>db_material_tags := delete_where (\<lambda>mt. snd mt = t_id t) (db_material_tags w),
      db_tags := ?gone\<rparr>" by (simp add: delete_tag_def)
  have "snd p \<in> t_id ` set ?gone" if p: "p \<in> set (db_material_tags w)" "snd p \<noteq> t_id t" for p
  proof -
    from assms(1) p(1) have "snd p \<in> t_id ` set (db_tags w)" unfolding tags_ok_def by blast
    then obtain q where "q \<in> set (db_tags w)" "t_id q = snd p" by auto
    with p(2) have "q \<in> set ?gone" by (simp add: in_delete_where)
    with \<open>t_id q = snd p\<close> show ?thesis by (metis imageI)
  qed
  with assms(1) show ?thesis
    by (auto simp: tags_ok_def w' list_all_iff in_delete_where distinct_map_delete_where)
qed

lemma update_tag_ok:
  assumes "tags_ok w" "update_tag x i n s w = (r, w')"
  shows "tags_ok w'"
proof (cases r)
  case (Inl e)
  with assms show ?thesis by (auto simp: update_tag_def split: sum.splits)
next
  case (Inr t2)
  from assms(2) Inr obtain t t1 where t: "get_tag i w = Inr t"
    and t1: "rename_tag n t (db_tags w) = Inr t1" and t2: "reslug_tag x n s t1 (db_tags w) = Inr t2"
    and w': "w' = w\<lparr>db_tags := store_row t_id t2 (db_tags w)\<rparr>"
    by (auto simp: update_tag_def split: sum.splits)
  from t have tin: "t \<in> set (db_tags w)" by (auto simp: get_tag_def dest: find_Some_in split: option.splits)
  with assms(1) have tok: "t_id t \<noteq> []" "t_name t \<noteq> []" "strip (t_name t) = t_name t" "is_slug (t_slug t)"
    and uniq: "\<And>q. q \<in> set (db_tags w) \<Longrightarrow> t_id q \<noteq> t_id t \<Longrightarrow>
      lower (t_name q) \<noteq> lower (t_name t) \<and> t_slug q \<noteq> t_slug t"
    by (auto simp: tags_ok_def list_all_iff dest: distinct_map_keyed)
  have 1: "t_id t1 = t_id t \<and> t_slug t1 = t_slug t \<and> t_name t1 \<noteq> [] \<and> strip (t_name t1) = t_name t1 \<and>
    (\<forall>q\<in>set (db_tags w). t_id q \<noteq> t_id t \<longrightarrow> lower (t_name q) \<noteq> lower (t_name t1))"
  proof (cases n)
    case None
    with t1 tok uniq show ?thesis by (auto simp: rename_tag_def)
  next
    case (Some a)
    with t1 have "strip a \<noteq> []" "t1 = t\<lparr>t_name := strip a\<rparr>"
      "ensure_tag_name_available (strip a) (Some (t_id t)) (db_tags w) = Inr ()"
      by (auto simp: rename_tag_def Let_def split: if_splits sum.splits)
    then show ?thesis by (auto simp: name_available [OF assms(1)] strip_strip tok)
  qed
  have 2: "t_id t2 = t_id t1 \<and> t_name t2 = t_name t1 \<and> is_slug (t_slug t2) \<and>
    (\<forall>q\<in>set (db_tags w). t_id q \<noteq> t_id t \<longrightarrow> t_slug q \<noteq> t_slug t2)"
  proof (cases "s = None \<and> n = None")
    case True
    with t2 tok(4) 1 uniq show ?thesis by (auto simp: reslug_tag_def)
  next
    case False
    define slug where "slug = (case s of Some a \<Rightarrow> slugify x a | None \<Rightarrow> slugify x (t_name t1))"
    have "is_slug slug" by (simp add: slug_def slugify_is_slug split: option.split)
    moreover have "set_tag_slug slug t1 (db_tags w) = Inr t2"
      using t2 False by (auto simp: reslug_tag_def slug_def split: option.splits if_splits)
    then have "t2 = t1\<lparr>t_slug := slug\<rparr>"
      "ensure_tag_slug_available slug (Some (t_id t)) (db_tags w) = Inr ()"
      using 1 by (auto simp: set_tag_slug_def split: sum.splits)
    ultimately show ?thesis by (auto simp: slug_available [OF assms(1)])
  qed
  have ids: "map t_id (store_row t_id t2 (db_tags w)) = map t_id (db_tags w)" by (rule map_store_row)
  then have "t_id ` set (store_row t_id t2 (db_tags w)) = t_id ` set (db_tags w)"
    by (metis list.set_map)
  moreover have "distinct (map (\<lambda>t. lower (t_name t)) (store_row t_id t2 (db_tags w)))"
    "distinct (map t_slug (store_row t_id t2 (db_tags w)))"
    using assms(1) 1 2 by (auto simp: tags_ok_def intro!: distinct_map_store_row)
  moreover have "list_all (\<lambda>t. t_id t \<noteq> [] \<and> t_name t \<noteq> [] \<and> strip (t_name t) = t_name t \<and> is_slug (t_slug t))
      (store_row t_id t2 (db_tags w))"
    using assms(1) 1 2 tok(1) by (auto simp: tags_ok_def list_all_iff store_row_def in_update_where)
  ultimately show ?thesis using assms(1) by (simp add: tags_ok_def w' ids)
qed

section \<open>Runs of tag requests\<close>

inductive tag_run :: "externals \<Rightarrow> world \<Rightarrow> world \<Rightarrow> bool" for x where
  tags_start: "tag_run x w w"
| tags_create: "tag_run x w w1 \<Longrightarrow> i \<noteq> [] \<Longrightarrow> create_tag x i n s w1 = (r, w2) \<Longrightarrow> tag_run x w w2"
| tags_update: "tag_run x w w1 \<Longrightarrow> update_tag x i n' s w1 = (r, w2) \<Longrightarrow> tag_run x w w2"
| tags_delete: "tag_run x w w1 \<Longrightarrow> delete_tag i w1 = (u, w2) \<Longrightarrow> tag_run x w w2"

text \<open>
  In every run of tag requests no two tags have names that differ only in case or have the
  same slug, names are trimmed and not empty, slugs are well formed, and no material refers to a
  tag that is gone.
\<close>

theorem tag_tables_conform:
  assumes "tag_run x w w'" "tags_ok w"
  shows "distinct (map (\<lambda>t. lower (t_name t)) (db_tags w')) \<and> distinct (map t_slug (db_tags w')) \<and>
    (\<forall>t. t \<in> set (db_tags w') \<longrightarrow> t_name t \<noteq> [] \<and> strip (t_name t) = t_name t \<and> is_slug (t_slug t)) \<and>
    snd ` set (db_material_tags w') \<subseteq> t_id ` set (db_tags w')"
proof -
  have "tags_ok w'"
    using assms by (induction rule: tag_run.induct) (blast intro: create_tag_ok update_tag_ok delete_tag_ok)+
  then show ?thesis by (simp add: tags_ok_def list_all_iff)
qed

definition tagged_world :: world where
  "tagged_world = empty_world\<lparr>db_tags := [\<lparr>t_id = ''t1'', t_name = ''Algebra'', t_slug = ''algebra''\<rparr>],
     db_material_tags := [(''m'', ''t1'')]\<rparr>"

definition two_tags :: world where
  "two_tags = snd (create_tag reference_externals ''t2'' '' Set theory '' None tagged_world)"

lemma tagged_world_ok: "tags_ok tagged_world"
  by (simp add: tagged_world_def tags_ok_def is_slug_def slug_char_def) code_simp

lemma tag_tables_conform_witness:
  "length (db_tags two_tags) = 2 \<and>
   distinct (map (\<lambda>t. lower (t_name t)) (db_tags two_tags)) \<and> distinct (map t_slug (db_tags two_tags)) \<and>
   list_all (\<lambda>t. t_name t \<noteq> [] \<and> strip (t_name t) = t_name t \<and> is_slug (t_slug t)) (db_tags two_tags) \<and>
   snd ` set (db_material_tags two_tags) \<subseteq> t_id ` set (db_tags two_tags)"
proof (rule conjI)
  show "length (db_tags two_tags) = 2" by code_simp
  have "tag_run reference_externals tagged_world two_tags"
    unfolding two_tags_def by (rule tags_create [OF tags_start _ prod.collapse [symmetric]]) simp
  then show "distinct (map (\<lambda>t. lower (t_name t)) (db_tags two_tags)) \<and> distinct (map t_slug (db_tags two_tags)) \<and>
    list_all (\<lambda>t. t_name t \<noteq> [] \<and> strip (t_name t) = t_name t \<and> is_slug (t_slug t)) (db_tags two_tags) \<and>
    snd ` set (db_material_tags two_tags) \<subseteq> t_id ` set (db_tags two_tags)"
    using tag_tables_conform [OF _ tagged_world_ok] unfolding list_all_iff by blast
qed

end
