(* ===== verification/AuthApi.thy ===== *)
theory AuthApi
  imports AuthFacts
begin

text \<open>
  The endpoints of \<^verbatim>\<open>app/modules/auth/api.py\<close>: each asks the limiter of
  \<^verbatim>\<open>app/core/security_controls.py\<close> before it calls the service of \<^verbatim>\<open>app/modules/auth/service.py\<close>,
  and the login keeps the count of failures and the lockout. The result is the answer, the
  database and the store of the limiter after the request. The last section shows what limiter,
  lockout and service together promise to someone who guesses passwords.
\<close>

section \<open>Answers\<close>

record user_read =
  uo_id :: string
  uo_full_name :: string
  uo_email :: string
  uo_avatar_url :: "string option"
  uo_role :: user_role
  uo_university_id :: "string option"
  uo_pending_university_name :: "string option"
  uo_university_status :: string
  uo_is_active :: bool
  uo_is_verified :: bool

definition user_read_of :: "user \<Rightarrow> user_read" where
  "user_read_of u =
     \<lparr>uo_id = u_id u, uo_full_name = u_full_name u, uo_email = u_email u, uo_avatar_url = u_avatar_url u,
      uo_role = u_role u, uo_university_id = u_university_id u,
      uo_pending_university_name = u_pending_university_name u,
      uo_university_status = u_university_status u, uo_is_active = u_is_active u,
      uo_is_verified = u_is_verified u\<rparr>"

record auth_session_read =
  so_id :: string
  so_jti :: string
  so_created_at :: int
  so_expires_at :: int
  so_used_at :: "int option"
  so_revoked_at :: "int option"
  so_replaced_by_jti :: "string option"
  so_is_active :: bool

definition auth_session_read_of :: "int \<Rightarrow> refresh_token_session \<Rightarrow> auth_session_read" where
  "auth_session_read_of now s =
     \<lparr>so_id = rs_id s, so_jti = rs_jti s, so_created_at = rs_created_at s, so_expires_at = rs_expires_at s,
      so_used_at = rs_used_at s, so_revoked_at = rs_revoked_at s, so_replaced_by_jti = rs_replaced_by_jti s,
      so_is_active = (rs_revoked_at s = None \<and> rs_used_at s = None \<and> now < rs_expires_at s)\<rparr>"

section \<open>Endpoints\<close>

text \<open>A check of the limiter before the rest of a handler, and a service that leaves the store alone.\<close>

definition limited ::
  "unit res \<times> 'r kv \<Rightarrow> world \<Rightarrow> ('r kv \<Rightarrow> 'a res \<times> world \<times> 'r kv) \<Rightarrow> 'a res \<times> world \<times> 'r kv"
where
  "limited check w handler = (case check of (Inl e, s) \<Rightarrow> (Inl e, w, s) | (Inr _, s) \<Rightarrow> handler s)"

definition with_store :: "'a res \<times> world \<Rightarrow> 'r kv \<Rightarrow> 'a res \<times> world \<times> 'r kv" where
  "with_store result s = (fst result, snd result, s)"

definition register_endpoint ::
  "externals \<Rightarrow> 'r redis \<Rightarrow> settings \<Rightarrow> (nat \<Rightarrow> string) \<Rightarrow> string option \<Rightarrow> int \<Rightarrow> register_request \<Rightarrow>
   world \<Rightarrow> 'r kv \<Rightarrow> user_read res \<times> world \<times> 'r kv"
where
  "register_endpoint x r st ids host now payload w s =
     limited (check_register_rate x r st host (rq_email payload) now s) w
       (with_store (map_prod (map_sum id user_read_of) id (register x st ids now payload w)))"

text \<open>
  \<open>record_login_failure\<close> runs while the authentication error is handled: when it raises, its own
  error is the one the client gets.
\<close>

definition login_attempt ::
  "externals \<Rightarrow> 'r redis \<Rightarrow> settings \<Rightarrow> (nat \<Rightarrow> string) \<Rightarrow> string option \<Rightarrow> int \<Rightarrow> string \<Rightarrow> string \<Rightarrow>
   world \<Rightarrow> 'r kv \<Rightarrow> token_response res \<times> world \<times> 'r kv"
where
  "login_attempt x r st ids host now email password w s =
     (case login x st ids now email password w of
        (Inr response, w1) \<Rightarrow> (Inr response, w1, record_login_success x r st host email now s)
      | (Inl (AuthenticationError m), w1) \<Rightarrow>
          (case record_login_failure x r st host email now s of
             (Inl e, s1) \<Rightarrow> (Inl e, w1, s1)
           | (Inr _, s1) \<Rightarrow> (Inl (AuthenticationError m), w1, s1))
      | (Inl e, w1) \<Rightarrow> (Inl e, w1, s))"

definition login_endpoint ::
  "externals \<Rightarrow> 'r redis \<Rightarrow> settings \<Rightarrow> (nat \<Rightarrow> string) \<Rightarrow> string option \<Rightarrow> int \<Rightarrow> string \<Rightarrow> string \<Rightarrow>
   world \<Rightarrow> 'r kv \<Rightarrow> token_response res \<times> world \<times> 'r kv"
where
  "login_endpoint x r st ids host now email password w s =
     limited (check_login_rate x r st host email now s) w
       (\<lambda>s1. limited (check_login_lockout x r st host email now s1) w
          (login_attempt x r st ids host now email password w))"

definition refresh_endpoint ::
  "externals \<Rightarrow> 'r redis \<Rightarrow> settings \<Rightarrow> (nat \<Rightarrow> string) \<Rightarrow> string option \<Rightarrow> int \<Rightarrow> string \<Rightarrow>
   world \<Rightarrow> 'r kv \<Rightarrow> token_response res \<times> world \<times> 'r kv"
where
  "refresh_endpoint x r st ids host now refresh_token w s =
     limited (check_refresh_rate x r st host refresh_token now s) w
       (with_store (refresh x st ids now refresh_token w))"

definition forgot_password_endpoint ::
  "externals \<Rightarrow> 'r redis \<Rightarrow> settings \<Rightarrow> (nat \<Rightarrow> string) \<Rightarrow> string option \<Rightarrow> int \<Rightarrow> string \<Rightarrow>
   world \<Rightarrow> 'r kv \<Rightarrow> string res \<times> world \<times> 'r kv"
where
  "forgot_password_endpoint x r st ids host now email w s =
     limited (check_password_reset_request_rate x r st host email now s) w
       (with_store (forgot_password x st ids now email w))"

definition reset_password_endpoint ::
  "externals \<Rightarrow> 'r redis \<Rightarrow> settings \<Rightarrow> (nat \<Rightarrow> string) \<Rightarrow> string option \<Rightarrow> int \<Rightarrow> string \<Rightarrow> string \<Rightarrow>
   world \<Rightarrow> 'r kv \<Rightarrow> string res \<times> world \<times> 'r kv"
where
  "reset_password_endpoint x r st ids host now token new_password w s =
     limited (check_password_reset_confirm_rate x r st host token now s) w
       (reset_password x r st ids now token new_password w)"

definition verify_email_endpoint ::
  "externals \<Rightarrow> 'r redis \<Rightarrow> settings \<Rightarrow> (nat \<Rightarrow> string) \<Rightarrow> string option \<Rightarrow> int \<Rightarrow> string \<Rightarrow>
   world \<Rightarrow> 'r kv \<Rightarrow> string res \<times> world \<times> 'r kv"
where
  "verify_email_endpoint x r st ids host now token w s =
     limited (check_sensitive_rate x r st host token ''auth.email.verify'' now s) w
       (with_store (verify_email x ids now token w))"

definition resend_verification_endpoint ::
  "externals \<Rightarrow> 'r redis \<Rightarrow> settings \<Rightarrow> (nat \<Rightarrow> string) \<Rightarrow> string option \<Rightarrow> int \<Rightarrow> string \<Rightarrow>
   world \<Rightarrow> 'r kv \<Rightarrow> string res \<times> world \<times> 'r kv"
where
  "resend_verification_endpoint x r st ids host now email w s =
     limited (check_sensitive_rate x r st host email ''auth.email.resend'' now s) w
       (with_store (resend_verification x st ids now email w))"

definition logout_endpoint ::
  "externals \<Rightarrow> 'r redis \<Rightarrow> settings \<Rightarrow> string option \<Rightarrow> int \<Rightarrow> string option \<Rightarrow> string option \<Rightarrow>
   world \<Rightarrow> 'r kv \<Rightarrow> string res \<times> world \<times> 'r kv"
where
  "logout_endpoint x r st host now payload access_token w s =
     limited (check_sensitive_rate x r st host (if truthy payload then the payload else ''anonymous'')
         ''auth.logout'' now s) w
       (logout x r st now payload access_token w)"

text \<open>Handlers with a user: the guard of the token runs before the handler.\<close>

definition authenticated ::
  "externals \<Rightarrow> 'r redis \<Rightarrow> settings \<Rightarrow> int \<Rightarrow> string \<Rightarrow> world \<Rightarrow> 'r kv \<Rightarrow>
   (user \<Rightarrow> 'r kv \<Rightarrow> 'a res \<times> world \<times> 'r kv) \<Rightarrow> 'a res \<times> world \<times> 'r kv"
where
  "authenticated x r st now token w s handler =
     (case get_current_user x r st token now w s of
        (Inl e, s1) \<Rightarrow> (Inl e, w, s1)
      | (Inr user, s1) \<Rightarrow> handler user s1)"

definition list_sessions_endpoint ::
  "externals \<Rightarrow> 'r redis \<Rightarrow> settings \<Rightarrow> string option \<Rightarrow> int \<Rightarrow> string \<Rightarrow> world \<Rightarrow> 'r kv \<Rightarrow>
   auth_session_read list res \<times> world \<times> 'r kv"
where
  "list_sessions_endpoint x r st host now token w s =
     authenticated x r st now token w s (\<lambda>user s1.
       limited (check_sensitive_rate x r st host (u_id user) ''auth.sessions.list'' now s1) w
         (with_store (ok (map (auth_session_read_of now) (list_sessions user w)) w)))"

definition revoke_session_endpoint ::
  "externals \<Rightarrow> 'r redis \<Rightarrow> settings \<Rightarrow> string option \<Rightarrow> int \<Rightarrow> string \<Rightarrow> string \<Rightarrow> world \<Rightarrow> 'r kv \<Rightarrow>
   string res \<times> world \<times> 'r kv"
where
  "revoke_session_endpoint x r st host now token session_id w s =
     authenticated x r st now token w s (\<lambda>user s1.
       limited (check_sensitive_rate x r st host (u_id user) ''auth.sessions.revoke'' now s1) w
         (with_store (revoke_session user session_id now w)))"

text \<open>The sessions are revoked and committed before the token is: a failure of the store comes after.\<close>

definition logout_all_endpoint ::
  "externals \<Rightarrow> 'r redis \<Rightarrow> settings \<Rightarrow> string option \<Rightarrow> int \<Rightarrow> string \<Rightarrow> world \<Rightarrow> 'r kv \<Rightarrow>
   string res \<times> world \<times> 'r kv"
where
  "logout_all_endpoint x r st host now token w s =
     authenticated x r st now token w s (\<lambda>user s1.
       limited (check_sensitive_rate x r st host (u_id user) ''auth.logout_all'' now s1) w
         (\<lambda>s2. case logout_all user now w of
            (Inl e, w1) \<Rightarrow> (Inl e, w1, s2)
          | (Inr response, w1) \<Rightarrow>
              (case revoke_token x r st token now s2 of
                 (Inl e, s3) \<Rightarrow> (Inl e, w1, s3)
               | (Inr _, s3) \<Rightarrow> (Inr response, w1, s3))))"

definition me_endpoint ::
  "externals \<Rightarrow> 'r redis \<Rightarrow> settings \<Rightarrow> int \<Rightarrow> string \<Rightarrow> world \<Rightarrow> 'r kv \<Rightarrow> user_read res \<times> world \<times> 'r kv"
where
  "me_endpoint x r st now token w s =
     authenticated x r st now token w s (\<lambda>user s1. (Inr (user_read_of user), w, s1))"


section \<open>Guessing a password\<close>

definition login_rate_key :: "externals \<Rightarrow> string option \<Rightarrow> string \<Rightarrow> string" where
  "login_rate_key x host email =
     rate_key x ''auth.login'' (hash_identity x [Some (client_identity host), Some email])"

lemma login_keys_differ [simp]:
  "login_rate_key x host email \<noteq> login_fail_key x host email"
  "login_rate_key x host email \<noteq> login_lock_key x host email"
  "login_fail_key x host email \<noteq> login_rate_key x host email"
  "login_lock_key x host email \<noteq> login_rate_key x host email"
  by (simp_all add: login_rate_key_def rate_key_def login_fail_key_def login_lock_key_def)

text \<open>What each step of the login leaves of the keys that are not its own.\<close>

lemma check_rate_frame:
  assumes u: "usable_store r st s"
    and pos: "\<And>v. store_visible r st (rate_key x scope identity) t s = Some v \<Longrightarrow> 1 \<le> the (python_int v)"
  shows "usable_store r st (snd (check_rate x r st scope identity m win t s))"
    and "t \<le> t' \<Longrightarrow> k' \<noteq> rate_key x scope identity \<Longrightarrow>
      store_visible r st k' t' (snd (check_rate x r st scope identity m win t s)) = store_visible r st k' t' s"
proof -
  let ?k = "rate_key x scope identity"
  obtain c s1 where inc: "store_increment r st ?k win t s = (c, s1)" by fastforce
  have u1: "usable_store r st s1" using kv_store.usable_bump [OF u, of ?k win t] inc by simp
  have v1: "store_visible r st k' t' s1 = store_visible r st k' t' s" if "t \<le> t'" "k' \<noteq> ?k"
    using kv_store.visible_bump [where k = ?k and k' = k' and n = win, OF u that(1) pos] that(2) inc by simp
  obtain d s2 where ttl: "store_ttl r st ?k t s1 = (d, s2)" by fastforce
  have u2: "usable_store r st s2" using kv_store.usable_remaining [OF u1, of ?k t] ttl by simp
  have v2: "store_visible r st k' t' s2 = store_visible r st k' t' s1" if "t \<le> t'"
    using kv_store.visible_remaining [OF u1 that, of k' ?k] ttl by simp
  show "usable_store r st (snd (check_rate x r st scope identity m win t s))"
    using u u1 u2 inc ttl by (simp add: check_rate_def Let_def)
  show "store_visible r st k' t' (snd (check_rate x r st scope identity m win t s)) = store_visible r st k' t' s"
    if "t \<le> t'" "k' \<noteq> ?k"
    using v1 [OF that] v2 [OF that(1)] inc ttl by (simp add: check_rate_def Let_def)
qed

lemma check_login_lockout_frame:
  assumes u: "usable_store r st s"
  shows "usable_store r st (snd (check_login_lockout x r st host email t s))"
    and "t \<le> t' \<Longrightarrow>
      store_visible r st k' t' (snd (check_login_lockout x r st host email t s)) = store_visible r st k' t' s"
    and "rate_limit_enabled st \<Longrightarrow> is_ok (fst (check_login_lockout x r st host email t s)) \<longleftrightarrow>
      \<not> truthy (store_visible r st (login_lock_key x host email) t s)"
proof -
  let ?k = "login_lock_key x host email"
  obtain flag s1 where g: "store_get r st ?k t s = (flag, s1)" by fastforce
  have u1: "usable_store r st s1" using kv_store.usable_get [OF u, of ?k t] g by simp
  have v1: "store_visible r st k' t' s1 = store_visible r st k' t' s" if "t \<le> t'"
    using kv_store.visible_get [OF u that, of k' ?k] g by simp
  obtain d s2 where ttl: "store_ttl r st ?k t s1 = (d, s2)" by fastforce
  have u2: "usable_store r st s2" using kv_store.usable_remaining [OF u1, of ?k t] ttl by simp
  have v2: "store_visible r st k' t' s2 = store_visible r st k' t' s1" if "t \<le> t'"
    using kv_store.visible_remaining [OF u1 that, of k' ?k] ttl by simp
  show "usable_store r st (snd (check_login_lockout x r st host email t s))"
    using u u1 u2 g ttl by (simp add: check_login_lockout_def Let_def)
  show "store_visible r st k' t' (snd (check_login_lockout x r st host email t s)) = store_visible r st k' t' s"
    if "t \<le> t'"
    using v1 [OF that] v2 [OF that] g ttl by (simp add: check_login_lockout_def Let_def)
  show "is_ok (fst (check_login_lockout x r st host email t s)) \<longleftrightarrow> \<not> truthy (store_visible r st ?k t s)"
    if "rate_limit_enabled st"
    using that kv_store.get_visible [OF u, of ?k t] g ttl by (simp add: check_login_lockout_def Let_def)
qed

lemma record_failure_frame:
  assumes u: "usable_store r st s"
    and pos: "\<And>v. store_visible r st (login_fail_key x host email) t s = Some v \<Longrightarrow> 1 \<le> the (python_int v)"
    and t: "t \<le> t'" and k: "k' \<noteq> login_fail_key x host email" "k' \<noteq> login_lock_key x host email"
  shows "store_visible r st k' t' (snd (record_login_failure x r st host email t s)) = store_visible r st k' t' s"
proof -
  let ?k = "login_fail_key x host email"
  obtain c s1 where inc: "store_increment r st ?k (login_lockout_window_seconds st) t s = (c, s1)" by fastforce
  have u1: "usable_store r st s1"
    using kv_store.usable_bump [OF u, of ?k "login_lockout_window_seconds st" t] inc by simp
  have "store_visible r st k' t' s1 = store_visible r st k' t' s"
    using kv_store.visible_bump [where k = ?k and k' = k' and n = "login_lockout_window_seconds st", OF u t pos]
      k inc by simp
  then show ?thesis
    using kv_store.visible_put [OF u1 t] k inc by (simp add: record_login_failure_def Let_def)
qed

text \<open>
  A guess is an attempt with a password that the service refuses. \<open>answered\<close> counts the guesses
  of a window that reach the service.
\<close>

fun run_guesses ::
  "externals \<Rightarrow> 'r redis \<Rightarrow> settings \<Rightarrow> (nat \<Rightarrow> string) \<Rightarrow> string option \<Rightarrow> string \<Rightarrow> (int \<times> string) list \<Rightarrow>
   world \<Rightarrow> 'r kv \<Rightarrow> world \<times> 'r kv"
where
  "run_guesses x r st ids host email [] w s = (w, s)"
| "run_guesses x r st ids host email ((t, p) # guesses) w s =
     (case login_endpoint x r st ids host t email p w s of
        (_, w1, s1) \<Rightarrow> run_guesses x r st ids host email guesses w1 s1)"

definition wrong_guess ::
  "externals \<Rightarrow> settings \<Rightarrow> (nat \<Rightarrow> string) \<Rightarrow> string \<Rightarrow> world \<Rightarrow> int \<times> string \<Rightarrow> bool"
where
  "wrong_guess x st ids email w g =
     (\<exists>m. login x st ids (fst g) email (snd g) w = fail (AuthenticationError m) w)"

definition answered :: "settings \<Rightarrow> int \<Rightarrow> int" where
  "answered st n =
     max 0 (min n (min (rate_limit_login_max_requests st) (max 1 (login_lockout_max_attempts st))))"

definition locked_after :: "settings \<Rightarrow> int \<Rightarrow> bool" where
  "locked_after st f = (1 \<le> f \<and> login_lockout_max_attempts st \<le> f)"

text \<open>The count of failures and the lock after \<open>f\<close> failures, the first one at moment \<open>t0\<close>.\<close>

definition fails_seen ::
  "externals \<Rightarrow> 'r redis \<Rightarrow> settings \<Rightarrow> string option \<Rightarrow> string \<Rightarrow> int \<Rightarrow> int \<Rightarrow> int \<Rightarrow> 'r kv \<Rightarrow> bool"
where
  "fails_seen x r st host email t0 f t s \<longleftrightarrow>
     usable_store r st s \<and>
     (if f = 0 then \<forall>t'\<ge>t. store_visible r st (login_fail_key x host email) t' s = None
      else kv_store.counter r st (login_fail_key x host email) f
             (t0 + seconds (max (login_lockout_window_seconds st) 1)) t s) \<and>
     (if locked_after st f
      then \<forall>t'. t \<le> t' \<and> t' < t0 + seconds (max (login_lockout_seconds st) 1) \<longrightarrow>
             store_visible r st (login_lock_key x host email) t' s = Some ''1''
      else \<forall>t'\<ge>t. store_visible r st (login_lock_key x host email) t' s = None)"

definition guess_window :: "settings \<Rightarrow> int" where
  "guess_window st = seconds (max 1 (min (rate_limit_login_window_seconds st)
     (min (login_lockout_window_seconds st) (login_lockout_seconds st))))"


lemma guess_window_le:
  assumes "t < t0 + guess_window st"
  shows "t < t0 + seconds (max (rate_limit_login_window_seconds st) 1)"
    "t < t0 + seconds (max (login_lockout_window_seconds st) 1)"
    "t < t0 + seconds (max (login_lockout_seconds st) 1)"
  using assms by (simp_all add: guess_window_def min_def max_def split: if_splits)

lemma answered_step:
  "0 \<le> n \<Longrightarrow> answered st (n + 1) =
     (if n + 1 \<le> rate_limit_login_max_requests st \<and> \<not> locked_after st (answered st n)
      then answered st n + 1 else answered st n)"
  by (auto simp: answered_def locked_after_def)

lemma answered_open:
  "0 \<le> n \<Longrightarrow> n + 1 \<le> rate_limit_login_max_requests st \<and> \<not> locked_after st (answered st n) \<longleftrightarrow>
     n < rate_limit_login_max_requests st \<and> n < max 1 (login_lockout_max_attempts st)"
  by (auto simp: answered_def locked_after_def)

lemma answered_nonneg [simp]: "0 \<le> answered st n" "answered st 0 = 0"
  by (auto simp: answered_def)

lemma fails_seen_pos:
  "fails_seen x r st host email t0 f u s \<Longrightarrow> u \<le> t \<Longrightarrow>
   store_visible r st (login_fail_key x host email) t s = Some v \<Longrightarrow> 1 \<le> the (python_int v)"
  by (auto simp: fails_seen_def kv_store.counter_def python_int_str_int split: if_splits)

lemma fails_seen_usable: "fails_seen x r st host email t0 f u s \<Longrightarrow> usable_store r st s"
  by (simp add: fails_seen_def)

lemma fails_seen_frame:
  assumes "fails_seen x r st host email t0 f u s" "u \<le> t" "usable_store r st s'"
    and "\<And>k t'. t \<le> t' \<Longrightarrow> k \<noteq> login_rate_key x host email \<Longrightarrow>
      store_visible r st k t' s' = store_visible r st k t' s"
  shows "fails_seen x r st host email t0 f t s'"
  using assms by (auto simp: fails_seen_def kv_store.counter_def)

lemma fails_seen_step:
  assumes on: "rate_limit_enabled st"
    and seen: "fails_seen x r st host email t0 f u s" and f: "0 \<le> f" "\<not> locked_after st f"
    and t: "u \<le> t" "t < t0 + guess_window st" "t0 \<le> t" "f = 0 \<Longrightarrow> t = t0"
  shows "fails_seen x r st host email t0 (f + 1) t (snd (record_login_failure x r st host email t s))"
proof -
  let ?fk = "login_fail_key x host email" and ?win = "login_lockout_window_seconds st"
  let ?e = "t0 + seconds (max ?win 1)" and ?s = "snd (record_login_failure x r st host email t s)"
  have u: "usable_store r st s" using seen by (rule fails_seen_usable)
  have inc: "fst (store_increment r st ?fk ?win t s) = f + 1"
    and cnt: "kv_store.counter r st ?fk (f + 1) ?e t (snd (store_increment r st ?fk ?win t s))"
  proof -
    have "fst (store_increment r st ?fk ?win t s) = f + 1 \<and>
      kv_store.counter r st ?fk (f + 1) ?e t (snd (store_increment r st ?fk ?win t s))"
    proof (cases "f = 0")
      case True
      then have "store_visible r st ?fk t s = None" using seen t by (simp add: fails_seen_def)
      from kv_store.counter_start [OF u this, of ?win] show ?thesis using True t(4) by simp
    next
      case False
      then have "kv_store.counter r st ?fk f ?e u s" using seen by (simp add: fails_seen_def)
      from kv_store.counter_step [OF this t(1) guess_window_le(2) [OF t(2)], of ?win] show ?thesis by simp
    qed
    then show "fst (store_increment r st ?fk ?win t s) = f + 1"
      and "kv_store.counter r st ?fk (f + 1) ?e t (snd (store_increment r st ?fk ?win t s))" by simp_all
  qed
  have none: "\<forall>t'\<ge>t. login_lockout_max_attempts st \<le> f + 1 \<or>
      store_visible r st (login_lock_key x host email) t' s = None"
    using seen f t(1) by (auto simp: fails_seen_def)
  have step: "kv_store.counter r st ?fk (f + 1) ?e t ?s" "lock_state x r st host email (f + 1) t ?s"
    using record_failure_step [OF on inc cnt u none] fails_seen_pos [OF seen t(1)] by blast+
  show ?thesis
    using step kv_store.counter_usable [OF step(1)] f(1) t(3)
    by (auto simp: fails_seen_def lock_state_def locked_after_def)
qed

text \<open>The two parts of the endpoint before the service, and what each outcome of the service gives.\<close>

lemma login_endpoint_wrong:
  assumes "wrong_guess x st ids email w (t, p)"
    and "check_login_rate x r st host email t s = (res1, s1)"
    and "check_login_lockout x r st host email t s1 = (res2, s2)"
  shows "snd (login_endpoint x r st ids host t email p w s) =
    (w, if \<not> is_ok res1 then s1 else if \<not> is_ok res2 then s2
        else snd (record_login_failure x r st host email t s2))"
  using assms
  by (auto simp: login_endpoint_def limited_def login_attempt_def wrong_guess_def
      split: prod.splits sum.splits)

lemma login_endpoint_right:
  assumes "login x st ids t email p w = ok resp w'"
    and "check_login_rate x r st host email t s = (res1, s1)"
    and "check_login_lockout x r st host email t s1 = (res2, s2)"
  shows "fst (login_endpoint x r st ids host t email p w s) = Inr resp \<longleftrightarrow> is_ok res1 \<and> is_ok res2"
    and "fst (login_endpoint x r st ids host t email p w s) \<noteq> Inr resp \<Longrightarrow>
      fst (snd (login_endpoint x r st ids host t email p w s)) = w"
  using assms
  by (auto simp: login_endpoint_def limited_def login_attempt_def split: prod.splits sum.splits)


text \<open>\<open>n\<close> guesses of the window have been made, the last one at moment \<open>t\<close>.\<close>

definition guesses_seen ::
  "externals \<Rightarrow> 'r redis \<Rightarrow> settings \<Rightarrow> string option \<Rightarrow> string \<Rightarrow> int \<Rightarrow> int \<Rightarrow> int \<Rightarrow> 'r kv \<Rightarrow> bool"
where
  "guesses_seen x r st host email t0 n t s \<longleftrightarrow>
     (if n = 0 then \<forall>t'\<ge>t. store_visible r st (login_rate_key x host email) t' s = None
      else kv_store.counter r st (login_rate_key x host email) n
             (t0 + seconds (max (rate_limit_login_window_seconds st) 1)) t s) \<and>
     fails_seen x r st host email t0 (answered st n) t s"

lemma check_login_rate_seen:
  assumes on: "rate_limit_enabled st" and seen: "guesses_seen x r st host email t0 n u s"
    and n: "0 \<le> n" and t: "u \<le> t" "t < t0 + guess_window st" "n = 0 \<Longrightarrow> t = t0"
    and chk: "check_login_rate x r st host email t s = (res, s1)"
  shows "is_ok res \<longleftrightarrow> n + 1 \<le> rate_limit_login_max_requests st"
    and "kv_store.counter r st (login_rate_key x host email) (n + 1)
      (t0 + seconds (max (rate_limit_login_window_seconds st) 1)) t s1"
    and "fails_seen x r st host email t0 (answered st n) t s1"
proof -
  let ?k = "login_rate_key x host email" and ?win = "rate_limit_login_window_seconds st"
  let ?id = "hash_identity x [Some (client_identity host), Some email]"
  have chk': "check_rate x r st ''auth.login'' ?id (rate_limit_login_max_requests st) ?win t s = (res, s1)"
    using chk by (simp add: check_login_rate_def)
  have k: "?k = rate_key x ''auth.login'' ?id" by (simp add: login_rate_key_def)
  have f: "fails_seen x r st host email t0 (answered st n) u s" using seen by (simp add: guesses_seen_def)
  have u: "usable_store r st s" using f by (rule fails_seen_usable)
  have pos: "1 \<le> the (python_int v)" if "store_visible r st ?k t s = Some v" for v
    using that seen t(1)
    by (auto simp: guesses_seen_def kv_store.counter_def python_int_str_int split: if_splits)
  have both: "(is_ok res \<longleftrightarrow> n + 1 \<le> rate_limit_login_max_requests st) \<and>
    kv_store.counter r st ?k (n + 1) (t0 + seconds (max ?win 1)) t s1"
  proof (cases "n = 0")
    case True
    then have "store_visible r st (rate_key x ''auth.login'' ?id) t s = None"
      using seen t by (simp add: guesses_seen_def k)
    from check_rate_first [OF on u this, where m = "rate_limit_login_max_requests st" and win = ?win]
    show ?thesis using True t(3) chk' by (simp add: k)
  next
    case False
    then have "kv_store.counter r st (rate_key x ''auth.login'' ?id) n (t0 + seconds (max ?win 1)) u s"
      using seen by (simp add: guesses_seen_def k)
    from check_rate_counter [OF on this t(1) guess_window_le(1) [OF t(2)],
        where m = "rate_limit_login_max_requests st" and win = ?win]
    show ?thesis using chk' by (simp add: k)
  qed
  then show "is_ok res \<longleftrightarrow> n + 1 \<le> rate_limit_login_max_requests st"
    and "kv_store.counter r st ?k (n + 1) (t0 + seconds (max ?win 1)) t s1" by simp_all
  note frame = check_rate_frame [where x = x and scope = "''auth.login''" and identity = ?id
      and m = "rate_limit_login_max_requests st" and win = ?win and t = t, OF u pos [unfolded k]]
  show "fails_seen x r st host email t0 (answered st n) t s1"
    by (rule fails_seen_frame [OF f t(1)]) (use frame chk' in \<open>simp_all add: k\<close>)
qed

lemma check_lockout_seen:
  assumes on: "rate_limit_enabled st" and f: "fails_seen x r st host email t0 f t s"
    and t: "t < t0 + guess_window st"
    and chk: "check_login_lockout x r st host email t s = (res, s1)"
  shows "is_ok res \<longleftrightarrow> \<not> locked_after st f" and "fails_seen x r st host email t0 f t s1"
    and "kv_store.counter r st k c e t s \<Longrightarrow> kv_store.counter r st k c e t s1"
proof -
  have u: "usable_store r st s" using f by (rule fails_seen_usable)
  note frame = check_login_lockout_frame [OF u, where x = x and host = host and email = email and t = t]
  show "is_ok res \<longleftrightarrow> \<not> locked_after st f"
    using frame(3) [OF on] chk f guess_window_le(3) [OF t] by (simp add: fails_seen_def split: if_splits)
  show "fails_seen x r st host email t0 f t s1"
    by (rule fails_seen_frame [OF f order_refl]) (use frame chk in simp_all)
  show "kv_store.counter r st k c e t s \<Longrightarrow> kv_store.counter r st k c e t s1"
    using frame chk by (simp add: kv_store.counter_def)
qed

lemma guess_step:
  assumes on: "rate_limit_enabled st" and seen: "guesses_seen x r st host email t0 n u s"
    and n: "0 \<le> n" and t: "u \<le> t" "t0 \<le> t" "t < t0 + guess_window st" "n = 0 \<Longrightarrow> t = t0"
    and wrong: "wrong_guess x st ids email w (t, p)"
  shows "fst (snd (login_endpoint x r st ids host t email p w s)) = w"
    and "guesses_seen x r st host email t0 (n + 1) t (snd (snd (login_endpoint x r st ids host t email p w s)))"
proof -
  obtain res1 s1 where c1: "check_login_rate x r st host email t s = (res1, s1)" by fastforce
  obtain res2 s2 where c2: "check_login_lockout x r st host email t s1 = (res2, s2)" by fastforce
  let ?s3 = "snd (record_login_failure x r st host email t s2)" and ?k = "login_rate_key x host email"
  let ?e = "t0 + seconds (max (rate_limit_login_window_seconds st) 1)"
  note end_state = login_endpoint_wrong [OF wrong c1 c2]
  show "fst (snd (login_endpoint x r st ids host t email p w s)) = w" by (simp add: end_state)
  note r1 = check_login_rate_seen [OF on seen n t(1) t(3) t(4) c1]
  note r2 = check_lockout_seen [OF on r1(3) t(3) c2]
  have cnt2: "kv_store.counter r st ?k (n + 1) ?e t s2" using r2(3) r1(2) by blast
  have cnt3: "kv_store.counter r st ?k (n + 1) ?e t ?s3"
    if f3: "fails_seen x r st host email t0 f t ?s3" for f
    using cnt2 record_failure_frame [OF fails_seen_usable [OF r2(2)] fails_seen_pos [OF r2(2) order_refl]]
      fails_seen_usable [OF f3]
    by (simp add: kv_store.counter_def)
  have zero: "answered st n = 0 \<Longrightarrow> is_ok res1 \<Longrightarrow> t = t0"
    using r1(1) n t(4) by (auto simp: answered_def)
  show "guesses_seen x r st host email t0 (n + 1) t (snd (snd (login_endpoint x r st ids host t email p w s)))"
  proof (cases "is_ok res1 \<and> is_ok res2")
    case True
    have "fails_seen x r st host email t0 (answered st n + 1) t ?s3"
      by (rule fails_seen_step [OF on r2(2)]) (use True r2(1) t zero in simp_all)
    with cnt3 [OF this] True r1(1) r2(1) n show ?thesis
      by (simp add: end_state guesses_seen_def answered_step)
  next
    case False
    then show ?thesis using r1 r2 cnt2 n by (auto simp: end_state guesses_seen_def answered_step)
  qed
qed

lemma run_guesses_seen:
  assumes on: "rate_limit_enabled st"
    and "guesses_seen x r st host email t0 n u s" "0 \<le> n" "t0 \<le> u"
    and "sorted (u # map fst guesses)" "\<forall>g\<in>set guesses. fst g < t0 + guess_window st"
    and "n = 0 \<Longrightarrow> guesses \<noteq> [] \<Longrightarrow> fst (hd guesses) = t0"
    and "\<forall>g\<in>set guesses. wrong_guess x st ids email w g"
  shows "fst (run_guesses x r st ids host email guesses w s) = w \<and>
    guesses_seen x r st host email t0 (n + int (length guesses)) (last (u # map fst guesses))
      (snd (run_guesses x r st ids host email guesses w s))"
  using assms(2-)
proof (induction guesses arbitrary: n u s)
  case (Cons g guesses)
  obtain t p where g: "g = (t, p)" by fastforce
  have t: "u \<le> t" "t0 \<le> t" "t < t0 + guess_window st" "n = 0 \<Longrightarrow> t = t0" using Cons.prems g by auto
  have wrong: "wrong_guess x st ids email w (t, p)" using Cons.prems g by simp
  obtain res w1 s1 where e: "login_endpoint x r st ids host t email p w s = (res, w1, s1)"
    using prod_cases3 by blast
  note step = guess_step [OF on Cons.prems(1,2) t wrong]
  have w1: "w1 = w" and s1: "guesses_seen x r st host email t0 (n + 1) t s1" using step e by simp_all
  have "fst (run_guesses x r st ids host email guesses w s1) = w \<and>
    guesses_seen x r st host email t0 (n + 1 + int (length guesses)) (last (t # map fst guesses))
      (snd (run_guesses x r st ids host email guesses w s1))"
    by (rule Cons.IH [OF s1]) (use Cons.prems t g in auto)
  then show ?case by (simp add: g e w1 algebra_simps)
qed simp

text \<open>
  C3. Someone who guesses passwords of an account from one client gets a bounded number of
  guesses: after wrong guesses at moments of one window, the right password is accepted exactly
  while fewer guesses were made than the request limit and the lockout allow (always at least
  one try with the lockout alone), and a refusal leaves the database as it is.
\<close>

theorem right_password_after_guesses:
  assumes "usable_store r st s" "rate_limit_enabled st"
    and "\<forall>k\<in>{login_rate_key x host email, login_fail_key x host email, login_lock_key x host email}.
      \<forall>t'\<ge>t. store_visible r st k t' s = None"
    and "sorted (map fst guesses @ [now])" "fst (hd (guesses @ [(now, p)])) = t"
    and "now < t + guess_window st"
    and "\<forall>g\<in>set guesses. wrong_guess x st ids email w g"
    and "login x st ids now email p w = ok resp w'"
  shows "(fst (login_endpoint x r st ids host now email p w
             (snd (run_guesses x r st ids host email guesses w s))) = Inr resp \<longleftrightarrow>
      int (length guesses) < rate_limit_login_max_requests st \<and>
      int (length guesses) < max 1 (login_lockout_max_attempts st)) \<and>
    (fst (login_endpoint x r st ids host now email p w
             (snd (run_guesses x r st ids host email guesses w s))) \<noteq> Inr resp \<longrightarrow>
      fst (snd (login_endpoint x r st ids host now email p w
             (snd (run_guesses x r st ids host email guesses w s)))) = w)"
proof -
  let ?n = "int (length guesses)" and ?u = "last (t # map fst guesses)"
  let ?s = "snd (run_guesses x r st ids host email guesses w s)"
  have start: "guesses_seen x r st host email t 0 t s"
    using assms(1,3) by (simp add: guesses_seen_def fails_seen_def locked_after_def)
  have le: "\<forall>g\<in>set guesses. fst g \<le> now" using assms(4) by (auto simp: sorted_append)
  have sorted: "sorted (t # map fst guesses)"
    using assms(4,5) by (cases guesses) (auto simp: sorted_append)
  have "fst (run_guesses x r st ids host email guesses w s) = w \<and>
      guesses_seen x r st host email t (0 + ?n) ?u ?s"
    by (rule run_guesses_seen [OF assms(2) start]) (use assms(5-7) le sorted in \<open>auto simp: hd_append\<close>)
  then have seen: "guesses_seen x r st host email t ?n ?u ?s" by simp
  have now: "?u \<le> now" "?n = 0 \<Longrightarrow> now = t"
    using assms(5) le by (auto simp: last_map hd_append split: if_splits)
  obtain res1 s1 where c1: "check_login_rate x r st host email now ?s = (res1, s1)" by fastforce
  obtain res2 s2 where c2: "check_login_lockout x r st host email now s1 = (res2, s2)" by fastforce
  note r1 = check_login_rate_seen [OF assms(2) seen of_nat_0_le_iff now(1) assms(6) now(2) c1]
  note r2 = check_lockout_seen [OF assms(2) r1(3) assms(6) c2]
  have "is_ok res1 \<and> is_ok res2 \<longleftrightarrow> ?n < rate_limit_login_max_requests st \<and>
      ?n < max 1 (login_lockout_max_attempts st)"
    using r1(1) r2(1) answered_open [of ?n st] by simp
  with login_endpoint_right [OF assms(8) c1 c2] show ?thesis by blast
qed


text \<open>Five wrong guesses in a second, and then the right password is refused.\<close>

definition wrong_guesses :: "(int \<times> string) list" where
  "wrong_guesses = map (\<lambda>t. (t, ''wrong'')) [0, 1, 2, 3, 4]"

lemma wrong_guesses_wrong: "\<forall>g\<in>set wrong_guesses. wrong_guess X S sample_ids ''ali@u'' sample_world g"
proof -
  have "\<not> verify_password X ''wrong'' (hash_password X ''salt'' ''secret12'')"
    using verify_hash [OF reference_laws(2)] by simp
  then show ?thesis
    by (auto simp: wrong_guesses_def wrong_guess_def login_def sample_user_def)
qed

lemma right_password_after_guesses_witness:
  "\<exists>resp w'. login X S sample_ids 5 ''ali@u'' ''secret12'' sample_world = ok resp w' \<and>
    fst (login_endpoint X R S sample_ids None 5 ''ali@u'' ''secret12'' sample_world
      (snd (run_guesses X R S sample_ids None ''ali@u'' wrong_guesses sample_world fresh_store))) \<noteq> Inr resp"
proof -
  obtain resp w' where r: "login X S sample_ids 5 ''ali@u'' ''secret12'' sample_world = ok resp w'"
    using sample_login by blast
  have limits: "rate_limit_login_max_requests S = 10" "guess_window S = 60000000"
    by (simp_all add: default_settings_def guess_window_def)
  have "\<not> (int (length wrong_guesses) < max 1 (login_lockout_max_attempts S))"
    by (simp add: wrong_guesses_def)
  moreover have "sorted (map fst wrong_guesses @ [5])" "fst (hd (wrong_guesses @ [(5, ''secret12'')])) = 0"
    by (simp_all add: wrong_guesses_def)
  ultimately show ?thesis
    using right_password_after_guesses [OF fresh_stores(1) default_switches(1), where host = None
        and email = "''ali@u''" and x = X and t = 0 and ids = sample_ids and w = sample_world
        and p = "''secret12''" and guesses = wrong_guesses and now = 5, OF _ _ _ _ wrong_guesses_wrong r]
      fresh_stores(3) limits r by simp
qed

end
