(* ===== verification/Responses.thy ===== *)
theory Responses
  imports Users Community Admin
begin

text \<open>
  \<^verbatim>\<open>app/utils/serializers.py\<close> and what the routers build with it: \<^verbatim>\<open>materials/common.py\<close>,
  \<^verbatim>\<open>materials/public_api.py\<close>, \<^verbatim>\<open>materials/management_api.py\<close>, \<^verbatim>\<open>materials/community_api.py\<close>,
  \<^verbatim>\<open>users/api.py\<close>, \<^verbatim>\<open>community/api.py\<close> and \<^verbatim>\<open>admin/reports_api.py\<close>. A relationship is the join
  on its foreign key, as the repositories load it. A response that its schema refuses is a
  \<open>ValueError\<close>, which no handler of the application catches.
\<close>

section \<open>Summaries\<close>

record university_summary =
  us_id :: string
  us_name :: string
  us_slug :: string

record public_user_summary =
  ps_id :: string
  ps_full_name :: string
  ps_avatar_url :: "string option"
  ps_university :: "university_summary option"

record subject_summary =
  ss_id :: string
  ss_name :: string
  ss_slug :: string
  ss_faculty_id :: string

record faculty_summary =
  fs_id :: string
  fs_name :: string
  fs_slug :: string
  fs_university_id :: string

record tag_summary =
  gs_id :: string
  gs_name :: string
  gs_slug :: string

record material_summary =
  ms_id :: string
  ms_title :: string
  ms_material_type :: string
  ms_download_count :: int
  ms_created_at :: int

definition build_university_summary :: "university option \<Rightarrow> university_summary option" where
  "build_university_summary u =
     map_option (\<lambda>u. \<lparr>us_id = un_id u, us_name = un_name u, us_slug = un_slug u\<rparr>) u"

definition university_of :: "user \<Rightarrow> world \<Rightarrow> university option" where
  "university_of u w = (case u_university_id u of None \<Rightarrow> None | Some i \<Rightarrow> get_university i w)"

definition build_public_user_summary :: "world \<Rightarrow> user option \<Rightarrow> public_user_summary option" where
  "build_public_user_summary w u =
     map_option (\<lambda>u. \<lparr>ps_id = u_id u, ps_full_name = u_full_name u, ps_avatar_url = u_avatar_url u,
        ps_university = build_university_summary (university_of u w)\<rparr>) u"

definition build_material_summary :: "material \<Rightarrow> material_summary" where
  "build_material_summary m =
     \<lparr>ms_id = m_id m, ms_title = m_title m, ms_material_type = material_type_value (m_material_type m),
      ms_download_count = m_download_count m, ms_created_at = m_created_at m\<rparr>"

section \<open>Materials\<close>

record material_file_read =
  fo_id :: string
  fo_material_id :: string
  fo_storage_key :: "string option"
  fo_preview_storage_key :: "string option"
  fo_original_filename :: string
  fo_mime_type :: string
  fo_file_size :: int
  fo_file_ext :: string
  fo_file_kind :: file_kind
  fo_file_order :: int
  fo_checksum_hash :: "string option"
  fo_is_previewable :: bool
  fo_preview_page_count :: "int option"

definition build_material_file_read :: "bool \<Rightarrow> material_file \<Rightarrow> material_file_read" where
  "build_material_file_read include_sensitive_fields f =
     \<lparr>fo_id = mf_id f, fo_material_id = mf_material_id f,
      fo_storage_key = (if include_sensitive_fields then Some (mf_storage_key f) else None),
      fo_preview_storage_key = (if include_sensitive_fields then mf_preview_storage_key f else None),
      fo_original_filename = mf_original_filename f, fo_mime_type = mf_mime_type f,
      fo_file_size = mf_file_size f, fo_file_ext = mf_file_ext f, fo_file_kind = mf_file_kind f,
      fo_file_order = mf_file_order f,
      fo_checksum_hash = (if include_sensitive_fields then Some (mf_checksum_hash f) else None),
      fo_is_previewable = mf_is_previewable f, fo_preview_page_count = mf_preview_page_count f\<rparr>"

record material_read =
  mo_id :: string
  mo_slug :: string
  mo_title :: string
  mo_description :: "string option"
  mo_material_type :: material_type
  mo_status :: material_status
  mo_subject_id :: string
  mo_semesters :: "int list"
  mo_uploaded_by :: string
  mo_approved_by :: "string option"
  mo_last_reviewed_by :: "string option"
  mo_rejected_reason :: "reject_reason option"
  mo_cover_file_id :: "string option"
  mo_primary_file_id :: "string option"
  mo_file_count :: int
  mo_total_size :: int
  mo_download_count :: int
  mo_submitted_at :: "int option"
  mo_reviewed_at :: "int option"
  mo_created_at :: int
  mo_updated_at :: int
  mo_files :: "material_file_read list"
  mo_uploader :: "public_user_summary option"
  mo_subject :: "subject_summary option"
  mo_faculty :: "faculty_summary option"
  mo_university :: "university_summary option"
  mo_tags :: "tag_summary list"
  mo_average_rating :: rat
  mo_rating_count :: int
  mo_access :: access_context

definition subject_summary_of :: "subject \<Rightarrow> subject_summary" where
  "subject_summary_of s = \<lparr>ss_id = su_id s, ss_name = su_name s, ss_slug = su_slug s, ss_faculty_id = su_faculty_id s\<rparr>"

definition faculty_summary_of :: "faculty \<Rightarrow> faculty_summary" where
  "faculty_summary_of f =
     \<lparr>fs_id = fa_id f, fs_name = fa_name f, fs_slug = fa_slug f, fs_university_id = fa_university_id f\<rparr>"

text \<open>The five fields about access are the record \<open>mo_access\<close>.\<close>

definition build_material_read ::
  "world \<Rightarrow> material \<Rightarrow> rat \<Rightarrow> int \<Rightarrow> access_context \<Rightarrow> bool \<Rightarrow> material_read"
where
  "build_material_read w m average_rating rating_count access include_sensitive_file_fields =
     (let subject = get_subject (m_subject_id m) w;
          faculty = (case subject of None \<Rightarrow> None | Some s \<Rightarrow> get_faculty (su_faculty_id s) w);
          university = (case faculty of None \<Rightarrow> None | Some f \<Rightarrow> get_university (fa_university_id f) w)
      in \<lparr>mo_id = m_id m, mo_slug = m_slug m, mo_title = m_title m, mo_description = m_description m,
          mo_material_type = m_material_type m, mo_status = m_status m, mo_subject_id = m_subject_id m,
          mo_semesters = m_semesters m, mo_uploaded_by = m_uploaded_by m, mo_approved_by = m_approved_by m,
          mo_last_reviewed_by = m_last_reviewed_by m, mo_rejected_reason = m_rejected_reason m,
          mo_cover_file_id = m_cover_file_id m, mo_primary_file_id = m_primary_file_id m,
          mo_file_count = m_file_count m, mo_total_size = m_total_size m,
          mo_download_count = m_download_count m, mo_submitted_at = m_submitted_at m,
          mo_reviewed_at = m_reviewed_at m, mo_created_at = m_created_at m, mo_updated_at = m_updated_at m,
          mo_files = map (build_material_file_read include_sensitive_file_fields) (files_of (m_id m) w),
          mo_uploader = build_public_user_summary w (get_user (m_uploaded_by m) w),
          mo_subject = map_option subject_summary_of subject,
          mo_faculty = map_option faculty_summary_of faculty,
          mo_university = build_university_summary university,
          mo_tags = map (\<lambda>t. \<lparr>gs_id = t_id t, gs_name = t_name t, gs_slug = t_slug t\<rparr>) (tags_of (m_id m) w),
          mo_average_rating = average_rating, mo_rating_count = rating_count, mo_access = access\<rparr>)"

definition serialize_materials :: "world \<Rightarrow> material list \<Rightarrow> user option \<Rightarrow> material_read list" where
  "serialize_materials w ms user =
     map (\<lambda>m. let (average_rating, rating_count) = rating_of (map m_id ms) w (m_id m)
          in build_material_read w m average_rating rating_count (get_material_access_context m user w) False) ms"

definition get_material_response :: "string \<Rightarrow> user option \<Rightarrow> string \<Rightarrow> world \<Rightarrow> material_read res" where
  "get_material_response identifier user lookup_field w =
     map_sum id (\<lambda>m. hd (serialize_materials w [m] user)) (get_material_for_view identifier user lookup_field w)"

section \<open>The public list\<close>

text \<open>
  \<open>MaterialListQuery\<close> is built inside the handlers, so that its limits and its status are not part
  of the validation of the request.
\<close>

definition status_of_value :: "string \<Rightarrow> material_status option" where
  "status_of_value s =
     find (\<lambda>x. material_status_value x = s) [DRAFT, PENDING_REVIEW, APPROVED, REJECTED]"

definition in_range :: "int \<Rightarrow> int \<Rightarrow> int option \<Rightarrow> bool" where
  "in_range lo hi n = (case n of None \<Rightarrow> True | Some k \<Rightarrow> lo \<le> k \<and> k \<le> hi)"

definition build_list_query :: "string option \<Rightarrow> material_list_query \<Rightarrow> material_list_query res" where
  "build_list_query status q =
     (if in_range 1 14 (lq_semester q) \<and> in_range 1 14 (lq_course q) \<and>
         (case lq_download_count_gte q of None \<Rightarrow> True | Some n \<Rightarrow> 0 \<le> n) \<and>
         1 \<le> lq_page q \<and> 1 \<le> lq_page_size q \<and> lq_page_size q \<le> 100 \<and>
         (case status of None \<Rightarrow> True | Some s \<Rightarrow> status_of_value s \<noteq> None)
      then Inr (q\<lparr>lq_status := (case status of None \<Rightarrow> None | Some s \<Rightarrow> status_of_value s)\<rparr>)
      else Inl (ValueError ''MaterialListQuery''))"

record 'a page =
  pg_items :: "'a list"
  pg_page :: int
  pg_page_size :: int
  pg_total :: int

definition list_materials ::
  "externals \<Rightarrow> string option \<Rightarrow> material_list_query \<Rightarrow> world \<Rightarrow> material_read page res"
where
  "list_materials x status q w =
     (case build_list_query status q of
        Inl e \<Rightarrow> Inl e
      | Inr query \<Rightarrow>
          (let (items, n) = list_public x query w
           in Inr \<lparr>pg_items = serialize_materials w items None, pg_page = lq_page q,
                   pg_page_size = lq_page_size q, pg_total = n\<rparr>))"

text \<open>\<open>SearchService.list_public\<close> is the same query again.\<close>

definition search_materials ::
  "externals \<Rightarrow> string option \<Rightarrow> material_list_query \<Rightarrow> world \<Rightarrow> material_read page res"
where
  "search_materials x status q w = list_materials x status q w"

definition featured_materials :: "externals \<Rightarrow> world \<Rightarrow> material_read list" where
  "featured_materials x w = serialize_materials w (list_featured x w) None"

definition trending_materials ::
  "settings \<Rightarrow> string list option \<Rightarrow> world \<Rightarrow> material_read list \<times> world"
where
  "trending_materials st cached_ids w =
     (let (items, w1) = list_trending st cached_ids w in (serialize_materials w1 items None, w1))"

definition related_materials :: "externals \<Rightarrow> string \<Rightarrow> world \<Rightarrow> material_read list res" where
  "related_materials x material_id w =
     map_sum id (\<lambda>items. serialize_materials w items None) (list_related x material_id w)"

record resource_read =
  re_id :: string
  re_original_filename :: string
  re_mime_type :: string
  re_is_previewable :: bool
  re_file_order :: int

definition material_resources :: "string \<Rightarrow> world \<Rightarrow> resource_read list res" where
  "material_resources material_id w =
     map_sum id (map (\<lambda>f. \<lparr>re_id = mf_id f, re_original_filename = mf_original_filename f,
        re_mime_type = mf_mime_type f, re_is_previewable = mf_is_previewable f,
        re_file_order = mf_file_order f\<rparr>)) (list_resources material_id w)"

record accepted_formats =
  af_accepted_extensions :: "string list"
  af_image_extensions :: "string list"
  af_document_extensions :: "string list"
  af_max_file_size :: int
  af_max_total_size :: int
  af_max_file_count :: int

definition accepted_file_formats :: "settings \<Rightarrow> accepted_formats" where
  "accepted_file_formats st =
     \<lparr>af_accepted_extensions = sort ALLOWED_EXTENSIONS, af_image_extensions = sort IMAGE_EXTENSIONS,
      af_document_extensions = sort DOCUMENT_EXTENSIONS, af_max_file_size = upload_max_file_size st,
      af_max_total_size = upload_max_total_size st, af_max_file_count = upload_max_file_count st\<rparr>"

section \<open>The sitemap\<close>

definition sitemap_rows :: "world \<Rightarrow> material list" where
  "sitemap_rows w =
     order_by_desc m_updated_at (filter (\<lambda>m. m_status m = APPROVED \<and> m_deleted_at m = None) (db_materials w))"

definition date_iso :: "int \<Rightarrow> string" where
  "date_iso t = (case civil_date t of (y, m, d) \<Rightarrow> padded 4 y @ ''-'' @ padded 2 m @ ''-'' @ padded 2 d)"

definition list_sitemap_entries :: "settings \<Rightarrow> world \<Rightarrow> (string \<times> string) list" where
  "list_sitemap_entries st w =
     map (\<lambda>m. (rstrip_char (CHR ''/'') (public_web_base_url st) @ ''/materials/'' @ m_slug m,
           date_iso (m_updated_at m))) (sitemap_rows w)"

definition materials_sitemap :: "settings \<Rightarrow> world \<Rightarrow> string" where
  "materials_sitemap st w =
     join [CHR 0x0A]
       ([''<?xml version=\"1.0\" encoding=\"UTF-8\"?>'',
         ''<urlset xmlns=\"http://www.sitemaps.org/schemas/sitemap/0.9\">''] @
        concat (map (\<lambda>(loc, lastmod). [''<url>'', ''<loc>'' @ loc @ ''</loc>'',
          ''<lastmod>'' @ lastmod @ ''</lastmod>'', ''</url>'']) (list_sitemap_entries st w)) @
        [''</urlset>''])"

section \<open>Downloads and previews\<close>

definition download_material ::
  "provider \<Rightarrow> string \<Rightarrow> int \<Rightarrow> string \<Rightarrow> string option \<Rightarrow> user option \<Rightarrow> string \<Rightarrow> world \<Rightarrow>
   download_response res \<times> world"
where
  "download_material sp i now identifier file_id user lookup_field w =
     (case prepare_download sp i now identifier file_id user lookup_field w of
        (Inl e, w1) \<Rightarrow> fail e w1
      | (Inr d, w1) \<Rightarrow> (storage_download_response d, w1))"

text \<open>A reader who sent a token gets it back in the address of the file, as a query parameter.\<close>

definition preview_path :: "string \<Rightarrow> string \<Rightarrow> string \<Rightarrow> string" where
  "preview_path lookup_field identifier file_id =
     ''/api/v1/materials/'' @ (if lookup_field = ''slug'' then ''slug/'' else '''') @ identifier @
     ''/files/'' @ file_id @ ''/preview/file''"

definition preview_url_of ::
  "string \<Rightarrow> string \<Rightarrow> string \<Rightarrow> string option \<Rightarrow> storage_download \<Rightarrow> string option"
where
  "preview_url_of lookup_field identifier file_id auth_header d =
     (if sd_local_path d \<noteq> None
      then
        (let url = preview_path lookup_field identifier file_id in
         if truthy auth_header \<and> startswith (the auth_header) ''Bearer ''
         then Some (url @ ''?token='' @ drop 7 (the auth_header)) else Some url)
      else sd_redirect_url d)"

definition preview_material_file ::
  "parsers \<Rightarrow> provider \<Rightarrow> string \<Rightarrow> string \<Rightarrow> string \<Rightarrow> string option \<Rightarrow> user option \<Rightarrow> string \<Rightarrow>
   world \<Rightarrow> (string option \<times> string) res \<times> world"
where
  "preview_material_file pr sp u identifier file_id auth_header user lookup_field w =
     (case prepare_preview pr sp u identifier file_id user lookup_field w of
        (Inl e, w1) \<Rightarrow> fail e w1
      | (Inr (d, preview_type), w1) \<Rightarrow>
          ok (preview_url_of lookup_field identifier file_id auth_header d, preview_type) w1)"

definition preview_material_file_bytes ::
  "parsers \<Rightarrow> provider \<Rightarrow> string \<Rightarrow> string \<Rightarrow> string \<Rightarrow> user option \<Rightarrow> string \<Rightarrow> world \<Rightarrow>
   download_response res \<times> world"
where
  "preview_material_file_bytes pr sp u identifier file_id user lookup_field w =
     (case prepare_preview pr sp u identifier file_id user lookup_field w of
        (Inl e, w1) \<Rightarrow> fail e w1
      | (Inr (d, _), w1) \<Rightarrow> (storage_download_response d, w1))"

section \<open>What the owner of a material gets back\<close>

text \<open>
  \<open>(await serialize_materials(service, [material], user))[0]\<close>: the reader is the owner for some
  operations and nobody for the others.
\<close>

definition material_response ::
  "user option \<Rightarrow> material option res \<times> world \<Rightarrow> material_read res \<times> world"
where
  "material_response reader result =
     (case result of
        (Inl e, w) \<Rightarrow> fail e w
      | (Inr None, w) \<Rightarrow> fail TypeError w
      | (Inr (Some m), w) \<Rightarrow> ok (hd (serialize_materials w [m] reader)) w)"

definition create_material_response where
  "create_material_response x i now payload user w = material_response None (create_draft x i now payload user w)"

definition delete_material_file_response where
  "delete_material_file_response sp i now material_id file_id user w =
     material_response (Some user) (delete_file sp i now material_id file_id user w)"

definition update_material_file_selection_response where
  "update_material_file_selection_response i now material_id file_id cover primary user w =
     material_response (Some user) (update_file_selection i now material_id file_id cover primary user w)"

definition submit_material_response where
  "submit_material_response st ids now material_id user w =
     material_response None (submit st ids now material_id user w)"

definition withdraw_material_response where
  "withdraw_material_response i now material_id user w =
     material_response None (withdraw i now material_id user w)"

definition update_material_response where
  "update_material_response i now material_id payload user w =
     material_response None (update_material i now material_id payload user w)"

definition attach_material_tag_response where
  "attach_material_tag_response i now material_id tag_id user w =
     material_response (Some user) (attach_tag i now material_id tag_id user w)"

definition detach_material_tag_response where
  "detach_material_tag_response i now material_id tag_id user w =
     material_response (Some user) (detach_tag i now material_id tag_id user w)"

record attached_file =
  at_id :: string
  at_original_filename :: string
  at_file_order :: int
  at_checksum_hash :: "string option"

definition attached_file_of :: "bool \<Rightarrow> material_file \<Rightarrow> attached_file" where
  "attached_file_of with_checksum f =
     \<lparr>at_id = mf_id f, at_original_filename = mf_original_filename f, at_file_order = mf_file_order f,
      at_checksum_hash = (if with_checksum then Some (mf_checksum_hash f) else None)\<rparr>"

definition attach_files_response ::
  "parsers \<Rightarrow> settings \<Rightarrow> provider \<Rightarrow> (nat \<Rightarrow> string) \<Rightarrow> int \<Rightarrow> string \<Rightarrow> user \<Rightarrow> upload list \<Rightarrow> int list \<Rightarrow>
   world \<Rightarrow> attached_file list res \<times> world"
where
  "attach_files_response pr st sp ids now material_id user files file_orders w =
     map_prod (map_sum id (map (attached_file_of True))) id
       (attach_files pr st sp ids now material_id user files file_orders w)"

definition reorder_files_response ::
  "string \<Rightarrow> int \<Rightarrow> string \<Rightarrow> string list \<Rightarrow> user \<Rightarrow> world \<Rightarrow> attached_file list res \<times> world"
where
  "reorder_files_response i now material_id file_ids user w =
     map_prod (map_sum id (map (attached_file_of False))) id
       (reorder_files i now material_id file_ids user w)"

section \<open>Lists of a user\<close>

definition rated_read :: "world \<Rightarrow> material list \<Rightarrow> material_read list" where
  "rated_read w ms =
     map (\<lambda>m. let (average_rating, rating_count) = rating_of (map m_id ms) w (m_id m)
          in build_material_read w m average_rating rating_count
               (build_access_context ''public'' False False True None) False) ms"

definition current_user_materials ::
  "externals \<Rightarrow> user \<Rightarrow> string option \<Rightarrow> material_list_query \<Rightarrow> world \<Rightarrow> material_read page res"
where
  "current_user_materials x user status q w =
     (case build_list_query status q of
        Inl e \<Rightarrow> Inl e
      | Inr query \<Rightarrow>
          (let (items, n) = list_user_materials x user query w
           in Inr \<lparr>pg_items = rated_read w items, pg_page = lq_page q, pg_page_size = lq_page_size q,
                   pg_total = n\<rparr>))"

definition saved_materials_response :: "user \<Rightarrow> world \<Rightarrow> material_read list" where
  "saved_materials_response user w = rated_read w (list_saved_materials user w)"

definition downloaded_materials_response :: "user \<Rightarrow> world \<Rightarrow> material_read list" where
  "downloaded_materials_response user w = rated_read w (list_downloaded_materials user w)"

definition get_public_user :: "string \<Rightarrow> world \<Rightarrow> public_user_summary res" where
  "get_public_user i w =
     map_sum id (\<lambda>u. the (build_public_user_summary w (Some u))) (require_known_user i w)"

section \<open>Comments\<close>

record comment_read =
  ko_id :: string
  ko_material_id :: string
  ko_content :: string
  ko_created_at :: int
  ko_updated_at :: int
  ko_user :: public_user_summary

definition build_comment_read :: "world \<Rightarrow> comment \<Rightarrow> user option \<Rightarrow> comment_read res" where
  "build_comment_read w c user =
     (let owner = (case user of Some u \<Rightarrow> Some u | None \<Rightarrow> get_user (co_user_id c) w)
      in case build_public_user_summary w owner of
           None \<Rightarrow> Inl (ValueError ''CommentRead'')
         | Some s \<Rightarrow>
             Inr \<lparr>ko_id = co_id c, ko_material_id = co_material_id c, ko_content = co_content c,
                  ko_created_at = co_created_at c, ko_updated_at = co_updated_at c, ko_user = s\<rparr>)"

fun all_ok :: "'a res list \<Rightarrow> 'a list res" where
  "all_ok [] = Inr []"
| "all_ok (r # rs) =
     (case r of Inl e \<Rightarrow> Inl e
      | Inr v \<Rightarrow> (case all_ok rs of Inl e \<Rightarrow> Inl e | Inr vs \<Rightarrow> Inr (v # vs)))"

lemma is_ok_map_sum [simp]: "is_ok (map_sum id f r) \<longleftrightarrow> is_ok r"
  by (cases r) simp_all

lemma all_ok_fails: "r \<in> set rs \<Longrightarrow> \<not> is_ok r \<Longrightarrow> \<not> is_ok (all_ok rs)"
  by (induction rs) (auto split: sum.splits)

lemma all_ok_Inr: "all_ok (map Inr vs) = Inr vs"
  by (induction vs) auto

definition list_material_comments :: "string \<Rightarrow> world \<Rightarrow> comment_read list res" where
  "list_material_comments material_id w =
     all_ok (map (\<lambda>c. build_comment_read w c None) (list_comments material_id w))"

definition comment_response :: "comment res \<times> world \<Rightarrow> comment_read res \<times> world" where
  "comment_response result =
     (case result of (Inl e, w) \<Rightarrow> fail e w | (Inr c, w) \<Rightarrow> (build_comment_read w c None, w))"

definition create_material_comment where
  "create_material_comment ids now material_id content user w =
     comment_response (create_comment ids now material_id content user w)"

definition update_comment_response where
  "update_comment_response ids now comment_id content user w =
     comment_response (update_comment ids now comment_id content user w)"

section \<open>Reports, the audit log, proposals\<close>

record material_report_read =
  ro_id :: string
  ro_reason :: string
  ro_details :: "string option"
  ro_status :: report_status
  ro_resolution_note :: "string option"
  ro_reviewed_at :: "int option"
  ro_created_at :: int
  ro_reporter :: public_user_summary
  ro_material :: material_summary

definition build_report_read :: "world \<Rightarrow> material_report \<Rightarrow> material_report_read res" where
  "build_report_read w r =
     (case (build_public_user_summary w (get_user (mr_reporter_id r) w), get_material (mr_material_id r) w) of
        (Some reporter, Some m) \<Rightarrow>
          Inr \<lparr>ro_id = mr_id r, ro_reason = mr_reason r, ro_details = mr_details r, ro_status = mr_status r,
               ro_resolution_note = mr_resolution_note r, ro_reviewed_at = mr_reviewed_at r,
               ro_created_at = mr_created_at r, ro_reporter = reporter, ro_material = build_material_summary m\<rparr>
      | (_, None) \<Rightarrow> Inl TypeError
      | (None, _) \<Rightarrow> Inl (ValueError ''MaterialReportRead''))"

definition list_reports_response ::
  "int \<Rightarrow> int \<Rightarrow> report_status option \<Rightarrow> world \<Rightarrow> material_report_read page res"
where
  "list_reports_response page page_size status w =
     (case list_reports page page_size status w of
        Inl e \<Rightarrow> Inl e
      | Inr (items, n) \<Rightarrow>
          map_sum id (\<lambda>rs. \<lparr>pg_items = rs, pg_page = page, pg_page_size = page_size, pg_total = n\<rparr>)
            (all_ok (map (build_report_read w) items)))"

definition report_response :: "material_report res \<times> world \<Rightarrow> material_report_read res \<times> world" where
  "report_response result =
     (case result of (Inl e, w) \<Rightarrow> fail e w | (Inr r, w) \<Rightarrow> (build_report_read w r, w))"

record audit_log_read =
  ao_id :: string
  ao_entity :: string
  ao_entity_id :: "string option"
  ao_action :: string
  ao_details :: "string option"
  ao_created_at :: int
  ao_actor :: "public_user_summary option"

definition build_audit_log_read :: "world \<Rightarrow> audit_log \<Rightarrow> audit_log_read" where
  "build_audit_log_read w a =
     \<lparr>ao_id = al_id a, ao_entity = al_entity a, ao_entity_id = al_entity_id a, ao_action = al_action a,
      ao_details = al_details a, ao_created_at = al_created_at a,
      ao_actor = build_public_user_summary w
        (case al_actor_id a of None \<Rightarrow> None | Some i \<Rightarrow> get_user i w)\<rparr>"

definition list_audit_logs_response ::
  "string option \<Rightarrow> string option \<Rightarrow> string option \<Rightarrow> int \<Rightarrow> int \<Rightarrow> world \<Rightarrow> audit_log_read page res"
where
  "list_audit_logs_response actor_id entity action page page_size w =
     map_sum id (\<lambda>(items, n). \<lparr>pg_items = map (build_audit_log_read w) items, pg_page = page,
         pg_page_size = page_size, pg_total = n\<rparr>)
       (list_audit_logs actor_id entity action page page_size w)"

text \<open>
  The object in the session keeps what the request set and the rows it was loaded with: a status is
  still the name that was sent, which the schema of the answer does not know, and the reporter and
  the material are the ones before the change.
\<close>

definition update_report_response ::
  "(nat \<Rightarrow> string) \<Rightarrow> int \<Rightarrow> string \<Rightarrow> (string \<times> json) list \<Rightarrow> world \<Rightarrow> material_report_read res \<times> world"
where
  "update_report_response ids now report_id payload w =
     (case (find_report report_id w, update_report ids now report_id payload w) of
        (Inr old, (Inr r, w1)) \<Rightarrow>
          (if ''status'' \<in> set (map fst payload) then fail (ValueError ''MaterialReportRead'') w1
           else (build_report_read w1 (r\<lparr>mr_material_id := mr_material_id old,
                   mr_reporter_id := mr_reporter_id old\<rparr>), w1))
      | (_, (Inl e, w1)) \<Rightarrow> fail e w1
      | (Inl e, _) \<Rightarrow> fail e w)"

definition resolve_report_response where
  "resolve_report_response ids now report_id resolution_note w =
     report_response (resolve_report ids now report_id resolution_note w)"

definition dismiss_report_response where
  "dismiss_report_response ids now report_id resolution_note w =
     report_response (dismiss_report ids now report_id resolution_note w)"

record catalog_proposal_read =
  po_id :: string
  po_proposal_type :: string
  po_status :: proposal_status
  po_proposed_name :: string
  po_proposed_description :: "string option"
  po_parent_id :: "string option"
  po_proposed_code :: "string option"
  po_proposed_semester :: "int option"
  po_created_at :: int
  po_reviewed_at :: "int option"
  po_review_note :: "string option"
  po_creator :: "public_user_summary option"

text \<open>The creator is the one given, or the one that was loaded with the proposal.\<close>

fun build_catalog_proposal_read ::
  "world \<Rightarrow> string \<Rightarrow> user option \<Rightarrow> proposal \<Rightarrow> catalog_proposal_read"
where
  "build_catalog_proposal_read w proposal_type creator (UniversityProposal p) =
     \<lparr>po_id = up_id p, po_proposal_type = proposal_type, po_status = up_status p,
      po_proposed_name = up_proposed_name p, po_proposed_description = up_proposed_description p,
      po_parent_id = None, po_proposed_code = None, po_proposed_semester = None,
      po_created_at = up_created_at p, po_reviewed_at = up_reviewed_at p, po_review_note = up_review_note p,
      po_creator = build_public_user_summary w creator\<rparr>"
| "build_catalog_proposal_read w proposal_type creator (FacultyProposal p) =
     \<lparr>po_id = fp_id p, po_proposal_type = proposal_type, po_status = fp_status p,
      po_proposed_name = fp_proposed_name p, po_proposed_description = fp_proposed_description p,
      po_parent_id = Some (fp_university_id p), po_proposed_code = None, po_proposed_semester = None,
      po_created_at = fp_created_at p, po_reviewed_at = fp_reviewed_at p, po_review_note = fp_review_note p,
      po_creator = build_public_user_summary w creator\<rparr>"
| "build_catalog_proposal_read w proposal_type creator (SubjectProposal p) =
     \<lparr>po_id = sp_id p, po_proposal_type = proposal_type, po_status = sp_status p,
      po_proposed_name = sp_proposed_name p, po_proposed_description = sp_proposed_description p,
      po_parent_id = Some (sp_faculty_id p), po_proposed_code = sp_proposed_code p,
      po_proposed_semester = sp_proposed_semester p, po_created_at = sp_created_at p,
      po_reviewed_at = sp_reviewed_at p, po_review_note = sp_review_note p,
      po_creator = build_public_user_summary w creator\<rparr>"

end
