(* ===== verification/CatalogApi.thy ===== *)
theory CatalogApi
  imports Responses CatalogProposals
begin

text \<open>
  The endpoints of \<^verbatim>\<open>catalog_proposals/api.py\<close>, with the requests that carry many proposals, and
  those of \<^verbatim>\<open>admin/reports_api.py\<close> on the reports about catalog entries.
\<close>

section \<open>Proposals\<close>

record proposal_receipt =
  pc_id :: string
  pc_status :: proposal_status
  pc_message :: string

definition proposal_response ::
  "string \<Rightarrow> proposal res \<times> world \<Rightarrow> proposal_receipt res \<times> world"
where
  "proposal_response message result =
     map_prod (map_sum id (\<lambda>p. \<lparr>pc_id = proposal_id p, pc_status = proposal_status_of p,
       pc_message = message\<rparr>)) id result"

definition create_university_proposal_response where
  "create_university_proposal_response x ids now name description user w =
     proposal_response ''Universitet taklifi yuborildi''
       (create_university_proposal x ids now name description user w)"

definition create_faculty_proposal_response where
  "create_faculty_proposal_response x ids now university_id name description user w =
     proposal_response ''Fakultet taklifi yuborildi''
       (create_faculty_proposal x ids now university_id name description user w)"

definition create_subject_proposal_response where
  "create_subject_proposal_response x ids now faculty_id name code description user w =
     proposal_response ''Fan taklifi yuborildi''
       (create_subject_proposal x ids now faculty_id name code description user w)"

text \<open>
  \<open>for item in payload: try ... except Exception\<close>. The session is not rolled back in between: once
  the database has refused a flush or a commit, every later statement of the request raises
  \<open>PendingRollbackError\<close>. The other errors of the service come before it changes anything.
  \<open>create i\<close> is the request for the item with the identifiers of its place.
\<close>

record bulk_result =
  bu_results :: "(string \<times> string \<times> proposal_status) list"
  bu_errors :: "(string \<times> app_error) list"

definition breaks_session :: "app_error \<Rightarrow> bool" where
  "breaks_session e = (e = IntegrityError \<or> (case e of DatabaseError _ \<Rightarrow> True | _ \<Rightarrow> False))"

fun create_bulk ::
  "(nat \<Rightarrow> 'i \<Rightarrow> world \<Rightarrow> proposal res \<times> world) \<Rightarrow> ('i \<Rightarrow> string) \<Rightarrow> nat \<Rightarrow> 'i list \<Rightarrow> bool \<Rightarrow>
   bulk_result \<Rightarrow> world \<Rightarrow> bulk_result \<times> world"
where
  "create_bulk create name_of n [] broken acc w = (acc, w)"
| "create_bulk create name_of n (item # items) broken acc w =
     (case (if broken then fail (RuntimeError ''PendingRollbackError'') w else create n item w) of
        (Inr p, w1) \<Rightarrow>
          create_bulk create name_of (Suc n) items broken
            (acc\<lparr>bu_results := bu_results acc @ [(name_of item, proposal_id p, proposal_status_of p)]\<rparr>) w1
      | (Inl e, w1) \<Rightarrow>
          create_bulk create name_of (Suc n) items (broken \<or> breaks_session e)
            (acc\<lparr>bu_errors := bu_errors acc @ [(name_of item, e)]\<rparr>) w1)"

definition no_results :: bulk_result where
  "no_results = \<lparr>bu_results = [], bu_errors = []\<rparr>"

record faculty_item =
  fi_university_id :: string
  fi_name :: string
  fi_description :: "string option"

record subject_item =
  si_faculty_id :: string
  si_name :: string
  si_code :: "string option"
  si_description :: "string option"

definition create_faculty_proposals_bulk ::
  "externals \<Rightarrow> (nat \<Rightarrow> nat \<Rightarrow> string) \<Rightarrow> int \<Rightarrow> faculty_item list \<Rightarrow> user \<Rightarrow> world \<Rightarrow> bulk_result \<times> world"
where
  "create_faculty_proposals_bulk x ids now items user w =
     create_bulk (\<lambda>n i. create_faculty_proposal x (ids n) now (fi_university_id i) (fi_name i)
       (fi_description i) user) fi_name 0 items False no_results w"

definition create_subject_proposals_bulk ::
  "externals \<Rightarrow> (nat \<Rightarrow> nat \<Rightarrow> string) \<Rightarrow> int \<Rightarrow> subject_item list \<Rightarrow> user \<Rightarrow> world \<Rightarrow> bulk_result \<times> world"
where
  "create_subject_proposals_bulk x ids now items user w =
     create_bulk (\<lambda>n i. create_subject_proposal x (ids n) now (si_faculty_id i) (si_name i) (si_code i)
       (si_description i) user) si_name 0 items False no_results w"

section \<open>Reports on catalog entries\<close>

record catalog_report_read =
  yo_id :: string
  yo_entity_type :: string
  yo_entity_id :: string
  yo_entity_name :: string
  yo_reporter_id :: string
  yo_reviewer_id :: "string option"
  yo_reason :: string
  yo_details :: "string option"
  yo_status :: report_status
  yo_resolution_note :: "string option"
  yo_reviewed_at :: "int option"
  yo_created_at :: int
  yo_reporter :: "public_user_summary option"
  yo_reviewer :: "public_user_summary option"

definition catalog_report_receipt ::
  "string \<Rightarrow> int \<Rightarrow> string \<Rightarrow> string \<Rightarrow> string \<Rightarrow> string option \<Rightarrow> user \<Rightarrow> world \<Rightarrow>
   (string \<times> report_status \<times> string) res \<times> world"
where
  "catalog_report_receipt i now entity_type entity_id reason details user w =
     map_prod (map_sum id (\<lambda>r. (cr_id r, cr_status r, ''Shikoyat muvaffaqiyatli qabul qilindi''))) id
       (create_catalog_report i now entity_type entity_id reason details user w)"

text \<open>
  The statements load the university of the reporter and not that of the reviewer. Reading it needs
  no statement when the reviewer has none or when the session has loaded that university for the
  administrator or a reporter, and fails otherwise.
\<close>

definition loaded_universities :: "user \<Rightarrow> catalog_report list \<Rightarrow> world \<Rightarrow> string set" where
  "loaded_universities admin items w =
     set (List.map_filter u_university_id
       (admin # List.map_filter (\<lambda>r. get_user (cr_reporter_id r) w) items))"

definition build_reviewer_summary ::
  "string set \<Rightarrow> world \<Rightarrow> user option \<Rightarrow> public_user_summary option res"
where
  "build_reviewer_summary loaded w reviewer =
     (case Option.bind reviewer u_university_id of
        Some i \<Rightarrow>
          (if i \<in> loaded then Inr (build_public_user_summary w reviewer)
           else Inl (RuntimeError ''MissingGreenlet''))
      | None \<Rightarrow> Inr (build_public_user_summary w reviewer))"

definition build_catalog_report_read ::
  "string set \<Rightarrow> world \<Rightarrow> catalog_report \<Rightarrow> catalog_report_read res"
where
  "build_catalog_report_read loaded w r =
     map_sum id (\<lambda>reviewer.
       \<lparr>yo_id = cr_id r, yo_entity_type = cr_entity_type r, yo_entity_id = cr_entity_id r,
        yo_entity_name = cr_entity_name r, yo_reporter_id = cr_reporter_id r,
        yo_reviewer_id = cr_reviewer_id r, yo_reason = cr_reason r, yo_details = cr_details r,
        yo_status = cr_status r, yo_resolution_note = cr_resolution_note r,
        yo_reviewed_at = cr_reviewed_at r, yo_created_at = cr_created_at r,
        yo_reporter = build_public_user_summary w (get_user (cr_reporter_id r) w),
        yo_reviewer = reviewer\<rparr>)
       (build_reviewer_summary loaded w
         (case cr_reviewer_id r of None \<Rightarrow> None | Some i \<Rightarrow> get_user i w))"

definition list_catalog_reports_response ::
  "int \<Rightarrow> int \<Rightarrow> report_status option \<Rightarrow> string option \<Rightarrow> user \<Rightarrow> world \<Rightarrow> catalog_report_read page res"
where
  "list_catalog_reports_response page page_size status entity_type admin w =
     (case list_catalog_reports page page_size status entity_type w of
        Inl e \<Rightarrow> Inl e
      | Inr (items, n) \<Rightarrow>
          map_sum id (\<lambda>rs. \<lparr>pg_items = rs, pg_page = page, pg_page_size = page_size, pg_total = n\<rparr>)
            (all_ok (map (build_catalog_report_read (loaded_universities admin items w) w) items)))"

definition get_catalog_report_response :: "string \<Rightarrow> user \<Rightarrow> world \<Rightarrow> catalog_report_read res" where
  "get_catalog_report_response report_id admin w =
     (case get_catalog_report report_id w of
        Inl e \<Rightarrow> Inl e
      | Inr r \<Rightarrow> build_catalog_report_read (loaded_universities admin [r] w) w r)"

definition catalog_report_response ::
  "user \<Rightarrow> catalog_report res \<times> world \<Rightarrow> catalog_report_read res \<times> world"
where
  "catalog_report_response admin result =
     (case result of
        (Inl e, w) \<Rightarrow> fail e w
      | (Inr r, w) \<Rightarrow> (build_catalog_report_read (loaded_universities admin [r] w) w r, w))"

definition resolve_catalog_report_response where
  "resolve_catalog_report_response now report_id admin resolution_note w =
     catalog_report_response admin (resolve_catalog_report now report_id admin resolution_note w)"

definition dismiss_catalog_report_response where
  "dismiss_catalog_report_response now report_id admin resolution_note w =
     catalog_report_response admin (dismiss_catalog_report now report_id admin resolution_note w)"

section \<open>What the answers say\<close>

text \<open>A bulk request accounts for every item once.\<close>

lemma create_bulk_counts:
  "length (bu_results (fst (create_bulk create name_of n items broken acc w))) +
     length (bu_errors (fst (create_bulk create name_of n items broken acc w))) =
   length (bu_results acc) + length (bu_errors acc) + length items"
  by (induction create name_of n items broken acc w rule: create_bulk.induct)
    (auto split: prod.splits sum.splits)

text \<open>An item the database refuses takes all later ones with it, and they change nothing.\<close>

lemma create_bulk_broken:
  "create_bulk create name_of n items True acc w =
     (acc\<lparr>bu_errors := bu_errors acc @
        map (\<lambda>i. (name_of i, RuntimeError ''PendingRollbackError'')) items\<rparr>, w)"
  by (induction items arbitrary: n acc) auto

lemma refused_item_breaks_bulk:
  assumes "create n item w = fail IntegrityError w"
  shows "create_bulk create name_of n (item # items) False acc w =
    (acc\<lparr>bu_errors := bu_errors acc @ (name_of item, IntegrityError) #
       map (\<lambda>i. (name_of i, RuntimeError ''PendingRollbackError'')) items\<rparr>, w)"
  using assms by (simp add: breaks_session_def create_bulk_broken)

text \<open>
  An administrator cannot list the reports once one of them was decided by a colleague of a
  university that neither the administrator nor a reporter on the page belongs to.
\<close>

lemma foreign_reviewer_breaks_list:
  assumes "list_catalog_reports page page_size status entity_type w = Inr (items, n)"
    and "r \<in> set items" "cr_reviewer_id r = Some i" "get_user i w = Some u" "u_university_id u = Some v"
    and "v \<notin> loaded_universities admin items w"
  shows "\<not> is_ok (list_catalog_reports_response page page_size status entity_type admin w)"
proof -
  let ?b = "build_catalog_report_read (loaded_universities admin items w) w"
  have bad: "\<not> is_ok (?b r)"
    using assms(3-6) by (simp add: build_catalog_report_read_def build_reviewer_summary_def)
  have "\<not> is_ok (all_ok (map ?b items))"
    by (rule all_ok_fails [OF _ bad]) (use assms(2) in simp)
  with assms(1) show ?thesis by (simp add: list_catalog_reports_response_def)
qed

end
