(* ===== verification/StaffApi.thy ===== *)
theory StaffApi
  imports AuthApi CatalogApi Moderation Catalog Tags
begin

text \<open>
  The endpoints for administrators and moderators: \<^verbatim>\<open>admin/users_api.py\<close>, \<^verbatim>\<open>admin/catalog_api.py\<close>,
  \<^verbatim>\<open>admin/backups_api.py\<close>, the guards of \<^verbatim>\<open>admin/reports_api.py\<close>, \<^verbatim>\<open>moderation/materials_api.py\<close>,
  \<^verbatim>\<open>moderation/catalog_proposals_api.py\<close> and \<^verbatim>\<open>tags/api.py\<close>. Each is a guard on the role of the
  user and a call of a service. The result is the answer, the database and the store of the
  guard. Backups act on the host, so their endpoints give the host instead of the database.
\<close>

section \<open>The guard\<close>

definition with_role ::
  "externals \<Rightarrow> 'r redis \<Rightarrow> settings \<Rightarrow> user_role list \<Rightarrow> int \<Rightarrow> string \<Rightarrow> world \<Rightarrow> 'r kv \<Rightarrow>
   (user \<Rightarrow> 'a res \<times> world) \<Rightarrow> 'a res \<times> world \<times> 'r kv"
where
  "with_role x r st roles now token w s handler =
     authenticated x r st now token w s (\<lambda>user s1.
       case require_roles roles user of
         Inl e \<Rightarrow> (Inl e, w, s1)
       | Inr u \<Rightarrow> with_store (handler u) s1)"

definition answer :: "('a \<Rightarrow> 'b) \<Rightarrow> 'a res \<times> world \<Rightarrow> 'b res \<times> world" where
  "answer f result = map_prod (map_sum id f) id result"

definition reading :: "world \<Rightarrow> 'a res \<Rightarrow> 'a res \<times> world" where
  "reading w r = (r, w)"

section \<open>Accounts\<close>

definition list_users_endpoint where
  "list_users_endpoint x r st now token q role status university_id n page_size w s =
     with_role x r st [ADMIN] now token w s (\<lambda>_.
       reading w (map_sum id (\<lambda>(items, k). \<lparr>pg_items = map user_read_of items, pg_page = n,
         pg_page_size = page_size, pg_total = k\<rparr>) (list_users x q role status university_id n page_size w)))"

definition get_user_endpoint where
  "get_user_endpoint x r st now token uid w s =
     with_role x r st [ADMIN] now token w s (\<lambda>_. answer user_read_of (reading w (require_user uid w)))"

definition update_user_endpoint where
  "update_user_endpoint x r st ids now token uid payload w s =
     with_role x r st [ADMIN] now token w s (\<lambda>admin.
       answer user_read_of (update_user ids now uid payload (Some admin) w))"

definition update_user_status_endpoint where
  "update_user_status_endpoint x r st ids now token uid is_active w s =
     with_role x r st [ADMIN] now token w s (\<lambda>admin.
       answer user_read_of (set_user_status ids now uid is_active (Some admin) w))"

definition verify_user_endpoint where
  "verify_user_endpoint x r st ids now token uid is_verified w s =
     with_role x r st [ADMIN] now token w s (\<lambda>_.
       answer user_read_of (verify_user ids now uid is_verified w))"

definition update_user_role_endpoint where
  "update_user_role_endpoint x r st ids now token uid role w s =
     with_role x r st [ADMIN] now token w s (\<lambda>admin.
       answer (\<lambda>u. (u_id u, u_role u)) (update_user_role ids now uid role (Some admin) w))"

definition assign_scope_endpoint where
  "assign_scope_endpoint x r st ids now token uid payload w s =
     with_role x r st [ADMIN] now token w s (\<lambda>_.
       answer (\<lambda>i. (''Moderator scope biriktirildi'', i)) (add_moderator_scope ids now uid payload w))"

definition list_user_scopes_endpoint where
  "list_user_scopes_endpoint x r st now token uid w s =
     with_role x r st [ADMIN] now token w s (\<lambda>_. reading w (Inr (list_moderator_scopes uid w)))"

definition delete_user_scope_endpoint where
  "delete_user_scope_endpoint x r st ids now token uid scope_id w s =
     with_role x r st [ADMIN] now token w s (\<lambda>_.
       answer (\<lambda>_. ''Moderator scope o'chirildi'') (delete_moderator_scope ids now uid scope_id w))"

definition list_all_scopes_endpoint where
  "list_all_scopes_endpoint x r st now token w s =
     with_role x r st [ADMIN] now token w s (\<lambda>_. reading w (list_all_moderator_scopes w))"

section \<open>The catalog\<close>

definition create_university_endpoint where
  "create_university_endpoint x r st i now token payload w s =
     with_role x r st [ADMIN] now token w s (\<lambda>_. create_university x i payload w)"

definition update_university_endpoint where
  "update_university_endpoint x r st now token university_id payload w s =
     with_role x r st [ADMIN] now token w s (\<lambda>_. update_university x university_id payload w)"

definition delete_university_endpoint where
  "delete_university_endpoint x r st now token university_id w s =
     with_role x r st [ADMIN] now token w s (\<lambda>_.
       answer (\<lambda>_. ''Universitet o'chirildi'') (delete_university university_id w))"

definition create_faculty_endpoint where
  "create_faculty_endpoint x r st i now token payload w s =
     with_role x r st [ADMIN] now token w s (\<lambda>_. create_faculty x i payload w)"

definition update_faculty_endpoint where
  "update_faculty_endpoint x r st now token faculty_id payload w s =
     with_role x r st [ADMIN] now token w s (\<lambda>_. update_faculty x faculty_id payload w)"

definition delete_faculty_endpoint where
  "delete_faculty_endpoint x r st now token faculty_id w s =
     with_role x r st [ADMIN] now token w s (\<lambda>_.
       answer (\<lambda>_. ''Fakultet o'chirildi'') (delete_faculty faculty_id w))"

definition create_subject_endpoint where
  "create_subject_endpoint x r st i now token payload w s =
     with_role x r st [ADMIN] now token w s (\<lambda>_. create_subject x i payload w)"

definition update_subject_endpoint where
  "update_subject_endpoint x r st now token subject_id payload w s =
     with_role x r st [ADMIN] now token w s (\<lambda>_. update_subject x subject_id payload w)"

definition delete_subject_endpoint where
  "delete_subject_endpoint x r st now token subject_id w s =
     with_role x r st [ADMIN] now token w s (\<lambda>_.
       answer (\<lambda>_. ''Fan o'chirildi'') (delete_subject subject_id w))"

section \<open>Reports\<close>

definition update_report_endpoint where
  "update_report_endpoint x r st ids now token report_id payload w s =
     with_role x r st [ADMIN] now token w s (\<lambda>_. update_report_response ids now report_id payload w)"

definition resolve_report_endpoint where
  "resolve_report_endpoint x r st ids now token report_id note w s =
     with_role x r st [ADMIN] now token w s (\<lambda>_. resolve_report_response ids now report_id note w)"

definition dismiss_report_endpoint where
  "dismiss_report_endpoint x r st ids now token report_id note w s =
     with_role x r st [ADMIN] now token w s (\<lambda>_. dismiss_report_response ids now report_id note w)"

definition resolve_catalog_report_endpoint where
  "resolve_catalog_report_endpoint x r st now token report_id note w s =
     with_role x r st [ADMIN] now token w s (\<lambda>admin.
       resolve_catalog_report_response now report_id admin note w)"

definition dismiss_catalog_report_endpoint where
  "dismiss_catalog_report_endpoint x r st now token report_id note w s =
     with_role x r st [ADMIN] now token w s (\<lambda>admin.
       dismiss_catalog_report_response now report_id admin note w)"

section \<open>Backups\<close>

definition on_host ::
  "externals \<Rightarrow> 'r redis \<Rightarrow> settings \<Rightarrow> int \<Rightarrow> string \<Rightarrow> world \<Rightarrow> 'r kv \<Rightarrow> host \<Rightarrow>
   (host \<Rightarrow> 'a res \<times> host) \<Rightarrow> 'a res \<times> host \<times> 'r kv"
where
  "on_host x r st now token w s h handler =
     (case get_current_user x r st token now w s of
        (Inl e, s1) \<Rightarrow> (Inl e, h, s1)
      | (Inr user, s1) \<Rightarrow>
          (case require_roles [ADMIN] user of
             Inl e \<Rightarrow> (Inl e, h, s1)
           | Inr _ \<Rightarrow> (fst (handler h), snd (handler h), s1)))"

definition list_backups_endpoint where
  "list_backups_endpoint x r st t now token w s h =
     on_host x r st now token w s h (\<lambda>h.
       (map_sum id (\<lambda>items. (items, int (length items))) (admin_list_backups t st h), h))"

definition get_backup_endpoint where
  "get_backup_endpoint x r st t now token backup_id w s h =
     on_host x r st now token w s h (\<lambda>h. (admin_get_backup t st backup_id h, h))"

definition create_backup_endpoint where
  "create_backup_endpoint x r st t now token w s h =
     on_host x r st now token w s h (admin_create_backup t st now)"

definition restore_backup_endpoint where
  "restore_backup_endpoint x r st t now token backup_id confirmation w s h =
     on_host x r st now token w s h (admin_restore_backup t st backup_id confirmation now)"

section \<open>Moderation of materials\<close>

definition staff :: "user_role list" where
  "staff = [MODERATOR, ADMIN]"

text \<open>\<open>build_material_read(material)\<close>, with the defaults of its other parameters.\<close>

definition plain_material_read :: "world \<Rightarrow> material \<Rightarrow> rat \<Rightarrow> int \<Rightarrow> material_read" where
  "plain_material_read w m average_rating rating_count =
     build_material_read w m average_rating rating_count
       (build_access_context ''public'' False False True None) False"

definition decided_material :: "material option res \<times> world \<Rightarrow> material_read res \<times> world" where
  "decided_material result =
     (case result of
        (Inl e, w) \<Rightarrow> fail e w
      | (Inr None, w) \<Rightarrow> fail (RuntimeError ''AttributeError'') w
      | (Inr (Some m), w) \<Rightarrow> ok (plain_material_read w m 0 0) w)"

definition pending_materials_endpoint where
  "pending_materials_endpoint x r st now token w s =
     with_role x r st staff now token w s (\<lambda>actor. reading w (Inr (
       let items = list_pending actor w in
       map (\<lambda>m. let (average_rating, rating_count) = rating_of (map m_id items) w (m_id m)
            in plain_material_read w m average_rating rating_count) items)))"

definition approve_material_endpoint where
  "approve_material_endpoint x r st ids now token material_id w s =
     with_role x r st staff now token w s (\<lambda>actor. decided_material (approve st ids now material_id actor w))"

definition reject_material_endpoint where
  "reject_material_endpoint x r st ids now token material_id reason comment w s =
     with_role x r st staff now token w s (\<lambda>actor.
       decided_material (reject st ids now material_id reason comment actor w))"

definition move_subject_endpoint where
  "move_subject_endpoint x r st ids now token material_id subject_id comment w s =
     with_role x r st staff now token w s (\<lambda>actor.
       decided_material (move_subject ids now material_id subject_id comment actor w))"

definition request_revision_endpoint where
  "request_revision_endpoint x r st ids now token material_id reason comment w s =
     with_role x r st staff now token w s (\<lambda>actor.
       decided_material (request_revision st ids now material_id reason comment actor w))"

definition moderation_history_endpoint where
  "moderation_history_endpoint x r st now token material_id w s =
     with_role x r st staff now token w s (\<lambda>actor. reading w (history material_id actor w))"

definition moderation_context_endpoint where
  "moderation_context_endpoint x r st now token material_id w s =
     with_role x r st staff now token w s (\<lambda>actor. reading w (review_context_of material_id actor w))"

section \<open>Moderation of proposals\<close>

text \<open>
  The lists load the creators without their universities, as the list of catalog reports does: a
  creator whose university the session has not loaded for the actor makes the request fail.
\<close>

definition pending_proposal_read ::
  "user \<Rightarrow> world \<Rightarrow> string \<Rightarrow> proposal \<Rightarrow> catalog_proposal_read res"
where
  "pending_proposal_read actor w proposal_type p =
     (let creator = get_user (proposal_created_by p) w in
      case Option.bind creator u_university_id of
        Some i \<Rightarrow>
          (if Some i = u_university_id actor then Inr (build_catalog_proposal_read w proposal_type creator p)
           else Inl (RuntimeError ''MissingGreenlet''))
      | None \<Rightarrow> Inr (build_catalog_proposal_read w proposal_type creator p))"

definition pending_reads ::
  "user \<Rightarrow> world \<Rightarrow> string \<Rightarrow> proposal list \<Rightarrow> catalog_proposal_read list res"
where
  "pending_reads actor w proposal_type ps = all_ok (map (pending_proposal_read actor w proposal_type) ps)"

definition pending_catalog_proposals_endpoint where
  "pending_catalog_proposals_endpoint x r st now token w s =
     with_role x r st staff now token w s (\<lambda>actor. reading w
       (case list_pending_proposals actor None w of
          Inl e \<Rightarrow> Inl e
        | Inr (us, fs, ss) \<Rightarrow>
            (case pending_reads actor w ''university'' (map UniversityProposal us) of
               Inl e \<Rightarrow> Inl e
             | Inr a \<Rightarrow>
            (case pending_reads actor w ''faculty'' (map FacultyProposal fs) of
               Inl e \<Rightarrow> Inl e
             | Inr b \<Rightarrow>
            (case pending_reads actor w ''subject'' (map SubjectProposal ss) of
               Inl e \<Rightarrow> Inl e
             | Inr c \<Rightarrow> Inr (a, b, c))))))"

definition pending_university_proposals_endpoint where
  "pending_university_proposals_endpoint x r st now token w s =
     with_role x r st [ADMIN] now token w s (\<lambda>actor. reading w
       (case list_pending_proposals actor (Some ''universities'') w of
          Inl e \<Rightarrow> Inl e
        | Inr (us, _, _) \<Rightarrow> pending_reads actor w ''university'' (map UniversityProposal us)))"

definition pending_faculty_proposals_endpoint where
  "pending_faculty_proposals_endpoint x r st now token w s =
     with_role x r st staff now token w s (\<lambda>actor. reading w
       (case list_pending_proposals actor (Some ''faculties'') w of
          Inl e \<Rightarrow> Inl e
        | Inr (_, fs, _) \<Rightarrow> pending_reads actor w ''faculty'' (map FacultyProposal fs)))"

definition pending_subject_proposals_endpoint where
  "pending_subject_proposals_endpoint x r st now token w s =
     with_role x r st staff now token w s (\<lambda>actor. reading w
       (case list_pending_proposals actor (Some ''subjects'') w of
          Inl e \<Rightarrow> Inl e
        | Inr (_, _, ss) \<Rightarrow> pending_reads actor w ''subject'' (map SubjectProposal ss)))"

text \<open>The answer to a decision; the service does not load the creator.\<close>

definition decided_proposal ::
  "string \<Rightarrow> proposal res \<times> world \<Rightarrow> catalog_proposal_read res \<times> world"
where
  "decided_proposal proposal_type result =
     (case result of
        (Inl e, w) \<Rightarrow> fail e w
      | (Inr p, w) \<Rightarrow> ok (build_catalog_proposal_read w proposal_type None p) w)"

definition approve_university_endpoint where
  "approve_university_endpoint x r st ids now token i payload w s =
     with_role x r st [ADMIN] now token w s (\<lambda>actor.
       decided_proposal ''university'' (approve_university x ids now i actor payload w))"

definition reject_university_endpoint where
  "reject_university_endpoint x r st ids now token i reason comment w s =
     with_role x r st [ADMIN] now token w s (\<lambda>actor.
       decided_proposal ''university'' (reject_university ids now i actor reason comment w))"

definition approve_faculty_endpoint where
  "approve_faculty_endpoint x r st ids now token i payload w s =
     with_role x r st staff now token w s (\<lambda>actor.
       decided_proposal ''faculty'' (approve_faculty x ids now i actor payload w))"

definition reject_faculty_endpoint where
  "reject_faculty_endpoint x r st ids now token i reason comment w s =
     with_role x r st staff now token w s (\<lambda>actor.
       decided_proposal ''faculty'' (reject_faculty ids now i actor reason comment w))"

definition approve_subject_endpoint where
  "approve_subject_endpoint x r st ids now token i payload w s =
     with_role x r st staff now token w s (\<lambda>actor.
       decided_proposal ''subject'' (approve_subject x ids now i actor payload w))"

definition reject_subject_endpoint where
  "reject_subject_endpoint x r st ids now token i reason comment w s =
     with_role x r st staff now token w s (\<lambda>actor.
       decided_proposal ''subject'' (reject_subject ids now i actor reason comment w))"

definition map_existing_endpoint where
  "map_existing_endpoint x r st ids now token proposal_type i target_id comment w s =
     with_role x r st staff now token w s (\<lambda>actor.
       if proposal_type = ''universities''
       then decided_proposal ''university'' (map_existing_university ids now i actor target_id comment w)
       else if proposal_type = ''faculties''
       then decided_proposal ''faculty'' (map_existing_faculty ids now i actor target_id comment w)
       else if proposal_type = ''subjects''
       then decided_proposal ''subject'' (map_existing_subject ids now i actor target_id comment w)
       else fail (ValidationAppError ''Unsupported proposal type'') w)"

section \<open>Tags\<close>

definition create_tag_endpoint where
  "create_tag_endpoint x r st i now token name slug w s =
     with_role x r st staff now token w s (\<lambda>_. create_tag x i name slug w)"

definition update_tag_endpoint where
  "update_tag_endpoint x r st now token tag_id name slug w s =
     with_role x r st staff now token w s (\<lambda>_. update_tag x tag_id name slug w)"

definition delete_tag_endpoint where
  "delete_tag_endpoint x r st now token tag_id w s =
     with_role x r st staff now token w s (\<lambda>_. delete_tag tag_id w)"

section \<open>All requests that change something\<close>

datatype staff_request =
    UpdateUser string "(string \<times> json) list"
  | UpdateUserStatus string bool
  | VerifyUser string bool
  | UpdateUserRole string user_role
  | AssignScope string moderator_scope_create
  | DeleteUserScope string string
  | CreateUniversity university_create
  | UpdateUniversity string university_update
  | DeleteUniversity string
  | CreateFaculty faculty_create
  | UpdateFaculty string faculty_update
  | DeleteFaculty string
  | CreateSubject subject_create
  | UpdateSubject string subject_update
  | DeleteSubject string
  | UpdateReport string "(string \<times> json) list"
  | ResolveReport string "string option"
  | DismissReport string "string option"
  | ResolveCatalogReport string "string option"
  | DismissCatalogReport string "string option"
  | ApproveMaterial string
  | RejectMaterial string reject_reason "string option"
  | MoveSubject string string "string option"
  | RequestRevision string reject_reason "string option"
  | ApproveUniversity string proposal_approval
  | RejectUniversity string string "string option"
  | ApproveFaculty string proposal_approval
  | RejectFaculty string string "string option"
  | ApproveSubject string proposal_approval
  | RejectSubject string string "string option"
  | MapExisting string string string "string option"
  | CreateTag string "string option"
  | UpdateTag string "string option" "string option"
  | DeleteTag string

definition outcome :: "'a res \<times> world \<times> 'r kv \<Rightarrow> unit res \<times> world \<times> 'r kv" where
  "outcome result = map_prod (map_sum id (\<lambda>_. ())) id result"

fun staff_endpoint ::
  "externals \<Rightarrow> 'r redis \<Rightarrow> settings \<Rightarrow> (nat \<Rightarrow> string) \<Rightarrow> int \<Rightarrow> string \<Rightarrow> staff_request \<Rightarrow> world \<Rightarrow> 'r kv \<Rightarrow>
   unit res \<times> world \<times> 'r kv"
where
  "staff_endpoint x r st ids now k (UpdateUser i p) w s = outcome (update_user_endpoint x r st ids now k i p w s)"
| "staff_endpoint x r st ids now k (UpdateUserStatus i b) w s =
     outcome (update_user_status_endpoint x r st ids now k i b w s)"
| "staff_endpoint x r st ids now k (VerifyUser i b) w s = outcome (verify_user_endpoint x r st ids now k i b w s)"
| "staff_endpoint x r st ids now k (UpdateUserRole i ro) w s =
     outcome (update_user_role_endpoint x r st ids now k i ro w s)"
| "staff_endpoint x r st ids now k (AssignScope i p) w s = outcome (assign_scope_endpoint x r st ids now k i p w s)"
| "staff_endpoint x r st ids now k (DeleteUserScope i j) w s =
     outcome (delete_user_scope_endpoint x r st ids now k i j w s)"
| "staff_endpoint x r st ids now k (CreateUniversity p) w s =
     outcome (create_university_endpoint x r st (ids 0) now k p w s)"
| "staff_endpoint x r st ids now k (UpdateUniversity i p) w s =
     outcome (update_university_endpoint x r st now k i p w s)"
| "staff_endpoint x r st ids now k (DeleteUniversity i) w s = outcome (delete_university_endpoint x r st now k i w s)"
| "staff_endpoint x r st ids now k (CreateFaculty p) w s =
     outcome (create_faculty_endpoint x r st (ids 0) now k p w s)"
| "staff_endpoint x r st ids now k (UpdateFaculty i p) w s = outcome (update_faculty_endpoint x r st now k i p w s)"
| "staff_endpoint x r st ids now k (DeleteFaculty i) w s = outcome (delete_faculty_endpoint x r st now k i w s)"
| "staff_endpoint x r st ids now k (CreateSubject p) w s =
     outcome (create_subject_endpoint x r st (ids 0) now k p w s)"
| "staff_endpoint x r st ids now k (UpdateSubject i p) w s = outcome (update_subject_endpoint x r st now k i p w s)"
| "staff_endpoint x r st ids now k (DeleteSubject i) w s = outcome (delete_subject_endpoint x r st now k i w s)"
| "staff_endpoint x r st ids now k (UpdateReport i p) w s =
     outcome (update_report_endpoint x r st ids now k i p w s)"
| "staff_endpoint x r st ids now k (ResolveReport i n) w s =
     outcome (resolve_report_endpoint x r st ids now k i n w s)"
| "staff_endpoint x r st ids now k (DismissReport i n) w s =
     outcome (dismiss_report_endpoint x r st ids now k i n w s)"
| "staff_endpoint x r st ids now k (ResolveCatalogReport i n) w s =
     outcome (resolve_catalog_report_endpoint x r st now k i n w s)"
| "staff_endpoint x r st ids now k (DismissCatalogReport i n) w s =
     outcome (dismiss_catalog_report_endpoint x r st now k i n w s)"
| "staff_endpoint x r st ids now k (ApproveMaterial i) w s =
     outcome (approve_material_endpoint x r st ids now k i w s)"
| "staff_endpoint x r st ids now k (RejectMaterial i e n) w s =
     outcome (reject_material_endpoint x r st ids now k i e n w s)"
| "staff_endpoint x r st ids now k (MoveSubject i j n) w s =
     outcome (move_subject_endpoint x r st ids now k i j n w s)"
| "staff_endpoint x r st ids now k (RequestRevision i e n) w s =
     outcome (request_revision_endpoint x r st ids now k i e n w s)"
| "staff_endpoint x r st ids now k (ApproveUniversity i p) w s =
     outcome (approve_university_endpoint x r st ids now k i p w s)"
| "staff_endpoint x r st ids now k (RejectUniversity i e n) w s =
     outcome (reject_university_endpoint x r st ids now k i e n w s)"
| "staff_endpoint x r st ids now k (ApproveFaculty i p) w s =
     outcome (approve_faculty_endpoint x r st ids now k i p w s)"
| "staff_endpoint x r st ids now k (RejectFaculty i e n) w s =
     outcome (reject_faculty_endpoint x r st ids now k i e n w s)"
| "staff_endpoint x r st ids now k (ApproveSubject i p) w s =
     outcome (approve_subject_endpoint x r st ids now k i p w s)"
| "staff_endpoint x r st ids now k (RejectSubject i e n) w s =
     outcome (reject_subject_endpoint x r st ids now k i e n w s)"
| "staff_endpoint x r st ids now k (MapExisting t i j n) w s =
     outcome (map_existing_endpoint x r st ids now k t i j n w s)"
| "staff_endpoint x r st ids now k (CreateTag n g) w s = outcome (create_tag_endpoint x r st (ids 0) now k n g w s)"
| "staff_endpoint x r st ids now k (UpdateTag i n g) w s = outcome (update_tag_endpoint x r st now k i n g w s)"
| "staff_endpoint x r st ids now k (DeleteTag i) w s = outcome (delete_tag_endpoint x r st now k i w s)"

end
