(* ===== verification/StaffFacts.thy ===== *)
theory StaffFacts
  imports StaffApi CatalogFacts
begin

text \<open>
  Who may do what: a request that changes anything was sent by an active user of the staff, and
  what a moderator sends never changes accounts, roles, scopes, universities or reports.
\<close>

section \<open>The guard\<close>

lemma get_current_user_accepts:
  assumes "get_current_user x r st token now w s = (Inr user, s')"
  shows "get_user (u_id user) w = Some user \<and> u_is_active user"
  using assms get_user_id
  by (auto simp: get_current_user_def split: sum.splits option.splits prod.splits if_splits)

lemma with_role_effect:
  assumes "with_role x r st roles now token w s h = (res, w', s')" "w' \<noteq> w"
  obtains user where "fst (get_current_user x r st token now w s) = Inr user" "u_role user \<in> set roles"
    "w' = snd (h user)"
  using assms
  by (auto simp: with_role_def authenticated_def require_roles_def with_store_def
      split: prod.splits sum.splits if_splits)

lemma outcome_world [simp]: "fst (snd (outcome result)) = fst (snd result)"
  by (simp add: outcome_def)

lemma answer_world [simp]: "snd (answer f result) = snd result"
  by (simp add: answer_def)

lemma reading_world [simp]: "snd (reading w r) = w"
  by (simp add: reading_def)

section \<open>What only administrators change\<close>

definition privileged where
  "privileged w = (db_users w, db_moderator_university_scopes w, db_moderator_faculty_scopes w,
     db_moderator_subject_scopes w, db_universities w, db_material_reports w, db_catalog_reports w)"

lemma privileged_only_events: "only_events w w' \<Longrightarrow> privileged w' = privileged w"
  by (auto simp: only_events_def privileged_def)

lemma material_event_only: "only_events w (snd (enqueue_material_owner_event st i now ty m actor reason note w))"
proof (cases "get_user (m_uploaded_by m) w")
  case None
  then show ?thesis by (simp add: enqueue_material_owner_event_def)
next
  case (Some owner)
  have step: "only_events w (snd (case create_event i now ty a b owner p c w of
      (Inl e, w') \<Rightarrow> fail e w' | (Inr e, w') \<Rightarrow> ok [e] w'))" for a b p c
    using create_event_only [of w i now ty a b owner p c] by (auto split: prod.splits sum.splits)
  with Some show ?thesis
    by (auto simp: enqueue_material_owner_event_def Let_def split: prod.splits sum.splits)
qed


lemma decided_world [simp]:
  "snd (decided_material md) = snd md" "snd (decided_proposal ty pd) = snd pd"
  by (auto simp: decided_material_def decided_proposal_def split: prod.splits sum.splits option.splits)

lemma privileged_frames [simp]:
  "privileged (save_material now m w) = privileged w"
  "privileged (log_review i now mid a uid n re w) = privileged w"
  "privileged (audit i now ac en us eid d w) = privileged w"
  "privileged (invalidate_material_caches w) = privileged w"
  "privileged (log_proposal i et pid ac uid n w) = privileged w"
  "privileged (store_proposal p w) = privileged w"
  by (cases p; auto simp: privileged_def save_material_def log_review_def audit_def invalidate_material_caches_def
      log_proposal_def cache_do_def)+

lemma finish_privileged [simp]: "privileged (snd (finish mid w)) = privileged w"
  by (simp add: finish_def Let_def)

lemma material_event_privileged:
  "enqueue_material_owner_event st i now ty m actor reason note w = (r, w') \<Longrightarrow> privileged w' = privileged w"
  by (metis material_event_only privileged_only_events snd_conv)

lemma moderation_privileged:
  "privileged (snd (approve st ids now mid actor w)) = privileged w"
  "privileged (snd (reject st ids now mid reason note actor w)) = privileged w"
  "privileged (snd (request_revision st ids now mid reason note actor w)) = privileged w"
  "privileged (snd (move_subject ids now mid sid note actor w)) = privileged w"
  by (auto simp: approve_def reject_def request_revision_def move_subject_def Let_def
      dest: material_event_privileged split: prod.splits sum.splits)

lemma settle_privileged:
  assumes "privileged w = privileged w0"
  shows "privileged (snd (settle ids now p et action pt ev actor note w0 w)) = privileged w0"
proof -
  obtain r w' where s: "settle ids now p et action pt ev actor note w0 w = (r, w')" by fastforce
  then show ?thesis
  proof (cases rule: settle_cases)
    case (settled ls)
    then have "privileged w' = privileged (w\<lparr>db_catalog_proposal_logs := ls\<rparr>)"
      by (simp add: privileged_only_events)
    then show ?thesis using s assms by (simp add: privileged_def)
  qed (use s in simp)
qed


lemma insert_privileged:
  "insert_faculty f w = Inr w' \<Longrightarrow> privileged w' = privileged w"
  "insert_subject b w = Inr w'' \<Longrightarrow> privileged w'' = privileged w"
  by (auto simp: insert_faculty_def insert_subject_def privileged_def split: if_splits)

lemma decisions_privileged:
  "privileged (snd (approve_faculty x ids now i actor payload w)) = privileged w"
  "privileged (snd (approve_subject x ids now i actor payload w)) = privileged w"
  "privileged (snd (map_existing_faculty ids now i actor target note w)) = privileged w"
  "privileged (snd (map_existing_subject ids now i actor target note w)) = privileged w"
  by (auto simp: approve_faculty_def approve_subject_def map_existing_faculty_def map_existing_subject_def
      Let_def simp del: store_proposal.simps reviewed.simps approved_as.simps
      intro!: settle_privileged dest: insert_privileged split: sum.split option.split)

lemma rejections_privileged:
  "privileged (snd (reject_faculty ids now i actor reason note w)) = privileged w"
  "privileged (snd (reject_subject ids now i actor reason note w)) = privileged w"
  by (auto simp: reject_faculty_def reject_subject_def reject_proposal_def Let_def
      simp del: store_proposal.simps reviewed.simps intro!: settle_privileged split: sum.split option.split)

lemma university_decision_privileged:
  assumes "u_role actor \<noteq> ADMIN"
  shows "snd (map_existing_university ids now i actor target note w) = w"
  using assms by (cases "u_role actor") (simp_all add: map_existing_university_def require_admin_def)

lemma tag_requests_privileged:
  "privileged (snd (create_tag x i n g w)) = privileged w"
  "privileged (snd (update_tag x ti nn gg w)) = privileged w"
  "privileged (snd (delete_tag ti w)) = privileged w"
  by (auto simp: create_tag_def update_tag_def delete_tag_def privileged_def Let_def split: sum.split)

lemmas moderator_frames = moderation_privileged decisions_privileged rejections_privileged tag_requests_privileged

text \<open>What the guard makes of any handler.\<close>

definition lawful_change ::
  "externals \<Rightarrow> 'r redis \<Rightarrow> settings \<Rightarrow> int \<Rightarrow> string \<Rightarrow> world \<Rightarrow> 'r kv \<Rightarrow> world \<Rightarrow> bool"
where
  "lawful_change x r st now token w s w' \<longleftrightarrow> w' \<noteq> w \<longrightarrow>
     (\<exists>user. fst (get_current_user x r st token now w s) = Inr user \<and>
       get_user (u_id user) w = Some user \<and> u_is_active user \<and> u_role user \<in> {MODERATOR, ADMIN} \<and>
       (u_role user = MODERATOR \<longrightarrow> privileged w' = privileged w))"

lemma with_role_lawful:
  assumes "set roles \<subseteq> {MODERATOR, ADMIN}"
    and "\<And>u. MODERATOR \<in> set roles \<Longrightarrow> u_role u = MODERATOR \<Longrightarrow> privileged (snd (h u)) = privileged w"
  shows "lawful_change x r st now token w s (fst (snd (with_role x r st roles now token w s h)))"
proof -
  obtain res w' s' where z: "with_role x r st roles now token w s h = (res, w', s')" using prod_cases3 by blast
  have "lawful_change x r st now token w s w'"
    unfolding lawful_change_def
  proof
    assume "w' \<noteq> w"
    with z obtain user where user: "fst (get_current_user x r st token now w s) = Inr user"
      "u_role user \<in> set roles" "w' = snd (h user)"
      by (rule with_role_effect)
    then have "get_user (u_id user) w = Some user \<and> u_is_active user"
      by (metis get_current_user_accepts prod.collapse)
    with user assms show "\<exists>user. fst (get_current_user x r st token now w s) = Inr user \<and>
        get_user (u_id user) w = Some user \<and> u_is_active user \<and> u_role user \<in> {MODERATOR, ADMIN} \<and>
        (u_role user = MODERATOR \<longrightarrow> privileged w' = privileged w)"
      by auto
  qed
  with z show ?thesis by simp
qed

lemma admin_lawful:
  "lawful_change x r st now token w s (fst (snd (with_role x r st [ADMIN] now token w s h)))"
  by (rule with_role_lawful) simp_all

lemma staff_lawful:
  assumes "\<And>u. u_role u = MODERATOR \<Longrightarrow> privileged (snd (h u)) = privileged w"
  shows "lawful_change x r st now token w s (fst (snd (with_role x r st staff now token w s h)))"
  by (rule with_role_lawful) (use assms in \<open>simp_all add: staff_def\<close>)

lemmas admin_endpoints =
  update_user_endpoint_def update_user_status_endpoint_def verify_user_endpoint_def
  update_user_role_endpoint_def assign_scope_endpoint_def delete_user_scope_endpoint_def
  create_university_endpoint_def update_university_endpoint_def delete_university_endpoint_def
  create_faculty_endpoint_def update_faculty_endpoint_def delete_faculty_endpoint_def
  create_subject_endpoint_def update_subject_endpoint_def delete_subject_endpoint_def
  update_report_endpoint_def resolve_report_endpoint_def dismiss_report_endpoint_def
  resolve_catalog_report_endpoint_def dismiss_catalog_report_endpoint_def
  approve_university_endpoint_def reject_university_endpoint_def

lemmas staff_endpoints =
  approve_material_endpoint_def reject_material_endpoint_def move_subject_endpoint_def
  request_revision_endpoint_def approve_faculty_endpoint_def reject_faculty_endpoint_def
  approve_subject_endpoint_def reject_subject_endpoint_def map_existing_endpoint_def
  create_tag_endpoint_def update_tag_endpoint_def delete_tag_endpoint_def

lemma staff_endpoint_lawful:
  "lawful_change x r st now token w s (fst (snd (staff_endpoint x r st ids now token req w s)))"
proof (cases req)
  case (MapExisting ty i j n)
  then show ?thesis
    by (simp add: staff_endpoints) (intro staff_lawful, auto simp: moderator_frames university_decision_privileged)
qed (simp_all add: admin_endpoints admin_lawful staff_endpoints staff_lawful moderator_frames)



section \<open>The lists of pending proposals\<close>

text \<open>
  A proposal of somebody from another university makes the whole list fail; when all creators
  are without a university or from the one of the actor, the list shows every proposal.
\<close>

lemma foreign_creator_breaks_list:
  assumes "p \<in> set ps" "get_user (proposal_created_by p) w = Some u" "u_university_id u = Some i"
    and "u_university_id actor \<noteq> Some i"
  shows "\<not> is_ok (pending_reads actor w proposal_type ps)"
proof -
  have "\<not> is_ok (pending_proposal_read actor w proposal_type p)"
    using assms(2-4) by (auto simp: pending_proposal_read_def Let_def)
  then show ?thesis
    using assms(1) unfolding pending_reads_def
    by (intro all_ok_fails [where r = "pending_proposal_read actor w proposal_type p"]) simp_all
qed

lemma own_creators_listed:
  assumes "\<And>p u. p \<in> set ps \<Longrightarrow> get_user (proposal_created_by p) w = Some u \<Longrightarrow>
    u_university_id u \<in> {None, u_university_id actor}"
  shows "pending_reads actor w proposal_type ps =
    Inr (map (\<lambda>p. build_catalog_proposal_read w proposal_type (get_user (proposal_created_by p) w) p) ps)"
proof -
  let ?f = "\<lambda>p. build_catalog_proposal_read w proposal_type (get_user (proposal_created_by p) w) p"
  have "pending_proposal_read actor w proposal_type p = Inr (?f p)" if "p \<in> set ps" for p
    using assms [OF that]
    by (cases "get_user (proposal_created_by p) w") (auto simp: pending_proposal_read_def Let_def split: option.splits)
  then have "map (pending_proposal_read actor w proposal_type) ps = map Inr (map ?f ps)" by simp
  then show ?thesis by (simp only: pending_reads_def all_ok_Inr)
qed

section \<open>A concrete request\<close>

definition tag_moderator :: user where
  "tag_moderator = sample_user\<lparr>u_role := MODERATOR\<rparr>"

definition moderated_tags :: world where
  "moderated_tags = empty_world\<lparr>db_users := [tag_moderator],
     db_tags := [\<lparr>t_id = ''t1'', t_name = ''algebra'', t_slug = ''algebra''\<rparr>]\<rparr>"

lemma moderated_tags_user:
  "fst (get_current_user X R S (create_access_token X S ''j'' 0 ''u1'' ''moderator'') 0 moderated_tags fresh_store) =
    Inr tag_moderator"
proof -
  let ?c = "claims_of (access_payload S ''j'' 0 ''u1'' ''moderator'')"
  have claims: "c_jti ?c = Some ''j''" "c_sub ?c = Some ''u1''" "c_type ?c = Some ''access''" by simp_all
  have "fst (ensure_not_revoked R S ?c 0 fresh_store) = Inr ()"
    by (simp add: ensure_not_revoked_verdict [OF fresh_stores(1) default_switches(2) claims(1) _ claims(2)]
        fresh_stores(3))
  then show ?thesis
    by (cases "ensure_not_revoked R S ?c 0 fresh_store")
      (simp add: get_current_user_def decode_access_token [OF reference_laws(1)] moderated_tags_def
        tag_moderator_def get_user_def)
qed

lemma moderated_tags_changed:
  "fst (snd (staff_endpoint X R S ids 0 (create_access_token X S ''j'' 0 ''u1'' ''moderator'') (DeleteTag ''t1'')
     moderated_tags fresh_store)) \<noteq> moderated_tags"
proof -
  let ?k = "create_access_token X S ''j'' 0 ''u1'' ''moderator''"
  obtain s1 where g: "get_current_user X R S ?k 0 moderated_tags fresh_store = (Inr tag_moderator, s1)"
    using moderated_tags_user by (metis prod.collapse)
  have "db_tags (snd (delete_tag ''t1'' moderated_tags)) = []"
    by (simp add: delete_tag_def get_tag_def moderated_tags_def delete_where_def)
  moreover have "db_tags moderated_tags \<noteq> []" by (simp add: moderated_tags_def)
  ultimately show ?thesis
    using g by (auto simp: delete_tag_endpoint_def with_role_def authenticated_def require_roles_def staff_def
        with_store_def tag_moderator_def)
qed


end
