(* ===== verification/ResponseFacts.thy ===== *)
theory ResponseFacts
  imports Responses MaterialFacts CatalogRuns
begin

text \<open>
  What the answers about materials promise: the pages of the public list together show every
  approved material that meets the query and nothing else, and none of them tells where the files
  are stored. Also the access that the answers to an author announce.
\<close>

section \<open>Paging\<close>

lemma concat_pages:
  "concat (map (\<lambda>k. take p (drop (k * p) xs)) [0..<n]) = take (n * p) xs"
proof (induction n)
  case (Suc n)
  have "take (n * p + p) xs = take (n * p) xs @ take p (drop (n * p) xs)" by (rule take_add)
  then show ?case using Suc by (simp add: add.commute)
qed simp

lemma paginate_nat: "1 \<le> p \<Longrightarrow> paginate (int k + 1) p rows = take (nat p) (drop (k * nat p) rows)"
  by (simp add: paginate_def nat_mult_distrib)

lemma concat_paginate:
  assumes "1 \<le> p" "int (length rows) \<le> int n * p"
  shows "concat (map (\<lambda>k. paginate (int k + 1) p rows) [0..<n]) = rows"
proof -
  have "int (length rows) \<le> int (n * nat p)" using assms by simp
  then have "length rows \<le> n * nat p" by (simp only: of_nat_le_iff)
  with assms(1) show ?thesis by (simp add: paginate_nat concat_pages)
qed

lemma mset_order_by_desc [simp]: "mset (order_by_desc k rows) = mset rows"
  by (simp add: order_by_desc_def)

lemma mset_sort_materials [simp]: "mset (sort_materials srt w ms) = mset ms"
  by (simp add: sort_materials_def)

lemma matches_query_approved:
  "matches_query x (q\<lparr>lq_page := k, lq_status := Some s\<rparr>) w =
   (\<lambda>m. m_status m = s \<and> matches_query x (q\<lparr>lq_status := None\<rparr>) w m)"
  by (rule ext) (auto simp: matches_query_def)

section \<open>The list\<close>

definition listed_publicly :: "externals \<Rightarrow> material_list_query \<Rightarrow> world \<Rightarrow> material list" where
  "listed_publicly x q w =
     filter (\<lambda>m. m_status m = APPROVED \<and> matches_query x (q\<lparr>lq_status := None\<rparr>) w m)
       (build_filtered_query w)"

definition hides_storage :: "material_read \<Rightarrow> bool" where
  "hides_storage r =
     list_all (\<lambda>f. fo_storage_key f = None \<and> fo_preview_storage_key f = None \<and>
                   fo_checksum_hash f = None) (mo_files r)"

definition valid_list_query :: "material_list_query \<Rightarrow> bool" where
  "valid_list_query q \<longleftrightarrow>
     in_range 1 14 (lq_semester q) \<and> in_range 1 14 (lq_course q) \<and>
     (case lq_download_count_gte q of None \<Rightarrow> True | Some n \<Rightarrow> 0 \<le> n) \<and>
     1 \<le> lq_page_size q \<and> lq_page_size q \<le> 100"

lemma serialize_materials_ids [simp]: "map mo_id (serialize_materials w ms u) = map m_id ms"
  by (simp add: serialize_materials_def build_material_read_def Let_def comp_def split: prod.splits)

lemma serialize_materials_safe:
  assumes "r \<in> set (serialize_materials w ms u)"
  shows "hides_storage r \<and> (\<exists>m \<in> set ms. mo_id r = m_id m \<and> mo_status r = m_status m)"
  using assms
  by (auto simp: serialize_materials_def build_material_read_def Let_def hides_storage_def
        build_material_file_read_def list_all_iff split: prod.splits)

lemma list_materials_page:
  assumes "valid_list_query q"
  shows "list_materials x None (q\<lparr>lq_page := int k + 1\<rparr>) w =
    Inr \<lparr>pg_items = serialize_materials w
            (paginate (int k + 1) (lq_page_size q)
               (sort_materials (lq_sort q) w (listed_publicly x q w))) None,
         pg_page = int k + 1, pg_page_size = lq_page_size q,
         pg_total = int (length (listed_publicly x q w))\<rparr>"
proof -
  have "build_list_query None (q\<lparr>lq_page := int k + 1\<rparr>) = Inr (q\<lparr>lq_page := int k + 1, lq_status := None\<rparr>)"
    using assms by (simp add: build_list_query_def valid_list_query_def)
  moreover have "apply_filters x (q\<lparr>lq_page := int k + 1, lq_status := Some APPROVED\<rparr>) w
      (build_filtered_query w) = sort_materials (lq_sort q) w (listed_publicly x q w)"
    by (simp add: apply_filters_def listed_publicly_def matches_query_approved)
  moreover have "length (sort_materials (lq_sort q) w (listed_publicly x q w)) = length (listed_publicly x q w)"
    by (rule mset_eq_length) simp
  ultimately show ?thesis by (simp add: list_materials_def list_public_def list_filtered_def)
qed


text \<open>
  Two approved materials, one draft, pages of one: two pages show the two.
\<close>

definition shelf :: world where
  "shelf = sample_library\<lparr>db_materials :=
     [sample_material\<lparr>m_status := APPROVED\<rparr>, sample_material\<lparr>m_id := ''m2''\<rparr>,
      sample_material\<lparr>m_id := ''m3'', m_status := APPROVED, m_created_at := 7\<rparr>]\<rparr>"

lemma shelf_listed:
  "map m_id (listed_publicly x default_query shelf) = [''m1'', ''m3'']"
  by (simp add: listed_publicly_def shelf_def build_filtered_query_def material_place_def
        sample_library_def sample_material_def new_material_def get_subject_def get_faculty_def
        get_university_def sample_subject_def sample_faculty_def sample_university_def
        matches_query_def default_query_def set_and_nonzero_def set_and_true_def)


section \<open>What an author is told\<close>

text \<open>
  The answers to creating, updating, submitting and withdrawing are built without the user, so that
  they tell the owner that the access to the unpublished material is restricted, although the same
  owner may open and download it.
\<close>

lemma anonymous_answer_says_restricted:
  assumes "m_status m \<noteq> APPROVED" "material_response None (Inr (Some m), w) = (Inr r, w')"
  shows "ac_access_level (mo_access r) = ''restricted'' \<and> \<not> ac_can_download (mo_access r)"
  using assms
  by (auto simp: material_response_def serialize_materials_def build_material_read_def
        get_material_access_context_def build_access_context_def Let_def split: prod.splits)

lemma owner_answer_says_owner:
  assumes "m_status m \<noteq> APPROVED" "\<not> is_staff u" "m_uploaded_by m = u_id u"
    and "material_response (Some u) (Inr (Some m), w) = (Inr r, w')"
  shows "ac_access_level (mo_access r) = ''owner'' \<and> ac_can_download (mo_access r)"
  using assms
  by (auto simp: material_response_def serialize_materials_def build_material_read_def
        get_material_access_context_def build_access_context_def Let_def split: prod.splits)

end
