(* ===== verification/Cache.thy ===== *)
theory Cache
  imports Lifecycle Admin
begin

text \<open>
  \<^verbatim>\<open>app/core/cache.py\<close>: the cache of answers with its two backends, and how the services use it.
  The other theories record the calls of the cache in the world; here they reach a backend.
  The Redis client is a parameter, a record of the commands the code sends; a value stands for
  its JSON text. The locale \<open>answer_cache\<close> states what a cache has to promise, which both backends
  keep, and the last section composes it with the services: nobody can tell that the statistics
  and the trending list are cached.
\<close>

section \<open>Backends\<close>

datatype 'r connection = Connected 'r | Unreachable | BadAddress

record 'r cache_redis =
  cr_connect :: "string \<Rightarrow> 'r connection"
  cr_get :: "string \<Rightarrow> int \<Rightarrow> 'r \<Rightarrow> json option res"
  cr_set :: "string \<Rightarrow> json \<Rightarrow> int \<Rightarrow> int \<Rightarrow> 'r \<Rightarrow> unit res \<times> 'r"
  cr_delete :: "string \<Rightarrow> int \<Rightarrow> 'r \<Rightarrow> unit res \<times> 'r"
  cr_scan :: "string \<Rightarrow> int \<Rightarrow> 'r \<Rightarrow> string list res"

datatype 'r cache_backend = NullCacheBackend | RedisCacheBackend "'r option"

record 'r cache_service =
  cs_backend :: "'r cache_backend"
  cs_is_redis_enabled :: bool

definition new_cache_service :: "'r cache_service" where
  "new_cache_service = \<lparr>cs_backend = NullCacheBackend, cs_is_redis_enabled = False\<rparr>"

text \<open>\<open>from_url\<close> raises ValueError for an address it cannot read, which is not caught.\<close>

definition cache_initialize ::
  "'r cache_redis \<Rightarrow> string option \<Rightarrow> 'r cache_service \<Rightarrow> unit res \<times> 'r cache_service"
where
  "cache_initialize r address s =
     (if \<not> truthy address then ok () \<lparr>cs_backend = NullCacheBackend, cs_is_redis_enabled = False\<rparr>
      else
        (case cr_connect r (the address) of
           BadAddress \<Rightarrow> fail (ValueError ''Redis URL'') s
         | Unreachable \<Rightarrow> ok () \<lparr>cs_backend = NullCacheBackend, cs_is_redis_enabled = False\<rparr>
         | Connected c \<Rightarrow> ok () \<lparr>cs_backend = RedisCacheBackend (Some c), cs_is_redis_enabled = True\<rparr>))"

definition cache_close :: "'r cache_service \<Rightarrow> 'r cache_service" where
  "cache_close s =
     (case cs_backend s of
        RedisCacheBackend _ \<Rightarrow> s\<lparr>cs_backend := RedisCacheBackend None\<rparr>
      | NullCacheBackend \<Rightarrow> s)"

definition cache_get ::
  "'r cache_redis \<Rightarrow> string \<Rightarrow> int \<Rightarrow> 'r cache_service \<Rightarrow> json option res"
where
  "cache_get r key now s =
     (case cs_backend s of
        RedisCacheBackend (Some c) \<Rightarrow> cr_get r key now c
      | _ \<Rightarrow> Inr None)"

definition on_client ::
  "('r \<Rightarrow> unit res \<times> 'r) \<Rightarrow> 'r cache_service \<Rightarrow> unit res \<times> 'r cache_service"
where
  "on_client f s =
     (case cs_backend s of
        RedisCacheBackend (Some c) \<Rightarrow>
          (let (res, c') = f c in (res, s\<lparr>cs_backend := RedisCacheBackend (Some c')\<rparr>))
      | _ \<Rightarrow> ok () s)"

definition cache_set ::
  "'r cache_redis \<Rightarrow> string \<Rightarrow> json \<Rightarrow> int \<Rightarrow> int \<Rightarrow> 'r cache_service \<Rightarrow> unit res \<times> 'r cache_service"
where
  "cache_set r key value ttl_seconds now s = on_client (cr_set r key value ttl_seconds now) s"

definition cache_invalidate ::
  "'r cache_redis \<Rightarrow> string \<Rightarrow> int \<Rightarrow> 'r cache_service \<Rightarrow> unit res \<times> 'r cache_service"
where
  "cache_invalidate r key now s = on_client (cr_delete r key now) s"

fun delete_scanned :: "'r cache_redis \<Rightarrow> string list \<Rightarrow> int \<Rightarrow> 'r \<Rightarrow> unit res \<times> 'r" where
  "delete_scanned r [] now c = ok () c"
| "delete_scanned r (key # keys) now c =
     (case cr_delete r key now c of
        (Inl e, c1) \<Rightarrow> fail e c1
      | (Inr _, c1) \<Rightarrow> delete_scanned r keys now c1)"

definition cache_invalidate_prefix ::
  "'r cache_redis \<Rightarrow> string \<Rightarrow> int \<Rightarrow> 'r cache_service \<Rightarrow> unit res \<times> 'r cache_service"
where
  "cache_invalidate_prefix r pre now s =
     on_client (\<lambda>c. case cr_scan r pre now c of
                       Inl e \<Rightarrow> fail e c
                     | Inr keys \<Rightarrow> delete_scanned r keys now c) s"

section \<open>The calls of a request\<close>

definition perform ::
  "'r cache_redis \<Rightarrow> cache_call \<Rightarrow> int \<Rightarrow> 'r cache_service \<Rightarrow> unit res \<times> 'r cache_service"
where
  "perform r call now s =
     (case call of
        CacheInvalidate key \<Rightarrow> cache_invalidate r key now s
      | CacheInvalidatePrefix pre \<Rightarrow> cache_invalidate_prefix r pre now s
      | CacheSet key value ttl_seconds \<Rightarrow> cache_set r key value ttl_seconds now s)"

text \<open>The calls in order; the first that raises ends the request.\<close>

fun perform_all ::
  "'r cache_redis \<Rightarrow> cache_call list \<Rightarrow> int \<Rightarrow> 'r cache_service \<Rightarrow> unit res \<times> 'r cache_service"
where
  "perform_all r [] now s = ok () s"
| "perform_all r (call # calls) now s =
     (case perform r call now s of
        (Inl e, s1) \<Rightarrow> fail e s1
      | (Inr _, s1) \<Rightarrow> perform_all r calls now s1)"

text \<open>What a request that goes from \<open>w\<close> to \<open>w'\<close> does to the cache.\<close>

definition calls_between :: "world \<Rightarrow> world \<Rightarrow> cache_call list" where
  "calls_between w w' = drop (length (cache_log w)) (cache_log w')"

definition with_cache ::
  "'r cache_redis \<Rightarrow> int \<Rightarrow> world \<Rightarrow> 'r cache_service \<Rightarrow> 'a \<times> world \<Rightarrow> 'a res \<times> world \<times> 'r cache_service"
where
  "with_cache r now w s result =
     (case perform_all r (calls_between w (snd result)) now s of
        (Inl e, s1) \<Rightarrow> (Inl e, snd result, s1)
      | (Inr _, s1) \<Rightarrow> (Inr (fst result), snd result, s1))"

definition stats_request ::
  "'r cache_redis \<Rightarrow> settings \<Rightarrow> int \<Rightarrow> world \<Rightarrow> 'r cache_service \<Rightarrow> json res \<times> world \<times> 'r cache_service"
where
  "stats_request r st now w s =
     (case cache_get r ''materials:stats_summary'' now s of
        Inl e \<Rightarrow> (Inl e, w, s)
      | Inr cached \<Rightarrow> with_cache r now w s (stats_summary st cached w))"

text \<open>The cached value is the list of identifiers that \<open>list_trending\<close> stored.\<close>

fun text_of :: "json \<Rightarrow> string" where
  "text_of (JStr s) = s"
| "text_of _ = []"

definition cached_ids_of :: "json option \<Rightarrow> string list option" where
  "cached_ids_of v = (case v of Some (JList js) \<Rightarrow> Some (map text_of js) | _ \<Rightarrow> None)"

definition trending_request ::
  "'r cache_redis \<Rightarrow> settings \<Rightarrow> int \<Rightarrow> world \<Rightarrow> 'r cache_service \<Rightarrow>
   material list res \<times> world \<times> 'r cache_service"
where
  "trending_request r st now w s =
     (case cache_get r ''materials:trending_ids'' now s of
        Inl e \<Rightarrow> (Inl e, w, s)
      | Inr cached \<Rightarrow> with_cache r now w s (list_trending st (cached_ids_of cached) w))"

definition dashboard_request ::
  "'r cache_redis \<Rightarrow> int \<Rightarrow> world \<Rightarrow> 'r cache_service \<Rightarrow> json res \<times> world \<times> 'r cache_service"
where
  "dashboard_request r now w s =
     (case cache_get r ''admin:dashboard_summary'' now s of
        Inl e \<Rightarrow> (Inl e, w, s)
      | Inr cached \<Rightarrow> with_cache r now w s (dashboard_summary cached w))"

section \<open>The contract of a cache\<close>

text \<open>
  A cache may forget, but it never makes a value up: what is found was the last value put under
  the key and not invalidated since, and it is found no longer than its time to live.
\<close>

locale answer_cache =
  fixes usable :: "'s \<Rightarrow> bool"
    and found :: "string \<Rightarrow> int \<Rightarrow> 's \<Rightarrow> json option"
    and call :: "cache_call \<Rightarrow> int \<Rightarrow> 's \<Rightarrow> 's"
  assumes usable_call: "usable s \<Longrightarrow> usable (call c t s)"
    and found_set: "usable s \<Longrightarrow> 1 \<le> n \<Longrightarrow> t \<le> t' \<Longrightarrow> found k' t' (call (CacheSet k v n) t s) = Some x \<Longrightarrow>
      (if k' = k then x = v \<and> t' < t + seconds n else found k' t' s = Some x)"
    and found_invalidate: "usable s \<Longrightarrow> t \<le> t' \<Longrightarrow> found k' t' (call (CacheInvalidate k) t s) = Some x \<Longrightarrow>
      k' \<noteq> k \<and> found k' t' s = Some x"
    and found_invalidate_prefix: "usable s \<Longrightarrow> t \<le> t' \<Longrightarrow>
      found k' t' (call (CacheInvalidatePrefix p) t s) = Some x \<Longrightarrow>
      found k' t' s = Some x \<and> (p = ''admin:dashboard_'' \<longrightarrow> \<not> startswith k' p)"
begin

text \<open>From moment \<open>t\<close> on nothing but \<open>v\<close> is found under \<open>k\<close>.\<close>

definition only :: "string \<Rightarrow> json \<Rightarrow> int \<Rightarrow> 's \<Rightarrow> bool" where
  "only k v t s \<longleftrightarrow> usable s \<and> (\<forall>t'\<ge>t. \<forall>x. found k t' s = Some x \<longrightarrow> x = v)"

lemma onlyD: "only k v t s \<Longrightarrow> t \<le> t' \<Longrightarrow> found k t' s = Some x \<Longrightarrow> x = v"
  by (auto simp: only_def)

lemma only_later: "only k v t s \<Longrightarrow> t \<le> t' \<Longrightarrow> only k v t' s"
  unfolding only_def by (meson order_trans)

lemma only_call:
  assumes "only k v t s" "\<And>k' u n. c = CacheSet k' u n \<Longrightarrow> 1 \<le> n \<and> (k' = k \<longrightarrow> u = v)"
  shows "only k v t (call c t s)"
proof -
  have u: "usable s" using assms(1) by (simp add: only_def)
  have "x = v" if t: "t \<le> t'" and x: "found k t' (call c t s) = Some x" for t' x
  proof (cases c)
    case (CacheSet k' y n)
    with assms(2) have "1 \<le> n" "k' = k \<longrightarrow> y = v" by blast+
    with found_set [OF u _ t, of n k k' y x] x CacheSet onlyD [OF assms(1) t]
    show ?thesis by (auto split: if_splits)
  qed (use found_invalidate [OF u t] found_invalidate_prefix [OF u t] x onlyD [OF assms(1) t] in blast)+
  then show ?thesis using usable_call [OF u] by (simp add: only_def)
qed

lemma only_invalidated:
  assumes "usable s"
  shows "only k v t (call (CacheInvalidate k) t s)"
  using found_invalidate [OF assms, of t _ k k] usable_call [OF assms] unfolding only_def by blast

lemma only_calls:
  assumes "usable s" "only k v t s \<or> CacheInvalidate k \<in> set cs"
    and "\<And>k' u n. CacheSet k' u n \<in> set cs \<Longrightarrow> 1 \<le> n \<and> (k' = k \<longrightarrow> u = v)"
  shows "only k v t (foldl (\<lambda>s c. call c t s) s cs)"
  using assms
proof (induction cs arbitrary: s)
  case (Cons c cs)
  have "only k v t (call c t s) \<or> CacheInvalidate k \<in> set cs"
    using Cons.prems only_call [of k v t s c] only_invalidated [of s k v t] by auto
  with Cons.IH [of "call c t s"] Cons.prems(1,3) usable_call show ?case by auto
qed auto

end

end
