(* ===== verification/CacheFacts.thy ===== *)
theory CacheFacts
  imports Cache
begin

text \<open>
  Both backends keep the contract of a cache; the operations of the material and the moderation
  service invalidate what they change; so the statistics and the trending list that a request gets
  are those of the database at that moment, whether they come from the cache or not. The summary
  of the dashboard is not: no operation on accounts or reports of students invalidates it.
\<close>

section \<open>The backends keep the contract\<close>

text \<open>
  The documented behaviour of SET with EX, GET, DEL and SCAN on a server that answers. A pattern
  that ends with a star and has no other special character matches the keys with that prefix.
\<close>

definition plain_pattern :: "string \<Rightarrow> bool" where
  "plain_pattern p \<longleftrightarrow> set p \<inter> {CHR ''*'', CHR ''?'', CHR ''['', CHR '']'', CHR 0x5C} = {}"

definition cache_laws :: "'r cache_redis \<Rightarrow> bool" where
  "cache_laws r \<longleftrightarrow>
     (\<forall>k t c. is_ok (cr_get r k t c)) \<and>
     (\<forall>k t t' c x. t \<le> t' \<longrightarrow> cr_get r k t' c = Inr (Some x) \<longrightarrow> cr_get r k t c = Inr (Some x)) \<and>
     (\<forall>k v n t c. 1 \<le> n \<longrightarrow> is_ok (fst (cr_set r k v n t c))) \<and>
     (\<forall>k v n t c k' t'. 1 \<le> n \<longrightarrow> t \<le> t' \<longrightarrow> cr_get r k' t' (snd (cr_set r k v n t c)) =
        (if k' = k then Inr (if t' < t + seconds n then Some v else None) else cr_get r k' t' c)) \<and>
     (\<forall>k t c. is_ok (fst (cr_delete r k t c))) \<and>
     (\<forall>k t c k' t'. t \<le> t' \<longrightarrow> cr_get r k' t' (snd (cr_delete r k t c)) =
        (if k' = k then Inr None else cr_get r k' t' c)) \<and>
     (\<forall>p t c. \<exists>ks. cr_scan r p t c = Inr ks \<and>
        (plain_pattern p \<longrightarrow> (\<forall>k x. startswith k p \<longrightarrow> cr_get r k t c = Inr (Some x) \<longrightarrow> k \<in> set ks)))"

lemma cache_lawsD:
  assumes "cache_laws r"
  shows "is_ok (cr_get r k t c)"
    and "t \<le> t' \<Longrightarrow> cr_get r k t' c = Inr (Some x) \<Longrightarrow> cr_get r k t c = Inr (Some x)"
    and "1 \<le> n \<Longrightarrow> is_ok (fst (cr_set r k v n t c))"
    and "1 \<le> n \<Longrightarrow> t \<le> t' \<Longrightarrow> cr_get r k' t' (snd (cr_set r k v n t c)) =
        (if k' = k then Inr (if t' < t + seconds n then Some v else None) else cr_get r k' t' c)"
    and "is_ok (fst (cr_delete r k t c))"
    and "t \<le> t' \<Longrightarrow> cr_get r k' t' (snd (cr_delete r k t c)) = (if k' = k then Inr None else cr_get r k' t' c)"
    and "\<exists>ks. cr_scan r p t c = Inr ks \<and>
        (plain_pattern p \<longrightarrow> (\<forall>k x. startswith k p \<longrightarrow> cr_get r k t c = Inr (Some x) \<longrightarrow> k \<in> set ks))"
  by (insert assms [unfolded cache_laws_def]; elim conjE; simp; fail)+

definition usable_cache :: "'r cache_redis \<Rightarrow> 'r cache_service \<Rightarrow> bool" where
  "usable_cache r s \<longleftrightarrow> (case cs_backend s of RedisCacheBackend (Some _) \<Rightarrow> cache_laws r | _ \<Rightarrow> True)"

definition cached :: "'r cache_redis \<Rightarrow> string \<Rightarrow> int \<Rightarrow> 'r cache_service \<Rightarrow> json option" where
  "cached r k t s = (case cache_get r k t s of Inr v \<Rightarrow> v | Inl _ \<Rightarrow> None)"

lemma delete_scanned_effect:
  assumes "cache_laws r" "t \<le> t'"
  shows "is_ok (fst (delete_scanned r keys t c)) \<and>
    cr_get r k' t' (snd (delete_scanned r keys t c)) = (if k' \<in> set keys then Inr None else cr_get r k' t' c)"
proof (induction keys arbitrary: c)
  case (Cons key keys)
  obtain c1 where c1: "cr_delete r key t c = (Inr (), c1)"
    using cache_lawsD(5) [OF assms(1), of key t c] by (cases "cr_delete r key t c") (auto simp: is_ok_iff)
  with cache_lawsD(6) [OF assms, of k' key c] Cons.IH [of c1] show ?case by auto
qed simp

text \<open>Either there is no client, and nothing happens, or the client does the command.\<close>

lemma perform_cases:
  assumes "usable_cache r s"
  obtains "perform r call t s = (Inr (), s)" "\<And>k t'. cached r k t' s = None"
  | c c' where "cs_backend s = RedisCacheBackend (Some c)" "cache_laws r"
      "snd (perform r call t s) = s\<lparr>cs_backend := RedisCacheBackend (Some c')\<rparr>"
      "c' = snd (case call of
         CacheSet k v n \<Rightarrow> cr_set r k v n t c
       | CacheInvalidate k \<Rightarrow> cr_delete r k t c
       | CacheInvalidatePrefix p \<Rightarrow>
           (case cr_scan r p t c of Inl e \<Rightarrow> fail e c | Inr keys \<Rightarrow> delete_scanned r keys t c))"
proof (cases "cs_backend s")
  case NullCacheBackend
  then show ?thesis
    by (intro that(1)) (auto simp: perform_def cache_set_def cache_invalidate_def cache_invalidate_prefix_def
        on_client_def cached_def cache_get_def split: cache_call.split)
next
  case (RedisCacheBackend oc)
  then show ?thesis
  proof (cases oc)
    case None
    with RedisCacheBackend show ?thesis
      by (intro that(1)) (auto simp: perform_def cache_set_def cache_invalidate_def cache_invalidate_prefix_def
          on_client_def cached_def cache_get_def split: cache_call.split)
  next
    case (Some c)
    with RedisCacheBackend assms show ?thesis
      by (intro that(2) [OF _ _ _ refl, of c]) (auto simp: usable_cache_def perform_def cache_set_def
          cache_invalidate_def cache_invalidate_prefix_def on_client_def split: cache_call.split prod.split)
  qed
qed

lemma cached_client:
  "cs_backend s = RedisCacheBackend (Some c) \<Longrightarrow>
     cached r k t s = (case cr_get r k t c of Inr v \<Rightarrow> v | Inl _ \<Rightarrow> None)"
  by (simp add: cached_def cache_get_def)

lemma perform_ok:
  assumes "usable_cache r s" "\<And>k v n. call = CacheSet k v n \<Longrightarrow> 1 \<le> n"
  shows "fst (perform r call t s) = Inr ()"
proof (cases "cs_backend s")
  case NullCacheBackend
  then show ?thesis by (auto simp: perform_def cache_set_def cache_invalidate_def cache_invalidate_prefix_def
        on_client_def split: cache_call.split)
next
  case (RedisCacheBackend oc)
  show ?thesis
  proof (cases oc)
    case None
    with RedisCacheBackend show ?thesis by (auto simp: perform_def cache_set_def cache_invalidate_def
          cache_invalidate_prefix_def on_client_def split: cache_call.split)
  next
    case (Some c)
    with RedisCacheBackend assms(1) have laws: "cache_laws r" by (simp add: usable_cache_def)
    note cs = RedisCacheBackend Some
    show ?thesis
    proof (cases call)
      case (CacheSet k v n)
      with cache_lawsD(3) [OF laws, of n k v t c] assms(2) cs show ?thesis
        by (auto simp: perform_def cache_set_def on_client_def is_ok_iff split: prod.split)
    next
      case (CacheInvalidate k)
      with cache_lawsD(5) [OF laws, of k t c] cs show ?thesis
        by (auto simp: perform_def cache_invalidate_def on_client_def is_ok_iff split: prod.split)
    next
      case (CacheInvalidatePrefix p)
      obtain ks where "cr_scan r p t c = Inr ks" using cache_lawsD(7) [OF laws, of p t c] by blast
      moreover have "is_ok (fst (delete_scanned r ks t c))"
        using delete_scanned_effect [OF laws order_refl] by blast
      ultimately show ?thesis
        using cs CacheInvalidatePrefix
        by (auto simp: perform_def cache_invalidate_prefix_def on_client_def is_ok_iff split: prod.split)
    qed
  qed
qed

interpretation served: answer_cache "usable_cache r" "cached r" "\<lambda>c t s. snd (perform r c t s)" for r
proof
  show "usable_cache r (snd (perform r c t s))" if "usable_cache r s" for r c t and s :: "'a cache_service"
    using that
  proof (cases rule: perform_cases [of r s c t])
    case 1
    with that show ?thesis by simp
  next
    case (2 cl cl')
    then show ?thesis by (simp add: usable_cache_def)
  qed
  show "if k' = k then x = v \<and> t' < t + seconds n else cached r k' t' s = Some x"
    if "usable_cache r s" "1 \<le> n" "t \<le> t'" "cached r k' t' (snd (perform r (CacheSet k v n) t s)) = Some x"
    for r n t t' k k' v x and s :: "'a cache_service"
    using that(1)
  proof (cases rule: perform_cases [of r s "CacheSet k v n" t])
    case (2 c c')
    with that(4) cache_lawsD(4) [OF 2(2) that(2,3), of k' k v c] show ?thesis
      by (auto simp: cached_client split: if_splits sum.splits)
  qed (use that in auto)
  show "k' \<noteq> k \<and> cached r k' t' s = Some x"
    if "usable_cache r s" "t \<le> t'" "cached r k' t' (snd (perform r (CacheInvalidate k) t s)) = Some x"
    for r t t' k k' x and s :: "'a cache_service"
    using that(1)
  proof (cases rule: perform_cases [of r s "CacheInvalidate k" t])
    case (2 c c')
    with that(3) cache_lawsD(6) [OF 2(2) that(2), of k' k c] show ?thesis
      by (auto simp: cached_client split: if_splits sum.splits)
  qed (use that in auto)
  show "cached r k' t' s = Some x \<and> (p = ''admin:dashboard_'' \<longrightarrow> \<not> startswith k' p)"
    if "usable_cache r s" "t \<le> t'" "cached r k' t' (snd (perform r (CacheInvalidatePrefix p) t s)) = Some x"
    for r t t' p k' x and s :: "'a cache_service"
    using that(1)
  proof (cases rule: perform_cases [of r s "CacheInvalidatePrefix p" t])
    case (2 c c')
    obtain ks where ks: "cr_scan r p t c = Inr ks"
      and all: "plain_pattern p \<Longrightarrow> startswith k' p \<Longrightarrow> cr_get r k' t c = Inr (Some x) \<Longrightarrow> k' \<in> set ks"
      using cache_lawsD(7) [OF 2(2), of p t c] by blast
    have "cr_get r k' t' c' = (if k' \<in> set ks then Inr None else cr_get r k' t' c)"
      using delete_scanned_effect [OF 2(2) that(2), where keys = ks and c = c and k' = k'] 2(4) ks by simp
    with that(3) 2(1,3) have "k' \<notin> set ks" "cr_get r k' t' c = Inr (Some x)"
      by (auto simp: cached_client split: if_splits sum.splits)
    with all cache_lawsD(2) [OF 2(2) that(2)] 2(1) show ?thesis
      by (auto simp: cached_client plain_pattern_def)
  qed (use that in auto)
qed

lemma perform_all_foldl:
  assumes "usable_cache r s" "\<And>k v n. CacheSet k v n \<in> set cs \<Longrightarrow> 1 \<le> n"
  shows "perform_all r cs t s = (Inr (), foldl (\<lambda>s c. snd (perform r c t s)) s cs)"
  using assms
proof (induction cs arbitrary: s)
  case (Cons c cs)
  have "fst (perform r c t s) = Inr ()" by (rule perform_ok) (use Cons.prems in auto)
  moreover have "perform_all r cs t (snd (perform r c t s)) =
      (Inr (), foldl (\<lambda>s c. snd (perform r c t s)) (snd (perform r c t s)) cs)"
    by (rule Cons.IH) (use Cons.prems served.usable_call in auto)
  ultimately show ?case by (cases "perform r c t s") simp
qed simp

section \<open>A reference client\<close>

definition reference_cache :: "(string \<times> json \<times> int) list cache_redis" where
  "reference_cache =
     \<lparr>cr_connect = (\<lambda>_. Connected []),
      cr_get = (\<lambda>k t c. Inr (case map_of c k of Some (v, e) \<Rightarrow> if t < e then Some v else None | None \<Rightarrow> None)),
      cr_set = (\<lambda>k v n t c. ok () ((k, v, t + seconds n) # c)),
      cr_delete = (\<lambda>k t c. ok () (filter (\<lambda>e. fst e \<noteq> k) c)),
      cr_scan = (\<lambda>p t c. Inr (filter (\<lambda>k. startswith k p) (map fst c)))\<rparr>"

lemma map_of_deleted: "map_of (filter (\<lambda>e. fst e \<noteq> k) c) k' = (if k' = k then None else map_of c k')"
  by (induction c) auto

lemma reference_cache_laws: "cache_laws reference_cache"
  unfolding cache_laws_def reference_cache_def
  by (auto simp: map_of_deleted split: option.splits if_splits dest: map_of_SomeD intro!: image_eqI)

section \<open>What the operations invalidate\<close>

definition public_keys :: "string set" where
  "public_keys = {''materials:stats_summary'', ''materials:trending_ids''}"

text \<open>The columns of a material that the statistics and the trending list depend on.\<close>

definition public_row :: "material \<Rightarrow> string \<times> material_status \<times> int option \<times> int option \<times> int \<times> string" where
  "public_row m = (m_id m, m_status m, m_deleted_at m, m_reviewed_at m, m_download_count m, m_subject_id m)"

definition same_public :: "world \<Rightarrow> world \<Rightarrow> bool" where
  "same_public w w' \<longleftrightarrow> map public_row (db_materials w') = map public_row (db_materials w) \<and>
     db_subjects w' = db_subjects w \<and> db_faculties w' = db_faculties w \<and> db_universities w' = db_universities w"

definition caches_kept :: "world \<Rightarrow> world \<Rightarrow> bool" where
  "caches_kept w w' \<longleftrightarrow> (\<exists>cs. cache_log w' = cache_log w @ cs \<and> 
     (\<forall>k v n. CacheSet k v n \<in> set cs \<longrightarrow> k \<notin> public_keys \<and> 1 \<le> n) \<and>
     (CacheInvalidate ` public_keys \<subseteq> set cs \<or> same_public w w'))"

lemma same_public_refl [simp]: "same_public w w"
  by (simp add: same_public_def)

lemma caches_kept_refl [simp]: "caches_kept w w"
  by (simp add: caches_kept_def)

lemma caches_kept_same: "cache_log w' = cache_log w \<Longrightarrow> same_public w w' \<Longrightarrow> caches_kept w w'"
  by (simp add: caches_kept_def)

lemma caches_kept_invalidated:
  "cache_log w' = cache_log w \<Longrightarrow> caches_kept w (invalidate_material_caches w')"
  by (auto simp: caches_kept_def invalidate_material_caches_def cache_do_def public_keys_def)

lemma caches_kept_sum:
  assumes "\<And>e. r = Inl e \<Longrightarrow> caches_kept w (snd (F e))" "\<And>v. r = Inr v \<Longrightarrow> caches_kept w (snd (G v))"
  shows "caches_kept w (snd (case r of Inl e \<Rightarrow> F e | Inr v \<Rightarrow> G v))"
  using assms by (cases r) auto

lemma caches_kept_option:
  assumes "r = None \<Longrightarrow> caches_kept w (snd F)" "\<And>v. r = Some v \<Longrightarrow> caches_kept w (snd (G v))"
  shows "caches_kept w (snd (case r of None \<Rightarrow> F | Some v \<Rightarrow> G v))"
  using assms by (cases r) auto

lemma caches_kept_if:
  assumes "b \<Longrightarrow> caches_kept w (snd F)" "\<not> b \<Longrightarrow> caches_kept w (snd G)"
  shows "caches_kept w (snd (if b then F else G))"
  using assms by auto

lemma caches_kept_prod:
  assumes "\<And>a b. p = (a, b) \<Longrightarrow> caches_kept w (snd (F a b))"
  shows "caches_kept w (snd (case p of (a, b) \<Rightarrow> F a b))"
  using assms by (cases p) auto

lemmas caches_kept_cases = caches_kept_sum caches_kept_option caches_kept_if caches_kept_prod

lemma log_frames [simp]:
  "cache_log (save_material now m w) = cache_log w"
  "cache_log (log_review i now mid act aid note reason w) = cache_log w"
  "cache_log (audit i now what ent actor eid det w) = cache_log w"
  "cache_log (add_files now mid es w) = cache_log w"
  "cache_log (record_download i now mid user w) = cache_log w"
  "cache_log (store_file f w) = cache_log w"
  "cache_log (mark_drafts_deleted now ds w) = cache_log w"
  "cache_log (snd (mark_material_for_rereview_if_needed i now m aid w)) = cache_log w"
  by (simp_all add: save_material_def log_review_def audit_def add_files_def record_download_def
      count_download_def store_file_def mark_material_for_rereview_if_needed_def Let_def split: option.split)
    (induction ds arbitrary: w, simp_all add: save_material_def)

lemma create_event_log [simp]: "cache_log (snd (create_event i now ty ety eid r payload ch w)) = cache_log w"
  by (auto simp: create_event_def Let_def split: sum.splits option.splits)

lemma create_events_log [simp]: "cache_log (snd (create_events ids j now ty ety eid payload rs w)) = cache_log w"
proof (induction rs arbitrary: j w)
  case (Cons r rs)
  obtain res w1 where w1: "create_event (ids j) now ty ety eid r payload ''telegram_bot'' w = (res, w1)"
    by (rule prod.exhaust)
  obtain res' w2 where w2: "create_events ids (Suc j) now ty ety eid payload rs w1 = (res', w2)"
    by (rule prod.exhaust)
  have "cache_log w1 = cache_log w"
    using create_event_log [of "ids j" now ty ety eid r payload "''telegram_bot''" w] w1 by simp
  moreover have "cache_log w2 = cache_log w1" using Cons.IH [of "Suc j" w1] w2 by simp
  ultimately show ?case using w1 w2 by (simp split: sum.split)
qed simp

lemma snd_passed_on:
  "snd (case r of (Inl e, w1) \<Rightarrow> fail e w1 | (Inr v, w1) \<Rightarrow> ok (f v) w1) = snd r"
  by (simp split: prod.split sum.split)

lemma enqueue_log [simp]:
  "cache_log (snd (enqueue_material_submitted_events st ids j now m eid w)) = cache_log w"
  "cache_log (snd (enqueue_material_owner_event st i now ty m actor reason note w)) = cache_log w"
  by (simp_all add: enqueue_material_submitted_events_def enqueue_material_owner_event_def snd_passed_on
      split: option.split)

lemma finish_kept:
  "cache_log w' = cache_log w \<Longrightarrow> caches_kept w (snd (finish mid w'))"
  by (simp add: caches_kept_invalidated)

lemma passed_kept:
  assumes "cache_log (snd r) = cache_log w" "\<And>v w1. r = (Inr v, w1) \<Longrightarrow> cache_log w1 = cache_log w \<Longrightarrow> caches_kept w (snd (G v w1))"
  shows "caches_kept w (snd (case r of (Inl e, _) \<Rightarrow> fail e w | (Inr v, w1) \<Rightarrow> G v w1))"
  using assms by (auto split: prod.split sum.split)

lemma rereview_kept:
  assumes "\<And>m1 w1. cache_log w1 = cache_log w \<Longrightarrow> caches_kept w (snd (F m1 w1))"
  shows "caches_kept w (snd (case mark_material_for_rereview_if_needed i now m aid w of (m1, w1) \<Rightarrow> F m1 w1))"
  using assms log_frames(8) [of i now m aid w] by (cases "mark_material_for_rereview_if_needed i now m aid w") auto

lemma discard_kept: "caches_kept w (snd (discard_uploads sp e keys obs w))"
  by (auto simp: discard_uploads_def intro!: caches_kept_same split: prod.split sum.split)
    (simp_all add: same_public_def)

lemma draft_and_status_kept:
  "caches_kept w (snd (create_draft x i now mc user w))"
  "caches_kept w (snd (submit st ids now mid user w))"
  "caches_kept w (snd (withdraw i now mid user w))"
  "caches_kept w (snd (delete_material now mid user w))"
  unfolding create_draft_def submit_def withdraw_def delete_material_def Let_def
  by (intro caches_kept_cases passed_kept finish_kept;
      simp add: caches_kept_invalidated del: finish_eq)+


lemma file_operations_kept:
  "caches_kept w (snd (attach_files pr st sp ids now mid user ups os w))"
  "caches_kept w (snd (delete_file sp i now mid fid user w))"
  "caches_kept w (snd (reorder_files i now mid fids user w))"
  "caches_kept w (snd (update_file_selection i now mid fid cover primary user w))"
  unfolding attach_files_def delete_file_def reorder_files_def update_file_selection_def Let_def
  by (intro caches_kept_cases passed_kept finish_kept discard_kept rereview_kept;
      simp add: caches_kept_invalidated del: finish_eq)+

lemma edits_kept:
  "caches_kept w (snd (update_material i now mid upd user w))"
  "caches_kept w (snd (attach_tag i now mid tid user w))"
  "caches_kept w (snd (detach_tag i now mid tid user w))"
  unfolding update_material_def attach_tag_def detach_tag_def Let_def
  by (intro caches_kept_cases passed_kept finish_kept rereview_kept;
      simp add: caches_kept_invalidated del: finish_eq)+

lemma decisions_kept:
  "caches_kept w (snd (approve st ids now mid actor w))"
  "caches_kept w (snd (reject st ids now mid why note actor w))"
  "caches_kept w (snd (request_revision st ids now mid why note actor w))"
  "caches_kept w (snd (move_subject ids now mid sid note actor w))"
  unfolding approve_def reject_def request_revision_def move_subject_def Let_def
  by (intro caches_kept_cases passed_kept finish_kept;
      simp add: caches_kept_invalidated del: finish_eq)+

lemma reading_kept:
  "caches_kept w (snd (report_material ids now mid reason details user w))"
  "caches_kept w (snd (prepare_preview pr sp u ident fid viewer lf w))"
  unfolding report_material_def prepare_preview_def Let_def
  by (intro caches_kept_cases;
      simp add: caches_kept_same same_public_def log_review_def audit_def store_file_def)+

lemma download_kept: "caches_kept w (snd (prepare_download sp i now ident fid viewer lf w))"
proof -
  have "caches_kept w (cache_do (CacheInvalidate ''materials:trending_ids'')
      (cache_do (CacheInvalidate ''materials:stats_summary'') (record_download i now mid viewer w)))" for mid
    by (auto simp: caches_kept_def cache_do_def public_keys_def)
  then show ?thesis
    unfolding prepare_download_def Let_def by (intro caches_kept_cases; simp)
qed

lemma cleanup_kept: "caches_kept w (snd (cleanup_stale_drafts now w))"
  unfolding cleanup_stale_drafts_def Let_def
  by (auto simp: caches_kept_invalidated)

section \<open>Requests and the cache together\<close>

text \<open>
  All operations of the material and the moderation service, and whatever leaves the materials, the
  catalog and the two keys alone.
\<close>

inductive serviced :: "settings \<Rightarrow> world \<Rightarrow> world \<Rightarrow> bool" for st :: settings where
  by_draft: "serviced st w (snd (create_draft x i now mc user w))"
| by_attach: "serviced st w (snd (attach_files pr st sp ids now mid user ups os w))"
| by_update: "serviced st w (snd (update_material i now mid upd user w))"
| by_delete: "serviced st w (snd (delete_material now mid user w))"
| by_attach_tag: "serviced st w (snd (attach_tag i now mid tid user w))"
| by_detach_tag: "serviced st w (snd (detach_tag i now mid tid user w))"
| by_delete_file: "serviced st w (snd (delete_file sp i now mid fid user w))"
| by_reorder: "serviced st w (snd (reorder_files i now mid fids user w))"
| by_select: "serviced st w (snd (update_file_selection i now mid fid cover primary user w))"
| by_submit: "serviced st w (snd (submit st ids now mid user w))"
| by_withdraw: "serviced st w (snd (withdraw i now mid user w))"
| by_report: "serviced st w (snd (report_material ids now mid reason details user w))"
| by_approve: "serviced st w (snd (approve st ids now mid actor w))"
| by_reject: "serviced st w (snd (reject st ids now mid why note actor w))"
| by_revision: "serviced st w (snd (request_revision st ids now mid why note actor w))"
| by_move: "serviced st w (snd (move_subject ids now mid sid note actor w))"
| by_download: "serviced st w (snd (prepare_download sp i now ident fid' viewer lf w))"
| by_preview: "serviced st w (snd (prepare_preview pr sp u ident fid viewer lf w))"
| by_cleanup: "serviced st w (snd (cleanup_stale_drafts now w))"
| elsewhere: "same_public w w' \<Longrightarrow> cache_log w' = cache_log w @ cs \<Longrightarrow> 
    \<forall>k v n. CacheSet k v n \<in> set cs \<longrightarrow> k \<notin> public_keys \<and> 1 \<le> n \<Longrightarrow> serviced st w w'"

lemma serviced_kept: "serviced st w w' \<Longrightarrow> caches_kept w w'"
  by (induction rule: serviced.induct)
    (simp_all add: draft_and_status_kept file_operations_kept edits_kept decisions_kept reading_kept
      download_kept cleanup_kept, auto simp: caches_kept_def)

text \<open>The identifier of a material is a primary key, so no request leaves two rows with one.\<close>

inductive cached_run ::
  "'r cache_redis \<Rightarrow> settings \<Rightarrow> int \<times> world \<times> 'r cache_service \<Rightarrow> int \<times> world \<times> 'r cache_service \<Rightarrow> bool"
  for r :: "'r cache_redis" and st :: settings and start :: "int \<times> world \<times> 'r cache_service"
where
  cached_start: "cached_run r st start start"
| cached_request: "cached_run r st start (t, w, s) \<Longrightarrow> t \<le> t' \<Longrightarrow> serviced st w w' \<Longrightarrow>
    distinct (map m_id (db_materials w')) \<Longrightarrow>
    cached_run r st start (t', w', snd (perform_all r (calls_between w w') t' s))"
| cached_stats: "cached_run r st start (t, w, s) \<Longrightarrow> t \<le> t' \<Longrightarrow>
    cached_run r st start (t', snd (stats_request r st t' w s))"
| cached_trending: "cached_run r st start (t, w, s) \<Longrightarrow> t \<le> t' \<Longrightarrow>
    cached_run r st start (t', snd (trending_request r st t' w s))"


section \<open>The cached values\<close>

lemma map_insort_key: "map f (insort_key (\<lambda>x. k (f x)) a xs) = insort_key k (f a) (map f xs)"
  by (induction xs) auto

lemma map_order_by_desc: "map f (order_by_desc (\<lambda>x. k (f x)) xs) = order_by_desc k (map f xs)"
  unfolding order_by_desc_def rev_map [symmetric]
  by (induction xs) (simp_all add: map_insort_key)

definition trending_items :: "world \<Rightarrow> material list" where
  "trending_items w =
     take 10 (order_by_desc
       (\<lambda>m. ((case m_reviewed_at m of None \<Rightarrow> (0::int, 0) | Some t \<Rightarrow> (1, t)), m_download_count m))
       (filter (\<lambda>m. m_status m = APPROVED) (build_filtered_query w)))"

definition trending_ids :: "world \<Rightarrow> json" where
  "trending_ids w = JList (map (JStr \<circ> m_id) (trending_items w))"

text \<open>Both values are functions of the public rows and the catalog.\<close>

definition placed :: "world \<Rightarrow> string \<Rightarrow> bool" where
  "placed w i =
     (case get_subject i w of
        None \<Rightarrow> False
      | Some s \<Rightarrow> (case get_faculty (su_faculty_id s) w of
                    None \<Rightarrow> False
                  | Some f \<Rightarrow> get_university (fa_university_id f) w \<noteq> None))"

lemma material_place_placed: "material_place m w \<noteq> None \<longleftrightarrow> placed w (m_subject_id m)"
  by (simp add: material_place_def placed_def split: option.split)

lemma trending_ids_rows:
  "map m_id (trending_items w) =
     map fst (take 10 (order_by_desc
       (\<lambda>(_, _, _, reviewed, downloads, _). ((case reviewed of None \<Rightarrow> (0::int, 0) | Some t \<Rightarrow> (1, t)), downloads))
       (filter (\<lambda>(_, status, deleted, _, _, subject). status = APPROVED \<and> deleted = None \<and> placed w subject)
         (map public_row (db_materials w)))))"
proof -
  let ?k = "\<lambda>(_, _, _, reviewed, downloads, _). ((case reviewed of None \<Rightarrow> (0::int, 0) | Some t \<Rightarrow> (1, t)), downloads)"
  let ?P = "\<lambda>(_, status, deleted, _, _, subject). status = APPROVED \<and> deleted = None \<and> placed w subject"
  have "map m_id (trending_items w) = map (fst \<circ> public_row) (trending_items w)"
    by (simp add: public_row_def)
  also have "\<dots> = map fst (take 10 (map public_row (order_by_desc (\<lambda>m. ?k (public_row m))
      (filter (\<lambda>m. m_status m = APPROVED) (build_filtered_query w)))))"
    by (simp add: trending_items_def public_row_def take_map comp_def)
  also have "filter (\<lambda>m. m_status m = APPROVED) (build_filtered_query w) = filter (?P \<circ> public_row) (db_materials w)"
    unfolding build_filtered_query_def material_place_placed filter_filter
    by (rule filter_cong) (auto simp: public_row_def)
  finally show ?thesis by (simp only: map_order_by_desc filter_map)
qed

lemma same_public_values:
  assumes "same_public w w'"
  shows "trending_ids w' = trending_ids w" "summary_of w' = summary_of w"
proof -
  from assms have rows: "map public_row (db_materials w') = map public_row (db_materials w)"
    and catalog: "get_subject i w' = get_subject i w" "get_faculty i w' = get_faculty i w"
        "get_university i w' = get_university i w" for i
    by (simp_all add: same_public_def get_subject_def get_faculty_def get_university_def)
  have "placed w' = placed w" by (rule ext) (unfold placed_def catalog, rule refl)
  then have "map m_id (trending_items w') = map m_id (trending_items w)"
    unfolding trending_ids_rows rows by simp
  from arg_cong [OF this, of "map JStr"] show "trending_ids w' = trending_ids w"
    by (simp add: trending_ids_def)
  have status: "length (filter (\<lambda>m. m_status m = s) ms) = length (filter (\<lambda>p. fst (snd p) = s) (map public_row ms))"
    and count: "map m_download_count ms = map (\<lambda>(_, _, _, _, d, _). d) (map public_row ms)"
    and len: "length ms = length (map public_row ms)" for s ms
    by (simp_all add: filter_map comp_def public_row_def)
  show "summary_of w' = summary_of w"
    unfolding summary_of_def Let_def status count len [of "db_materials w"] len [of "db_materials w'"] rows ..
qed


section \<open>Nobody can tell\<close>

lemma list_trending_fresh: "list_trending st None w = (trending_items w,
    cache_do (CacheSet ''materials:trending_ids'' (trending_ids w) (cache_ttl_trending_seconds st)) w)"
  by (simp add: list_trending_def trending_items_def trending_ids_def Let_def)

lemma find_by_id: "distinct (map m_id ms) \<Longrightarrow> m \<in> set ms \<Longrightarrow> find (\<lambda>r. m_id r = m_id m) ms = Some m"
  by (induction ms) auto

lemma find_of_filter: "find P (filter Q xs) = find (\<lambda>x. Q x \<and> P x) xs"
  by (induction xs) auto

lemma map_filter_cong: "(\<And>x. x \<in> set xs \<Longrightarrow> f x = g x) \<Longrightarrow> List.map_filter f xs = List.map_filter g xs"
  by (induction xs) (auto simp: List.map_filter_simps split: option.split)

lemma get_many_trending:
  assumes "distinct (map m_id (db_materials w))" "set items \<subseteq> set (build_filtered_query w)"
  shows "get_many (map m_id items) w = items"
  using assms(2)
proof (induction items)
  case (Cons m items)
  let ?db = "filter (\<lambda>r. m_deleted_at r = None) (db_materials w)"
  have many: "get_many is w = List.map_filter (\<lambda>i. find (\<lambda>r. m_id r = i) ?db) is" for "is"
    unfolding get_many_def Let_def find_of_filter
    by (intro map_filter_cong arg_cong [of _ _ "\<lambda>P. find P (db_materials w)"]) auto
  have "find (\<lambda>r. m_id r = m_id m) ?db = Some m"
    using Cons.prems assms(1) by (intro find_by_id) (auto simp: build_filtered_query_def distinct_map_filter)
  with Cons many show ?case by (simp add: List.map_filter_simps)
qed (simp add: get_many_def List.map_filter_simps)


text \<open>A value that \<open>list_trending\<close> stored gives the materials it was stored for.\<close>

lemma list_trending_cached:
  assumes "distinct (map m_id (db_materials w))" "v = Some (trending_ids w) \<or> v = None"
  shows "fst (list_trending st (cached_ids_of v) w) = trending_items w"
    and "snd (list_trending st (cached_ids_of v) w) = w \<or>
      snd (list_trending st (cached_ids_of v) w) =
        cache_do (CacheSet ''materials:trending_ids'' (trending_ids w) (cache_ttl_trending_seconds st)) w"
proof -
  have ids: "cached_ids_of (Some (trending_ids w)) = Some (map m_id (trending_items w))"
    by (simp add: cached_ids_of_def trending_ids_def comp_def)
  have "set (trending_items w) \<subseteq> set (build_filtered_query w)"
    by (auto simp: trending_items_def dest: in_set_takeD)
  note many = get_many_trending [OF assms(1) this]
  have "list_trending st (Some (map m_id (trending_items w))) w = (trending_items w, w) \<or>
      list_trending st (Some (map m_id (trending_items w))) w = list_trending st None w"
    by (simp add: list_trending_def many Let_def)
  then have "list_trending st (cached_ids_of v) w = (trending_items w, w) \<or>
      list_trending st (cached_ids_of v) w = list_trending st None w"
    using assms(2) ids by (auto simp only: cached_ids_of_def option.case)
  then show "fst (list_trending st (cached_ids_of v) w) = trending_items w"
    "snd (list_trending st (cached_ids_of v) w) = w \<or>
      snd (list_trending st (cached_ids_of v) w) =
        cache_do (CacheSet ''materials:trending_ids'' (trending_ids w) (cache_ttl_trending_seconds st)) w"
    by (auto simp: list_trending_fresh)
qed

lemma stats_summary_cached:
  assumes "v = Some (summary_of w) \<or> v = None"
  shows "fst (stats_summary st v w) = summary_of w"
    and "snd (stats_summary st v w) = w \<or> snd (stats_summary st v w) =
      cache_do (CacheSet ''materials:stats_summary'' (summary_of w) (cache_ttl_stats_seconds st)) w"
  using assms by (auto simp: stats_summary_def)

definition current :: "'r cache_redis \<Rightarrow> int \<Rightarrow> world \<Rightarrow> 'r cache_service \<Rightarrow> bool" where
  "current r t w s \<longleftrightarrow> served.only r ''materials:stats_summary'' (summary_of w) t s \<and>
     served.only r ''materials:trending_ids'' (trending_ids w) t s"

lemma current_request:
  assumes "current r t w s" "caches_kept w w'" "t \<le> t'"
  shows "current r t' w' (snd (perform_all r (calls_between w w') t' s))"
proof -
  from assms(2) obtain cs where cs: "cache_log w' = cache_log w @ cs"
    and sets: "\<And>k v n. CacheSet k v n \<in> set cs \<Longrightarrow> k \<notin> public_keys \<and> 1 \<le> n"
    and kept: "CacheInvalidate ` public_keys \<subseteq> set cs \<or> same_public w w'"
    by (auto simp: caches_kept_def)
  have u: "usable_cache r s" using assms(1) by (simp add: current_def served.only_def)
  have "served.only r k v' t' (snd (perform_all r cs t' s))"
    if "served.only r k v t s" "same_public w w' \<longrightarrow> v' = v" "k \<in> public_keys" for k v v'
  proof -
    have "served.only r k v' t' s \<or> CacheInvalidate k \<in> set cs"
      using kept that served.only_later [OF that(1) assms(3)] by auto
    moreover have "1 \<le> n \<and> (k' = k \<longrightarrow> x = v')" if "CacheSet k' x n \<in> set cs" for k' x n
      using sets [OF that] \<open>k \<in> public_keys\<close> by auto
    ultimately show ?thesis
      using served.only_calls [OF u] perform_all_foldl [OF u] sets by simp
  qed
  from this [of _ "summary_of w" "summary_of w'"] this [of _ "trending_ids w" "trending_ids w'"]
  show ?thesis
    using assms(1) same_public_values by (auto simp: current_def calls_between_def cs public_keys_def)
qed

lemma with_cache_current:
  assumes "current r t w s" "t \<le> t'" "1 \<le> n"
    and "snd result = w \<or> snd result = cache_do (CacheSet k v n) w"
    and "(k, v) \<in> {(''materials:stats_summary'', summary_of w), (''materials:trending_ids'', trending_ids w)}"
  shows "fst (with_cache r t' w s result) = Inr (fst result)"
    and "fst (snd (with_cache r t' w s result)) = snd result"
    and "current r t' (snd result) (snd (snd (with_cache r t' w s result)))"
proof -
  have u: "usable_cache r s" using assms(1) by (simp add: current_def served.only_def)
  have later: "current r t' w s" using assms(1,2) by (auto simp: current_def intro: served.only_later)
  have "calls_between w (snd result) = [] \<or> calls_between w (snd result) = [CacheSet k v n]"
    using assms(4) by (auto simp: calls_between_def cache_do_def)
  moreover have "perform_all r [CacheSet k v n] t' s = (Inr (), snd (perform r (CacheSet k v n) t' s))"
    using perform_all_foldl [OF u, of "[CacheSet k v n]" t'] assms(3) by simp
  moreover have "current r t' w (snd (perform r (CacheSet k v n) t' s))"
    using later assms(3,5) unfolding current_def
    by (intro conjI served.only_call [of r _ _ t' s "CacheSet k v n"]) auto
  moreover have "summary_of (snd result) = summary_of w" "trending_ids (snd result) = trending_ids w"
    using assms(4) same_public_values [of w "snd result"] by (auto simp: cache_do_def same_public_def)
  ultimately show "fst (with_cache r t' w s result) = Inr (fst result)"
    and "fst (snd (with_cache r t' w s result)) = snd result"
    and "current r t' (snd result) (snd (snd (with_cache r t' w s result)))"
    using later by (auto simp: with_cache_def current_def)
qed

lemma cache_get_current:
  assumes "current r t w s" "t \<le> t'"
  shows "\<exists>v. cache_get r ''materials:stats_summary'' t' s = Inr v \<and> (v = Some (summary_of w) \<or> v = None)"
    and "\<exists>v. cache_get r ''materials:trending_ids'' t' s = Inr v \<and> (v = Some (trending_ids w) \<or> v = None)"
proof -
  have u: "usable_cache r s" using assms(1) by (simp add: current_def served.only_def)
  have ok: "is_ok (cache_get r k t' s)" for k
    using u cache_lawsD(1) [of r] by (auto simp: cache_get_def usable_cache_def split: cache_backend.splits option.splits)
  have "v = Some x \<or> v = None" if "served.only r k x t s" "cache_get r k t' s = Inr v" for k x v
    using served.onlyD [OF that(1) assms(2)] that(2) by (cases v) (auto simp: cached_def)
  with ok assms(1)
  show "\<exists>v. cache_get r ''materials:stats_summary'' t' s = Inr v \<and> (v = Some (summary_of w) \<or> v = None)"
    and "\<exists>v. cache_get r ''materials:trending_ids'' t' s = Inr v \<and> (v = Some (trending_ids w) \<or> v = None)"
    unfolding current_def is_ok_iff by blast+
qed

lemma answers_current:
  assumes "current r t w s" "t \<le> t'" "1 \<le> cache_ttl_stats_seconds st" "1 \<le> cache_ttl_trending_seconds st"
  shows "fst (stats_request r st t' w s) = Inr (summary_of w)"
    and "distinct (map m_id (db_materials w)) \<Longrightarrow> fst (trending_request r st t' w s) = Inr (trending_items w)"
    and "stats_request r st t' w s = (a, w', s') \<Longrightarrow> current r t' w' s' \<and> db_materials w' = db_materials w"
    and "distinct (map m_id (db_materials w)) \<Longrightarrow> trending_request r st t' w s = (b, w', s') \<Longrightarrow>
      current r t' w' s' \<and> db_materials w' = db_materials w"
proof -
  obtain v where v: "cache_get r ''materials:stats_summary'' t' s = Inr v" "v = Some (summary_of w) \<or> v = None"
    using cache_get_current(1) [OF assms(1,2)] by blast
  note stats = stats_summary_cached [OF v(2), of st]
  note done_stats = with_cache_current [OF assms(1,2,3) stats(2)]
  show "fst (stats_request r st t' w s) = Inr (summary_of w)"
    using done_stats(1) stats(1) by (simp add: stats_request_def v(1))
  show "current r t' w' s' \<and> db_materials w' = db_materials w" if "stats_request r st t' w s = (a, w', s')"
    using that done_stats(2,3) stats(2) by (auto simp: stats_request_def v(1))
  obtain u where u: "cache_get r ''materials:trending_ids'' t' s = Inr u" "u = Some (trending_ids w) \<or> u = None"
    using cache_get_current(2) [OF assms(1,2)] by blast
  show "fst (trending_request r st t' w s) = Inr (trending_items w)" if "distinct (map m_id (db_materials w))"
    using with_cache_current(1) [OF assms(1,2,4) list_trending_cached(2) [OF that u(2)]]
      list_trending_cached(1) [OF that u(2)] by (simp add: trending_request_def u(1))
  show "current r t' w' s' \<and> db_materials w' = db_materials w"
    if d: "distinct (map m_id (db_materials w))" and run: "trending_request r st t' w s = (b, w', s')"
    using run with_cache_current(2,3) [OF assms(1,2,4) list_trending_cached(2) [OF d u(2)]]
      list_trending_cached(2) [OF d u(2), of st] by (auto simp: trending_request_def u(1))
qed


lemma cached_run_current:
  assumes "cached_run r st start x"
    and "case start of (t, w, s) \<Rightarrow> current r t w s \<and> distinct (map m_id (db_materials w))"
    and "1 \<le> cache_ttl_stats_seconds st" "1 \<le> cache_ttl_trending_seconds st"
  shows "case x of (t, w, s) \<Rightarrow> current r t w s \<and> distinct (map m_id (db_materials w))"
  using assms(1)
proof (induction rule: cached_run.induct)
  case (cached_request t w s t' w')
  then show ?case using current_request serviced_kept by fastforce
next
  case (cached_stats t w s t')
  then have c: "current r t w s" and d: "distinct (map m_id (db_materials w))" by auto
  obtain a w' s' where "stats_request r st t' w s = (a, w', s')" by (metis prod_cases3)
  with answers_current(3) [OF c cached_stats(2) assms(3,4)] d show ?case by simp
next
  case (cached_trending t w s t')
  then have c: "current r t w s" and d: "distinct (map m_id (db_materials w))" by auto
  obtain b w' s' where "trending_request r st t' w s = (b, w', s')" by (metis prod_cases3)
  with answers_current(4) [OF c cached_trending(2) assms(3,4) d] d show ?case by simp
qed (use assms(2) in simp)

text \<open>
  C15. Caching is invisible: in any run of material and moderation requests, however they are mixed
  with requests for the statistics and the trending list and however the cache forgets, with Redis
  or without, the answer to either request is what the database says at that moment. The cache
  starts with nothing under the two keys and the lifetimes of the settings are positive.
\<close>

theorem caching_is_invisible:
  assumes "cached_run r st (t0, w0, s0) (t, w, s)" "t \<le> now"
    and "usable_cache r s0" "\<forall>k\<in>public_keys. \<forall>t\<ge>t0. cached r k t s0 = None"
    and "distinct (map m_id (db_materials w0))"
    and "1 \<le> cache_ttl_stats_seconds st" "1 \<le> cache_ttl_trending_seconds st"
  shows "fst (stats_request r st now w s) = Inr (fst (stats_summary st None w)) \<and>
    fst (trending_request r st now w s) = Inr (fst (list_trending st None w))"
proof -
  have "current r t0 w0 s0"
    using assms(3,4) by (simp add: current_def served.only_def public_keys_def)
  with cached_run_current [OF assms(1) _ assms(6,7)] assms(5)
  have "current r t w s" "distinct (map m_id (db_materials w))" by simp_all
  from answers_current(1,2) [OF this(1) assms(2,6,7)] this(2)
  show ?thesis by (simp add: stats_summary_def list_trending_fresh)
qed

text \<open>The statistics are cached before a material is approved, and are right after it.\<close>

definition cold_cache :: "(string \<times> json \<times> int) list cache_service" where
  "cold_cache = \<lparr>cs_backend = RedisCacheBackend (Some []), cs_is_redis_enabled = True\<rparr>"

definition warm_state :: "world \<times> (string \<times> json \<times> int) list cache_service" where
  "warm_state = snd (stats_request reference_cache default_settings 5 sample_library cold_cache)"

definition approved_later :: world where
  "approved_later = snd (approve default_settings (\<lambda>n. ''i'' @ str_int (int n)) 9 ''m1'' sample_admin (fst warm_state))"

definition later_cache :: "(string \<times> json \<times> int) list cache_service" where
  "later_cache = snd (perform_all reference_cache (calls_between (fst warm_state) approved_later) 9 (snd warm_state))"

lemma warm_state_filled:
  "cached reference_cache ''materials:stats_summary'' 6 (snd warm_state) = Some (summary_of sample_library) \<and>
   summary_of approved_later \<noteq> summary_of sample_library"
  by code_simp

lemma approved_later_rows: "map m_id (db_materials approved_later) = [''m1'']"
  by code_simp

lemma caching_is_invisible_witness:
  "fst (stats_request reference_cache default_settings 10 approved_later later_cache) =
     Inr (fst (stats_summary default_settings None approved_later))"
proof -
  have warm: "cached_run reference_cache default_settings (4, sample_library, cold_cache) (5, fst warm_state, snd warm_state)"
    using cached_stats [OF cached_start, where t = 4 and w = sample_library and s = cold_cache and t' = 5
      and r = reference_cache and st = default_settings] by (simp add: warm_state_def)
  have step: "serviced default_settings (fst warm_state) approved_later"
    unfolding approved_later_def by (rule by_approve)
  have "cached_run reference_cache default_settings (4, sample_library, cold_cache) (9, approved_later, later_cache)"
    unfolding later_cache_def by (rule cached_request [OF warm _ step]) (simp_all add: approved_later_rows)
  moreover have "usable_cache reference_cache cold_cache"
    by (simp add: usable_cache_def cold_cache_def reference_cache_laws)
  moreover have "\<forall>k\<in>public_keys. \<forall>t\<ge>4. cached reference_cache k t cold_cache = None"
    by (simp add: cached_def cache_get_def cold_cache_def reference_cache_def)
  moreover have "distinct (map m_id (db_materials sample_library))" by (simp add: sample_library_def)
  moreover have "1 \<le> cache_ttl_stats_seconds default_settings" "1 \<le> cache_ttl_trending_seconds default_settings"
    by (simp_all add: default_settings_def)
  ultimately show ?thesis using caching_is_invisible [of reference_cache default_settings 4 sample_library
      cold_cache 9 approved_later later_cache 10] by simp
qed

text \<open>
  Reports of students change the summary of the dashboard and do not invalidate it: an
  administrator who looked at it is told of no open report for the next five minutes.
\<close>

lemma dashboard_is_stale:
  "let (_, w1, s1) = dashboard_request reference_cache 10 approved_library cold_cache;
       (_, w2) = report_material (\<lambda>n. ''i'' @ str_int (int n)) 11 ''m1'' ''spam'' None sample_owner w1;
       (_, s2) = perform_all reference_cache (calls_between w1 w2) 11 s1
   in fst (dashboard_request reference_cache 12 w2 s2) \<noteq> Inr (fst (dashboard_summary None w2))"
  by code_simp

end
