(* ===== verification/Seed.thy ===== *)
theory Seed
  imports Auth Materials Catalog
begin

text \<open>
  \<^verbatim>\<open>app/bootstrap/seed_service.py\<close>: the first import of the catalog, with the account of the first
  administrator. Everything is added in one transaction, so a run that fails leaves the database
  as it was. \<open>SystemExit\<close> is a \<open>RuntimeError\<close> with its message; strings are in UTF-8.
\<close>

section \<open>Python on parsed JSON\<close>

text \<open>\<open>value.get(key, default)\<close>: only a dict has the method.\<close>

definition json_get :: "string \<Rightarrow> json \<Rightarrow> json \<Rightarrow> json res" where
  "json_get key dflt v =
     (case v of
        JObj kvs \<Rightarrow> Inr (case map_of kvs key of None \<Rightarrow> dflt | Some x \<Rightarrow> x)
      | _ \<Rightarrow> Inl (RuntimeError ''AttributeError''))"

text \<open>\<open>for x in value\<close>: a text gives its characters, a dict its keys.\<close>

definition json_iter :: "json \<Rightarrow> json list res" where
  "json_iter v =
     (case v of
        JList xs \<Rightarrow> Inr xs
      | JStr s \<Rightarrow> Inr (map (\<lambda>c. JStr [c]) s)
      | JObj kvs \<Rightarrow> Inr (map (JStr \<circ> fst) kvs)
      | _ \<Rightarrow> Inl TypeError)"

definition is_dict :: "json \<Rightarrow> bool" where
  "is_dict v = (case v of JObj _ \<Rightarrow> True | _ \<Rightarrow> False)"

definition clean_name :: "json \<Rightarrow> string" where
  "clean_name v = (case v of JStr s \<Rightarrow> strip s | _ \<Rightarrow> [])"

definition name_of :: "json \<Rightarrow> string res" where
  "name_of v = map_sum id clean_name (json_get ''name'' JNull v)"

section \<open>The file\<close>

datatype seed_file = NoSeedFile | UnreadableSeedFile | SeedFile json

definition fallback_subjects :: "(string \<times> int) list \<Rightarrow> json" where
  "fallback_subjects rows =
     JList (map (\<lambda>(n, s). JObj [(''name'', JStr n), (''semester'', JInt s)]) rows)"

definition fallback_faculty :: "string \<Rightarrow> (string \<times> int) list \<Rightarrow> json" where
  "fallback_faculty n rows =
     JObj [(''name'', JStr n), (''type'', JStr ''faculty''), (''subjects'', fallback_subjects rows)]"

definition fallback_catalog_seed_entries :: "json list" where
  "fallback_catalog_seed_entries =
     [JObj
       [(''name'', JStr ''O'zbekiston Milliy Universiteti''),
        (''academic_units'', JList
          [fallback_faculty ''Matematika''
             [(''Chiziqli Algebra'', 1), (''Umumiy Fizika'', 1), (''Algoritmlar va Dasturlash Asoslari'', 1),
              (''Algebra'', 2), (''Umumiy Fizika'', 3)],
           fallback_faculty ''Amaliy Matematika'' [(''Chiziqli Algebra'', 1), (''Umumiy Fizika'', 1)],
           fallback_faculty ''Fizika'' [(''Chiziqli Algebra'', 1), (''Umumiy Fizika'', 1)]])]]"

definition load_catalog_seed_entries :: "seed_file \<Rightarrow> json list res" where
  "load_catalog_seed_entries f =
     (case f of
        NoSeedFile \<Rightarrow> Inr fallback_catalog_seed_entries
      | UnreadableSeedFile \<Rightarrow> Inl (ValueError ''JSONDecodeError'')
      | SeedFile data \<Rightarrow>
          (case data of
             JList entries \<Rightarrow> Inr (filter is_dict entries)
           | _ \<Rightarrow> Inl (RuntimeError ''Seed failed: catalog seed file must contain a list'')))"

section \<open>The faculties of an entry\<close>

fun map_res :: "('a \<Rightarrow> 'b res) \<Rightarrow> 'a list \<Rightarrow> 'b list res" where
  "map_res f [] = Inr []"
| "map_res f (x # xs) =
     (case f x of
        Inl e \<Rightarrow> Inl e
      | Inr y \<Rightarrow> (case map_res f xs of Inl e \<Rightarrow> Inl e | Inr ys \<Rightarrow> Inr (y # ys)))"

definition is_faculty_unit :: "json \<Rightarrow> bool" where
  "is_faculty_unit unit =
     (is_dict unit \<and> json_get ''type'' JNull unit = Inr (JStr ''faculty''))"

definition unit_entry :: "json \<Rightarrow> (json \<times> json) res" where
  "unit_entry unit =
     (case json_get ''name'' JNull unit of
        Inl e \<Rightarrow> Inl e
      | Inr n \<Rightarrow> (case json_get ''subjects'' (JList []) unit of Inl e \<Rightarrow> Inl e | Inr s \<Rightarrow> Inr (n, s)))"

fun deduplicated :: "string list \<Rightarrow> (json \<times> json) list \<Rightarrow> (string \<times> json) list" where
  "deduplicated seen_names [] = []"
| "deduplicated seen_names ((n, subjects) # rest) =
     (let name = clean_name n in
      if name = [] \<or> name \<in> set seen_names then deduplicated seen_names rest
      else (name, subjects) # deduplicated (name # seen_names) rest)"

definition extract_faculty_entries :: "json \<Rightarrow> (string \<times> json) list res" where
  "extract_faculty_entries entry =
     (case json_get ''academic_units'' (JList []) entry of
        Inl e \<Rightarrow> Inl e
      | Inr units \<Rightarrow>
     (case json_iter units of
        Inl e \<Rightarrow> Inl e
      | Inr us \<Rightarrow>
     (case map_res unit_entry (filter is_faculty_unit us) of
        Inl e \<Rightarrow> Inl e
      | Inr faculty_entries \<Rightarrow>
          (if faculty_entries \<noteq> [] then Inr (deduplicated [] faculty_entries)
           else
             (case json_get ''input_faculties'' (JList []) entry of
                Inl e \<Rightarrow> Inl e
              | Inr names \<Rightarrow>
                  (case json_iter names of
                     Inl e \<Rightarrow> Inl e
                   | Inr ns \<Rightarrow> Inr (deduplicated [] (map (\<lambda>n. (n, JList [])) ns))))))))"

section \<open>The rows\<close>

definition unique_slug :: "string \<Rightarrow> string list \<Rightarrow> string" where
  "unique_slug base_slug used_slugs = free_slug used_slugs base_slug 2 base_slug"

text \<open>The loops go on with the number of the next identifier and the world.\<close>

fun seed_subjects ::
  "externals \<Rightarrow> (nat \<Rightarrow> string) \<Rightarrow> string \<Rightarrow> string list \<Rightarrow> json list \<Rightarrow> nat \<times> world \<Rightarrow> (nat \<times> world) res"
where
  "seed_subjects x ids faculty_id seen [] (n, w) = Inr (n, w)"
| "seed_subjects x ids faculty_id seen (entry # entries) (n, w) =
     (case name_of entry of
        Inl e \<Rightarrow> Inl e
      | Inr subject_name \<Rightarrow>
          (let sub_slug = slugify x subject_name in
           if subject_name = [] \<or> sub_slug \<in> set seen then seed_subjects x ids faculty_id seen entries (n, w)
           else
             (case insert_subject \<lparr>su_id = ids n, su_faculty_id = faculty_id, su_name = subject_name,
                      su_slug = sub_slug, su_code = None, su_description = None\<rparr> w of
                Inl e \<Rightarrow> Inl e
              | Inr w1 \<Rightarrow> seed_subjects x ids faculty_id (sub_slug # seen) entries (n + 1, w1))))"

fun seed_faculties ::
  "externals \<Rightarrow> (nat \<Rightarrow> string) \<Rightarrow> string \<Rightarrow> string list \<Rightarrow> (string \<times> json) list \<Rightarrow> nat \<times> world \<Rightarrow>
   (nat \<times> world) res"
where
  "seed_faculties x ids university_id used [] (n, w) = Inr (n, w)"
| "seed_faculties x ids university_id used ((faculty_name, subjects) # rest) (n, w) =
     (let slug = unique_slug (slugify x faculty_name) used in
      case insert_faculty \<lparr>fa_id = ids n, fa_university_id = university_id, fa_name = faculty_name,
             fa_slug = slug\<rparr> w of
        Inl e \<Rightarrow> Inl e
      | Inr w1 \<Rightarrow>
     (case json_iter subjects of
        Inl e \<Rightarrow> Inl e
      | Inr entries \<Rightarrow>
     (case seed_subjects x ids (ids n) [] entries (n + 1, w1) of
        Inl e \<Rightarrow> Inl e
      | Inr next_state \<Rightarrow> seed_faculties x ids university_id (slug # used) rest next_state)))"

fun seed_universities ::
  "externals \<Rightarrow> (nat \<Rightarrow> string) \<Rightarrow> string list \<Rightarrow> json list \<Rightarrow> nat \<times> world \<Rightarrow> (nat \<times> world) res"
where
  "seed_universities x ids used [] (n, w) = Inr (n, w)"
| "seed_universities x ids used (entry # entries) (n, w) =
     (case name_of entry of
        Inl e \<Rightarrow> Inl e
      | Inr university_name \<Rightarrow>
          (if university_name = [] then seed_universities x ids used entries (n, w)
           else
             (let slug = unique_slug (slugify x university_name) used in
              case insert_university \<lparr>un_id = ids n, un_name = university_name, un_slug = slug\<rparr> w of
                Inl e \<Rightarrow> Inl e
              | Inr w1 \<Rightarrow>
             (case extract_faculty_entries entry of
                Inl e \<Rightarrow> Inl e
              | Inr faculties \<Rightarrow>
             (case seed_faculties x ids (ids n) [] faculties (n + 1, w1) of
                Inl e \<Rightarrow> Inl e
              | Inr next_state \<Rightarrow> seed_universities x ids (slug # used) entries next_state)))))"

text \<open>The universities of the session are those of the table, which was empty.\<close>

definition seed_catalog ::
  "externals \<Rightarrow> (nat \<Rightarrow> string) \<Rightarrow> json list \<Rightarrow> world \<Rightarrow> (university list \<times> nat \<times> world) res"
where
  "seed_catalog x ids entries w =
     (case seed_universities x ids [] entries (0, w) of
        Inl e \<Rightarrow> Inl e
      | Inr (n, w1) \<Rightarrow> Inr (drop (length (db_universities w)) (db_universities w1), n, w1))"

section \<open>The administrator\<close>

definition ADMIN_UNIVERSITY_NAMES :: "string list" where
  "ADMIN_UNIVERSITY_NAMES =
     (let q = [CHR 0xE2, CHR 0x80, CHR 0x98] in
      [''Mirzo Ulug'' @ q @ ''bek nomidagi O'' @ q @ ''zbekiston Milliy universiteti'',
       ''Miroz Ulog'bek nomidagi O'zbekiston Milliy Universiteti'',
       ''O'zbekiston Milliy Universiteti''])"

definition resolve_admin_university :: "externals \<Rightarrow> university list \<Rightarrow> university res" where
  "resolve_admin_university x us =
     (case us of
        [] \<Rightarrow> Inl (RuntimeError ''Seed failed: admin user cannot be created without a university.'')
      | u # _ \<Rightarrow>
          (case List.map_filter (\<lambda>n. find (\<lambda>u. un_slug u = slugify x n) us) ADMIN_UNIVERSITY_NAMES of
             [] \<Rightarrow> Inr u
           | v # _ \<Rightarrow> Inr v))"

definition seed_admin :: "externals \<Rightarrow> settings \<Rightarrow> (nat \<Rightarrow> string) \<Rightarrow> nat \<Rightarrow> int \<Rightarrow> string \<Rightarrow> user" where
  "seed_admin x st ids n now university_id =
     \<lparr>u_id = ids n, u_full_name = admin_full_name st, u_email = admin_email st, u_avatar_url = None,
      u_hashed_password = hash_password x (ids (n + 1)) (admin_password st), u_role = ADMIN,
      u_university_id = Some university_id, u_university_changed_at = None,
      u_pending_university_name = None, u_university_status = ''selected'',
      u_is_active = True, u_is_verified = True, u_created_at = now\<rparr>"

text \<open>The number of universities that were created, or None when there were some already.\<close>

definition seed ::
  "externals \<Rightarrow> settings \<Rightarrow> (nat \<Rightarrow> string) \<Rightarrow> int \<Rightarrow> seed_file \<Rightarrow> world \<Rightarrow> int option res \<times> world"
where
  "seed x st ids now f w =
     (if db_universities w \<noteq> [] then ok None w
      else
        (case load_catalog_seed_entries f of
           Inl e \<Rightarrow> fail e w
         | Inr entries \<Rightarrow>
        (case seed_catalog x ids entries w of
           Inl e \<Rightarrow> fail e w
         | Inr (us, n, w1) \<Rightarrow>
             (if us = []
              then fail (RuntimeError ''Seed failed: no valid universities found in catalog seed data.'') w
              else
                (case resolve_admin_university x us of
                   Inl e \<Rightarrow> fail e w
                 | Inr u \<Rightarrow>
                     (case create_user (seed_admin x st ids n now (un_id u)) w1 of
                        (Inl e, _) \<Rightarrow> fail e w
                      | (Inr _, w2) \<Rightarrow> ok (Some (int (length us))) w2))))))"

end
