(* ===== verification/SeedFacts.thy ===== *)
theory SeedFacts
  imports Seed CatalogFacts Lifecycle
begin

text \<open>
  What the first import leaves: a catalog that keeps its constraints, with exactly the named
  universities and faculties of the file, and an administrator; or, when it fails, nothing.
\<close>

definition seeded_ids :: "(nat \<Rightarrow> string) \<Rightarrow> nat \<Rightarrow> world \<Rightarrow> bool" where
  "seeded_ids ids n w \<longleftrightarrow> catalog_ok w \<and>
     ids_of un_id (db_universities w) \<union> ids_of fa_id (db_faculties w) \<union> ids_of su_id (db_subjects w)
       \<subseteq> ids ` {..<n}"

lemma seeded_ids_fresh:
  assumes "seeded_ids ids n w" "inj ids"
  shows "ids n \<notin> ids_of un_id (db_universities w)" "ids n \<notin> ids_of fa_id (db_faculties w)"
    "ids n \<notin> ids_of su_id (db_subjects w)"
proof -
  have "ids n \<notin> ids ` {..<n}" using assms(2) by (auto simp: inj_eq)
  with assms(1) show "ids n \<notin> ids_of un_id (db_universities w)" "ids n \<notin> ids_of fa_id (db_faculties w)"
    "ids n \<notin> ids_of su_id (db_subjects w)" by (auto simp: seeded_ids_def)
qed

text \<open>An insertion with a fresh identifier and a free slug succeeds.\<close>

lemma insert_fresh:
  assumes "seeded_ids ids n w" "inj ids"
  shows "u \<notin> un_slug ` set (db_universities w) \<Longrightarrow>
      \<exists>w'. insert_university \<lparr>un_id = ids n, un_name = nm, un_slug = u\<rparr> w = Inr w' \<and>
        w' = w\<lparr>db_universities := db_universities w @ [\<lparr>un_id = ids n, un_name = nm, un_slug = u\<rparr>]\<rparr> \<and>
        seeded_ids ids (n + 1) w'"
    and "get_university p w \<noteq> None \<Longrightarrow> (p, u) \<notin> (\<lambda>f. (fa_university_id f, fa_slug f)) ` set (db_faculties w) \<Longrightarrow>
      \<exists>w'. insert_faculty \<lparr>fa_id = ids n, fa_university_id = p, fa_name = nm, fa_slug = u\<rparr> w = Inr w' \<and>
        w' = w\<lparr>db_faculties := db_faculties w @ [\<lparr>fa_id = ids n, fa_university_id = p, fa_name = nm, fa_slug = u\<rparr>]\<rparr> \<and>
        seeded_ids ids (n + 1) w'"
    and "get_faculty p w \<noteq> None \<Longrightarrow> (p, u) \<notin> (\<lambda>s. (su_faculty_id s, su_slug s)) ` set (db_subjects w) \<Longrightarrow>
      \<exists>w' s. insert_subject \<lparr>su_id = ids n, su_faculty_id = p, su_name = nm, su_slug = u, su_code = None,
          su_description = None\<rparr> w = Inr w' \<and>
        w' = w\<lparr>db_subjects := db_subjects w @ [s]\<rparr> \<and> su_faculty_id s = p \<and> su_slug s = u \<and>
        seeded_ids ids (n + 1) w'"
proof -
  note fresh = seeded_ids_fresh [OF assms]
  have ok: "catalog_ok w" using assms(1) by (simp add: seeded_ids_def)
  have more: "ids ` {..<n + 1} = insert (ids n) (ids ` {..<n})" by (auto simp: less_Suc_eq)
  show "\<exists>w'. insert_university \<lparr>un_id = ids n, un_name = nm, un_slug = u\<rparr> w = Inr w' \<and>
        w' = w\<lparr>db_universities := db_universities w @ [\<lparr>un_id = ids n, un_name = nm, un_slug = u\<rparr>]\<rparr> \<and>
        seeded_ids ids (n + 1) w'" if "u \<notin> un_slug ` set (db_universities w)"
  proof -
    let ?u = "\<lparr>un_id = ids n, un_name = nm, un_slug = u\<rparr>"
    have ins: "insert_university ?u w = Inr (w\<lparr>db_universities := db_universities w @ [?u]\<rparr>)"
      using fresh(1) that unfolding insert_university_def list_ex_iff ids_of_def by (fastforce simp: image_iff)
    with insert_university_ok [OF ok this] assms(1) more show ?thesis by (auto simp: seeded_ids_def)
  qed
  show "\<exists>w'. insert_faculty \<lparr>fa_id = ids n, fa_university_id = p, fa_name = nm, fa_slug = u\<rparr> w = Inr w' \<and>
        w' = w\<lparr>db_faculties := db_faculties w @ [\<lparr>fa_id = ids n, fa_university_id = p, fa_name = nm, fa_slug = u\<rparr>]\<rparr> \<and>
        seeded_ids ids (n + 1) w'"
    if "get_university p w \<noteq> None" "(p, u) \<notin> (\<lambda>f. (fa_university_id f, fa_slug f)) ` set (db_faculties w)"
  proof -
    let ?f = "\<lparr>fa_id = ids n, fa_university_id = p, fa_name = nm, fa_slug = u\<rparr>"
    have ins: "insert_faculty ?f w = Inr (w\<lparr>db_faculties := db_faculties w @ [?f]\<rparr>)"
      using fresh(2) that unfolding insert_faculty_def list_ex_iff ids_of_def by (fastforce simp: image_iff)
    with insert_faculty_ok [OF ok this] assms(1) more show ?thesis by (auto simp: seeded_ids_def)
  qed
  show "\<exists>w' s. insert_subject \<lparr>su_id = ids n, su_faculty_id = p, su_name = nm, su_slug = u, su_code = None,
          su_description = None\<rparr> w = Inr w' \<and>
        w' = w\<lparr>db_subjects := db_subjects w @ [s]\<rparr> \<and> su_faculty_id s = p \<and> su_slug s = u \<and>
        seeded_ids ids (n + 1) w'"
    if "get_faculty p w \<noteq> None" "(p, u) \<notin> (\<lambda>s. (su_faculty_id s, su_slug s)) ` set (db_subjects w)"
  proof -
    let ?s = "\<lparr>su_id = ids n, su_faculty_id = p, su_name = nm, su_slug = u, su_code = None, su_description = None\<rparr>"
    have ins: "insert_subject ?s w = Inr (w\<lparr>db_subjects := db_subjects w @ [?s]\<rparr>)"
      using fresh(3) that unfolding insert_subject_def list_ex_iff ids_of_def by (fastforce simp: image_iff)
    with insert_subject_ok [OF ok this] assms(1) more show ?thesis
      by (intro exI [of _ "w\<lparr>db_subjects := db_subjects w @ [?s]\<rparr>"] exI [of _ ?s]) (auto simp: seeded_ids_def)
  qed
qed

lemma json_errors:
  "json_iter v = Inl e \<Longrightarrow> e = TypeError"
  "name_of v = Inl e \<Longrightarrow> e = RuntimeError ''AttributeError''"
  by (auto simp: json_iter_def name_of_def json_get_def split: json.splits)

lemma seed_subjects_effect:
  assumes "inj ids" "seeded_ids ids n w" "get_faculty p w \<noteq> None"
    and "\<And>s. s \<in> set (db_subjects w) \<Longrightarrow> su_faculty_id s = p \<Longrightarrow> su_slug s \<in> set seen"
  shows "case seed_subjects x ids p seen entries (n, w) of
      Inl e \<Rightarrow> e \<noteq> IntegrityError
    | Inr (n', w') \<Rightarrow> seeded_ids ids n' w' \<and> w' = w\<lparr>db_subjects := db_subjects w'\<rparr> \<and>
        (\<forall>s. s \<in> set (db_subjects w') \<longrightarrow> s \<in> set (db_subjects w) \<or> su_faculty_id s = p)"
  using assms(2-)
proof (induction entries arbitrary: n w seen)
  case (Cons entry entries)
  show ?case
  proof (cases "name_of entry")
    case (Inl e)
    then show ?thesis using json_errors(2) [OF Inl] by simp
  next
    case (Inr nm)
    let ?slug = "slugify x nm"
    show ?thesis
    proof (cases "nm = [] \<or> ?slug \<in> set seen")
      case True
      with Cons.IH [OF Cons.prems] Inr show ?thesis by (simp add: Let_def)
    next
      case False
      with Cons.prems(3) have "(p, ?slug) \<notin> (\<lambda>s. (su_faculty_id s, su_slug s)) ` set (db_subjects w)" by auto
      from insert_fresh(3) [OF Cons.prems(1) assms(1) Cons.prems(2) this, of nm]
      obtain w1 s where w1: "insert_subject \<lparr>su_id = ids n, su_faculty_id = p, su_name = nm,
            su_slug = ?slug, su_code = None, su_description = None\<rparr> w = Inr w1"
          and w1_eq: "w1 = w\<lparr>db_subjects := db_subjects w @ [s]\<rparr>" and s: "su_faculty_id s = p" "su_slug s = ?slug"
          and ok: "seeded_ids ids (n + 1) w1" by blast
      have "get_faculty p w1 \<noteq> None" using Cons.prems(2) by (simp add: w1_eq get_faculty_def)
      from Cons.IH [OF ok this, of "?slug # seen"] Cons.prems(3) s
      have "case seed_subjects x ids p (?slug # seen) entries (n + 1, w1) of
          Inl e \<Rightarrow> e \<noteq> IntegrityError
        | Inr (n', w') \<Rightarrow> seeded_ids ids n' w' \<and> w' = w1\<lparr>db_subjects := db_subjects w'\<rparr> \<and>
            (\<forall>s. s \<in> set (db_subjects w') \<longrightarrow> s \<in> set (db_subjects w1) \<or> su_faculty_id s = p)"
        by (auto simp: w1_eq)
      moreover have "seed_subjects x ids p seen (entry # entries) (n, w) =
          seed_subjects x ids p (?slug # seen) entries (n + 1, w1)"
        using Inr False w1 by (simp add: Let_def)
      ultimately show ?thesis using s by (auto simp: w1_eq split: sum.splits)
    qed
  qed
qed simp

lemma unique_slug_free: "unique_slug b used \<notin> set used"
  unfolding unique_slug_def by (rule free_slug_free)

lemma seed_faculties_effect:
  assumes "inj ids" "seeded_ids ids n w" "get_university u w \<noteq> None"
    and "\<And>f. f \<in> set (db_faculties w) \<Longrightarrow> fa_university_id f = u \<Longrightarrow> fa_slug f \<in> set used"
  shows "case seed_faculties x ids u used fs (n, w) of
      Inl e \<Rightarrow> e \<noteq> IntegrityError
    | Inr (n', w') \<Rightarrow> seeded_ids ids n' w' \<and>
        w' = w\<lparr>db_faculties := db_faculties w', db_subjects := db_subjects w'\<rparr> \<and>
        map fa_name (db_faculties w') = map fa_name (db_faculties w) @ map fst fs \<and>
        (\<forall>f. f \<in> set (db_faculties w') \<longrightarrow> f \<in> set (db_faculties w) \<or> fa_university_id f = u)"
  using assms(2-)
proof (induction fs arbitrary: n w used)
  case (Cons p fs)
  obtain nm subjects where p: "p = (nm, subjects)" by fastforce
  let ?slug = "unique_slug (slugify x nm) used"
  let ?f = "\<lparr>fa_id = ids n, fa_university_id = u, fa_name = nm, fa_slug = ?slug\<rparr>"
  have "(u, ?slug) \<notin> (\<lambda>f. (fa_university_id f, fa_slug f)) ` set (db_faculties w)"
    using Cons.prems(3) unique_slug_free [of "slugify x nm" used] by auto
  from insert_fresh(2) [OF Cons.prems(1) assms(1) Cons.prems(2) this, of nm]
  obtain w1 where w1: "insert_faculty ?f w = Inr w1" "w1 = w\<lparr>db_faculties := db_faculties w @ [?f]\<rparr>"
    and ok: "seeded_ids ids (n + 1) w1" by blast
  show ?case
  proof (cases "json_iter subjects")
    case (Inl e)
    with json_errors(1) [OF Inl] w1(1) show ?thesis by (simp add: p Let_def)
  next
    case (Inr entries)
    have "get_faculty (ids n) w1 \<noteq> None"
      unfolding getters_in(2) by (simp add: w1(2) ids_of_def)
    moreover have none: "su_slug s \<in> set []" if "s \<in> set (db_subjects w1)" "su_faculty_id s = ids n" for s
    proof -
      have "refer (Some \<circ> su_faculty_id) (db_subjects w) (ids_of fa_id (db_faculties w))"
        using Cons.prems(1) by (simp add: seeded_ids_def catalog_ok_def Let_def)
      with that seeded_ids_fresh(2) [OF Cons.prems(1) assms(1)] show ?thesis
        by (auto simp: w1(2) refer_def)
    qed
    ultimately have subs: "case seed_subjects x ids (ids n) [] entries (n + 1, w1) of
      Inl e \<Rightarrow> e \<noteq> IntegrityError
    | Inr (n', w') \<Rightarrow> seeded_ids ids n' w' \<and> w' = w1\<lparr>db_subjects := db_subjects w'\<rparr> \<and>
        (\<forall>s. s \<in> set (db_subjects w') \<longrightarrow> s \<in> set (db_subjects w1) \<or> su_faculty_id s = ids n)"
      using seed_subjects_effect [OF assms(1) ok, of "ids n" "[]"] by blast
    show ?thesis
    proof (cases "seed_subjects x ids (ids n) [] entries (n + 1, w1)")
      case (Inl e)
      with subs w1(1) Inr show ?thesis by (simp add: p Let_def)
    next
      case inner: (Inr q)
      obtain n2 w2 where q: "q = (n2, w2)" by fastforce
      from subs inner q have ok2: "seeded_ids ids n2 w2" and w2: "w2 = w1\<lparr>db_subjects := db_subjects w2\<rparr>" by auto
      have "get_university u w2 \<noteq> None"
        using Cons.prems(2) by (subst w2) (simp add: w1(2) get_university_def)
      moreover have tables: "db_faculties w2 = db_faculties w @ [?f]" by (subst w2) (simp add: w1(2))
      moreover have "fa_slug f \<in> set (?slug # used)"
        if "f \<in> set (db_faculties w2)" "fa_university_id f = u" for f
      proof (cases "f = ?f")
        case True
        then show ?thesis by simp
      next
        case False
        with that(1) have "f \<in> set (db_faculties w)" by (simp add: tables)
        with Cons.prems(3) that(2) show ?thesis by simp
      qed
      ultimately have "case seed_faculties x ids u (?slug # used) fs (n2, w2) of
          Inl e \<Rightarrow> e \<noteq> IntegrityError
        | Inr (n', w') \<Rightarrow> seeded_ids ids n' w' \<and>
            w' = w2\<lparr>db_faculties := db_faculties w', db_subjects := db_subjects w'\<rparr> \<and>
            map fa_name (db_faculties w') = map fa_name (db_faculties w2) @ map fst fs \<and>
            (\<forall>f. f \<in> set (db_faculties w') \<longrightarrow> f \<in> set (db_faculties w2) \<or> fa_university_id f = u)"
        by (intro Cons.IH [OF ok2])
      moreover have "seed_faculties x ids u used (p # fs) (n, w) = seed_faculties x ids u (?slug # used) fs (n2, w2)"
        using w1(1) Inr inner by (simp add: p q Let_def)
      moreover have "w2\<lparr>db_faculties := a, db_subjects := b\<rparr> = w\<lparr>db_faculties := a, db_subjects := b\<rparr>" for a b
        by (subst w2) (simp add: w1(2))
      ultimately show ?thesis by (auto simp: tables p split: sum.splits)
    qed
  qed
qed simp

text \<open>What the file says: the named entries, and their faculties.\<close>

definition entry_name :: "json \<Rightarrow> string" where
  "entry_name entry = (case name_of entry of Inl _ \<Rightarrow> [] | Inr n \<Rightarrow> n)"

definition named_entries :: "json list \<Rightarrow> json list" where
  "named_entries entries = filter (\<lambda>e. entry_name e \<noteq> []) entries"

definition entry_faculties :: "json \<Rightarrow> string list" where
  "entry_faculties entry = (case extract_faculty_entries entry of Inl _ \<Rightarrow> [] | Inr fs \<Rightarrow> map fst fs)"

lemma map_res_error: "map_res f xs = Inl e \<Longrightarrow> \<exists>x\<in>set xs. f x = Inl e"
  by (induction xs) (auto split: sum.splits)

lemma extract_error: "extract_faculty_entries v = Inl e \<Longrightarrow> e \<noteq> IntegrityError"
  by (auto simp: extract_faculty_entries_def unit_entry_def json_get_def dest!: json_errors(1) map_res_error
      split: sum.splits json.splits if_splits)

lemma seed_universities_effect:
  assumes "inj ids" "seeded_ids ids n w" "un_slug ` set (db_universities w) \<subseteq> set used"
  shows "case seed_universities x ids used entries (n, w) of
      Inl e \<Rightarrow> e \<noteq> IntegrityError
    | Inr (n', w') \<Rightarrow> seeded_ids ids n' w' \<and>
        w' = w\<lparr>db_universities := db_universities w', db_faculties := db_faculties w', db_subjects := db_subjects w'\<rparr> \<and>
        (\<exists>us. db_universities w' = db_universities w @ us) \<and>
        map un_name (db_universities w') = map un_name (db_universities w) @ map entry_name (named_entries entries) \<and>
        map fa_name (db_faculties w') = map fa_name (db_faculties w) @ concat (map entry_faculties (named_entries entries))"
  using assms(2-)
proof (induction entries arbitrary: n w used)
  case (Cons entry entries)
  show ?case
  proof (cases "name_of entry")
    case (Inl e)
    then show ?thesis using json_errors(2) [OF Inl] by simp
  next
    case (Inr nm)
    show ?thesis
    proof (cases "nm = []")
      case True
      then have "named_entries (entry # entries) = named_entries entries"
        by (simp add: named_entries_def entry_name_def Inr)
      moreover have "seed_universities x ids used (entry # entries) (n, w) = seed_universities x ids used entries (n, w)"
        using True Inr by simp
      ultimately show ?thesis using Cons.IH [OF Cons.prems] by (simp only:)
    next
      case False
      let ?slug = "unique_slug (slugify x nm) used"
      let ?u = "\<lparr>un_id = ids n, un_name = nm, un_slug = ?slug\<rparr>"
      have "?slug \<notin> un_slug ` set (db_universities w)" using Cons.prems(2) unique_slug_free [of "slugify x nm" used] by blast
      from insert_fresh(1) [OF Cons.prems(1) assms(1) this, of nm]
      obtain w1 where w1: "insert_university ?u w = Inr w1" "w1 = w\<lparr>db_universities := db_universities w @ [?u]\<rparr>"
        and ok: "seeded_ids ids (n + 1) w1" by blast
      show ?thesis
      proof (cases "extract_faculty_entries entry")
        case (Inl e)
        with extract_error [OF Inl] w1(1) Inr False show ?thesis by (simp add: Let_def)
      next
        case fs: (Inr fs)
        have "get_university (ids n) w1 \<noteq> None"
          unfolding getters_in(1) by (simp add: w1(2) ids_of_def)
        moreover have "fa_slug f \<in> set []" if "f \<in> set (db_faculties w1)" "fa_university_id f = ids n" for f
        proof -
          have "refer (Some \<circ> fa_university_id) (db_faculties w) (ids_of un_id (db_universities w))"
            using Cons.prems(1) by (simp add: seeded_ids_def catalog_ok_def Let_def)
          with that seeded_ids_fresh(1) [OF Cons.prems(1) assms(1)] show ?thesis
            by (auto simp: w1(2) refer_def)
        qed
        ultimately have facs: "case seed_faculties x ids (ids n) [] fs (n + 1, w1) of
            Inl e \<Rightarrow> e \<noteq> IntegrityError
          | Inr (n', w') \<Rightarrow> seeded_ids ids n' w' \<and>
              w' = w1\<lparr>db_faculties := db_faculties w', db_subjects := db_subjects w'\<rparr> \<and>
              map fa_name (db_faculties w') = map fa_name (db_faculties w1) @ map fst fs \<and>
              (\<forall>f. f \<in> set (db_faculties w') \<longrightarrow> f \<in> set (db_faculties w1) \<or> fa_university_id f = ids n)"
          using seed_faculties_effect [OF assms(1) ok, of "ids n" "[]"] by blast
        show ?thesis
        proof (cases "seed_faculties x ids (ids n) [] fs (n + 1, w1)")
          case (Inl e)
          with facs w1(1) Inr fs False show ?thesis by (simp add: Let_def)
        next
          case inner: (Inr q)
          obtain n2 w2 where q: "q = (n2, w2)" by fastforce
          from facs inner q have ok2: "seeded_ids ids n2 w2"
            and w2: "w2 = w1\<lparr>db_faculties := db_faculties w2, db_subjects := db_subjects w2\<rparr>"
            and names: "map fa_name (db_faculties w2) = map fa_name (db_faculties w1) @ map fst fs" by auto
          have us: "db_universities w2 = db_universities w @ [?u]" by (subst w2) (simp add: w1(2))
          have fnames: "map fa_name (db_faculties w2) = map fa_name (db_faculties w) @ entry_faculties entry"
            using names fs by (simp add: w1(2) entry_faculties_def)
          have "un_slug ` set (db_universities w2) \<subseteq> set (?slug # used)" using Cons.prems(2) by (auto simp: us)
          note IH = Cons.IH [OF ok2 this]
          have run: "seed_universities x ids used (entry # entries) (n, w) = seed_universities x ids (?slug # used) entries (n2, w2)"
            using w1(1) Inr fs inner False by (simp add: q Let_def)
          have frame: "w2\<lparr>db_universities := a, db_faculties := b, db_subjects := c\<rparr> =
              w\<lparr>db_universities := a, db_faculties := b, db_subjects := c\<rparr>" for a b c
            by (subst w2) (simp add: w1(2))
          have "entry_name entry = nm" by (simp add: entry_name_def Inr)
          with IH False show ?thesis unfolding run
            by (auto simp: us fnames frame named_entries_def split: sum.splits)
        qed
      qed
    qed
  qed
qed (simp add: named_entries_def)

text \<open>The university of the administrator is one of the file's, unless there is none.\<close>

lemma map_filter_in: "v \<in> set (List.map_filter g xs) \<Longrightarrow> \<exists>n. g n = Some v"
  by (auto simp: List.map_filter_def)

lemma admin_university:
  "us \<noteq> [] \<Longrightarrow> \<exists>u. resolve_admin_university x us = Inr u \<and> u \<in> set us"
proof -
  assume "us \<noteq> []"
  then obtain u rest where us: "us = u # rest" by (cases us) auto
  let ?found = "List.map_filter (\<lambda>n. find (\<lambda>u. un_slug u = slugify x n) us) ADMIN_UNIVERSITY_NAMES"
  have "v \<in> set us" if "v \<in> set ?found" for v
    using map_filter_in [OF that] by (auto simp: find_Some_iff)
  then show ?thesis using us
    by (cases ?found) (auto simp: resolve_admin_university_def)
qed

lemma seed_catalog_effect:
  assumes "catalog_ok w" "inj ids" "db_universities w = []"
  shows "case seed_catalog x ids entries w of
      Inl e \<Rightarrow> e \<noteq> IntegrityError
    | Inr (us, n, w') \<Rightarrow> catalog_ok w' \<and> us = db_universities w' \<and>
        w' = w\<lparr>db_universities := db_universities w', db_faculties := db_faculties w', db_subjects := db_subjects w'\<rparr> \<and>
        map un_name us = map entry_name (named_entries entries) \<and>
        map fa_name (db_faculties w') = concat (map entry_faculties (named_entries entries))"
proof -
  have fs: "db_faculties w = []"
    using assms(1,3) by (cases "db_faculties w") (auto simp: catalog_ok_def Let_def refer_def ids_of_def)
  have ss: "db_subjects w = []"
    using assms(1) fs by (cases "db_subjects w") (auto simp: catalog_ok_def Let_def refer_def ids_of_def)
  have "seeded_ids ids 0 w" using assms fs ss by (simp add: seeded_ids_def ids_of_def)
  from seed_universities_effect [OF assms(2) this, where used = "[]" and x = x and entries = entries] assms(3) fs
  show ?thesis by (auto simp: seed_catalog_def seeded_ids_def split: sum.splits)
qed

text \<open>What a first import that succeeds leaves.\<close>

definition seeded :: "externals \<Rightarrow> settings \<Rightarrow> json list \<Rightarrow> world \<Rightarrow> user \<Rightarrow> world \<Rightarrow> bool" where
  "seeded x st entries w admin w' \<longleftrightarrow>
     catalog_ok w' \<and>
     map un_name (db_universities w') = map entry_name (named_entries entries) \<and>
     map fa_name (db_faculties w') = concat (map entry_faculties (named_entries entries)) \<and>
     db_users w' = db_users w @ [admin] \<and>
     u_email admin = admin_email st \<and> u_role admin = ADMIN \<and> u_is_active admin \<and> u_is_verified admin \<and>
     (\<forall>p. verify_password x p (u_hashed_password admin) = (p = admin_password st)) \<and>
     u_university_id admin \<in> Some ` ids_of un_id (db_universities w') \<and>
     w' = w\<lparr>db_universities := db_universities w', db_faculties := db_faculties w', db_subjects := db_subjects w',
            db_users := db_users w'\<rparr>"

lemma seed_admin_created:
  assumes "catalog_ok w1" "argon2_laws x" "u \<in> set (db_universities w1)" "get_user_by_email (admin_email st) w1 = None"
    and "w1 = w\<lparr>db_universities := db_universities w1, db_faculties := db_faculties w1, db_subjects := db_subjects w1\<rparr>"
    and "map un_name (db_universities w1) = map entry_name (named_entries entries)"
    and "map fa_name (db_faculties w1) = concat (map entry_faculties (named_entries entries))"
  shows "\<exists>w2. create_user (seed_admin x st ids n now (un_id u)) w1 = (Inr (), w2) \<and>
      db_universities w2 = db_universities w1 \<and> seeded x st entries w (seed_admin x st ids n now (un_id u)) w2"
proof -
  let ?a = "seed_admin x st ids n now (un_id u)"
  define w2 where "w2 = w1\<lparr>db_users := db_users w1 @ [?a]\<rparr>"
  have tables: "db_universities w2 = db_universities w1" "db_faculties w2 = db_faculties w1"
    "db_subjects w2 = db_subjects w1" "db_users w2 = db_users w1 @ [?a]" by (simp_all add: w2_def)
  have "get_university (un_id u) w1 \<noteq> None" using assms(3) unfolding getters_in(1) by (auto simp: ids_of_def)
  then have created: "create_user ?a w1 = (Inr (), w2)"
    using assms(4) by (simp add: create_user_def seed_admin_def w2_def)
  have ok: "catalog_ok w2"
    using assms(1,3) by (simp add: catalog_ok_def Let_def seed_admin_def ids_of_def w2_def)
  have users: "db_users w1 = db_users w" by (subst assms(5)) simp
  have frame: "w2 = w\<lparr>db_universities := db_universities w2, db_faculties := db_faculties w2,
      db_subjects := db_subjects w2, db_users := db_users w2\<rparr>"
    unfolding tables unfolding w2_def by (subst (1) assms(5)) simp
  have "u_email ?a = admin_email st" "u_role ?a = ADMIN" "u_is_active ?a" "u_is_verified ?a"
      "\<forall>p. verify_password x p (u_hashed_password ?a) = (p = admin_password st)"
      "u_university_id ?a \<in> Some ` ids_of un_id (db_universities w2)"
    using assms(2,3) by (auto simp: seed_admin_def verify_hash tables ids_of_def)
  moreover have "map un_name (db_universities w2) = map entry_name (named_entries entries)"
    "map fa_name (db_faculties w2) = concat (map entry_faculties (named_entries entries))"
    "db_users w2 = db_users w @ [?a]"
    using assms(6,7) by (simp_all only: tables users)
  ultimately have "seeded x st entries w ?a w2"
    unfolding seeded_def using ok frame by (intro conjI)
  with created tables(1) show ?thesis by blast
qed


definition first_ids :: "nat \<Rightarrow> string" where
  "first_ids n = replicate n (CHR ''i'')"

definition first_import :: "int option res \<times> world" where
  "first_import = seed reference_externals default_settings first_ids 5 NoSeedFile empty_world"

lemma first_import_result: "fst first_import = Inr (Some 1)"
  by code_simp


end
