(* ===== verification/UserApi.thy ===== *)
theory UserApi
  imports StaffApi Users
begin

text \<open>
  The endpoints of a signed-in user about himself, \<^verbatim>\<open>users/api.py\<close> and \<^verbatim>\<open>notifications/api.py\<close>, and
  the public ones of the catalog, \<^verbatim>\<open>catalog/universities_api.py\<close>, \<^verbatim>\<open>faculties_api.py\<close> and
  \<^verbatim>\<open>subjects_api.py\<close>. All requests of a user that change something are one type, \<open>user_request\<close>.
\<close>

section \<open>The signed-in user\<close>

definition signed_in ::
  "externals \<Rightarrow> 'r redis \<Rightarrow> settings \<Rightarrow> int \<Rightarrow> string \<Rightarrow> world \<Rightarrow> 'r kv \<Rightarrow> (user \<Rightarrow> 'a res \<times> world) \<Rightarrow>
   'a res \<times> world \<times> 'r kv"
where
  "signed_in x r st now token w s handler =
     authenticated x r st now token w s (\<lambda>user s1. with_store (handler user) s1)"

definition profile_endpoint where
  "profile_endpoint x r st now token w s =
     signed_in x r st now token w s (\<lambda>user. reading w (Inr (user_read_of user)))"

definition update_me_endpoint where
  "update_me_endpoint x r st ids now token payload w s =
     signed_in x r st now token w s (\<lambda>user. answer user_read_of (update_me ids now user payload w))"

definition change_password_endpoint where
  "change_password_endpoint x r st ids now token current_password new_password w s =
     signed_in x r st now token w s (\<lambda>user.
       answer (\<lambda>_. ''Parol o'zgartirildi'') (change_password x ids now user current_password new_password w))"

text \<open>The answer requires an identifier.\<close>

definition update_home_university_endpoint where
  "update_home_university_endpoint x r st now token university_id w s =
     signed_in x r st now token w s (\<lambda>user.
       answer (\<lambda>home. (''Asosiy universitet yangilandi'', the home)) (update_home_university now user university_id w))"

record user_preference_read =
  pr_language :: string
  pr_email_notifications :: bool
  pr_marketing_notifications :: bool
  pr_theme :: string

definition preference_read_of :: "user_preference \<Rightarrow> user_preference_read" where
  "preference_read_of p =
     \<lparr>pr_language = pf_language p, pr_email_notifications = pf_email_notifications p,
      pr_marketing_notifications = pf_marketing_notifications p, pr_theme = pf_theme p\<rparr>"

definition get_preferences_endpoint where
  "get_preferences_endpoint x r st ids now token w s =
     signed_in x r st now token w s (\<lambda>user. answer preference_read_of (get_preferences ids user w))"

definition update_preferences_endpoint where
  "update_preferences_endpoint x r st ids now token payload w s =
     signed_in x r st now token w s (\<lambda>user. answer preference_read_of (update_preferences ids now user payload w))"

section \<open>Lists\<close>

definition current_user_materials_endpoint where
  "current_user_materials_endpoint x r st now token status q w s =
     signed_in x r st now token w s (\<lambda>user. reading w (current_user_materials x user status q w))"

definition current_user_university_proposals_endpoint where
  "current_user_university_proposals_endpoint x r st now token w s =
     signed_in x r st now token w s (\<lambda>user. reading w (Inr
       (map (build_catalog_proposal_read w ''university'' (Some user) \<circ> UniversityProposal)
         (list_user_proposals up_created_by up_created_at (db_university_proposals w) user))))"

definition current_user_faculty_proposals_endpoint where
  "current_user_faculty_proposals_endpoint x r st now token w s =
     signed_in x r st now token w s (\<lambda>user. reading w (Inr
       (map (build_catalog_proposal_read w ''faculty'' (Some user) \<circ> FacultyProposal)
         (list_user_proposals fp_created_by fp_created_at (db_faculty_proposals w) user))))"

definition current_user_subject_proposals_endpoint where
  "current_user_subject_proposals_endpoint x r st now token w s =
     signed_in x r st now token w s (\<lambda>user. reading w (Inr
       (map (build_catalog_proposal_read w ''subject'' (Some user) \<circ> SubjectProposal)
         (list_user_proposals sp_created_by sp_created_at (db_subject_proposals w) user))))"

definition list_saved_materials_endpoint where
  "list_saved_materials_endpoint x r st now token w s =
     signed_in x r st now token w s (\<lambda>user. reading w (Inr (saved_materials_response user w)))"

definition list_downloaded_materials_endpoint where
  "list_downloaded_materials_endpoint x r st now token w s =
     signed_in x r st now token w s (\<lambda>user. reading w (Inr (downloaded_materials_response user w)))"

section \<open>Saved materials, the avatar, notifications\<close>

definition save_material_endpoint where
  "save_material_endpoint x r st ids now token material_id w s =
     signed_in x r st now token w s (\<lambda>user.
       answer (\<lambda>_. ''Material saqlandi'') (save_material_for_user ids now material_id user w))"

definition remove_saved_material_endpoint where
  "remove_saved_material_endpoint x r st ids now token material_id w s =
     signed_in x r st now token w s (\<lambda>user.
       answer (\<lambda>_. ''Saqlangan material o'chirildi'') (remove_saved_material ids now material_id user w))"

definition clear_saved_materials_endpoint where
  "clear_saved_materials_endpoint x r st ids now token w s =
     signed_in x r st now token w s (\<lambda>user.
       answer (\<lambda>_. ''Saqlangan materiallar tozalandi'') (clear_saved_materials ids now user w))"

definition upload_avatar_endpoint where
  "upload_avatar_endpoint x r st sp guess now token f w s =
     signed_in x r st now token w s (\<lambda>user. answer user_read_of (upload_avatar sp guess now user f w))"

definition delete_avatar_endpoint where
  "delete_avatar_endpoint x r st sp now token w s =
     signed_in x r st now token w s (\<lambda>user. answer user_read_of (delete_avatar sp user w))"

record notification_read =
  nr_id :: string
  nr_title :: string
  nr_body :: string
  nr_is_read :: bool
  nr_created_at :: int

definition notification_read_of :: "notification \<Rightarrow> notification_read" where
  "notification_read_of n =
     \<lparr>nr_id = no_id n, nr_title = no_title n, nr_body = no_body n, nr_is_read = no_is_read n,
      nr_created_at = no_created_at n\<rparr>"

definition list_notifications_endpoint where
  "list_notifications_endpoint x r st now token w s =
     signed_in x r st now token w s (\<lambda>user. reading w (Inr (map notification_read_of (list_notifications user w))))"

definition mark_notification_read_endpoint where
  "mark_notification_read_endpoint x r st now token notification_id w s =
     signed_in x r st now token w s (\<lambda>user.
       answer notification_read_of (mark_notification_read notification_id user w))"

definition mark_all_notifications_read_endpoint where
  "mark_all_notifications_read_endpoint x r st now token w s =
     signed_in x r st now token w s (\<lambda>user. map_prod Inr id (mark_all_notifications_read user w))"

section \<open>The public catalog\<close>

text \<open>The schemas have the fields of the rows.\<close>

definition list_universities_endpoint :: "world \<Rightarrow> university list res" where
  "list_universities_endpoint w = Inr (list_universities w)"

definition list_university_tree_endpoint :: "world \<Rightarrow> university_tree list res" where
  "list_university_tree_endpoint w = Inr (list_university_tree w)"

definition get_university_endpoint :: "string \<Rightarrow> world \<Rightarrow> university res" where
  "get_university_endpoint university_id w = require_university university_id w"

definition list_university_faculties_endpoint :: "string \<Rightarrow> world \<Rightarrow> faculty list res" where
  "list_university_faculties_endpoint university_id w = list_faculties university_id w"

definition get_faculty_endpoint :: "string \<Rightarrow> world \<Rightarrow> faculty res" where
  "get_faculty_endpoint faculty_id w = require_faculty faculty_id w"

definition list_faculty_subjects_endpoint :: "string \<Rightarrow> world \<Rightarrow> subject list res" where
  "list_faculty_subjects_endpoint faculty_id w = list_subjects faculty_id w"

definition get_subject_endpoint :: "string \<Rightarrow> world \<Rightarrow> subject res" where
  "get_subject_endpoint subject_id w = require_subject subject_id w"

definition subject_materials :: "externals \<Rightarrow> string \<Rightarrow> int \<Rightarrow> int \<Rightarrow> world \<Rightarrow> material_read page res" where
  "subject_materials x subject_id n page_size w =
     (case build_list_query None (default_query\<lparr>lq_subject_id := Some subject_id, lq_page := n, lq_page_size := page_size\<rparr>) of
        Inl e \<Rightarrow> Inl e
      | Inr query \<Rightarrow>
          (let (items, total) = list_public x query w
           in Inr \<lparr>pg_items = rated_read w items, pg_page = n, pg_page_size = page_size, pg_total = total\<rparr>))"

section \<open>All requests of a user that change something\<close>

datatype user_request =
    UpdateMe user_update_me
  | ChangePassword string string
  | UpdateHomeUniversity string
  | GetPreferences
  | UpdatePreferences preference_update
  | SaveMaterial string
  | RemoveSavedMaterial string
  | ClearSavedMaterials
  | UploadAvatar avatar_upload
  | DeleteAvatar
  | MarkNotificationRead string
  | MarkAllNotificationsRead

fun user_endpoint ::
  "externals \<Rightarrow> 'r redis \<Rightarrow> settings \<Rightarrow> provider \<Rightarrow> (string \<Rightarrow> string option) \<Rightarrow> (nat \<Rightarrow> string) \<Rightarrow> int \<Rightarrow>
   string \<Rightarrow> user_request \<Rightarrow> world \<Rightarrow> 'r kv \<Rightarrow> unit res \<times> world \<times> 'r kv"
where
  "user_endpoint x r st sp guess ids now k (UpdateMe p) w s = outcome (update_me_endpoint x r st ids now k p w s)"
| "user_endpoint x r st sp guess ids now k (ChangePassword old new) w s =
     outcome (change_password_endpoint x r st ids now k old new w s)"
| "user_endpoint x r st sp guess ids now k (UpdateHomeUniversity i) w s =
     outcome (update_home_university_endpoint x r st now k i w s)"
| "user_endpoint x r st sp guess ids now k GetPreferences w s = outcome (get_preferences_endpoint x r st ids now k w s)"
| "user_endpoint x r st sp guess ids now k (UpdatePreferences p) w s =
     outcome (update_preferences_endpoint x r st ids now k p w s)"
| "user_endpoint x r st sp guess ids now k (SaveMaterial i) w s =
     outcome (save_material_endpoint x r st ids now k i w s)"
| "user_endpoint x r st sp guess ids now k (RemoveSavedMaterial i) w s =
     outcome (remove_saved_material_endpoint x r st ids now k i w s)"
| "user_endpoint x r st sp guess ids now k ClearSavedMaterials w s =
     outcome (clear_saved_materials_endpoint x r st ids now k w s)"
| "user_endpoint x r st sp guess ids now k (UploadAvatar f) w s =
     outcome (upload_avatar_endpoint x r st sp guess now k f w s)"
| "user_endpoint x r st sp guess ids now k DeleteAvatar w s = outcome (delete_avatar_endpoint x r st sp now k w s)"
| "user_endpoint x r st sp guess ids now k (MarkNotificationRead i) w s =
     outcome (mark_notification_read_endpoint x r st now k i w s)"
| "user_endpoint x r st sp guess ids now k MarkAllNotificationsRead w s =
     outcome (mark_all_notifications_read_endpoint x r st now k w s)"

end
