(* ===== verification/UserApiFacts.thy ===== *)
theory UserApiFacts
  imports UserApi UserFacts StaffFacts
begin

text \<open>
  What the requests of a user may change: rows of his own, none of which gives him another e-mail,
  role or state, and the objects of his avatar.
\<close>

definition others_rows :: "('r \<Rightarrow> string) \<Rightarrow> string \<Rightarrow> 'r list \<Rightarrow> 'r list" where
  "others_rows owner uid rows = filter (\<lambda>r. owner r \<noteq> uid) rows"

definition standing :: "user \<Rightarrow> string \<times> string \<times> user_role \<times> bool \<times> bool" where
  "standing u = (u_id u, u_email u, u_role u, u_is_active u, u_is_verified u)"

definition without_user_tables :: "world \<Rightarrow> world" where
  "without_user_tables w =
     w\<lparr>db_users := [], db_user_preferences := [], db_saved_materials := [], db_notifications := [],
       db_refresh_token_sessions := [], db_audit_logs := [], objects := (\<lambda>_. None)\<rparr>"

definition own_rows_only :: "string \<Rightarrow> world \<Rightarrow> world \<Rightarrow> bool" where
  "own_rows_only uid w w' \<longleftrightarrow>
     others_rows u_id uid (db_users w') = others_rows u_id uid (db_users w) \<and>
     map standing (db_users w') = map standing (db_users w) \<and>
     others_rows pf_user_id uid (db_user_preferences w') = others_rows pf_user_id uid (db_user_preferences w) \<and>
     others_rows sm_user_id uid (db_saved_materials w') = others_rows sm_user_id uid (db_saved_materials w) \<and>
     others_rows no_user_id uid (db_notifications w') = others_rows no_user_id uid (db_notifications w) \<and>
     others_rows rs_user_id uid (db_refresh_token_sessions w') =
       others_rows rs_user_id uid (db_refresh_token_sessions w) \<and>
     (\<exists>rows. db_audit_logs w' = db_audit_logs w @ rows \<and> (\<forall>a\<in>set rows. al_actor_id a = Some uid)) \<and>
     (\<forall>k. k \<notin> avatar_key uid ` set avatar_extensions \<longrightarrow> objects w' k = objects w k) \<and>
     without_user_tables w' = without_user_tables w"

lemmas own_rows_defs = own_rows_only_def without_user_tables_def

lemma own_rows_refl [simp]: "own_rows_only uid w w"
  by (simp add: own_rows_defs)

lemma own_rows_trans:
  assumes "own_rows_only uid w w1" "own_rows_only uid w1 w2"
  shows "own_rows_only uid w w2"
proof -
  obtain rows rows' where "db_audit_logs w1 = db_audit_logs w @ rows" "\<forall>a\<in>set rows. al_actor_id a = Some uid"
      "db_audit_logs w2 = db_audit_logs w1 @ rows'" "\<forall>a\<in>set rows'. al_actor_id a = Some uid"
    using assms by (auto simp: own_rows_defs)
  then have "db_audit_logs w2 = db_audit_logs w @ (rows @ rows')" "\<forall>a\<in>set (rows @ rows'). al_actor_id a = Some uid"
    by auto
  with assms show ?thesis unfolding own_rows_only_def by (simp del: set_append)
qed

lemma stored_row:
  "distinct (map k rows) \<Longrightarrow> r \<in> set rows \<Longrightarrow> k r' = k r \<Longrightarrow>
   store_row k r' rows = map (\<lambda>x. if x = r then r' else x) rows"
  by (auto simp: store_row_def update_where_def dest: distinct_map_keyed)

lemma others_rows_simps [simp]:
  "others_rows owner uid [] = []"
  "others_rows owner uid (r # rows) = (if owner r \<noteq> uid then r # others_rows owner uid rows else others_rows owner uid rows)"
  "others_rows owner uid (rows @ rows') = others_rows owner uid rows @ others_rows owner uid rows'"
  by (simp_all add: others_rows_def)

lemma others_rows_stored:
  assumes "distinct (map k rows)" "r \<in> set rows" "k r' = k r" "owner r = uid" "owner r' = uid"
  shows "others_rows owner uid (store_row k r' rows) = others_rows owner uid rows"
proof -
  have "others_rows owner uid (map (\<lambda>x. if x = r then r' else x) xs) = others_rows owner uid xs" for xs
    using assms(4,5) by (induction xs) auto
  then show ?thesis by (simp add: stored_row [OF assms(1-3)])
qed

lemma others_rows_updated:
  assumes "\<And>r. P r \<Longrightarrow> owner r = uid" "\<And>r. P r \<Longrightarrow> owner (f r) = uid"
  shows "others_rows owner uid (update_where P f rows) = others_rows owner uid rows"
  using assms by (induction rows) auto

lemma others_rows_deleted:
  assumes "\<And>r. P r \<Longrightarrow> owner r = uid"
  shows "others_rows owner uid (delete_where P rows) = others_rows owner uid rows"
  using assms by (induction rows) (auto simp: delete_where_def)

lemma map_stored:
  assumes "distinct (map k rows)" "r \<in> set rows" "k r' = k r" "f r' = f r"
  shows "map f (store_row k r' rows) = map f rows"
  using assms(4) by (simp add: stored_row [OF assms(1-3)])

text \<open>The account of the user, stored with another name, avatar or password.\<close>

lemma own_account:
  assumes "distinct (map u_id (db_users w))" "user \<in> set (db_users w)" "standing u' = standing user"
  shows "others_rows u_id (u_id user) (store_row u_id u' (db_users w)) = others_rows u_id (u_id user) (db_users w)"
    "map standing (store_row u_id u' (db_users w)) = map standing (db_users w)"
  using assms others_rows_stored [OF assms(1,2), of u' u_id] map_stored [OF assms(1,2), of u' standing]
  by (simp_all add: standing_def)

lemma audited_by_user: "al_actor_id (audit_log_row i now action entity (Some user) entity_id details) = Some (u_id user)"
  by (simp add: audit_log_row_def)

lemma update_me_own:
  assumes "distinct (map u_id (db_users w))" "user \<in> set (db_users w)"
  shows "own_rows_only (u_id user) w (snd (update_me ids now user payload w))"
proof (cases "um_full_name payload = Some None")
  case False
  let ?u = "case um_full_name payload of Some (Some s) \<Rightarrow> user\<lparr>u_full_name := s\<rparr> | _ \<Rightarrow> user"
  let ?u' = "case um_avatar_url payload of Some a \<Rightarrow> ?u\<lparr>u_avatar_url := a\<rparr> | None \<Rightarrow> ?u"
  have "standing ?u' = standing user" by (simp add: standing_def split: option.splits)
  with own_account [OF assms this] False show ?thesis
    by (simp add: update_me_def own_rows_defs audit_def audited_by_user Let_def del: list.map)
qed (simp add: update_me_def)

lemma change_password_own:
  assumes "distinct (map u_id (db_users w))" "user \<in> set (db_users w)"
  shows "own_rows_only (u_id user) w (snd (change_password x ids now user old new w))"
proof (cases "verify_password x old (u_hashed_password user)")
  case True
  have "standing (user\<lparr>u_hashed_password := hash_password x (ids 0) new\<rparr>) = standing user" by (simp add: standing_def)
  moreover have "others_rows rs_user_id (u_id user) (db_refresh_token_sessions (revoke_all_refresh_tokens (u_id user) now w1)) =
      others_rows rs_user_id (u_id user) (db_refresh_token_sessions w1)" for w1
    by (auto simp: revoke_all_refresh_tokens_def intro: others_rows_updated)
  ultimately show ?thesis using own_account [OF assms] True
    by (simp add: change_password_def own_rows_defs audit_def audited_by_user Let_def)
      (simp add: revoke_all_refresh_tokens_def audited_by_user)
qed (simp add: change_password_def)

lemma update_home_university_own:
  "own_rows_only (u_id user) w (snd (update_home_university now user i w))"
proof -
  have "map standing (update_where (\<lambda>r. u_id r = u_id user)
      (\<lambda>r. r\<lparr>u_university_id := Some i, u_university_changed_at := Some now,
          u_pending_university_name := None, u_university_status := ''selected''\<rparr>) rows) = map standing rows" for rows
    by (rule map_update_where) (simp add: standing_def)
  then show ?thesis
    by (simp add: update_home_university_def own_rows_defs others_rows_updated split: sum.splits)
qed

lemma get_preferences_own:
  "own_rows_only (u_id user) w (snd (get_preferences ids user w))"
  by (auto simp: get_preferences_def own_rows_defs default_preference_def Let_def split: sum.splits option.splits)

lemma apply_preferences_keeps:
  "apply_preferences payload p = Inr p' \<Longrightarrow> pf_id p' = pf_id p \<and> pf_user_id p' = pf_user_id p"
  by (auto simp: apply_preferences_def set_unless_absent_def split: option.splits sum.splits)

lemma get_preferences_row:
  assumes "distinct (map pf_id (db_user_preferences w))" "ids 0 \<notin> pf_id ` set (db_user_preferences w)"
    and "get_preferences ids user w = (Inr p, w1)"
  shows "p \<in> set (db_user_preferences w1)" "pf_user_id p = u_id user" "distinct (map pf_id (db_user_preferences w1))"
proof -
  show "p \<in> set (db_user_preferences w1)" "pf_user_id p = u_id user"
    using assms(3) by (auto simp: get_preferences_def default_preference_def scalar_one_or_none_Some filter_eq_Cons_iff
        Let_def split: sum.splits option.splits)
  show "distinct (map pf_id (db_user_preferences w1))"
    using assms by (auto simp: get_preferences_def default_preference_def Let_def split: sum.splits option.splits)
qed

lemma update_preferences_own:
  assumes "distinct (map pf_id (db_user_preferences w))" "ids 0 \<notin> pf_id ` set (db_user_preferences w)"
  shows "own_rows_only (u_id user) w (snd (update_preferences ids now user payload w))"
proof -
  obtain q w1 where g: "get_preferences ids user w = (q, w1)" by fastforce
  have own: "own_rows_only (u_id user) w w1" using get_preferences_own [of user w ids] g by simp
  show ?thesis
  proof (cases q)
    case (Inl e)
    with g own show ?thesis by (simp add: update_preferences_def)
  next
    case (Inr p)
    note row = get_preferences_row [OF assms g [unfolded Inr]]
    show ?thesis
    proof (cases "apply_preferences payload p")
      case (Inl e)
      with g own Inr show ?thesis by (simp add: update_preferences_def)
    next
      case p': (Inr p')
      have "others_rows pf_user_id (u_id user) (store_row pf_id p' (db_user_preferences w1)) =
          others_rows pf_user_id (u_id user) (db_user_preferences w1)"
        using apply_preferences_keeps [OF p'] row by (intro others_rows_stored) auto
      then have "own_rows_only (u_id user) w1 (snd (update_preferences ids now user payload w))"
        using g Inr p' by (simp add: update_preferences_def own_rows_defs audit_def audited_by_user)
      with own show ?thesis by (rule own_rows_trans)
    qed
  qed
qed

lemma saved_materials_own:
  "own_rows_only (u_id user) w (snd (save_material_for_user ids now i user w))"
  "own_rows_only (u_id user) w (snd (remove_saved_material ids now i user w))"
  "own_rows_only (u_id user) w (snd (clear_saved_materials ids now user w))"
  by (auto simp: save_material_for_user_def remove_saved_material_def clear_saved_materials_def own_rows_defs
      audit_def audited_by_user intro: others_rows_deleted split: option.splits sum.splits)

lemma notifications_own:
  assumes "distinct (map no_id (db_notifications w))"
  shows "own_rows_only (u_id user) w (snd (mark_notification_read i user w))"
    "own_rows_only (u_id user) w (snd (mark_all_notifications_read user w))"
proof -
  have "others_rows no_user_id (u_id user) (store_row no_id (n\<lparr>no_is_read := True\<rparr>) (db_notifications w)) =
      others_rows no_user_id (u_id user) (db_notifications w)"
    if "find (\<lambda>n. no_id n = i) (db_notifications w) = Some n" "no_user_id n = u_id user" for n
    using that assms by (intro others_rows_stored) (auto dest: find_SomeD)
  then show "own_rows_only (u_id user) w (snd (mark_notification_read i user w))"
    by (auto simp: mark_notification_read_def own_rows_defs Let_def split: option.splits)
  have "others_rows no_user_id (u_id user) (map (\<lambda>x. if no_user_id x = u_id user then x\<lparr>no_is_read := True\<rparr> else x) rows) =
      others_rows no_user_id (u_id user) rows" for rows
    by (induction rows) auto
  then have "others_rows no_user_id (u_id user) (db_notifications (snd (mark_all_notifications_read user w))) =
      others_rows no_user_id (u_id user) (db_notifications w)"
    using mark_all_notifications_read_rows(1) [OF assms prod.collapse [symmetric], of user] by simp
  moreover have "\<exists>ns. snd (mark_all_notifications_read user w) = w\<lparr>db_notifications := ns\<rparr>"
    by (auto simp: mark_all_notifications_read_def Let_def)
  ultimately show "own_rows_only (u_id user) w (snd (mark_all_notifications_read user w))"
    by (auto simp: own_rows_defs)
qed

text \<open>The avatar, on the local provider.\<close>

lemma avatar_own:
  assumes "distinct (map u_id (db_users w))" "user \<in> set (db_users w)"
  shows "own_rows_only (u_id user) w (snd (upload_avatar (local_provider pr st) guess now user f w))"
    "own_rows_only (u_id user) w (snd (delete_avatar (local_provider pr st) user w))"
proof -
  have s: "standing (user\<lparr>u_avatar_url := a\<rparr>) = standing user" for a by (simp add: standing_def)
  show "own_rows_only (u_id user) w (snd (upload_avatar (local_provider pr st) guess now user f w))"
    using own_account [OF assms s]
    by (auto simp: upload_avatar_def delete_old_avatars_local own_rows_defs Let_def)
  show "own_rows_only (u_id user) w (snd (delete_avatar (local_provider pr st) user w))"
    using own_account [OF assms s]
    by (auto simp: delete_avatar_def delete_old_avatars_local own_rows_defs Let_def)
qed

section \<open>All requests\<close>

lemmas user_endpoints =
  update_me_endpoint_def change_password_endpoint_def update_home_university_endpoint_def
  get_preferences_endpoint_def update_preferences_endpoint_def save_material_endpoint_def
  remove_saved_material_endpoint_def clear_saved_materials_endpoint_def upload_avatar_endpoint_def
  delete_avatar_endpoint_def mark_notification_read_endpoint_def mark_all_notifications_read_endpoint_def

definition user_keys_ok :: "world \<Rightarrow> bool" where
  "user_keys_ok w \<longleftrightarrow>
     distinct (map u_id (db_users w)) \<and> distinct (map pf_id (db_user_preferences w)) \<and>
     distinct (map no_id (db_notifications w))"

definition own_change where
  "own_change x r st now token w s w' \<longleftrightarrow>
     w' = w \<or> (\<exists>user. fst (get_current_user x r st token now w s) = Inr user \<and>
       get_user (u_id user) w = Some user \<and> u_is_active user \<and> own_rows_only (u_id user) w w')"

lemma signed_in_own:
  assumes "\<And>user. user \<in> set (db_users w) \<Longrightarrow> own_rows_only (u_id user) w (snd (h user))"
  shows "own_change x r st now token w s (fst (snd (signed_in x r st now token w s h)))"
proof (cases "get_current_user x r st token now w s")
  case (Pair q s1)
  show ?thesis
  proof (cases q)
    case (Inl e)
    with Pair show ?thesis by (simp add: own_change_def signed_in_def authenticated_def)
  next
    case (Inr user)
    with Pair have "get_user (u_id user) w = Some user \<and> u_is_active user"
      using get_current_user_accepts by simp
    moreover from this have "user \<in> set (db_users w)" by (auto simp: get_user_def dest: find_SomeD)
    ultimately show ?thesis
      using assms Pair Inr by (simp add: own_change_def signed_in_def authenticated_def with_store_def)
  qed
qed

lemma user_endpoint_own:
  assumes "user_keys_ok w" "ids 0 \<notin> pf_id ` set (db_user_preferences w)"
  shows "own_change x r st now token w s
    (fst (snd (user_endpoint x r st (local_provider pr st) guess ids now token req w s)))"
  using assms unfolding user_keys_ok_def
  by (cases req) (auto simp: user_endpoints update_me_own change_password_own update_home_university_own
      get_preferences_own update_preferences_own saved_materials_own avatar_own notifications_own
      intro!: signed_in_own)

text \<open>
  C8. What a user asks for about himself stays his own. A request of the profile, the preferences,
  the saved materials, the avatar or the notifications that changes anything carries a token of an
  active account and changes rows of this account only: those of all others stay as they are, in
  every table, as does every object but the avatar; every audit row it adds names the account; and
  no account, not even his own, gets another e-mail, role, activity or verification.
\<close>

theorem user_requests_stay_own:
  assumes "user_endpoint x r st (local_provider pr st) guess ids now token req w s = (res, w', s')" "w' \<noteq> w"
    and "user_keys_ok w" "ids 0 \<notin> pf_id ` set (db_user_preferences w)"
  shows "\<exists>user. fst (get_current_user x r st token now w s) = Inr user \<and>
    get_user (u_id user) w = Some user \<and> u_is_active user \<and> own_rows_only (u_id user) w w'"
  using user_endpoint_own [where ids = ids and w = w and x = x and r = r and st = st and now = now and token = token
      and s = s and pr = pr and guess = guess and req = req] assms
  by (simp add: own_change_def)

section \<open>A concrete request\<close>

definition reader_world :: world where
  "reader_world = empty_world\<lparr>db_users := [sample_user, avatar_user]\<rparr>"

definition reader_token :: string where
  "reader_token = create_access_token reference_externals default_settings ''j'' 0 ''u1'' ''student''"

lemma reader_signed_in:
  assumes "get_user ''u1'' w = Some u" "u_is_active u"
  shows "fst (get_current_user reference_externals reference_redis default_settings reader_token 0 w fresh_store) = Inr u"
proof -
  let ?c = "claims_of (access_payload default_settings ''j'' 0 ''u1'' ''student'')"
  have claims: "c_jti ?c = Some ''j''" "c_sub ?c = Some ''u1''" "c_type ?c = Some ''access''" by simp_all
  have "fst (ensure_not_revoked reference_redis default_settings ?c 0 fresh_store) = Inr ()"
    by (simp add: ensure_not_revoked_verdict [OF fresh_stores(1) default_switches(2) claims(1) _ claims(2)]
        fresh_stores(3))
  then show ?thesis using assms
    by (cases "ensure_not_revoked reference_redis default_settings ?c 0 fresh_store")
      (simp add: reader_token_def get_current_user_def decode_access_token [OF reference_laws(1)])
qed

definition renaming :: user_request where
  "renaming = UpdateMe \<lparr>um_full_name = Some (Some ''Vali''), um_avatar_url = None\<rparr>"

definition renamed :: "unit res \<times> world \<times> reference_state kv" where
  "renamed = user_endpoint reference_externals reference_redis default_settings
     (local_provider reference_parsers default_settings) (\<lambda>_. None) sample_ids 0 reader_token renaming reader_world fresh_store"

lemma reader_found: "get_user ''u1'' reader_world = Some sample_user" "u_is_active sample_user"
  by (simp_all add: reader_world_def get_user_def sample_user_def)

lemma renamed_users:
  "db_users (fst (snd renamed)) = [sample_user\<lparr>u_full_name := ''Vali''\<rparr>, avatar_user]"
proof -
  obtain s1 where "get_current_user reference_externals reference_redis default_settings reader_token 0 reader_world
      fresh_store = (Inr sample_user, s1)"
    using reader_signed_in [OF reader_found] by (metis prod.collapse)
  then show ?thesis
    by (simp add: renamed_def renaming_def user_endpoints signed_in_def authenticated_def with_store_def answer_def
        outcome_def update_me_def audit_def reader_world_def store_row_def sample_user_def avatar_user_def Let_def)
qed

lemma user_requests_stay_own_witness:
  "map u_full_name (db_users (fst (snd renamed))) = [''Vali'', ''A''] \<and>
   own_rows_only ''u1'' reader_world (fst (snd renamed))"
proof -
  obtain res w' s' where e: "renamed = (res, w', s')" by (cases renamed)
  have "db_users w' \<noteq> db_users reader_world"
    using renamed_users by (simp add: e reader_world_def sample_user_def)
  then have "w' \<noteq> reader_world" by blast
  moreover have "user_keys_ok reader_world" "sample_ids 0 \<notin> pf_id ` set (db_user_preferences reader_world)"
    by (simp_all add: user_keys_ok_def reader_world_def sample_user_def avatar_user_def)
  ultimately have "\<exists>user. fst (get_current_user reference_externals reference_redis default_settings reader_token 0
      reader_world fresh_store) = Inr user \<and> own_rows_only (u_id user) reader_world w'"
    using user_requests_stay_own [OF e [unfolded renamed_def]] by blast
  with reader_signed_in [OF reader_found] have "own_rows_only ''u1'' reader_world w'" by (auto simp: sample_user_def)
  then show ?thesis using renamed_users by (simp add: e avatar_user_def)
qed

end
