(* ===== verification/TelegramApi.thy ===== *)
theory TelegramApi
  imports UserApi TelegramLink
begin

text \<open>
  The endpoints of the bot, \<^verbatim>\<open>telegram/internal_api.py\<close>, all behind \<open>require_internal_service\<close>, and
  those of a user about his link, \<^verbatim>\<open>telegram/public_api.py\<close>. All requests of the bot that may change
  something are one type, \<open>bot_command\<close>. The path and the body that are signed are those of the
  request (\<open>internal_request\<close>); what FastAPI reads from them are the arguments.
\<close>

section \<open>The guard\<close>

definition internal ::
  "externals \<Rightarrow> settings \<Rightarrow> int \<Rightarrow> internal_request \<Rightarrow> world \<Rightarrow> 'r kv \<Rightarrow> ('r kv \<Rightarrow> 'a res \<times> world \<times> 'r kv) \<Rightarrow>
   'a res \<times> world \<times> 'r kv"
where
  "internal x st now rq w s handler =
     (case require_internal_service x st now rq of Inl e \<Rightarrow> (Inl e, w, s) | Inr _ \<Rightarrow> handler s)"

section \<open>Linking\<close>

definition consume_telegram_link_token where
  "consume_telegram_link_token x r st ids host now rq token tg w s =
     internal x st now rq w s (\<lambda>s.
       limited (check_sensitive_rate x r st host token ''auth.telegram.link_consume'' now s) w
         (with_store (consume_token x ids now token tg w)))"

definition verify_telegram_link_code where
  "verify_telegram_link_code x r st ids host now rq code tg w s =
     internal x st now rq w s (\<lambda>s.
       limited (check_sensitive_rate x r st host code ''auth.telegram.code_verify'' now s) w
         (with_store (verify_code x ids now code tg w)))"

definition unlink_telegram_account_by_telegram_user_id where
  "unlink_telegram_account_by_telegram_user_id x st ids now rq tid w s =
     internal x st now rq w s (with_store (unlink_by_telegram_user_id ids now tid w))"

record identity_lookup =
  il_is_linked :: bool
  il_platform_user :: "platform_identity option"

definition get_telegram_identity where
  "get_telegram_identity x st now rq tid w s =
     internal x st now rq w s (with_store (reading w
       (map_sum id (\<lambda>p. \<lparr>il_is_linked = (p \<noteq> None), il_platform_user = p\<rparr>) (get_identity_by_telegram_user_id tid w))))"

section \<open>Moderation\<close>

definition get_proposal_detail_endpoint where
  "get_proposal_detail_endpoint x st now rq i w s =
     internal x st now rq w s (with_store (reading w (get_proposal_detail i w)))"

definition bot_approve_proposal_endpoint where
  "bot_approve_proposal_endpoint x st ids now rq i tid w s =
     internal x st now rq w s (with_store (approve_proposal_by_bot x ids now i tid w))"

definition bot_reject_proposal_endpoint where
  "bot_reject_proposal_endpoint x st ids now rq i tid reason w s =
     internal x st now rq w s (with_store (reject_proposal_by_bot ids now i tid reason w))"

definition list_pending_proposals_endpoint where
  "list_pending_proposals_endpoint x st now rq proposal_type limit offset w s =
     internal x st now rq w s (with_store (reading w (list_pending_proposals_for_bot proposal_type limit offset w)))"

definition bot_approve_material_endpoint where
  "bot_approve_material_endpoint x st ids now rq i tid w s =
     internal x st now rq w s (with_store (approve_material_by_bot st ids now i tid w))"

definition bot_reject_material_endpoint where
  "bot_reject_material_endpoint x st ids now rq i tid reason remark w s =
     internal x st now rq w s (with_store (reject_material_by_bot st ids now i tid reason remark w))"

definition bot_request_revision_endpoint where
  "bot_request_revision_endpoint x st ids now rq i tid reason remark w s =
     internal x st now rq w s (with_store (request_material_revision_by_bot st ids now i tid reason remark w))"

section \<open>Messages and events\<close>

definition get_proposal_message where
  "get_proposal_message x st now rq i w s =
     internal x st now rq w s (with_store (reading w (get_proposal_message_payload i w)))"

definition get_user_registration_message where
  "get_user_registration_message x st now rq uid w s =
     internal x st now rq w s (with_store (reading w (get_user_registration_message_payload uid w)))"

record event_list =
  el_items :: "event_read list"
  el_total :: int
  el_limit :: int

definition list_pending_events_endpoint where
  "list_pending_events_endpoint x st now rq limit w s =
     internal x st now rq w s (with_store (reading w
       (let items = list_pending_event_items st limit w
        in Inr \<lparr>el_items = items, el_total = int (length items), el_limit = limit\<rparr>)))"

definition upload_telegram_avatar_endpoint where
  "upload_telegram_avatar_endpoint x st sp guess now rq tid f w s =
     internal x st now rq w s (with_store (answer user_read_of (upload_telegram_avatar sp guess now tid f w)))"

section \<open>The endpoints of a user\<close>

definition create_telegram_link_session where
  "create_telegram_link_session x r st ids host now token w s =
     authenticated x r st now token w s (\<lambda>user s1.
       limited (check_sensitive_rate x r st host (u_id user) ''auth.telegram.link_session'' now s1) w
         (with_store (create_link_session x st ids now user w)))"

definition get_telegram_link_status where
  "get_telegram_link_status x r st now token w s =
     signed_in x r st now token w s (\<lambda>user. reading w (get_link_status user w))"

definition unlink_telegram_account where
  "unlink_telegram_account x r st ids now token w s =
     signed_in x r st now token w s (\<lambda>user. answer (\<lambda>_. ''unlinked'') (unlink ids now user w))"

section \<open>All requests of the bot that may change something\<close>

datatype bot_command =
    ConsumeToken string telegram_user
  | VerifyCode string telegram_user
  | UnlinkTelegram int
  | BotApproveProposal string int
  | BotRejectProposal string int string
  | BotApproveMaterial string int
  | BotRejectMaterial string int reject_reason "string option"
  | BotRequestRevision string int reject_reason "string option"
  | UploadTelegramAvatar int avatar_upload

fun bot_endpoint ::
  "externals \<Rightarrow> 'r redis \<Rightarrow> settings \<Rightarrow> provider \<Rightarrow> (string \<Rightarrow> string option) \<Rightarrow> (nat \<Rightarrow> string) \<Rightarrow>
   string option \<Rightarrow> int \<Rightarrow> internal_request \<Rightarrow> bot_command \<Rightarrow> world \<Rightarrow> 'r kv \<Rightarrow> unit res \<times> world \<times> 'r kv"
where
  "bot_endpoint x r st sp guess ids host now rq (ConsumeToken token tg) w s =
     outcome (consume_telegram_link_token x r st ids host now rq token tg w s)"
| "bot_endpoint x r st sp guess ids host now rq (VerifyCode code tg) w s =
     outcome (verify_telegram_link_code x r st ids host now rq code tg w s)"
| "bot_endpoint x r st sp guess ids host now rq (UnlinkTelegram tid) w s =
     outcome (unlink_telegram_account_by_telegram_user_id x st ids now rq tid w s)"
| "bot_endpoint x r st sp guess ids host now rq (BotApproveProposal i tid) w s =
     outcome (bot_approve_proposal_endpoint x st ids now rq i tid w s)"
| "bot_endpoint x r st sp guess ids host now rq (BotRejectProposal i tid reason) w s =
     outcome (bot_reject_proposal_endpoint x st ids now rq i tid reason w s)"
| "bot_endpoint x r st sp guess ids host now rq (BotApproveMaterial i tid) w s =
     outcome (bot_approve_material_endpoint x st ids now rq i tid w s)"
| "bot_endpoint x r st sp guess ids host now rq (BotRejectMaterial i tid reason remark) w s =
     outcome (bot_reject_material_endpoint x st ids now rq i tid reason remark w s)"
| "bot_endpoint x r st sp guess ids host now rq (BotRequestRevision i tid reason remark) w s =
     outcome (bot_request_revision_endpoint x st ids now rq i tid reason remark w s)"
| "bot_endpoint x r st sp guess ids host now rq (UploadTelegramAvatar tid f) w s =
     outcome (upload_telegram_avatar_endpoint x st sp guess now rq tid f w s)"

end
