(* ===== verification/TelegramApiFacts.thy ===== *)
theory TelegramApiFacts
  imports TelegramApi TelegramLinkFacts UserApiFacts
begin

text \<open>
  What the bot can do: only signed and fresh requests change anything, and each changes what its
  endpoint is for, on behalf of an account that is linked or consents. The limiter of the codes
  counts each code by itself.
\<close>

section \<open>The guard\<close>

definition authentic :: "externals \<Rightarrow> settings \<Rightarrow> int \<Rightarrow> internal_request \<Rightarrow> bool" where
  "authentic x st now rq \<longleftrightarrow>
     (\<exists>secret ts t. internal_auth_secret st = Some secret \<and> secret \<noteq> [] \<and>
        ir_service_name rq = Some (bot_service_name st) \<and> ir_timestamp rq = Some ts \<and> python_int ts = Some t \<and>
        \<bar>now - seconds t\<bar> \<le> seconds (internal_auth_ttl_seconds st) \<and>
        ir_signature rq = Some (hmac_sha256 x secret (canonical_request x (bot_service_name st) ts (ir_method rq)
          (if ir_query rq = [] then ir_path rq else ir_path rq @ ''?'' @ ir_query rq) (ir_body rq))))"

lemma accepted_authentic:
  assumes "require_internal_service x st now rq = Inr service"
  shows "authentic x st now rq"
  using internal_request_accepted_iff [THEN iffD1, OF assms] unfolding authentic_def by blast

lemma internal_effect:
  assumes "fst (snd (internal x st now rq w s h)) \<noteq> w"
  shows "authentic x st now rq \<and> fst (snd (internal x st now rq w s h)) = fst (snd (h s))"
  using assms accepted_authentic by (auto simp: internal_def split: sum.splits)

lemma limited_effect:
  "fst (snd (limited check w h)) \<noteq> w \<Longrightarrow> \<exists>s1. fst (snd (limited check w h)) = fst (snd (h s1))"
  by (cases check) (auto simp: limited_def split: sum.splits)

section \<open>Unlinking\<close>

lemma remove_link_pairs:
  assumes "links_ok w" "l \<in> set (db_telegram_links w)" "remove_link ids now a dt user l w = (r, w')" "w' \<noteq> w"
  shows "active_pairs (db_telegram_links w') =
    {p \<in> active_pairs (db_telegram_links w). snd p \<noteq> tl_telegram_user_id l}"
proof -
  let ?w1 = "audit (ids 1) now a ''telegram_link'' (Some user) (Some (tl_id l)) dt
    (w\<lparr>db_telegram_links := store_row tl_id (unlinked now l) (db_telegram_links w)\<rparr>)"
  let ?e = "enqueue_telegram_account_unlinked_events ids 4 now user (unlinked now l) ?w1"
  have "w' = snd ?e" using assms(3,4) by (auto simp: remove_link_def Let_def split: prod.splits sum.splits)
  moreover have "only_events ?w1 (snd ?e)"
    unfolding enqueue_telegram_account_unlinked_events_def by (rule create_events_only)
  ultimately have links: "db_telegram_links w' = store_row tl_id (unlinked now l) (db_telegram_links w)"
    by (auto simp: only_events_def audit_def)
  have d: "distinct (map tl_id (db_telegram_links w))" "distinct (map tl_telegram_user_id (db_telegram_links w))"
    using assms(1) by (simp_all add: links_ok_def)
  have "q = l" if "q \<in> set (db_telegram_links w)" "tl_telegram_user_id q = tl_telegram_user_id l" for q
    using distinct_map_keyed [OF d(2) that(1) assms(2) that(2)] .
  moreover have "store_row tl_id (unlinked now l) (db_telegram_links w) =
      map (\<lambda>q. if q = l then unlinked now q else q) (db_telegram_links w)"
    by (rule store_row_map [OF d(1) assms(2)]) (simp add: unlinked_def)
  ultimately show ?thesis
    unfolding links by (auto simp: active_pairs_def unlinked_def split: if_splits)
qed

section \<open>All requests of the bot\<close>

text \<open>What each command may do. The account is not asked to be active for the avatar.\<close>

definition linked_account :: "int \<Rightarrow> string \<Rightarrow> world \<Rightarrow> bool" where
  "linked_account tid uid w \<longleftrightarrow> (uid, tid) \<in> active_pairs (db_telegram_links w)"

text \<open>The decision is one of the linked account, on something pending in the scope of the account.\<close>

definition material_decided_for :: "settings \<Rightarrow> int \<Rightarrow> string \<Rightarrow> world \<Rightarrow> world \<Rightarrow> bool" where
  "material_decided_for st tid i w w' \<longleftrightarrow>
     (\<exists>u m. acts_for tid u w \<and> get_material i w = Some m \<and> m_status m = PENDING_REVIEW \<and>
        assert_scope u m w = Inr () \<and> material_decision st u i w w')"

definition proposal_decided_for :: "int \<Rightarrow> string \<Rightarrow> world \<Rightarrow> world \<Rightarrow> bool" where
  "proposal_decided_for tid i w w' \<longleftrightarrow>
     (\<exists>u. \<exists>p\<in>set (proposals_of w). acts_for tid u w \<and> proposal_status_of p = ProposalPending \<and>
        may_decide u p w \<and> proposal_decision u i w w')"

lemma decided_for:
  "acts_for tid u w \<Longrightarrow> material_decision st u i w w' \<Longrightarrow> material_decided_for st tid i w w'"
  "acts_for tid u w \<Longrightarrow> proposal_decision u i w w' \<Longrightarrow> proposal_decided_for tid i w w'"
  using material_decisionD get_scoped_materialD proposal_decisionD
  unfolding material_decided_for_def proposal_decided_for_def by meson+

fun bot_effect :: "settings \<Rightarrow> bot_command \<Rightarrow> world \<Rightarrow> world \<Rightarrow> bool" where
  "bot_effect st (ConsumeToken token tg) w w' = link_change w w'"
| "bot_effect st (VerifyCode code tg) w w' = link_change w w'"
| "bot_effect st (UnlinkTelegram tid) w w' =
     (active_pairs (db_telegram_links w') = {p \<in> active_pairs (db_telegram_links w). snd p \<noteq> tid})"
| "bot_effect st (BotApproveProposal i tid) w w' = proposal_decided_for tid i w w'"
| "bot_effect st (BotRejectProposal i tid reason) w w' = proposal_decided_for tid i w w'"
| "bot_effect st (BotApproveMaterial i tid) w w' = material_decided_for st tid i w w'"
| "bot_effect st (BotRejectMaterial i tid reason remark) w w' = material_decided_for st tid i w w'"
| "bot_effect st (BotRequestRevision i tid reason remark) w w' = material_decided_for st tid i w w'"
| "bot_effect st (UploadTelegramAvatar tid f) w w' = (\<exists>uid. linked_account tid uid w \<and> own_rows_only uid w w')"

lemma link_commands:
  assumes "links_ok w" "ids 0 \<notin> tl_id ` set (db_telegram_links w)"
  shows "link_change w (snd (consume_token x ids now token tg w))"
    "link_change w (snd (verify_code x ids now code tg w))"
  by (rule link_step_change [OF step_token [where ids = ids, OF surjective_pairing assms(2)] assms(1)])
    (rule link_step_change [OF step_code [where ids = ids, OF surjective_pairing assms(2)] assms(1)])

lemma unlink_command:
  assumes "links_ok w" "snd (unlink_by_telegram_user_id ids now tid w) \<noteq> w"
  shows "active_pairs (db_telegram_links (snd (unlink_by_telegram_user_id ids now tid w))) =
    {p \<in> active_pairs (db_telegram_links w). snd p \<noteq> tid}"
proof -
  obtain l user where l: "get_active_link_by_telegram_user_id tid w = Inr (Some l)" "load_user (tl_user_id l) w = Inr user"
    using assms(2) by (auto simp: unlink_by_telegram_user_id_def split: sum.splits option.splits)
  obtain r w' where c: "remove_link ids now ''telegram_unlinked_by_internal_service'' (Some (str_int tid)) user l w = (r, w')"
    by fastforce
  have "snd (unlink_by_telegram_user_id ids now tid w) = w'"
    using l c by (cases r) (simp_all add: unlink_by_telegram_user_id_def)
  with remove_link_pairs [OF assms(1) _ c] active_link_in(2) [OF l(1)] assms(2) show ?thesis by simp
qed

lemma avatar_command:
  assumes "distinct (map u_id (db_users w))"
    and "snd (upload_telegram_avatar (local_provider pr st) guess now tid f w) \<noteq> w"
  shows "\<exists>uid. linked_account tid uid w \<and>
    own_rows_only uid w (snd (upload_telegram_avatar (local_provider pr st) guess now tid f w))"
proof -
  obtain l u where l: "get_active_link_by_telegram_user_id tid w = Inr (Some l)" "get_user (tl_user_id l) w = Some u"
    using assms(2) by (auto simp: upload_telegram_avatar_def get_identity_by_telegram_user_id_def load_user_def
        split: sum.splits option.splits)
  then have id: "u_id u = tl_user_id l" "u \<in> set (db_users w)"
    by (auto simp: get_user_def dest: find_SomeD)
  have "snd (upload_telegram_avatar (local_provider pr st) guess now tid f w) =
      snd (upload_avatar (local_provider pr st) guess now u f w)"
    using l id by (simp add: upload_telegram_avatar_def get_identity_by_telegram_user_id_def load_user_def
        build_platform_identity_def require_known_user_def)
  moreover have "linked_account tid (u_id u) w"
    using active_link_in(2) [OF l(1)] id(1) by (auto simp: linked_account_def active_pairs_def)
  ultimately show ?thesis using avatar_own(1) [OF assms(1) id(2)] by metis
qed

lemmas bot_endpoints =
  consume_telegram_link_token_def verify_telegram_link_code_def unlink_telegram_account_by_telegram_user_id_def
  bot_approve_proposal_endpoint_def bot_reject_proposal_endpoint_def bot_approve_material_endpoint_def
  bot_reject_material_endpoint_def bot_request_revision_endpoint_def upload_telegram_avatar_endpoint_def

text \<open>Behind the guard, and behind the guard and the limiter.\<close>

lemma internal_lawful:
  assumes "\<And>s. fst (snd (h s)) \<noteq> w \<Longrightarrow> Q (fst (snd (h s)))"
    and "fst (snd (internal x st now rq w s h)) \<noteq> w"
  shows "authentic x st now rq \<and> Q (fst (snd (internal x st now rq w s h)))"
  using internal_effect [OF assms(2)] assms by auto

lemma limited_lawful:
  assumes "\<And>s. fst (snd (h s)) \<noteq> w \<Longrightarrow> Q (fst (snd (h s)))" "fst (snd (limited check w h)) \<noteq> w"
  shows "Q (fst (snd (limited check w h)))"
  using limited_effect [OF assms(2)] assms by metis

lemma world_with_store [simp]: "fst (snd (with_store q s)) = snd q"
  by (simp add: with_store_def)

lemma bot_endpoint_effect:
  assumes "links_ok w" "ids 0 \<notin> tl_id ` set (db_telegram_links w)" "distinct (map u_id (db_users w))"
    and "fst (snd (bot_endpoint x r st (local_provider pr st') guess ids host now rq cmd w s)) \<noteq> w"
  shows "authentic x st now rq \<and>
    bot_effect st cmd w (fst (snd (bot_endpoint x r st (local_provider pr st') guess ids host now rq cmd w s)))"
proof (cases cmd)
  case (ConsumeToken token tg)
  show ?thesis
    using assms(4) unfolding ConsumeToken bot_endpoint.simps bot_endpoints outcome_world bot_effect.simps
    by (rule internal_lawful [rotated]) (erule limited_lawful [rotated], simp add: link_commands assms(1,2))
next
  case (VerifyCode code tg)
  show ?thesis
    using assms(4) unfolding VerifyCode bot_endpoint.simps bot_endpoints outcome_world bot_effect.simps
    by (rule internal_lawful [rotated]) (erule limited_lawful [rotated], simp add: link_commands assms(1,2))
next
  case (UnlinkTelegram tid)
  then show ?thesis
    using assms by (simp add: bot_endpoints) (rule internal_lawful, auto dest: unlink_command)
next
  case (UploadTelegramAvatar tid f)
  then show ?thesis
    using assms by (simp add: bot_endpoints) (rule internal_lawful, auto dest: avatar_command)
next
  case (BotApproveProposal i tid)
  then show ?thesis
    using assms by (simp add: bot_endpoints)
      (rule internal_lawful, auto dest!: bot_proposal_decisions(1) [OF surjective_pairing] intro: decided_for)
next
  case (BotRejectProposal i tid reason)
  then show ?thesis
    using assms by (simp add: bot_endpoints)
      (rule internal_lawful, auto dest!: bot_proposal_decisions(2) [OF surjective_pairing] intro: decided_for)
next
  case (BotApproveMaterial i tid)
  then show ?thesis
    using assms by (simp add: bot_endpoints)
      (rule internal_lawful, auto dest!: bot_material_decisions(1) [OF surjective_pairing] intro: decided_for)
next
  case (BotRejectMaterial i tid reason remark)
  then show ?thesis
    using assms by (simp add: bot_endpoints)
      (rule internal_lawful, auto dest!: bot_material_decisions(2) [OF surjective_pairing] intro: decided_for)
next
  case (BotRequestRevision i tid reason remark)
  then show ?thesis
    using assms by (simp add: bot_endpoints)
      (rule internal_lawful, auto dest!: bot_material_decisions(3) [OF surjective_pairing] intro: decided_for)
qed


section \<open>Guessing codes\<close>

text \<open>
  The limiter of the codes counts by the code itself: however many different codes are tried, none
  is refused.
\<close>

fun try_codes ::
  "externals \<Rightarrow> 'r redis \<Rightarrow> settings \<Rightarrow> string option \<Rightarrow> int \<Rightarrow> string list \<Rightarrow> 'r kv \<Rightarrow> bool list \<times> 'r kv"
where
  "try_codes x r st host now [] s = ([], s)"
| "try_codes x r st host now (code # codes) s =
     (let (result, s1) = check_sensitive_rate x r st host code ''auth.telegram.code_verify'' now s;
          (results, s2) = try_codes x r st host now codes s1
      in (is_ok result # results, s2))"

definition code_key :: "externals \<Rightarrow> string option \<Rightarrow> string \<Rightarrow> string" where
  "code_key x host code =
     rate_key x ''auth.telegram.code_verify'' (hash_identity x [Some (client_identity host), Some code])"

lemma check_rate_other_key:
  assumes "rate_limit_enabled st" "usable_store r st s" "store_visible r st (rate_key x scope identity) t s = None"
    and "k \<noteq> rate_key x scope identity" "1 \<le> m"
  shows "store_visible r st k t (snd (check_rate x r st scope identity m win t s)) = store_visible r st k t s"
proof -
  obtain c s1 where inc: "store_increment r st (rate_key x scope identity) win t s = (c, s1)" by fastforce
  have "c = 1" using store_increment_count [OF assms(2), of "rate_key x scope identity" win t] assms(3) inc by simp
  moreover have "store_visible r st k t s1 = store_visible r st k t s"
    using store_visible_increment [OF assms(2) order_refl, of "rate_key x scope identity" t k win] assms(3,4) inc by simp
  ultimately show ?thesis
    using assms(1,5) usable_available [OF assms(2)] inc by (simp add: check_rate_def Let_def)
qed

lemma distinct_codes_never_limited:
  assumes "rate_limit_enabled st" "1 \<le> rate_limit_sensitive_max_requests st"
    and "usable_store r st s" "distinct (map (code_key x host) codes)"
    and "\<And>code. code \<in> set codes \<Longrightarrow> store_visible r st (code_key x host code) now s = None"
  shows "fst (try_codes x r st host now codes s) = replicate (length codes) True"
  using assms(3-)
proof (induction codes arbitrary: s)
  case (Cons code codes)
  let ?check = "check_rate x r st ''auth.telegram.code_verify'' (hash_identity x [Some (client_identity host), Some code])
    (rate_limit_sensitive_max_requests st) (rate_limit_sensitive_window_seconds st) now s"
  obtain result s1 where step: "?check = (result, s1)" by fastforce
  have free: "store_visible r st (rate_key x ''auth.telegram.code_verify''
      (hash_identity x [Some (client_identity host), Some code])) now s = None"
    using Cons.prems(3) [of code] by (simp add: code_key_def)
  note first = check_rate_first [OF assms(1) Cons.prems(1) free, where m = "rate_limit_sensitive_max_requests st"
      and win = "rate_limit_sensitive_window_seconds st"]
  have ok: "is_ok result" using first(1) assms(2) step by simp
  have "usable_store r st s1" using kv_store.counter_usable [OF first(2)] step by simp
  moreover have "store_visible r st (code_key x host c) now s1 = None" if "c \<in> set codes" for c
  proof -
    have "code_key x host c \<noteq> code_key x host code" using Cons.prems(2) that by (metis distinct.simps(2) image_eqI list.set_map list.simps(9))
    then have "store_visible r st (code_key x host c) now (snd ?check) = store_visible r st (code_key x host c) now s"
      unfolding code_key_def by (rule check_rate_other_key [OF assms(1) Cons.prems(1) free _ assms(2)])
    with Cons.prems(3) [of c] that step show ?thesis by simp
  qed
  ultimately have "fst (try_codes x r st host now codes s1) = replicate (length codes) True"
    using Cons.prems(2) by (intro Cons.IH) simp_all
  with ok step show ?case by (auto simp: check_sensitive_rate_def split: prod.splits)
qed simp

section \<open>A concrete request\<close>

definition signed_settings :: settings where
  "signed_settings = bot_settings\<lparr>internal_auth_secret := Some ''key''\<rparr>"

definition signed_request :: internal_request where
  "signed_request =
     \<lparr>ir_service_name = Some (bot_service_name signed_settings), ir_timestamp = Some ''0'',
      ir_signature = Some (hmac_sha256 reference_externals ''key'' (canonical_request reference_externals
        (bot_service_name signed_settings) ''0'' ''DELETE'' ''/internal/telegram/link/77'' [])),
      ir_method = ''DELETE'', ir_path = ''/internal/telegram/link/77'', ir_query = [], ir_body = []\<rparr>"

definition after_unlink :: "unit res \<times> world \<times> reference_state kv" where
  "after_unlink = bot_endpoint reference_externals reference_redis signed_settings
     (local_provider reference_parsers default_settings) (\<lambda>_. None) (\<lambda>n. CHR ''z'' # sample_ids n) None 8
     signed_request (UnlinkTelegram 77) linked_library fresh_store"

lemma after_unlink_links: "map tl_is_active (db_telegram_links (fst (snd after_unlink))) = [False]"
  by code_simp

lemma linked_library_keys:
  "links_ok linked_library" "(\<lambda>n. CHR ''z'' # sample_ids n) 0 \<notin> tl_id ` set (db_telegram_links linked_library)"
  "distinct (map u_id (db_users linked_library))"
proof -
  show "links_ok linked_library"
    using link_run_change [OF sample_link_run sample_library_links] by (simp add: link_change_def)
  have "map (hd \<circ> tl_id) (db_telegram_links linked_library) = [CHR ''k'']" by code_simp
  then show "(\<lambda>n. CHR ''z'' # sample_ids n) 0 \<notin> tl_id ` set (db_telegram_links linked_library)"
    by (cases "db_telegram_links linked_library") (auto dest: arg_cong [where f = hd])
  show "distinct (map u_id (db_users linked_library))" by code_simp
qed


text \<open>A blocked account cannot sign in, but the bot still changes its avatar.\<close>

definition blocked_library :: world where
  "blocked_library = linked_library\<lparr>db_users := map (\<lambda>u. u\<lparr>u_is_active := False\<rparr>) (db_users linked_library)\<rparr>"

lemma blocked_account_avatar:
  "map u_is_active (db_users blocked_library) = [False, False] \<and>
   is_ok (fst (upload_telegram_avatar (local_provider reference_parsers default_settings) (\<lambda>_. None) 9 77 avatar_file
     blocked_library))"
  by code_simp

end
