(* ===== verification/FeedbackApi.thy ===== *)
theory FeedbackApi
  imports UserApi Community Cache
begin

text \<open>
  The rest of the endpoints: ratings and deleted comments (\<^verbatim>\<open>materials/community_api.py\<close>,
  \<^verbatim>\<open>community/api.py\<close>), deleting and reporting a material (\<^verbatim>\<open>materials/management_api.py\<close>), a report
  and the dashboard (\<^verbatim>\<open>admin/reports_api.py\<close>), the tags; and the answer that \<^verbatim>\<open>core/exceptions.py\<close>
  makes of an error.
\<close>

section \<open>Ratings and comments\<close>

definition material_rating_summary where
  "material_rating_summary x r st now auth_header query_token material_id w s =
     (case get_optional_user x r st auth_header query_token now w s of
        (Inl e, s1) \<Rightarrow> (Inl e, w, s1)
      | (Inr user, s1) \<Rightarrow> (get_rating_summary material_id user w, w, s1))"

text \<open>The value is between 1 and 5, which the schema checks before the user is known.\<close>

definition rate_material where
  "rate_material x r st ids now token material_id v w s =
     signed_in x r st now token w s (\<lambda>user. rate ids now material_id v user w)"

definition unrate_material where
  "unrate_material x r st ids now token material_id w s =
     signed_in x r st now token w s (\<lambda>user. answer (\<lambda>_. ''Reyting o'chirildi'') (unrate ids now material_id user w))"

definition delete_comment_endpoint where
  "delete_comment_endpoint x r st ids now token comment_id w s =
     signed_in x r st now token w s (\<lambda>user.
       answer (\<lambda>_. ''Izoh o'chirildi'') (delete_comment ids now comment_id user w))"

section \<open>Materials\<close>

definition delete_material_endpoint where
  "delete_material_endpoint x r st now token material_id w s =
     signed_in x r st now token w s (\<lambda>user.
       answer (\<lambda>_. ''Material o'chirildi'') (delete_material now material_id user w))"

definition report_material_endpoint where
  "report_material_endpoint x r st ids now token material_id reason details w s =
     signed_in x r st now token w s (\<lambda>user.
       answer (\<lambda>_. ''Material bo'yicha shikoyat yuborildi'') (report_material ids now material_id reason details user w))"

definition list_tags_endpoint :: "world \<Rightarrow> tag list res" where
  "list_tags_endpoint w = Inr (list_tags w)"

section \<open>A report and the dashboard\<close>

definition get_report_endpoint where
  "get_report_endpoint x r st now token report_id w s =
     with_role x r st [ADMIN] now token w s (\<lambda>_. reading w
       (case find_report report_id w of Inl e \<Rightarrow> Inl e | Inr report \<Rightarrow> build_report_read w report))"

text \<open>The guard, and then the request to the cache.\<close>

definition dashboard_summary_endpoint where
  "dashboard_summary_endpoint x r st cr now token w s cs =
     (case with_role x r st [ADMIN] now token w s (\<lambda>_. reading w (Inr ())) of
        (Inl e, w1, s1) \<Rightarrow> (Inl e, w1, s1, cs)
      | (Inr _, w1, s1) \<Rightarrow> (let (result, w2, cs1) = dashboard_request cr now w1 cs in (result, w2, s1, cs1)))"

section \<open>Errors\<close>

text \<open>
  The handler of \<open>AppException\<close>, with the details that the exception carries beside its message.
  Other exceptions are left to the framework.
\<close>

fun app_exception_message :: "app_error \<Rightarrow> string option" where
  "app_exception_message (AppException m) = Some m"
| "app_exception_message (AuthenticationError m) = Some m"
| "app_exception_message (PermissionDenied m) = Some m"
| "app_exception_message (ResourceNotFound m) = Some m"
| "app_exception_message (ConflictError m) = Some m"
| "app_exception_message (ValidationAppError m) = Some m"
| "app_exception_message (RateLimitExceeded m _) = Some m"
| "app_exception_message (PolicyViolation m) = Some m"
| "app_exception_message (EmailDeliveryError m) = Some m"
| "app_exception_message _ = None"

definition handle_app_exception :: "app_error \<Rightarrow> json \<Rightarrow> (int \<times> json) option" where
  "handle_app_exception e details =
     (case app_exception_message e of
        None \<Rightarrow> None
      | Some m \<Rightarrow> Some (status_code e, JObj [(''error_code'', JStr (error_code e)), (''message'', JStr m),
          (''details'', details)]))"

text \<open>An error of the application is one of the client or of the mail server, never a 500.\<close>

lemma handled_status:
  "handle_app_exception e details = Some (code, body) \<Longrightarrow> code \<in> {400, 401, 403, 404, 409, 422, 429, 502}"
  by (cases e) (auto simp: handle_app_exception_def)

end
