(* ===== verification/Operations.thy ===== *)
theory Operations
  imports Cache Storage Backup
begin

text \<open>
  \<^verbatim>\<open>app/main.py\<close> and \<^verbatim>\<open>db/session.py\<close>: start and end of the application, the report on its health, and
  the options of the database engine. What the report finds outside the program is a parameter
  (\<open>probes\<close>): how the query of the database ends and how the directory of the storage is made.
\<close>

section \<open>Start and end\<close>

text \<open>\<open>lifespan\<close>, before and after the application runs.\<close>

definition startup :: "'r cache_redis \<Rightarrow> settings \<Rightarrow> unit res \<times> 'r cache_service" where
  "startup r st = cache_initialize r (redis_url st) new_cache_service"

definition shutdown :: "'r cache_service \<Rightarrow> 'r cache_service" where
  "shutdown s = cache_close s"

section \<open>Options of the engine\<close>

record database_settings =
  ds_db_url :: string
  ds_pool_size :: int
  ds_max_overflow :: int
  ds_pool_timeout :: int
  ds_pool_recycle :: int
  ds_pool_pre_ping :: bool
  ds_statement_timeout_ms :: "int option"

text \<open>\<open>options.update\<close> and the assignment only add keys that are not there.\<close>

definition build_engine_options :: "database_settings \<Rightarrow> (string \<times> json) list" where
  "build_engine_options s =
     (let options = [(''future'', JBool True), (''echo'', JBool False)] in
      if startswith (ds_db_url s) ''sqlite'' then options
      else
        (let options = options @
               [(''pool_size'', JInt (ds_pool_size s)), (''max_overflow'', JInt (ds_max_overflow s)),
                (''pool_timeout'', JInt (ds_pool_timeout s)), (''pool_recycle'', JInt (ds_pool_recycle s)),
                (''pool_pre_ping'', JBool (ds_pool_pre_ping s))]
         in case ds_statement_timeout_ms s of
              Some n \<Rightarrow>
                (if contains (ds_db_url s) ''asyncpg'' \<and> n \<noteq> 0
                 then options @ [(''connect_args'', JObj [(''server_settings'',
                        JObj [(''statement_timeout'', JStr (str_int n))])])]
                 else options)
            | None \<Rightarrow> options))"

section \<open>Health\<close>

text \<open>
  The error of the database, if any, and that of \<open>mkdir\<close> for the directory of the local storage,
  which \<open>StorageService\<close> makes if it is missing.
\<close>

record probes =
  hp_database_error :: "string option"
  hp_mkdir_error :: "string option"

definition health :: "'r cache_service \<Rightarrow> json" where
  "health s = JObj [(''status'', JStr ''ok''), (''redis_cache'', JBool (cs_is_redis_enabled s))]"

definition database_health :: "probes \<Rightarrow> (string \<times> json) list" where
  "database_health p =
     (case hp_database_error p of
        Some text_of_error \<Rightarrow> [(''status'', JStr ''error''), (''detail'', JStr text_of_error)]
      | None \<Rightarrow> [(''status'', JStr ''ok'')])"

definition cache_health :: "settings \<Rightarrow> 'r cache_service \<Rightarrow> (string \<times> json) list" where
  "cache_health st s =
     (if cs_is_redis_enabled s
      then [(''status'', JStr ''ok''), (''backend'', JStr ''redis''), (''enabled'', JBool True)]
      else if truthy (redis_url st)
      then [(''status'', JStr ''degraded''), (''backend'', JStr ''redis''), (''enabled'', JBool False)]
      else [(''status'', JStr ''disabled''), (''backend'', JStr ''none''), (''enabled'', JBool False)])"

text \<open>\<open>StorageService()\<close>; after a \<open>mkdir\<close> that succeeds the directory is there.\<close>

definition new_storage_service :: "parsers \<Rightarrow> s3_client \<Rightarrow> settings \<Rightarrow> probes \<Rightarrow> provider res" where
  "new_storage_service pr c st p =
     (case storage_service pr c st of
        Inl e \<Rightarrow> Inl e
      | Inr sp \<Rightarrow>
          (if lower (storage_backend st) = ''s3'' then Inr sp
           else (case hp_mkdir_error p of Some e \<Rightarrow> Inl (RuntimeError e) | None \<Rightarrow> Inr sp)))"

fun error_text :: "app_error \<Rightarrow> string" where
  "error_text (RuntimeError m) = m"
| "error_text (BackupError m) = m"
| "error_text _ = []"

definition storage_health :: "parsers \<Rightarrow> s3_client \<Rightarrow> settings \<Rightarrow> probes \<Rightarrow> (string \<times> json) list" where
  "storage_health pr c st p =
     (case new_storage_service pr c st p of
        Inl e \<Rightarrow> [(''status'', JStr ''error''), (''backend'', JStr (storage_backend st)), (''detail'', JStr (error_text e))]
      | Inr _ \<Rightarrow>
          (if storage_backend st = ''local'' \<and> hp_mkdir_error p \<noteq> None
           then [(''status'', JStr ''error''), (''backend'', JStr ''local''), (''detail'', JStr ''Storage root is missing'')]
           else [(''status'', JStr ''ok''), (''backend'', JStr (storage_backend st))]))"

definition latest_backup :: "(backup_manifest \<Rightarrow> string) \<Rightarrow> backup_record list \<Rightarrow> json" where
  "latest_backup field_of records = (case records of [] \<Rightarrow> JNull | r # _ \<Rightarrow> JStr (field_of (br_manifest r)))"

definition backup_health :: "tools \<Rightarrow> settings \<Rightarrow> host \<Rightarrow> (string \<times> json) list res" where
  "backup_health t st h =
     (case list_backups t st h of
        Inl (BackupError m) \<Rightarrow>
          Inr [(''status'', JStr ''degraded''), (''schedule_enabled'', JBool (backup_schedule_enabled st)),
               (''detail'', JStr m), (''latest_backup_id'', JNull), (''latest_backup_at'', JNull)]
      | Inl e \<Rightarrow> Inl e
      | Inr records \<Rightarrow>
          (if backup_schedule_enabled st \<and> records = []
           then Inr [(''status'', JStr ''degraded''), (''schedule_enabled'', JBool True),
                     (''detail'', JStr ''No backups found yet''), (''latest_backup_id'', JNull),
                     (''latest_backup_at'', JNull)]
           else Inr [(''status'', JStr (if records \<noteq> [] \<or> \<not> backup_schedule_enabled st then ''ok'' else ''degraded'')),
                     (''schedule_enabled'', JBool (backup_schedule_enabled st)),
                     (''retention_local'', JInt (backup_retention_local st)),
                     (''retention_offsite'', JInt (backup_retention_offsite st)),
                     (''latest_backup_id'', latest_backup bm_backup_id records),
                     (''latest_backup_at'', latest_backup bm_created_at records)]))"

definition has_status :: "string \<Rightarrow> (string \<times> json) list \<Rightarrow> bool" where
  "has_status s service = (map_of service ''status'' = Some (JStr s))"

text \<open>The status code and the content.\<close>

definition health_ready ::
  "parsers \<Rightarrow> s3_client \<Rightarrow> tools \<Rightarrow> settings \<Rightarrow> probes \<Rightarrow> host \<Rightarrow> 'r cache_service \<Rightarrow> (int \<times> json) res"
where
  "health_ready pr c t st p h s =
     (let database = database_health p; storage = storage_health pr c st p; cache = cache_health st s in
      case backup_health t st h of
        Inl e \<Rightarrow> Inl e
      | Inr backups \<Rightarrow>
          (let (overall_status, code) =
                 (if has_status ''error'' database \<or> has_status ''error'' storage then (''error'', 503)
                  else if has_status ''degraded'' cache \<or> has_status ''degraded'' backups then (''degraded'', 200)
                  else (''ok'', 200))
           in Inr (code,
                JObj [(''status'', JStr overall_status), (''environment'', JStr (app_env st)),
                      (''services'', JObj [(''database'', JObj database), (''cache'', JObj cache),
                         (''storage'', JObj storage), (''backups'', JObj backups)])])))"

section \<open>What the report says\<close>

lemma startup_enabled:
  "startup r st = (Inr (), s) \<Longrightarrow>
     cs_is_redis_enabled s \<longleftrightarrow> (\<exists>a c. redis_url st = Some a \<and> a \<noteq> [] \<and> cr_connect r a = Connected c)"
  by (auto simp: startup_def cache_initialize_def truthy_def split: if_splits connection.splits option.splits)

text \<open>The cache and the backups alone never make the application unready.\<close>

lemma ready_unless_database_or_storage:
  assumes "health_ready pr c t st p h s = Inr (code, body)"
  shows "code = 503 \<longleftrightarrow> hp_database_error p \<noteq> None \<or> \<not> is_ok (new_storage_service pr c st p)"
    and "code \<in> {200, 503}"
proof -
  have "has_status ''error'' (database_health p) \<longleftrightarrow> hp_database_error p \<noteq> None"
    by (simp add: has_status_def database_health_def split: option.splits)
  moreover have "has_status ''error'' (storage_health pr c st p) \<longleftrightarrow> \<not> is_ok (new_storage_service pr c st p)"
    by (auto simp: has_status_def storage_health_def new_storage_service_def storage_service_def lower_def
        split: sum.splits option.splits if_splits)
  ultimately show "code = 503 \<longleftrightarrow> hp_database_error p \<noteq> None \<or> \<not> is_ok (new_storage_service pr c st p)"
    "code \<in> {200, 503}"
    using assms by (auto simp: health_ready_def Let_def split: sum.splits if_splits)
qed

text \<open>A backup that cannot be read makes the report itself fail.\<close>

lemma report_fails:
  "list_backups t st h = Inl (ValueError m) \<Longrightarrow> health_ready pr c t st p h s = Inl (ValueError m)"
  by (simp add: health_ready_def backup_health_def Let_def)

end
