(* ===== verification/Metadata.thy ===== *)
theory Metadata
  imports Prelude
begin

text \<open>
  The tables the ORM classes declare, as data: \<^verbatim>\<open>app/modules/*/models.py\<close> with the mixins of
  \<^verbatim>\<open>app/shared/models/mixins.py\<close>, one definition per class in the order of its
  \<open>mapped_column\<close>s. The records of theory Schema are the rows of these tables; here are the
  types, the nullability, the keys, the unique constraints and the indexes the database keeps
  for them, from which SQLAlchemy derives \<open>Base.metadata\<close>.

  A column of a mixin comes after the class's own. A column whose only argument is a ForeignKey
  takes the type of the column it refers to; a column with both \<open>unique\<close> and \<open>index\<close> gets a
  unique index, one with \<open>unique\<close> alone a constraint. The \<open>default\<close> and \<open>onupdate\<close> arguments
  act in the process and leave no trace in the database: they are where the services make rows.
\<close>

section \<open>Declarations\<close>

datatype sql_type =
    StringT nat
  | TextT
  | IntegerT
  | BigIntegerT
  | BooleanT
  | DateTimeT
  | JsonT
  | ArrayT sql_type
  | EnumT "string list" string

datatype nullability = NULL | NOT_NULL

datatype server_default = NO_DEFAULT | NOW

datatype fk_action = Cascade | SetNull

record foreign_key =
  fk_table :: string
  fk_target :: string
  fk_ondelete :: "fk_action option"
  fk_name :: "string option"
  fk_use_alter :: bool

definition foreign_key :: "string \<Rightarrow> string \<Rightarrow> foreign_key" where
  "foreign_key t c = \<lparr>fk_table = t, fk_target = c, fk_ondelete = None, fk_name = None,
     fk_use_alter = False\<rparr>"

record mapped_column =
  mc_name :: string
  mc_type :: "sql_type option"
  mc_references :: "foreign_key option"
  mc_nullable :: bool
  mc_primary :: bool
  mc_unique :: bool
  mc_index :: bool
  mc_server_default :: server_default

definition mapped_column :: "string \<Rightarrow> sql_type \<Rightarrow> mapped_column" where
  "mapped_column c ty = \<lparr>mc_name = c, mc_type = Some ty, mc_references = None,
     mc_nullable = False, mc_primary = False, mc_unique = False, mc_index = False,
     mc_server_default = NO_DEFAULT\<rparr>"

definition fk_column :: "string \<Rightarrow> foreign_key \<Rightarrow> mapped_column" where
  "fk_column c fk = \<lparr>mc_name = c, mc_type = None, mc_references = Some fk,
     mc_nullable = False, mc_primary = False, mc_unique = False, mc_index = False,
     mc_server_default = NO_DEFAULT\<rparr>"

record table_decl =
  tablename :: string
  table_columns :: "mapped_column list"
  table_unique :: "(string list \<times> string) list"

section \<open>The enum types\<close>

text \<open>\<open>Enum(UserRole)\<close> stores the names of the members under the class's name in lower case.\<close>

definition enum_userrole :: sql_type where
  "enum_userrole = EnumT
    [''STUDENT'', ''MODERATOR'', ''ADMIN'']
    ''userrole''"

definition enum_filekind :: sql_type where
  "enum_filekind = EnumT
    [''IMAGE'', ''DOCUMENT'', ''ARCHIVE'', ''OTHER'']
    ''filekind''"

definition enum_materialstatus :: sql_type where
  "enum_materialstatus = EnumT
    [''DRAFT'', ''PENDING_REVIEW'', ''APPROVED'', ''REJECTED'']
    ''materialstatus''"

definition enum_materialtype :: sql_type where
  "enum_materialtype = EnumT
    [''BOOK'', ''NOTES'', ''SLIDES'', ''EXAM'', ''ASSIGNMENT'', ''LAB'', ''CHEATSHEET'',
     ''OTHER'']
    ''materialtype''"

definition enum_rejectreason :: sql_type where
  "enum_rejectreason = EnumT
    [''WRONG_SUBJECT'', ''DUPLICATE'', ''UNREADABLE'', ''LOW_QUALITY'', ''SPAM'',
     ''COPYRIGHT_OR_POLICY_ISSUE'', ''OTHER'']
    ''rejectreason''"

definition enum_reportstatus :: sql_type where
  "enum_reportstatus = EnumT
    [''OPEN'', ''RESOLVED'', ''DISMISSED'']
    ''reportstatus''"

definition enum_reviewaction :: sql_type where
  "enum_reviewaction = EnumT
    [''SUBMITTED'', ''APPROVED'', ''REJECTED'', ''RESUBMITTED'', ''MOVED_SUBJECT'',
     ''REQUESTED_REVISION'', ''WITHDRAWN'', ''REPORTED'', ''TAKEDOWN'']
    ''reviewaction''"

definition enum_telegrameventtype :: sql_type where
  "enum_telegrameventtype = EnumT
    [''EMAIL_VERIFIED'', ''EMAIL_VERIFICATION_RESENT'', ''MATERIAL_APPROVED'',
     ''MATERIAL_REJECTED'', ''MATERIAL_REVISION_REQUESTED'',
     ''MATERIAL_SUBMITTED_FOR_REVIEW'', ''PASSWORD_CHANGED'',
     ''PASSWORD_RESET_REQUESTED'', ''PROPOSAL_CREATED'', ''PROPOSAL_APPROVED'',
     ''PROPOSAL_REJECTED'', ''TELEGRAM_ACCOUNT_LINKED'', ''TELEGRAM_ACCOUNT_UNLINKED'',
     ''USER_REGISTERED'']
    ''telegrameventtype''"

definition enum_telegrameventstatus :: sql_type where
  "enum_telegrameventstatus = EnumT
    [''PENDING'', ''DISPATCHED'', ''FAILED'']
    ''telegrameventstatus''"

definition enum_proposalentitytype :: sql_type where
  "enum_proposalentitytype = EnumT
    [''UNIVERSITY'', ''FACULTY'', ''SUBJECT'']
    ''proposalentitytype''"

definition enum_proposalstatus :: sql_type where
  "enum_proposalstatus = EnumT
    [''PENDING'', ''APPROVED'', ''REJECTED'']
    ''proposalstatus''"


section \<open>The classes\<close>

text \<open>The columns of the mixins.\<close>

definition uuid_primary_key_columns :: "mapped_column list" where
  "uuid_primary_key_columns =
    [(mapped_column ''id'' (StringT 36))\<lparr>mc_primary := True\<rparr>]"

definition timestamp_columns :: "mapped_column list" where
  "timestamp_columns =
    [(mapped_column ''created_at'' DateTimeT)\<lparr>mc_server_default := NOW\<rparr>,
     (mapped_column ''updated_at'' DateTimeT)\<lparr>mc_server_default := NOW\<rparr>]"

definition users_table :: table_decl where
  "users_table = \<lparr>tablename = ''users'',
    table_columns =
      [mapped_column ''full_name'' (StringT 255),
       (mapped_column ''email'' (StringT 255))\<lparr>mc_unique := True, mc_index := True\<rparr>,
       (mapped_column ''avatar_url'' (StringT 512))\<lparr>mc_nullable := True\<rparr>,
       mapped_column ''hashed_password'' (StringT 255),
       mapped_column ''role'' enum_userrole,
       (fk_column ''university_id'' ((foreign_key ''universities'' ''id'')\<lparr>fk_ondelete := Some SetNull\<rparr>))
          \<lparr>mc_nullable := True, mc_index := True\<rparr>,
       (mapped_column ''university_changed_at'' DateTimeT)\<lparr>mc_nullable := True\<rparr>,
       (mapped_column ''pending_university_name'' (StringT 255))\<lparr>mc_nullable := True\<rparr>,
       mapped_column ''university_status'' (StringT 32),
       mapped_column ''is_active'' BooleanT,
       mapped_column ''is_verified'' BooleanT] @ uuid_primary_key_columns @ timestamp_columns,
    table_unique = []\<rparr>"

definition user_preferences_table :: table_decl where
  "user_preferences_table = \<lparr>tablename = ''user_preferences'',
    table_columns =
      [(fk_column ''user_id'' (foreign_key ''users'' ''id''))
          \<lparr>mc_unique := True, mc_index := True\<rparr>,
       mapped_column ''language'' (StringT 16),
       mapped_column ''email_notifications'' BooleanT,
       mapped_column ''marketing_notifications'' BooleanT,
       mapped_column ''theme'' (StringT 32)] @ uuid_primary_key_columns @ timestamp_columns,
    table_unique = []\<rparr>"

definition saved_materials_table :: table_decl where
  "saved_materials_table = \<lparr>tablename = ''saved_materials'',
    table_columns =
      [(fk_column ''user_id'' (foreign_key ''users'' ''id''))\<lparr>mc_index := True\<rparr>,
       (fk_column ''material_id'' (foreign_key ''materials'' ''id''))
          \<lparr>mc_index := True\<rparr>] @ uuid_primary_key_columns @ timestamp_columns,
    table_unique = [([''user_id'', ''material_id''], ''uq_saved_material_user_material'')]\<rparr>"

definition password_reset_tokens_table :: table_decl where
  "password_reset_tokens_table = \<lparr>tablename = ''password_reset_tokens'',
    table_columns =
      [(fk_column ''user_id'' (foreign_key ''users'' ''id''))\<lparr>mc_index := True\<rparr>,
       (mapped_column ''token'' (StringT 128))\<lparr>mc_unique := True, mc_index := True\<rparr>,
       mapped_column ''expires_at'' DateTimeT,
       mapped_column ''consumed'' BooleanT] @ uuid_primary_key_columns @ timestamp_columns,
    table_unique = []\<rparr>"

definition email_verification_tokens_table :: table_decl where
  "email_verification_tokens_table = \<lparr>tablename = ''email_verification_tokens'',
    table_columns =
      [(fk_column ''user_id'' (foreign_key ''users'' ''id''))\<lparr>mc_index := True\<rparr>,
       (mapped_column ''token'' (StringT 128))\<lparr>mc_unique := True, mc_index := True\<rparr>,
       mapped_column ''expires_at'' DateTimeT,
       mapped_column ''consumed'' BooleanT] @ uuid_primary_key_columns @ timestamp_columns,
    table_unique = []\<rparr>"

definition refresh_token_sessions_table :: table_decl where
  "refresh_token_sessions_table = \<lparr>tablename = ''refresh_token_sessions'',
    table_columns =
      [(fk_column ''user_id'' (foreign_key ''users'' ''id''))\<lparr>mc_index := True\<rparr>,
       (mapped_column ''jti'' (StringT 36))\<lparr>mc_unique := True, mc_index := True\<rparr>,
       mapped_column ''token_hash'' (StringT 64),
       (mapped_column ''expires_at'' DateTimeT)\<lparr>mc_index := True\<rparr>,
       (mapped_column ''used_at'' DateTimeT)\<lparr>mc_nullable := True\<rparr>,
       (mapped_column ''revoked_at'' DateTimeT)\<lparr>mc_nullable := True\<rparr>,
       (mapped_column ''replaced_by_jti'' (StringT 36))
          \<lparr>mc_nullable := True\<rparr>] @ uuid_primary_key_columns @ timestamp_columns,
    table_unique = []\<rparr>"

definition email_outbox_table :: table_decl where
  "email_outbox_table = \<lparr>tablename = ''email_outbox'',
    table_columns =
      [(mapped_column ''recipient_email'' (StringT 255))\<lparr>mc_index := True\<rparr>,
       mapped_column ''subject'' (StringT 255),
       mapped_column ''text_body'' TextT,
       (mapped_column ''html_body'' TextT)\<lparr>mc_nullable := True\<rparr>,
       (mapped_column ''status'' (StringT 32))\<lparr>mc_index := True\<rparr>,
       mapped_column ''attempt_count'' IntegerT,
       mapped_column ''max_attempts'' IntegerT,
       (mapped_column ''next_attempt_at'' DateTimeT)\<lparr>mc_index := True\<rparr>,
       (mapped_column ''last_attempt_at'' DateTimeT)\<lparr>mc_nullable := True\<rparr>,
       (mapped_column ''sent_at'' DateTimeT)\<lparr>mc_nullable := True\<rparr>,
       (mapped_column ''last_error'' TextT)
          \<lparr>mc_nullable := True\<rparr>] @ uuid_primary_key_columns @ timestamp_columns,
    table_unique = []\<rparr>"

definition universities_table :: table_decl where
  "universities_table = \<lparr>tablename = ''universities'',
    table_columns =
      [mapped_column ''name'' (StringT 255),
       (mapped_column ''slug'' (StringT 255))
          \<lparr>mc_unique := True, mc_index := True\<rparr>] @ uuid_primary_key_columns @ timestamp_columns,
    table_unique = []\<rparr>"

definition faculties_table :: table_decl where
  "faculties_table = \<lparr>tablename = ''faculties'',
    table_columns =
      [(fk_column ''university_id'' ((foreign_key ''universities'' ''id'')\<lparr>fk_ondelete := Some Cascade\<rparr>))
          \<lparr>mc_index := True\<rparr>,
       mapped_column ''name'' (StringT 255),
       mapped_column ''slug'' (StringT 255)] @ uuid_primary_key_columns @ timestamp_columns,
    table_unique = [([''university_id'', ''slug''], ''uq_faculty_university_slug'')]\<rparr>"

definition subjects_table :: table_decl where
  "subjects_table = \<lparr>tablename = ''subjects'',
    table_columns =
      [(fk_column ''faculty_id'' ((foreign_key ''faculties'' ''id'')\<lparr>fk_ondelete := Some Cascade\<rparr>))
          \<lparr>mc_index := True\<rparr>,
       mapped_column ''name'' (StringT 255),
       mapped_column ''slug'' (StringT 255),
       (mapped_column ''code'' (StringT 64))\<lparr>mc_nullable := True\<rparr>,
       (mapped_column ''description'' TextT)
          \<lparr>mc_nullable := True\<rparr>] @ uuid_primary_key_columns @ timestamp_columns,
    table_unique = [([''faculty_id'', ''slug''], ''uq_subject_faculty_slug'')]\<rparr>"

definition university_proposals_table :: table_decl where
  "university_proposals_table = \<lparr>tablename = ''university_proposals'',
    table_columns =
      [mapped_column ''proposed_name'' (StringT 255),
       (mapped_column ''proposed_slug'' (StringT 255))\<lparr>mc_nullable := True\<rparr>,
       (mapped_column ''proposed_description'' TextT)\<lparr>mc_nullable := True\<rparr>,
       (fk_column ''created_by'' (foreign_key ''users'' ''id''))\<lparr>mc_index := True\<rparr>,
       mapped_column ''status'' enum_proposalstatus,
       (fk_column ''reviewed_by'' (foreign_key ''users'' ''id''))
          \<lparr>mc_nullable := True\<rparr>,
       (mapped_column ''review_note'' TextT)\<lparr>mc_nullable := True\<rparr>,
       (fk_column ''approved_university_id'' ((foreign_key ''universities'' ''id'')\<lparr>fk_ondelete := Some SetNull\<rparr>))
          \<lparr>mc_nullable := True\<rparr>,
       (mapped_column ''reviewed_at'' DateTimeT)
          \<lparr>mc_nullable := True\<rparr>] @ uuid_primary_key_columns @ timestamp_columns,
    table_unique = []\<rparr>"

definition faculty_proposals_table :: table_decl where
  "faculty_proposals_table = \<lparr>tablename = ''faculty_proposals'',
    table_columns =
      [(fk_column ''university_id'' ((foreign_key ''universities'' ''id'')\<lparr>fk_ondelete := Some Cascade\<rparr>))
          \<lparr>mc_index := True\<rparr>,
       mapped_column ''proposed_name'' (StringT 255),
       (mapped_column ''proposed_slug'' (StringT 255))\<lparr>mc_nullable := True\<rparr>,
       (mapped_column ''proposed_description'' TextT)\<lparr>mc_nullable := True\<rparr>,
       (fk_column ''created_by'' (foreign_key ''users'' ''id''))\<lparr>mc_index := True\<rparr>,
       mapped_column ''status'' enum_proposalstatus,
       (fk_column ''reviewed_by'' (foreign_key ''users'' ''id''))
          \<lparr>mc_nullable := True\<rparr>,
       (mapped_column ''review_note'' TextT)\<lparr>mc_nullable := True\<rparr>,
       (fk_column ''approved_faculty_id'' ((foreign_key ''faculties'' ''id'')\<lparr>fk_ondelete := Some SetNull\<rparr>))
          \<lparr>mc_nullable := True\<rparr>,
       (mapped_column ''reviewed_at'' DateTimeT)
          \<lparr>mc_nullable := True\<rparr>] @ uuid_primary_key_columns @ timestamp_columns,
    table_unique = []\<rparr>"

definition subject_proposals_table :: table_decl where
  "subject_proposals_table = \<lparr>tablename = ''subject_proposals'',
    table_columns =
      [(fk_column ''faculty_id'' ((foreign_key ''faculties'' ''id'')\<lparr>fk_ondelete := Some Cascade\<rparr>))
          \<lparr>mc_index := True\<rparr>,
       mapped_column ''proposed_name'' (StringT 255),
       (mapped_column ''proposed_slug'' (StringT 255))\<lparr>mc_nullable := True\<rparr>,
       (mapped_column ''proposed_code'' (StringT 64))\<lparr>mc_nullable := True\<rparr>,
       (mapped_column ''proposed_semester'' IntegerT)\<lparr>mc_nullable := True\<rparr>,
       (mapped_column ''proposed_description'' TextT)\<lparr>mc_nullable := True\<rparr>,
       (fk_column ''created_by'' (foreign_key ''users'' ''id''))\<lparr>mc_index := True\<rparr>,
       mapped_column ''status'' enum_proposalstatus,
       (fk_column ''reviewed_by'' (foreign_key ''users'' ''id''))
          \<lparr>mc_nullable := True\<rparr>,
       (mapped_column ''review_note'' TextT)\<lparr>mc_nullable := True\<rparr>,
       (fk_column ''approved_subject_id'' ((foreign_key ''subjects'' ''id'')\<lparr>fk_ondelete := Some SetNull\<rparr>))
          \<lparr>mc_nullable := True\<rparr>,
       (mapped_column ''reviewed_at'' DateTimeT)
          \<lparr>mc_nullable := True\<rparr>] @ uuid_primary_key_columns @ timestamp_columns,
    table_unique = []\<rparr>"

definition catalog_proposal_logs_table :: table_decl where
  "catalog_proposal_logs_table = \<lparr>tablename = ''catalog_proposal_logs'',
    table_columns =
      [(mapped_column ''entity_type'' enum_proposalentitytype)\<lparr>mc_index := True\<rparr>,
       (mapped_column ''entity_id'' (StringT 36))\<lparr>mc_index := True\<rparr>,
       mapped_column ''action'' (StringT 64),
       (fk_column ''actor_id'' (foreign_key ''users'' ''id''))\<lparr>mc_index := True\<rparr>,
       (mapped_column ''note'' TextT)
          \<lparr>mc_nullable := True\<rparr>] @ uuid_primary_key_columns @ timestamp_columns,
    table_unique = []\<rparr>"

definition catalog_reports_table :: table_decl where
  "catalog_reports_table = \<lparr>tablename = ''catalog_reports'',
    table_columns =
      [mapped_column ''entity_type'' (StringT 50),
       (mapped_column ''entity_id'' (StringT 36))\<lparr>mc_index := True\<rparr>,
       mapped_column ''entity_name'' (StringT 255),
       (fk_column ''reporter_id'' (foreign_key ''users'' ''id''))\<lparr>mc_index := True\<rparr>,
       (fk_column ''reviewer_id'' (foreign_key ''users'' ''id''))
          \<lparr>mc_nullable := True, mc_index := True\<rparr>,
       mapped_column ''reason'' (StringT 128),
       (mapped_column ''details'' TextT)\<lparr>mc_nullable := True\<rparr>,
       mapped_column ''status'' (StringT 32),
       (mapped_column ''resolution_note'' TextT)\<lparr>mc_nullable := True\<rparr>,
       (mapped_column ''reviewed_at'' DateTimeT)
          \<lparr>mc_nullable := True\<rparr>] @ uuid_primary_key_columns @ timestamp_columns,
    table_unique = []\<rparr>"

definition comments_table :: table_decl where
  "comments_table = \<lparr>tablename = ''comments'',
    table_columns =
      [(fk_column ''material_id'' (foreign_key ''materials'' ''id''))
          \<lparr>mc_index := True\<rparr>,
       (fk_column ''user_id'' (foreign_key ''users'' ''id''))\<lparr>mc_index := True\<rparr>,
       mapped_column ''content'' TextT] @ uuid_primary_key_columns @ timestamp_columns,
    table_unique = []\<rparr>"

definition material_ratings_table :: table_decl where
  "material_ratings_table = \<lparr>tablename = ''material_ratings'',
    table_columns =
      [(fk_column ''user_id'' (foreign_key ''users'' ''id''))\<lparr>mc_index := True\<rparr>,
       (fk_column ''material_id'' (foreign_key ''materials'' ''id''))
          \<lparr>mc_index := True\<rparr>,
       mapped_column ''value'' IntegerT] @ uuid_primary_key_columns @ timestamp_columns,
    table_unique = [([''user_id'', ''material_id''], ''uq_material_rating_user_material'')]\<rparr>"

definition moderator_university_scopes_table :: table_decl where
  "moderator_university_scopes_table = \<lparr>tablename = ''moderator_university_scopes'',
    table_columns =
      [(fk_column ''user_id'' (foreign_key ''users'' ''id''))\<lparr>mc_index := True\<rparr>,
       (fk_column ''university_id'' ((foreign_key ''universities'' ''id'')\<lparr>fk_ondelete := Some Cascade\<rparr>))
          \<lparr>mc_index := True\<rparr>] @ uuid_primary_key_columns @ timestamp_columns,
    table_unique = [([''user_id'', ''university_id''], ''uq_mod_uni_scope'')]\<rparr>"

definition moderator_faculty_scopes_table :: table_decl where
  "moderator_faculty_scopes_table = \<lparr>tablename = ''moderator_faculty_scopes'',
    table_columns =
      [(fk_column ''user_id'' (foreign_key ''users'' ''id''))\<lparr>mc_index := True\<rparr>,
       (fk_column ''faculty_id'' ((foreign_key ''faculties'' ''id'')\<lparr>fk_ondelete := Some Cascade\<rparr>))
          \<lparr>mc_index := True\<rparr>] @ uuid_primary_key_columns @ timestamp_columns,
    table_unique = [([''user_id'', ''faculty_id''], ''uq_mod_fac_scope'')]\<rparr>"

definition moderator_subject_scopes_table :: table_decl where
  "moderator_subject_scopes_table = \<lparr>tablename = ''moderator_subject_scopes'',
    table_columns =
      [(fk_column ''user_id'' (foreign_key ''users'' ''id''))\<lparr>mc_index := True\<rparr>,
       (fk_column ''subject_id'' ((foreign_key ''subjects'' ''id'')\<lparr>fk_ondelete := Some Cascade\<rparr>))
          \<lparr>mc_index := True\<rparr>] @ uuid_primary_key_columns @ timestamp_columns,
    table_unique = [([''user_id'', ''subject_id''], ''uq_mod_sub_scope'')]\<rparr>"

definition materials_table :: table_decl where
  "materials_table = \<lparr>tablename = ''materials'',
    table_columns =
      [mapped_column ''title'' (StringT 255),
       (mapped_column ''slug'' (StringT 255))\<lparr>mc_unique := True, mc_index := True\<rparr>,
       (mapped_column ''description'' TextT)\<lparr>mc_nullable := True\<rparr>,
       mapped_column ''material_type'' enum_materialtype,
       (mapped_column ''status'' enum_materialstatus)\<lparr>mc_index := True\<rparr>,
       (fk_column ''subject_id'' (foreign_key ''subjects'' ''id''))\<lparr>mc_index := True\<rparr>,
       mapped_column ''semesters'' (ArrayT IntegerT),
       (fk_column ''uploaded_by'' (foreign_key ''users'' ''id''))\<lparr>mc_index := True\<rparr>,
       (fk_column ''approved_by'' (foreign_key ''users'' ''id''))
          \<lparr>mc_nullable := True\<rparr>,
       (fk_column ''last_reviewed_by'' (foreign_key ''users'' ''id''))
          \<lparr>mc_nullable := True\<rparr>,
       (mapped_column ''rejected_reason'' enum_rejectreason)\<lparr>mc_nullable := True\<rparr>,
       (fk_column ''cover_file_id'' ((foreign_key ''material_files'' ''id'')\<lparr>fk_name := Some ''fk_material_cover_file'', fk_use_alter := True\<rparr>))
          \<lparr>mc_nullable := True\<rparr>,
       (fk_column ''primary_file_id'' ((foreign_key ''material_files'' ''id'')\<lparr>fk_name := Some ''fk_material_primary_file'', fk_use_alter := True\<rparr>))
          \<lparr>mc_nullable := True\<rparr>,
       mapped_column ''file_count'' IntegerT,
       mapped_column ''total_size'' IntegerT,
       mapped_column ''download_count'' IntegerT,
       (mapped_column ''submitted_at'' DateTimeT)\<lparr>mc_nullable := True\<rparr>,
       (mapped_column ''reviewed_at'' DateTimeT)\<lparr>mc_nullable := True\<rparr>,
       (mapped_column ''deleted_at'' DateTimeT)
          \<lparr>mc_nullable := True\<rparr>] @ uuid_primary_key_columns @ timestamp_columns,
    table_unique = []\<rparr>"

definition material_files_table :: table_decl where
  "material_files_table = \<lparr>tablename = ''material_files'',
    table_columns =
      [(fk_column ''material_id'' (foreign_key ''materials'' ''id''))
          \<lparr>mc_index := True\<rparr>,
       (mapped_column ''storage_key'' (StringT 512))\<lparr>mc_unique := True\<rparr>,
       (mapped_column ''preview_storage_key'' (StringT 512))
          \<lparr>mc_nullable := True, mc_unique := True\<rparr>,
       mapped_column ''original_filename'' (StringT 255),
       mapped_column ''mime_type'' (StringT 128),
       mapped_column ''file_size'' IntegerT,
       mapped_column ''file_ext'' (StringT 32),
       (mapped_column ''file_kind'' enum_filekind)\<lparr>mc_index := True\<rparr>,
       mapped_column ''file_order'' IntegerT,
       (mapped_column ''checksum_hash'' (StringT 64))\<lparr>mc_index := True\<rparr>,
       mapped_column ''is_previewable'' BooleanT,
       (mapped_column ''preview_page_count'' IntegerT)
          \<lparr>mc_nullable := True\<rparr>] @ uuid_primary_key_columns @ timestamp_columns,
    table_unique = []\<rparr>"

definition material_downloads_table :: table_decl where
  "material_downloads_table = \<lparr>tablename = ''material_downloads'',
    table_columns =
      [(fk_column ''user_id'' ((foreign_key ''users'' ''id'')\<lparr>fk_ondelete := Some SetNull\<rparr>))
          \<lparr>mc_nullable := True, mc_index := True\<rparr>,
       (fk_column ''material_id'' ((foreign_key ''materials'' ''id'')\<lparr>fk_ondelete := Some Cascade\<rparr>))
          \<lparr>mc_index := True\<rparr>,
       (mapped_column ''ip_address'' (StringT 45))
          \<lparr>mc_nullable := True\<rparr>] @ uuid_primary_key_columns @ timestamp_columns,
    table_unique = [([''user_id'', ''material_id''], ''uq_user_material_download'')]\<rparr>"

definition material_review_logs_table :: table_decl where
  "material_review_logs_table = \<lparr>tablename = ''material_review_logs'',
    table_columns =
      [(fk_column ''material_id'' (foreign_key ''materials'' ''id''))
          \<lparr>mc_index := True\<rparr>,
       mapped_column ''action'' enum_reviewaction,
       (fk_column ''actor_id'' (foreign_key ''users'' ''id''))\<lparr>mc_index := True\<rparr>,
       (mapped_column ''note'' TextT)\<lparr>mc_nullable := True\<rparr>,
       (mapped_column ''reason'' (StringT 128))
          \<lparr>mc_nullable := True\<rparr>] @ uuid_primary_key_columns @ timestamp_columns,
    table_unique = []\<rparr>"

definition material_reports_table :: table_decl where
  "material_reports_table = \<lparr>tablename = ''material_reports'',
    table_columns =
      [(fk_column ''material_id'' (foreign_key ''materials'' ''id''))
          \<lparr>mc_index := True\<rparr>,
       (fk_column ''reporter_id'' (foreign_key ''users'' ''id''))\<lparr>mc_index := True\<rparr>,
       (fk_column ''reviewer_id'' (foreign_key ''users'' ''id''))
          \<lparr>mc_nullable := True, mc_index := True\<rparr>,
       mapped_column ''reason'' (StringT 128),
       (mapped_column ''details'' TextT)\<lparr>mc_nullable := True\<rparr>,
       mapped_column ''status'' enum_reportstatus,
       (mapped_column ''resolution_note'' TextT)\<lparr>mc_nullable := True\<rparr>,
       (mapped_column ''reviewed_at'' DateTimeT)
          \<lparr>mc_nullable := True\<rparr>] @ uuid_primary_key_columns @ timestamp_columns,
    table_unique = []\<rparr>"

definition material_tags_table :: table_decl where
  "material_tags_table = \<lparr>tablename = ''material_tags'',
    table_columns =
      [(fk_column ''material_id'' (foreign_key ''materials'' ''id''))
          \<lparr>mc_primary := True\<rparr>,
       (fk_column ''tag_id'' (foreign_key ''tags'' ''id''))\<lparr>mc_primary := True\<rparr>],
    table_unique = []\<rparr>"

definition tags_table :: table_decl where
  "tags_table = \<lparr>tablename = ''tags'',
    table_columns =
      [(mapped_column ''name'' (StringT 100))\<lparr>mc_unique := True\<rparr>,
       (mapped_column ''slug'' (StringT 100))
          \<lparr>mc_unique := True\<rparr>] @ uuid_primary_key_columns,
    table_unique = []\<rparr>"

definition telegram_links_table :: table_decl where
  "telegram_links_table = \<lparr>tablename = ''telegram_links'',
    table_columns =
      [(fk_column ''user_id'' (foreign_key ''users'' ''id''))
          \<lparr>mc_unique := True, mc_index := True\<rparr>,
       (mapped_column ''telegram_user_id'' BigIntegerT)
          \<lparr>mc_unique := True, mc_index := True\<rparr>,
       (mapped_column ''telegram_username'' (StringT 255))\<lparr>mc_nullable := True\<rparr>,
       (mapped_column ''telegram_first_name'' (StringT 255))\<lparr>mc_nullable := True\<rparr>,
       (mapped_column ''telegram_last_name'' (StringT 255))\<lparr>mc_nullable := True\<rparr>,
       (mapped_column ''language_code'' (StringT 16))\<lparr>mc_nullable := True\<rparr>,
       mapped_column ''linked_at'' DateTimeT,
       (mapped_column ''unlinked_at'' DateTimeT)\<lparr>mc_nullable := True\<rparr>,
       mapped_column ''is_active'' BooleanT] @ uuid_primary_key_columns @ timestamp_columns,
    table_unique = []\<rparr>"

definition telegram_link_sessions_table :: table_decl where
  "telegram_link_sessions_table = \<lparr>tablename = ''telegram_link_sessions'',
    table_columns =
      [(fk_column ''user_id'' (foreign_key ''users'' ''id''))\<lparr>mc_index := True\<rparr>,
       (mapped_column ''token_hash'' (StringT 128))
          \<lparr>mc_unique := True, mc_index := True\<rparr>,
       (mapped_column ''code_hash'' (StringT 128))
          \<lparr>mc_unique := True, mc_index := True\<rparr>,
       (mapped_column ''expires_at'' DateTimeT)\<lparr>mc_index := True\<rparr>,
       (mapped_column ''used_at'' DateTimeT)\<lparr>mc_nullable := True\<rparr>,
       (mapped_column ''revoked_at'' DateTimeT)\<lparr>mc_nullable := True\<rparr>,
       mapped_column ''is_active'' BooleanT] @ uuid_primary_key_columns @ timestamp_columns,
    table_unique = []\<rparr>"

definition telegram_event_outbox_table :: table_decl where
  "telegram_event_outbox_table = \<lparr>tablename = ''telegram_event_outbox'',
    table_columns =
      [(mapped_column ''event_type'' enum_telegrameventtype)\<lparr>mc_index := True\<rparr>,
       (mapped_column ''entity_type'' (StringT 64))
          \<lparr>mc_nullable := True, mc_index := True\<rparr>,
       (mapped_column ''entity_id'' (StringT 36))
          \<lparr>mc_nullable := True, mc_index := True\<rparr>,
       (fk_column ''recipient_user_id'' (foreign_key ''users'' ''id''))
          \<lparr>mc_index := True\<rparr>,
       (mapped_column ''recipient_role'' (StringT 32))\<lparr>mc_nullable := True\<rparr>,
       mapped_column ''delivery_channel'' (StringT 32),
       mapped_column ''payload'' JsonT,
       (mapped_column ''status'' enum_telegrameventstatus)\<lparr>mc_index := True\<rparr>,
       mapped_column ''attempt_count'' IntegerT,
       (mapped_column ''last_error'' TextT)\<lparr>mc_nullable := True\<rparr>,
       (mapped_column ''dispatched_at'' DateTimeT)
          \<lparr>mc_nullable := True\<rparr>] @ uuid_primary_key_columns @ timestamp_columns,
    table_unique = [([''event_type'', ''entity_id'', ''recipient_user_id'', ''delivery_channel''], ''uq_telegram_event_outbox_identity'')]\<rparr>"

definition audit_logs_table :: table_decl where
  "audit_logs_table = \<lparr>tablename = ''audit_logs'',
    table_columns =
      [(fk_column ''actor_id'' (foreign_key ''users'' ''id''))
          \<lparr>mc_nullable := True, mc_index := True\<rparr>,
       (mapped_column ''entity'' (StringT 64))\<lparr>mc_index := True\<rparr>,
       (mapped_column ''entity_id'' (StringT 36))
          \<lparr>mc_nullable := True, mc_index := True\<rparr>,
       (mapped_column ''action'' (StringT 64))\<lparr>mc_index := True\<rparr>,
       (mapped_column ''details'' TextT)
          \<lparr>mc_nullable := True\<rparr>] @ uuid_primary_key_columns @ timestamp_columns,
    table_unique = []\<rparr>"

definition notifications_table :: table_decl where
  "notifications_table = \<lparr>tablename = ''notifications'',
    table_columns =
      [(fk_column ''user_id'' (foreign_key ''users'' ''id''))\<lparr>mc_index := True\<rparr>,
       mapped_column ''title'' (StringT 255),
       mapped_column ''body'' TextT,
       mapped_column ''is_read'' BooleanT] @ uuid_primary_key_columns @ timestamp_columns,
    table_unique = []\<rparr>"

text \<open>\<open>Base.metadata\<close>, as \<^verbatim>\<open>app/db/models.py\<close> gathers it.\<close>

definition metadata :: "table_decl list" where
  "metadata =
    [users_table,
     user_preferences_table,
     saved_materials_table,
     password_reset_tokens_table,
     email_verification_tokens_table,
     refresh_token_sessions_table,
     email_outbox_table,
     universities_table,
     faculties_table,
     subjects_table,
     university_proposals_table,
     faculty_proposals_table,
     subject_proposals_table,
     catalog_proposal_logs_table,
     catalog_reports_table,
     comments_table,
     material_ratings_table,
     moderator_university_scopes_table,
     moderator_faculty_scopes_table,
     moderator_subject_scopes_table,
     materials_table,
     material_files_table,
     material_downloads_table,
     material_review_logs_table,
     material_reports_table,
     material_tags_table,
     tags_table,
     telegram_links_table,
     telegram_link_sessions_table,
     telegram_event_outbox_table,
     audit_logs_table,
     notifications_table]"

section \<open>What the declarations ask of the database\<close>

datatype ddl_column = Column string sql_type nullability server_default

fun column_name :: "ddl_column \<Rightarrow> string" where
  "column_name (Column c _ _ _) = c"

fun column_type :: "ddl_column \<Rightarrow> sql_type" where
  "column_type (Column _ ty _ _) = ty"

text \<open>A foreign key names its columns, the columns it refers to, the action on a deletion, a name
  for the constraint and whether it is left to a later ALTER.\<close>

datatype table_constraint =
    PrimaryKeyC "string list"
  | UniqueC "string list" "string option"
  | ForeignKeyC "string list" "(string \<times> string) list" "fk_action option" "string option" bool

type_synonym ddl_table = "string \<times> ddl_column list \<times> table_constraint list"
type_synonym ddl_index = "string \<times> string \<times> string list \<times> bool"

text \<open>The type of a referenced column, looked up in the declarations.\<close>

definition referenced_type :: "table_decl list \<Rightarrow> foreign_key \<Rightarrow> sql_type option" where
  "referenced_type md fk =
     (case find (\<lambda>t. tablename t = fk_table fk) md of
        None \<Rightarrow> None
      | Some t \<Rightarrow>
          (case find (\<lambda>c. mc_name c = fk_target fk) (table_columns t) of
             None \<Rightarrow> None
           | Some c \<Rightarrow> mc_type c))"

definition declared_type :: "table_decl list \<Rightarrow> mapped_column \<Rightarrow> sql_type option" where
  "declared_type md c =
     (case mc_type c of
        Some ty \<Rightarrow> Some ty
      | None \<Rightarrow> Option.bind (mc_references c) (referenced_type md))"

definition declared_column :: "table_decl list \<Rightarrow> mapped_column \<Rightarrow> ddl_column option" where
  "declared_column md c =
     map_option
       (\<lambda>ty. Column (mc_name c) ty (if mc_nullable c then NULL else NOT_NULL)
          (mc_server_default c))
       (declared_type md c)"

definition declared_foreign_key :: "mapped_column \<Rightarrow> table_constraint list" where
  "declared_foreign_key c =
     (case mc_references c of
        None \<Rightarrow> []
      | Some fk \<Rightarrow>
          [ForeignKeyC [mc_name c] [(fk_table fk, fk_target fk)] (fk_ondelete fk) (fk_name fk)
             (fk_use_alter fk)])"

definition declared_constraints :: "table_decl \<Rightarrow> table_constraint list" where
  "declared_constraints t =
     PrimaryKeyC (map mc_name (filter mc_primary (table_columns t)))
     # concat (map declared_foreign_key (table_columns t))
     @ map (\<lambda>c. UniqueC [mc_name c] None)
         (filter (\<lambda>c. mc_unique c \<and> \<not> mc_index c) (table_columns t))
     @ map (\<lambda>(cs, n). UniqueC cs (Some n)) (table_unique t)"

definition declared_indexes :: "table_decl \<Rightarrow> ddl_index list" where
  "declared_indexes t =
     map (\<lambda>c. (''ix_'' @ tablename t @ ''_'' @ mc_name c, tablename t, [mc_name c], mc_unique c))
       (filter mc_index (table_columns t))"

end
