(* ===== verification/Migration.thy ===== *)
theory Migration
  imports Metadata
begin

text \<open>
  The database migration \<^verbatim>\<open>app/db/migrations/versions/19eea0cc3baf_add_tables.py\<close>, as the list
  of the operations its \<open>upgrade\<close> and \<open>downgrade\<close> hand to Alembic, one definition per table of
  \<open>upgrade\<close> in the order of the file.

  Theory MigrationFacts runs these operations on a database schema and compares what they create
  with the declarations of theory Metadata.
\<close>

datatype ddl =
    CreateTable string "ddl_column list" "table_constraint list"
  | CreateIndex string string "string list" bool
  | DropIndex string string
  | DropTable string

section \<open>upgrade\<close>

definition create_email_outbox :: "ddl list" where
  "create_email_outbox =
    [CreateTable ''email_outbox''
       [Column ''recipient_email'' (StringT 255) NOT_NULL NO_DEFAULT,
        Column ''subject'' (StringT 255) NOT_NULL NO_DEFAULT,
        Column ''text_body'' TextT NOT_NULL NO_DEFAULT,
        Column ''html_body'' TextT NULL NO_DEFAULT,
        Column ''status'' (StringT 32) NOT_NULL NO_DEFAULT,
        Column ''attempt_count'' IntegerT NOT_NULL NO_DEFAULT,
        Column ''max_attempts'' IntegerT NOT_NULL NO_DEFAULT,
        Column ''next_attempt_at'' DateTimeT NOT_NULL NO_DEFAULT,
        Column ''last_attempt_at'' DateTimeT NULL NO_DEFAULT,
        Column ''sent_at'' DateTimeT NULL NO_DEFAULT,
        Column ''last_error'' TextT NULL NO_DEFAULT,
        Column ''id'' (StringT 36) NOT_NULL NO_DEFAULT,
        Column ''created_at'' DateTimeT NOT_NULL NOW,
        Column ''updated_at'' DateTimeT NOT_NULL NOW]
       [PrimaryKeyC [''id'']],
     CreateIndex ''ix_email_outbox_next_attempt_at'' ''email_outbox''
       [''next_attempt_at''] False,
     CreateIndex ''ix_email_outbox_recipient_email'' ''email_outbox''
       [''recipient_email''] False,
     CreateIndex ''ix_email_outbox_status'' ''email_outbox''
       [''status''] False]"

definition create_tags :: "ddl list" where
  "create_tags =
    [CreateTable ''tags''
       [Column ''name'' (StringT 100) NOT_NULL NO_DEFAULT,
        Column ''slug'' (StringT 100) NOT_NULL NO_DEFAULT,
        Column ''id'' (StringT 36) NOT_NULL NO_DEFAULT]
       [PrimaryKeyC [''id''],
        UniqueC [''name''] None,
        UniqueC [''slug''] None]]"

definition create_universities :: "ddl list" where
  "create_universities =
    [CreateTable ''universities''
       [Column ''name'' (StringT 255) NOT_NULL NO_DEFAULT,
        Column ''slug'' (StringT 255) NOT_NULL NO_DEFAULT,
        Column ''id'' (StringT 36) NOT_NULL NO_DEFAULT,
        Column ''created_at'' DateTimeT NOT_NULL NOW,
        Column ''updated_at'' DateTimeT NOT_NULL NOW]
       [PrimaryKeyC [''id'']],
     CreateIndex ''ix_universities_slug'' ''universities''
       [''slug''] True]"

definition create_faculties :: "ddl list" where
  "create_faculties =
    [CreateTable ''faculties''
       [Column ''university_id'' (StringT 36) NOT_NULL NO_DEFAULT,
        Column ''name'' (StringT 255) NOT_NULL NO_DEFAULT,
        Column ''slug'' (StringT 255) NOT_NULL NO_DEFAULT,
        Column ''id'' (StringT 36) NOT_NULL NO_DEFAULT,
        Column ''created_at'' DateTimeT NOT_NULL NOW,
        Column ''updated_at'' DateTimeT NOT_NULL NOW]
       [ForeignKeyC [''university_id''] [(''universities'', ''id'')] (Some Cascade) None False,
        PrimaryKeyC [''id''],
        UniqueC [''university_id'', ''slug''] (Some ''uq_faculty_university_slug'')],
     CreateIndex ''ix_faculties_university_id'' ''faculties''
       [''university_id''] False]"

definition create_users :: "ddl list" where
  "create_users =
    [CreateTable ''users''
       [Column ''full_name'' (StringT 255) NOT_NULL NO_DEFAULT,
        Column ''email'' (StringT 255) NOT_NULL NO_DEFAULT,
        Column ''avatar_url'' (StringT 512) NULL NO_DEFAULT,
        Column ''hashed_password'' (StringT 255) NOT_NULL NO_DEFAULT,
        Column ''role'' (EnumT
          [''STUDENT'', ''MODERATOR'', ''ADMIN'']
          ''userrole'') NOT_NULL NO_DEFAULT,
        Column ''university_id'' (StringT 36) NULL NO_DEFAULT,
        Column ''university_changed_at'' DateTimeT NULL NO_DEFAULT,
        Column ''pending_university_name'' (StringT 255) NULL NO_DEFAULT,
        Column ''university_status'' (StringT 32) NOT_NULL NO_DEFAULT,
        Column ''is_active'' BooleanT NOT_NULL NO_DEFAULT,
        Column ''is_verified'' BooleanT NOT_NULL NO_DEFAULT,
        Column ''id'' (StringT 36) NOT_NULL NO_DEFAULT,
        Column ''created_at'' DateTimeT NOT_NULL NOW,
        Column ''updated_at'' DateTimeT NOT_NULL NOW]
       [ForeignKeyC [''university_id''] [(''universities'', ''id'')] (Some SetNull) None False,
        PrimaryKeyC [''id'']],
     CreateIndex ''ix_users_email'' ''users''
       [''email''] True,
     CreateIndex ''ix_users_university_id'' ''users''
       [''university_id''] False]"

definition create_audit_logs :: "ddl list" where
  "create_audit_logs =
    [CreateTable ''audit_logs''
       [Column ''actor_id'' (StringT 36) NULL NO_DEFAULT,
        Column ''entity'' (StringT 64) NOT_NULL NO_DEFAULT,
        Column ''entity_id'' (StringT 36) NULL NO_DEFAULT,
        Column ''action'' (StringT 64) NOT_NULL NO_DEFAULT,
        Column ''details'' TextT NULL NO_DEFAULT,
        Column ''id'' (StringT 36) NOT_NULL NO_DEFAULT,
        Column ''created_at'' DateTimeT NOT_NULL NOW,
        Column ''updated_at'' DateTimeT NOT_NULL NOW]
       [ForeignKeyC [''actor_id''] [(''users'', ''id'')] None None False,
        PrimaryKeyC [''id'']],
     CreateIndex ''ix_audit_logs_action'' ''audit_logs''
       [''action''] False,
     CreateIndex ''ix_audit_logs_actor_id'' ''audit_logs''
       [''actor_id''] False,
     CreateIndex ''ix_audit_logs_entity'' ''audit_logs''
       [''entity''] False,
     CreateIndex ''ix_audit_logs_entity_id'' ''audit_logs''
       [''entity_id''] False]"

definition create_catalog_proposal_logs :: "ddl list" where
  "create_catalog_proposal_logs =
    [CreateTable ''catalog_proposal_logs''
       [Column ''entity_type'' (EnumT
          [''UNIVERSITY'', ''FACULTY'', ''SUBJECT'']
          ''proposalentitytype'') NOT_NULL NO_DEFAULT,
        Column ''entity_id'' (StringT 36) NOT_NULL NO_DEFAULT,
        Column ''action'' (StringT 64) NOT_NULL NO_DEFAULT,
        Column ''actor_id'' (StringT 36) NOT_NULL NO_DEFAULT,
        Column ''note'' TextT NULL NO_DEFAULT,
        Column ''id'' (StringT 36) NOT_NULL NO_DEFAULT,
        Column ''created_at'' DateTimeT NOT_NULL NOW,
        Column ''updated_at'' DateTimeT NOT_NULL NOW]
       [ForeignKeyC [''actor_id''] [(''users'', ''id'')] None None False,
        PrimaryKeyC [''id'']],
     CreateIndex ''ix_catalog_proposal_logs_actor_id'' ''catalog_proposal_logs''
       [''actor_id''] False,
     CreateIndex ''ix_catalog_proposal_logs_entity_id'' ''catalog_proposal_logs''
       [''entity_id''] False,
     CreateIndex ''ix_catalog_proposal_logs_entity_type'' ''catalog_proposal_logs''
       [''entity_type''] False]"

definition create_catalog_reports :: "ddl list" where
  "create_catalog_reports =
    [CreateTable ''catalog_reports''
       [Column ''entity_type'' (StringT 50) NOT_NULL NO_DEFAULT,
        Column ''entity_id'' (StringT 36) NOT_NULL NO_DEFAULT,
        Column ''entity_name'' (StringT 255) NOT_NULL NO_DEFAULT,
        Column ''reporter_id'' (StringT 36) NOT_NULL NO_DEFAULT,
        Column ''reviewer_id'' (StringT 36) NULL NO_DEFAULT,
        Column ''reason'' (StringT 128) NOT_NULL NO_DEFAULT,
        Column ''details'' TextT NULL NO_DEFAULT,
        Column ''status'' (StringT 32) NOT_NULL NO_DEFAULT,
        Column ''resolution_note'' TextT NULL NO_DEFAULT,
        Column ''reviewed_at'' DateTimeT NULL NO_DEFAULT,
        Column ''id'' (StringT 36) NOT_NULL NO_DEFAULT,
        Column ''created_at'' DateTimeT NOT_NULL NOW,
        Column ''updated_at'' DateTimeT NOT_NULL NOW]
       [ForeignKeyC [''reporter_id''] [(''users'', ''id'')] None None False,
        ForeignKeyC [''reviewer_id''] [(''users'', ''id'')] None None False,
        PrimaryKeyC [''id'']],
     CreateIndex ''ix_catalog_reports_entity_id'' ''catalog_reports''
       [''entity_id''] False,
     CreateIndex ''ix_catalog_reports_reporter_id'' ''catalog_reports''
       [''reporter_id''] False,
     CreateIndex ''ix_catalog_reports_reviewer_id'' ''catalog_reports''
       [''reviewer_id''] False]"

definition create_email_verification_tokens :: "ddl list" where
  "create_email_verification_tokens =
    [CreateTable ''email_verification_tokens''
       [Column ''user_id'' (StringT 36) NOT_NULL NO_DEFAULT,
        Column ''token'' (StringT 128) NOT_NULL NO_DEFAULT,
        Column ''expires_at'' DateTimeT NOT_NULL NO_DEFAULT,
        Column ''consumed'' BooleanT NOT_NULL NO_DEFAULT,
        Column ''id'' (StringT 36) NOT_NULL NO_DEFAULT,
        Column ''created_at'' DateTimeT NOT_NULL NOW,
        Column ''updated_at'' DateTimeT NOT_NULL NOW]
       [ForeignKeyC [''user_id''] [(''users'', ''id'')] None None False,
        PrimaryKeyC [''id'']],
     CreateIndex ''ix_email_verification_tokens_token'' ''email_verification_tokens''
       [''token''] True,
     CreateIndex ''ix_email_verification_tokens_user_id'' ''email_verification_tokens''
       [''user_id''] False]"

definition create_faculty_proposals :: "ddl list" where
  "create_faculty_proposals =
    [CreateTable ''faculty_proposals''
       [Column ''university_id'' (StringT 36) NOT_NULL NO_DEFAULT,
        Column ''proposed_name'' (StringT 255) NOT_NULL NO_DEFAULT,
        Column ''proposed_slug'' (StringT 255) NULL NO_DEFAULT,
        Column ''proposed_description'' TextT NULL NO_DEFAULT,
        Column ''created_by'' (StringT 36) NOT_NULL NO_DEFAULT,
        Column ''status'' (EnumT
          [''PENDING'', ''APPROVED'', ''REJECTED'']
          ''proposalstatus'') NOT_NULL NO_DEFAULT,
        Column ''reviewed_by'' (StringT 36) NULL NO_DEFAULT,
        Column ''review_note'' TextT NULL NO_DEFAULT,
        Column ''approved_faculty_id'' (StringT 36) NULL NO_DEFAULT,
        Column ''reviewed_at'' DateTimeT NULL NO_DEFAULT,
        Column ''id'' (StringT 36) NOT_NULL NO_DEFAULT,
        Column ''created_at'' DateTimeT NOT_NULL NOW,
        Column ''updated_at'' DateTimeT NOT_NULL NOW]
       [ForeignKeyC [''approved_faculty_id''] [(''faculties'', ''id'')] (Some SetNull) None False,
        ForeignKeyC [''created_by''] [(''users'', ''id'')] None None False,
        ForeignKeyC [''reviewed_by''] [(''users'', ''id'')] None None False,
        ForeignKeyC [''university_id''] [(''universities'', ''id'')] (Some Cascade) None False,
        PrimaryKeyC [''id'']],
     CreateIndex ''ix_faculty_proposals_created_by'' ''faculty_proposals''
       [''created_by''] False,
     CreateIndex ''ix_faculty_proposals_university_id'' ''faculty_proposals''
       [''university_id''] False]"

definition create_moderator_faculty_scopes :: "ddl list" where
  "create_moderator_faculty_scopes =
    [CreateTable ''moderator_faculty_scopes''
       [Column ''user_id'' (StringT 36) NOT_NULL NO_DEFAULT,
        Column ''faculty_id'' (StringT 36) NOT_NULL NO_DEFAULT,
        Column ''id'' (StringT 36) NOT_NULL NO_DEFAULT,
        Column ''created_at'' DateTimeT NOT_NULL NOW,
        Column ''updated_at'' DateTimeT NOT_NULL NOW]
       [ForeignKeyC [''faculty_id''] [(''faculties'', ''id'')] (Some Cascade) None False,
        ForeignKeyC [''user_id''] [(''users'', ''id'')] None None False,
        PrimaryKeyC [''id''],
        UniqueC [''user_id'', ''faculty_id''] (Some ''uq_mod_fac_scope'')],
     CreateIndex ''ix_moderator_faculty_scopes_faculty_id'' ''moderator_faculty_scopes''
       [''faculty_id''] False,
     CreateIndex ''ix_moderator_faculty_scopes_user_id'' ''moderator_faculty_scopes''
       [''user_id''] False]"

definition create_moderator_university_scopes :: "ddl list" where
  "create_moderator_university_scopes =
    [CreateTable ''moderator_university_scopes''
       [Column ''user_id'' (StringT 36) NOT_NULL NO_DEFAULT,
        Column ''university_id'' (StringT 36) NOT_NULL NO_DEFAULT,
        Column ''id'' (StringT 36) NOT_NULL NO_DEFAULT,
        Column ''created_at'' DateTimeT NOT_NULL NOW,
        Column ''updated_at'' DateTimeT NOT_NULL NOW]
       [ForeignKeyC [''university_id''] [(''universities'', ''id'')] (Some Cascade) None False,
        ForeignKeyC [''user_id''] [(''users'', ''id'')] None None False,
        PrimaryKeyC [''id''],
        UniqueC [''user_id'', ''university_id''] (Some ''uq_mod_uni_scope'')],
     CreateIndex ''ix_moderator_university_scopes_university_id'' ''moderator_university_scopes''
       [''university_id''] False,
     CreateIndex ''ix_moderator_university_scopes_user_id'' ''moderator_university_scopes''
       [''user_id''] False]"

definition create_notifications :: "ddl list" where
  "create_notifications =
    [CreateTable ''notifications''
       [Column ''user_id'' (StringT 36) NOT_NULL NO_DEFAULT,
        Column ''title'' (StringT 255) NOT_NULL NO_DEFAULT,
        Column ''body'' TextT NOT_NULL NO_DEFAULT,
        Column ''is_read'' BooleanT NOT_NULL NO_DEFAULT,
        Column ''id'' (StringT 36) NOT_NULL NO_DEFAULT,
        Column ''created_at'' DateTimeT NOT_NULL NOW,
        Column ''updated_at'' DateTimeT NOT_NULL NOW]
       [ForeignKeyC [''user_id''] [(''users'', ''id'')] None None False,
        PrimaryKeyC [''id'']],
     CreateIndex ''ix_notifications_user_id'' ''notifications''
       [''user_id''] False]"

definition create_password_reset_tokens :: "ddl list" where
  "create_password_reset_tokens =
    [CreateTable ''password_reset_tokens''
       [Column ''user_id'' (StringT 36) NOT_NULL NO_DEFAULT,
        Column ''token'' (StringT 128) NOT_NULL NO_DEFAULT,
        Column ''expires_at'' DateTimeT NOT_NULL NO_DEFAULT,
        Column ''consumed'' BooleanT NOT_NULL NO_DEFAULT,
        Column ''id'' (StringT 36) NOT_NULL NO_DEFAULT,
        Column ''created_at'' DateTimeT NOT_NULL NOW,
        Column ''updated_at'' DateTimeT NOT_NULL NOW]
       [ForeignKeyC [''user_id''] [(''users'', ''id'')] None None False,
        PrimaryKeyC [''id'']],
     CreateIndex ''ix_password_reset_tokens_token'' ''password_reset_tokens''
       [''token''] True,
     CreateIndex ''ix_password_reset_tokens_user_id'' ''password_reset_tokens''
       [''user_id''] False]"

definition create_refresh_token_sessions :: "ddl list" where
  "create_refresh_token_sessions =
    [CreateTable ''refresh_token_sessions''
       [Column ''user_id'' (StringT 36) NOT_NULL NO_DEFAULT,
        Column ''jti'' (StringT 36) NOT_NULL NO_DEFAULT,
        Column ''token_hash'' (StringT 64) NOT_NULL NO_DEFAULT,
        Column ''expires_at'' DateTimeT NOT_NULL NO_DEFAULT,
        Column ''used_at'' DateTimeT NULL NO_DEFAULT,
        Column ''revoked_at'' DateTimeT NULL NO_DEFAULT,
        Column ''replaced_by_jti'' (StringT 36) NULL NO_DEFAULT,
        Column ''id'' (StringT 36) NOT_NULL NO_DEFAULT,
        Column ''created_at'' DateTimeT NOT_NULL NOW,
        Column ''updated_at'' DateTimeT NOT_NULL NOW]
       [ForeignKeyC [''user_id''] [(''users'', ''id'')] None None False,
        PrimaryKeyC [''id'']],
     CreateIndex ''ix_refresh_token_sessions_expires_at'' ''refresh_token_sessions''
       [''expires_at''] False,
     CreateIndex ''ix_refresh_token_sessions_jti'' ''refresh_token_sessions''
       [''jti''] True,
     CreateIndex ''ix_refresh_token_sessions_user_id'' ''refresh_token_sessions''
       [''user_id''] False]"

definition create_subjects :: "ddl list" where
  "create_subjects =
    [CreateTable ''subjects''
       [Column ''faculty_id'' (StringT 36) NOT_NULL NO_DEFAULT,
        Column ''name'' (StringT 255) NOT_NULL NO_DEFAULT,
        Column ''slug'' (StringT 255) NOT_NULL NO_DEFAULT,
        Column ''code'' (StringT 64) NULL NO_DEFAULT,
        Column ''description'' TextT NULL NO_DEFAULT,
        Column ''id'' (StringT 36) NOT_NULL NO_DEFAULT,
        Column ''created_at'' DateTimeT NOT_NULL NOW,
        Column ''updated_at'' DateTimeT NOT_NULL NOW]
       [ForeignKeyC [''faculty_id''] [(''faculties'', ''id'')] (Some Cascade) None False,
        PrimaryKeyC [''id''],
        UniqueC [''faculty_id'', ''slug''] (Some ''uq_subject_faculty_slug'')],
     CreateIndex ''ix_subjects_faculty_id'' ''subjects''
       [''faculty_id''] False]"

definition create_telegram_event_outbox :: "ddl list" where
  "create_telegram_event_outbox =
    [CreateTable ''telegram_event_outbox''
       [Column ''event_type'' (EnumT
          [''EMAIL_VERIFIED'', ''EMAIL_VERIFICATION_RESENT'', ''MATERIAL_APPROVED'',
           ''MATERIAL_REJECTED'', ''MATERIAL_REVISION_REQUESTED'',
           ''MATERIAL_SUBMITTED_FOR_REVIEW'', ''PASSWORD_CHANGED'',
           ''PASSWORD_RESET_REQUESTED'', ''PROPOSAL_CREATED'', ''PROPOSAL_APPROVED'',
           ''PROPOSAL_REJECTED'', ''TELEGRAM_ACCOUNT_LINKED'',
           ''TELEGRAM_ACCOUNT_UNLINKED'', ''USER_REGISTERED'']
          ''telegrameventtype'') NOT_NULL NO_DEFAULT,
        Column ''entity_type'' (StringT 64) NULL NO_DEFAULT,
        Column ''entity_id'' (StringT 36) NULL NO_DEFAULT,
        Column ''recipient_user_id'' (StringT 36) NOT_NULL NO_DEFAULT,
        Column ''recipient_role'' (StringT 32) NULL NO_DEFAULT,
        Column ''delivery_channel'' (StringT 32) NOT_NULL NO_DEFAULT,
        Column ''payload'' JsonT NOT_NULL NO_DEFAULT,
        Column ''status'' (EnumT
          [''PENDING'', ''DISPATCHED'', ''FAILED'']
          ''telegrameventstatus'') NOT_NULL NO_DEFAULT,
        Column ''attempt_count'' IntegerT NOT_NULL NO_DEFAULT,
        Column ''last_error'' TextT NULL NO_DEFAULT,
        Column ''dispatched_at'' DateTimeT NULL NO_DEFAULT,
        Column ''id'' (StringT 36) NOT_NULL NO_DEFAULT,
        Column ''created_at'' DateTimeT NOT_NULL NOW,
        Column ''updated_at'' DateTimeT NOT_NULL NOW]
       [ForeignKeyC [''recipient_user_id''] [(''users'', ''id'')] None None False,
        PrimaryKeyC [''id''],
        UniqueC [''event_type'', ''entity_id'', ''recipient_user_id'', ''delivery_channel''] (Some ''uq_telegram_event_outbox_identity'')],
     CreateIndex ''ix_telegram_event_outbox_entity_id'' ''telegram_event_outbox''
       [''entity_id''] False,
     CreateIndex ''ix_telegram_event_outbox_entity_type'' ''telegram_event_outbox''
       [''entity_type''] False,
     CreateIndex ''ix_telegram_event_outbox_event_type'' ''telegram_event_outbox''
       [''event_type''] False,
     CreateIndex ''ix_telegram_event_outbox_recipient_user_id'' ''telegram_event_outbox''
       [''recipient_user_id''] False,
     CreateIndex ''ix_telegram_event_outbox_status'' ''telegram_event_outbox''
       [''status''] False]"

definition create_telegram_link_sessions :: "ddl list" where
  "create_telegram_link_sessions =
    [CreateTable ''telegram_link_sessions''
       [Column ''user_id'' (StringT 36) NOT_NULL NO_DEFAULT,
        Column ''token_hash'' (StringT 128) NOT_NULL NO_DEFAULT,
        Column ''code_hash'' (StringT 128) NOT_NULL NO_DEFAULT,
        Column ''expires_at'' DateTimeT NOT_NULL NO_DEFAULT,
        Column ''used_at'' DateTimeT NULL NO_DEFAULT,
        Column ''revoked_at'' DateTimeT NULL NO_DEFAULT,
        Column ''is_active'' BooleanT NOT_NULL NO_DEFAULT,
        Column ''id'' (StringT 36) NOT_NULL NO_DEFAULT,
        Column ''created_at'' DateTimeT NOT_NULL NOW,
        Column ''updated_at'' DateTimeT NOT_NULL NOW]
       [ForeignKeyC [''user_id''] [(''users'', ''id'')] None None False,
        PrimaryKeyC [''id'']],
     CreateIndex ''ix_telegram_link_sessions_code_hash'' ''telegram_link_sessions''
       [''code_hash''] True,
     CreateIndex ''ix_telegram_link_sessions_expires_at'' ''telegram_link_sessions''
       [''expires_at''] False,
     CreateIndex ''ix_telegram_link_sessions_token_hash'' ''telegram_link_sessions''
       [''token_hash''] True,
     CreateIndex ''ix_telegram_link_sessions_user_id'' ''telegram_link_sessions''
       [''user_id''] False]"

definition create_telegram_links :: "ddl list" where
  "create_telegram_links =
    [CreateTable ''telegram_links''
       [Column ''user_id'' (StringT 36) NOT_NULL NO_DEFAULT,
        Column ''telegram_user_id'' BigIntegerT NOT_NULL NO_DEFAULT,
        Column ''telegram_username'' (StringT 255) NULL NO_DEFAULT,
        Column ''telegram_first_name'' (StringT 255) NULL NO_DEFAULT,
        Column ''telegram_last_name'' (StringT 255) NULL NO_DEFAULT,
        Column ''language_code'' (StringT 16) NULL NO_DEFAULT,
        Column ''linked_at'' DateTimeT NOT_NULL NO_DEFAULT,
        Column ''unlinked_at'' DateTimeT NULL NO_DEFAULT,
        Column ''is_active'' BooleanT NOT_NULL NO_DEFAULT,
        Column ''id'' (StringT 36) NOT_NULL NO_DEFAULT,
        Column ''created_at'' DateTimeT NOT_NULL NOW,
        Column ''updated_at'' DateTimeT NOT_NULL NOW]
       [ForeignKeyC [''user_id''] [(''users'', ''id'')] None None False,
        PrimaryKeyC [''id'']],
     CreateIndex ''ix_telegram_links_telegram_user_id'' ''telegram_links''
       [''telegram_user_id''] True,
     CreateIndex ''ix_telegram_links_user_id'' ''telegram_links''
       [''user_id''] True]"

definition create_university_proposals :: "ddl list" where
  "create_university_proposals =
    [CreateTable ''university_proposals''
       [Column ''proposed_name'' (StringT 255) NOT_NULL NO_DEFAULT,
        Column ''proposed_slug'' (StringT 255) NULL NO_DEFAULT,
        Column ''proposed_description'' TextT NULL NO_DEFAULT,
        Column ''created_by'' (StringT 36) NOT_NULL NO_DEFAULT,
        Column ''status'' (EnumT
          [''PENDING'', ''APPROVED'', ''REJECTED'']
          ''proposalstatus'') NOT_NULL NO_DEFAULT,
        Column ''reviewed_by'' (StringT 36) NULL NO_DEFAULT,
        Column ''review_note'' TextT NULL NO_DEFAULT,
        Column ''approved_university_id'' (StringT 36) NULL NO_DEFAULT,
        Column ''reviewed_at'' DateTimeT NULL NO_DEFAULT,
        Column ''id'' (StringT 36) NOT_NULL NO_DEFAULT,
        Column ''created_at'' DateTimeT NOT_NULL NOW,
        Column ''updated_at'' DateTimeT NOT_NULL NOW]
       [ForeignKeyC [''approved_university_id''] [(''universities'', ''id'')] (Some SetNull) None False,
        ForeignKeyC [''created_by''] [(''users'', ''id'')] None None False,
        ForeignKeyC [''reviewed_by''] [(''users'', ''id'')] None None False,
        PrimaryKeyC [''id'']],
     CreateIndex ''ix_university_proposals_created_by'' ''university_proposals''
       [''created_by''] False]"

definition create_user_preferences :: "ddl list" where
  "create_user_preferences =
    [CreateTable ''user_preferences''
       [Column ''user_id'' (StringT 36) NOT_NULL NO_DEFAULT,
        Column ''language'' (StringT 16) NOT_NULL NO_DEFAULT,
        Column ''email_notifications'' BooleanT NOT_NULL NO_DEFAULT,
        Column ''marketing_notifications'' BooleanT NOT_NULL NO_DEFAULT,
        Column ''theme'' (StringT 32) NOT_NULL NO_DEFAULT,
        Column ''id'' (StringT 36) NOT_NULL NO_DEFAULT,
        Column ''created_at'' DateTimeT NOT_NULL NOW,
        Column ''updated_at'' DateTimeT NOT_NULL NOW]
       [ForeignKeyC [''user_id''] [(''users'', ''id'')] None None False,
        PrimaryKeyC [''id'']],
     CreateIndex ''ix_user_preferences_user_id'' ''user_preferences''
       [''user_id''] True]"

definition create_materials :: "ddl list" where
  "create_materials =
    [CreateTable ''materials''
       [Column ''title'' (StringT 255) NOT_NULL NO_DEFAULT,
        Column ''slug'' (StringT 255) NOT_NULL NO_DEFAULT,
        Column ''description'' TextT NULL NO_DEFAULT,
        Column ''material_type'' (EnumT
          [''BOOK'', ''NOTES'', ''SLIDES'', ''EXAM'', ''ASSIGNMENT'', ''LAB'',
           ''CHEATSHEET'', ''OTHER'']
          ''materialtype'') NOT_NULL NO_DEFAULT,
        Column ''status'' (EnumT
          [''DRAFT'', ''PENDING_REVIEW'', ''APPROVED'', ''REJECTED'']
          ''materialstatus'') NOT_NULL NO_DEFAULT,
        Column ''subject_id'' (StringT 36) NOT_NULL NO_DEFAULT,
        Column ''semesters'' (ArrayT IntegerT) NOT_NULL NO_DEFAULT,
        Column ''uploaded_by'' (StringT 36) NOT_NULL NO_DEFAULT,
        Column ''approved_by'' (StringT 36) NULL NO_DEFAULT,
        Column ''last_reviewed_by'' (StringT 36) NULL NO_DEFAULT,
        Column ''rejected_reason'' (EnumT
          [''WRONG_SUBJECT'', ''DUPLICATE'', ''UNREADABLE'', ''LOW_QUALITY'', ''SPAM'',
           ''COPYRIGHT_OR_POLICY_ISSUE'', ''OTHER'']
          ''rejectreason'') NULL NO_DEFAULT,
        Column ''cover_file_id'' (StringT 36) NULL NO_DEFAULT,
        Column ''primary_file_id'' (StringT 36) NULL NO_DEFAULT,
        Column ''file_count'' IntegerT NOT_NULL NO_DEFAULT,
        Column ''total_size'' IntegerT NOT_NULL NO_DEFAULT,
        Column ''download_count'' IntegerT NOT_NULL NO_DEFAULT,
        Column ''submitted_at'' DateTimeT NULL NO_DEFAULT,
        Column ''reviewed_at'' DateTimeT NULL NO_DEFAULT,
        Column ''deleted_at'' DateTimeT NULL NO_DEFAULT,
        Column ''id'' (StringT 36) NOT_NULL NO_DEFAULT,
        Column ''created_at'' DateTimeT NOT_NULL NOW,
        Column ''updated_at'' DateTimeT NOT_NULL NOW]
       [ForeignKeyC [''approved_by''] [(''users'', ''id'')] None None False,
        ForeignKeyC [''cover_file_id''] [(''material_files'', ''id'')] None (Some ''fk_material_cover_file'') True,
        ForeignKeyC [''last_reviewed_by''] [(''users'', ''id'')] None None False,
        ForeignKeyC [''primary_file_id''] [(''material_files'', ''id'')] None (Some ''fk_material_primary_file'') True,
        ForeignKeyC [''subject_id''] [(''subjects'', ''id'')] None None False,
        ForeignKeyC [''uploaded_by''] [(''users'', ''id'')] None None False,
        PrimaryKeyC [''id'']],
     CreateIndex ''ix_materials_slug'' ''materials''
       [''slug''] True,
     CreateIndex ''ix_materials_status'' ''materials''
       [''status''] False,
     CreateIndex ''ix_materials_subject_id'' ''materials''
       [''subject_id''] False,
     CreateIndex ''ix_materials_uploaded_by'' ''materials''
       [''uploaded_by''] False]"

definition create_moderator_subject_scopes :: "ddl list" where
  "create_moderator_subject_scopes =
    [CreateTable ''moderator_subject_scopes''
       [Column ''user_id'' (StringT 36) NOT_NULL NO_DEFAULT,
        Column ''subject_id'' (StringT 36) NOT_NULL NO_DEFAULT,
        Column ''id'' (StringT 36) NOT_NULL NO_DEFAULT,
        Column ''created_at'' DateTimeT NOT_NULL NOW,
        Column ''updated_at'' DateTimeT NOT_NULL NOW]
       [ForeignKeyC [''subject_id''] [(''subjects'', ''id'')] (Some Cascade) None False,
        ForeignKeyC [''user_id''] [(''users'', ''id'')] None None False,
        PrimaryKeyC [''id''],
        UniqueC [''user_id'', ''subject_id''] (Some ''uq_mod_sub_scope'')],
     CreateIndex ''ix_moderator_subject_scopes_subject_id'' ''moderator_subject_scopes''
       [''subject_id''] False,
     CreateIndex ''ix_moderator_subject_scopes_user_id'' ''moderator_subject_scopes''
       [''user_id''] False]"

definition create_subject_proposals :: "ddl list" where
  "create_subject_proposals =
    [CreateTable ''subject_proposals''
       [Column ''faculty_id'' (StringT 36) NOT_NULL NO_DEFAULT,
        Column ''proposed_name'' (StringT 255) NOT_NULL NO_DEFAULT,
        Column ''proposed_slug'' (StringT 255) NULL NO_DEFAULT,
        Column ''proposed_code'' (StringT 64) NULL NO_DEFAULT,
        Column ''proposed_semester'' IntegerT NULL NO_DEFAULT,
        Column ''proposed_description'' TextT NULL NO_DEFAULT,
        Column ''created_by'' (StringT 36) NOT_NULL NO_DEFAULT,
        Column ''status'' (EnumT
          [''PENDING'', ''APPROVED'', ''REJECTED'']
          ''proposalstatus'') NOT_NULL NO_DEFAULT,
        Column ''reviewed_by'' (StringT 36) NULL NO_DEFAULT,
        Column ''review_note'' TextT NULL NO_DEFAULT,
        Column ''approved_subject_id'' (StringT 36) NULL NO_DEFAULT,
        Column ''reviewed_at'' DateTimeT NULL NO_DEFAULT,
        Column ''id'' (StringT 36) NOT_NULL NO_DEFAULT,
        Column ''created_at'' DateTimeT NOT_NULL NOW,
        Column ''updated_at'' DateTimeT NOT_NULL NOW]
       [ForeignKeyC [''approved_subject_id''] [(''subjects'', ''id'')] (Some SetNull) None False,
        ForeignKeyC [''created_by''] [(''users'', ''id'')] None None False,
        ForeignKeyC [''faculty_id''] [(''faculties'', ''id'')] (Some Cascade) None False,
        ForeignKeyC [''reviewed_by''] [(''users'', ''id'')] None None False,
        PrimaryKeyC [''id'']],
     CreateIndex ''ix_subject_proposals_created_by'' ''subject_proposals''
       [''created_by''] False,
     CreateIndex ''ix_subject_proposals_faculty_id'' ''subject_proposals''
       [''faculty_id''] False]"

definition create_comments :: "ddl list" where
  "create_comments =
    [CreateTable ''comments''
       [Column ''material_id'' (StringT 36) NOT_NULL NO_DEFAULT,
        Column ''user_id'' (StringT 36) NOT_NULL NO_DEFAULT,
        Column ''content'' TextT NOT_NULL NO_DEFAULT,
        Column ''id'' (StringT 36) NOT_NULL NO_DEFAULT,
        Column ''created_at'' DateTimeT NOT_NULL NOW,
        Column ''updated_at'' DateTimeT NOT_NULL NOW]
       [ForeignKeyC [''material_id''] [(''materials'', ''id'')] None None False,
        ForeignKeyC [''user_id''] [(''users'', ''id'')] None None False,
        PrimaryKeyC [''id'']],
     CreateIndex ''ix_comments_material_id'' ''comments''
       [''material_id''] False,
     CreateIndex ''ix_comments_user_id'' ''comments''
       [''user_id''] False]"

definition create_material_downloads :: "ddl list" where
  "create_material_downloads =
    [CreateTable ''material_downloads''
       [Column ''user_id'' (StringT 36) NULL NO_DEFAULT,
        Column ''material_id'' (StringT 36) NOT_NULL NO_DEFAULT,
        Column ''ip_address'' (StringT 45) NULL NO_DEFAULT,
        Column ''id'' (StringT 36) NOT_NULL NO_DEFAULT,
        Column ''created_at'' DateTimeT NOT_NULL NOW,
        Column ''updated_at'' DateTimeT NOT_NULL NOW]
       [ForeignKeyC [''material_id''] [(''materials'', ''id'')] (Some Cascade) None False,
        ForeignKeyC [''user_id''] [(''users'', ''id'')] (Some SetNull) None False,
        PrimaryKeyC [''id''],
        UniqueC [''user_id'', ''material_id''] (Some ''uq_user_material_download'')],
     CreateIndex ''ix_material_downloads_material_id'' ''material_downloads''
       [''material_id''] False,
     CreateIndex ''ix_material_downloads_user_id'' ''material_downloads''
       [''user_id''] False]"

definition create_material_files :: "ddl list" where
  "create_material_files =
    [CreateTable ''material_files''
       [Column ''material_id'' (StringT 36) NOT_NULL NO_DEFAULT,
        Column ''storage_key'' (StringT 512) NOT_NULL NO_DEFAULT,
        Column ''preview_storage_key'' (StringT 512) NULL NO_DEFAULT,
        Column ''original_filename'' (StringT 255) NOT_NULL NO_DEFAULT,
        Column ''mime_type'' (StringT 128) NOT_NULL NO_DEFAULT,
        Column ''file_size'' IntegerT NOT_NULL NO_DEFAULT,
        Column ''file_ext'' (StringT 32) NOT_NULL NO_DEFAULT,
        Column ''file_kind'' (EnumT
          [''IMAGE'', ''DOCUMENT'', ''ARCHIVE'', ''OTHER'']
          ''filekind'') NOT_NULL NO_DEFAULT,
        Column ''file_order'' IntegerT NOT_NULL NO_DEFAULT,
        Column ''checksum_hash'' (StringT 64) NOT_NULL NO_DEFAULT,
        Column ''is_previewable'' BooleanT NOT_NULL NO_DEFAULT,
        Column ''preview_page_count'' IntegerT NULL NO_DEFAULT,
        Column ''id'' (StringT 36) NOT_NULL NO_DEFAULT,
        Column ''created_at'' DateTimeT NOT_NULL NOW,
        Column ''updated_at'' DateTimeT NOT_NULL NOW]
       [ForeignKeyC [''material_id''] [(''materials'', ''id'')] None None False,
        PrimaryKeyC [''id''],
        UniqueC [''preview_storage_key''] None,
        UniqueC [''storage_key''] None],
     CreateIndex ''ix_material_files_checksum_hash'' ''material_files''
       [''checksum_hash''] False,
     CreateIndex ''ix_material_files_file_kind'' ''material_files''
       [''file_kind''] False,
     CreateIndex ''ix_material_files_material_id'' ''material_files''
       [''material_id''] False]"

definition create_material_ratings :: "ddl list" where
  "create_material_ratings =
    [CreateTable ''material_ratings''
       [Column ''user_id'' (StringT 36) NOT_NULL NO_DEFAULT,
        Column ''material_id'' (StringT 36) NOT_NULL NO_DEFAULT,
        Column ''value'' IntegerT NOT_NULL NO_DEFAULT,
        Column ''id'' (StringT 36) NOT_NULL NO_DEFAULT,
        Column ''created_at'' DateTimeT NOT_NULL NOW,
        Column ''updated_at'' DateTimeT NOT_NULL NOW]
       [ForeignKeyC [''material_id''] [(''materials'', ''id'')] None None False,
        ForeignKeyC [''user_id''] [(''users'', ''id'')] None None False,
        PrimaryKeyC [''id''],
        UniqueC [''user_id'', ''material_id''] (Some ''uq_material_rating_user_material'')],
     CreateIndex ''ix_material_ratings_material_id'' ''material_ratings''
       [''material_id''] False,
     CreateIndex ''ix_material_ratings_user_id'' ''material_ratings''
       [''user_id''] False]"

definition create_material_reports :: "ddl list" where
  "create_material_reports =
    [CreateTable ''material_reports''
       [Column ''material_id'' (StringT 36) NOT_NULL NO_DEFAULT,
        Column ''reporter_id'' (StringT 36) NOT_NULL NO_DEFAULT,
        Column ''reviewer_id'' (StringT 36) NULL NO_DEFAULT,
        Column ''reason'' (StringT 128) NOT_NULL NO_DEFAULT,
        Column ''details'' TextT NULL NO_DEFAULT,
        Column ''status'' (EnumT
          [''OPEN'', ''RESOLVED'', ''DISMISSED'']
          ''reportstatus'') NOT_NULL NO_DEFAULT,
        Column ''resolution_note'' TextT NULL NO_DEFAULT,
        Column ''reviewed_at'' DateTimeT NULL NO_DEFAULT,
        Column ''id'' (StringT 36) NOT_NULL NO_DEFAULT,
        Column ''created_at'' DateTimeT NOT_NULL NOW,
        Column ''updated_at'' DateTimeT NOT_NULL NOW]
       [ForeignKeyC [''material_id''] [(''materials'', ''id'')] None None False,
        ForeignKeyC [''reporter_id''] [(''users'', ''id'')] None None False,
        ForeignKeyC [''reviewer_id''] [(''users'', ''id'')] None None False,
        PrimaryKeyC [''id'']],
     CreateIndex ''ix_material_reports_material_id'' ''material_reports''
       [''material_id''] False,
     CreateIndex ''ix_material_reports_reporter_id'' ''material_reports''
       [''reporter_id''] False,
     CreateIndex ''ix_material_reports_reviewer_id'' ''material_reports''
       [''reviewer_id''] False]"

definition create_material_review_logs :: "ddl list" where
  "create_material_review_logs =
    [CreateTable ''material_review_logs''
       [Column ''material_id'' (StringT 36) NOT_NULL NO_DEFAULT,
        Column ''action'' (EnumT
          [''SUBMITTED'', ''APPROVED'', ''REJECTED'', ''RESUBMITTED'',
           ''MOVED_SUBJECT'', ''REQUESTED_REVISION'', ''WITHDRAWN'', ''REPORTED'',
           ''TAKEDOWN'']
          ''reviewaction'') NOT_NULL NO_DEFAULT,
        Column ''actor_id'' (StringT 36) NOT_NULL NO_DEFAULT,
        Column ''note'' TextT NULL NO_DEFAULT,
        Column ''reason'' (StringT 128) NULL NO_DEFAULT,
        Column ''id'' (StringT 36) NOT_NULL NO_DEFAULT,
        Column ''created_at'' DateTimeT NOT_NULL NOW,
        Column ''updated_at'' DateTimeT NOT_NULL NOW]
       [ForeignKeyC [''actor_id''] [(''users'', ''id'')] None None False,
        ForeignKeyC [''material_id''] [(''materials'', ''id'')] None None False,
        PrimaryKeyC [''id'']],
     CreateIndex ''ix_material_review_logs_actor_id'' ''material_review_logs''
       [''actor_id''] False,
     CreateIndex ''ix_material_review_logs_material_id'' ''material_review_logs''
       [''material_id''] False]"

definition create_material_tags :: "ddl list" where
  "create_material_tags =
    [CreateTable ''material_tags''
       [Column ''material_id'' (StringT 36) NOT_NULL NO_DEFAULT,
        Column ''tag_id'' (StringT 36) NOT_NULL NO_DEFAULT]
       [ForeignKeyC [''material_id''] [(''materials'', ''id'')] None None False,
        ForeignKeyC [''tag_id''] [(''tags'', ''id'')] None None False,
        PrimaryKeyC [''material_id'', ''tag_id'']]]"

definition create_saved_materials :: "ddl list" where
  "create_saved_materials =
    [CreateTable ''saved_materials''
       [Column ''user_id'' (StringT 36) NOT_NULL NO_DEFAULT,
        Column ''material_id'' (StringT 36) NOT_NULL NO_DEFAULT,
        Column ''id'' (StringT 36) NOT_NULL NO_DEFAULT,
        Column ''created_at'' DateTimeT NOT_NULL NOW,
        Column ''updated_at'' DateTimeT NOT_NULL NOW]
       [ForeignKeyC [''material_id''] [(''materials'', ''id'')] None None False,
        ForeignKeyC [''user_id''] [(''users'', ''id'')] None None False,
        PrimaryKeyC [''id''],
        UniqueC [''user_id'', ''material_id''] (Some ''uq_saved_material_user_material'')],
     CreateIndex ''ix_saved_materials_material_id'' ''saved_materials''
       [''material_id''] False,
     CreateIndex ''ix_saved_materials_user_id'' ''saved_materials''
       [''user_id''] False]"

definition upgrade :: "ddl list" where
  "upgrade =
     create_email_outbox
     @ create_tags
     @ create_universities
     @ create_faculties
     @ create_users
     @ create_audit_logs
     @ create_catalog_proposal_logs
     @ create_catalog_reports
     @ create_email_verification_tokens
     @ create_faculty_proposals
     @ create_moderator_faculty_scopes
     @ create_moderator_university_scopes
     @ create_notifications
     @ create_password_reset_tokens
     @ create_refresh_token_sessions
     @ create_subjects
     @ create_telegram_event_outbox
     @ create_telegram_link_sessions
     @ create_telegram_links
     @ create_university_proposals
     @ create_user_preferences
     @ create_materials
     @ create_moderator_subject_scopes
     @ create_subject_proposals
     @ create_comments
     @ create_material_downloads
     @ create_material_files
     @ create_material_ratings
     @ create_material_reports
     @ create_material_review_logs
     @ create_material_tags
     @ create_saved_materials"

section \<open>downgrade\<close>

definition downgrade :: "ddl list" where
  "downgrade =
    [DropIndex ''ix_saved_materials_user_id'' ''saved_materials'',
     DropIndex ''ix_saved_materials_material_id'' ''saved_materials'',
     DropTable ''saved_materials'',
     DropTable ''material_tags'',
     DropIndex ''ix_material_review_logs_material_id'' ''material_review_logs'',
     DropIndex ''ix_material_review_logs_actor_id'' ''material_review_logs'',
     DropTable ''material_review_logs'',
     DropIndex ''ix_material_reports_reviewer_id'' ''material_reports'',
     DropIndex ''ix_material_reports_reporter_id'' ''material_reports'',
     DropIndex ''ix_material_reports_material_id'' ''material_reports'',
     DropTable ''material_reports'',
     DropIndex ''ix_material_ratings_user_id'' ''material_ratings'',
     DropIndex ''ix_material_ratings_material_id'' ''material_ratings'',
     DropTable ''material_ratings'',
     DropIndex ''ix_material_files_material_id'' ''material_files'',
     DropIndex ''ix_material_files_file_kind'' ''material_files'',
     DropIndex ''ix_material_files_checksum_hash'' ''material_files'',
     DropTable ''material_files'',
     DropIndex ''ix_material_downloads_user_id'' ''material_downloads'',
     DropIndex ''ix_material_downloads_material_id'' ''material_downloads'',
     DropTable ''material_downloads'',
     DropIndex ''ix_comments_user_id'' ''comments'',
     DropIndex ''ix_comments_material_id'' ''comments'',
     DropTable ''comments'',
     DropIndex ''ix_subject_proposals_faculty_id'' ''subject_proposals'',
     DropIndex ''ix_subject_proposals_created_by'' ''subject_proposals'',
     DropTable ''subject_proposals'',
     DropIndex ''ix_moderator_subject_scopes_user_id'' ''moderator_subject_scopes'',
     DropIndex ''ix_moderator_subject_scopes_subject_id'' ''moderator_subject_scopes'',
     DropTable ''moderator_subject_scopes'',
     DropIndex ''ix_materials_uploaded_by'' ''materials'',
     DropIndex ''ix_materials_subject_id'' ''materials'',
     DropIndex ''ix_materials_status'' ''materials'',
     DropIndex ''ix_materials_slug'' ''materials'',
     DropTable ''materials'',
     DropIndex ''ix_user_preferences_user_id'' ''user_preferences'',
     DropTable ''user_preferences'',
     DropIndex ''ix_university_proposals_created_by'' ''university_proposals'',
     DropTable ''university_proposals'',
     DropIndex ''ix_telegram_links_user_id'' ''telegram_links'',
     DropIndex ''ix_telegram_links_telegram_user_id'' ''telegram_links'',
     DropTable ''telegram_links'',
     DropIndex ''ix_telegram_link_sessions_user_id'' ''telegram_link_sessions'',
     DropIndex ''ix_telegram_link_sessions_token_hash'' ''telegram_link_sessions'',
     DropIndex ''ix_telegram_link_sessions_expires_at'' ''telegram_link_sessions'',
     DropIndex ''ix_telegram_link_sessions_code_hash'' ''telegram_link_sessions'',
     DropTable ''telegram_link_sessions'',
     DropIndex ''ix_telegram_event_outbox_status'' ''telegram_event_outbox'',
     DropIndex ''ix_telegram_event_outbox_recipient_user_id'' ''telegram_event_outbox'',
     DropIndex ''ix_telegram_event_outbox_event_type'' ''telegram_event_outbox'',
     DropIndex ''ix_telegram_event_outbox_entity_type'' ''telegram_event_outbox'',
     DropIndex ''ix_telegram_event_outbox_entity_id'' ''telegram_event_outbox'',
     DropTable ''telegram_event_outbox'',
     DropIndex ''ix_subjects_faculty_id'' ''subjects'',
     DropTable ''subjects'',
     DropIndex ''ix_refresh_token_sessions_user_id'' ''refresh_token_sessions'',
     DropIndex ''ix_refresh_token_sessions_jti'' ''refresh_token_sessions'',
     DropIndex ''ix_refresh_token_sessions_expires_at'' ''refresh_token_sessions'',
     DropTable ''refresh_token_sessions'',
     DropIndex ''ix_password_reset_tokens_user_id'' ''password_reset_tokens'',
     DropIndex ''ix_password_reset_tokens_token'' ''password_reset_tokens'',
     DropTable ''password_reset_tokens'',
     DropIndex ''ix_notifications_user_id'' ''notifications'',
     DropTable ''notifications'',
     DropIndex ''ix_moderator_university_scopes_user_id'' ''moderator_university_scopes'',
     DropIndex ''ix_moderator_university_scopes_university_id'' ''moderator_university_scopes'',
     DropTable ''moderator_university_scopes'',
     DropIndex ''ix_moderator_faculty_scopes_user_id'' ''moderator_faculty_scopes'',
     DropIndex ''ix_moderator_faculty_scopes_faculty_id'' ''moderator_faculty_scopes'',
     DropTable ''moderator_faculty_scopes'',
     DropIndex ''ix_faculty_proposals_university_id'' ''faculty_proposals'',
     DropIndex ''ix_faculty_proposals_created_by'' ''faculty_proposals'',
     DropTable ''faculty_proposals'',
     DropIndex ''ix_email_verification_tokens_user_id'' ''email_verification_tokens'',
     DropIndex ''ix_email_verification_tokens_token'' ''email_verification_tokens'',
     DropTable ''email_verification_tokens'',
     DropIndex ''ix_catalog_reports_reviewer_id'' ''catalog_reports'',
     DropIndex ''ix_catalog_reports_reporter_id'' ''catalog_reports'',
     DropIndex ''ix_catalog_reports_entity_id'' ''catalog_reports'',
     DropTable ''catalog_reports'',
     DropIndex ''ix_catalog_proposal_logs_entity_type'' ''catalog_proposal_logs'',
     DropIndex ''ix_catalog_proposal_logs_entity_id'' ''catalog_proposal_logs'',
     DropIndex ''ix_catalog_proposal_logs_actor_id'' ''catalog_proposal_logs'',
     DropTable ''catalog_proposal_logs'',
     DropIndex ''ix_audit_logs_entity_id'' ''audit_logs'',
     DropIndex ''ix_audit_logs_entity'' ''audit_logs'',
     DropIndex ''ix_audit_logs_actor_id'' ''audit_logs'',
     DropIndex ''ix_audit_logs_action'' ''audit_logs'',
     DropTable ''audit_logs'',
     DropIndex ''ix_users_university_id'' ''users'',
     DropIndex ''ix_users_email'' ''users'',
     DropTable ''users'',
     DropIndex ''ix_faculties_university_id'' ''faculties'',
     DropTable ''faculties'',
     DropIndex ''ix_universities_slug'' ''universities'',
     DropTable ''universities'',
     DropTable ''tags'',
     DropIndex ''ix_email_outbox_status'' ''email_outbox'',
     DropIndex ''ix_email_outbox_recipient_email'' ''email_outbox'',
     DropIndex ''ix_email_outbox_next_attempt_at'' ''email_outbox'',
     DropTable ''email_outbox'']"

end
