(* ===== verification/MigrationFacts.thy ===== *)
theory MigrationFacts
  imports Migration "HOL-Library.Multiset"
begin

text \<open>
  The migration run on a schema. A schema holds the tables with the constraints CREATE TABLE
  emits, the indexes and the enum types of PostgreSQL; the rules below are those of its DDL: a
  name is created once, a foreign key refers to a key of a table that exists, an index to
  columns of a table that exists, and a table that others refer to is not dropped. A foreign
  key with \<open>use_alter\<close> is not part of CREATE TABLE. The type of an enum column is created with
  the first table of the run that uses it; dropping a table drops its indexes and no type. The
  names of the indexes that back unnamed constraints are not tracked.

  The first group of lemmas is about any list of operations: undoing them in reverse order
  restores the schema, up to the types. The second evaluates the migration itself.
\<close>

section \<open>Schemas and operations\<close>

record db_schema =
  sch_tables :: "ddl_table list"
  sch_indexes :: "ddl_index list"
  sch_types :: "string list"

definition empty_schema :: db_schema where
  "empty_schema = \<lparr>sch_tables = [], sch_indexes = [], sch_types = []\<rparr>"

datatype ddl_error =
    DuplicateName string
  | DuplicateType string
  | UndefinedReference string
  | UndefinedName string
  | DependentObjects string

fun emitted :: "table_constraint \<Rightarrow> bool" where
  "emitted (ForeignKeyC _ _ _ _ use_alter) = (\<not> use_alter)"
| "emitted _ = True"

fun enum_names :: "sql_type \<Rightarrow> string list" where
  "enum_names (EnumT _ n) = [n]"
| "enum_names (ArrayT ty) = enum_names ty"
| "enum_names _ = []"

fun create_types :: "string list \<Rightarrow> string list \<Rightarrow> string list
    \<Rightarrow> ddl_error + string list \<times> string list" where
  "create_types [] memo ts = Inr (memo, ts)"
| "create_types (n # ns) memo ts =
     (if n \<in> set memo then create_types ns memo ts
      else if n \<in> set ts then Inl (DuplicateType n)
      else create_types ns (n # memo) (n # ts))"

definition relation_names :: "db_schema \<Rightarrow> string list" where
  "relation_names s = map fst (sch_tables s) @ map fst (sch_indexes s)"

fun is_key :: "string \<Rightarrow> table_constraint \<Rightarrow> bool" where
  "is_key c (PrimaryKeyC cs) = (cs = [c])"
| "is_key c (UniqueC cs _) = (cs = [c])"
| "is_key c (ForeignKeyC _ _ _ _ _) = False"

definition key_of :: "ddl_table list \<Rightarrow> string \<times> string \<Rightarrow> bool" where
  "key_of ts r =
     (case map_of ts (fst r) of
        None \<Rightarrow> False
      | Some (_, ks) \<Rightarrow> list_ex (is_key (snd r)) ks)"

fun refers_to :: "string \<Rightarrow> table_constraint \<Rightarrow> bool" where
  "refers_to n (ForeignKeyC _ refs _ _ _) = (n \<in> set (map fst refs))"
| "refers_to n _ = False"

fun constraint_ok :: "ddl_table list \<Rightarrow> string list \<Rightarrow> table_constraint \<Rightarrow> bool" where
  "constraint_ok ts cols (PrimaryKeyC cs) = (list_all (\<lambda>c. c \<in> set cols) cs)"
| "constraint_ok ts cols (UniqueC cs _) = (list_all (\<lambda>c. c \<in> set cols) cs)"
| "constraint_ok ts cols (ForeignKeyC cs refs _ _ _) =
     (list_all (\<lambda>c. c \<in> set cols) cs \<and> list_all (key_of ts) refs)"

fun apply_ddl :: "ddl \<Rightarrow> string list \<times> db_schema \<Rightarrow> ddl_error + string list \<times> db_schema" where
  "apply_ddl (CreateTable n cols ks) (memo, s) =
     (case create_types (concat (map (\<lambda>c. enum_names (column_type c)) cols)) memo (sch_types s) of
        Inl e \<Rightarrow> Inl e
      | Inr (memo', types) \<Rightarrow>
          (let t = (n, cols, filter emitted ks) in
           if n \<in> set (relation_names s) then Inl (DuplicateName n)
           else if \<not> list_all (constraint_ok (t # sch_tables s) (map column_name cols))
                  (filter emitted ks)
             then Inl (UndefinedReference n)
           else Inr (memo', s\<lparr>sch_tables := t # sch_tables s, sch_types := types\<rparr>)))"
| "apply_ddl (CreateIndex i n cs uniq) (memo, s) =
     (if i \<in> set (relation_names s) then Inl (DuplicateName i)
      else (case map_of (sch_tables s) n of
          None \<Rightarrow> Inl (UndefinedReference n)
        | Some (cols, _) \<Rightarrow>
            if list_all (\<lambda>c. c \<in> set (map column_name cols)) cs
            then Inr (memo, s\<lparr>sch_indexes := (i, n, cs, uniq) # sch_indexes s\<rparr>)
            else Inl (UndefinedReference n)))"
| "apply_ddl (DropIndex i n) (memo, s) =
     (if i \<in> set (map fst (sch_indexes s))
      then Inr (memo, s\<lparr>sch_indexes := filter (\<lambda>x. fst x \<noteq> i) (sch_indexes s)\<rparr>)
      else Inl (UndefinedName i))"
| "apply_ddl (DropTable n) (memo, s) =
     (if n \<notin> set (map fst (sch_tables s)) then Inl (UndefinedName n)
      else if list_ex (\<lambda>t. fst t \<noteq> n \<and> list_ex (refers_to n) (snd (snd t))) (sch_tables s)
        then Inl (DependentObjects n)
      else Inr (memo, s\<lparr>sch_tables := filter (\<lambda>t. fst t \<noteq> n) (sch_tables s),
        sch_indexes := filter (\<lambda>x. fst (snd x) \<noteq> n) (sch_indexes s)\<rparr>))"

fun run_ddl :: "ddl list \<Rightarrow> string list \<times> db_schema \<Rightarrow> ddl_error + string list \<times> db_schema" where
  "run_ddl [] s = Inr s"
| "run_ddl (op # ops) s =
     (case apply_ddl op s of Inl e \<Rightarrow> Inl e | Inr s' \<Rightarrow> run_ddl ops s')"

text \<open>One run of Alembic: it starts with no type created.\<close>

definition run_migration :: "ddl list \<Rightarrow> db_schema \<Rightarrow> ddl_error + db_schema" where
  "run_migration ops s = map_sum id snd (run_ddl ops ([], s))"

section \<open>Undoing operations\<close>

fun undo :: "ddl \<Rightarrow> ddl option" where
  "undo (CreateTable n _ _) = Some (DropTable n)"
| "undo (CreateIndex i n _ _) = Some (DropIndex i n)"
| "undo _ = None"

text \<open>Every index is on a table of the schema and every foreign key refers to one.\<close>

definition wf_schema :: "db_schema \<Rightarrow> bool" where
  "wf_schema s \<longleftrightarrow>
     list_all (\<lambda>x. fst (snd x) \<in> set (map fst (sch_tables s))) (sch_indexes s)
     \<and> (\<forall>t \<in> set (sch_tables s). \<forall>k \<in> set (snd (snd t)). \<forall>n. refers_to n k
          \<longrightarrow> n \<in> set (map fst (sch_tables s)))"

lemma wf_empty_schema [simp]: "wf_schema empty_schema"
  by (simp add: wf_schema_def empty_schema_def)

lemma run_ddl_append:
  "run_ddl (xs @ ys) s = (case run_ddl xs s of Inl e \<Rightarrow> Inl e | Inr s' \<Rightarrow> run_ddl ys s')"
  by (induction xs arbitrary: s) (auto split: sum.splits)

lemma key_of_table: "key_of ts r \<Longrightarrow> fst r \<in> set (map fst ts)"
  by (auto simp: key_of_def split: option.splits dest!: map_of_SomeD intro: rev_image_eqI)

lemma constraint_ok_refers:
  assumes "constraint_ok ts cols k" "refers_to n k"
  shows "n \<in> set (map fst ts)"
  using assms key_of_table by (cases k) (fastforce simp: list_all_iff)+

lemma create_table_ok:
  assumes "apply_ddl (CreateTable n cols ks) (memo, s) = Inr (memo', s')"
  obtains types where
    "s' = s\<lparr>sch_tables := (n, cols, filter emitted ks) # sch_tables s, sch_types := types\<rparr>"
    "n \<notin> set (relation_names s)"
    "\<And>k. k \<in> set ks \<Longrightarrow> emitted k \<Longrightarrow>
       constraint_ok ((n, cols, filter emitted ks) # sch_tables s) (map column_name cols) k"
  using assms by (auto simp: Let_def list_all_iff split: sum.splits if_splits)

lemma create_index_ok:
  assumes "apply_ddl (CreateIndex i n cs uniq) (memo, s) = Inr (memo', s')"
  shows "s' = s\<lparr>sch_indexes := (i, n, cs, uniq) # sch_indexes s\<rparr>"
    and "i \<notin> set (relation_names s)" and "n \<in> set (map fst (sch_tables s))"
  using assms by (auto split: option.splits if_splits dest!: map_of_SomeD intro: rev_image_eqI)

lemma wf_create:
  assumes "apply_ddl op (memo, s) = Inr (memo', s')" "undo op = Some u" "wf_schema s"
  shows "wf_schema s'"
proof (cases op)
  case (CreateTable n cols ks)
  obtain types where s': "s' = s\<lparr>sch_tables := (n, cols, filter emitted ks) # sch_tables s,
      sch_types := types\<rparr>"
    and ok: "\<And>k. k \<in> set ks \<Longrightarrow> emitted k \<Longrightarrow>
      constraint_ok ((n, cols, filter emitted ks) # sch_tables s) (map column_name cols) k"
    using assms(1) create_table_ok unfolding CreateTable by metis
  have "m \<in> set (map fst (sch_tables s'))" if "k \<in> set ks" "emitted k" "refers_to m k" for k m
    using constraint_ok_refers [OF ok [OF that(1,2)] that(3)] by (simp add: s')
  then have "\<forall>k \<in> set (filter emitted ks). \<forall>m. refers_to m k \<longrightarrow> m \<in> set (map fst (sch_tables s'))"
    by auto
  with assms(3) show ?thesis
    by (simp add: wf_schema_def s' list_all_iff)
next
  case (CreateIndex i n cs uniq)
  note ok = create_index_ok [OF assms(1) [unfolded CreateIndex]]
  show ?thesis
    using assms(3) ok(3) by (simp add: wf_schema_def ok(1))
qed (use assms(2) in auto)

text \<open>Undoing the last operation, whatever types have been created since.\<close>

lemma filter_fresh: "n \<notin> fst ` set xs \<Longrightarrow> filter (\<lambda>x. fst x \<noteq> n) xs = xs"
  by (induction xs) auto

lemma filter_unindexed: "\<forall>x \<in> set xs. fst (snd x) \<noteq> n \<Longrightarrow> filter (\<lambda>x. fst (snd x) \<noteq> n) xs = xs"
  by (induction xs) auto

lemma undo_restores:
  assumes "apply_ddl op (memo, s) = Inr (memo', s')" "undo op = Some u" "wf_schema s"
  shows "apply_ddl u (m, s'\<lparr>sch_types := T\<rparr>) = Inr (m, s\<lparr>sch_types := T\<rparr>)"
proof (cases op)
  case (CreateTable n cols ks)
  obtain types where s': "s' = s\<lparr>sch_tables := (n, cols, filter emitted ks) # sch_tables s,
      sch_types := types\<rparr>" and fresh: "n \<notin> set (relation_names s)"
    using assms(1) create_table_ok unfolding CreateTable by metis
  have new: "n \<notin> fst ` set (sch_tables s)"
    using fresh by (auto simp: relation_names_def)
  have unindexed: "\<forall>x \<in> set (sch_indexes s). fst (snd x) \<noteq> n"
    using assms(3) new by (force simp: wf_schema_def list_all_iff)
  have unreferenced: "\<not> list_ex (\<lambda>t. fst t \<noteq> n \<and> list_ex (refers_to n) (snd (snd t))) (sch_tables s')"
    using assms(3) new by (fastforce simp: wf_schema_def s' list_ex_iff)
  have u: "u = DropTable n"
    using assms(2) CreateTable by simp
  show ?thesis
    using unreferenced new by (simp add: u s' filter_fresh filter_unindexed [OF unindexed])
next
  case (CreateIndex i n cs uniq)
  note ok = create_index_ok [OF assms(1) [unfolded CreateIndex]]
  have "i \<notin> fst ` set (sch_indexes s)"
    using ok(2) by (auto simp: relation_names_def)
  then show ?thesis
    using assms(2) CreateIndex by (auto simp: ok(1) filter_fresh)
qed (use assms(2) in auto)

lemma run_undo:
  assumes "run_ddl ops (memo, s) = Inr (memo', s')" "map undo ops = map Some us" "wf_schema s"
  shows "run_ddl (rev us) (m, s'\<lparr>sch_types := T\<rparr>) = Inr (m, s\<lparr>sch_types := T\<rparr>)"
  using assms
proof (induction ops arbitrary: memo s us)
  case Nil
  then show ?case by simp
next
  case (Cons op ops)
  obtain u us' where us: "us = u # us'" "undo op = Some u" "map undo ops = map Some us'"
    using Cons.prems(2) by (cases us) auto
  obtain memo1 s1 where s1: "apply_ddl op (memo, s) = Inr (memo1, s1)"
      "run_ddl ops (memo1, s1) = Inr (memo', s')"
    using Cons.prems(1) by (auto split: sum.splits)
  have "run_ddl (rev us') (m, s'\<lparr>sch_types := T\<rparr>) = Inr (m, s1\<lparr>sch_types := T\<rparr>)"
    using Cons.IH [OF s1(2) us(3)] wf_create [OF s1(1) us(2) Cons.prems(3)] by blast
  then show ?case
    using undo_restores [OF s1(1) us(2) Cons.prems(3)] by (simp add: us(1) run_ddl_append)
qed

section \<open>Runs that cannot fail\<close>

text \<open>
  A list of operations in steps, each creating one table and then indexes on it, runs when the
  names it creates are all different and every foreign key refers to a primary key of an
  earlier table. The checks are the ones a schema of a hundred names can be evaluated with: the
  keys so far are all that is kept of the tables.
\<close>

fun key_column :: "table_constraint \<Rightarrow> string option" where
  "key_column (PrimaryKeyC [c]) = Some c"
| "key_column _ = None"

fun constraint_checked :: "(string \<times> string) list \<Rightarrow> string list \<Rightarrow> table_constraint \<Rightarrow> bool" where
  "constraint_checked keys cols (PrimaryKeyC cs) = (list_all (\<lambda>c. c \<in> set cols) cs)"
| "constraint_checked keys cols (UniqueC cs _) = (list_all (\<lambda>c. c \<in> set cols) cs)"
| "constraint_checked keys cols (ForeignKeyC cs refs _ _ use_alter) =
     (if use_alter then True
      else list_all (\<lambda>c. c \<in> set cols) cs
        \<and> list_all (\<lambda>r. map_of keys (fst r) = Some (snd r)) refs)"

fun index_checked :: "string \<Rightarrow> string list \<Rightarrow> ddl \<Rightarrow> bool" where
  "index_checked n cols (CreateIndex _ m cs _) = (m = n \<and> list_all (\<lambda>c. c \<in> set cols) cs)"
| "index_checked n cols _ = False"

fun step_checked :: "(string \<times> string) list \<Rightarrow> ddl list \<Rightarrow> bool" where
  "step_checked keys (CreateTable n cols ks # ops) =
     (list_all (constraint_checked keys (map column_name cols)) ks
      \<and> list_all (index_checked n (map column_name cols)) ops)"
| "step_checked _ _ = False"

fun step_keys :: "ddl list \<Rightarrow> (string \<times> string) list" where
  "step_keys (CreateTable n _ ks # _) = map (Pair n) (List.map_filter key_column ks)"
| "step_keys _ = []"

fun steps_checked :: "(string \<times> string) list \<Rightarrow> ddl list list \<Rightarrow> bool" where
  "steps_checked keys [] = True"
| "steps_checked keys (ops # rest) =
     (if step_checked keys ops then steps_checked (step_keys ops @ keys) rest else False)"

fun names_of :: "ddl \<Rightarrow> string list" where
  "names_of (CreateTable n _ _) = [n]"
| "names_of (CreateIndex i _ _ _) = [i]"
| "names_of _ = []"

text \<open>Between steps: the keys are keys of tables, and every type is one this run created.\<close>

definition run_invariant :: "(string \<times> string) list \<Rightarrow> string list \<times> db_schema \<Rightarrow> bool" where
  "run_invariant keys ms \<longleftrightarrow>
     (\<forall>n c. map_of keys n = Some c \<longrightarrow> key_of (sch_tables (snd ms)) (n, c))
     \<and> set (sch_types (snd ms)) \<subseteq> set (fst ms)"

lemma create_types_succeeds:
  assumes "set ts \<subseteq> set memo"
  shows "\<exists>memo' ts'. create_types ns memo ts = Inr (memo', ts') \<and> set ts' \<subseteq> set memo'"
  using assms
proof (induction ns arbitrary: memo ts)
  case (Cons n ns)
  show ?case
    using Cons.prems Cons.IH [of ts memo] Cons.IH [of "n # ts" "n # memo"] by auto
qed simp

lemma run_indexes:
  assumes "map_of (sch_tables s) n = Some (cols, ks)"
    and "list_all (index_checked n (map column_name cols)) ops"
    and "distinct (concat (map names_of ops))"
    and "set (concat (map names_of ops)) \<inter> set (relation_names s) = {}"
  shows "\<exists>s'. run_ddl ops (memo, s) = Inr (memo, s') \<and> sch_tables s' = sch_tables s
     \<and> sch_types s' = sch_types s
     \<and> set (relation_names s') = set (relation_names s) \<union> set (concat (map names_of ops))"
  using assms
proof (induction ops arbitrary: s)
  case (Cons op ops)
  obtain i cs uniq where op: "op = CreateIndex i n cs uniq"
    using Cons.prems(2) by (cases op) auto
  let ?s = "s\<lparr>sch_indexes := (i, n, cs, uniq) # sch_indexes s\<rparr>"
  have names: "set (relation_names ?s) = insert i (set (relation_names s))"
    by (simp add: relation_names_def)
  have run1: "apply_ddl op (memo, s) = Inr (memo, ?s)"
    using Cons.prems by (simp add: op)
  have "\<exists>s'. run_ddl ops (memo, ?s) = Inr (memo, s') \<and> sch_tables s' = sch_tables ?s
     \<and> sch_types s' = sch_types ?s
     \<and> set (relation_names s') = set (relation_names ?s) \<union> set (concat (map names_of ops))"
    by (rule Cons.IH) (use Cons.prems names in \<open>auto simp: op\<close>)
  then show ?case
    using run1 names by (auto simp: op)
qed simp

lemma constraint_checked_ok:
  assumes "constraint_checked keys cols k" "emitted k"
    and "\<And>n c. map_of keys n = Some c \<Longrightarrow> key_of ts (n, c)"
    and "fst t \<notin> set (map fst ts)"
  shows "constraint_ok (t # ts) cols k"
proof (cases k)
  case (ForeignKeyC cs refs a b alter)
  have "key_of (t # ts) r" if "r \<in> set refs" for r
  proof -
    have "key_of ts r"
      using assms(1-3) that by (cases r) (auto simp: ForeignKeyC list_all_iff)
    moreover from this have "fst r \<noteq> fst t"
      using assms(4) key_of_table by metis
    ultimately show ?thesis
      by (cases t) (simp add: key_of_def)
  qed
  then show ?thesis
    using assms(1,2) by (simp add: ForeignKeyC list_all_iff)
qed (use assms(1) in simp_all)

lemma key_column_key:
  assumes "map_of (map (Pair n) (List.map_filter key_column ks)) m = Some c"
  shows "m = n" and "list_ex (is_key c) (filter emitted ks)"
proof -
  have "(m, c) \<in> set (map (Pair n) (List.map_filter key_column ks))"
    using assms by (rule map_of_SomeD)
  then obtain k where k: "m = n" "k \<in> set ks" "key_column k = Some c"
    by (auto simp: List.map_filter_def)
  from k(3) have "k = PrimaryKeyC [c]"
    by (cases k rule: key_column.cases) auto
  with k show "m = n" and "list_ex (is_key c) (filter emitted ks)"
    by (auto simp: list_ex_iff intro!: bexI [of _ k])
qed

lemma run_step:
  assumes "step_checked keys ops" "run_invariant keys (memo, s)"
    and "distinct (concat (map names_of ops))"
    and "set (concat (map names_of ops)) \<inter> set (relation_names s) = {}"
  shows "\<exists>memo' s'. run_ddl ops (memo, s) = Inr (memo', s')
     \<and> run_invariant (step_keys ops @ keys) (memo', s')
     \<and> set (relation_names s') = set (relation_names s) \<union> set (concat (map names_of ops))"
proof -
  obtain n cols ks rest where ops: "ops = CreateTable n cols ks # rest"
    using assms(1) by (cases "(keys, ops)" rule: step_checked.cases) auto
  let ?t = "(n, cols, filter emitted ks)"
  obtain memo' types where types:
      "create_types (concat (map (\<lambda>c. enum_names (column_type c)) cols)) memo (sch_types s)
        = Inr (memo', types)" "set types \<subseteq> set memo'"
    using create_types_succeeds [of "sch_types s" memo] assms(2)
    by (metis run_invariant_def fst_conv snd_conv)
  have fresh: "n \<notin> set (relation_names s)"
    using assms(4) by (simp add: ops)
  then have new: "n \<notin> set (map fst (sch_tables s))"
    by (simp add: relation_names_def)
  let ?s = "s\<lparr>sch_tables := ?t # sch_tables s, sch_types := types\<rparr>"
  have "list_all (constraint_ok (?t # sch_tables s) (map column_name cols)) (filter emitted ks)"
    using assms(1,2) new constraint_checked_ok [of keys "map column_name cols" _ "sch_tables s" ?t]
    by (auto simp: list_all_iff ops run_invariant_def)
  then have create: "apply_ddl (CreateTable n cols ks) (memo, s) = Inr (memo', ?s)"
    using types(1) fresh by (simp add: Let_def)
  have names: "set (relation_names ?s) = insert n (set (relation_names s))"
    by (auto simp: relation_names_def)
  have "\<exists>s'. run_ddl rest (memo', ?s) = Inr (memo', s') \<and> sch_tables s' = sch_tables ?s
     \<and> sch_types s' = sch_types ?s
     \<and> set (relation_names s') = set (relation_names ?s) \<union> set (concat (map names_of rest))"
    by (rule run_indexes) (use assms names in \<open>auto simp: ops\<close>)
  then obtain s' where s': "run_ddl rest (memo', ?s) = Inr (memo', s')"
      "sch_tables s' = ?t # sch_tables s" "sch_types s' = types"
      "set (relation_names s') = insert n (set (relation_names s)) \<union> set (concat (map names_of rest))"
    unfolding names by auto
  have "key_of (?t # sch_tables s) (m, c)" if "map_of (step_keys ops @ keys) m = Some c" for m c
  proof (cases "map_of (step_keys ops) m")
    case None
    then have "key_of (sch_tables s) (m, c)"
      using that assms(2) by (simp add: map_add_def run_invariant_def)
    moreover from this have "m \<noteq> n"
      using key_of_table new by fastforce
    ultimately show ?thesis
      by (simp add: key_of_def)
  next
    case (Some c')
    then show ?thesis
      using that key_column_key [of n ks m c] by (simp add: ops map_add_def key_of_def)
  qed
  then show ?thesis
    using create s' types(2) by (auto simp: ops run_invariant_def)
qed

lemma run_steps:
  assumes "steps_checked keys steps" "run_invariant keys (memo, s)"
    and "distinct (concat (map names_of (concat steps)))"
    and "set (concat (map names_of (concat steps))) \<inter> set (relation_names s) = {}"
  shows "\<exists>memo' s'. run_ddl (concat steps) (memo, s) = Inr (memo', s')"
  using assms
proof (induction steps arbitrary: keys memo s)
  case (Cons ops steps)
  have ok: "step_checked keys ops" "steps_checked (step_keys ops @ keys) steps"
    using Cons.prems(1) by (simp_all split: if_splits)
  have split: "concat (map names_of (concat (ops # steps)))
      = concat (map names_of ops) @ concat (map names_of (concat steps))"
    by simp
  note names = Cons.prems(3,4) [unfolded split distinct_append set_append]
  obtain memo' s' where s': "run_ddl ops (memo, s) = Inr (memo', s')"
      "run_invariant (step_keys ops @ keys) (memo', s')"
      "set (relation_names s') = set (relation_names s) \<union> set (concat (map names_of ops))"
    using run_step [OF ok(1) Cons.prems(2)] names by blast
  have "\<exists>memo'' s''. run_ddl (concat steps) (memo', s') = Inr (memo'', s'')"
    by (rule Cons.IH [OF ok(2) s'(2)]) (use names s'(3) in blast)+
  then show ?case
    using s'(1) by (auto simp: run_ddl_append)
qed simp

text \<open>A polynomial hash, to tell a hundred names apart by numbers.\<close>

definition fingerprint :: "string \<Rightarrow> int" where
  "fingerprint s = foldl (\<lambda>h c. (h * 31 + of_char c) mod 1000003) 7 s"

lemma distinct_by_fingerprint: "distinct (map fingerprint xs) \<Longrightarrow> distinct xs"
  by (simp add: distinct_map)

section \<open>The migration\<close>

text \<open>\<open>downgrade\<close> undoes \<open>upgrade\<close>, operation by operation, in the reverse order.\<close>

lemma downgrade_undoes_upgrade: "map undo upgrade = map Some (rev downgrade)"
  by code_simp

lemma downgrade_restores:
  assumes "run_migration upgrade s = Inr s'" "wf_schema s"
  shows "run_migration downgrade s' = Inr (s\<lparr>sch_types := sch_types s'\<rparr>)"
proof -
  obtain memo where "run_ddl upgrade ([], s) = Inr (memo, s')"
    using assms(1) by (auto simp: run_migration_def map_sum_def split: sum.splits)
  then have "run_ddl (rev (rev downgrade)) ([], s'\<lparr>sch_types := sch_types s'\<rparr>)
      = Inr ([], s\<lparr>sch_types := sch_types s'\<rparr>)"
    using run_undo downgrade_undoes_upgrade assms(2) by blast
  then show ?thesis
    by (simp add: run_migration_def)
qed


text \<open>What a run leaves, against what the declarations ask for: the columns as listed, the
  constraints and the indexes as sets.\<close>

type_synonym table_shape = "(string \<times> ddl_column option list) \<times> table_constraint set"

definition declared_shape :: "table_decl list \<Rightarrow> table_decl \<Rightarrow> table_shape" where
  "declared_shape md t = ((tablename t, map (declared_column md) (table_columns t)),
     set (filter emitted (declared_constraints t)))"

definition created_shape :: "ddl_table \<Rightarrow> table_shape" where
  "created_shape t = ((fst t, map Some (fst (snd t))), set (snd (snd t)))"

definition matches_declarations :: "db_schema \<Rightarrow> table_decl list \<Rightarrow> bool" where
  "matches_declarations s md \<longleftrightarrow>
     mset (map created_shape (sch_tables s)) = mset (map (declared_shape md) md)
     \<and> set (sch_indexes s) = set (concat (map declared_indexes md))"

text \<open>The tables and the indexes a list of operations creates, in its order.\<close>

fun table_of :: "ddl \<Rightarrow> ddl_table list" where
  "table_of (CreateTable n cols ks) = [(n, cols, filter emitted ks)]"
| "table_of _ = []"

fun index_of :: "ddl \<Rightarrow> ddl_index list" where
  "index_of (CreateIndex i n cs uniq) = [(i, n, cs, uniq)]"
| "index_of _ = []"

lemma apply_create_accumulates:
  assumes "apply_ddl op (memo, s) = Inr (memo', s')" "undo op \<noteq> None"
  shows "sch_tables s' = rev (table_of op) @ sch_tables s"
    and "sch_indexes s' = rev (index_of op) @ sch_indexes s"
  using assms by (cases op; auto simp: Let_def split: sum.splits if_splits option.splits)+

lemma run_create_accumulates:
  assumes "run_ddl ops (memo, s) = Inr (memo', s')" "None \<notin> set (map undo ops)"
  shows "sch_tables s' = rev (concat (map table_of ops)) @ sch_tables s"
    and "sch_indexes s' = rev (concat (map index_of ops)) @ sch_indexes s"
  using assms
  by (induction ops arbitrary: memo s)
     (force split: sum.splits dest: apply_create_accumulates)+

text \<open>The steps of \<open>upgrade\<close>, one per table, and the declarations in the same order.\<close>

definition upgrade_steps :: "ddl list list" where
  "upgrade_steps =
    [create_email_outbox,
     create_tags,
     create_universities,
     create_faculties,
     create_users,
     create_audit_logs,
     create_catalog_proposal_logs,
     create_catalog_reports,
     create_email_verification_tokens,
     create_faculty_proposals,
     create_moderator_faculty_scopes,
     create_moderator_university_scopes,
     create_notifications,
     create_password_reset_tokens,
     create_refresh_token_sessions,
     create_subjects,
     create_telegram_event_outbox,
     create_telegram_link_sessions,
     create_telegram_links,
     create_university_proposals,
     create_user_preferences,
     create_materials,
     create_moderator_subject_scopes,
     create_subject_proposals,
     create_comments,
     create_material_downloads,
     create_material_files,
     create_material_ratings,
     create_material_reports,
     create_material_review_logs,
     create_material_tags,
     create_saved_materials]"

definition creation_order :: "table_decl list" where
  "creation_order =
    [email_outbox_table,
     tags_table,
     universities_table,
     faculties_table,
     users_table,
     audit_logs_table,
     catalog_proposal_logs_table,
     catalog_reports_table,
     email_verification_tokens_table,
     faculty_proposals_table,
     moderator_faculty_scopes_table,
     moderator_university_scopes_table,
     notifications_table,
     password_reset_tokens_table,
     refresh_token_sessions_table,
     subjects_table,
     telegram_event_outbox_table,
     telegram_link_sessions_table,
     telegram_links_table,
     university_proposals_table,
     user_preferences_table,
     materials_table,
     moderator_subject_scopes_table,
     subject_proposals_table,
     comments_table,
     material_downloads_table,
     material_files_table,
     material_ratings_table,
     material_reports_table,
     material_review_logs_table,
     material_tags_table,
     saved_materials_table]"

lemma upgrade_concat: "upgrade = concat upgrade_steps"
  by (simp add: upgrade_def upgrade_steps_def)

lemma creation_order_mset: "mset creation_order = mset metadata"
  by (simp add: creation_order_def metadata_def ac_simps)

lemmas table_definitions =
  email_outbox_table_def
  tags_table_def
  universities_table_def
  faculties_table_def
  users_table_def
  audit_logs_table_def
  catalog_proposal_logs_table_def
  catalog_reports_table_def
  email_verification_tokens_table_def
  faculty_proposals_table_def
  moderator_faculty_scopes_table_def
  moderator_university_scopes_table_def
  notifications_table_def
  password_reset_tokens_table_def
  refresh_token_sessions_table_def
  subjects_table_def
  telegram_event_outbox_table_def
  telegram_link_sessions_table_def
  telegram_links_table_def
  university_proposals_table_def
  user_preferences_table_def
  materials_table_def
  moderator_subject_scopes_table_def
  subject_proposals_table_def
  comments_table_def
  material_downloads_table_def
  material_files_table_def
  material_ratings_table_def
  material_reports_table_def
  material_review_logs_table_def
  material_tags_table_def
  saved_materials_table_def

lemmas step_definitions =
  create_email_outbox_def
  create_tags_def
  create_universities_def
  create_faculties_def
  create_users_def
  create_audit_logs_def
  create_catalog_proposal_logs_def
  create_catalog_reports_def
  create_email_verification_tokens_def
  create_faculty_proposals_def
  create_moderator_faculty_scopes_def
  create_moderator_university_scopes_def
  create_notifications_def
  create_password_reset_tokens_def
  create_refresh_token_sessions_def
  create_subjects_def
  create_telegram_event_outbox_def
  create_telegram_link_sessions_def
  create_telegram_links_def
  create_university_proposals_def
  create_user_preferences_def
  create_materials_def
  create_moderator_subject_scopes_def
  create_subject_proposals_def
  create_comments_def
  create_material_downloads_def
  create_material_files_def
  create_material_ratings_def
  create_material_reports_def
  create_material_review_logs_def
  create_material_tags_def
  create_saved_materials_def

lemmas enum_definitions =
  enum_userrole_def
  enum_filekind_def
  enum_materialstatus_def
  enum_materialtype_def
  enum_rejectreason_def
  enum_reportstatus_def
  enum_reviewaction_def
  enum_telegrameventtype_def
  enum_telegrameventstatus_def
  enum_proposalentitytype_def
  enum_proposalstatus_def

lemma referenced_type_update [simp]:
  "referenced_type md (fk\<lparr>fk_ondelete := a\<rparr>) = referenced_type md fk"
  "referenced_type md (fk\<lparr>fk_name := b\<rparr>) = referenced_type md fk"
  "referenced_type md (fk\<lparr>fk_use_alter := c\<rparr>) = referenced_type md fk"
  by (simp_all add: referenced_type_def split: option.split)

lemma referenced_ids:
  "referenced_type metadata (foreign_key ''faculties'' ''id'') = Some (StringT 36)"
  "referenced_type metadata (foreign_key ''material_files'' ''id'') = Some (StringT 36)"
  "referenced_type metadata (foreign_key ''materials'' ''id'') = Some (StringT 36)"
  "referenced_type metadata (foreign_key ''subjects'' ''id'') = Some (StringT 36)"
  "referenced_type metadata (foreign_key ''tags'' ''id'') = Some (StringT 36)"
  "referenced_type metadata (foreign_key ''universities'' ''id'') = Some (StringT 36)"
  "referenced_type metadata (foreign_key ''users'' ''id'') = Some (StringT 36)"
  by code_simp+

lemma concat_steps: "concat (map (concat \<circ> map f) xss) = concat (map f (concat xss))"
  by (induction xss) simp_all

lemma upgrade_names_distinct: "distinct (concat (map names_of upgrade))"
proof -
  have "distinct (map fingerprint (concat (map (concat \<circ> map names_of) upgrade_steps)))"
    by code_simp
  then show ?thesis
    unfolding upgrade_concat concat_steps by (rule distinct_by_fingerprint)
qed

lemma upgrade_checked: "steps_checked [] upgrade_steps"
  by code_simp

lemma upgrade_runs: "\<exists>s. run_migration upgrade empty_schema = Inr s"
proof -
  have "\<exists>memo s. run_ddl (concat upgrade_steps) ([], empty_schema) = Inr (memo, s)"
    by (rule run_steps [OF upgrade_checked])
       (use upgrade_names_distinct in
         \<open>auto simp: upgrade_concat run_invariant_def relation_names_def empty_schema_def\<close>)
  then show ?thesis
    by (auto simp: run_migration_def upgrade_concat)
qed

lemma created_columns:
  "map (\<lambda>t. (fst t, map Some (fst (snd t)))) (concat (map (concat \<circ> map table_of) upgrade_steps))
    = map (\<lambda>t. (tablename t, map (declared_column metadata) (table_columns t))) creation_order"
  by (simp add: upgrade_steps_def creation_order_def step_definitions table_definitions
      enum_definitions declared_column_def declared_type_def mapped_column_def fk_column_def
      uuid_primary_key_columns_def timestamp_columns_def referenced_ids)

lemma created_constraints:
  "map (\<lambda>t. set (snd (snd t))) (concat (map (concat \<circ> map table_of) upgrade_steps))
    = map (\<lambda>t. set (filter emitted (declared_constraints t))) creation_order"
  by code_simp

lemma created_indexes:
  "map (set \<circ> concat \<circ> map index_of) upgrade_steps = map (set \<circ> declared_indexes) creation_order"
  by code_simp

lemma map_pair_eq:
  "map f xs = map f' ys \<Longrightarrow> map g xs = map g' ys
    \<Longrightarrow> map (\<lambda>x. (f x, g x)) xs = map (\<lambda>y. (f' y, g' y)) ys"
proof (induction xs arbitrary: ys)
  case (Cons x xs)
  then show ?case by (cases ys) auto
qed simp

lemma created_shapes:
  "map created_shape (concat (map table_of upgrade)) = map (declared_shape metadata) creation_order"
  using map_pair_eq [OF created_columns created_constraints]
  unfolding concat_steps upgrade_concat created_shape_def [abs_def] declared_shape_def [abs_def] .

lemma created_index_set:
  "set (concat (map index_of upgrade)) = set (concat (map declared_indexes metadata))"
proof -
  have "set (concat (map index_of upgrade)) = \<Union> (set (map (set \<circ> concat \<circ> map index_of) upgrade_steps))"
    by (simp add: upgrade_concat)
  also have "\<dots> = \<Union> (set (map (set \<circ> declared_indexes) creation_order))"
    by (simp only: created_indexes)
  also have "\<dots> = set (concat (map declared_indexes metadata))"
    using mset_eq_setD [OF creation_order_mset] by simp
  finally show ?thesis .
qed

lemma upgrade_creates: "None \<notin> set (map undo upgrade)"
  by (simp only: downgrade_undoes_upgrade) auto

lemma upgrade_matches:
  assumes "run_migration upgrade empty_schema = Inr s"
  shows "matches_declarations s metadata"
proof -
  obtain memo where run: "run_ddl upgrade ([], empty_schema) = Inr (memo, s)"
    using assms by (auto simp: run_migration_def map_sum_def split: sum.splits)
  note made = run_create_accumulates [OF run upgrade_creates]
  have "mset (map created_shape (sch_tables s)) = mset (map (declared_shape metadata) metadata)"
    by (simp add: made(1) empty_schema_def rev_map [symmetric] created_shapes creation_order_mset
        del: mset_map) (simp add: creation_order_mset)
  moreover have "set (sch_indexes s) = set (concat (map declared_indexes metadata))"
    by (simp add: made(2) empty_schema_def created_index_set del: set_concat)
  ultimately show ?thesis
    by (simp add: matches_declarations_def)
qed


section \<open>What the migration leaves out\<close>

text \<open>The foreign keys of materials to their cover and primary file are declared, and no table
  of the migrated database has them.\<close>

lemma file_keys_declared: "list_ex (refers_to ''material_files'') (declared_constraints materials_table)"
  by code_simp

lemma file_keys_not_created:
  assumes "run_migration upgrade empty_schema = Inr s" "t \<in> set (sch_tables s)"
  shows "\<not> list_ex (refers_to ''material_files'') (snd (snd t))"
proof -
  obtain memo where run: "run_ddl upgrade ([], empty_schema) = Inr (memo, s)"
    using assms(1) by (auto simp: run_migration_def map_sum_def split: sum.splits)
  have "list_all (\<lambda>t. \<not> list_ex (refers_to ''material_files'') (snd (snd t)))
      (concat (map (concat \<circ> map table_of) upgrade_steps))"
    by code_simp
  then show ?thesis
    using assms(2) run_create_accumulates(1) [OF run upgrade_creates]
    by (auto simp: concat_steps upgrade_concat empty_schema_def list_all_iff)
qed

text \<open>The enum types outlive \<open>downgrade\<close>, so \<open>upgrade\<close> does not run a second time.\<close>

lemma create_types_memo:
  assumes "create_types ns memo ts = Inr (memo', ts')" "set memo \<subseteq> set ts"
  shows "set memo' \<subseteq> set ts'" and "set ns \<union> set memo \<subseteq> set memo'"
  using assms by (induction ns memo ts rule: create_types.induct) (auto split: if_splits)

lemma create_types_existing:
  assumes "create_types ns memo ts = Inr (memo', ts')" "n \<in> set ts" "n \<notin> set memo"
  shows "n \<in> set ts'" and "n \<notin> set memo'" and "n \<notin> set ns"
  using assms by (induction ns memo ts rule: create_types.induct) (auto split: if_splits)

fun types_of :: "ddl \<Rightarrow> string list" where
  "types_of (CreateTable _ cols _) = concat (map (\<lambda>c. enum_names (column_type c)) cols)"
| "types_of _ = []"

lemma apply_types:
  assumes "apply_ddl op (memo, s) = Inr (memo', s')" "undo op \<noteq> None"
  shows "create_types (types_of op) memo (sch_types s) = Inr (memo', sch_types s')"
  using assms by (cases op) (auto simp: Let_def split: sum.splits if_splits option.splits)

lemma run_creates_types:
  assumes "run_ddl ops (memo, s) = Inr (memo', s')" "None \<notin> set (map undo ops)"
    and "set memo \<subseteq> set (sch_types s)"
  shows "set (concat (map types_of ops)) \<union> set memo \<subseteq> set (sch_types s')"
  using assms
proof (induction ops arbitrary: memo s)
  case (Cons op ops)
  obtain memo1 s1 where s1: "apply_ddl op (memo, s) = Inr (memo1, s1)"
      "run_ddl ops (memo1, s1) = Inr (memo', s')"
    using Cons.prems(1) by (auto split: sum.splits)
  have "undo op \<noteq> None"
    using Cons.prems(2) by (cases "undo op") auto
  note new = create_types_memo [OF apply_types [OF s1(1) this] Cons.prems(3)]
  have "set (concat (map types_of ops)) \<union> set memo1 \<subseteq> set (sch_types s')"
    using Cons.IH [OF s1(2) _ new(1)] Cons.prems(2) by simp
  then show ?case
    using new(2) by auto
qed simp

lemma run_needs_new_types:
  assumes "run_ddl ops (memo, s) = Inr (memo', s')" "None \<notin> set (map undo ops)"
    and "n \<in> set (sch_types s)" "n \<notin> set memo"
  shows "n \<notin> set (concat (map types_of ops))"
  using assms
proof (induction ops arbitrary: memo s)
  case (Cons op ops)
  obtain memo1 s1 where s1: "apply_ddl op (memo, s) = Inr (memo1, s1)"
      "run_ddl ops (memo1, s1) = Inr (memo', s')"
    using Cons.prems(1) by (auto split: sum.splits)
  have "undo op \<noteq> None"
    using Cons.prems(2) by (cases "undo op") auto
  note old = create_types_existing [OF apply_types [OF s1(1) this] Cons.prems(3,4)]
  show ?case
    using Cons.IH [OF s1(2) _ old(1,2)] Cons.prems(2) old(3) by simp
qed simp

lemma upgrade_fails_after_downgrade:
  assumes "run_migration upgrade empty_schema = Inr s" "run_migration downgrade s = Inr s'"
  shows "\<exists>e. run_migration upgrade s' = Inl e"
proof (rule ccontr)
  assume "\<nexists>e. run_migration upgrade s' = Inl e"
  then obtain memo2 s2 where again: "run_ddl upgrade ([], s') = Inr (memo2, s2)"
    by (cases "run_ddl upgrade ([], s')") (auto simp: run_migration_def)
  obtain memo where run: "run_ddl upgrade ([], empty_schema) = Inr (memo, s)"
    using assms(1) by (auto simp: run_migration_def map_sum_def split: sum.splits)
  have used: "''userrole'' \<in> set (concat (map types_of upgrade))"
    by (simp add: upgrade_def create_users_def)
  have "sch_types s' = sch_types s"
    using assms(2) downgrade_restores [OF assms(1) wf_empty_schema] by auto
  then have "''userrole'' \<in> set (sch_types s')"
    using run_creates_types [OF run upgrade_creates] used by auto
  then show False
    using run_needs_new_types [OF again upgrade_creates] used by simp
qed

end
