(* ===== verification/Spec2Isabelle.thy ===== *)
theory Spec2Isabelle
  imports AuthFacts TelegramLinkFacts BackupFacts AdminFacts UserFacts Community Tags StaffFacts ResponseFacts
    CacheFacts SeedFacts UserApiFacts TelegramApiFacts FeedbackApi Operations MigrationFacts
begin

text \<open>
  Student Knowledge Hub: a verification library for the backend's own logic.

  The program is a FastAPI backend (\<^verbatim>\<open>src/app\<close>) with two workers (\<^verbatim>\<open>src/scripts\<close>). Students
  register, upload materials and propose catalog entries; moderators decide on both within the
  scope they are given, on the web or through a Telegram bot; administrators manage accounts,
  reports and backups; mail and bot events leave through outbox tables that the workers empty. The
  services keep all their state in the database, in a key-value store for rate limits and
  revocations, in an object storage, and the backups in a directory and a bucket.

  How the state is modelled. \<open>World.world\<close> is the database, one list of rows per table of
  \<^verbatim>\<open>db/models.py\<close>, with the calls to the cache and the objects of the storage. An operation takes
  the world of the start of its transaction and returns a result (\<open>Inl\<close> the exception, \<open>Inr\<close> the
  value) with the world it leaves: a request that raises is rolled back by \<^verbatim>\<open>get_db_session\<close>, so
  its world is that of the last commit. Time, generated identifiers and tokens are arguments
  (\<open>now\<close>, \<open>ids\<close>). What the program only calls is a parameter: hashing, the JWT library, NFKD and
  ILIKE (\<open>Security.externals\<close>), the archive, notebook and PDF readers (\<open>Files.parsers\<close>), the S3
  and Redis clients, the mail and bot servers. Their laws are the assumptions of the locales that
  use them, with reference instances that satisfy them.

  Theories, in the order of the imports.

  \<^item> \<open>Prelude\<close>: results, rows, pages, Python strings and numbers, and the hints the proofs share.
  \<^item> \<open>Schema\<close>, \<open>Config\<close>, \<open>World\<close>: the enums and ORM classes of \<^verbatim>\<open>modules/*/models.py\<close>, the settings
    with their validators (\<^verbatim>\<open>core/config.py\<close>), the database and its lookups by key.
  \<^item> \<open>Security\<close>, \<open>SecurityControls\<close>: \<^verbatim>\<open>core/security.py\<close> and \<^verbatim>\<open>core/security_controls.py\<close>: tokens,
    the key-value store, rate limits, lockout, revocation.
  \<^item> \<open>Outbox\<close>, \<open>EmailOutbox\<close>, \<open>TelegramEvents\<close>: the delivery discipline that both outbox tables
    share, as locales, and their two instances, \<^verbatim>\<open>auth/email_outbox.py\<close> and
    \<^verbatim>\<open>telegram/event_service.py\<close> with \<^verbatim>\<open>telegram/dispatcher.py\<close>.
  \<^item> \<open>Slug\<close>: \<^verbatim>\<open>utils/slug.py\<close>. \<open>Files\<close>, \<open>Storage\<close>: \<^verbatim>\<open>utils/files.py\<close> and
    \<^verbatim>\<open>infrastructure/storage/service.py\<close>, both providers behind one interface.
  \<^item> \<open>Auth\<close>, \<open>AuthFacts\<close>: \<^verbatim>\<open>auth/service.py\<close> and the guards of \<^verbatim>\<open>auth/dependencies.py\<close>.
  \<^item> \<open>Materials\<close>, \<open>Delivery\<close>, \<open>Moderation\<close>, \<open>Lifecycle\<close>, \<open>MaterialFacts\<close>: \<^verbatim>\<open>materials/service.py\<close>,
    \<^verbatim>\<open>materials/repositories.py\<close> and \<^verbatim>\<open>moderation/service.py\<close>; the run relation of all requests
    on materials and its invariants.
  \<^item> \<open>Catalog\<close>, \<open>CatalogProposals\<close>, \<open>CatalogFacts\<close>, \<open>CatalogRuns\<close>: \<^verbatim>\<open>catalog/service.py\<close> and
    \<^verbatim>\<open>catalog_proposals/service.py\<close>, with the constraints and cascades of their tables.
  \<^item> \<open>TelegramLink\<close>, \<open>TelegramLinkFacts\<close>: \<^verbatim>\<open>telegram/service.py\<close>: linking, unlinking and the
    moderation through the bot.
  \<^item> \<open>Backup\<close>, \<open>BackupFacts\<close>: \<^verbatim>\<open>bootstrap/backup_service.py\<close> and \<^verbatim>\<open>bootstrap/backup_scheduler.py\<close> over a
    state of their own, \<open>Backup.host\<close>: the files, the bucket, the database as the tools see it and
    the commands run so far.
  \<^item> \<open>Admin\<close>, \<open>AdminFacts\<close>: \<^verbatim>\<open>admin/service.py\<close> and the listing of \<^verbatim>\<open>users/repository.py\<close>.
  \<^item> \<open>Users\<close>, \<open>UserFacts\<close>: \<^verbatim>\<open>users/service.py\<close>, \<^verbatim>\<open>notifications/service.py\<close> and the avatars of
    \<^verbatim>\<open>users/api.py\<close>. \<open>Community\<close>: \<^verbatim>\<open>community/service.py\<close>. \<open>Tags\<close>: \<^verbatim>\<open>tags/service.py\<close>.
  \<^item> \<open>AuthApi\<close>, \<open>Responses\<close>, \<open>ResponseFacts\<close>, \<open>CatalogApi\<close>, \<open>StaffApi\<close>, \<open>StaffFacts\<close>: the endpoints:
    guard, limiter, service and the answer that \<^verbatim>\<open>utils/serializers.py\<close> builds; all requests of
    administrators and moderators as one type, \<open>StaffApi.staff_request\<close>.
  \<^item> \<open>UserApi\<close>, \<open>UserApiFacts\<close>: \<^verbatim>\<open>users/api.py\<close>, \<^verbatim>\<open>notifications/api.py\<close> and the public catalog; all
    requests of a user about himself as one type, \<open>UserApi.user_request\<close>. \<open>TelegramApi\<close>,
    \<open>TelegramApiFacts\<close>: \<^verbatim>\<open>telegram/internal_api.py\<close> behind the signature of the bot, with all its
    requests as one type, \<open>TelegramApi.bot_command\<close>, and \<^verbatim>\<open>telegram/public_api.py\<close>. \<open>FeedbackApi\<close>:
    the endpoints of ratings, reports, tags and the dashboard, and the answer made of an error.

  \<^item> \<open>Cache\<close>, \<open>CacheFacts\<close>: \<^verbatim>\<open>core/cache.py\<close> over a Redis client, and the requests that read the cache,
    with the cache calls that the services leave in \<open>cache_log\<close> carried out. \<open>Seed\<close>, \<open>SeedFacts\<close>:
    \<^verbatim>\<open>bootstrap/seed_service.py\<close>, the first import of the catalog. \<open>Operations\<close>: start, end and health
    report of \<^verbatim>\<open>main.py\<close> and the engine options of \<^verbatim>\<open>db/session.py\<close>.
  \<^item> \<open>Metadata\<close>, \<open>Migration\<close>, \<open>MigrationFacts\<close>: the tables the ORM classes declare, with their types,
    keys and indexes, the migration \<^verbatim>\<open>db/migrations/versions/19eea0cc3baf_add_tables.py\<close> operation
    by operation, and its runs on a schema: it creates what is declared, and undoing it in
    reverse order empties the database.

  What the lemmas show. Each component has an invariant of its tables (\<open>email_outbox_ok\<close>,
  \<open>events_unique\<close>, \<open>materials_ok\<close>, \<open>catalog_ok\<close>, \<open>links_ok\<close>, \<open>backups_ok\<close>, \<open>tags_ok\<close>, \<open>ratings_ok\<close>), one lemma per operation that keeps it,
  and an inductive run relation over all its operations; the properties about runs are rule
  inductions over those lemmas. The others give the exact behaviour of an operation on every
  branch, the agreement of code that computes the same thing twice, and refinements: both storage
  providers store what the upload rules accept, and the bot does what the web application does.
  Lemmas with small concrete worlds show where the code does not do what it means to.

  Bounds. No definition takes fuel. The loops that are not structural are functions with a
  termination proof: the upload loop takes a chunk off the file in every round, and the search
  for a free slug ends because the numbered slugs differ and only finitely many are taken. The
  worker loops are runs over a list of polls of any length. Moments are integers (microseconds),
  as are the counters of the database.

  Not modelled. Parsing of requests, OpenAPI, CORS, logging, the middleware and the inclusion of the
  routers, which hold no state of the program; \<^verbatim>\<open>db/migrations/env.py\<close>, which connects Alembic to
  the database; the text of e-mails; the widths of text columns; concurrency of transactions, each
  operation being one transaction on its own.
\<close>

end
